(* ===== verification/SeatFlow_Prelude.thy ===== *)
theory SeatFlow_Prelude
  imports Main "HOL-Library.Char_ord" "HOL-Library.List_Lexorder"
begin

text \<open>
  Shared vocabulary of the development: identifiers and instants, the result type of a
  fallible operation, the JavaScript idioms the sources use on arrays, sets and maps, and
  the row store that stands for a PostgreSQL table.

  A table is a list of rows in insertion order. The laws the components use of it are the
  assumptions of the locale \<open>row_store\<close>; the list model discharges them in the
  interpretation \<open>tbl\<close>, and every component proof goes through that interface.
\<close>

section \<open>Names of the model's base types\<close>

text \<open>
  Prisma identifiers are opaque strings; a JavaScript \<open>Date\<close> is its \<open>getTime()\<close>, an
  integer number of milliseconds; amounts are integers of minor units.
\<close>

type_synonym ident = string
type_synonym time = int
type_synonym minor = int

section \<open>Hint collections\<close>

named_theorems row_simps \<open>how the row operations act on each other\<close>
named_theorems decision_defs \<open>the pure decision functions of src/features\<close>
named_theorems store_defs \<open>the table accessors of the stateful services\<close>

section \<open>Fallible operations\<close>

text \<open>
  A thrown error is \<open>Inl\<close>, a returned value \<open>Inr\<close>. \<open>and_then\<close> runs the rest of a body on
  the value of its first part and propagates the error otherwise.
\<close>

definition and_then :: "'e + 'a \<Rightarrow> ('a \<Rightarrow> 'e + 'b) \<Rightarrow> 'e + 'b" where
  "and_then m f = (case m of Inl e \<Rightarrow> Inl e | Inr x \<Rightarrow> f x)"

lemma and_then_simps [simp]:
  "and_then (Inl e) f = Inl e"
  "and_then (Inr x) f = f x"
  by (simp_all add: and_then_def)

lemma and_then_eq_Inr: "and_then m f = Inr y \<longleftrightarrow> (\<exists>x. m = Inr x \<and> f x = Inr y)"
  by (cases m) simp_all

lemma and_then_eq_Inl:
  "and_then m f = Inl e \<longleftrightarrow> m = Inl e \<or> (\<exists>x. m = Inr x \<and> f x = Inl e)"
  by (cases m) simp_all

section \<open>JavaScript idioms\<close>

text \<open>\<open>[...new Set(xs)]\<close> keeps the first occurrence of every value.\<close>

definition js_unique :: "'a list \<Rightarrow> 'a list" where
  "js_unique xs = rev (remdups (rev xs))"

lemma set_js_unique [simp]: "set (js_unique xs) = set xs"
  by (simp add: js_unique_def)

lemma distinct_js_unique [simp]: "distinct (js_unique xs)"
  by (simp add: js_unique_def)

lemma js_unique_distinct: "distinct xs \<Longrightarrow> js_unique xs = xs"
  by (simp add: js_unique_def distinct_remdups_id)

lemma js_unique_Nil_iff [simp]: "js_unique xs = [] \<longleftrightarrow> xs = []"
  by (simp add: js_unique_def)

lemma length_js_unique: "length (js_unique xs) = card (set xs)"
  by (simp add: js_unique_def length_remdups_card_conv)

text \<open>\<open>new Set(values).size !== values.length\<close>.\<close>

definition js_size :: "'a list \<Rightarrow> nat" where
  "js_size xs = length (js_unique xs)"

lemma js_size_eq_length: "js_size xs = length xs \<longleftrightarrow> distinct xs"
  by (simp add: js_size_def length_js_unique card_distinct distinct_card) (metis card_distinct distinct_card)

text \<open>\<open>new Map(entries).get(k)\<close>: the last entry of a key wins.\<close>

definition js_map_get :: "('k \<times> 'v) list \<Rightarrow> 'k \<Rightarrow> 'v option" where
  "js_map_get entries k = map_of (rev entries) k"

lemma js_map_get_Nil [simp]: "js_map_get [] k = None"
  by (simp add: js_map_get_def)

lemma js_map_get_SomeD: "js_map_get es k = Some v \<Longrightarrow> (k, v) \<in> set es"
  by (auto simp: js_map_get_def dest: map_of_SomeD)

lemma js_map_get_None_iff: "js_map_get es k = None \<longleftrightarrow> k \<notin> fst ` set es"
  by (simp add: js_map_get_def map_of_eq_None_iff)

lemma js_map_get_distinct:
  "distinct (map fst es) \<Longrightarrow> js_map_get es k = Some v \<longleftrightarrow> (k, v) \<in> set es"
  using map_of_eq_Some_iff [of "rev es" k v] by (simp add: js_map_get_def rev_map [symmetric])

lemma js_map_get_keyed:
  assumes "distinct (map key xs)"
  shows "js_map_get (map (\<lambda>x. (key x, x)) xs) k = Some x \<longleftrightarrow> x \<in> set xs \<and> key x = k"
proof -
  from assms have "distinct (map fst (map (\<lambda>x. (key x, x)) xs))"
    by (simp add: comp_def)
  then show ?thesis
    by (auto simp: js_map_get_distinct)
qed

text \<open>\<open>Number.isSafeInteger\<close> on an integral value: at most \<open>2^53 - 1\<close> in magnitude.\<close>

definition js_safe_integer :: "int \<Rightarrow> bool" where
  "js_safe_integer n \<longleftrightarrow> - 9007199254740991 \<le> n \<and> n \<le> 9007199254740991"

text \<open>\<open>String.prototype.trim\<close> on the white space of the ASCII range.\<close>

definition js_space :: "char \<Rightarrow> bool" where
  "js_space c \<longleftrightarrow> of_char c \<in> {9, 10, 11, 12, 13, 32 :: nat}"

definition js_trim :: "string \<Rightarrow> string" where
  "js_trim s = rev (dropWhile js_space (rev (dropWhile js_space s)))"

definition char_between :: "char \<Rightarrow> char \<Rightarrow> char \<Rightarrow> bool" where
  "char_between lo hi c \<longleftrightarrow> (of_char lo :: nat) \<le> of_char c \<and> (of_char c :: nat) \<le> of_char hi"

lemma char_between_code [code]: "char_between lo hi c \<longleftrightarrow> lo \<le> c \<and> c \<le> hi"
  by (simp add: char_between_def less_eq_char_def)

definition js_upper_char :: "char \<Rightarrow> char" where
  "js_upper_char c = (if char_between CHR ''a'' CHR ''z'' c then char_of (of_char c - 32 :: nat) else c)"

definition js_upper :: "string \<Rightarrow> string" where
  "js_upper s = map js_upper_char s"

definition js_lower_char :: "char \<Rightarrow> char" where
  "js_lower_char c = (if char_between CHR ''A'' CHR ''Z'' c then char_of (of_char c + 32 :: nat) else c)"

definition js_lower :: "string \<Rightarrow> string" where
  "js_lower s = map js_lower_char s"

text \<open>The character class \<open>[A-Za-z0-9_-]\<close> of the reference and token patterns.\<close>

definition url_safe_char :: "char \<Rightarrow> bool" where
  "url_safe_char c \<longleftrightarrow> char_between CHR ''A'' CHR ''Z'' c \<or> char_between CHR ''a'' CHR ''z'' c
     \<or> char_between CHR ''0'' CHR ''9'' c \<or> c = CHR ''_'' \<or> c = CHR ''-''"

section \<open>Decimal numerals\<close>

text \<open>\<open>String(n)\<close> of a non-negative integer and \<open>Number(s)\<close> of a string of digits.\<close>

definition digit_char :: "nat \<Rightarrow> char" where
  "digit_char d = char_of (48 + d)"

definition is_digit :: "char \<Rightarrow> bool" where
  "is_digit c \<longleftrightarrow> char_between CHR ''0'' CHR ''9'' c"

definition digit_value :: "char \<Rightarrow> nat" where
  "digit_value c = of_char c - 48"

fun decimal :: "nat \<Rightarrow> string" where
  "decimal n = (if n < 10 then [digit_char n] else decimal (n div 10) @ [digit_char (n mod 10)])"

declare decimal.simps [simp del]

definition decimal_value :: "string \<Rightarrow> nat" where
  "decimal_value s = foldl (\<lambda>v c. v * 10 + digit_value c) 0 s"

lemma digit_value_char [simp]: "d < 10 \<Longrightarrow> digit_value (digit_char d) = d"
  by (simp add: digit_value_def digit_char_def)

lemma is_digit_char [simp]: "d < 10 \<Longrightarrow> is_digit (digit_char d)"
  by (simp add: is_digit_def char_between_def digit_char_def)

lemma decimal_value_simps [simp]:
  "decimal_value [] = 0"
  "decimal_value (s @ [c]) = decimal_value s * 10 + digit_value c"
  by (simp_all add: decimal_value_def)

lemma decimal_value_append:
  "decimal_value (s @ t) = decimal_value s * 10 ^ length t + decimal_value t"
proof (induction t rule: rev_induct)
  case (snoc c t)
  then show ?case
    by (simp flip: append_assoc add: algebra_simps)
qed simp

lemma decimal_value_decimal [simp]: "decimal_value (decimal n) = n"
proof (induction n rule: decimal.induct)
  case (1 n)
  then show ?case
    using decimal_value_simps(2) [of "[]"] by (subst decimal.simps) auto
qed

lemma decimal_digits: "\<forall>c\<in>set (decimal n). is_digit c"
proof (induction n rule: decimal.induct)
  case (1 n)
  then show ?case by (subst decimal.simps) auto
qed

lemma decimal_not_Nil [simp]: "decimal n \<noteq> []"
  by (subst decimal.simps) simp

lemma decimal_inj: "decimal m = decimal n \<longleftrightarrow> m = n"
  by (metis decimal_value_decimal)

lemma not_digit_space: "is_digit c \<Longrightarrow> \<not> js_space c"
  by (auto simp: is_digit_def char_between_def js_space_def)

lemma js_trim_id:
  assumes "s = [] \<or> (\<not> js_space (hd s) \<and> \<not> js_space (last s))"
  shows "js_trim s = s"
proof (cases "s = []")
  case False
  with assms have "dropWhile js_space s = s" "dropWhile js_space (rev s) = rev s"
    by (metis dropWhile_eq_self_iff, metis dropWhile_eq_self_iff hd_rev)
  then show ?thesis by (simp add: js_trim_def)
qed (simp add: js_trim_def)

text \<open>
  A JavaScript number seen through \<open>Number.isInteger\<close>: an integral value or one that is
  not (a fraction, an infinity, \<open>NaN\<close>).
\<close>

datatype js_number = Integral int | NonIntegral

section \<open>Generic lemmas on lists\<close>

lemma sum_list_nonneg_int: "(\<And>x. x \<in> set xs \<Longrightarrow> 0 \<le> (f x :: int)) \<Longrightarrow> 0 \<le> sum_list (map f xs)"
  by (induction xs) (simp_all add: add_nonneg_nonneg)

lemma sum_list_filter_split:
  "sum_list (map f xs) = sum_list (map f (filter P xs)) + (sum_list (map f (filter (Not \<circ> P) xs)) :: int)"
  by (induction xs) simp_all

lemma sum_list_filter_le:
  "(\<And>x. x \<in> set xs \<Longrightarrow> 0 \<le> (f x :: int)) \<Longrightarrow> sum_list (map f (filter P xs)) \<le> sum_list (map f xs)"
  by (induction xs) (auto intro: add_mono add_increasing)

lemma length_filter_eq_iff: "length (filter P xs) = length xs \<longleftrightarrow> (\<forall>x\<in>set xs. P x)"
  by (metis filter_id_conv length_filter_less less_irrefl)

lemma filter_empty_iff: "filter P xs = [] \<longleftrightarrow> (\<forall>x\<in>set xs. \<not> P x)"
  by (simp add: filter_empty_conv)

section \<open>Tables\<close>

text \<open>
  The Prisma client calls the services make of one table: \<open>findUnique\<close> and \<open>findFirst\<close>
  (the first row that matches), \<open>findMany\<close> and \<open>SELECT\<close>, \<open>updateMany\<close> (every row that
  matches is rewritten, the others are untouched), \<open>create\<close>, and \<open>createMany\<close> with
  \<open>skipDuplicates\<close> on a unique key (nothing is written when the key exists).
\<close>

locale row_store =
  fixes rows :: "'t \<Rightarrow> 'r list"
    and find_row :: "('r \<Rightarrow> bool) \<Rightarrow> 't \<Rightarrow> 'r option"
    and select_rows :: "('r \<Rightarrow> bool) \<Rightarrow> 't \<Rightarrow> 'r list"
    and update_rows :: "('r \<Rightarrow> bool) \<Rightarrow> ('r \<Rightarrow> 'r) \<Rightarrow> 't \<Rightarrow> 't"
    and insert_row :: "'r \<Rightarrow> 't \<Rightarrow> 't"
  assumes rows_find: "find_row P t = List.find P (rows t)"
    and rows_select: "select_rows P t = filter P (rows t)"
    and rows_update: "rows (update_rows P f t) = map (\<lambda>r. if P r then f r else r) (rows t)"
    and rows_insert: "rows (insert_row r t) = rows t @ [r]"
begin

lemma find_SomeD: "find_row P t = Some r \<Longrightarrow> r \<in> set (rows t) \<and> P r"
  by (auto simp: rows_find find_Some_iff)

lemma find_None_iff: "find_row P t = None \<longleftrightarrow> (\<forall>r\<in>set (rows t). \<not> P r)"
  by (auto simp: rows_find List.find_None_iff)

lemma find_keyed:
  assumes "distinct (map key (rows t))"
  shows "find_row (\<lambda>r. key r = k) t = Some r \<longleftrightarrow> r \<in> set (rows t) \<and> key r = k"
proof
  assume "r \<in> set (rows t) \<and> key r = k"
  then have "find_row (\<lambda>r. key r = k) t \<noteq> None"
    by (auto simp: find_None_iff)
  then obtain r' where r': "find_row (\<lambda>r. key r = k) t = Some r'" by blast
  from find_SomeD [OF r'] \<open>r \<in> set (rows t) \<and> key r = k\<close> assms have "r' = r"
    by (auto simp: distinct_map dest: inj_onD)
  with r' show "find_row (\<lambda>r. key r = k) t = Some r" by simp
qed (use find_SomeD in auto)

lemma mem_update:
  "r' \<in> set (rows (update_rows P f t)) \<longleftrightarrow>
     (\<exists>r\<in>set (rows t). r' = (if P r then f r else r))"
  by (auto simp: rows_update)

lemma all_update:
  "(\<forall>r\<in>set (rows (update_rows P f t)). I r) \<longleftrightarrow>
     (\<forall>r\<in>set (rows t). if P r then I (f r) else I r)"
  by (auto simp: rows_update)

lemma all_insert:
  "(\<forall>r\<in>set (rows (insert_row n t)). I r) \<longleftrightarrow> (\<forall>r\<in>set (rows t). I r) \<and> I n"
  by (auto simp: rows_insert)

lemma keys_update:
  assumes "\<And>r. r \<in> set (rows t) \<Longrightarrow> P r \<Longrightarrow> key (f r) = key r"
  shows "map key (rows (update_rows P f t)) = map key (rows t)"
  using assms by (auto simp: rows_update)

lemma distinct_insert:
  "distinct (map key (rows (insert_row n t))) \<longleftrightarrow>
     distinct (map key (rows t)) \<and> key n \<notin> key ` set (rows t)"
  by (auto simp: rows_insert)

lemma update_none: "(\<And>r. r \<in> set (rows t) \<Longrightarrow> \<not> P r) \<Longrightarrow> rows (update_rows P f t) = rows t"
  by (simp add: rows_update map_idI)

lemma select_update_frame:
  assumes "\<And>r. r \<in> set (rows t) \<Longrightarrow> P r \<Longrightarrow> \<not> Q r \<and> \<not> Q (f r)"
  shows "select_rows Q (update_rows P f t) = select_rows Q t"
proof -
  have "filter Q (map (\<lambda>r. if P r then f r else r) rs) = filter Q rs"
    if "set rs \<subseteq> set (rows t)" for rs
    using that assms by (induction rs) auto
  then show ?thesis by (simp add: rows_select rows_update)
qed

end

definition find_row :: "('r \<Rightarrow> bool) \<Rightarrow> 'r list \<Rightarrow> 'r option" where
  "find_row P t = List.find P t"

definition select_rows :: "('r \<Rightarrow> bool) \<Rightarrow> 'r list \<Rightarrow> 'r list" where
  "select_rows P t = filter P t"

definition update_rows :: "('r \<Rightarrow> bool) \<Rightarrow> ('r \<Rightarrow> 'r) \<Rightarrow> 'r list \<Rightarrow> 'r list" where
  "update_rows P f t = map (\<lambda>r. if P r then f r else r) t"

definition insert_row :: "'r \<Rightarrow> 'r list \<Rightarrow> 'r list" where
  "insert_row r t = t @ [r]"

interpretation tbl: row_store "\<lambda>t. t" find_row select_rows update_rows insert_row
  by unfold_locales (simp_all add: find_row_def select_rows_def update_rows_def insert_row_def)

text \<open>A unique index: the row store with an insertion that a present key turns away.\<close>

locale unique_store = row_store rows find_row select_rows update_rows insert_row
  for rows :: "'t \<Rightarrow> 'r list" and find_row select_rows update_rows insert_row +
  fixes has_key :: "('r \<Rightarrow> 'k) \<Rightarrow> 'k \<Rightarrow> 't \<Rightarrow> bool"
    and insert_skip :: "('r \<Rightarrow> 'k) \<Rightarrow> 'r \<Rightarrow> 't \<Rightarrow> 't"
  assumes has_key_iff: "has_key key k t \<longleftrightarrow> k \<in> key ` set (rows t)"
    and insert_skip_rows:
      "rows (insert_skip key r t) = (if has_key key (key r) t then rows t else rows (insert_row r t))"
begin

lemma skip_present: "has_key key (key r) t \<Longrightarrow> rows (insert_skip key r t) = rows t"
  by (simp add: insert_skip_rows)

lemma skip_idempotent:
  "key r' = key r \<Longrightarrow> rows (insert_skip key r' (insert_skip key r t)) = rows (insert_skip key r t)"
  by (auto simp: insert_skip_rows has_key_iff rows_insert)

lemma skip_distinct:
  "distinct (map key (rows t)) \<Longrightarrow> distinct (map key (rows (insert_skip key r t)))"
  by (auto simp: insert_skip_rows has_key_iff distinct_insert)

lemma skip_mem: "set (rows t) \<subseteq> set (rows (insert_skip key r t))"
  by (auto simp: insert_skip_rows rows_insert)

lemma skip_has: "has_key key (key r) (insert_skip key r t)"
  by (auto simp: has_key_iff insert_skip_rows rows_insert)

lemma skip_prefix: "\<exists>zs. rows (insert_skip key r t) = rows t @ zs"
  by (auto simp: insert_skip_rows rows_insert)

end

definition has_key :: "('r \<Rightarrow> 'k) \<Rightarrow> 'k \<Rightarrow> 'r list \<Rightarrow> bool" where
  "has_key key k t \<longleftrightarrow> k \<in> set (map key t)"

definition insert_skip :: "('r \<Rightarrow> 'k) \<Rightarrow> 'r \<Rightarrow> 'r list \<Rightarrow> 'r list" where
  "insert_skip key r t = (if has_key key (key r) t then t else insert_row r t)"

interpretation uniq: unique_store "\<lambda>t. t" find_row select_rows update_rows insert_row
    has_key insert_skip
  by unfold_locales (auto simp: has_key_def insert_skip_def insert_row_def)

lemmas row_defs = find_row_def select_rows_def update_rows_def insert_row_def

declare tbl.mem_update [row_simps] tbl.all_update [row_simps] tbl.all_insert [row_simps]
  tbl.distinct_insert [row_simps]

end
