(* ===== verification/Domain.thy ===== *)
theory Domain
  imports SeatFlow_Prelude
begin

text \<open>
  The persistent data model of prisma/schema.prisma: its enumerations as datatypes with
  the schema's own constructors (always written qualified, \<open>SeatHoldStatus.ACTIVE\<close>), the
  models the services read and write as records (every column a modelled operation reads
  or writes; row bookkeeping such as \<open>updatedAt\<close> is left out), and the database as one
  record of tables. A nullable column is an \<open>option\<close>, a \<open>DateTime\<close> its milliseconds.
\<close>

section \<open>Enumerations\<close>

datatype SpaceType =
    CINEMA | THEATRE | CONCERT_HALL | STADIUM | ARENA | GENERAL

datatype EventCategory =
    CONCERT | CINEMA | THEATRE | SPORT | OTHER

datatype VenueAccessGrantStatus =
    ACTIVE | REVOKED

datatype NotificationOutboxStatus =
    PENDING | PROCESSED | DEAD_LETTER

datatype NotificationProviderName =
    LOCAL_FILE | EXTERNAL | RESEND

datatype NotificationDeliveryStatus =
    SUCCEEDED | RETRYABLE_FAILURE | PERMANENT_FAILURE | TIMEOUT

datatype TicketDownloadGrantPurpose =
    BOOKING_PDF

datatype Currency =
    AZN | EUR | GBP | USD

datatype EventStatus =
    DRAFT | PUBLISHED | CANCELLED | ARCHIVED

datatype EventSessionStatus =
    DRAFT | SCHEDULED | ON_SALE | SALES_PAUSED | CANCELLED | COMPLETED

datatype SeatType =
    STANDARD | ACCESSIBLE | COMPANION | PREMIUM

datatype SeatState =
    ACTIVE | BLOCKED

datatype SeatMapStatus =
    DRAFT | PUBLISHED | ARCHIVED

datatype SpaceStatus =
    DRAFT | ACTIVE | ARCHIVED

datatype VenueStatus =
    DRAFT | ACTIVE | ARCHIVED

datatype MembershipRole =
    OWNER | ADMIN | MEMBER

datatype PlatformRole =
    USER | ADMIN

datatype OrganizationKind =
    ORGANIZER | VENUE_OPERATOR

datatype SeatInventoryState =
    AVAILABLE | HELD | BOOKED

datatype SeatHoldStatus =
    ACTIVE | RELEASED | EXPIRED | CONVERTED

datatype InventoryEventType =
    INVENTORY_MATERIALIZED | HOLD_CREATED | HOLD_RELEASED | HOLD_EXPIRED
    | SESSION_CANCELLED | CHECKOUT_CREATED | PAYMENT_INTENT_CREATED | PAYMENT_SUCCEEDED
    | PAYMENT_FAILED | INVENTORY_BOOKED | BOOKING_CONFIRMED | PAYMENT_REQUIRES_REVIEW

datatype CheckoutOrderStatus =
    PENDING | PAYMENT_PENDING | PAID | FULFILLED | FAILED | CANCELLED | EXPIRED
    | PAID_UNFULFILLED | REQUIRES_REVIEW

datatype PaymentProviderName =
    LOCAL_SIGNED | EXTERNAL | STRIPE

datatype PaymentAttemptStatus =
    CREATED | PENDING | SUCCEEDED | FAILED | CANCELLED | REQUIRES_REVIEW

datatype PaymentWebhookSignatureStatus =
    VERIFIED | INVALID

datatype PaymentWebhookProcessingStatus =
    RECEIVED | PROCESSED | REQUIRES_REVIEW | FAILED

datatype PaymentWebhookEventCategory =
    PAYMENT | REFUND | DISPUTE

datatype RefundStatus =
    REQUESTED | SUBMITTING | PROCESSING | SUCCEEDED | FAILED | CANCELLED
    | REQUIRES_REVIEW

datatype RefundReasonCode =
    CUSTOMER_REQUEST | EVENT_CANCELLED | SESSION_RESCHEDULED | DUPLICATE_PAYMENT
    | GOODWILL | OPERATIONAL_ERROR | DISPUTE_RESOLUTION | FRAUD_REVIEW

datatype RefundScope =
    FULL_BOOKING | SELECTED_SEATS | FIXED_AMOUNT

datatype RefundInitiator =
    CUSTOMER | ORGANIZER | PLATFORM_ADMIN | SYSTEM

datatype RefundAttemptStatus =
    STARTED | SUCCEEDED | FAILED | TIMEOUT

datatype DisputeStatus =
    OPEN | NEEDS_RESPONSE | UNDER_REVIEW | WON | LOST | CLOSED | REQUIRES_REVIEW

datatype DisputeReasonCategory =
    FRAUDULENT | PRODUCT_NOT_RECEIVED | DUPLICATE | CREDIT_NOT_PROCESSED
    | SUBSCRIPTION_CANCELED | GENERAL | UNRECOGNIZED

datatype DisputeOutcome =
    WON | LOST | WITHDRAWN | UNRESOLVED

datatype LedgerEntryType =
    PAYMENT_AUTHORIZED | PAYMENT_CAPTURED | PAYMENT_FAILED | REFUND_REQUESTED
    | REFUND_PROCESSING | REFUND_SUCCEEDED | REFUND_FAILED | REFUND_CANCELLED
    | DISPUTE_OPENED | DISPUTE_UPDATED | DISPUTE_WON | DISPUTE_LOST
    | CHARGEBACK_RECORDED | MANUAL_ADJUSTMENT_REQUESTED

datatype LedgerDirection =
    CREDIT | DEBIT

datatype FinancialReviewState =
    NONE | REFUND_REVIEW | DISPUTE_REVIEW | CHARGEBACK_REVIEW | DIVERGENCE_REVIEW

datatype FinancialOutboxEventType =
    REFUND_REQUESTED | REFUND_SUBMITTED | REFUND_PROCESSING | REFUND_SUCCEEDED
    | REFUND_FAILED | REFUND_REQUIRES_REVIEW | DISPUTE_OPENED | DISPUTE_UPDATED
    | DISPUTE_WON | DISPUTE_LOST | CHARGEBACK_RECORDED | TICKET_REVOCATION_REQUESTED
    | FINANCIAL_RECONCILIATION_REQUIRED

datatype BookingStatus =
    CONFIRMED | REFUNDED

datatype TicketStatus =
    ACTIVE | REVOKED | USED

datatype TicketCredentialStatus =
    ACTIVE | REVOKED | REPLACED | USED

datatype TicketRedemptionOutcome =
    ACCEPTED | ALREADY_USED | REVOKED | INVALID | WRONG_SESSION | TOO_EARLY | TOO_LATE
    | SESSION_CANCELLED | UNAUTHORIZED_SCANNER

datatype TicketIssuanceRequestStatus =
    PENDING | COMPLETED | DEAD_LETTER

datatype TicketAuditAction =
    ISSUED | CREDENTIAL_ROTATED | REVOKED

datatype NotificationType =
    BOOKING_TICKETS_READY | CREDENTIAL_ROTATED | TICKET_REVOKED | REFUND_REQUESTED
    | REFUND_SUCCEEDED | REFUND_FAILED | REFUND_REQUIRES_REVIEW | DISPUTE_OPENED

section \<open>Models\<close>

record SeatLabels =
  lbl_seatLabel :: string
  lbl_rowLabel :: string
  lbl_sectionName :: string
  lbl_sectionCode :: string
  lbl_tierName :: string
  lbl_tierCode :: string

record Event =
  ev_id :: ident
  ev_title :: string
  ev_slug :: string
  ev_publicSlug :: string
  ev_shortDescription :: string
  ev_description :: string
  ev_category :: EventCategory
  ev_imagePath :: "string option"
  ev_status :: EventStatus
  ev_preArchiveStatus :: "EventStatus option"
  ev_publishedAt :: "time option"
  ev_cancelledAt :: "time option"
  ev_archivedAt :: "time option"
  ev_organizerOrganizationId :: ident

record EventSession =
  ses_id :: ident
  ses_eventId :: ident
  ses_venueId :: ident
  ses_spaceId :: ident
  ses_seatMapId :: ident
  ses_status :: EventSessionStatus
  ses_startAt :: time
  ses_endAt :: time
  ses_salesStartAt :: time
  ses_salesEndAt :: time
  ses_publishedAt :: "time option"
  ses_cancelledAt :: "time option"
  ses_venueOrganizationId :: ident

record SessionSeatInventory =
  inv_id :: ident
  inv_sessionId :: ident
  inv_seatId :: ident
  inv_sectionId :: ident
  inv_priceTierId :: ident
  inv_priceMinor :: minor
  inv_currency :: Currency
  inv_state :: SeatInventoryState
  inv_currentHoldId :: "ident option"
  inv_holdExpiresAt :: "time option"
  inv_labels :: SeatLabels

record SeatHold =
  hold_id :: ident
  hold_publicToken :: string
  hold_sessionId :: ident
  hold_userId :: ident
  hold_status :: SeatHoldStatus
  hold_idempotencyKey :: string
  hold_expiresAt :: time
  hold_releasedAt :: "time option"
  hold_expiredAt :: "time option"
  hold_convertedAt :: "time option"

record SeatHoldItem =
  hitem_holdId :: ident
  hitem_inventoryId :: ident
  hitem_priceMinor :: minor
  hitem_currency :: Currency

record CheckoutOrder =
  ord_id :: ident
  ord_publicReference :: string
  ord_userId :: ident
  ord_organizationId :: ident
  ord_eventId :: ident
  ord_sessionId :: ident
  ord_sourceHoldId :: ident
  ord_status :: CheckoutOrderStatus
  ord_currency :: Currency
  ord_subtotalMinor :: minor
  ord_totalMinor :: minor
  ord_idempotencyKey :: string
  ord_checkoutExpiresAt :: time
  ord_paidAt :: "time option"
  ord_fulfilledAt :: "time option"
  ord_failedAt :: "time option"
  ord_expiredAt :: "time option"
  ord_safeFailureCode :: "string option"
  ord_version :: int
  ord_financialReviewState :: FinancialReviewState

record CheckoutOrderItem =
  oitem_orderId :: ident
  oitem_inventoryId :: ident
  oitem_seatId :: ident
  oitem_sectionId :: ident
  oitem_priceTierId :: ident
  oitem_labels :: SeatLabels
  oitem_priceMinor :: minor
  oitem_currency :: Currency

record PaymentAttempt =
  pay_id :: ident
  pay_orderId :: ident
  pay_provider :: PaymentProviderName
  pay_providerIntentId :: "string option"
  pay_providerIdempotencyKey :: string
  pay_status :: PaymentAttemptStatus
  pay_amountMinor :: minor
  pay_currency :: Currency
  pay_lastProviderStatus :: "string option"
  pay_safeFailureCode :: "string option"
  pay_succeededAt :: "time option"
  pay_failedAt :: "time option"
  pay_cancelledAt :: "time option"
  pay_refundedMinor :: minor
  pay_inFlightRefundMinor :: minor

record PaymentWebhookEvent =
  wh_id :: ident
  wh_provider :: PaymentProviderName
  wh_providerEventId :: string
  wh_eventType :: string
  wh_eventCategory :: PaymentWebhookEventCategory
  wh_providerIntentId :: string
  wh_paymentAttemptId :: "ident option"
  wh_normalizedStatus :: "PaymentAttemptStatus option"
  wh_normalizedRefundStatus :: "RefundStatus option"
  wh_normalizedDisputeStatus :: "DisputeStatus option"
  wh_providerRefundId :: "string option"
  wh_providerDisputeId :: "string option"
  wh_refundId :: "ident option"
  wh_disputeId :: "ident option"
  wh_amountMinor :: minor
  wh_currency :: Currency
  wh_signatureStatus :: PaymentWebhookSignatureStatus
  wh_processingStatus :: PaymentWebhookProcessingStatus
  wh_receivedAt :: time
  wh_processedAt :: "time option"
  wh_providerOccurredAt :: "time option"
  wh_attemptCount :: int
  wh_safeProcessingError :: "string option"

record Booking =
  bk_id :: ident
  bk_publicReference :: string
  bk_orderId :: ident
  bk_userId :: ident
  bk_organizationId :: ident
  bk_eventId :: ident
  bk_sessionId :: ident
  bk_status :: BookingStatus
  bk_currency :: Currency
  bk_totalMinor :: minor
  bk_confirmedAt :: time
  bk_refundedAt :: "time option"
  bk_financialReviewState :: FinancialReviewState

record BookingSeat =
  bseat_id :: ident
  bseat_bookingId :: ident
  bseat_inventoryId :: ident
  bseat_sessionId :: ident
  bseat_seatId :: ident
  bseat_sectionId :: ident
  bseat_priceTierId :: ident
  bseat_labels :: SeatLabels
  bseat_priceMinor :: minor
  bseat_currency :: Currency

record Refund =
  ref_id :: ident
  ref_publicReference :: string
  ref_orderId :: ident
  ref_paymentAttemptId :: ident
  ref_bookingId :: ident
  ref_requestedByUserId :: "ident option"
  ref_approvedByUserId :: "ident option"
  ref_initiator :: RefundInitiator
  ref_status :: RefundStatus
  ref_reasonCode :: RefundReasonCode
  ref_scope :: RefundScope
  ref_requestedAmountMinor :: minor
  ref_currency :: Currency
  ref_provider :: PaymentProviderName
  ref_providerRefundId :: "string option"
  ref_providerIdempotencyKey :: string
  ref_requestedAt :: time
  ref_submittedAt :: "time option"
  ref_succeededAt :: "time option"
  ref_failedAt :: "time option"
  ref_cancelledAt :: "time option"
  ref_reviewRequiredAt :: "time option"
  ref_safeFailureCode :: "string option"
  ref_version :: int

record RefundSeat =
  rseat_refundId :: ident
  rseat_bookingSeatId :: ident
  rseat_priceMinor :: minor
  rseat_currency :: Currency

record RefundAttempt =
  ratt_refundId :: ident
  ratt_attemptNumber :: nat
  ratt_provider :: PaymentProviderName
  ratt_status :: RefundAttemptStatus
  ratt_idempotencyKey :: string
  ratt_startedAt :: time
  ratt_completedAt :: "time option"
  ratt_providerRequestReference :: "string option"
  ratt_safeFailureCode :: "string option"

record PaymentDispute =
  dsp_id :: ident
  dsp_publicReference :: string
  dsp_paymentAttemptId :: ident
  dsp_orderId :: ident
  dsp_bookingId :: "ident option"
  dsp_provider :: PaymentProviderName
  dsp_providerDisputeId :: string
  dsp_status :: DisputeStatus
  dsp_reasonCategory :: DisputeReasonCategory
  dsp_disputedAmountMinor :: minor
  dsp_currency :: Currency
  dsp_openedAt :: time
  dsp_evidenceDueAt :: "time option"
  dsp_closedAt :: "time option"
  dsp_outcome :: "DisputeOutcome option"
  dsp_safeProviderStatus :: "string option"
  dsp_version :: int

record PaymentDisputeEvent =
  dev_disputeId :: ident
  dev_providerEventId :: string
  dev_eventType :: string
  dev_previousStatus :: "DisputeStatus option"
  dev_newStatus :: DisputeStatus
  dev_effectiveAt :: time
  dev_note :: "string option"

record FinancialLedgerEntry =
  led_entryType :: LedgerEntryType
  led_direction :: LedgerDirection
  led_amountMinor :: minor
  led_currency :: Currency
  led_orderId :: ident
  led_paymentAttemptId :: ident
  led_bookingId :: "ident option"
  led_refundId :: "ident option"
  led_disputeId :: "ident option"
  led_provider :: PaymentProviderName
  led_providerReferenceHash :: "string option"
  led_effectiveAt :: time
  led_idempotencyKey :: string

record FinancialOutbox =
  fin_eventType :: FinancialOutboxEventType
  fin_aggregateId :: "ident option"
  fin_orderId :: "ident option"
  fin_refundId :: "ident option"
  fin_disputeId :: "ident option"
  fin_bookingId :: "ident option"
  fin_deduplicationKey :: string
  fin_availableAt :: time

record Ticket =
  tk_id :: ident
  tk_publicReference :: string
  tk_bookingId :: ident
  tk_bookingSeatId :: ident
  tk_userId :: ident
  tk_organizationId :: ident
  tk_eventId :: ident
  tk_sessionId :: ident
  tk_status :: TicketStatus
  tk_issuedAt :: time
  tk_revokedAt :: "time option"
  tk_revocationReason :: "string option"
  tk_revokedByUserId :: "ident option"
  tk_lastCredentialRotationAt :: "time option"

record TicketCredential =
  cred_id :: ident
  cred_ticketId :: ident
  cred_version :: int
  cred_credentialHash :: string
  cred_status :: TicketCredentialStatus
  cred_issuedAt :: time
  cred_revokedAt :: "time option"
  cred_replacedAt :: "time option"
  cred_usedAt :: "time option"
  cred_replacementCredentialId :: "ident option"

record TicketRedemptionEvent =
  red_ticketId :: "ident option"
  red_ticketCredentialId :: "ident option"
  red_organizationId :: ident
  red_eventId :: ident
  red_sessionId :: ident
  red_scannerUserId :: ident
  red_outcome :: TicketRedemptionOutcome
  red_scannedAt :: time
  red_scannerIdentifier :: "string option"
  red_rejectionReason :: "TicketRedemptionOutcome option"
  red_idempotencyKey :: "string option"

record TicketIssuanceRequest =
  iss_id :: ident
  iss_bookingId :: ident
  iss_status :: TicketIssuanceRequestStatus
  iss_availableAt :: time
  iss_attemptCount :: int
  iss_processedAt :: "time option"
  iss_lastError :: "string option"
  iss_deadLetterAt :: "time option"
  iss_createdAt :: time

record TicketAuditEvent =
  aud_ticketId :: ident
  aud_actorUserId :: "ident option"
  aud_action :: TicketAuditAction
  aud_safeReason :: "string option"
  aud_createdAt :: time

record NotificationOutbox =
  ntf_id :: ident
  ntf_notificationType :: NotificationType
  ntf_recipientUserId :: ident
  ntf_bookingId :: "ident option"
  ntf_ticketId :: "ident option"
  ntf_deduplicationKey :: string
  ntf_status :: NotificationOutboxStatus
  ntf_availableAt :: time
  ntf_attemptCount :: int
  ntf_processedAt :: "time option"
  ntf_lastError :: "string option"
  ntf_deadLetterAt :: "time option"
  ntf_createdAt :: time

record NotificationDeliveryAttempt =
  dlv_notificationOutboxId :: ident
  dlv_provider :: NotificationProviderName
  dlv_providerMessageId :: "string option"
  dlv_status :: NotificationDeliveryStatus
  dlv_attemptNumber :: int
  dlv_startedAt :: time
  dlv_completedAt :: "time option"
  dlv_safeErrorCode :: "string option"

record TicketDownloadGrant =
  gr_id :: ident
  gr_bookingId :: ident
  gr_userId :: ident
  gr_tokenHash :: string
  gr_purpose :: TicketDownloadGrantPurpose
  gr_expiresAt :: time
  gr_usedAt :: "time option"
  gr_revokedAt :: "time option"
  gr_createdAt :: time

record InventoryEventOutbox =
  iev_eventType :: InventoryEventType
  iev_sessionId :: ident
  iev_aggregateId :: "ident option"
  iev_deduplicationKey :: string
  iev_createdAt :: time
  iev_availableAt :: time
  iev_attemptCount :: int
  iev_processedAt :: "time option"
  iev_lastError :: "string option"
  iev_deadLetterAt :: "time option"

record Membership =
  mem_userId :: ident
  mem_organizationId :: ident
  mem_role :: MembershipRole

record User =
  usr_id :: ident
  usr_platformRole :: PlatformRole

section \<open>The catalogue\<close>

text \<open>Organizations, venues, seat maps and prices: what events are made of before anything is sold.\<close>

record Organization =
  org_id :: ident
  org_name :: string
  org_slug :: string
  org_kind :: OrganizationKind

record Venue =
  ven_id :: ident
  ven_organizationId :: ident
  ven_name :: string
  ven_slug :: string
  ven_description :: "string option"
  ven_addressLine1 :: string
  ven_addressLine2 :: "string option"
  ven_city :: string
  ven_countryCode :: string
  ven_postalCode :: "string option"
  ven_timeZone :: string
  ven_status :: VenueStatus
  ven_archivedAt :: "time option"

record Space =
  spc_id :: ident
  spc_venueId :: ident
  spc_name :: string
  spc_slug :: string
  spc_description :: "string option"
  spc_type :: SpaceType
  spc_status :: SpaceStatus
  spc_archivedAt :: "time option"

record SeatMap =
  map_id :: ident
  map_spaceId :: ident
  map_sourceSeatMapId :: "ident option"
  map_name :: string
  map_version :: int
  map_status :: SeatMapStatus
  map_publishedAt :: "time option"

record SeatSection =
  sec_id :: ident
  sec_seatMapId :: ident
  sec_name :: string
  sec_code :: string
  sec_displayOrder :: int

record SeatRow =
  row_id :: ident
  row_sectionId :: ident
  row_label :: string
  row_displayOrder :: int

record Seat =
  seat_id :: ident
  seat_rowId :: ident
  seat_label :: string
  seat_displayOrder :: int
  seat_x :: int
  seat_y :: int
  seat_type :: SeatType
  seat_state :: SeatState

record VenueAccessGrant =
  acc_id :: ident
  acc_organizerOrganizationId :: ident
  acc_operatorOrganizationId :: ident
  acc_venueId :: ident
  acc_status :: VenueAccessGrantStatus
  acc_grantedByUserId :: "ident option"
  acc_revokedByUserId :: "ident option"
  acc_revokedAt :: "time option"

record SessionPriceTier =
  tier_id :: ident
  tier_sessionId :: ident
  tier_name :: string
  tier_code :: string
  tier_priceMinor :: minor
  tier_currency :: Currency
  tier_displayOrder :: int
  tier_description :: "string option"

record SessionSectionPricing =
  spr_sessionId :: ident
  spr_sectionId :: ident
  spr_priceTierId :: ident

record catalogue =
  cat_organizations :: "Organization list"
  cat_venues :: "Venue list"
  cat_spaces :: "Space list"
  cat_seatMaps :: "SeatMap list"
  cat_sections :: "SeatSection list"
  cat_rows :: "SeatRow list"
  cat_seats :: "Seat list"
  cat_access :: "VenueAccessGrant list"
  cat_tiers :: "SessionPriceTier list"
  cat_pricing :: "SessionSectionPricing list"

section \<open>The database\<close>

text \<open>The tables of the catalogue are one component, all others are a component each.\<close>

record database =
  db_catalogue :: catalogue
  db_users :: "User list"
  db_memberships :: "Membership list"
  db_events :: "Event list"
  db_sessions :: "EventSession list"
  db_inventory :: "SessionSeatInventory list"
  db_holds :: "SeatHold list"
  db_holdItems :: "SeatHoldItem list"
  db_orders :: "CheckoutOrder list"
  db_orderItems :: "CheckoutOrderItem list"
  db_attempts :: "PaymentAttempt list"
  db_webhooks :: "PaymentWebhookEvent list"
  db_bookings :: "Booking list"
  db_bookingSeats :: "BookingSeat list"
  db_refunds :: "Refund list"
  db_refundSeats :: "RefundSeat list"
  db_refundAttempts :: "RefundAttempt list"
  db_disputes :: "PaymentDispute list"
  db_disputeEvents :: "PaymentDisputeEvent list"
  db_ledger :: "FinancialLedgerEntry list"
  db_finOutbox :: "FinancialOutbox list"
  db_tickets :: "Ticket list"
  db_credentials :: "TicketCredential list"
  db_redemptions :: "TicketRedemptionEvent list"
  db_issuance :: "TicketIssuanceRequest list"
  db_audit :: "TicketAuditEvent list"
  db_notifications :: "NotificationOutbox list"
  db_deliveries :: "NotificationDeliveryAttempt list"
  db_grants :: "TicketDownloadGrant list"
  db_invOutbox :: "InventoryEventOutbox list"

definition empty_database :: database where
  "empty_database = \<lparr>
     db_catalogue = \<lparr>cat_organizations = [], cat_venues = [], cat_spaces = [], cat_seatMaps = [], cat_sections = [],
       cat_rows = [], cat_seats = [], cat_access = [], cat_tiers = [], cat_pricing = []\<rparr>,
     db_users = [],
     db_memberships = [],
     db_events = [],
     db_sessions = [],
     db_inventory = [],
     db_holds = [],
     db_holdItems = [],
     db_orders = [],
     db_orderItems = [],
     db_attempts = [],
     db_webhooks = [],
     db_bookings = [],
     db_bookingSeats = [],
     db_refunds = [],
     db_refundSeats = [],
     db_refundAttempts = [],
     db_disputes = [],
     db_disputeEvents = [],
     db_ledger = [],
     db_finOutbox = [],
     db_tickets = [],
     db_credentials = [],
     db_redemptions = [],
     db_issuance = [],
     db_audit = [],
     db_notifications = [],
     db_deliveries = [],
     db_grants = [],
     db_invOutbox = []\<rparr>"

text \<open>
  The error a service throws, by the class the source throws: the name of the error
  class and its safe code or message key.
\<close>

datatype service_error =
    HoldAuthenticationError | HoldAuthorizationError | HoldConflictError | HoldValidationError
  | HoldEligibilityError string | InventoryError
  | CheckoutAuthenticationError | CheckoutAuthorizationError | CheckoutConflictError
  | CheckoutValidationError | CheckoutEligibilityError string | CheckoutTotalError
  | PaymentProviderError | PaymentWebhookSignatureError | PaymentWebhookValidationError
  | PaymentWebhookPayloadTooLargeError | RecordNotFound | UniqueViolation string
  | ConstraintViolation string | FulfillmentInventoryConflict
  | RefundAuthorizationError string | RefundEligibilityError string | LedgerEntryRejected
  | TicketError string | TransactionConflict | PlainError string
  | EventAuthorizationError | EventConflictError string | EventLifecycleError string
  | EventValidationError "string list" | VenueManagementAuthorizationError
  | VenueManagementConflictError string | VenueManagementLifecycleError string
  | SeatMapValidationError "string list" | ZodError

end
