(* ===== verification/Money.thy ===== *)
theory Money
  imports Domain
begin

text \<open>
  Amounts of money: src/features/events/money.ts (parsing and printing of prices in minor
  units), src/features/checkout/totals.ts and src/features/holds/totals.ts (the totals an
  order and a hold are charged). Amounts are JavaScript numbers in the source; the tests
  \<open>Number.isInteger\<close> and \<open>Number.isSafeInteger\<close> are kept, on \<open>js_number\<close>.
\<close>

section \<open>Prices\<close>

datatype price_error = PRICE_FORMAT | PRICE_RANGE

fun CURRENCY_MINOR_UNITS :: "Currency \<Rightarrow> nat" where
  "CURRENCY_MINOR_UNITS AZN = 2"
| "CURRENCY_MINOR_UNITS EUR = 2"
| "CURRENCY_MINOR_UNITS GBP = 2"
| "CURRENCY_MINOR_UNITS USD = 2"

lemma minor_units_two [simp]: "CURRENCY_MINOR_UNITS c = 2"
  by (cases c) simp_all

text \<open>The pattern \<open>^\d+(?:\.\d{1,digits})?$\<close>.\<close>

definition price_pattern :: "nat \<Rightarrow> string \<Rightarrow> bool" where
  "price_pattern digits s =
     (let rest = dropWhile is_digit s
      in takeWhile is_digit s \<noteq> [] \<and>
         (rest = [] \<or>
          (hd rest = CHR ''.'' \<and> tl rest \<noteq> [] \<and> length (tl rest) \<le> digits \<and>
           list_all is_digit (tl rest))))"

definition parsePriceToMinorUnits :: "string \<Rightarrow> Currency \<Rightarrow> price_error + minor" where
  "parsePriceToMinorUnits value currency =
     (let normalized = js_trim value;
          digits = CURRENCY_MINOR_UNITS currency
      in if \<not> price_pattern digits normalized then Inl PRICE_FORMAT
         else
           let whole = takeWhile (\<lambda>c. c \<noteq> CHR ''.'') normalized;
               fraction = drop 1 (dropWhile (\<lambda>c. c \<noteq> CHR ''.'') normalized);
               padded = fraction @ replicate (digits - length fraction) CHR ''0'';
               amount = int (decimal_value whole * 10 ^ digits + decimal_value padded)
           in if \<not> js_safe_integer amount \<or> 2147483647 < amount then Inl PRICE_RANGE
              else Inr amount)"

text \<open>\<open>(amountMinor / 10 ** digits).toFixed(digits)\<close>, exact for amounts of the 32-bit range.\<close>

definition minorUnitsToInputValue :: "minor \<Rightarrow> Currency \<Rightarrow> string" where
  "minorUnitsToInputValue amountMinor currency =
     (let digits = CURRENCY_MINOR_UNITS currency;
          n = nat \<bar>amountMinor\<bar>;
          frac = decimal (n mod 10 ^ digits)
      in (if amountMinor < 0 then ''-'' else '''') @ decimal (n div 10 ^ digits) @ ''.'' @
         replicate (digits - length frac) CHR ''0'' @ frac)"

lemma parse_range:
  assumes "parsePriceToMinorUnits s c = Inr n"
  shows "0 \<le> n \<and> n \<le> 2147483647"
  using assms by (auto simp: parsePriceToMinorUnits_def Let_def split: if_splits)

lemma dot_not_digit: "\<not> is_digit CHR ''.''"
  by (simp add: is_digit_def char_between_def)

lemma split_at_dot:
  assumes "\<forall>c\<in>set w. is_digit c"
  shows "takeWhile is_digit (w @ CHR ''.'' # f) = w"
    "dropWhile is_digit (w @ CHR ''.'' # f) = CHR ''.'' # f"
    "takeWhile (\<lambda>c. c \<noteq> CHR ''.'') (w @ CHR ''.'' # f) = w"
    "dropWhile (\<lambda>c. c \<noteq> CHR ''.'') (w @ CHR ''.'' # f) = CHR ''.'' # f"
proof -
  have "\<forall>c\<in>set w. c \<noteq> CHR ''.''" using assms dot_not_digit by auto
  then show "takeWhile (\<lambda>c. c \<noteq> CHR ''.'') (w @ CHR ''.'' # f) = w"
    "dropWhile (\<lambda>c. c \<noteq> CHR ''.'') (w @ CHR ''.'' # f) = CHR ''.'' # f"
    by (auto simp: takeWhile_append2 dropWhile_append2)
qed (use assms dot_not_digit in \<open>auto simp: takeWhile_append2 dropWhile_append2\<close>)

lemma parse_whole_fraction:
  assumes "w \<noteq> []" "\<forall>c\<in>set w. is_digit c" "length f = 2" "\<forall>c\<in>set f. is_digit c"
    and bound: "decimal_value w * 100 + decimal_value f \<le> 2147483647"
  shows "parsePriceToMinorUnits (w @ ''.'' @ f) c
           = Inr (int (decimal_value w * 100 + decimal_value f))"
proof -
  have f: "f \<noteq> []" using assms by auto
  have "js_trim (w @ ''.'' @ f) = w @ ''.'' @ f"
    using assms f by (intro js_trim_id) (auto simp: not_digit_space)
  moreover have "price_pattern 2 (w @ ''.'' @ f)"
    using assms f by (simp add: price_pattern_def split_at_dot list_all_iff)
  ultimately show ?thesis
    using assms bound by (simp add: parsePriceToMinorUnits_def split_at_dot js_safe_integer_def)
qed

lemma digit_char_0: "digit_char 0 = CHR ''0''"
  by code_simp

lemma two_digits:
  assumes "n < 100"
  shows "replicate (2 - length (decimal n)) CHR ''0'' @ decimal n = [digit_char (n div 10), digit_char (n mod 10)]"
proof (cases "n < 10")
  case True
  then show ?thesis
    by (subst (1 2) decimal.simps) (simp add: digit_char_0)
next
  case False
  with assms have "n div 10 < 10" by auto
  with False show ?thesis by (subst (1 2) decimal.simps, simp, subst (1 2) decimal.simps, simp)
qed

text \<open>C30: \<open>parsePriceToMinorUnits\<close> reads back what \<open>minorUnitsToInputValue\<close> prints, over the whole range of prices.\<close>

lemma price_round_trip:
  assumes "0 \<le> n" "n \<le> 2147483647"
  shows "parsePriceToMinorUnits (minorUnitsToInputValue n c) c = Inr n"
proof -
  let ?m = "nat n"
  let ?f = "[digit_char (?m mod 100 div 10), digit_char (?m mod 100 mod 10)]"
  have "minorUnitsToInputValue n c = decimal (?m div 100) @ ''.'' @ ?f"
    using assms two_digits [of "?m mod 100"] by (simp add: minorUnitsToInputValue_def Let_def)
  moreover have "decimal_value ?f = ?m mod 100"
    using decimal_value_simps(2) [of "[digit_char (?m mod 100 div 10)]"]
      decimal_value_simps(2) [of "[]"] by simp
  moreover have "?m mod 100 div 10 < 10" "?m div 100 * 100 + ?m mod 100 = ?m" "?m \<le> 2147483647"
    using assms by auto
  ultimately show ?thesis
    using parse_whole_fraction [of "decimal (?m div 100)" ?f c] assms decimal_digits
    by simp
qed

lemma price_round_trip_witness:
  "parsePriceToMinorUnits (minorUnitsToInputValue 2147483647 EUR) EUR = Inr 2147483647"
  using price_round_trip [of 2147483647 EUR] by simp

section \<open>Order totals\<close>

record CheckoutPricedItem =
  cpi_priceMinor :: js_number
  cpi_currency :: Currency

record CheckoutTotal =
  ct_subtotalMinor :: minor
  ct_totalMinor :: minor
  ct_currency :: Currency
  ct_seatCount :: nat

datatype total_error = NO_SEATS | MIXED_CURRENCIES | BAD_PRICE | TOTAL_OUT_OF_RANGE

text \<open>The loop of \<open>calculateCheckoutTotal\<close>, its accumulator \<open>totalMinor\<close> first.\<close>

fun checkout_total_loop :: "Currency \<Rightarrow> minor \<Rightarrow> CheckoutPricedItem list \<Rightarrow> total_error + minor" where
  "checkout_total_loop currency totalMinor [] = Inr totalMinor"
| "checkout_total_loop currency totalMinor (item # items) =
     (if cpi_currency item \<noteq> currency then Inl MIXED_CURRENCIES
      else case cpi_priceMinor item of
             NonIntegral \<Rightarrow> Inl BAD_PRICE
           | Integral price \<Rightarrow>
               if \<not> js_safe_integer price \<or> price < 0 then Inl BAD_PRICE
               else if \<not> js_safe_integer (totalMinor + price) \<or> 2147483647 < totalMinor + price
                    then Inl TOTAL_OUT_OF_RANGE
               else checkout_total_loop currency (totalMinor + price) items)"

definition calculateCheckoutTotal :: "CheckoutPricedItem list \<Rightarrow> total_error + CheckoutTotal" where
  "calculateCheckoutTotal items =
     (case items of
        [] \<Rightarrow> Inl NO_SEATS
      | first # _ \<Rightarrow>
          and_then (checkout_total_loop (cpi_currency first) 0 items)
            (\<lambda>total. Inr \<lparr>ct_subtotalMinor = total, ct_totalMinor = total,
                          ct_currency = cpi_currency first, ct_seatCount = length items\<rparr>))"

text \<open>The loop of \<open>calculateHoldTotal\<close>: integral non-negative prices, no ceiling.\<close>

fun hold_total_loop :: "Currency \<Rightarrow> minor \<Rightarrow> CheckoutPricedItem list \<Rightarrow> total_error + minor" where
  "hold_total_loop currency totalMinor [] = Inr totalMinor"
| "hold_total_loop currency totalMinor (item # items) =
     (if cpi_currency item \<noteq> currency then Inl MIXED_CURRENCIES
      else case cpi_priceMinor item of
             NonIntegral \<Rightarrow> Inl BAD_PRICE
           | Integral price \<Rightarrow>
               if price < 0 then Inl BAD_PRICE
               else hold_total_loop currency (totalMinor + price) items)"

record HoldTotal =
  ht_totalMinor :: minor
  ht_currency :: Currency
  ht_seatCount :: nat

definition calculateHoldTotal :: "CheckoutPricedItem list \<Rightarrow> total_error + HoldTotal" where
  "calculateHoldTotal items =
     (case items of
        [] \<Rightarrow> Inl NO_SEATS
      | first # _ \<Rightarrow>
          and_then (hold_total_loop (cpi_currency first) 0 items)
            (\<lambda>total. Inr \<lparr>ht_totalMinor = total, ht_currency = cpi_currency first,
                          ht_seatCount = length items\<rparr>))"

text \<open>What a list of items must be to be charged, and what it is charged.\<close>

definition well_priced :: "Currency \<Rightarrow> CheckoutPricedItem \<Rightarrow> bool" where
  "well_priced currency item \<longleftrightarrow> cpi_currency item = currency \<and>
     (case cpi_priceMinor item of Integral p \<Rightarrow> 0 \<le> p | NonIntegral \<Rightarrow> False)"

fun item_price :: "js_number \<Rightarrow> minor" where
  "item_price (Integral p) = p"
| "item_price NonIntegral = 0"

definition items_total :: "CheckoutPricedItem list \<Rightarrow> minor" where
  "items_total items = sum_list (map (item_price \<circ> cpi_priceMinor) items)"

lemma items_total_simps [simp]:
  "items_total [] = 0"
  "items_total (item # items) = item_price (cpi_priceMinor item) + items_total items"
  by (simp_all add: items_total_def)

lemma well_priced_price: "well_priced c item \<Longrightarrow> 0 \<le> item_price (cpi_priceMinor item)"
  by (cases "cpi_priceMinor item") (simp_all add: well_priced_def)

lemma items_total_nonneg: "list_all (well_priced c) items \<Longrightarrow> 0 \<le> items_total items"
  by (induction items) (auto intro: add_nonneg_nonneg well_priced_price)

lemma hold_total_loop_Inr:
  "hold_total_loop c acc items = Inr t \<longleftrightarrow>
     list_all (well_priced c) items \<and> t = acc + items_total items"
proof (induction items arbitrary: acc)
  case (Cons item items)
  show ?case
    by (cases "cpi_priceMinor item") (auto simp: well_priced_def Cons.IH)
qed auto

lemma checkout_total_loop_Inr:
  assumes "0 \<le> acc" "acc \<le> 2147483647"
  shows "checkout_total_loop c acc items = Inr t \<longleftrightarrow>
     list_all (well_priced c) items \<and> t = acc + items_total items \<and> t \<le> 2147483647"
  using assms
proof (induction items arbitrary: acc)
  case (Cons item items)
  show ?case
  proof (cases "well_priced c item")
    case True
    then obtain p where p: "cpi_priceMinor item = Integral p" "0 \<le> p" "cpi_currency item = c"
      by (cases "cpi_priceMinor item") (auto simp: well_priced_def)
    show ?thesis
    proof (cases "acc + p \<le> 2147483647")
      case True
      then have "checkout_total_loop c acc (item # items) = checkout_total_loop c (acc + p) items"
        using p Cons.prems by (simp add: js_safe_integer_def)
      with Cons.IH [of "acc + p"] Cons.prems p True \<open>well_priced c item\<close> show ?thesis
        by (simp add: add.assoc)
    next
      case False
      then have "\<exists>e. checkout_total_loop c acc (item # items) = Inl e"
        using p by (simp add: js_safe_integer_def)
      moreover have "2147483647 < acc + items_total (item # items)"
        if "list_all (well_priced c) items"
        using items_total_nonneg [OF that] False p by simp
      ultimately show ?thesis by auto
    qed
  next
    case False
    then show ?thesis
      by (cases "cpi_priceMinor item") (auto simp: well_priced_def)
  qed
qed auto

text \<open>\<open>calculateCheckoutTotal\<close> accepts exactly the non-empty, single-currency lists of
  non-negative integral prices whose sum fits a 32-bit column, and charges that sum.\<close>

lemma checkout_total_iff:
  "calculateCheckoutTotal items = Inr t \<longleftrightarrow>
     items \<noteq> [] \<and> list_all (well_priced (cpi_currency (hd items))) items \<and>
     items_total items \<le> 2147483647 \<and>
     t = \<lparr>ct_subtotalMinor = items_total items, ct_totalMinor = items_total items,
          ct_currency = cpi_currency (hd items), ct_seatCount = length items\<rparr>"
proof (cases items)
  case (Cons first rest)
  have "calculateCheckoutTotal items = Inr t \<longleftrightarrow>
      (\<exists>n. checkout_total_loop (cpi_currency first) 0 items = Inr n \<and>
         t = \<lparr>ct_subtotalMinor = n, ct_totalMinor = n, ct_currency = cpi_currency first,
              ct_seatCount = length items\<rparr>)"
    using Cons by (auto simp: calculateCheckoutTotal_def and_then_eq_Inr)
  also have "\<dots> \<longleftrightarrow> list_all (well_priced (cpi_currency first)) items \<and>
      items_total items \<le> 2147483647 \<and>
      t = \<lparr>ct_subtotalMinor = items_total items, ct_totalMinor = items_total items,
           ct_currency = cpi_currency first, ct_seatCount = length items\<rparr>"
    using checkout_total_loop_Inr [of 0 "cpi_currency first" items] by (auto simp only: add_0)
  finally show ?thesis using Cons by simp
qed (simp add: calculateCheckoutTotal_def)

lemma hold_total_Inr:
  "calculateHoldTotal items = Inr t \<longleftrightarrow>
     items \<noteq> [] \<and> list_all (well_priced (cpi_currency (hd items))) items \<and>
     t = \<lparr>ht_totalMinor = items_total items, ht_currency = cpi_currency (hd items),
          ht_seatCount = length items\<rparr>"
proof (cases items)
  case (Cons first rest)
  have "calculateHoldTotal items = Inr t \<longleftrightarrow>
      (\<exists>n. hold_total_loop (cpi_currency first) 0 items = Inr n \<and>
         t = \<lparr>ht_totalMinor = n, ht_currency = cpi_currency first, ht_seatCount = length items\<rparr>)"
    using Cons by (auto simp: calculateHoldTotal_def and_then_eq_Inr)
  also have "\<dots> \<longleftrightarrow> list_all (well_priced (cpi_currency first)) items \<and>
      t = \<lparr>ht_totalMinor = items_total items, ht_currency = cpi_currency first,
           ht_seatCount = length items\<rparr>"
    by (auto simp only: hold_total_loop_Inr add_0)
  finally show ?thesis using Cons by simp
qed (simp add: calculateHoldTotal_def)

text \<open>C29: The customer pays at checkout exactly what the hold displayed: a list of items is accepted with
  a total precisely when the hold's calculation accepts it with the same total, currency and
  number of seats and that total fits the 32-bit column.\<close>

theorem checkout_charges_the_hold:
  "calculateCheckoutTotal items = Inr t \<longleftrightarrow>
     calculateHoldTotal items = Inr \<lparr>ht_totalMinor = ct_totalMinor t, ht_currency = ct_currency t,
       ht_seatCount = ct_seatCount t\<rparr>
     \<and> ct_totalMinor t \<le> 2147483647 \<and> ct_subtotalMinor t = ct_totalMinor t"
  unfolding checkout_total_iff hold_total_Inr
  by (cases t) auto

end
