(* ===== verification/Ledger.thy ===== *)
theory Ledger
  imports Domain
begin

text \<open>
  The financial ledger: src/features/ledger/entries.ts (drafts, directions, the settled
  balance and its divergence test) and src/server/payments/ledger-service.ts (the
  append-only writes of ledger entries and of the financial outbox). SHA-256 is the
  parameter \<open>sha256_hex\<close>; the random public reference of an entry is not modelled.
\<close>

section \<open>Entries\<close>

fun DIRECTION_BY_ENTRY_TYPE :: "LedgerEntryType \<Rightarrow> LedgerDirection" where
  "DIRECTION_BY_ENTRY_TYPE LedgerEntryType.PAYMENT_AUTHORIZED = CREDIT"
| "DIRECTION_BY_ENTRY_TYPE LedgerEntryType.PAYMENT_CAPTURED = CREDIT"
| "DIRECTION_BY_ENTRY_TYPE LedgerEntryType.PAYMENT_FAILED = DEBIT"
| "DIRECTION_BY_ENTRY_TYPE LedgerEntryType.REFUND_REQUESTED = DEBIT"
| "DIRECTION_BY_ENTRY_TYPE LedgerEntryType.REFUND_PROCESSING = DEBIT"
| "DIRECTION_BY_ENTRY_TYPE LedgerEntryType.REFUND_SUCCEEDED = DEBIT"
| "DIRECTION_BY_ENTRY_TYPE LedgerEntryType.REFUND_FAILED = CREDIT"
| "DIRECTION_BY_ENTRY_TYPE LedgerEntryType.REFUND_CANCELLED = CREDIT"
| "DIRECTION_BY_ENTRY_TYPE LedgerEntryType.DISPUTE_OPENED = DEBIT"
| "DIRECTION_BY_ENTRY_TYPE LedgerEntryType.DISPUTE_UPDATED = DEBIT"
| "DIRECTION_BY_ENTRY_TYPE LedgerEntryType.DISPUTE_WON = CREDIT"
| "DIRECTION_BY_ENTRY_TYPE LedgerEntryType.DISPUTE_LOST = DEBIT"
| "DIRECTION_BY_ENTRY_TYPE LedgerEntryType.CHARGEBACK_RECORDED = DEBIT"
| "DIRECTION_BY_ENTRY_TYPE LedgerEntryType.MANUAL_ADJUSTMENT_REQUESTED = DEBIT"

definition directionForEntryType :: "LedgerEntryType \<Rightarrow> LedgerDirection" where
  "directionForEntryType entryType = DIRECTION_BY_ENTRY_TYPE entryType"

definition isSettlingEntryType :: "LedgerEntryType \<Rightarrow> bool" where
  "isSettlingEntryType entryType =
     List.member [LedgerEntryType.PAYMENT_CAPTURED, LedgerEntryType.REFUND_SUCCEEDED,
                  LedgerEntryType.DISPUTE_LOST, LedgerEntryType.CHARGEBACK_RECORDED] entryType"

definition hashProviderReference :: "(string \<Rightarrow> string) \<Rightarrow> string \<Rightarrow> string" where
  "hashProviderReference sha256_hex reference = sha256_hex (''seatflow-ledger-reference:'' @ reference)"

fun entry_type_name :: "LedgerEntryType \<Rightarrow> string" where
  "entry_type_name LedgerEntryType.PAYMENT_AUTHORIZED = ''PAYMENT_AUTHORIZED''"
| "entry_type_name LedgerEntryType.PAYMENT_CAPTURED = ''PAYMENT_CAPTURED''"
| "entry_type_name LedgerEntryType.PAYMENT_FAILED = ''PAYMENT_FAILED''"
| "entry_type_name LedgerEntryType.REFUND_REQUESTED = ''REFUND_REQUESTED''"
| "entry_type_name LedgerEntryType.REFUND_PROCESSING = ''REFUND_PROCESSING''"
| "entry_type_name LedgerEntryType.REFUND_SUCCEEDED = ''REFUND_SUCCEEDED''"
| "entry_type_name LedgerEntryType.REFUND_FAILED = ''REFUND_FAILED''"
| "entry_type_name LedgerEntryType.REFUND_CANCELLED = ''REFUND_CANCELLED''"
| "entry_type_name LedgerEntryType.DISPUTE_OPENED = ''DISPUTE_OPENED''"
| "entry_type_name LedgerEntryType.DISPUTE_UPDATED = ''DISPUTE_UPDATED''"
| "entry_type_name LedgerEntryType.DISPUTE_WON = ''DISPUTE_WON''"
| "entry_type_name LedgerEntryType.DISPUTE_LOST = ''DISPUTE_LOST''"
| "entry_type_name LedgerEntryType.CHARGEBACK_RECORDED = ''CHARGEBACK_RECORDED''"
| "entry_type_name LedgerEntryType.MANUAL_ADJUSTMENT_REQUESTED = ''MANUAL_ADJUSTMENT_REQUESTED''"

text \<open>The characters \<open>[A-Za-z0-9_:.-]\<close> are kept, any other becomes \<open>-\<close>.\<close>

definition cause_char :: "char \<Rightarrow> char" where
  "cause_char c = (if url_safe_char c \<or> c = CHR '':'' \<or> c = CHR ''.'' then c else CHR ''-'')"

definition normalized_cause :: "string \<Rightarrow> string" where
  "normalized_cause causeKey = take 120 (map cause_char causeKey)"

definition buildLedgerIdempotencyKey :: "LedgerEntryType \<Rightarrow> string \<Rightarrow> string" where
  "buildLedgerIdempotencyKey entryType causeKey =
     entry_type_name entryType @ '':'' @ normalized_cause causeKey"

record LedgerEntryDraft =
  drf_entryType :: LedgerEntryType
  drf_direction :: LedgerDirection
  drf_amountMinor :: minor
  drf_idempotencyKey :: string
  drf_providerReferenceHash :: "string option"

datatype ledger_rejection = AMOUNT_INVALID | CAUSE_MISSING

text \<open>An absent or empty provider reference has no hash.\<close>

definition buildLedgerEntryDraft ::
  "(string \<Rightarrow> string) \<Rightarrow> LedgerEntryType \<Rightarrow> minor \<Rightarrow> string \<Rightarrow> string option
     \<Rightarrow> ledger_rejection + LedgerEntryDraft" where
  "buildLedgerEntryDraft sha256_hex entryType amountMinor causeKey providerReference =
     (if \<not> js_safe_integer amountMinor \<or> amountMinor < 0 then Inl AMOUNT_INVALID
      else if js_trim causeKey = [] then Inl CAUSE_MISSING
      else Inr \<lparr>drf_entryType = entryType,
                drf_direction = directionForEntryType entryType,
                drf_amountMinor = amountMinor,
                drf_idempotencyKey = buildLedgerIdempotencyKey entryType causeKey,
                drf_providerReferenceHash =
                  (case providerReference of
                     None \<Rightarrow> None
                   | Some reference \<Rightarrow>
                       if reference = [] then None
                       else Some (hashProviderReference sha256_hex reference))\<rparr>)"

record LedgerBalanceInput =
  lbi_entryType :: LedgerEntryType
  lbi_direction :: LedgerDirection
  lbi_amountMinor :: minor

definition balance_step :: "minor \<Rightarrow> LedgerBalanceInput \<Rightarrow> minor" where
  "balance_step balance entry =
     (if \<not> isSettlingEntryType (lbi_entryType entry) then balance
      else if lbi_direction entry = CREDIT then balance + lbi_amountMinor entry
      else balance - lbi_amountMinor entry)"

definition calculateSettledBalanceMinor :: "LedgerBalanceInput list \<Rightarrow> minor" where
  "calculateSettledBalanceMinor entries = foldl balance_step 0 entries"

record LedgerDivergence =
  div_diverged :: bool
  div_expectedMinor :: minor
  div_actualMinor :: minor

definition detectLedgerDivergence :: "minor \<Rightarrow> minor \<Rightarrow> LedgerBalanceInput list \<Rightarrow> LedgerDivergence" where
  "detectLedgerDivergence capturedMinor refundedMinor entries =
     (let expected = capturedMinor - refundedMinor;
          actual = calculateSettledBalanceMinor entries
      in \<lparr>div_diverged = (expected \<noteq> actual), div_expectedMinor = expected, div_actualMinor = actual\<rparr>)"

text \<open>The fold is the sum of the signed amounts of the settling entries.\<close>

definition signed_amount :: "LedgerBalanceInput \<Rightarrow> minor" where
  "signed_amount entry = balance_step 0 entry"

lemma balance_step_add: "balance_step b entry = b + signed_amount entry"
  by (simp add: balance_step_def signed_amount_def)

lemma settled_balance_sum: "calculateSettledBalanceMinor entries = sum_list (map signed_amount entries)"
proof -
  have "foldl balance_step b entries = b + sum_list (map signed_amount entries)" for b
    by (induction entries arbitrary: b) (simp_all add: balance_step_add)
  then show ?thesis by (simp add: calculateSettledBalanceMinor_def)
qed

lemma settled_balance_append:
  "calculateSettledBalanceMinor (xs @ ys) = calculateSettledBalanceMinor xs + calculateSettledBalanceMinor ys"
  by (simp add: settled_balance_sum)

section \<open>Writes\<close>

record AppendLedgerEntryInput =
  ali_entryType :: LedgerEntryType
  ali_amountMinor :: minor
  ali_currency :: Currency
  ali_orderId :: ident
  ali_paymentAttemptId :: ident
  ali_bookingId :: "ident option"
  ali_refundId :: "ident option"
  ali_disputeId :: "ident option"
  ali_provider :: PaymentProviderName
  ali_causeKey :: string
  ali_providerReference :: "string option"
  ali_effectiveAt :: time

definition ledger_row :: "AppendLedgerEntryInput \<Rightarrow> LedgerEntryDraft \<Rightarrow> FinancialLedgerEntry" where
  "ledger_row input draft = \<lparr>
     led_entryType = drf_entryType draft,
     led_direction = drf_direction draft,
     led_amountMinor = drf_amountMinor draft,
     led_currency = ali_currency input,
     led_orderId = ali_orderId input,
     led_paymentAttemptId = ali_paymentAttemptId input,
     led_bookingId = ali_bookingId input,
     led_refundId = ali_refundId input,
     led_disputeId = ali_disputeId input,
     led_provider = ali_provider input,
     led_providerReferenceHash = drf_providerReferenceHash draft,
     led_effectiveAt = ali_effectiveAt input,
     led_idempotencyKey = drf_idempotencyKey draft\<rparr>"

definition appendLedgerEntry ::
  "(string \<Rightarrow> string) \<Rightarrow> AppendLedgerEntryInput \<Rightarrow> database \<Rightarrow> service_error + database" where
  "appendLedgerEntry sha256_hex input db =
     (case buildLedgerEntryDraft sha256_hex (ali_entryType input) (ali_amountMinor input)
             (ali_causeKey input) (ali_providerReference input) of
        Inl _ \<Rightarrow> Inl LedgerEntryRejected
      | Inr draft \<Rightarrow>
          Inr (db\<lparr>db_ledger := insert_skip led_idempotencyKey (ledger_row input draft) (db_ledger db)\<rparr>))"

definition enqueueFinancialEvent :: "FinancialOutbox \<Rightarrow> database \<Rightarrow> database" where
  "enqueueFinancialEvent row db =
     db\<lparr>db_finOutbox := insert_skip fin_deduplicationKey row (db_finOutbox db)\<rparr>"

text \<open>The rows of one payment as the balance reads them.\<close>

definition balance_input :: "FinancialLedgerEntry \<Rightarrow> LedgerBalanceInput" where
  "balance_input e = \<lparr>lbi_entryType = led_entryType e, lbi_direction = led_direction e,
                      lbi_amountMinor = led_amountMinor e\<rparr>"

definition readLedgerForPayment :: "database \<Rightarrow> ident \<Rightarrow> LedgerBalanceInput list" where
  "readLedgerForPayment db paymentAttemptId =
     map balance_input
       (sort_key led_effectiveAt (select_rows (\<lambda>e. led_paymentAttemptId e = paymentAttemptId) (db_ledger db)))"

lemma append_ledger_Inr:
  assumes "appendLedgerEntry h input db = Inr db'"
  obtains draft where
    "buildLedgerEntryDraft h (ali_entryType input) (ali_amountMinor input) (ali_causeKey input)
       (ali_providerReference input) = Inr draft"
    "db' = db\<lparr>db_ledger := insert_skip led_idempotencyKey (ledger_row input draft) (db_ledger db)\<rparr>"
  using assms by (auto simp: appendLedgerEntry_def split: sum.splits)

text \<open>An append never changes or removes an entry: it adds one, or none when the entry of this
  cause is already there, and it keeps the idempotency keys distinct.\<close>

lemma append_ledger_prefix:
  assumes "appendLedgerEntry h input db = Inr db'" "distinct (map led_idempotencyKey (db_ledger db))"
  shows "(\<exists>new. db_ledger db' = db_ledger db @ new \<and> length new \<le> 1)
    \<and> distinct (map led_idempotencyKey (db_ledger db'))
    \<and> (db_ledger db' = db_ledger db \<longleftrightarrow>
        has_key led_idempotencyKey (buildLedgerIdempotencyKey (ali_entryType input) (ali_causeKey input)) (db_ledger db))"
  using assms
  by (auto elim!: append_ledger_Inr simp: insert_skip_def insert_row_def has_key_def ledger_row_def
        buildLedgerEntryDraft_def split: if_splits)

definition sample_entry :: AppendLedgerEntryInput where
  "sample_entry = \<lparr>ali_entryType = LedgerEntryType.REFUND_REQUESTED, ali_amountMinor = 500, ali_currency = USD,
     ali_orderId = ''o1'', ali_paymentAttemptId = ''p1'', ali_bookingId = None, ali_refundId = Some ''r1'',
     ali_disputeId = None, ali_provider = LOCAL_SIGNED, ali_causeKey = ''refund:r1'', ali_providerReference = None,
     ali_effectiveAt = 10\<rparr>"

definition sample_ledger :: database where
  "sample_ledger = projr (appendLedgerEntry id sample_entry empty_database)"

lemma append_ledger_prefix_witness:
  "\<exists>new. db_ledger sample_ledger = [] @ new \<and> length new \<le> 1"
proof -
  have "\<not> isl (appendLedgerEntry id sample_entry empty_database)" by code_simp
  then have "appendLedgerEntry id sample_entry empty_database = Inr sample_ledger"
    by (simp add: sample_ledger_def)
  moreover have "distinct (map led_idempotencyKey (db_ledger empty_database))" "db_ledger empty_database = []"
    by (simp_all add: empty_database_def)
  ultimately show ?thesis using append_ledger_prefix by fastforce
qed

end
