(* ===== verification/Payment_Rules.thy ===== *)
theory Payment_Rules
  imports Domain
begin

text \<open>
  The pure rules of checkout and payment: src/features/checkout/lifecycle.ts and
  view-models.ts (terminal orders, the fulfilment decision, the display state),
  src/features/payments/status.ts (provider vocabularies) and webhook.ts (payload size).
\<close>

section \<open>Checkout\<close>

definition TERMINAL_CHECKOUT_STATUSES :: "CheckoutOrderStatus list" where
  "TERMINAL_CHECKOUT_STATUSES =
     [CheckoutOrderStatus.FULFILLED, CheckoutOrderStatus.FAILED, CheckoutOrderStatus.CANCELLED,
      CheckoutOrderStatus.EXPIRED, CheckoutOrderStatus.PAID_UNFULFILLED, CheckoutOrderStatus.REQUIRES_REVIEW]"

definition isTerminalCheckoutStatus :: "CheckoutOrderStatus \<Rightarrow> bool" where
  "isTerminalCheckoutStatus status = List.member TERMINAL_CHECKOUT_STATUSES status"

definition isCheckoutExpired :: "CheckoutOrderStatus \<Rightarrow> time \<Rightarrow> time \<Rightarrow> bool" where
  "isCheckoutExpired status checkoutExpiresAt now \<longleftrightarrow>
     List.member [CheckoutOrderStatus.PENDING, CheckoutOrderStatus.PAYMENT_PENDING] status
     \<and> checkoutExpiresAt \<le> now"

datatype PaidFulfillmentDecision = FULFILL | IDEMPOTENT | REVIEW string

definition decidePaidFulfillment ::
  "CheckoutOrderStatus \<Rightarrow> SeatHoldStatus \<Rightarrow> time \<Rightarrow> EventStatus \<Rightarrow> EventSessionStatus \<Rightarrow> time
     \<Rightarrow> PaidFulfillmentDecision" where
  "decidePaidFulfillment orderStatus holdStatus holdExpiresAt eventStatus sessionStatus now =
     (if orderStatus = CheckoutOrderStatus.FULFILLED then IDEMPOTENT
      else if List.member [CheckoutOrderStatus.FAILED, CheckoutOrderStatus.CANCELLED, CheckoutOrderStatus.EXPIRED,
                           CheckoutOrderStatus.PAID_UNFULFILLED, CheckoutOrderStatus.REQUIRES_REVIEW] orderStatus
      then REVIEW ''ORDER_TERMINAL_CONFLICT''
      else if holdStatus = SeatHoldStatus.RELEASED then REVIEW ''HOLD_RELEASED''
      else if holdStatus = SeatHoldStatus.EXPIRED \<or> holdExpiresAt \<le> now then REVIEW ''HOLD_EXPIRED''
      else if holdStatus \<noteq> SeatHoldStatus.ACTIVE then REVIEW ''HOLD_NOT_ACTIVE''
      else if sessionStatus = EventSessionStatus.CANCELLED then REVIEW ''SESSION_CANCELLED''
      else if eventStatus \<noteq> EventStatus.PUBLISHED \<or>
              \<not> List.member [EventSessionStatus.SCHEDULED, EventSessionStatus.ON_SALE,
                             EventSessionStatus.SALES_PAUSED] sessionStatus
      then REVIEW ''SESSION_UNAVAILABLE''
      else FULFILL)"

lemma fulfill_iff:
  "decidePaidFulfillment orderStatus holdStatus holdExpiresAt eventStatus sessionStatus now = FULFILL \<longleftrightarrow>
     orderStatus \<in> {CheckoutOrderStatus.PENDING, CheckoutOrderStatus.PAYMENT_PENDING, CheckoutOrderStatus.PAID}
     \<and> holdStatus = SeatHoldStatus.ACTIVE \<and> now < holdExpiresAt \<and> eventStatus = EventStatus.PUBLISHED
     \<and> sessionStatus \<in> {EventSessionStatus.SCHEDULED, EventSessionStatus.ON_SALE, EventSessionStatus.SALES_PAUSED}"
  by (cases orderStatus; cases holdStatus) (auto simp: decidePaidFulfillment_def)

datatype CheckoutDisplayState =
    DISPLAY_PENDING | DISPLAY_FAILED | DISPLAY_CONFIRMED | DISPLAY_REQUIRES_REVIEW
  | DISPLAY_EXPIRED | DISPLAY_CANCELLED

definition toCheckoutDisplayState ::
  "CheckoutOrderStatus \<Rightarrow> PaymentAttemptStatus option \<Rightarrow> bool \<Rightarrow> time \<Rightarrow> time \<Rightarrow> CheckoutDisplayState" where
  "toCheckoutDisplayState orderStatus paymentStatus bookingConfirmed checkoutExpiresAt now =
     (if bookingConfirmed \<and> orderStatus = CheckoutOrderStatus.FULFILLED then DISPLAY_CONFIRMED
      else if List.member [CheckoutOrderStatus.PAID_UNFULFILLED, CheckoutOrderStatus.REQUIRES_REVIEW,
                           CheckoutOrderStatus.PAID] orderStatus
      then DISPLAY_REQUIRES_REVIEW
      else if orderStatus = CheckoutOrderStatus.FAILED \<or> paymentStatus = Some PaymentAttemptStatus.FAILED
      then DISPLAY_FAILED
      else if orderStatus = CheckoutOrderStatus.CANCELLED \<or> paymentStatus = Some PaymentAttemptStatus.CANCELLED
      then DISPLAY_CANCELLED
      else if orderStatus = CheckoutOrderStatus.EXPIRED \<or> isCheckoutExpired orderStatus checkoutExpiresAt now
      then DISPLAY_EXPIRED
      else DISPLAY_PENDING)"

lemma display_confirmed_iff:
  "toCheckoutDisplayState orderStatus paymentStatus bookingConfirmed checkoutExpiresAt now = DISPLAY_CONFIRMED \<longleftrightarrow>
     bookingConfirmed \<and> orderStatus = CheckoutOrderStatus.FULFILLED"
  by (auto simp: toCheckoutDisplayState_def)

section \<open>Provider vocabularies\<close>

text \<open>
  The tables are object literals, so a lookup also sees what they inherit: of the names that
  survive lower-casing, \<open>constructor\<close> and \<open>__proto__\<close> are members of \<open>Object.prototype\<close>. They
  are truthy, so the guard \<open>if (!normalized) throw\<close> lets them through. \<open>Own\<close> is an entry of the
  table, \<open>Inherited\<close> such a member.
\<close>

datatype 's js_property = Own 's | Inherited

definition js_object_get :: "(string \<times> 's) list \<Rightarrow> string \<Rightarrow> 's js_property option" where
  "js_object_get table key =
     (case map_of table key of
        Some s \<Rightarrow> Some (Own s)
      | None \<Rightarrow> if List.member [''constructor'', ''__proto__''] key then Some Inherited else None)"

definition normalizedStatuses :: "(string \<times> PaymentAttemptStatus) list" where
  "normalizedStatuses =
     [(''created'', PaymentAttemptStatus.CREATED),
      (''pending'', PaymentAttemptStatus.PENDING),
      (''processing'', PaymentAttemptStatus.PENDING),
      (''requires_action'', PaymentAttemptStatus.PENDING),
      (''succeeded'', PaymentAttemptStatus.SUCCEEDED),
      (''success'', PaymentAttemptStatus.SUCCEEDED),
      (''paid'', PaymentAttemptStatus.SUCCEEDED),
      (''failed'', PaymentAttemptStatus.FAILED),
      (''failure'', PaymentAttemptStatus.FAILED),
      (''requires_payment_method'', PaymentAttemptStatus.FAILED),
      (''canceled'', PaymentAttemptStatus.CANCELLED),
      (''cancelled'', PaymentAttemptStatus.CANCELLED)]"

definition normalizeProviderPaymentStatus :: "string \<Rightarrow> service_error + PaymentAttemptStatus js_property" where
  "normalizeProviderPaymentStatus value =
     (case js_object_get normalizedStatuses (js_lower (js_trim value)) of
        None \<Rightarrow> Inl (PlainError ''Unsupported provider payment status.'') | Some s \<Rightarrow> Inr s)"

definition isTerminalPaymentStatus :: "PaymentAttemptStatus \<Rightarrow> bool" where
  "isTerminalPaymentStatus status =
     List.member [PaymentAttemptStatus.SUCCEEDED, PaymentAttemptStatus.FAILED,
                  PaymentAttemptStatus.CANCELLED, PaymentAttemptStatus.REQUIRES_REVIEW] status"

definition isContradictoryTerminalStatus :: "PaymentAttemptStatus \<Rightarrow> PaymentAttemptStatus \<Rightarrow> bool" where
  "isContradictoryTerminalStatus current incoming \<longleftrightarrow> isTerminalPaymentStatus current \<and> current \<noteq> incoming"

definition normalizedRefundStatuses :: "(string \<times> RefundStatus) list" where
  "normalizedRefundStatuses =
     [(''pending'', RefundStatus.PROCESSING),
      (''processing'', RefundStatus.PROCESSING),
      (''requires_action'', RefundStatus.PROCESSING),
      (''succeeded'', RefundStatus.SUCCEEDED),
      (''success'', RefundStatus.SUCCEEDED),
      (''failed'', RefundStatus.FAILED),
      (''failure'', RefundStatus.FAILED),
      (''canceled'', RefundStatus.CANCELLED),
      (''cancelled'', RefundStatus.CANCELLED),
      (''requires_review'', RefundStatus.REQUIRES_REVIEW)]"

definition normalizeProviderRefundStatus :: "string \<Rightarrow> service_error + RefundStatus js_property" where
  "normalizeProviderRefundStatus value =
     (case js_object_get normalizedRefundStatuses (js_lower (js_trim value)) of
        None \<Rightarrow> Inl (PlainError ''Unsupported provider refund status.'') | Some s \<Rightarrow> Inr s)"

definition normalizedDisputeStatuses :: "(string \<times> DisputeStatus) list" where
  "normalizedDisputeStatuses =
     [(''open'', DisputeStatus.OPEN),
      (''warning_needs_response'', DisputeStatus.NEEDS_RESPONSE),
      (''needs_response'', DisputeStatus.NEEDS_RESPONSE),
      (''warning_under_review'', DisputeStatus.UNDER_REVIEW),
      (''under_review'', DisputeStatus.UNDER_REVIEW),
      (''won'', DisputeStatus.WON),
      (''warning_closed'', DisputeStatus.CLOSED),
      (''lost'', DisputeStatus.LOST),
      (''closed'', DisputeStatus.CLOSED)]"

definition normalizeProviderDisputeStatus :: "string \<Rightarrow> service_error + DisputeStatus js_property" where
  "normalizeProviderDisputeStatus value =
     (case js_object_get normalizedDisputeStatuses (js_lower (js_trim value)) of
        None \<Rightarrow> Inl (PlainError ''Unsupported provider dispute status.'') | Some s \<Rightarrow> Inr s)"

text \<open>A word of the table normalizes to its entry; any other word throws, the inherited names apart.\<close>

lemma normalize_refund_Inr:
  "normalizeProviderRefundStatus value = Inr r \<longleftrightarrow>
     (let key = js_lower (js_trim value)
      in (\<exists>s. map_of normalizedRefundStatuses key = Some s \<and> r = Own s)
         \<or> map_of normalizedRefundStatuses key = None \<and> key \<in> {''constructor'', ''__proto__''} \<and> r = Inherited)"
  by (auto simp: normalizeProviderRefundStatus_def js_object_get_def Let_def split: option.splits if_splits)

section \<open>Webhook payloads\<close>

definition DEFAULT_PAYMENT_WEBHOOK_MAX_BYTES :: int where
  "DEFAULT_PAYMENT_WEBHOOK_MAX_BYTES = 65536"

text \<open>\<open>bytes\<close> is the byte length of the raw body; \<open>None\<close> is the default limit.\<close>

definition assertPaymentWebhookPayloadSize :: "int \<Rightarrow> js_number option \<Rightarrow> service_error + int" where
  "assertPaymentWebhookPayloadSize bytes maximumBytes =
     (case (case maximumBytes of None \<Rightarrow> Integral DEFAULT_PAYMENT_WEBHOOK_MAX_BYTES | Some m \<Rightarrow> m) of
        NonIntegral \<Rightarrow> Inl PaymentWebhookPayloadTooLargeError
      | Integral limit \<Rightarrow>
          if limit < 1 \<or> limit < bytes then Inl PaymentWebhookPayloadTooLargeError else Inr bytes)"

lemma terminal_payment_iff [simp]:
  "isTerminalPaymentStatus s \<longleftrightarrow> s \<in> {PaymentAttemptStatus.SUCCEEDED, PaymentAttemptStatus.FAILED,
     PaymentAttemptStatus.CANCELLED, PaymentAttemptStatus.REQUIRES_REVIEW}"
  by (simp add: isTerminalPaymentStatus_def)

end
