(* ===== verification/Transactions.thy ===== *)
theory Transactions
  imports Domain
begin

text \<open>
  Transactions (src/server/database/run-in-transaction.ts) and the inventory outbox
  (src/server/inventory-events/outbox-service.ts).

  A transaction body reads and writes the database it is given and returns a value or throws.
  It commits whole or not at all: an error leaves the database as it was. The isolation that
  PostgreSQL provides is the atomicity of the body here; reads that a service makes outside
  its transaction are a separate database argument of that service, so that writes of other
  requests in between are not excluded.
\<close>

type_synonym 'a tx = "database \<Rightarrow> service_error + database \<times> 'a"

definition transact :: "'a tx \<Rightarrow> database \<Rightarrow> database \<times> (service_error + 'a)" where
  "transact operation db =
     (case operation db of Inl e \<Rightarrow> (db, Inl e) | Inr (db', x) \<Rightarrow> (db', Inr x))"

lemma transact_Inl: "transact operation db = (db', Inl e) \<longleftrightarrow> operation db = Inl e \<and> db' = db"
  by (auto simp: transact_def split: sum.splits)

lemma transact_Inr: "transact operation db = (db', Inr x) \<longleftrightarrow> operation db = Inr (db', x)"
  by (auto simp: transact_def split: sum.splits)

text \<open>
  The bounded retry: \<open>conflict k\<close> says whether PostgreSQL aborts attempt \<open>k\<close> with a retryable
  error, \<open>left\<close> counts the attempts that remain. Any other error propagates at once.
\<close>

fun retry_transaction ::
  "(nat \<Rightarrow> bool) \<Rightarrow> nat \<Rightarrow> nat \<Rightarrow> 'a tx \<Rightarrow> database \<Rightarrow> database \<times> (service_error + 'a)" where
  "retry_transaction conflict attempt 0 operation db = (db, Inl TransactionConflict)"
| "retry_transaction conflict attempt (Suc left) operation db =
     (if conflict attempt then retry_transaction conflict (Suc attempt) left operation db
      else transact operation db)"

definition runInTransaction ::
  "(nat \<Rightarrow> bool) \<Rightarrow> nat option \<Rightarrow> 'a tx \<Rightarrow> database \<Rightarrow> database \<times> (service_error + 'a)" where
  "runInTransaction conflict maximumAttempts operation db =
     retry_transaction conflict 1 (case maximumAttempts of None \<Rightarrow> 5 | Some n \<Rightarrow> n) operation db"

lemma retry_transaction_cases:
  "retry_transaction conflict k n operation db =
     (if \<forall>i\<in>{k..<k + n}. conflict i then (db, Inl TransactionConflict) else transact operation db)"
proof (induction n arbitrary: k)
  case (Suc n)
  have "{k..<k + Suc n} = insert k {Suc k..<Suc k + n}" by auto
  then show ?case by (simp add: Suc.IH)
qed simp

text \<open>A retried transaction runs exactly once, or not at all and then only after every attempt conflicted.\<close>

lemma run_in_transaction_once:
  "runInTransaction conflict maximumAttempts operation db =
     (if \<forall>i\<in>{1..(case maximumAttempts of None \<Rightarrow> 5 | Some n \<Rightarrow> n)}. conflict i
      then (db, Inl TransactionConflict) else transact operation db)"
proof -
  have "{1..<1 + n} = {1..n}" for n :: nat by auto
  then show ?thesis by (simp add: runInTransaction_def retry_transaction_cases)
qed

lemma run_in_transaction_once_witness:
  "runInTransaction (\<lambda>k. k < 3) None (\<lambda>db. Inr (db, True)) empty_database = (empty_database, Inr True)"
proof -
  have "\<not> (\<forall>i\<in>{1..5::nat}. i < 3)" by (auto intro: bexI [of _ 4])
  then show ?thesis
    by (simp add: run_in_transaction_once transact_def del: atLeastAtMost_iff)
qed

section \<open>The inventory outbox\<close>

definition iev_row ::
  "InventoryEventType \<Rightarrow> ident \<Rightarrow> ident option \<Rightarrow> string \<Rightarrow> time \<Rightarrow> InventoryEventOutbox" where
  "iev_row eventType sessionId aggregateId key now =
     \<lparr>iev_eventType = eventType, iev_sessionId = sessionId, iev_aggregateId = aggregateId,
      iev_deduplicationKey = key, iev_createdAt = now, iev_availableAt = now, iev_attemptCount = 0,
      iev_processedAt = None, iev_lastError = None, iev_deadLetterAt = None\<rparr>"

text \<open>A \<open>create\<close>: a present deduplication key violates the unique index and throws.\<close>

definition enqueueInventoryEvent ::
  "InventoryEventType \<Rightarrow> ident \<Rightarrow> ident option \<Rightarrow> string \<Rightarrow> time \<Rightarrow> database \<Rightarrow> service_error + database" where
  "enqueueInventoryEvent eventType sessionId aggregateId key now db =
     (if has_key iev_deduplicationKey key (db_invOutbox db) then Inl (UniqueViolation ''deduplicationKey'')
      else Inr (db\<lparr>db_invOutbox := insert_row (iev_row eventType sessionId aggregateId key now) (db_invOutbox db)\<rparr>))"

fun enqueueExpiredHoldEvents :: "ident \<Rightarrow> ident list \<Rightarrow> time \<Rightarrow> database \<Rightarrow> service_error + database" where
  "enqueueExpiredHoldEvents sessionId [] now db = Inr db"
| "enqueueExpiredHoldEvents sessionId (holdId # holdIds) now db =
     and_then (enqueueInventoryEvent InventoryEventType.HOLD_EXPIRED sessionId (Some holdId)
                 (''hold-expired:'' @ holdId) now db)
       (enqueueExpiredHoldEvents sessionId holdIds now)"

definition outbox_keys :: "database \<Rightarrow> string list" where
  "outbox_keys db = map iev_deduplicationKey (db_invOutbox db)"

lemma enqueue_event_Inr:
  "enqueueInventoryEvent t s a key now db = Inr db' \<longleftrightarrow>
     key \<notin> set (outbox_keys db) \<and>
     db\<lparr>db_invOutbox := db_invOutbox db @ [iev_row t s a key now]\<rparr> = db'"
  by (auto simp: enqueueInventoryEvent_def has_key_def outbox_keys_def insert_row_def)

lemma iev_row_key [simp]: "iev_deduplicationKey (iev_row t s a key now) = key"
  by (simp add: iev_row_def)

lemma enqueue_expired_Inr:
  "enqueueExpiredHoldEvents s ids now db = Inr db' \<longleftrightarrow>
     distinct ids \<and> (\<forall>i\<in>set ids. ''hold-expired:'' @ i \<notin> set (outbox_keys db)) \<and>
     db\<lparr>db_invOutbox := db_invOutbox db @
       map (\<lambda>i. iev_row InventoryEventType.HOLD_EXPIRED s (Some i) (''hold-expired:'' @ i) now) ids\<rparr> = db'"
proof (induction ids arbitrary: db)
  case (Cons i ids)
  show ?case
    by (auto simp: and_then_eq_Inr enqueue_event_Inr Cons.IH outbox_keys_def)
qed simp

end
