(* ===== verification/Constraints.thy ===== *)
theory Constraints
  imports Payment_Rules Transactions
begin

text \<open>
  The row constraints PostgreSQL puts on the updates of orders, payment attempts and webhook
  records (prisma/migrations/20260718060000_phase_5a_checkout_payments_bookings and
  20260719120000_phase_5c2a_refunds_disputes_ledger): the lifecycle CHECKs and the triggers
  that freeze terminal rows. An update that breaks one throws, and the transaction it is part
  of rolls back. Columns that no modelled update writes need no test here.
\<close>

text \<open>\<open>update\<close> of one row by its key: no row throws, a broken constraint throws.\<close>

definition checked_update ::
  "string \<Rightarrow> ('r \<Rightarrow> bool) \<Rightarrow> ('r \<Rightarrow> 'r \<Rightarrow> bool) \<Rightarrow> ('r \<Rightarrow> 'r) \<Rightarrow> 'r list \<Rightarrow> service_error + 'r list" where
  "checked_update name P allowed f t =
     (case find_row P t of
        None \<Rightarrow> Inl RecordNotFound
      | Some r \<Rightarrow> if allowed r (f r) then Inr (update_rows P f t) else Inl (ConstraintViolation name))"

lemma checked_update_Inr:
  "checked_update name P allowed f t = Inr t' \<longleftrightarrow>
     (\<exists>r. find_row P t = Some r \<and> allowed r (f r)) \<and> update_rows P f t = t'"
  by (auto simp: checked_update_def split: option.splits)

section \<open>Orders\<close>

definition order_lifecycle :: "CheckoutOrder \<Rightarrow> bool" where
  "order_lifecycle o' \<longleftrightarrow>
     (let paid = ord_paidAt o' \<noteq> None; fulfilled = ord_fulfilledAt o' \<noteq> None;
          failed = ord_failedAt o' \<noteq> None; expired = ord_expiredAt o' \<noteq> None;
          code = ord_safeFailureCode o' \<noteq> None
      in case ord_status o' of
           CheckoutOrderStatus.PENDING \<Rightarrow> \<not> paid \<and> \<not> fulfilled \<and> \<not> failed \<and> \<not> expired
         | CheckoutOrderStatus.PAYMENT_PENDING \<Rightarrow> \<not> paid \<and> \<not> fulfilled \<and> \<not> failed \<and> \<not> expired
         | CheckoutOrderStatus.PAID \<Rightarrow> paid \<and> \<not> fulfilled \<and> \<not> failed \<and> \<not> expired
         | CheckoutOrderStatus.FULFILLED \<Rightarrow> paid \<and> fulfilled \<and> \<not> failed \<and> \<not> expired \<and> \<not> code
         | CheckoutOrderStatus.FAILED \<Rightarrow> \<not> paid \<and> \<not> fulfilled \<and> failed \<and> \<not> expired
         | CheckoutOrderStatus.CANCELLED \<Rightarrow> \<not> paid \<and> \<not> fulfilled \<and> \<not> failed \<and> \<not> expired
         | CheckoutOrderStatus.EXPIRED \<Rightarrow> \<not> paid \<and> \<not> fulfilled \<and> \<not> failed \<and> expired
         | CheckoutOrderStatus.PAID_UNFULFILLED \<Rightarrow> paid \<and> \<not> fulfilled \<and> \<not> failed \<and> \<not> expired \<and> code
         | CheckoutOrderStatus.REQUIRES_REVIEW \<Rightarrow> \<not> fulfilled \<and> \<not> expired \<and> code)"

definition order_update_ok :: "CheckoutOrder \<Rightarrow> CheckoutOrder \<Rightarrow> bool" where
  "order_update_ok old new \<longleftrightarrow>
     (isTerminalCheckoutStatus (ord_status old) \<longrightarrow> ord_status new = ord_status old)
     \<and> (ord_paidAt old \<noteq> None \<longrightarrow> ord_paidAt new = ord_paidAt old)
     \<and> order_lifecycle new"

definition update_order :: "ident \<Rightarrow> (CheckoutOrder \<Rightarrow> CheckoutOrder) \<Rightarrow> database \<Rightarrow> service_error + database" where
  "update_order orderId f db =
     and_then (checked_update ''CheckoutOrder'' (\<lambda>o'. ord_id o' = orderId) order_update_ok f (db_orders db))
       (\<lambda>t. Inr (db\<lparr>db_orders := t\<rparr>))"

section \<open>Payment attempts\<close>

definition attempt_lifecycle :: "PaymentAttempt \<Rightarrow> bool" where
  "attempt_lifecycle a \<longleftrightarrow>
     (let succeeded = pay_succeededAt a \<noteq> None; failed = pay_failedAt a \<noteq> None;
          cancelled = pay_cancelledAt a \<noteq> None
      in case pay_status a of
           PaymentAttemptStatus.CREATED \<Rightarrow> \<not> succeeded \<and> \<not> failed \<and> \<not> cancelled
         | PaymentAttemptStatus.PENDING \<Rightarrow> \<not> succeeded \<and> \<not> failed \<and> \<not> cancelled
         | PaymentAttemptStatus.SUCCEEDED \<Rightarrow> succeeded \<and> \<not> failed \<and> \<not> cancelled
         | PaymentAttemptStatus.FAILED \<Rightarrow> \<not> succeeded \<and> failed \<and> \<not> cancelled
         | PaymentAttemptStatus.CANCELLED \<Rightarrow> \<not> succeeded \<and> \<not> failed \<and> cancelled
         | PaymentAttemptStatus.REQUIRES_REVIEW \<Rightarrow> pay_safeFailureCode a \<noteq> None)"

definition attempt_update_ok :: "PaymentAttempt \<Rightarrow> PaymentAttempt \<Rightarrow> bool" where
  "attempt_update_ok old new \<longleftrightarrow>
     (pay_providerIntentId old \<noteq> None \<longrightarrow> pay_providerIntentId new = pay_providerIntentId old)
     \<and> (isTerminalPaymentStatus (pay_status old) \<longrightarrow> pay_status new = pay_status old)
     \<and> attempt_lifecycle new"

definition update_attempt :: "ident \<Rightarrow> (PaymentAttempt \<Rightarrow> PaymentAttempt) \<Rightarrow> database \<Rightarrow> service_error + database" where
  "update_attempt attemptId f db =
     and_then (checked_update ''PaymentAttempt'' (\<lambda>a. pay_id a = attemptId) attempt_update_ok f (db_attempts db))
       (\<lambda>t. Inr (db\<lparr>db_attempts := t\<rparr>))"

section \<open>Webhook records\<close>

definition webhook_processed :: "PaymentWebhookEvent \<Rightarrow> bool" where
  "webhook_processed w \<longleftrightarrow>
     List.member [PaymentWebhookProcessingStatus.PROCESSED, PaymentWebhookProcessingStatus.REQUIRES_REVIEW]
       (wh_processingStatus w)"

definition webhook_update_ok :: "PaymentWebhookEvent \<Rightarrow> PaymentWebhookEvent \<Rightarrow> bool" where
  "webhook_update_ok old new \<longleftrightarrow>
     (webhook_processed old \<longrightarrow> wh_processingStatus new = wh_processingStatus old)
     \<and> (webhook_processed new \<longleftrightarrow> wh_processedAt new \<noteq> None)"

definition update_webhook :: "ident \<Rightarrow> (PaymentWebhookEvent \<Rightarrow> PaymentWebhookEvent) \<Rightarrow> database \<Rightarrow> service_error + database" where
  "update_webhook webhookId f db =
     and_then (checked_update ''PaymentWebhookEvent'' (\<lambda>w. wh_id w = webhookId) webhook_update_ok f (db_webhooks db))
       (\<lambda>t. Inr (db\<lparr>db_webhooks := t\<rparr>))"

lemmas checked_update_defs = update_order_def update_attempt_def update_webhook_def

lemma update_order_Inr:
  "update_order i f db = Inr db' \<longleftrightarrow>
     (\<exists>r. find_row (\<lambda>o'. ord_id o' = i) (db_orders db) = Some r \<and> order_update_ok r (f r))
     \<and> db\<lparr>db_orders := update_rows (\<lambda>o'. ord_id o' = i) f (db_orders db)\<rparr> = db'"
  by (auto simp: update_order_def and_then_eq_Inr checked_update_Inr)

lemma update_attempt_Inr:
  "update_attempt i f db = Inr db' \<longleftrightarrow>
     (\<exists>r. find_row (\<lambda>a. pay_id a = i) (db_attempts db) = Some r \<and> attempt_update_ok r (f r))
     \<and> db\<lparr>db_attempts := update_rows (\<lambda>a. pay_id a = i) f (db_attempts db)\<rparr> = db'"
  by (auto simp: update_attempt_def and_then_eq_Inr checked_update_Inr)

lemma update_webhook_Inr:
  "update_webhook i f db = Inr db' \<longleftrightarrow>
     (\<exists>r. find_row (\<lambda>w. wh_id w = i) (db_webhooks db) = Some r \<and> webhook_update_ok r (f r))
     \<and> db\<lparr>db_webhooks := update_rows (\<lambda>w. wh_id w = i) f (db_webhooks db)\<rparr> = db'"
  by (auto simp: update_webhook_def and_then_eq_Inr checked_update_Inr)

end
