(* ===== verification/Hold_Rules.thy ===== *)
theory Hold_Rules
  imports Money "HOL-Library.Multiset"
begin

text \<open>
  The pure rules of seat holds, src/features/holds: the expiry decisions (lifecycle.ts), the
  sales window (eligibility.ts), the replay test (idempotency.ts), the request schemas
  (schema.ts) and the configuration they are bounded by (config.ts).
\<close>

section \<open>Lifecycle\<close>

definition isHoldExpired :: "SeatHoldStatus \<Rightarrow> time \<Rightarrow> time \<Rightarrow> bool" where
  "isHoldExpired status expiresAt now \<longleftrightarrow> status = SeatHoldStatus.ACTIVE \<and> expiresAt \<le> now"

definition isHoldLive :: "SeatHoldStatus \<Rightarrow> time \<Rightarrow> time \<Rightarrow> bool" where
  "isHoldLive status expiresAt now \<longleftrightarrow> status = SeatHoldStatus.ACTIVE \<and> now < expiresAt"

definition canReleaseHold :: "SeatHoldStatus \<Rightarrow> bool" where
  "canReleaseHold status \<longleftrightarrow> status = SeatHoldStatus.ACTIVE"

definition isTerminalHoldStatus :: "SeatHoldStatus \<Rightarrow> bool" where
  "isTerminalHoldStatus status \<longleftrightarrow> status = SeatHoldStatus.RELEASED \<or> status = SeatHoldStatus.EXPIRED
     \<or> status = SeatHoldStatus.CONVERTED"

definition holdSecondsRemaining :: "SeatHoldStatus \<Rightarrow> time \<Rightarrow> time \<Rightarrow> int" where
  "holdSecondsRemaining status expiresAt now =
     (if status \<noteq> SeatHoldStatus.ACTIVE then 0 else max 0 ((expiresAt - now) div 1000))"

lemma hold_trichotomy:
  "isTerminalHoldStatus s \<longleftrightarrow> \<not> (isHoldLive s e now \<or> isHoldExpired s e now)"
  "\<not> (isHoldLive s e now \<and> isHoldExpired s e now)"
  by (cases s; auto simp: isTerminalHoldStatus_def isHoldLive_def isHoldExpired_def)+

lemma can_release_iff: "canReleaseHold s \<longleftrightarrow> \<not> isTerminalHoldStatus s"
  by (cases s) (auto simp: canReleaseHold_def isTerminalHoldStatus_def)

lemma seconds_remaining_live: "0 < holdSecondsRemaining s e now \<Longrightarrow> isHoldLive s e now"
  by (auto simp: holdSecondsRemaining_def isHoldLive_def max_def split: if_splits)

section \<open>Eligibility\<close>

datatype SaleBlockReason =
    EVENT_UNAVAILABLE | SESSION_CANCELLED | SESSION_COMPLETED | SESSION_STARTED
  | SALES_ENDED | SALES_NOT_STARTED | SALES_NOT_OPEN | NO_INVENTORY

record SessionSalesEligibilityInput =
  eli_eventStatus :: EventStatus
  eli_sessionStatus :: EventSessionStatus
  eli_sessionStartAt :: time
  eli_salesStartAt :: time
  eli_salesEndAt :: time
  eli_hasInventory :: bool

text \<open>\<open>None\<close> is \<open>{ sellable: true }\<close>; the reason's display message is not modelled.\<close>

definition evaluateSessionSalesEligibility ::
  "SessionSalesEligibilityInput \<Rightarrow> time \<Rightarrow> SaleBlockReason option" where
  "evaluateSessionSalesEligibility input now =
     (if eli_eventStatus input \<noteq> EventStatus.PUBLISHED then Some EVENT_UNAVAILABLE
      else if eli_sessionStatus input = EventSessionStatus.CANCELLED then Some SESSION_CANCELLED
      else if eli_sessionStatus input = EventSessionStatus.COMPLETED then Some SESSION_COMPLETED
      else if eli_sessionStartAt input \<le> now then Some SESSION_STARTED
      else if eli_salesEndAt input \<le> now then Some SALES_ENDED
      else if now < eli_salesStartAt input then Some SALES_NOT_STARTED
      else if eli_sessionStatus input \<noteq> EventSessionStatus.ON_SALE then Some SALES_NOT_OPEN
      else if \<not> eli_hasInventory input then Some NO_INVENTORY
      else None)"

definition isSessionSellable :: "SessionSalesEligibilityInput \<Rightarrow> time \<Rightarrow> bool" where
  "isSessionSellable input now \<longleftrightarrow> evaluateSessionSalesEligibility input now = None"

lemma sellable_iff:
  "isSessionSellable input now \<longleftrightarrow>
     eli_eventStatus input = EventStatus.PUBLISHED \<and> eli_sessionStatus input = EventSessionStatus.ON_SALE
     \<and> eli_salesStartAt input \<le> now \<and> now < eli_salesEndAt input \<and> now < eli_sessionStartAt input
     \<and> eli_hasInventory input"
  by (cases "eli_sessionStatus input") (auto simp: isSessionSellable_def evaluateSessionSalesEligibility_def)

fun sale_block_code :: "SaleBlockReason \<Rightarrow> string" where
  "sale_block_code EVENT_UNAVAILABLE = ''EVENT_UNAVAILABLE''"
| "sale_block_code SESSION_CANCELLED = ''SESSION_CANCELLED''"
| "sale_block_code SESSION_COMPLETED = ''SESSION_COMPLETED''"
| "sale_block_code SESSION_STARTED = ''SESSION_STARTED''"
| "sale_block_code SALES_ENDED = ''SALES_ENDED''"
| "sale_block_code SALES_NOT_STARTED = ''SALES_NOT_STARTED''"
| "sale_block_code SALES_NOT_OPEN = ''SALES_NOT_OPEN''"
| "sale_block_code NO_INVENTORY = ''NO_INVENTORY''"

section \<open>Idempotency\<close>

definition seatSelectionsMatch :: "ident list \<Rightarrow> ident list \<Rightarrow> bool" where
  "seatSelectionsMatch first second =
     (if length first \<noteq> length second then False
      else list_all (List.member first) second)"

text \<open>On selections without repetition the test is equality of sets.\<close>

lemma selections_match_iff:
  assumes "distinct first" "distinct second"
  shows "seatSelectionsMatch first second \<longleftrightarrow> set first = set second"
proof -
  have "length first = length second \<longleftrightarrow> card (set first) = card (set second)"
    using assms by (simp add: distinct_card)
  moreover have "card (set first) = card (set second) \<Longrightarrow> set second \<subseteq> set first \<longleftrightarrow> set first = set second"
    by (metis List.finite_set card_subset_eq order_refl)
  moreover have "list_all (List.member first) second \<longleftrightarrow> set second \<subseteq> set first"
    by (auto simp: list_all_iff)
  ultimately show ?thesis
    by (auto simp: seatSelectionsMatch_def)
qed

lemma selections_match_permuted:
  "mset first = mset second \<Longrightarrow> seatSelectionsMatch first second"
  by (auto simp: seatSelectionsMatch_def list_all_iff dest: mset_eq_setD mset_eq_length)

section \<open>Configuration and requests\<close>

record HoldConfiguration =
  cfg_holdDurationMs :: int
  cfg_maxSeatsPerHold :: nat
  cfg_sweepBatchSize :: nat

definition DEFAULT_HOLD_CONFIGURATION :: HoldConfiguration where
  "DEFAULT_HOLD_CONFIGURATION =
     \<lparr>cfg_holdDurationMs = 10 * 60 * 1000, cfg_maxSeatsPerHold = 8, cfg_sweepBatchSize = 100\<rparr>"

text \<open>
  A schema parses a string to its trimmed value or fails (\<open>None\<close>): \<open>identifier\<close> (\<open>identifierSchema\<close>),
  \<open>idempotencyKeySchema\<close> and \<open>holdTokenSchema\<close>.
\<close>

definition bounded_string :: "nat \<Rightarrow> nat \<Rightarrow> (char \<Rightarrow> bool) \<Rightarrow> string \<Rightarrow> string option" where
  "bounded_string lo hi ok raw =
     (let s = js_trim raw
      in if lo \<le> length s \<and> length s \<le> hi \<and> list_all ok s then Some s else None)"

definition identifierSchema :: "string \<Rightarrow> ident option" where
  "identifierSchema = bounded_string 1 191 (\<lambda>_. True)"

definition idempotencyKeySchema :: "string \<Rightarrow> string option" where
  "idempotencyKeySchema =
     bounded_string 8 191 (\<lambda>c. (url_safe_char c \<or> c = CHR ''.'' \<or> c = CHR '':''))"

definition holdTokenSchema :: "string \<Rightarrow> string option" where
  "holdTokenSchema = bounded_string 20 120 url_safe_char"

fun parse_all :: "('a \<Rightarrow> 'b option) \<Rightarrow> 'a list \<Rightarrow> 'b list option" where
  "parse_all p [] = Some []"
| "parse_all p (x # xs) =
     (case p x of None \<Rightarrow> None
      | Some y \<Rightarrow> (case parse_all p xs of None \<Rightarrow> None | Some ys \<Rightarrow> Some (y # ys)))"

record HoldCreateInput =
  hci_sessionId :: ident
  hci_seatIds :: "ident list"
  hci_idempotencyKey :: string

definition holdCreateInputSchema :: "nat \<Rightarrow> HoldCreateInput \<Rightarrow> HoldCreateInput option" where
  "holdCreateInputSchema maxSeatsPerHold raw =
     (let upperBound = min (max maxSeatsPerHold 1) 20
      in case (identifierSchema (hci_sessionId raw), parse_all identifierSchema (hci_seatIds raw),
               idempotencyKeySchema (hci_idempotencyKey raw)) of
           (Some sessionId, Some seatIds, Some key) \<Rightarrow>
             if 1 \<le> length seatIds \<and> length seatIds \<le> upperBound \<and> js_size seatIds = length seatIds
             then Some \<lparr>hci_sessionId = sessionId, hci_seatIds = seatIds, hci_idempotencyKey = key\<rparr>
             else None
         | _ \<Rightarrow> None)"

lemma hold_input_valid:
  assumes "holdCreateInputSchema n raw = Some input"
  shows "distinct (hci_seatIds input)" "hci_seatIds input \<noteq> []" "length (hci_seatIds input) \<le> 20"
  using assms by (auto simp: holdCreateInputSchema_def Let_def js_size_eq_length split: option.splits if_splits)

end
