(* ===== verification/Hold_Service.thy ===== *)
theory Hold_Service
  imports Transactions Hold_Rules
begin

text \<open>
  Seat holds over the database: src/server/holds/hold-service.ts (acquisition, replay and
  release) and src/server/holds/expiry-service.ts (lazy expiry, cancellation, the batched
  sweep). Row identifiers and public tokens that the source draws at random are arguments.
  The view a customer gets back keeps the fields decided by the hold and its items; the
  titles and labels it also shows are left out.
\<close>

section \<open>Customer view\<close>

record CustomerHoldView =
  hv_publicToken :: string
  hv_status :: SeatHoldStatus
  hv_live :: bool
  hv_expired :: bool
  hv_expiresAt :: time
  hv_secondsRemaining :: int
  hv_totalMinor :: minor
  hv_currency :: Currency
  hv_seatCount :: nat

definition hold_items :: "database \<Rightarrow> ident \<Rightarrow> SeatHoldItem list" where
  "hold_items db holdId = select_rows (\<lambda>item. hitem_holdId item = holdId) (db_holdItems db)"

definition priced_item :: "SeatHoldItem \<Rightarrow> CheckoutPricedItem" where
  "priced_item item = \<lparr>cpi_priceMinor = Integral (hitem_priceMinor item), cpi_currency = hitem_currency item\<rparr>"

text \<open>\<open>calculateHoldTotal\<close> throws a plain error on a hold without items or of mixed currency.\<close>

definition mapHoldToView :: "database \<Rightarrow> SeatHold \<Rightarrow> time \<Rightarrow> service_error + CustomerHoldView" where
  "mapHoldToView db hold now =
     (case calculateHoldTotal (map priced_item (hold_items db (hold_id hold))) of
        Inl _ \<Rightarrow> Inl (PlainError ''hold total'')
      | Inr t \<Rightarrow> Inr \<lparr>
          hv_publicToken = hold_publicToken hold,
          hv_status = hold_status hold,
          hv_live = isHoldLive (hold_status hold) (hold_expiresAt hold) now,
          hv_expired = isHoldExpired (hold_status hold) (hold_expiresAt hold) now,
          hv_expiresAt = hold_expiresAt hold,
          hv_secondsRemaining = holdSecondsRemaining (hold_status hold) (hold_expiresAt hold) now,
          hv_totalMinor = ht_totalMinor t,
          hv_currency = ht_currency t,
          hv_seatCount = ht_seatCount t\<rparr>)"

definition find_hold :: "database \<Rightarrow> ident \<Rightarrow> SeatHold option" where
  "find_hold db holdId = find_row (\<lambda>h. hold_id h = holdId) (db_holds db)"

definition loadCustomerHoldView :: "database \<Rightarrow> ident \<Rightarrow> time \<Rightarrow> service_error + CustomerHoldView option" where
  "loadCustomerHoldView db holdId now =
     (case find_hold db holdId of
        None \<Rightarrow> Inr None
      | Some hold \<Rightarrow> and_then (mapHoldToView db hold now) (\<lambda>view. Inr (Some view)))"

section \<open>Expiry and release of inventory\<close>

definition free_seat :: "SessionSeatInventory \<Rightarrow> SessionSeatInventory" where
  "free_seat seat =
     seat\<lparr>inv_state := SeatInventoryState.AVAILABLE, inv_currentHoldId := None, inv_holdExpiresAt := None\<rparr>"

definition points_at :: "ident list \<Rightarrow> SessionSeatInventory \<Rightarrow> bool" where
  "points_at holdIds seat \<longleftrightarrow>
     (case inv_currentHoldId seat of None \<Rightarrow> False | Some h \<Rightarrow> List.member holdIds h)"

text \<open>The updated database and the number of rows freed.\<close>

definition releaseInventoryForHolds :: "ident list \<Rightarrow> database \<Rightarrow> database \<times> nat" where
  "releaseInventoryForHolds holdIds db =
     (if holdIds = [] then (db, 0)
      else (db\<lparr>db_inventory := update_rows (points_at holdIds) free_seat (db_inventory db)\<rparr>,
            length (select_rows (points_at holdIds) (db_inventory db))))"

definition overdue :: "time \<Rightarrow> SeatHold \<Rightarrow> bool" where
  "overdue now h \<longleftrightarrow> hold_status h = SeatHoldStatus.ACTIVE \<and> hold_expiresAt h \<le> now"

definition expire_hold :: "time \<Rightarrow> SeatHold \<Rightarrow> SeatHold" where
  "expire_hold now h = h\<lparr>hold_status := SeatHoldStatus.EXPIRED, hold_expiredAt := Some now\<rparr>"

definition release_hold :: "time \<Rightarrow> SeatHold \<Rightarrow> SeatHold" where
  "release_hold now h = h\<lparr>hold_status := SeatHoldStatus.RELEASED, hold_releasedAt := Some now\<rparr>"

definition releaseExpiredHoldsForSession :: "ident \<Rightarrow> time \<Rightarrow> nat tx" where
  "releaseExpiredHoldsForSession sessionId now db =
     (let hit = (\<lambda>h. hold_sessionId h = sessionId \<and> overdue now h);
          expired = map hold_id (select_rows hit (db_holds db));
          db1 = db\<lparr>db_holds := update_rows hit (expire_hold now) (db_holds db)\<rparr>;
          (db2, _) = releaseInventoryForHolds expired db1
      in and_then (enqueueExpiredHoldEvents sessionId expired now db2)
           (\<lambda>db3. Inr (db3, length expired)))"

definition releaseActiveHoldsForSession :: "ident \<Rightarrow> time \<Rightarrow> database \<Rightarrow> database \<times> nat" where
  "releaseActiveHoldsForSession sessionId now db =
     (let hit = (\<lambda>h. hold_sessionId h = sessionId \<and> hold_status h = SeatHoldStatus.ACTIVE);
          released = map hold_id (select_rows hit (db_holds db));
          db1 = db\<lparr>db_holds := update_rows hit (release_hold now) (db_holds db)\<rparr>;
          (db2, _) = releaseInventoryForHolds released db1
      in (db2, length released))"

text \<open>
  One batch of the sweep: the \<open>batchSize\<close> overdue holds that expire first (rows that another
  sweeper has locked are skipped; alone, none is), their seats, and one event per hold.
\<close>

fun enqueue_swept :: "SeatHold list \<Rightarrow> time \<Rightarrow> database \<Rightarrow> service_error + database" where
  "enqueue_swept [] now db = Inr db"
| "enqueue_swept (h # hs) now db =
     and_then (enqueueExpiredHoldEvents (hold_sessionId h) [hold_id h] now db) (enqueue_swept hs now)"

definition sweep_batch :: "time \<Rightarrow> nat \<Rightarrow> (nat \<times> nat) tx" where
  "sweep_batch now batchSize db =
     (let claimed = take batchSize (sort_key hold_expiresAt (select_rows (overdue now) (db_holds db)))
      in if claimed = [] then Inr (db, 0, 0)
         else
           let ids = map hold_id claimed;
               hit = (\<lambda>h. List.member ids (hold_id h) \<and> hold_status h = SeatHoldStatus.ACTIVE);
               db1 = db\<lparr>db_holds := update_rows hit (expire_hold now) (db_holds db)\<rparr>;
               (db2, seats) = releaseInventoryForHolds ids db1
           in and_then (enqueue_swept claimed now db2)
                (\<lambda>db3. Inr (db3, length (select_rows hit (db_holds db)), seats)))"

record ExpirySweepResult =
  swp_holdsExpired :: nat
  swp_seatsReleased :: nat
  swp_batches :: nat

text \<open>
  The loop over batches. \<open>fuel\<close> bounds the recursion: \<open>None\<close> is a loop that has not ended
  within it; Hold_Sweep shows that one batch more than the number of overdue holds is
  always enough. \<open>maxBatches\<close> is \<open>None\<close> for the source's infinite default.
\<close>

fun sweep_loop ::
  "nat \<Rightarrow> time \<Rightarrow> nat \<Rightarrow> nat option \<Rightarrow> ExpirySweepResult \<Rightarrow> database
     \<Rightarrow> (database \<times> (service_error + ExpirySweepResult)) option" where
  "sweep_loop 0 now batchSize maxBatches acc db = None"
| "sweep_loop (Suc fuel) now batchSize maxBatches acc db =
     (if (case maxBatches of None \<Rightarrow> False | Some n \<Rightarrow> n \<le> swp_batches acc) then Some (db, Inr acc)
      else case transact (sweep_batch now batchSize) db of
             (db', Inl e) \<Rightarrow> Some (db', Inl e)
           | (db', Inr (holds, seats)) \<Rightarrow>
               if holds = 0 then Some (db', Inr acc)
               else sweep_loop fuel now batchSize maxBatches
                      \<lparr>swp_holdsExpired = swp_holdsExpired acc + holds,
                       swp_seatsReleased = swp_seatsReleased acc + seats,
                       swp_batches = swp_batches acc + 1\<rparr> db')"

definition sweepExpiredHolds ::
  "nat \<Rightarrow> time \<Rightarrow> nat \<Rightarrow> nat option \<Rightarrow> database \<Rightarrow> (database \<times> (service_error + ExpirySweepResult)) option" where
  "sweepExpiredHolds fuel now batchSize maxBatches db =
     sweep_loop fuel now batchSize maxBatches
       \<lparr>swp_holdsExpired = 0, swp_seatsReleased = 0, swp_batches = 0\<rparr> db"

section \<open>Acquisition\<close>

record AcquiredHold =
  acq_hold :: CustomerHoldView
  acq_replayed :: bool

definition inventory_seat :: "database \<Rightarrow> ident \<Rightarrow> ident option" where
  "inventory_seat db inventoryId =
     map_option inv_seatId (find_row (\<lambda>i. inv_id i = inventoryId) (db_inventory db))"

definition held_seat_ids :: "database \<Rightarrow> ident \<Rightarrow> ident list" where
  "held_seat_ids db holdId = List.map_filter (inventory_seat db \<circ> hitem_inventoryId) (hold_items db holdId)"

definition same_hold_key :: "ident \<Rightarrow> ident \<Rightarrow> string \<Rightarrow> SeatHold \<Rightarrow> bool" where
  "same_hold_key sessionId userId key h \<longleftrightarrow>
     hold_sessionId h = sessionId \<and> hold_userId h = userId \<and> hold_idempotencyKey h = key"

definition tryIdempotentReplay ::
  "database \<Rightarrow> HoldCreateInput \<Rightarrow> ident \<Rightarrow> time \<Rightarrow> service_error + AcquiredHold option" where
  "tryIdempotentReplay db input userId now =
     (case find_row (same_hold_key (hci_sessionId input) userId (hci_idempotencyKey input)) (db_holds db) of
        None \<Rightarrow> Inr None
      | Some existing \<Rightarrow>
          if \<not> seatSelectionsMatch (held_seat_ids db (hold_id existing)) (hci_seatIds input)
          then Inl HoldConflictError
          else and_then (mapHoldToView db existing now)
                 (\<lambda>view. Inr (Some \<lparr>acq_hold = view, acq_replayed = True\<rparr>)))"

text \<open>
  \<open>seatHold.create\<close> under the unique indexes of the table: the primary key, the public token,
  (session, user, idempotency key), and one ACTIVE hold per user and session.
\<close>

definition create_hold :: "SeatHold \<Rightarrow> database \<Rightarrow> service_error + database" where
  "create_hold hold db =
     (if list_ex (\<lambda>h. hold_id h = hold_id hold) (db_holds db) then Inl (UniqueViolation ''id'')
      else if list_ex (\<lambda>h. hold_publicToken h = hold_publicToken hold) (db_holds db)
      then Inl (UniqueViolation ''publicToken'')
      else if list_ex (same_hold_key (hold_sessionId hold) (hold_userId hold) (hold_idempotencyKey hold)) (db_holds db)
      then Inl (UniqueViolation ''idempotencyKey'')
      else if hold_status hold = SeatHoldStatus.ACTIVE \<and>
              list_ex (\<lambda>h. hold_status h = SeatHoldStatus.ACTIVE \<and> hold_userId h = hold_userId hold
                          \<and> hold_sessionId h = hold_sessionId hold) (db_holds db)
      then Inl (UniqueViolation ''one_active_per_user_session'')
      else Inr (db\<lparr>db_holds := insert_row hold (db_holds db)\<rparr>))"

definition new_hold :: "ident \<Rightarrow> string \<Rightarrow> HoldCreateInput \<Rightarrow> ident \<Rightarrow> time \<Rightarrow> SeatHold" where
  "new_hold holdId token input userId expiresAt =
     \<lparr>hold_id = holdId, hold_publicToken = token, hold_sessionId = hci_sessionId input,
      hold_userId = userId, hold_status = SeatHoldStatus.ACTIVE,
      hold_idempotencyKey = hci_idempotencyKey input, hold_expiresAt = expiresAt,
      hold_releasedAt = None, hold_expiredAt = None, hold_convertedAt = None\<rparr>"

definition claim_seat :: "ident \<Rightarrow> time \<Rightarrow> SessionSeatInventory \<Rightarrow> SessionSeatInventory" where
  "claim_seat holdId expiresAt seat =
     seat\<lparr>inv_state := SeatInventoryState.HELD, inv_currentHoldId := Some holdId,
          inv_holdExpiresAt := Some expiresAt\<rparr>"

definition hold_item :: "ident \<Rightarrow> SessionSeatInventory \<Rightarrow> SeatHoldItem" where
  "hold_item holdId seat =
     \<lparr>hitem_holdId = holdId, hitem_inventoryId = inv_id seat,
      hitem_priceMinor = inv_priceMinor seat, hitem_currency = inv_currency seat\<rparr>"

definition find_session :: "database \<Rightarrow> ident \<Rightarrow> EventSession option" where
  "find_session db sessionId = find_row (\<lambda>s. ses_id s = sessionId) (db_sessions db)"

definition find_event :: "database \<Rightarrow> ident \<Rightarrow> Event option" where
  "find_event db eventId = find_row (\<lambda>e. ev_id e = eventId) (db_events db)"

definition lock_rows :: "database \<Rightarrow> ident \<Rightarrow> ident list \<Rightarrow> SessionSeatInventory list" where
  "lock_rows db sessionId seatIds =
     sort_key inv_seatId
       (select_rows (\<lambda>i. inv_sessionId i = sessionId \<and> List.member seatIds (inv_seatId i)) (db_inventory db))"

text \<open>
  The part of the transaction after the eligibility test: the checks on the locked rows and
  the creation of the hold (\<open>claim_seats\<close>), then the conditional update of the rows, the hold
  items and the event (\<open>write_claims\<close>).
\<close>

definition claims :: "SessionSeatInventory list \<Rightarrow> SessionSeatInventory \<Rightarrow> bool" where
  "claims locked i \<longleftrightarrow> List.member (map inv_id locked) (inv_id i) \<and> inv_state i = SeatInventoryState.AVAILABLE"

definition write_claims :: "SeatHold \<Rightarrow> time \<Rightarrow> SessionSeatInventory list \<Rightarrow> ident tx" where
  "write_claims hold now locked db =
     (if length (select_rows (claims locked) (db_inventory db)) \<noteq> length (map inv_id locked)
      then Inl HoldConflictError
      else
        let db1 = db\<lparr>db_inventory :=
                       update_rows (claims locked) (claim_seat (hold_id hold) (hold_expiresAt hold)) (db_inventory db),
                     db_holdItems := db_holdItems db @ map (hold_item (hold_id hold)) locked\<rparr>
        in and_then (enqueueInventoryEvent InventoryEventType.HOLD_CREATED (hold_sessionId hold)
                       (Some (hold_id hold)) (''hold-created:'' @ hold_id hold) now db1)
             (\<lambda>db2. Inr (db2, hold_id hold)))"

definition claim_seats ::
  "HoldConfiguration \<Rightarrow> HoldCreateInput \<Rightarrow> ident \<Rightarrow> ident \<Rightarrow> string \<Rightarrow> time
     \<Rightarrow> SessionSeatInventory list \<Rightarrow> ident tx" where
  "claim_seats config input userId holdId token now locked db =
     (let hold = new_hold holdId token input userId (now + cfg_holdDurationMs config)
      in if length locked \<noteq> length (hci_seatIds input) then Inl HoldValidationError
         else if list_ex (\<lambda>row. inv_state row \<noteq> SeatInventoryState.AVAILABLE) locked then Inl HoldConflictError
         else and_then (create_hold hold db) (write_claims hold now locked))"

definition eligibility_input ::
  "database \<Rightarrow> EventSession \<Rightarrow> Event \<Rightarrow> SessionSalesEligibilityInput" where
  "eligibility_input db ses ev =
     \<lparr>eli_eventStatus = ev_status ev, eli_sessionStatus = ses_status ses,
      eli_sessionStartAt = ses_startAt ses, eli_salesStartAt = ses_salesStartAt ses,
      eli_salesEndAt = ses_salesEndAt ses,
      eli_hasInventory = list_ex (\<lambda>i. inv_sessionId i = ses_id ses) (db_inventory db)\<rparr>"

definition acquire_transaction ::
  "HoldConfiguration \<Rightarrow> HoldCreateInput \<Rightarrow> ident \<Rightarrow> ident \<Rightarrow> string \<Rightarrow> time \<Rightarrow> ident tx" where
  "acquire_transaction config input userId holdId token now db =
     and_then (releaseExpiredHoldsForSession (hci_sessionId input) now db) (\<lambda>(db1, _).
       let locked = lock_rows db1 (hci_sessionId input) (hci_seatIds input)
       in case find_session db1 (hci_sessionId input) of
            None \<Rightarrow> Inl HoldValidationError
          | Some ses \<Rightarrow>
              (case find_event db1 (ses_eventId ses) of
                 None \<Rightarrow> Inl RecordNotFound
               | Some ev \<Rightarrow>
                   (case evaluateSessionSalesEligibility (eligibility_input db1 ses ev) now of
                      Some reason \<Rightarrow> Inl (HoldEligibilityError (sale_block_code reason))
                    | None \<Rightarrow> claim_seats config input userId holdId token now locked db1)))"

text \<open>
  The whole handler. \<open>seen\<close> is the database the replay test read before the transaction
  began; \<open>db\<close> is the one the transaction finds.
\<close>

definition acquireSeatHold ::
  "HoldConfiguration \<Rightarrow> ident \<Rightarrow> HoldCreateInput \<Rightarrow> time \<Rightarrow> ident \<Rightarrow> string \<Rightarrow> database \<Rightarrow> database
     \<Rightarrow> database \<times> (service_error + AcquiredHold)" where
  "acquireSeatHold config userId rawInput now holdId token seen db =
     (if userId = [] then (db, Inl HoldAuthenticationError)
      else case holdCreateInputSchema (cfg_maxSeatsPerHold config) rawInput of
             None \<Rightarrow> (db, Inl HoldValidationError)
           | Some input \<Rightarrow>
               (case tryIdempotentReplay seen input userId now of
                  Inl e \<Rightarrow> (db, Inl e)
                | Inr (Some replay) \<Rightarrow> (db, Inr replay)
                | Inr None \<Rightarrow>
                    (case transact (acquire_transaction config input userId holdId token now) db of
                       (db', Inl e) \<Rightarrow>
                         if e = UniqueViolation ''idempotencyKey'' then
                           (case tryIdempotentReplay db' input userId now of
                              Inl e' \<Rightarrow> (db', Inl e')
                            | Inr (Some replayed) \<Rightarrow> (db', Inr replayed)
                            | Inr None \<Rightarrow> (db', Inl HoldConflictError))
                         else if e = UniqueViolation ''one_active_per_user_session''
                         then (db', Inl HoldConflictError)
                         else (db', Inl e)
                     | (db', Inr newId) \<Rightarrow>
                         (case loadCustomerHoldView db' newId now of
                            Inl e \<Rightarrow> (db', Inl e)
                          | Inr None \<Rightarrow> (db', Inl HoldConflictError)
                          | Inr (Some view) \<Rightarrow> (db', Inr \<lparr>acq_hold = view, acq_replayed = False\<rparr>)))))"

section \<open>Release\<close>

record ReleasedHold =
  rel_hold :: CustomerHoldView
  rel_released :: bool

text \<open>\<open>seen\<close> is the database in which the hold was looked up by its token.\<close>

definition release_transaction :: "SeatHold \<Rightarrow> time \<Rightarrow> bool tx" where
  "release_transaction hold now db =
     (let hit = (\<lambda>h. hold_id h = hold_id hold \<and> hold_status h = SeatHoldStatus.ACTIVE)
      in if length (select_rows hit (db_holds db)) = 1 then
           let db1 = db\<lparr>db_holds := update_rows hit (release_hold now) (db_holds db),
                        db_inventory := update_rows (points_at [hold_id hold]) free_seat (db_inventory db)\<rparr>
           in and_then (enqueueInventoryEvent InventoryEventType.HOLD_RELEASED (hold_sessionId hold)
                          (Some (hold_id hold)) (''hold-released:'' @ hold_id hold) now db1)
                (\<lambda>db2. Inr (db2, True))
         else Inr (db, False))"

definition releaseSeatHold ::
  "ident \<Rightarrow> string \<Rightarrow> time \<Rightarrow> database \<Rightarrow> database \<Rightarrow> database \<times> (service_error + ReleasedHold)" where
  "releaseSeatHold userId rawToken now seen db =
     (if userId = [] then (db, Inl HoldAuthenticationError)
      else case holdTokenSchema rawToken of
             None \<Rightarrow> (db, Inl HoldValidationError)
           | Some token \<Rightarrow>
               (case find_row (\<lambda>h. hold_publicToken h = token) (db_holds seen) of
                  None \<Rightarrow> (db, Inl HoldAuthorizationError)
                | Some hold \<Rightarrow>
                    if hold_userId hold \<noteq> userId then (db, Inl HoldAuthorizationError)
                    else
                      let (db', outcome) =
                        (if hold_status hold = SeatHoldStatus.ACTIVE
                         then transact (release_transaction hold now) db else (db, Inr False))
                      in (case outcome of
                            Inl e \<Rightarrow> (db', Inl e)
                          | Inr released \<Rightarrow>
                              (case loadCustomerHoldView db' (hold_id hold) now of
                                 Inl e \<Rightarrow> (db', Inl e)
                               | Inr None \<Rightarrow> (db', Inl HoldAuthorizationError)
                               | Inr (Some view) \<Rightarrow> (db', Inr \<lparr>rel_hold = view, rel_released = released\<rparr>)))))"

end
