(* ===== verification/Hold_Invariant.thy ===== *)
theory Hold_Invariant
  imports Hold_Service
begin

text \<open>
  The invariant of inventory, holds and hold items, and its preservation by every operation
  of Hold_Service. All operations reduce to two rewritings of the three tables: some ACTIVE
  holds become terminal and the seats that point at them are let go (\<open>holds_core_settle\<close>), or
  a fresh ACTIVE hold claims available seats (\<open>holds_core_claim\<close>).
\<close>

section \<open>The invariant\<close>

definition hold_lifecycle :: "SeatHold \<Rightarrow> bool" where
  "hold_lifecycle h \<longleftrightarrow>
     (case hold_status h of
        SeatHoldStatus.ACTIVE \<Rightarrow> hold_releasedAt h = None \<and> hold_expiredAt h = None \<and> hold_convertedAt h = None
      | SeatHoldStatus.RELEASED \<Rightarrow> hold_releasedAt h \<noteq> None \<and> hold_expiredAt h = None \<and> hold_convertedAt h = None
      | SeatHoldStatus.EXPIRED \<Rightarrow> hold_releasedAt h = None \<and> hold_expiredAt h \<noteq> None \<and> hold_convertedAt h = None
      | SeatHoldStatus.CONVERTED \<Rightarrow> hold_releasedAt h = None \<and> hold_expiredAt h = None \<and> hold_convertedAt h \<noteq> None)"

text \<open>What a seat points at: a held seat at an ACTIVE hold of its session, whose item it is.\<close>

definition seat_link :: "SeatHold list \<Rightarrow> SeatHoldItem list \<Rightarrow> SessionSeatInventory \<Rightarrow> bool" where
  "seat_link holds items i \<longleftrightarrow>
     (if inv_state i = SeatInventoryState.HELD then
        (\<exists>h\<in>set holds. hold_status h = SeatHoldStatus.ACTIVE \<and> inv_currentHoldId i = Some (hold_id h)
           \<and> inv_holdExpiresAt i = Some (hold_expiresAt h) \<and> hold_sessionId h = inv_sessionId i
           \<and> (\<exists>t\<in>set items. hitem_holdId t = hold_id h \<and> hitem_inventoryId t = inv_id i))
      else inv_currentHoldId i = None \<and> inv_holdExpiresAt i = None)"

text \<open>What an item records: the price snapshot of a seat of the hold's session, held while the hold is ACTIVE.\<close>

definition item_link :: "SessionSeatInventory list \<Rightarrow> SeatHold list \<Rightarrow> SeatHoldItem \<Rightarrow> bool" where
  "item_link seats holds t \<longleftrightarrow>
     (\<exists>i\<in>set seats. inv_id i = hitem_inventoryId t \<and> inv_priceMinor i = hitem_priceMinor t
        \<and> inv_currency i = hitem_currency t
        \<and> (\<exists>h\<in>set holds. hold_id h = hitem_holdId t \<and> hold_sessionId h = inv_sessionId i
             \<and> (hold_status h = SeatHoldStatus.ACTIVE \<longrightarrow>
                  inv_state i = SeatInventoryState.HELD \<and> inv_currentHoldId i = Some (hold_id h))))"

definition inventory_ok :: "SessionSeatInventory list \<Rightarrow> bool" where
  "inventory_ok seats \<longleftrightarrow>
     distinct (map inv_id seats) \<and> distinct (map (\<lambda>i. (inv_sessionId i, inv_seatId i)) seats)
     \<and> (\<forall>i\<in>set seats. 0 \<le> inv_priceMinor i)
     \<and> (\<forall>i\<in>set seats. \<forall>j\<in>set seats. inv_sessionId i = inv_sessionId j \<longrightarrow> inv_currency i = inv_currency j)"

definition hold_key :: "SeatHold \<Rightarrow> ident \<times> ident \<times> string" where
  "hold_key h = (hold_sessionId h, hold_userId h, hold_idempotencyKey h)"

definition hold_table_ok :: "SeatHold list \<Rightarrow> bool" where
  "hold_table_ok holds \<longleftrightarrow>
     distinct (map hold_id holds) \<and> distinct (map hold_publicToken holds) \<and> distinct (map hold_key holds)
     \<and> (\<forall>h\<in>set holds. hold_lifecycle h)
     \<and> (\<forall>h\<in>set holds. \<forall>h'\<in>set holds. hold_status h = SeatHoldStatus.ACTIVE \<longrightarrow> hold_status h' = SeatHoldStatus.ACTIVE
          \<longrightarrow> hold_userId h = hold_userId h' \<longrightarrow> hold_sessionId h = hold_sessionId h' \<longrightarrow> hold_id h = hold_id h')"

definition holds_core :: "SessionSeatInventory list \<Rightarrow> SeatHold list \<Rightarrow> SeatHoldItem list \<Rightarrow> bool" where
  "holds_core seats holds items \<longleftrightarrow>
     inventory_ok seats \<and> hold_table_ok holds
     \<and> (\<forall>i\<in>set seats. seat_link holds items i)
     \<and> (\<forall>t\<in>set items. item_link seats holds t)
     \<and> (\<forall>h\<in>set holds. \<exists>t\<in>set items. hitem_holdId t = hold_id h)"

text \<open>The outbox knows only holds that exist, and an expiry or a release only of such a hold.\<close>

definition hold_events_ok :: "SeatHold list \<Rightarrow> string list \<Rightarrow> bool" where
  "hold_events_ok holds keys \<longleftrightarrow>
     (\<forall>x. ''hold-created:'' @ x \<in> set keys \<longrightarrow> x \<in> hold_id ` set holds)
     \<and> (\<forall>x. ''hold-released:'' @ x \<in> set keys \<longrightarrow>
          (\<exists>h\<in>set holds. hold_id h = x \<and> hold_status h = SeatHoldStatus.RELEASED))
     \<and> (\<forall>x. ''hold-expired:'' @ x \<in> set keys \<longrightarrow>
          (\<exists>h\<in>set holds. hold_id h = x \<and> hold_status h = SeatHoldStatus.EXPIRED))"

definition holds_ok :: "database \<Rightarrow> bool" where
  "holds_ok db \<longleftrightarrow>
     holds_core (db_inventory db) (db_holds db) (db_holdItems db)
     \<and> hold_events_ok (db_holds db) (outbox_keys db)"

lemma holds_coreD:
  assumes "holds_core seats holds items"
  shows "inventory_ok seats" "hold_table_ok holds"
    "i \<in> set seats \<Longrightarrow> seat_link holds items i"
    "t \<in> set items \<Longrightarrow> item_link seats holds t"
    "h \<in> set holds \<Longrightarrow> \<exists>t\<in>set items. hitem_holdId t = hold_id h"
  using assms by (simp_all add: holds_core_def)

lemma hold_id_inj:
  "hold_table_ok holds \<Longrightarrow> h \<in> set holds \<Longrightarrow> h' \<in> set holds \<Longrightarrow> hold_id h = hold_id h' \<Longrightarrow> h = h'"
  by (auto simp: hold_table_ok_def distinct_map dest: inj_onD)

lemma inv_id_inj:
  "inventory_ok seats \<Longrightarrow> i \<in> set seats \<Longrightarrow> j \<in> set seats \<Longrightarrow> inv_id i = inv_id j \<Longrightarrow> i = j"
  by (auto simp: inventory_ok_def distinct_map dest: inj_onD)

section \<open>Settling holds\<close>

text \<open>A rewriting of seats that drops the hold and keeps identity and price.\<close>

definition lets_go :: "(SessionSeatInventory \<Rightarrow> SessionSeatInventory) \<Rightarrow> bool" where
  "lets_go g \<longleftrightarrow> (\<forall>i. inv_id (g i) = inv_id i \<and> inv_sessionId (g i) = inv_sessionId i
     \<and> inv_seatId (g i) = inv_seatId i \<and> inv_priceMinor (g i) = inv_priceMinor i
     \<and> inv_currency (g i) = inv_currency i
     \<and> inv_state (g i) \<noteq> SeatInventoryState.HELD \<and> inv_currentHoldId (g i) = None \<and> inv_holdExpiresAt (g i) = None)"

text \<open>A rewriting of holds that makes an ACTIVE one terminal and keeps its identity.\<close>

definition settles :: "(SeatHold \<Rightarrow> SeatHold) \<Rightarrow> bool" where
  "settles f \<longleftrightarrow> (\<forall>h. hold_id (f h) = hold_id h \<and> hold_publicToken (f h) = hold_publicToken h
     \<and> hold_key (f h) = hold_key h \<and> hold_expiresAt (f h) = hold_expiresAt h
     \<and> hold_status (f h) \<noteq> SeatHoldStatus.ACTIVE
     \<and> (hold_status h = SeatHoldStatus.ACTIVE \<longrightarrow> hold_lifecycle h \<longrightarrow> hold_lifecycle (f h)))"

lemma free_seat_simps [simp]:
  "inv_id (free_seat i) = inv_id i" "inv_sessionId (free_seat i) = inv_sessionId i"
  "inv_seatId (free_seat i) = inv_seatId i" "inv_state (free_seat i) = SeatInventoryState.AVAILABLE"
  "inv_currentHoldId (free_seat i) = None" "inv_holdExpiresAt (free_seat i) = None"
  by (simp_all add: free_seat_def)

lemma hold_change_simps [simp]:
  "hold_id (expire_hold now h) = hold_id h" "hold_id (release_hold now h) = hold_id h"
  "hold_sessionId (expire_hold now h) = hold_sessionId h" "hold_sessionId (release_hold now h) = hold_sessionId h"
  "hold_status (expire_hold now h) = SeatHoldStatus.EXPIRED" "hold_status (release_hold now h) = SeatHoldStatus.RELEASED"
  by (simp_all add: expire_hold_def release_hold_def)

lemma lets_go_free: "lets_go free_seat"
  by (simp add: lets_go_def free_seat_def)

lemma settles_expire: "settles (expire_hold now)"
  by (auto simp: settles_def expire_hold_def hold_key_def hold_lifecycle_def)

lemma settles_release: "settles (release_hold now)"
  by (auto simp: settles_def release_hold_def hold_key_def hold_lifecycle_def)

lemma points_at_iff: "points_at ids i \<longleftrightarrow> (\<exists>h\<in>set ids. inv_currentHoldId i = Some h)"
  by (auto simp: points_at_def split: option.splits)

lemma mem_update_rows: "x \<in> set (update_rows P f t) \<longleftrightarrow> (\<exists>r\<in>set t. x = (if P r then f r else r))"
  by (auto simp: update_rows_def)

lemma update_rows_mem:
  "x \<in> set (update_rows P f t) \<longleftrightarrow> (\<exists>r\<in>set t. P r \<and> x = f r) \<or> x \<in> set t \<and> \<not> P x"
  by (auto simp: update_rows_def)

lemma map_update_rows: "(\<And>r. key (f r) = key r) \<Longrightarrow> map key (update_rows P f t) = map key t"
  by (simp add: update_rows_def)

lemma inventory_ok_update:
  assumes "inventory_ok seats"
    and "\<And>i. inv_id (g i) = inv_id i \<and> inv_sessionId (g i) = inv_sessionId i \<and> inv_seatId (g i) = inv_seatId i
           \<and> inv_priceMinor (g i) = inv_priceMinor i \<and> inv_currency (g i) = inv_currency i"
  shows "inventory_ok (update_rows P g seats)"
proof -
  have "map inv_id (update_rows P g seats) = map inv_id seats"
    "map (\<lambda>i. (inv_sessionId i, inv_seatId i)) (update_rows P g seats) = map (\<lambda>i. (inv_sessionId i, inv_seatId i)) seats"
    using assms(2) by (simp_all add: map_update_rows)
  moreover have "\<forall>x\<in>set (update_rows P g seats). \<exists>i\<in>set seats. inv_sessionId x = inv_sessionId i
      \<and> inv_currency x = inv_currency i \<and> inv_priceMinor x = inv_priceMinor i"
  proof
    fix x assume "x \<in> set (update_rows P g seats)"
    then obtain i where "i \<in> set seats" "x = (if P i then g i else i)"
      unfolding mem_update_rows by blast
    then show "\<exists>i\<in>set seats. inv_sessionId x = inv_sessionId i
        \<and> inv_currency x = inv_currency i \<and> inv_priceMinor x = inv_priceMinor i"
      by (intro bexI [of _ i]) (simp_all add: assms(2))
  qed
  ultimately show ?thesis
    using assms(1) unfolding inventory_ok_def by metis
qed

lemma hold_table_settle:
  assumes ok: "hold_table_ok holds" and f: "settles f" and hit: "\<And>h. hit h \<Longrightarrow> hold_status h = SeatHoldStatus.ACTIVE"
  shows "hold_table_ok (update_rows hit f holds)"
proof -
  have "map hold_id (update_rows hit f holds) = map hold_id holds"
    "map hold_publicToken (update_rows hit f holds) = map hold_publicToken holds"
    "map hold_key (update_rows hit f holds) = map hold_key holds"
    using f by (simp_all add: map_update_rows settles_def)
  moreover have "\<forall>h\<in>set (update_rows hit f holds). hold_lifecycle h"
  proof
    fix h' assume "h' \<in> set (update_rows hit f holds)"
    then obtain h where h: "h \<in> set holds" "h' = (if hit h then f h else h)"
      unfolding mem_update_rows by blast
    moreover have "hold_lifecycle h" using ok h(1) by (simp add: hold_table_ok_def)
    ultimately show "hold_lifecycle h'" using f hit [of h] by (simp add: settles_def)
  qed
  moreover have active: "h \<in> set holds"
    if "h \<in> set (update_rows hit f holds)" "hold_status h = SeatHoldStatus.ACTIVE" for h
  proof -
    from that(1) obtain r where r: "r \<in> set holds" "h = (if hit r then f r else r)"
      unfolding mem_update_rows by blast
    then show ?thesis using f that(2) by (cases "hit r") (simp_all add: settles_def)
  qed
  moreover from active have "\<forall>h\<in>set (update_rows hit f holds). \<forall>h'\<in>set (update_rows hit f holds).
      hold_status h = SeatHoldStatus.ACTIVE \<longrightarrow> hold_status h' = SeatHoldStatus.ACTIVE
      \<longrightarrow> hold_userId h = hold_userId h' \<longrightarrow> hold_sessionId h = hold_sessionId h' \<longrightarrow> hold_id h = hold_id h'"
    using ok unfolding hold_table_ok_def by blast
  ultimately show ?thesis
    using ok unfolding hold_table_ok_def by simp
qed

theorem holds_core_settle:
  assumes core: "holds_core seats holds items"
    and f: "settles f" and g: "lets_go g"
    and hit: "\<And>h. hit h \<Longrightarrow> hold_status h = SeatHoldStatus.ACTIVE"
    and ids: "\<And>h. h \<in> set holds \<Longrightarrow> hit h \<longleftrightarrow> hold_status h = SeatHoldStatus.ACTIVE \<and> hold_id h \<in> set ids"
  shows "holds_core (update_rows (points_at ids) g seats) (update_rows hit f holds) items"
proof -
  note core_facts = holds_coreD [OF core]
  have "seat_link (update_rows hit f holds) items i'" if "i' \<in> set (update_rows (points_at ids) g seats)" for i'
  proof -
    from that obtain i where i: "i \<in> set seats" "i' = (if points_at ids i then g i else i)"
      by (auto simp: mem_update_rows)
    show ?thesis
    proof (cases "points_at ids i \<or> inv_state i \<noteq> SeatInventoryState.HELD")
      case True
      then show ?thesis using i g core_facts(3) [OF i(1)] by (auto simp: seat_link_def lets_go_def)
    next
      case False
      with core_facts(3) [OF i(1)] obtain h where h: "h \<in> set holds" "hold_status h = SeatHoldStatus.ACTIVE"
        "inv_currentHoldId i = Some (hold_id h)" "inv_holdExpiresAt i = Some (hold_expiresAt h)"
        "hold_sessionId h = inv_sessionId i"
        "\<exists>t\<in>set items. hitem_holdId t = hold_id h \<and> hitem_inventoryId t = inv_id i"
        by (auto simp: seat_link_def)
      with False ids [OF h(1)] have "\<not> hit h" by (auto simp: points_at_iff)
      with h(1) have "h \<in> set (update_rows hit f holds)" by (auto simp: mem_update_rows)
      with h False i show ?thesis by (auto simp: seat_link_def)
    qed
  qed
  moreover have "item_link (update_rows (points_at ids) g seats) (update_rows hit f holds) t" if "t \<in> set items" for t
  proof -
    from core_facts(4) [OF that] obtain i h where
      i: "i \<in> set seats" "inv_id i = hitem_inventoryId t" "inv_priceMinor i = hitem_priceMinor t"
         "inv_currency i = hitem_currency t" and
      h: "h \<in> set holds" "hold_id h = hitem_holdId t" "hold_sessionId h = inv_sessionId i" and
      act: "hold_status h = SeatHoldStatus.ACTIVE \<longrightarrow>
              inv_state i = SeatInventoryState.HELD \<and> inv_currentHoldId i = Some (hold_id h)"
      by (auto simp: item_link_def)
    let ?i = "if points_at ids i then g i else i" and ?h = "if hit h then f h else h"
    have "?i \<in> set (update_rows (points_at ids) g seats)" "?h \<in> set (update_rows hit f holds)"
      using i(1) h(1) by (auto simp: mem_update_rows)
    moreover have "hold_status ?h = SeatHoldStatus.ACTIVE \<longrightarrow> \<not> points_at ids i \<and> \<not> hit h"
      using f act ids [OF h(1)] by (auto simp: settles_def points_at_iff)
    moreover have "hold_id ?h = hold_id h" "hold_sessionId ?h = hold_sessionId h"
      using f by (auto simp: settles_def hold_key_def)
    ultimately show ?thesis
      using i h act g unfolding item_link_def lets_go_def by (intro bexI [of _ ?i] conjI bexI [of _ ?h]) auto
  qed
  moreover have "\<exists>t\<in>set items. hitem_holdId t = hold_id h" if "h \<in> set (update_rows hit f holds)" for h
    using that f core_facts(5) by (auto simp: mem_update_rows settles_def)
  moreover have "inventory_ok (update_rows (points_at ids) g seats)"
    using core_facts(1) g by (intro inventory_ok_update) (simp_all add: lets_go_def)
  moreover have "hold_table_ok (update_rows hit f holds)"
    using core_facts(2) f hit by (rule hold_table_settle)
  ultimately show ?thesis by (simp add: holds_core_def)
qed

section \<open>Claiming seats\<close>

definition hold_fresh :: "SeatHold \<Rightarrow> SeatHold list \<Rightarrow> bool" where
  "hold_fresh n holds \<longleftrightarrow>
     hold_id n \<notin> hold_id ` set holds \<and> hold_publicToken n \<notin> hold_publicToken ` set holds
     \<and> hold_key n \<notin> hold_key ` set holds
     \<and> (\<forall>h\<in>set holds. hold_status h = SeatHoldStatus.ACTIVE \<longrightarrow>
          \<not> (hold_userId h = hold_userId n \<and> hold_sessionId h = hold_sessionId n))"

lemma create_hold_Inr:
  assumes "create_hold n db = Inr db'" "hold_status n = SeatHoldStatus.ACTIVE"
  shows "hold_fresh n (db_holds db)" "db' = db\<lparr>db_holds := db_holds db @ [n]\<rparr>"
  using assms
  by (auto simp: create_hold_def hold_fresh_def same_hold_key_def hold_key_def list_ex_iff insert_row_def
      split: if_splits)

lemma hold_table_insert:
  assumes "hold_table_ok holds" "hold_fresh n holds" "hold_lifecycle n"
  shows "hold_table_ok (holds @ [n])"
proof -
  have one: "hold_id h = hold_id h'"
    if "h \<in> set holds \<or> h = n" "h' \<in> set holds \<or> h' = n"
      "hold_status h = SeatHoldStatus.ACTIVE" "hold_status h' = SeatHoldStatus.ACTIVE"
      "hold_userId h = hold_userId h'" "hold_sessionId h = hold_sessionId h'" for h h'
    using that assms(1,2) unfolding hold_table_ok_def hold_fresh_def by (metis (no_types, lifting))
  show ?thesis
    unfolding hold_table_ok_def
  proof (intro conjI ballI impI)
    show "distinct (map hold_id (holds @ [n]))" "distinct (map hold_publicToken (holds @ [n]))"
      "distinct (map hold_key (holds @ [n]))"
      using assms by (auto simp: hold_table_ok_def hold_fresh_def)
    show "hold_lifecycle h" if "h \<in> set (holds @ [n])" for h
      using that assms by (auto simp: hold_table_ok_def)
    show "hold_id h = hold_id h'"
      if "h \<in> set (holds @ [n])" "h' \<in> set (holds @ [n])"
      "hold_status h = SeatHoldStatus.ACTIVE" "hold_status h' = SeatHoldStatus.ACTIVE"
      "hold_userId h = hold_userId h'" "hold_sessionId h = hold_sessionId h'" for h h'
      using that by (intro one) auto
  qed
qed

lemma claims_iff:
  assumes "inventory_ok seats" "set locked \<subseteq> set seats"
    "\<forall>i\<in>set locked. inv_state i = SeatInventoryState.AVAILABLE" "i \<in> set seats"
  shows "claims locked i \<longleftrightarrow> i \<in> set locked"
  using assms inv_id_inj [OF assms(1)] by (auto simp: claims_def)

lemma claim_seat_simps [simp]:
  "inv_id (claim_seat h e i) = inv_id i" "inv_sessionId (claim_seat h e i) = inv_sessionId i"
  "inv_seatId (claim_seat h e i) = inv_seatId i" "inv_priceMinor (claim_seat h e i) = inv_priceMinor i"
  "inv_currency (claim_seat h e i) = inv_currency i" "inv_state (claim_seat h e i) = SeatInventoryState.HELD"
  "inv_currentHoldId (claim_seat h e i) = Some h" "inv_holdExpiresAt (claim_seat h e i) = Some e"
  by (simp_all add: claim_seat_def)

theorem holds_core_claim:
  assumes core: "holds_core seats holds items" and fresh: "hold_fresh n holds" and n: "hold_lifecycle n"
    "hold_status n = SeatHoldStatus.ACTIVE"
    and locked: "set locked \<subseteq> set seats" "locked \<noteq> []"
      "\<forall>i\<in>set locked. inv_state i = SeatInventoryState.AVAILABLE \<and> inv_sessionId i = hold_sessionId n"
  shows "holds_core (update_rows (claims locked) (claim_seat (hold_id n) (hold_expiresAt n)) seats)
           (holds @ [n]) (items @ map (hold_item (hold_id n)) locked)"
proof -
  let ?g = "claim_seat (hold_id n) (hold_expiresAt n)"
  let ?seats = "update_rows (claims locked) ?g seats"
  let ?items = "items @ map (hold_item (hold_id n)) locked"
  note facts = holds_coreD [OF core]
  note claims = claims_iff [OF facts(1) locked(1)]
  have av: "\<forall>i\<in>set locked. inv_state i = SeatInventoryState.AVAILABLE" using locked(3) by simp
  have "seat_link (holds @ [n]) ?items i'" if "i' \<in> set ?seats" for i'
  proof -
    from that obtain i where i: "i \<in> set seats" "i' = (if claims locked i then ?g i else i)"
      by (auto simp: mem_update_rows)
    show ?thesis
    proof (cases "claims locked i")
      case True
      then have mem: "i \<in> set locked" using claims [OF av i(1)] by simp
      then have "\<exists>t\<in>set ?items. hitem_holdId t = hold_id n \<and> hitem_inventoryId t = inv_id i"
        by (intro bexI [of _ "hold_item (hold_id n) i"]) (simp_all add: hold_item_def)
      then show ?thesis using True i(2) n locked(3) mem
        unfolding seat_link_def by (simp add: bexI [of _ n])
    next
      case False
      then show ?thesis using i facts(3) [OF i(1)] by (auto simp: seat_link_def)
    qed
  qed
  moreover have "item_link ?seats (holds @ [n]) t" if "t \<in> set items" for t
  proof -
    from facts(4) [OF that] obtain i h where
      i: "i \<in> set seats" "inv_id i = hitem_inventoryId t" "inv_priceMinor i = hitem_priceMinor t"
         "inv_currency i = hitem_currency t" and
      h: "h \<in> set holds" "hold_id h = hitem_holdId t" "hold_sessionId h = inv_sessionId i" and
      act: "hold_status h = SeatHoldStatus.ACTIVE \<longrightarrow>
              inv_state i = SeatInventoryState.HELD \<and> inv_currentHoldId i = Some (hold_id h)"
      by (auto simp: item_link_def)
    let ?i = "if claims locked i then ?g i else i"
    have "?i \<in> set ?seats" using i(1) by (auto simp: mem_update_rows)
    moreover have "hold_status h = SeatHoldStatus.ACTIVE \<longrightarrow> \<not> claims locked i"
      using act by (auto simp: claims_def)
    ultimately show ?thesis
      using i h act unfolding item_link_def by (intro bexI [of _ ?i] conjI bexI [of _ h]) auto
  qed
  moreover have "item_link ?seats (holds @ [n]) (hold_item (hold_id n) i)" if "i \<in> set locked" for i
  proof -
    have "i \<in> set seats" using that locked(1) by auto
    then have "claims locked i" using claims [OF av] that by simp
    with \<open>i \<in> set seats\<close> have "?g i \<in> set ?seats" by (auto simp: mem_update_rows)
    with that locked(3) show ?thesis
      unfolding item_link_def by (intro bexI [of _ "?g i"] conjI bexI [of _ n]) (auto simp: hold_item_def)
  qed
  moreover have "\<exists>t\<in>set ?items. hitem_holdId t = hold_id h" if "h \<in> set (holds @ [n])" for h
    using that facts(5) locked(2) by (cases locked) (auto simp: hold_item_def)
  moreover have "inventory_ok ?seats"
    using facts(1) by (intro inventory_ok_update) simp_all
  moreover have "hold_table_ok (holds @ [n])"
    using facts(2) fresh n(1) by (rule hold_table_insert)
  ultimately show ?thesis by (auto simp: holds_core_def)
qed

end
