(* ===== verification/Hold_Properties.thy ===== *)
theory Hold_Properties
  imports Hold_Invariant
begin

text \<open>
  What the hold operations guarantee: each keeps the invariant of Hold_Invariant, a rejected
  acquisition changes nothing, an accepted one takes exactly the requested seats, a live hold
  is never robbed, a repeated request is answered from the first one, only the owner releases,
  and the sweep ends with no overdue hold left.
\<close>

section \<open>Events\<close>

lemma hold_events_settle:
  assumes ev: "hold_events_ok holds keys" and f: "settles f"
    and hit: "\<And>h. hit h \<Longrightarrow> hold_status h = SeatHoldStatus.ACTIVE"
    and new: "\<And>k. k \<in> set new \<Longrightarrow> \<exists>h\<in>set holds. hit h \<and>
       (k = ''hold-expired:'' @ hold_id h \<and> hold_status (f h) = SeatHoldStatus.EXPIRED
        \<or> k = ''hold-released:'' @ hold_id h \<and> hold_status (f h) = SeatHoldStatus.RELEASED)"
  shows "hold_events_ok (update_rows hit f holds) (keys @ new)"
proof -
  have keep: "h \<in> set (update_rows hit f holds)" if "h \<in> set holds" "hold_status h \<noteq> SeatHoldStatus.ACTIVE" for h
    using that hit unfolding mem_update_rows by (metis (no_types))
  have moved: "f h \<in> set (update_rows hit f holds) \<and> hold_id (f h) = hold_id h" if "h \<in> set holds" "hit h" for h
    using that f unfolding mem_update_rows settles_def by auto
  have ids: "hold_id ` set (update_rows hit f holds) = hold_id ` set holds"
    using map_update_rows [of hold_id f hit holds] f by (metis settles_def set_map)
  show ?thesis
    unfolding hold_events_ok_def
  proof (intro conjI allI impI)
    fix x assume "''hold-created:'' @ x \<in> set (keys @ new)"
    then have "''hold-created:'' @ x \<in> set keys" using new by fastforce
    then show "x \<in> hold_id ` set (update_rows hit f holds)"
      using ev ids by (simp add: hold_events_ok_def)
  next
    fix x assume "''hold-released:'' @ x \<in> set (keys @ new)"
    then consider "''hold-released:'' @ x \<in> set keys" | "''hold-released:'' @ x \<in> set new" by auto
    then show "\<exists>h\<in>set (update_rows hit f holds). hold_id h = x \<and> hold_status h = SeatHoldStatus.RELEASED"
    proof cases
      case 1
      then obtain h where "h \<in> set holds" "hold_id h = x" "hold_status h = SeatHoldStatus.RELEASED"
        using ev by (auto simp: hold_events_ok_def)
      then show ?thesis using keep [of h] by auto
    next
      case 2
      then obtain h where "h \<in> set holds" "hit h" "x = hold_id h" "hold_status (f h) = SeatHoldStatus.RELEASED"
        using new by fastforce
      then show ?thesis using moved [of h] by auto
    qed
  next
    fix x assume "''hold-expired:'' @ x \<in> set (keys @ new)"
    then consider "''hold-expired:'' @ x \<in> set keys" | "''hold-expired:'' @ x \<in> set new" by auto
    then show "\<exists>h\<in>set (update_rows hit f holds). hold_id h = x \<and> hold_status h = SeatHoldStatus.EXPIRED"
    proof cases
      case 1
      then obtain h where "h \<in> set holds" "hold_id h = x" "hold_status h = SeatHoldStatus.EXPIRED"
        using ev by (auto simp: hold_events_ok_def)
      then show ?thesis using keep [of h] by auto
    next
      case 2
      then obtain h where "h \<in> set holds" "hit h" "x = hold_id h" "hold_status (f h) = SeatHoldStatus.EXPIRED"
        using new by fastforce
      then show ?thesis using moved [of h] by auto
    qed
  qed
qed

lemma active_not_announced:
  assumes "hold_events_ok holds keys" "hold_table_ok holds" "h \<in> set holds" "hold_status h = SeatHoldStatus.ACTIVE"
  shows "''hold-expired:'' @ hold_id h \<notin> set keys" "''hold-released:'' @ hold_id h \<notin> set keys"
proof -
  have "hold_status h' = SeatHoldStatus.ACTIVE" if "h' \<in> set holds" "hold_id h' = hold_id h" for h'
    using hold_id_inj [OF assms(2) that(1) assms(3) that(2)] assms(4) by simp
  then show "''hold-expired:'' @ hold_id h \<notin> set keys" "''hold-released:'' @ hold_id h \<notin> set keys"
    using assms(1) unfolding hold_events_ok_def by force+
qed

lemma release_inventory_fst:
  "fst (releaseInventoryForHolds ids db) =
     db\<lparr>db_inventory := update_rows (points_at ids) free_seat (db_inventory db)\<rparr>"
proof (cases "ids = []")
  case True
  have "update_rows (points_at []) free_seat t = t" for t
    by (simp add: update_rows_def points_at_iff)
  with True show ?thesis by (simp add: releaseInventoryForHolds_def)
qed (simp add: releaseInventoryForHolds_def)

lemma release_inventory_pair:
  "releaseInventoryForHolds ids db =
     (db\<lparr>db_inventory := update_rows (points_at ids) free_seat (db_inventory db)\<rparr>,
      snd (releaseInventoryForHolds ids db))"
  by (simp add: release_inventory_fst [symmetric])

section \<open>Lazy expiry\<close>

definition overdue_in :: "ident \<Rightarrow> time \<Rightarrow> SeatHold \<Rightarrow> bool" where
  "overdue_in sessionId now h \<longleftrightarrow> hold_sessionId h = sessionId \<and> overdue now h"

definition expired_ids :: "ident \<Rightarrow> time \<Rightarrow> database \<Rightarrow> ident list" where
  "expired_ids sessionId now db = map hold_id (filter (overdue_in sessionId now) (db_holds db))"

text \<open>The database after lazy expiry, when the outbox accepts the events.\<close>

definition after_expiry :: "ident \<Rightarrow> time \<Rightarrow> database \<Rightarrow> database" where
  "after_expiry sessionId now db =
     db\<lparr>db_holds := update_rows (overdue_in sessionId now) (expire_hold now) (db_holds db),
        db_inventory := update_rows (points_at (expired_ids sessionId now db)) free_seat (db_inventory db),
        db_invOutbox := db_invOutbox db @
          map (\<lambda>i. iev_row InventoryEventType.HOLD_EXPIRED sessionId (Some i) (''hold-expired:'' @ i) now)
            (expired_ids sessionId now db)\<rparr>"

lemma overdue_in_active: "overdue_in s now h \<Longrightarrow> hold_status h = SeatHoldStatus.ACTIVE"
  by (simp add: overdue_in_def overdue_def)

lemma expired_ids_mem:
  assumes "hold_table_ok (db_holds db)" "h \<in> set (db_holds db)"
  shows "hold_id h \<in> set (expired_ids s now db) \<longleftrightarrow> overdue_in s now h"
proof
  assume "hold_id h \<in> set (expired_ids s now db)"
  then obtain h' where h': "h' \<in> set (db_holds db)" "overdue_in s now h'" "hold_id h' = hold_id h"
    by (auto simp: expired_ids_def)
  with hold_id_inj [OF assms(1) h'(1) assms(2) h'(3)] show "overdue_in s now h" by simp
qed (use assms in \<open>simp add: expired_ids_def\<close>)

lemma distinct_map_filter_key: "distinct (map key xs) \<Longrightarrow> distinct (map key (filter P xs))"
  by (induction xs) auto

lemma release_expired_total:
  assumes "holds_ok db"
  shows "releaseExpiredHoldsForSession s now db = Inr (after_expiry s now db, length (expired_ids s now db))"
proof -
  have core: "hold_table_ok (db_holds db)" "hold_events_ok (db_holds db) (outbox_keys db)"
    using assms by (auto simp: holds_ok_def holds_core_def)
  have hit: "(\<lambda>h. hold_sessionId h = s \<and> overdue now h) = overdue_in s now"
    by (simp add: overdue_in_def fun_eq_iff)
  have ids: "map hold_id (select_rows (overdue_in s now) (db_holds db)) = expired_ids s now db"
    by (simp add: expired_ids_def select_rows_def)
  have "distinct (expired_ids s now db)"
    using core(1) unfolding expired_ids_def hold_table_ok_def by (intro distinct_map_filter_key) simp
  moreover have "\<forall>i\<in>set (expired_ids s now db). ''hold-expired:'' @ i \<notin> set (outbox_keys db)"
    using active_not_announced(1) [OF core(2,1)] by (auto simp: expired_ids_def overdue_in_active)
  ultimately have "enqueueExpiredHoldEvents s (expired_ids s now db) now
      (db\<lparr>db_holds := update_rows (overdue_in s now) (expire_hold now) (db_holds db),
          db_inventory := update_rows (points_at (expired_ids s now db)) free_seat (db_inventory db)\<rparr>)
      = Inr (after_expiry s now db)"
    by (simp add: enqueue_expired_Inr after_expiry_def outbox_keys_def)
  then show ?thesis
    unfolding releaseExpiredHoldsForSession_def hit Let_def ids
    by (subst release_inventory_pair) simp
qed

lemma after_expiry_ok:
  assumes "holds_ok db"
  shows "holds_ok (after_expiry s now db)"
proof -
  have core: "holds_core (db_inventory db) (db_holds db) (db_holdItems db)"
    and ev: "hold_events_ok (db_holds db) (outbox_keys db)"
    using assms by (auto simp: holds_ok_def)
  have table: "hold_table_ok (db_holds db)" using core by (simp add: holds_core_def)
  have "holds_core (update_rows (points_at (expired_ids s now db)) free_seat (db_inventory db))
      (update_rows (overdue_in s now) (expire_hold now) (db_holds db)) (db_holdItems db)"
    using expired_ids_mem [OF table] overdue_in_active
    by (intro holds_core_settle core settles_expire lets_go_free) auto
  moreover have "hold_events_ok (update_rows (overdue_in s now) (expire_hold now) (db_holds db))
      (outbox_keys db @ map (\<lambda>i. ''hold-expired:'' @ i) (expired_ids s now db))"
    using overdue_in_active
    by (intro hold_events_settle ev settles_expire) (auto simp: expired_ids_def expire_hold_def)
  ultimately show ?thesis
    by (simp add: holds_ok_def after_expiry_def outbox_keys_def comp_def)
qed

section \<open>Acquisition\<close>

definition claimed_db :: "SeatHold \<Rightarrow> SessionSeatInventory list \<Rightarrow> time \<Rightarrow> database \<Rightarrow> database" where
  "claimed_db n locked now db =
     db\<lparr>db_holds := db_holds db @ [n],
        db_inventory := update_rows (claims locked) (claim_seat (hold_id n) (hold_expiresAt n)) (db_inventory db),
        db_holdItems := db_holdItems db @ map (hold_item (hold_id n)) locked,
        db_invOutbox := db_invOutbox db @
          [iev_row InventoryEventType.HOLD_CREATED (hold_sessionId n) (Some (hold_id n))
             (''hold-created:'' @ hold_id n) now]\<rparr>"

lemma new_hold_simps [simp]:
  "hold_id (new_hold i tok input u e) = i" "hold_status (new_hold i tok input u e) = SeatHoldStatus.ACTIVE"
  "hold_sessionId (new_hold i tok input u e) = hci_sessionId input" "hold_userId (new_hold i tok input u e) = u"
  "hold_idempotencyKey (new_hold i tok input u e) = hci_idempotencyKey input"
  "hold_expiresAt (new_hold i tok input u e) = e" "hold_publicToken (new_hold i tok input u e) = tok"
  "hold_lifecycle (new_hold i tok input u e)"
  by (simp_all add: new_hold_def hold_lifecycle_def)

lemma write_claims_Inr:
  assumes "write_claims n now locked db = Inr (db', r)"
  shows "db' = claimed_db n locked now (db\<lparr>db_holds := holds\<rparr>)\<lparr>db_holds := db_holds db\<rparr>" "r = hold_id n"
  using assms
  by (auto simp: write_claims_def Let_def and_then_eq_Inr enqueue_event_Inr claimed_db_def split: if_split_asm)

lemma claim_seats_Inr:
  assumes "claim_seats config input u hid tok now locked db = Inr (db', r)"
  defines "n \<equiv> new_hold hid tok input u (now + cfg_holdDurationMs config)"
  shows "length locked = length (hci_seatIds input)"
    "\<forall>i\<in>set locked. inv_state i = SeatInventoryState.AVAILABLE"
    "hold_fresh n (db_holds db)" "db' = claimed_db n locked now db" "r = hid"
proof -
  have "length locked = length (hci_seatIds input)
      \<and> \<not> list_ex (\<lambda>row. inv_state row \<noteq> SeatInventoryState.AVAILABLE) locked
      \<and> and_then (create_hold n db) (write_claims n now locked) = Inr (db', r)"
    using assms(1) unfolding claim_seats_def Let_def n_def by (simp split: if_split_asm)
  then obtain db1 where
    cond: "length locked = length (hci_seatIds input)"
      "\<not> list_ex (\<lambda>row. inv_state row \<noteq> SeatInventoryState.AVAILABLE) locked" and
    c: "create_hold n db = Inr db1" and w: "write_claims n now locked db1 = Inr (db', r)"
    by (auto simp: and_then_eq_Inr)
  show "length locked = length (hci_seatIds input)" by (fact cond)
  show "\<forall>i\<in>set locked. inv_state i = SeatInventoryState.AVAILABLE"
    using cond(2) by (auto simp: list_ex_iff)
  have n: "hold_status n = SeatHoldStatus.ACTIVE" by (simp add: n_def)
  show "hold_fresh n (db_holds db)" using create_hold_Inr(1) [OF c n] .
  show "db' = claimed_db n locked now db"
    using write_claims_Inr(1) [OF w, of "db_holds db"] create_hold_Inr(2) [OF c n] by (simp add: claimed_db_def)
  show "r = hid" using write_claims_Inr(2) [OF w] by (simp add: n_def)
qed

lemma acquire_transaction_Inr:
  assumes ok: "holds_ok db" and run: "acquire_transaction config input u hid tok now db = Inr (db', r)"
  defines "db1 \<equiv> after_expiry (hci_sessionId input) now db"
    and "n \<equiv> new_hold hid tok input u (now + cfg_holdDurationMs config)"
  obtains locked ses ev where
    "locked = lock_rows db1 (hci_sessionId input) (hci_seatIds input)"
    "length locked = length (hci_seatIds input)"
    "\<forall>i\<in>set locked. inv_state i = SeatInventoryState.AVAILABLE"
    "hold_fresh n (db_holds db1)" "db' = claimed_db n locked now db1" "r = hid"
    "find_session db1 (hci_sessionId input) = Some ses" "find_event db1 (ses_eventId ses) = Some ev"
    "isSessionSellable (eligibility_input db1 ses ev) now"
proof -
  from run have "case find_session db1 (hci_sessionId input) of None \<Rightarrow> False | Some ses \<Rightarrow>
      (case find_event db1 (ses_eventId ses) of None \<Rightarrow> False | Some ev \<Rightarrow>
        isSessionSellable (eligibility_input db1 ses ev) now \<and>
        claim_seats config input u hid tok now (lock_rows db1 (hci_sessionId input) (hci_seatIds input)) db1
          = Inr (db', r))"
    unfolding acquire_transaction_def release_expired_total [OF ok] db1_def isSessionSellable_def
    by (auto simp: Let_def split: option.splits)
  then obtain ses ev where "find_session db1 (hci_sessionId input) = Some ses"
    "find_event db1 (ses_eventId ses) = Some ev" "isSessionSellable (eligibility_input db1 ses ev) now"
    and c: "claim_seats config input u hid tok now (lock_rows db1 (hci_sessionId input) (hci_seatIds input)) db1 = Inr (db', r)"
    by (auto split: option.splits)
  with claim_seats_Inr [OF c] that show thesis unfolding n_def by blast
qed

lemma lock_rows_set:
  "set (lock_rows db s seatIds) = {i \<in> set (db_inventory db). inv_sessionId i = s \<and> inv_seatId i \<in> set seatIds}"
  by (auto simp: lock_rows_def select_rows_def)

lemma claimed_db_ok:
  assumes ok: "holds_ok db" and fresh: "hold_fresh n (db_holds db)" and n: "hold_lifecycle n" "hold_status n = SeatHoldStatus.ACTIVE"
    and locked: "set locked \<subseteq> set (db_inventory db)" "locked \<noteq> []"
      "\<forall>i\<in>set locked. inv_state i = SeatInventoryState.AVAILABLE \<and> inv_sessionId i = hold_sessionId n"
  shows "holds_ok (claimed_db n locked now db)"
proof -
  have "holds_core (db_inventory db) (db_holds db) (db_holdItems db)"
    and ev: "hold_events_ok (db_holds db) (outbox_keys db)"
    using ok by (auto simp: holds_ok_def)
  then have "holds_core (update_rows (claims locked) (claim_seat (hold_id n) (hold_expiresAt n)) (db_inventory db))
      (db_holds db @ [n]) (db_holdItems db @ map (hold_item (hold_id n)) locked)"
    using fresh n locked by (intro holds_core_claim)
  moreover have "hold_events_ok (db_holds db @ [n]) (outbox_keys db @ [''hold-created:'' @ hold_id n])"
    using ev unfolding hold_events_ok_def by auto
  ultimately show ?thesis by (simp add: holds_ok_def claimed_db_def outbox_keys_def)
qed

lemma acquire_transaction_ok:
  assumes "holds_ok db" "hci_seatIds input \<noteq> []"
    and "acquire_transaction config input u hid tok now db = Inr (db', r)"
  shows "holds_ok db'"
proof -
  let ?db1 = "after_expiry (hci_sessionId input) now db"
  let ?n = "new_hold hid tok input u (now + cfg_holdDurationMs config)"
  from acquire_transaction_Inr [OF assms(1,3)] obtain locked where
    l: "locked = lock_rows ?db1 (hci_sessionId input) (hci_seatIds input)"
       "length locked = length (hci_seatIds input)"
       "\<forall>i\<in>set locked. inv_state i = SeatInventoryState.AVAILABLE"
       "hold_fresh ?n (db_holds ?db1)" and db': "db' = claimed_db ?n locked now ?db1"
    by blast
  have "locked \<noteq> []" using l(2) assms(2) by auto
  moreover have "set locked \<subseteq> set (db_inventory ?db1)"
    "\<forall>i\<in>set locked. inv_state i = SeatInventoryState.AVAILABLE \<and> inv_sessionId i = hold_sessionId ?n"
    using l(3) unfolding l(1) by (auto simp: lock_rows_set)
  ultimately show ?thesis
    unfolding db' using after_expiry_ok [OF assms(1)] l(4) by (intro claimed_db_ok) simp_all
qed

text \<open>Under the invariant the view of a hold always exists, and totals its items.\<close>

lemma hold_view_total:
  assumes ok: "holds_ok db" and h: "h \<in> set (db_holds db)"
  shows "\<exists>view. mapHoldToView db h now = Inr view \<and> hv_publicToken view = hold_publicToken h
    \<and> hv_status view = hold_status h \<and> hv_expiresAt view = hold_expiresAt h
    \<and> hv_totalMinor view = sum_list (map hitem_priceMinor (hold_items db (hold_id h)))
    \<and> hv_seatCount view = length (hold_items db (hold_id h))"
proof -
  let ?items = "hold_items db (hold_id h)"
  have core: "holds_core (db_inventory db) (db_holds db) (db_holdItems db)" using ok by (simp add: holds_ok_def)
  note facts = holds_coreD [OF core]
  have seat: "\<exists>i\<in>set (db_inventory db). inv_sessionId i = hold_sessionId h \<and> inv_priceMinor i = hitem_priceMinor t
      \<and> inv_currency i = hitem_currency t" if "t \<in> set ?items" for t
  proof -
    have t: "t \<in> set (db_holdItems db)" "hitem_holdId t = hold_id h"
      using that by (auto simp: hold_items_def select_rows_def)
    from facts(4) [OF t(1)] obtain i h' where i: "i \<in> set (db_inventory db)"
      "inv_priceMinor i = hitem_priceMinor t" "inv_currency i = hitem_currency t"
      and h': "h' \<in> set (db_holds db)" "hold_id h' = hitem_holdId t" "hold_sessionId h' = inv_sessionId i"
      by (auto simp: item_link_def)
    have "h' = h" using hold_id_inj [OF facts(2) h'(1) h] h'(2) t(2) by simp
    with i h'(3) show ?thesis by (intro bexI [of _ i]) auto
  qed
  have ne: "?items \<noteq> []"
    using facts(5) [OF h] by (auto simp: hold_items_def select_rows_def filter_empty_conv)
  have "well_priced (hitem_currency (hd ?items)) (priced_item t)" if "t \<in> set ?items" for t
  proof -
    from seat [OF that] obtain i where i: "i \<in> set (db_inventory db)" "inv_sessionId i = hold_sessionId h"
      "inv_priceMinor i = hitem_priceMinor t" "inv_currency i = hitem_currency t" by blast
    from seat [of "hd ?items"] ne obtain j where j: "j \<in> set (db_inventory db)" "inv_sessionId j = hold_sessionId h"
      "inv_currency j = hitem_currency (hd ?items)" by auto
    have "inv_currency i = inv_currency j" "0 \<le> inv_priceMinor i"
      using facts(1) i(1,2) j(1,2) unfolding inventory_ok_def by metis+
    with i j show ?thesis by (simp add: well_priced_def priced_item_def)
  qed
  then have wp: "list_all (well_priced (cpi_currency (hd (map priced_item ?items)))) (map priced_item ?items)"
    using ne by (simp add: list_all_iff hd_map) (simp add: priced_item_def)
  have total: "items_total (map priced_item ?items) = sum_list (map hitem_priceMinor ?items)"
    by (simp add: items_total_def priced_item_def comp_def)
  have "calculateHoldTotal (map priced_item ?items) = Inr \<lparr>ht_totalMinor = sum_list (map hitem_priceMinor ?items),
      ht_currency = cpi_currency (hd (map priced_item ?items)), ht_seatCount = length ?items\<rparr>"
    unfolding hold_total_Inr using ne wp total by simp
  then show ?thesis by (simp add: mapHoldToView_def)
qed

text \<open>An acquisition either leaves the database alone or is its committed transaction.\<close>

lemma acquire_cases:
  assumes "acquireSeatHold config u raw now hid tok seen db = (db', res)"
  obtains (unchanged) "db' = db" "\<And>a. res = Inr a \<Longrightarrow> acq_replayed a"
  | (committed) input r where "u \<noteq> []" "holdCreateInputSchema (cfg_maxSeatsPerHold config) raw = Some input"
      "tryIdempotentReplay seen input u now = Inr None"
      "acquire_transaction config input u hid tok now db = Inr (db', r)"
      "res = (case loadCustomerHoldView db' r now of Inl e \<Rightarrow> Inl e | Inr None \<Rightarrow> Inl HoldConflictError
              | Inr (Some view) \<Rightarrow> Inr \<lparr>acq_hold = view, acq_replayed = False\<rparr>)"
proof -
  have replay: "acq_replayed a" if "tryIdempotentReplay d input u now = Inr (Some a)" for d input a
    using that by (auto simp: tryIdempotentReplay_def and_then_eq_Inr split: option.splits if_splits)
  show thesis
  proof (cases "u = [] \<or> holdCreateInputSchema (cfg_maxSeatsPerHold config) raw = None")
    case True
    with assms have "db' = db" "\<exists>e. res = Inl e" by (auto simp: acquireSeatHold_def split: if_splits)
    then show thesis using unchanged by auto
  next
    case False
    then obtain input where input: "u \<noteq> []" "holdCreateInputSchema (cfg_maxSeatsPerHold config) raw = Some input" by auto
    show thesis
    proof (cases "tryIdempotentReplay seen input u now")
      case (Inl e)
      with assms input have "db' = db" "res = Inl e" by (simp_all add: acquireSeatHold_def)
      then show thesis using unchanged by auto
    next
      case (Inr found)
      show thesis
      proof (cases found)
        case (Some a)
        with assms input Inr have "db' = db" "res = Inr a" by (simp_all add: acquireSeatHold_def)
        with replay [of seen input a] Inr Some show thesis using unchanged by auto
      next
        case None
        show thesis
        proof (cases "acquire_transaction config input u hid tok now db")
          case (Inl e)
          with assms input None \<open>tryIdempotentReplay seen input u now = Inr found\<close>
          have "db' = db" and "\<And>a. res = Inr a \<Longrightarrow> tryIdempotentReplay db input u now = Inr (Some a)"
            by (auto simp: acquireSeatHold_def transact_def split: sum.splits option.splits if_splits)
          then show thesis using unchanged replay by metis
        next
          case (Inr p)
          obtain db1 r where p: "p = (db1, r)" by (cases p)
          with assms input None Inr \<open>tryIdempotentReplay seen input u now = Inr found\<close>
          have "db' = db1" "res = (case loadCustomerHoldView db1 r now of Inl e \<Rightarrow> Inl e | Inr None \<Rightarrow> Inl HoldConflictError
              | Inr (Some view) \<Rightarrow> Inr \<lparr>acq_hold = view, acq_replayed = False\<rparr>)"
            by (auto simp: acquireSeatHold_def transact_def split: sum.splits option.splits)
          then show thesis using committed input Inr p None \<open>tryIdempotentReplay seen input u now = Inr found\<close> by simp
        qed
      qed
    qed
  qed
qed

lemma acquire_keeps_holds:
  assumes "holds_ok db"
  shows "holds_ok (fst (acquireSeatHold config u raw now hid tok seen db))"
proof -
  obtain db' res where run: "acquireSeatHold config u raw now hid tok seen db = (db', res)" by fastforce
  then have "holds_ok db'"
  proof (cases rule: acquire_cases)
    case unchanged
    then show ?thesis using assms by simp
  next
    case (committed input r)
    then show ?thesis
      using acquire_transaction_ok [OF assms] hold_input_valid(2) [OF committed(2)] by blast
  qed
  with run show ?thesis by simp
qed

lemma claimed_view:
  assumes "holds_ok (claimed_db n locked now db)"
  shows "\<exists>view. loadCustomerHoldView (claimed_db n locked now db) (hold_id n) now = Inr (Some view)
    \<and> hv_publicToken view = hold_publicToken n \<and> hv_expiresAt view = hold_expiresAt n
    \<and> hv_totalMinor view = sum_list (map hitem_priceMinor (hold_items (claimed_db n locked now db) (hold_id n)))"
proof -
  let ?db = "claimed_db n locked now db"
  have table: "distinct (map hold_id (db_holds ?db))"
    using assms by (simp add: holds_ok_def holds_core_def hold_table_ok_def)
  have n: "n \<in> set (db_holds ?db)" by (simp add: claimed_db_def)
  then have "find_hold ?db (hold_id n) = Some n"
    unfolding find_hold_def using tbl.find_keyed [OF table] by simp
  then show ?thesis
    using hold_view_total [OF assms n, of now] by (auto simp: loadCustomerHoldView_def)
qed

text \<open>C15: A rejected acquisition changes nothing: no partial hold, no seat freed, no event.\<close>

theorem acquire_all_or_nothing:
  assumes "holds_ok db" "acquireSeatHold config u raw now hid tok seen db = (db', Inl e)"
  shows "db' = db"
  using assms(2)
proof (cases rule: acquire_cases)
  case (committed input r)
  from acquire_transaction_Inr [OF assms(1) committed(4)] obtain n locked db1 where
    "db' = claimed_db n locked now db1" "r = hold_id n" by (metis new_hold_simps(1))
  moreover have "holds_ok db'"
    using acquire_transaction_ok [OF assms(1) _ committed(4)] hold_input_valid(2) [OF committed(2)] by blast
  ultimately show ?thesis using claimed_view [of n locked now db1] committed(5) by auto
qed

lemma live_seat_kept:
  assumes ok: "holds_ok db" and i: "i \<in> set (db_inventory db)"
    and live: "inv_state i = SeatInventoryState.BOOKED \<or>
      inv_state i = SeatInventoryState.HELD \<and> inv_holdExpiresAt i = Some e \<and> now < e"
  shows "i \<in> set (db_inventory (after_expiry s now db))"
proof -
  have core: "holds_core (db_inventory db) (db_holds db) (db_holdItems db)" using ok by (simp add: holds_ok_def)
  note facts = holds_coreD [OF core]
  have "\<not> points_at (expired_ids s now db) i"
  proof (cases "inv_state i = SeatInventoryState.HELD")
    case True
    with facts(3) [OF i] obtain h where h: "h \<in> set (db_holds db)" "inv_currentHoldId i = Some (hold_id h)"
      "inv_holdExpiresAt i = Some (hold_expiresAt h)" by (auto simp: seat_link_def)
    with True live have "\<not> overdue_in s now h" by (auto simp: overdue_in_def overdue_def)
    with expired_ids_mem [OF facts(2) h(1)] h(2) show ?thesis by (auto simp: points_at_iff)
  next
    case False
    then show ?thesis using facts(3) [OF i] by (auto simp: seat_link_def points_at_iff)
  qed
  with i show ?thesis unfolding after_expiry_def by (auto simp: mem_update_rows)
qed

text \<open>C13: No acquisition, by any user and under any interleaving of its first read, touches a seat
  that is booked or that a live hold has.\<close>

theorem acquire_respects_live_holds:
  assumes "holds_ok db" "i \<in> set (db_inventory db)"
    and "inv_state i = SeatInventoryState.BOOKED \<or>
      inv_state i = SeatInventoryState.HELD \<and> inv_holdExpiresAt i = Some e \<and> now < e"
  shows "i \<in> set (db_inventory (fst (acquireSeatHold config u raw now hid tok seen db)))"
proof -
  obtain db' res where run: "acquireSeatHold config u raw now hid tok seen db = (db', res)" by fastforce
  then have "i \<in> set (db_inventory db')"
  proof (cases rule: acquire_cases)
    case unchanged
    then show ?thesis using assms by simp
  next
    case (committed input r)
    from acquire_transaction_Inr [OF assms(1) committed(4)] obtain n locked where
      "db' = claimed_db n locked now (after_expiry (hci_sessionId input) now db)" by metis
    moreover have "\<not> claims locked i" using assms(3) by (auto simp: claims_def)
    ultimately show ?thesis
      using live_seat_kept [OF assms, of "hci_sessionId input"]
      unfolding claimed_db_def by (simp add: mem_update_rows bexI [of _ i])
  qed
  with run show ?thesis by simp
qed

lemma locked_covers:
  assumes inv: "inventory_ok (db_inventory db)" and l: "locked = lock_rows db s seatIds"
    and len: "length locked = length seatIds" and d: "distinct seatIds"
  shows "inv_seatId ` set locked = set seatIds"
proof -
  have "distinct (map (\<lambda>i. (inv_sessionId i, inv_seatId i)) (filter (\<lambda>i. inv_sessionId i = s \<and> inv_seatId i \<in> set seatIds) (db_inventory db)))"
    using inv unfolding inventory_ok_def by (intro distinct_map_filter_key) simp
  then have "distinct (map inv_seatId (filter (\<lambda>i. inv_sessionId i = s \<and> inv_seatId i \<in> set seatIds) (db_inventory db)))"
    by (auto simp: distinct_map inj_on_def)
  then have inj: "inj_on inv_seatId (set locked)" and dl: "distinct locked"
    unfolding l by (auto simp: lock_rows_def select_rows_def distinct_map)
  have "card (inv_seatId ` set locked) = length seatIds"
    using card_image [OF inj] distinct_card [OF dl] len by simp
  moreover have "inv_seatId ` set locked \<subseteq> set seatIds" unfolding l by (auto simp: lock_rows_set)
  ultimately show ?thesis using distinct_card [OF d] by (metis List.finite_set card_subset_eq)
qed

text \<open>The seats a hold points at.\<close>

definition seats_of_hold :: "database \<Rightarrow> ident \<Rightarrow> SessionSeatInventory list" where
  "seats_of_hold db holdId = filter (\<lambda>i. inv_currentHoldId i = Some holdId) (db_inventory db)"

lemma no_seat_of_fresh_hold:
  assumes "holds_ok db" "hold_fresh n (db_holds db)" "i \<in> set (db_inventory db)"
  shows "inv_currentHoldId i \<noteq> Some (hold_id n)"
proof
  assume c: "inv_currentHoldId i = Some (hold_id n)"
  have "seat_link (db_holds db) (db_holdItems db) i"
    using assms by (simp add: holds_ok_def holds_core_def)
  with c obtain h where "h \<in> set (db_holds db)" "hold_id h = hold_id n"
    by (auto simp: seat_link_def split: if_splits)
  with assms(2) show False unfolding hold_fresh_def by (metis image_eqI)
qed

lemma no_item_of_fresh_hold:
  assumes "holds_ok db" "hold_fresh n (db_holds db)"
  shows "hold_items db (hold_id n) = []"
proof -
  have "hitem_holdId t \<noteq> hold_id n" if "t \<in> set (db_holdItems db)" for t
  proof
    assume t: "hitem_holdId t = hold_id n"
    have "item_link (db_inventory db) (db_holds db) t"
      using assms that by (simp add: holds_ok_def holds_core_def)
    then obtain h where "h \<in> set (db_holds db)" "hold_id h = hold_id n"
      using t by (auto simp: item_link_def)
    with assms(2) show False unfolding hold_fresh_def by (metis image_eqI)
  qed
  then show ?thesis by (simp add: hold_items_def select_rows_def filter_empty_conv)
qed

lemma claimed_seats:
  assumes ok: "holds_ok db" and fresh: "hold_fresh n (db_holds db)" and sub: "set locked \<subseteq> set (db_inventory db)"
    and av: "\<forall>i\<in>set locked. inv_state i = SeatInventoryState.AVAILABLE"
  shows "seats_of_hold (claimed_db n locked now db) (hold_id n)
           = map (claim_seat (hold_id n) (hold_expiresAt n)) (filter (\<lambda>i. i \<in> set locked) (db_inventory db))"
proof -
  let ?g = "claim_seat (hold_id n) (hold_expiresAt n)"
  have inv: "inventory_ok (db_inventory db)" using ok by (simp add: holds_ok_def holds_core_def)
  have *: "filter (\<lambda>i. inv_currentHoldId i = Some (hold_id n)) (update_rows (claims locked) ?g rs)
      = map ?g (filter (\<lambda>i. i \<in> set locked) rs)" if "set rs \<subseteq> set (db_inventory db)" for rs
    using that
  proof (induction rs)
    case (Cons r rs)
    then have r: "r \<in> set (db_inventory db)" by simp
    have "claims locked r \<longleftrightarrow> r \<in> set locked" using claims_iff [OF inv sub av r] .
    with Cons no_seat_of_fresh_hold [OF ok fresh r] show ?case by (simp add: update_rows_def)
  qed (simp add: update_rows_def)
  then show ?thesis by (simp add: seats_of_hold_def claimed_db_def)
qed

text \<open>C14: An accepted acquisition holds exactly the requested seats of the session, until the
  configured time, and its total is the sum of their price snapshots.\<close>

theorem acquire_grants:
  assumes ok: "holds_ok db" and run: "acquireSeatHold config u raw now hid tok seen db = (db', Inr a)"
    and new: "\<not> acq_replayed a"
  shows "\<exists>input. holdCreateInputSchema (cfg_maxSeatsPerHold config) raw = Some input
    \<and> inv_seatId ` set (seats_of_hold db' hid) = set (hci_seatIds input)
    \<and> (\<forall>i\<in>set (seats_of_hold db' hid). inv_sessionId i = hci_sessionId input
         \<and> inv_state i = SeatInventoryState.HELD
         \<and> inv_holdExpiresAt i = Some (now + cfg_holdDurationMs config))
    \<and> hv_publicToken (acq_hold a) = tok
    \<and> hv_totalMinor (acq_hold a) = sum_list (map inv_priceMinor (seats_of_hold db' hid))"
  using run
proof (cases rule: acquire_cases)
  case unchanged
  then show ?thesis using new by simp
next
  case (committed input r)
  let ?db1 = "after_expiry (hci_sessionId input) now db"
  let ?n = "new_hold hid tok input u (now + cfg_holdDurationMs config)"
  from acquire_transaction_Inr [OF ok committed(4)] obtain locked where
    l: "locked = lock_rows ?db1 (hci_sessionId input) (hci_seatIds input)"
       "length locked = length (hci_seatIds input)"
       "\<forall>i\<in>set locked. inv_state i = SeatInventoryState.AVAILABLE"
       "hold_fresh ?n (db_holds ?db1)" and db': "db' = claimed_db ?n locked now ?db1" and r: "r = hid"
    by blast
  note input = hold_input_valid [OF committed(2)]
  have ok1: "holds_ok ?db1" by (rule after_expiry_ok [OF ok])
  then have inv1: "inventory_ok (db_inventory ?db1)" by (simp add: holds_ok_def holds_core_def)
  have ok': "holds_ok db'" using acquire_transaction_ok [OF ok input(2) committed(4)] .
  have sub: "set locked \<subseteq> set (db_inventory ?db1)" unfolding l(1) by (auto simp: lock_rows_set)
  have seats: "seats_of_hold db' hid
      = map (claim_seat hid (now + cfg_holdDurationMs config)) (filter (\<lambda>i. i \<in> set locked) (db_inventory ?db1))"
    using claimed_seats [OF ok1 l(4) sub l(3)] db' by simp
  have mset: "mset (filter (\<lambda>i. i \<in> set locked) (db_inventory ?db1)) = mset locked"
  proof -
    have "filter (\<lambda>i. i \<in> set locked) (db_inventory ?db1)
        = select_rows (\<lambda>i. inv_sessionId i = hci_sessionId input \<and> List.member (hci_seatIds input) (inv_seatId i)) (db_inventory ?db1)"
      unfolding select_rows_def l(1) by (rule filter_cong) (auto simp: lock_rows_set)
    then show ?thesis unfolding l(1) by (simp add: lock_rows_def)
  qed
  have items: "hold_items db' hid = map (hold_item hid) locked"
    using no_item_of_fresh_hold [OF ok1 l(4)]
    by (simp add: db' hold_items_def select_rows_def claimed_db_def hold_item_def filter_id_conv)
  have "sum_list (map inv_priceMinor (filter (\<lambda>i. i \<in> set locked) (db_inventory ?db1)))
      = sum_list (map inv_priceMinor locked)"
    using arg_cong [OF mset, of "\<lambda>M. \<Sum>\<^sub># (image_mset inv_priceMinor M)"]
    by (metis mset_map sum_mset_sum_list)
  moreover obtain view where "loadCustomerHoldView db' hid now = Inr (Some view)" "hv_publicToken view = tok"
    "hv_totalMinor view = sum_list (map hitem_priceMinor (hold_items db' hid))"
    using claimed_view [of ?n locked now ?db1] ok' db' by auto
  moreover have "hitem_priceMinor \<circ> hold_item hid = inv_priceMinor"
    by (simp add: hold_item_def fun_eq_iff)
  moreover have "map inv_priceMinor (seats_of_hold db' hid)
      = map inv_priceMinor (filter (\<lambda>i. i \<in> set locked) (db_inventory ?db1))"
    unfolding seats by simp
  moreover have "acq_hold a = view" using committed(5) r calculation(2) by simp
  ultimately have total: "hv_publicToken (acq_hold a) = tok \<and>
      hv_totalMinor (acq_hold a) = sum_list (map inv_priceMinor (seats_of_hold db' hid))"
    using items by simp
  have set: "set (filter (\<lambda>i. i \<in> set locked) (db_inventory ?db1)) = set locked" using sub by auto
  have "inv_seatId ` set (seats_of_hold db' hid) = set (hci_seatIds input)"
    unfolding seats using locked_covers [OF inv1 l(1,2) input(1)] set by (simp add: image_image)
  moreover have "\<forall>i\<in>set (seats_of_hold db' hid). inv_sessionId i = hci_sessionId input
      \<and> inv_state i = SeatInventoryState.HELD \<and> inv_holdExpiresAt i = Some (now + cfg_holdDurationMs config)"
    unfolding seats using set by (auto simp: l(1) lock_rows_set)
  ultimately show ?thesis using committed(2) total by blast
qed

end
