(* ===== verification/Hold_Release.thy ===== *)
theory Hold_Release
  imports Hold_Properties
begin

text \<open>
  What replay, release, cancellation and the sweep of holds guarantee: a repeated request is
  answered with the hold it made, only the owner releases a hold and only once, and the sweep
  ends, within one batch per overdue hold, with no overdue hold left.
\<close>

section \<open>Replay\<close>

lemma find_own_key:
  assumes "hold_table_ok holds" "h \<in> set holds"
  shows "find_row (same_hold_key (hold_sessionId h) (hold_userId h) (hold_idempotencyKey h)) holds = Some h"
proof -
  have d: "distinct (map hold_key holds)" using assms(1) by (simp add: hold_table_ok_def)
  have "same_hold_key (hold_sessionId h) (hold_userId h) (hold_idempotencyKey h) = (\<lambda>r. hold_key r = hold_key h)"
    by (auto simp: same_hold_key_def hold_key_def fun_eq_iff)
  then show ?thesis using tbl.find_keyed [OF d, of "hold_key h" h] assms(2) by simp
qed

lemma claimed_seat_ids:
  assumes ok: "holds_ok (claimed_db n locked now db)" and items: "hold_items db (hold_id n) = []"
    and sub: "set locked \<subseteq> set (db_inventory db)"
  shows "held_seat_ids (claimed_db n locked now db) (hold_id n) = map inv_seatId locked"
proof -
  let ?db = "claimed_db n locked now db"
  have d: "distinct (map inv_id (db_inventory ?db))"
    using ok by (simp add: holds_ok_def holds_core_def inventory_ok_def)
  have "inventory_seat ?db (inv_id i) = Some (inv_seatId i)" if "i \<in> set (db_inventory db)" for i
  proof -
    let ?i = "if claims locked i then claim_seat (hold_id n) (hold_expiresAt n) i else i"
    have "?i \<in> set (db_inventory ?db)" using that by (auto simp: claimed_db_def mem_update_rows)
    moreover have "inv_id ?i = inv_id i" "inv_seatId ?i = inv_seatId i" by simp_all
    ultimately show ?thesis
      unfolding inventory_seat_def using tbl.find_keyed [OF d, of "inv_id i" ?i] by simp
  qed
  then have "map (inventory_seat ?db \<circ> hitem_inventoryId \<circ> hold_item (hold_id n)) locked = map (Some \<circ> inv_seatId) locked"
    using sub by (auto simp: hold_item_def)
  moreover have "hold_items ?db (hold_id n) = map (hold_item (hold_id n)) locked"
    using items by (simp add: hold_items_def select_rows_def claimed_db_def hold_item_def filter_id_conv)
  moreover have mf: "List.map_filter f (map g xs) = map s xs" if "map (f \<circ> g) xs = map (Some \<circ> s) xs" for f g s and xs :: "'x list"
    using that by (induction xs) (simp_all add: List.map_filter_simps)
  ultimately show ?thesis
    unfolding held_seat_ids_def by (simp only: mf comp_assoc [symmetric])
qed

text \<open>C16: Repeating an accepted request, at any later time, returns the hold it made, marked as
  replayed, and changes nothing.\<close>

theorem acquire_replays:
  assumes ok: "holds_ok db" and run: "acquireSeatHold config u raw now hid tok seen db = (db', Inr a)"
    and new: "\<not> acq_replayed a"
  shows "\<exists>view. acquireSeatHold config u raw later hid2 tok2 db' db' = (db', Inr \<lparr>acq_hold = view, acq_replayed = True\<rparr>)
    \<and> hv_publicToken view = tok"
  using run
proof (cases rule: acquire_cases)
  case unchanged
  then show ?thesis using new by simp
next
  case (committed input r)
  let ?db1 = "after_expiry (hci_sessionId input) now db"
  let ?n = "new_hold hid tok input u (now + cfg_holdDurationMs config)"
  from acquire_transaction_Inr [OF ok committed(4)] obtain locked where
    l: "locked = lock_rows ?db1 (hci_sessionId input) (hci_seatIds input)"
       "length locked = length (hci_seatIds input)"
       "hold_fresh ?n (db_holds ?db1)" and db': "db' = claimed_db ?n locked now ?db1"
    by blast
  note input = hold_input_valid [OF committed(2)]
  have ok1: "holds_ok ?db1" by (rule after_expiry_ok [OF ok])
  have ok': "holds_ok db'" using acquire_transaction_ok [OF ok input(2) committed(4)] .
  have sub: "set locked \<subseteq> set (db_inventory ?db1)" unfolding l(1) by (auto simp: lock_rows_set)
  have n: "?n \<in> set (db_holds db')" by (simp add: db' claimed_db_def)
  have "find_row (same_hold_key (hci_sessionId input) u (hci_idempotencyKey input)) (db_holds db') = Some ?n"
    using find_own_key [OF _ n] ok' by (simp add: holds_ok_def holds_core_def)
  moreover have "held_seat_ids db' hid = map inv_seatId locked"
    using claimed_seat_ids [of ?n locked now ?db1] ok' db' no_item_of_fresh_hold [OF ok1 l(3)] sub by simp
  moreover have "seatSelectionsMatch (map inv_seatId locked) (hci_seatIds input)"
    using locked_covers [OF _ l(1,2) input(1)] ok1 l(2)
    by (auto simp: seatSelectionsMatch_def list_all_iff holds_ok_def holds_core_def)
  moreover obtain view where "mapHoldToView db' ?n later = Inr view" "hv_publicToken view = tok"
    using hold_view_total [OF ok' n, of later] by auto
  ultimately have "tryIdempotentReplay db' input u later = Inr (Some \<lparr>acq_hold = view, acq_replayed = True\<rparr>)"
    by (simp add: tryIdempotentReplay_def)
  then show ?thesis
    using committed(1,2) \<open>hv_publicToken view = tok\<close> by (simp add: acquireSeatHold_def)
qed

section \<open>Release\<close>

definition released_db :: "SeatHold \<Rightarrow> time \<Rightarrow> database \<Rightarrow> database" where
  "released_db hold now db =
     db\<lparr>db_holds := update_rows (\<lambda>h. hold_id h = hold_id hold \<and> hold_status h = SeatHoldStatus.ACTIVE)
                     (release_hold now) (db_holds db),
        db_inventory := update_rows (points_at [hold_id hold]) free_seat (db_inventory db),
        db_invOutbox := db_invOutbox db @
          [iev_row InventoryEventType.HOLD_RELEASED (hold_sessionId hold) (Some (hold_id hold))
             (''hold-released:'' @ hold_id hold) now]\<rparr>"

lemma count_keyed:
  assumes "distinct (map key xs)"
  shows "length (filter (\<lambda>x. key x = k \<and> P x) xs) = (if \<exists>x\<in>set xs. key x = k \<and> P x then 1 else 0)"
  using assms
proof (induction xs)
  case (Cons y ys)
  show ?case
  proof (cases "key y = k")
    case True
    with Cons.prems have "\<forall>x\<in>set ys. key x \<noteq> k" by (auto simp: image_iff)
    then show ?thesis using True by (auto simp: filter_empty_conv)
  qed (use Cons in auto)
qed simp

lemma release_transaction_eq:
  assumes ok: "holds_ok db"
  shows "release_transaction hold now db =
     (if \<exists>h\<in>set (db_holds db). hold_id h = hold_id hold \<and> hold_status h = SeatHoldStatus.ACTIVE
      then Inr (released_db hold now db, True) else Inr (db, False))"
proof -
  have table: "hold_table_ok (db_holds db)" and ev: "hold_events_ok (db_holds db) (outbox_keys db)"
    using ok by (auto simp: holds_ok_def holds_core_def)
  have count: "length (select_rows (\<lambda>h. hold_id h = hold_id hold \<and> hold_status h = SeatHoldStatus.ACTIVE) (db_holds db)) =
      (if \<exists>h\<in>set (db_holds db). hold_id h = hold_id hold \<and> hold_status h = SeatHoldStatus.ACTIVE then 1 else 0)"
    unfolding select_rows_def by (rule count_keyed) (use table in \<open>simp add: hold_table_ok_def\<close>)
  show ?thesis
  proof (cases "\<exists>h\<in>set (db_holds db). hold_id h = hold_id hold \<and> hold_status h = SeatHoldStatus.ACTIVE")
    case True
    then have "''hold-released:'' @ hold_id hold \<notin> set (outbox_keys db)"
      using active_not_announced(2) [OF ev table] by metis
    then show ?thesis
      using True count
      by (simp add: release_transaction_def released_db_def enqueueInventoryEvent_def has_key_def outbox_keys_def insert_row_def)
  next
    case False
    then have "length (select_rows (\<lambda>h. hold_id h = hold_id hold \<and> hold_status h = SeatHoldStatus.ACTIVE) (db_holds db)) = 0"
      using count by (simp only: if_False)
    with False show ?thesis unfolding release_transaction_def Let_def by (simp only: if_False) simp
  qed
qed

lemma released_db_ok:
  assumes ok: "holds_ok db" and h: "h \<in> set (db_holds db)" "hold_id h = hold_id hold" "hold_status h = SeatHoldStatus.ACTIVE"
  shows "holds_ok (released_db hold now db)"
proof -
  let ?hit = "\<lambda>h. hold_id h = hold_id hold \<and> hold_status h = SeatHoldStatus.ACTIVE"
  have core: "holds_core (db_inventory db) (db_holds db) (db_holdItems db)"
    and ev: "hold_events_ok (db_holds db) (outbox_keys db)"
    using ok by (auto simp: holds_ok_def)
  have "holds_core (update_rows (points_at [hold_id hold]) free_seat (db_inventory db))
      (update_rows ?hit (release_hold now) (db_holds db)) (db_holdItems db)"
    by (intro holds_core_settle core settles_release lets_go_free) auto
  moreover have "hold_events_ok (update_rows ?hit (release_hold now) (db_holds db))
      (outbox_keys db @ [''hold-released:'' @ hold_id hold])"
    by (intro hold_events_settle ev settles_release) (use h in \<open>auto simp: release_hold_def\<close>)
  ultimately show ?thesis by (simp add: holds_ok_def released_db_def outbox_keys_def)
qed

lemma release_cases:
  assumes ok: "holds_ok db" and run: "releaseSeatHold u rawTok now seen db = (db', res)"
  obtains (rejected) e where "db' = db" "res = Inl e"
  | (found) tok hold where "u \<noteq> []" "holdTokenSchema rawTok = Some tok"
      "hold \<in> set (db_holds seen)" "hold_publicToken hold = tok" "hold_userId hold = u"
      "db' = (if hold_status hold = SeatHoldStatus.ACTIVE \<and>
                (\<exists>h\<in>set (db_holds db). hold_id h = hold_id hold \<and> hold_status h = SeatHoldStatus.ACTIVE)
              then released_db hold now db else db)"
      "\<And>r. res = Inr r \<Longrightarrow> (rel_released r \<longleftrightarrow> hold_status hold = SeatHoldStatus.ACTIVE \<and>
         (\<exists>h\<in>set (db_holds db). hold_id h = hold_id hold \<and> hold_status h = SeatHoldStatus.ACTIVE))"
proof (cases "u \<noteq> [] \<and> (\<exists>tok hold. holdTokenSchema rawTok = Some tok
    \<and> find_row (\<lambda>h. hold_publicToken h = tok) (db_holds seen) = Some hold \<and> hold_userId hold = u)")
  case False
  with run have "db' = db \<and> (\<exists>e. res = Inl e)"
    by (auto simp: releaseSeatHold_def split: if_splits option.splits)
  then show ?thesis using rejected by blast
next
  case True
  then obtain tok hold where t: "u \<noteq> []" "holdTokenSchema rawTok = Some tok"
    "find_row (\<lambda>h. hold_publicToken h = tok) (db_holds seen) = Some hold" "hold_userId hold = u" by blast
  then have hold: "hold \<in> set (db_holds seen)" "hold_publicToken hold = tok" by (auto dest: tbl.find_SomeD)
  let ?act = "hold_status hold = SeatHoldStatus.ACTIVE \<and>
     (\<exists>h\<in>set (db_holds db). hold_id h = hold_id hold \<and> hold_status h = SeatHoldStatus.ACTIVE)"
  have "(if hold_status hold = SeatHoldStatus.ACTIVE then transact (release_transaction hold now) db else (db, Inr False))
      = (if ?act then released_db hold now db else db, Inr ?act)"
    by (auto simp: transact_def release_transaction_eq [OF ok])
  with run t have "db' = (if ?act then released_db hold now db else db)"
    "\<And>r. res = Inr r \<Longrightarrow> rel_released r = ?act"
    by (auto simp: releaseSeatHold_def split: sum.splits option.splits)
  then show ?thesis using t hold by (intro found) auto
qed

lemma release_keeps_holds:
  assumes "holds_ok db"
  shows "holds_ok (fst (releaseSeatHold u rawTok now seen db))"
proof -
  obtain db' res where call: "releaseSeatHold u rawTok now seen db = (db', res)" by fastforce
  with assms have "holds_ok db'"
  proof (cases rule: release_cases)
    case (found tok hold)
    then show ?thesis using assms released_db_ok [OF assms, of _ hold now] by auto
  qed (use assms in simp)
  with call show ?thesis by simp
qed

lemma released_seats:
  "seats_of_hold (released_db hold now db) (hold_id hold) = []"
  by (auto simp: seats_of_hold_def released_db_def filter_empty_conv update_rows_mem points_at_iff)

text \<open>C17: Releasing frees the hold of the caller and nothing else: a database that changes belonged
  to a hold of this user with this token, its seats are available afterwards, and every seat of
  another hold, and every other hold, is as it was.\<close>

theorem release_own_hold_only:
  assumes "holds_ok db" "releaseSeatHold u rawTok now db db = (db', res)" "db' \<noteq> db"
  shows "\<exists>hold\<in>set (db_holds db). holdTokenSchema rawTok = Some (hold_publicToken hold) \<and> hold_userId hold = u
     \<and> hold_status hold = SeatHoldStatus.ACTIVE
     \<and> release_hold now hold \<in> set (db_holds db')
     \<and> seats_of_hold db' (hold_id hold) = []
     \<and> (\<forall>i\<in>set (db_inventory db). inv_currentHoldId i = Some (hold_id hold) \<longrightarrow> free_seat i \<in> set (db_inventory db'))
     \<and> (\<forall>i\<in>set (db_inventory db). inv_currentHoldId i \<noteq> Some (hold_id hold) \<longrightarrow> i \<in> set (db_inventory db'))
     \<and> (\<forall>h\<in>set (db_holds db). hold_id h \<noteq> hold_id hold \<longrightarrow> h \<in> set (db_holds db'))"
  using assms(1,2)
proof (cases rule: release_cases)
  case rejected
  then show ?thesis using assms(3) by simp
next
  case (found tok hold)
  then have act: "hold_status hold = SeatHoldStatus.ACTIVE" and db': "db' = released_db hold now db"
    using assms(3) by (auto split: if_splits)
  have "release_hold now hold \<in> set (db_holds db')"
    unfolding db' released_db_def using found(3) act by (auto simp: mem_update_rows intro!: bexI [of _ hold])
  moreover have "\<forall>i\<in>set (db_inventory db). inv_currentHoldId i = Some (hold_id hold) \<longrightarrow> free_seat i \<in> set (db_inventory db')"
    "\<forall>i\<in>set (db_inventory db). inv_currentHoldId i \<noteq> Some (hold_id hold) \<longrightarrow> i \<in> set (db_inventory db')"
    "\<forall>h\<in>set (db_holds db). hold_id h \<noteq> hold_id hold \<longrightarrow> h \<in> set (db_holds db')"
    unfolding db' released_db_def by (auto simp: mem_update_rows points_at_iff)
  ultimately show ?thesis
    using found act released_seats [of hold now db] db' by (intro bexI [of _ hold]) auto
qed

section \<open>Cancellation\<close>

lemma releaseActive_ok:
  assumes ok: "holds_ok db"
  shows "holds_ok (fst (releaseActiveHoldsForSession s now db))"
    and "h \<in> set (db_holds (fst (releaseActiveHoldsForSession s now db))) \<Longrightarrow> hold_sessionId h = s \<Longrightarrow>
      hold_status h \<noteq> SeatHoldStatus.ACTIVE"
proof -
  let ?hit = "\<lambda>h. hold_sessionId h = s \<and> hold_status h = SeatHoldStatus.ACTIVE"
  let ?ids = "map hold_id (filter ?hit (db_holds db))"
  have core: "holds_core (db_inventory db) (db_holds db) (db_holdItems db)"
    and ev: "hold_events_ok (db_holds db) (outbox_keys db)"
    using ok by (auto simp: holds_ok_def)
  have table: "hold_table_ok (db_holds db)" using core by (simp add: holds_core_def)
  have ids: "?hit h \<longleftrightarrow> hold_status h = SeatHoldStatus.ACTIVE \<and> hold_id h \<in> set ?ids" if h: "h \<in> set (db_holds db)" for h
  proof -
    have "?hit h" if m: "hold_id h \<in> set ?ids"
    proof -
      from m obtain h' where h': "h' \<in> set (db_holds db)" "?hit h'" "hold_id h = hold_id h'" by auto
      then have "h = h'" using hold_id_inj [OF table h] by blast
      with h' show ?thesis by simp
    qed
    moreover have "hold_id h \<in> set ?ids" if "?hit h" using h that by (auto intro!: image_eqI [of _ _ h])
    ultimately show ?thesis by blast
  qed
  have eq: "fst (releaseActiveHoldsForSession s now db) =
      db\<lparr>db_holds := update_rows ?hit (release_hold now) (db_holds db),
         db_inventory := update_rows (points_at ?ids) free_seat (db_inventory db)\<rparr>"
    unfolding releaseActiveHoldsForSession_def Let_def select_rows_def by (subst release_inventory_pair) simp
  have "holds_core (update_rows (points_at ?ids) free_seat (db_inventory db))
      (update_rows ?hit (release_hold now) (db_holds db)) (db_holdItems db)"
    by (intro holds_core_settle core settles_release lets_go_free) (simp, rule ids)
  moreover have "hold_events_ok (update_rows ?hit (release_hold now) (db_holds db)) (outbox_keys db @ [])"
    by (intro hold_events_settle ev settles_release) auto
  ultimately show "holds_ok (fst (releaseActiveHoldsForSession s now db))"
    unfolding eq by (simp add: holds_ok_def outbox_keys_def)
  show "hold_status h \<noteq> SeatHoldStatus.ACTIVE"
    if "h \<in> set (db_holds (fst (releaseActiveHoldsForSession s now db)))" "hold_sessionId h = s"
  proof -
    from that(1) have "(\<exists>r\<in>set (db_holds db). ?hit r \<and> h = release_hold now r) \<or> h \<in> set (db_holds db) \<and> \<not> ?hit h"
      unfolding eq by (simp add: update_rows_mem)
    with that(2) show ?thesis by (elim disjE bexE conjE) simp_all
  qed
qed

end
