(* ===== verification/Checkout_Service.thy ===== *)
theory Checkout_Service
  imports Constraints Hold_Release
begin

text \<open>
  Checkout over the database: src/server/payments/checkout-service.ts (one order per hold, the
  payment intent) and the maintenance commands of src/server/payments/operations-service.ts.
  The provider's answers are arguments; so are the identifiers, references and keys drawn at
  random.
\<close>

section \<open>Creating an order\<close>

record CheckoutCreateInput =
  cci_holdToken :: string
  cci_idempotencyKey :: string

definition checkoutCreateInputSchema :: "CheckoutCreateInput \<Rightarrow> CheckoutCreateInput option" where
  "checkoutCreateInputSchema raw =
     (case (holdTokenSchema (cci_holdToken raw), idempotencyKeySchema (cci_idempotencyKey raw)) of
        (Some token, Some key) \<Rightarrow> Some \<lparr>cci_holdToken = token, cci_idempotencyKey = key\<rparr>
      | _ \<Rightarrow> None)"

text \<open>What the source draws at random for one order.\<close>

record checkout_draw =
  cd_orderId :: ident
  cd_publicReference :: string
  cd_attemptId :: ident
  cd_providerIdempotencyKey :: string

record CreateCheckoutResult =
  ccr_orderId :: ident
  ccr_publicReference :: string
  ccr_replayed :: bool

definition order_of_hold :: "database \<Rightarrow> ident \<Rightarrow> CheckoutOrder option" where
  "order_of_hold db holdId = find_row (\<lambda>o'. ord_sourceHoldId o' = holdId) (db_orders db)"

definition find_inventory :: "database \<Rightarrow> ident \<Rightarrow> SessionSeatInventory option" where
  "find_inventory db inventoryId = find_row (\<lambda>i. inv_id i = inventoryId) (db_inventory db)"

text \<open>The test on the locked inventory: every row HELD by this hold until its expiry.\<close>

definition inventory_matches :: "database \<Rightarrow> SeatHold \<Rightarrow> bool" where
  "inventory_matches db hold =
     (let inventoryIds = map hitem_inventoryId (hold_items db (hold_id hold));
          locked = select_rows (\<lambda>i. List.member inventoryIds (inv_id i)) (db_inventory db)
      in length locked = length inventoryIds \<and>
         list_all (\<lambda>row. inv_state row = SeatInventoryState.HELD
           \<and> inv_currentHoldId row = Some (hold_id hold)
           \<and> inv_holdExpiresAt row = Some (hold_expiresAt hold)) locked)"

definition new_order ::
  "checkout_draw \<Rightarrow> CheckoutCreateInput \<Rightarrow> SeatHold \<Rightarrow> EventSession \<Rightarrow> Event \<Rightarrow> CheckoutTotal \<Rightarrow> CheckoutOrder" where
  "new_order draw input hold ses ev total' =
     \<lparr>ord_id = cd_orderId draw, ord_publicReference = cd_publicReference draw,
      ord_userId = hold_userId hold, ord_organizationId = ev_organizerOrganizationId ev,
      ord_eventId = ses_eventId ses, ord_sessionId = hold_sessionId hold,
      ord_sourceHoldId = hold_id hold, ord_status = CheckoutOrderStatus.PENDING,
      ord_currency = ct_currency total', ord_subtotalMinor = ct_subtotalMinor total',
      ord_totalMinor = ct_totalMinor total', ord_idempotencyKey = cci_idempotencyKey input,
      ord_checkoutExpiresAt = hold_expiresAt hold, ord_paidAt = None, ord_fulfilledAt = None,
      ord_failedAt = None, ord_expiredAt = None, ord_safeFailureCode = None, ord_version = 0,
      ord_financialReviewState = FinancialReviewState.NONE\<rparr>"

definition order_item :: "database \<Rightarrow> ident \<Rightarrow> SeatHoldItem \<Rightarrow> CheckoutOrderItem option" where
  "order_item db orderId item =
     map_option (\<lambda>i. \<lparr>oitem_orderId = orderId, oitem_inventoryId = hitem_inventoryId item,
        oitem_seatId = inv_seatId i, oitem_sectionId = inv_sectionId i,
        oitem_priceTierId = inv_priceTierId i, oitem_labels = inv_labels i,
        oitem_priceMinor = hitem_priceMinor item, oitem_currency = hitem_currency item\<rparr>)
       (find_inventory db (hitem_inventoryId item))"

definition new_attempt :: "checkout_draw \<Rightarrow> PaymentProviderName \<Rightarrow> CheckoutTotal \<Rightarrow> PaymentAttempt" where
  "new_attempt draw provider total' =
     \<lparr>pay_id = cd_attemptId draw, pay_orderId = cd_orderId draw, pay_provider = provider,
      pay_providerIntentId = None, pay_providerIdempotencyKey = cd_providerIdempotencyKey draw,
      pay_status = PaymentAttemptStatus.CREATED, pay_amountMinor = ct_totalMinor total',
      pay_currency = ct_currency total', pay_lastProviderStatus = None, pay_safeFailureCode = None,
      pay_succeededAt = None, pay_failedAt = None, pay_cancelledAt = None,
      pay_refundedMinor = 0, pay_inFlightRefundMinor = 0\<rparr>"

text \<open>The creations, under the unique indexes of the two tables.\<close>

definition create_order :: "CheckoutOrder \<Rightarrow> database \<Rightarrow> service_error + database" where
  "create_order o' db =
     (if list_ex (\<lambda>x. ord_id x = ord_id o') (db_orders db) then Inl (UniqueViolation ''id'')
      else if list_ex (\<lambda>x. ord_publicReference x = ord_publicReference o') (db_orders db)
      then Inl (UniqueViolation ''publicReference'')
      else if list_ex (\<lambda>x. ord_sourceHoldId x = ord_sourceHoldId o') (db_orders db)
      then Inl (UniqueViolation ''sourceHoldId'')
      else Inr (db\<lparr>db_orders := insert_row o' (db_orders db)\<rparr>))"

definition create_attempt :: "PaymentAttempt \<Rightarrow> database \<Rightarrow> service_error + database" where
  "create_attempt a db =
     (if list_ex (\<lambda>x. pay_id x = pay_id a) (db_attempts db) then Inl (UniqueViolation ''id'')
      else if list_ex (\<lambda>x. pay_providerIdempotencyKey x = pay_providerIdempotencyKey a) (db_attempts db)
      then Inl (UniqueViolation ''providerIdempotencyKey'')
      else if list_ex (\<lambda>x. pay_orderId x = pay_orderId a \<and> pay_provider x = pay_provider a) (db_attempts db)
      then Inl (UniqueViolation ''orderId_provider'')
      else Inr (db\<lparr>db_attempts := insert_row a (db_attempts db)\<rparr>))"

text \<open>The writes once every check has passed.\<close>

definition write_checkout ::
  "checkout_draw \<Rightarrow> CheckoutCreateInput \<Rightarrow> PaymentProviderName \<Rightarrow> SeatHold \<Rightarrow> EventSession \<Rightarrow> Event
     \<Rightarrow> CheckoutTotal \<Rightarrow> time \<Rightarrow> CreateCheckoutResult tx" where
  "write_checkout draw input provider hold ses ev total' now db =
     and_then (create_order (new_order draw input hold ses ev total') db) (\<lambda>db1.
     and_then (create_attempt (new_attempt draw provider total')
       (db1\<lparr>db_orderItems := db_orderItems db1 @
          List.map_filter (order_item db (cd_orderId draw)) (hold_items db (hold_id hold))\<rparr>)) (\<lambda>db2.
     and_then (enqueueInventoryEvent InventoryEventType.CHECKOUT_CREATED (hold_sessionId hold)
       (Some (cd_orderId draw)) (''checkout-created:'' @ cd_orderId draw) now db2) (\<lambda>db3.
     Inr (db3, \<lparr>ccr_orderId = cd_orderId draw, ccr_publicReference = cd_publicReference draw,
                ccr_replayed = False\<rparr>))))"

definition checkout_checks ::
  "checkout_draw \<Rightarrow> CheckoutCreateInput \<Rightarrow> PaymentProviderName \<Rightarrow> SeatHold \<Rightarrow> time \<Rightarrow> CreateCheckoutResult tx" where
  "checkout_checks draw input provider hold now db =
     (let items = hold_items db (hold_id hold)
      in if hold_status hold \<noteq> SeatHoldStatus.ACTIVE \<or> hold_expiresAt hold \<le> now
         then Inl (CheckoutEligibilityError ''HOLD_NOT_ACTIVE'')
         else if items = [] then Inl (CheckoutEligibilityError ''HOLD_EMPTY'')
         else if \<not> inventory_matches db hold then Inl CheckoutConflictError
         else case find_session db (hold_sessionId hold) of
                None \<Rightarrow> Inl RecordNotFound
              | Some ses \<Rightarrow>
                  (case find_event db (ses_eventId ses) of
                     None \<Rightarrow> Inl RecordNotFound
                   | Some ev \<Rightarrow>
                       (case evaluateSessionSalesEligibility
                               ((eligibility_input db ses ev)\<lparr>eli_hasInventory := True\<rparr>) now of
                          Some reason \<Rightarrow> Inl (CheckoutEligibilityError (sale_block_code reason))
                        | None \<Rightarrow>
                            (case calculateCheckoutTotal (map priced_item items) of
                               Inl _ \<Rightarrow> Inl CheckoutTotalError
                             | Inr t \<Rightarrow> write_checkout draw input provider hold ses ev t now db))))"

definition checkout_transaction ::
  "checkout_draw \<Rightarrow> CheckoutCreateInput \<Rightarrow> PaymentProviderName \<Rightarrow> ident \<Rightarrow> time \<Rightarrow> CreateCheckoutResult tx" where
  "checkout_transaction draw input provider userId now db =
     (case select_rows (\<lambda>h. hold_publicToken h = cci_holdToken input) (db_holds db) of
        [hold] \<Rightarrow>
          (if hold_userId hold \<noteq> userId then Inl CheckoutAuthorizationError
           else case order_of_hold db (hold_id hold) of
                  Some o' \<Rightarrow>
                    (if ord_userId o' = userId \<and> ord_idempotencyKey o' = cci_idempotencyKey input
                     then Inr (db, \<lparr>ccr_orderId = ord_id o', ccr_publicReference = ord_publicReference o',
                                    ccr_replayed = True\<rparr>)
                     else Inl CheckoutConflictError)
                | None \<Rightarrow> checkout_checks draw input provider hold now db)
      | _ \<Rightarrow> Inl CheckoutAuthorizationError)"

definition createCheckoutOrder ::
  "ident \<Rightarrow> CheckoutCreateInput \<Rightarrow> PaymentProviderName \<Rightarrow> time \<Rightarrow> checkout_draw \<Rightarrow> database
     \<Rightarrow> database \<times> (service_error + CreateCheckoutResult)" where
  "createCheckoutOrder userId rawInput provider now draw db =
     (if userId = [] then (db, Inl CheckoutAuthenticationError)
      else case checkoutCreateInputSchema rawInput of
             None \<Rightarrow> (db, Inl CheckoutValidationError)
           | Some input \<Rightarrow> transact (checkout_transaction draw input provider userId now) db)"

section \<open>The payment intent\<close>

record CreatePaymentIntentInput =
  cpi_orderReference :: string
  cpi_amountMinor :: minor
  cpi_intentCurrency :: Currency
  cpi_idempotencyKey :: string
  cpi_expiresAt :: time

record ProviderPaymentIntent =
  ppi_providerIntentId :: string
  ppi_status :: PaymentAttemptStatus
  ppi_providerStatus :: string
  ppi_checkoutUrl :: "string option"

record PaymentIntentResult =
  pir_attemptId :: ident
  pir_intent :: ProviderPaymentIntent
  pir_replayed :: bool

fun payment_status_word :: "PaymentAttemptStatus \<Rightarrow> string" where
  "payment_status_word PaymentAttemptStatus.CREATED = ''created''"
| "payment_status_word PaymentAttemptStatus.PENDING = ''pending''"
| "payment_status_word PaymentAttemptStatus.SUCCEEDED = ''succeeded''"
| "payment_status_word PaymentAttemptStatus.FAILED = ''failed''"
| "payment_status_word PaymentAttemptStatus.CANCELLED = ''cancelled''"
| "payment_status_word PaymentAttemptStatus.REQUIRES_REVIEW = ''requires_review''"

definition stored_intent :: "PaymentAttempt \<Rightarrow> string \<Rightarrow> PaymentIntentResult" where
  "stored_intent attempt intentId =
     \<lparr>pir_attemptId = pay_id attempt,
      pir_intent = \<lparr>ppi_providerIntentId = intentId, ppi_status = pay_status attempt,
        ppi_providerStatus = (case pay_lastProviderStatus attempt of
          None \<Rightarrow> payment_status_word (pay_status attempt) | Some s \<Rightarrow> s),
        ppi_checkoutUrl = None\<rparr>,
      pir_replayed = True\<rparr>"

definition find_attempt :: "database \<Rightarrow> ident \<Rightarrow> PaymentAttempt option" where
  "find_attempt db attemptId = find_row (\<lambda>a. pay_id a = attemptId) (db_attempts db)"

definition find_order :: "database \<Rightarrow> ident \<Rightarrow> CheckoutOrder option" where
  "find_order db orderId = find_row (\<lambda>o'. ord_id o' = orderId) (db_orders db)"

definition attach_intent :: "ident \<Rightarrow> ProviderPaymentIntent \<Rightarrow> time \<Rightarrow> PaymentIntentResult tx" where
  "attach_intent attemptId intent now db =
     (case find_attempt db attemptId of
        None \<Rightarrow> Inl RecordNotFound
      | Some current \<Rightarrow>
          (case find_order db (pay_orderId current) of
             None \<Rightarrow> Inl RecordNotFound
           | Some o' \<Rightarrow>
               (case pay_providerIntentId current of
                  Some intentId \<Rightarrow> Inr (db, stored_intent current intentId)
                | None \<Rightarrow>
                    and_then (update_attempt (pay_id current)
                      (\<lambda>a. a\<lparr>pay_providerIntentId := Some (ppi_providerIntentId intent),
                             pay_status := PaymentAttemptStatus.PENDING,
                             pay_lastProviderStatus := Some (take 80 (ppi_providerStatus intent))\<rparr>) db) (\<lambda>db1.
                    and_then (if ord_status o' = CheckoutOrderStatus.PENDING
                              then update_order (ord_id o')
                                     (\<lambda>x. x\<lparr>ord_status := CheckoutOrderStatus.PAYMENT_PENDING,
                                            ord_version := ord_version x + 1\<rparr>) db1
                              else Inr db1) (\<lambda>db2.
                    and_then (enqueueInventoryEvent InventoryEventType.PAYMENT_INTENT_CREATED (ord_sessionId o')
                      (Some (pay_id current)) (''payment-intent-created:'' @ pay_id current) now db2) (\<lambda>db3.
                    Inr (db3, \<lparr>pir_attemptId = pay_id current, pir_intent = intent, pir_replayed = False\<rparr>)))))))"

text \<open>
  \<open>seen\<close> is the database read before the provider is called, \<open>db\<close> the one the transaction finds
  afterwards; \<open>createIntent\<close> is the provider's answer to the request, \<open>None\<close> when it throws.
\<close>

definition ensurePaymentIntent ::
  "PaymentProviderName \<Rightarrow> (CreatePaymentIntentInput \<Rightarrow> ProviderPaymentIntent option) \<Rightarrow> ident \<Rightarrow> time
     \<Rightarrow> database \<Rightarrow> database \<Rightarrow> database \<times> (service_error + PaymentIntentResult)" where
  "ensurePaymentIntent provider createIntent orderId now seen db =
     (case find_row (\<lambda>a. pay_orderId a = orderId \<and> pay_provider a = provider) (db_attempts seen) of
        None \<Rightarrow> (db, Inl CheckoutConflictError)
      | Some attempt \<Rightarrow>
          (case pay_providerIntentId attempt of
             Some intentId \<Rightarrow> (db, Inr (stored_intent attempt intentId))
           | None \<Rightarrow>
               (case find_order seen (pay_orderId attempt) of
                  None \<Rightarrow> (db, Inl RecordNotFound)
                | Some o' \<Rightarrow>
                    if ord_checkoutExpiresAt o' \<le> now then (db, Inl (CheckoutEligibilityError ''CHECKOUT_EXPIRED''))
                    else case createIntent \<lparr>cpi_orderReference = ord_publicReference o',
                                cpi_amountMinor = pay_amountMinor attempt, cpi_intentCurrency = pay_currency attempt,
                                cpi_idempotencyKey = pay_providerIdempotencyKey attempt,
                                cpi_expiresAt = ord_checkoutExpiresAt o'\<rparr> of
                           None \<Rightarrow> (db, Inl PaymentProviderError)
                         | Some intent \<Rightarrow> transact (attach_intent (pay_id attempt) intent now) db)))"

definition createCheckoutAndPayment ::
  "PaymentProviderName \<Rightarrow> (CreatePaymentIntentInput \<Rightarrow> ProviderPaymentIntent option) \<Rightarrow> ident
     \<Rightarrow> CheckoutCreateInput \<Rightarrow> time \<Rightarrow> checkout_draw \<Rightarrow> database
     \<Rightarrow> database \<times> (service_error + CreateCheckoutResult \<times> PaymentIntentResult)" where
  "createCheckoutAndPayment provider createIntent userId rawInput now draw db =
     (case createCheckoutOrder userId rawInput provider now draw db of
        (db1, Inl e) \<Rightarrow> (db1, Inl e)
      | (db1, Inr made) \<Rightarrow>
          (case ensurePaymentIntent provider createIntent (ccr_orderId made) now db1 db1 of
             (db2, Inl e) \<Rightarrow> (db2, Inl e)
           | (db2, Inr payment) \<Rightarrow> (db2, Inr (made, payment))))"

section \<open>Expiry of unpaid orders\<close>

definition unpaid :: "CheckoutOrderStatus \<Rightarrow> bool" where
  "unpaid status \<longleftrightarrow> List.member [CheckoutOrderStatus.PENDING, CheckoutOrderStatus.PAYMENT_PENDING] status"

definition expire_order :: "time \<Rightarrow> CheckoutOrder \<Rightarrow> CheckoutOrder" where
  "expire_order now o' =
     o'\<lparr>ord_status := CheckoutOrderStatus.EXPIRED, ord_expiredAt := Some now,
        ord_safeFailureCode := Some ''CHECKOUT_EXPIRED'', ord_version := ord_version o' + 1\<rparr>"

fun release_sessions :: "ident list \<Rightarrow> time \<Rightarrow> database \<Rightarrow> service_error + database" where
  "release_sessions [] now db = Inr db"
| "release_sessions (s # ss) now db =
     and_then (releaseExpiredHoldsForSession s now db) (\<lambda>(db', _). release_sessions ss now db')"

definition expire_orders_batch :: "time \<Rightarrow> nat \<Rightarrow> nat tx" where
  "expire_orders_batch now batchSize db =
     (let claimed = take batchSize (sort_key ord_checkoutExpiresAt (sort_key ord_id
            (select_rows (\<lambda>o'. unpaid (ord_status o') \<and> ord_checkoutExpiresAt o' \<le> now) (db_orders db))))
      in if claimed = [] then Inr (db, 0)
         else
           let ids = map ord_id claimed;
               hit = (\<lambda>o'. List.member ids (ord_id o') \<and> unpaid (ord_status o'))
           in and_then (release_sessions (js_unique (map ord_sessionId claimed)) now
                (db\<lparr>db_orders := update_rows hit (expire_order now) (db_orders db)\<rparr>))
                (\<lambda>db1. Inr (db1, length claimed)))"

definition clamp :: "int \<Rightarrow> int \<Rightarrow> int \<Rightarrow> nat" where
  "clamp lo hi n = nat (min (max n lo) hi)"

text \<open>The loop counts down the batches that remain of the clamped maximum.\<close>

fun expire_orders_loop ::
  "nat \<Rightarrow> time \<Rightarrow> nat \<Rightarrow> nat \<Rightarrow> nat \<Rightarrow> database \<Rightarrow> database \<times> (service_error + nat \<times> nat)" where
  "expire_orders_loop 0 now batchSize expired batches db = (db, Inr (expired, batches))"
| "expire_orders_loop (Suc left) now batchSize expired batches db =
     (case transact (expire_orders_batch now batchSize) db of
        (db', Inl e) \<Rightarrow> (db', Inl e)
      | (db', Inr n) \<Rightarrow>
          if n = 0 then (db', Inr (expired, batches))
          else expire_orders_loop left now batchSize (expired + n) (batches + 1) db')"

definition expireUnpaidCheckoutOrders ::
  "time \<Rightarrow> int option \<Rightarrow> int option \<Rightarrow> database \<Rightarrow> database \<times> (service_error + nat \<times> nat)" where
  "expireUnpaidCheckoutOrders now batchSize maxBatches db =
     expire_orders_loop (clamp 1 100000 (case maxBatches of None \<Rightarrow> 10 | Some n \<Rightarrow> n)) now
       (clamp 1 1000 (case batchSize of None \<Rightarrow> 100 | Some n \<Rightarrow> n)) 0 0 db"

section \<open>Reconciliation of pending intents\<close>

record ReconciliationResult =
  rec_inspected :: nat
  rec_initialized :: nat
  rec_refreshed :: nat
  rec_awaitingVerifiedWebhook :: nat
  rec_failed :: nat

text \<open>
  \<open>attempts\<close> are the selected rows, oldest update first; \<open>retrieveIntent\<close> is the provider's
  answer for a known intent. Any failure of one attempt is counted and the loop goes on.
\<close>

fun reconcile_loop ::
  "PaymentProviderName \<Rightarrow> (CreatePaymentIntentInput \<Rightarrow> ProviderPaymentIntent option)
     \<Rightarrow> (string \<Rightarrow> ProviderPaymentIntent option) \<Rightarrow> time \<Rightarrow> PaymentAttempt list \<Rightarrow> ReconciliationResult
     \<Rightarrow> database \<Rightarrow> database \<times> ReconciliationResult" where
  "reconcile_loop provider createIntent retrieveIntent now [] result db = (db, result)"
| "reconcile_loop provider createIntent retrieveIntent now (attempt # attempts) result db =
     (case pay_providerIntentId attempt of
        None \<Rightarrow>
          (case ensurePaymentIntent provider createIntent (pay_orderId attempt) now db db of
             (db', Inl e) \<Rightarrow> reconcile_loop provider createIntent retrieveIntent now attempts
                              (result\<lparr>rec_failed := rec_failed result + 1\<rparr>) db'
           | (db', Inr r) \<Rightarrow> reconcile_loop provider createIntent retrieveIntent now attempts
                              (result\<lparr>rec_initialized := rec_initialized result + 1\<rparr>) db')
      | Some intentId \<Rightarrow>
          (case retrieveIntent intentId of
             None \<Rightarrow> reconcile_loop provider createIntent retrieveIntent now attempts
                       (result\<lparr>rec_failed := rec_failed result + 1\<rparr>) db
           | Some intent \<Rightarrow>
               (case update_attempt (pay_id attempt)
                       (\<lambda>a. a\<lparr>pay_lastProviderStatus := Some (take 80 (ppi_providerStatus intent))\<rparr>) db of
                  Inl e \<Rightarrow> reconcile_loop provider createIntent retrieveIntent now attempts
                             (result\<lparr>rec_failed := rec_failed result + 1\<rparr>) db
                | Inr db' \<Rightarrow> reconcile_loop provider createIntent retrieveIntent now attempts
                    (result\<lparr>rec_refreshed := rec_refreshed result + 1,
                            rec_awaitingVerifiedWebhook := rec_awaitingVerifiedWebhook result +
                              (if ppi_status intent = PaymentAttemptStatus.SUCCEEDED then 1 else 0)\<rparr>) db')))"

definition reconcilable :: "PaymentProviderName \<Rightarrow> PaymentAttempt \<Rightarrow> bool" where
  "reconcilable provider a \<longleftrightarrow> pay_provider a = provider
     \<and> List.member [PaymentAttemptStatus.CREATED, PaymentAttemptStatus.PENDING] (pay_status a)"

text \<open>Row order stands for the order of \<open>updatedAt\<close>, a column that is not modelled.\<close>

definition reconcilePendingPaymentIntents ::
  "PaymentProviderName \<Rightarrow> (CreatePaymentIntentInput \<Rightarrow> ProviderPaymentIntent option)
     \<Rightarrow> (string \<Rightarrow> ProviderPaymentIntent option) \<Rightarrow> time \<Rightarrow> int \<Rightarrow> database
     \<Rightarrow> database \<times> ReconciliationResult" where
  "reconcilePendingPaymentIntents provider createIntent retrieveIntent now limit db =
     (let attempts = take (clamp 1 1000 limit) (select_rows (reconcilable provider) (db_attempts db))
      in reconcile_loop provider createIntent retrieveIntent now attempts
           \<lparr>rec_inspected = length attempts, rec_initialized = 0, rec_refreshed = 0,
            rec_awaitingVerifiedWebhook = 0, rec_failed = 0\<rparr> db)"

end
