(* ===== verification/Webhook_Service.thy ===== *)
theory Webhook_Service
  imports Checkout_Service
begin

text \<open>
  Verified payment webhooks, src/server/payments/webhook-service.ts: storing an envelope once
  per provider event, and the transaction that turns a paid event into a booking, a failure or
  a review. Refund and dispute envelopes are stored here too; what they do is in
  Refund_Settlement and Dispute_Service.
\<close>

section \<open>Storing the envelope\<close>

record NormalizedPaymentWebhookEvent =
  nev_providerEventId :: string
  nev_eventType :: string
  nev_providerIntentId :: string
  nev_status :: PaymentAttemptStatus
  nev_amountMinor :: minor
  nev_currency :: Currency
  nev_occurredAt :: "time option"

definition attempt_of_intent :: "database \<Rightarrow> PaymentProviderName \<Rightarrow> string \<Rightarrow> PaymentAttempt option" where
  "attempt_of_intent db provider intentId =
     find_row (\<lambda>a. pay_provider a = provider \<and> pay_providerIntentId a = Some intentId) (db_attempts db)"

definition webhook_of_event :: "database \<Rightarrow> PaymentProviderName \<Rightarrow> string \<Rightarrow> PaymentWebhookEvent option" where
  "webhook_of_event db provider eventId =
     find_row (\<lambda>w. wh_provider w = provider \<and> wh_providerEventId w = eventId) (db_webhooks db)"

definition payment_envelope ::
  "ident \<Rightarrow> PaymentProviderName \<Rightarrow> NormalizedPaymentWebhookEvent \<Rightarrow> ident option \<Rightarrow> time \<Rightarrow> PaymentWebhookEvent" where
  "payment_envelope webhookId provider event attemptId now =
     \<lparr>wh_id = webhookId, wh_provider = provider, wh_providerEventId = nev_providerEventId event,
      wh_eventType = nev_eventType event, wh_eventCategory = PaymentWebhookEventCategory.PAYMENT,
      wh_providerIntentId = nev_providerIntentId event, wh_paymentAttemptId = attemptId,
      wh_normalizedStatus = Some (nev_status event), wh_normalizedRefundStatus = None,
      wh_normalizedDisputeStatus = None, wh_providerRefundId = None, wh_providerDisputeId = None,
      wh_refundId = None, wh_disputeId = None, wh_amountMinor = nev_amountMinor event,
      wh_currency = nev_currency event, wh_signatureStatus = PaymentWebhookSignatureStatus.VERIFIED,
      wh_processingStatus = PaymentWebhookProcessingStatus.RECEIVED, wh_receivedAt = now,
      wh_processedAt = None, wh_providerOccurredAt = nev_occurredAt event, wh_attemptCount = 0,
      wh_safeProcessingError = None\<rparr>"

text \<open>The identifier of the stored record, and whether it was already there.\<close>

definition storeVerifiedWebhook ::
  "ident \<Rightarrow> PaymentProviderName \<Rightarrow> NormalizedPaymentWebhookEvent \<Rightarrow> time \<Rightarrow> database
     \<Rightarrow> database \<times> ident \<times> bool" where
  "storeVerifiedWebhook webhookId provider event now db =
     (case webhook_of_event db provider (nev_providerEventId event) of
        Some existing \<Rightarrow> (db, wh_id existing, True)
      | None \<Rightarrow>
          (db\<lparr>db_webhooks := insert_row
                (payment_envelope webhookId provider event
                  (map_option pay_id (attempt_of_intent db provider (nev_providerIntentId event))) now)
                (db_webhooks db)\<rparr>, webhookId, False))"

section \<open>Review\<close>

record review_input =
  rvw_webhookId :: ident
  rvw_attemptId :: "ident option"
  rvw_orderId :: "ident option"
  rvw_sessionId :: "ident option"
  rvw_safeCode :: string
  rvw_paid :: bool
  rvw_preserveOrder :: bool

definition succeed_attempt :: "time \<Rightarrow> PaymentAttempt \<Rightarrow> PaymentAttempt" where
  "succeed_attempt now a =
     a\<lparr>pay_status := PaymentAttemptStatus.SUCCEEDED, pay_succeededAt := Some now,
       pay_lastProviderStatus := Some ''succeeded''\<rparr>"

definition review_order :: "bool \<Rightarrow> string \<Rightarrow> time \<Rightarrow> CheckoutOrder \<Rightarrow> CheckoutOrder" where
  "review_order paid safeCode now o' =
     o'\<lparr>ord_status := (if paid then CheckoutOrderStatus.PAID_UNFULFILLED else CheckoutOrderStatus.REQUIRES_REVIEW),
        ord_paidAt := (if paid then Some now else ord_paidAt o'),
        ord_safeFailureCode := Some safeCode, ord_version := ord_version o' + 1\<rparr>"

definition processed_webhook ::
  "PaymentWebhookProcessingStatus \<Rightarrow> time \<Rightarrow> string option \<Rightarrow> PaymentWebhookEvent \<Rightarrow> PaymentWebhookEvent" where
  "processed_webhook status now safeError w =
     w\<lparr>wh_processingStatus := status, wh_processedAt := Some now,
       wh_attemptCount := wh_attemptCount w + 1, wh_safeProcessingError := safeError\<rparr>"

definition markWebhookReview :: "review_input \<Rightarrow> time \<Rightarrow> database \<Rightarrow> service_error + database" where
  "markWebhookReview input now db =
     and_then (case (rvw_attemptId input, rvw_paid input) of
                 (Some attemptId, True) \<Rightarrow> update_attempt attemptId (succeed_attempt now) db
               | _ \<Rightarrow> Inr db) (\<lambda>db1.
     and_then (case (rvw_orderId input, rvw_preserveOrder input) of
                 (Some orderId, False) \<Rightarrow>
                   update_order orderId (review_order (rvw_paid input) (rvw_safeCode input) now) db1
               | _ \<Rightarrow> Inr db1) (\<lambda>db2.
     and_then (case rvw_sessionId input of
                 None \<Rightarrow> Inr db2
               | Some sessionId \<Rightarrow>
                   and_then (if rvw_paid input
                             then enqueueInventoryEvent InventoryEventType.PAYMENT_SUCCEEDED sessionId (rvw_orderId input)
                                    (''payment-succeeded-review:'' @ rvw_webhookId input) now db2
                             else Inr db2)
                     (enqueueInventoryEvent InventoryEventType.PAYMENT_REQUIRES_REVIEW sessionId (rvw_orderId input)
                        (''payment-review:'' @ rvw_webhookId input) now)) (\<lambda>db3.
     update_webhook (rvw_webhookId input)
       (processed_webhook PaymentWebhookProcessingStatus.REQUIRES_REVIEW now (Some (rvw_safeCode input))) db3)))"

section \<open>Fulfilment\<close>

definition order_items :: "database \<Rightarrow> ident \<Rightarrow> CheckoutOrderItem list" where
  "order_items db orderId =
     sort_key oitem_inventoryId (select_rows (\<lambda>i. oitem_orderId i = orderId) (db_orderItems db))"

definition snapshotsMatch ::
  "CheckoutOrderItem list \<Rightarrow> SeatHoldItem list \<Rightarrow> SessionSeatInventory list \<Rightarrow> ident \<Rightarrow> ident \<Rightarrow> time \<Rightarrow> bool" where
  "snapshotsMatch orderItems holdItems inventory holdId sessionId holdExpiresAt =
     (if orderItems = [] \<or> length orderItems \<noteq> length holdItems \<or> length orderItems \<noteq> length inventory
      then False
      else list_all (\<lambda>item.
        case (js_map_get (map (\<lambda>h. (hitem_inventoryId h, h)) holdItems) (oitem_inventoryId item),
              js_map_get (map (\<lambda>i. (inv_id i, i)) inventory) (oitem_inventoryId item)) of
          (Some holdItem, Some inventoryItem) \<Rightarrow>
            hitem_priceMinor holdItem = oitem_priceMinor item
            \<and> hitem_currency holdItem = oitem_currency item
            \<and> inv_sessionId inventoryItem = sessionId
            \<and> inv_seatId inventoryItem = oitem_seatId item
            \<and> inv_sectionId inventoryItem = oitem_sectionId item
            \<and> inv_priceTierId inventoryItem = oitem_priceTierId item
            \<and> inv_priceMinor inventoryItem = oitem_priceMinor item
            \<and> inv_currency inventoryItem = oitem_currency item
            \<and> inv_state inventoryItem = SeatInventoryState.HELD
            \<and> inv_currentHoldId inventoryItem = Some holdId
            \<and> inv_holdExpiresAt inventoryItem = Some holdExpiresAt
        | _ \<Rightarrow> False) orderItems)"

text \<open>What the source draws at random for one booking; seats are named by their inventory row.\<close>

record booking_draw =
  bd_bookingId :: ident
  bd_publicReference :: string
  bd_bookingSeatId :: "ident \<Rightarrow> ident"
  bd_issuanceId :: ident

definition new_booking :: "booking_draw \<Rightarrow> CheckoutOrder \<Rightarrow> time \<Rightarrow> Booking" where
  "new_booking draw o' now =
     \<lparr>bk_id = bd_bookingId draw, bk_publicReference = bd_publicReference draw, bk_orderId = ord_id o',
      bk_userId = ord_userId o', bk_organizationId = ord_organizationId o', bk_eventId = ord_eventId o',
      bk_sessionId = ord_sessionId o', bk_status = BookingStatus.CONFIRMED, bk_currency = ord_currency o',
      bk_totalMinor = ord_totalMinor o', bk_confirmedAt = now, bk_refundedAt = None,
      bk_financialReviewState = FinancialReviewState.NONE\<rparr>"

definition new_booking_seat :: "booking_draw \<Rightarrow> CheckoutOrder \<Rightarrow> CheckoutOrderItem \<Rightarrow> BookingSeat" where
  "new_booking_seat draw o' item =
     \<lparr>bseat_id = bd_bookingSeatId draw (oitem_inventoryId item), bseat_bookingId = bd_bookingId draw,
      bseat_inventoryId = oitem_inventoryId item, bseat_sessionId = ord_sessionId o',
      bseat_seatId = oitem_seatId item, bseat_sectionId = oitem_sectionId item,
      bseat_priceTierId = oitem_priceTierId item, bseat_labels = oitem_labels item,
      bseat_priceMinor = oitem_priceMinor item, bseat_currency = oitem_currency item\<rparr>"

definition create_booking :: "Booking \<Rightarrow> database \<Rightarrow> service_error + database" where
  "create_booking b db =
     (if list_ex (\<lambda>x. bk_id x = bk_id b) (db_bookings db) then Inl (UniqueViolation ''id'')
      else if list_ex (\<lambda>x. bk_publicReference x = bk_publicReference b) (db_bookings db)
      then Inl (UniqueViolation ''publicReference'')
      else if list_ex (\<lambda>x. bk_orderId x = bk_orderId b) (db_bookings db) then Inl (UniqueViolation ''orderId'')
      else Inr (db\<lparr>db_bookings := insert_row b (db_bookings db)\<rparr>))"

text \<open>The unique indexes of \<open>BookingSeat\<close>: primary key, inventory row, and seat of a session.\<close>

definition seat_clash :: "BookingSeat \<Rightarrow> BookingSeat \<Rightarrow> bool" where
  "seat_clash s x \<longleftrightarrow> bseat_id x = bseat_id s \<or> bseat_inventoryId x = bseat_inventoryId s
     \<or> bseat_sessionId x = bseat_sessionId s \<and> bseat_seatId x = bseat_seatId s"

fun create_booking_seats :: "BookingSeat list \<Rightarrow> BookingSeat list \<Rightarrow> service_error + BookingSeat list" where
  "create_booking_seats [] t = Inr t"
| "create_booking_seats (s # ss) t =
     (if list_ex (seat_clash s) t then Inl (UniqueViolation ''BookingSeat'')
      else create_booking_seats ss (insert_row s t))"

text \<open>\<open>upsert\<close> with an empty update.\<close>

definition enqueueTicketIssuance :: "ident \<Rightarrow> ident \<Rightarrow> time \<Rightarrow> database \<Rightarrow> database" where
  "enqueueTicketIssuance requestId bookingId now db =
     (if list_ex (\<lambda>r. iss_bookingId r = bookingId) (db_issuance db) then db
      else db\<lparr>db_issuance := insert_row
        \<lparr>iss_id = requestId, iss_bookingId = bookingId, iss_status = TicketIssuanceRequestStatus.PENDING,
         iss_availableAt = now, iss_attemptCount = 0, iss_processedAt = None, iss_lastError = None,
         iss_deadLetterAt = None, iss_createdAt = now\<rparr> (db_issuance db)\<rparr>)"

definition book_seat :: "SessionSeatInventory \<Rightarrow> SessionSeatInventory" where
  "book_seat seat =
     seat\<lparr>inv_state := SeatInventoryState.BOOKED, inv_currentHoldId := None, inv_holdExpiresAt := None\<rparr>"

definition convert_hold :: "time \<Rightarrow> SeatHold \<Rightarrow> SeatHold" where
  "convert_hold now h = h\<lparr>hold_status := SeatHoldStatus.CONVERTED, hold_convertedAt := Some now\<rparr>"

text \<open>The trigger that keeps a terminal hold as it is.\<close>

definition hold_update_ok :: "SeatHold \<Rightarrow> SeatHold \<Rightarrow> bool" where
  "hold_update_ok old new \<longleftrightarrow> (isTerminalHoldStatus (hold_status old) \<longrightarrow> hold_status new = hold_status old)"

definition fulfill_order :: "time \<Rightarrow> CheckoutOrder \<Rightarrow> CheckoutOrder" where
  "fulfill_order now o' =
     o'\<lparr>ord_status := CheckoutOrderStatus.FULFILLED, ord_paidAt := Some now, ord_fulfilledAt := Some now,
        ord_safeFailureCode := None, ord_version := ord_version o' + 1\<rparr>"

definition books :: "ident list \<Rightarrow> ident \<Rightarrow> SessionSeatInventory \<Rightarrow> bool" where
  "books inventoryIds holdId i \<longleftrightarrow> List.member inventoryIds (inv_id i)
     \<and> inv_state i = SeatInventoryState.HELD \<and> inv_currentHoldId i = Some holdId"

text \<open>The booking, its seats and its issuance request.\<close>

definition write_booking ::
  "booking_draw \<Rightarrow> CheckoutOrder \<Rightarrow> CheckoutOrderItem list \<Rightarrow> time \<Rightarrow> database \<Rightarrow> service_error + database" where
  "write_booking draw o' items now db =
     and_then (create_booking (new_booking draw o' now) db) (\<lambda>db1.
     and_then (create_booking_seats (map (new_booking_seat draw o') items) (db_bookingSeats db1)) (\<lambda>t.
     Inr (enqueueTicketIssuance (bd_issuanceId draw) (bd_bookingId draw) now (db1\<lparr>db_bookingSeats := t\<rparr>))))"

text \<open>The seats become BOOKED, the hold CONVERTED and the order FULFILLED.\<close>

definition convert_sale ::
  "CheckoutOrder \<Rightarrow> SeatHold \<Rightarrow> ident list \<Rightarrow> time \<Rightarrow> database \<Rightarrow> service_error + database" where
  "convert_sale o' hold inventoryIds now db =
     (let hit = books inventoryIds (hold_id hold)
      in if length (select_rows hit (db_inventory db)) \<noteq> length inventoryIds
         then Inl FulfillmentInventoryConflict
         else
           and_then (checked_update ''SeatHold'' (\<lambda>h. hold_id h = hold_id hold) hold_update_ok (convert_hold now)
                       (db_holds db)) (\<lambda>t.
           update_order (ord_id o') (fulfill_order now)
             (db\<lparr>db_inventory := update_rows hit book_seat (db_inventory db), db_holds := t\<rparr>)))"

definition fulfill ::
  "booking_draw \<Rightarrow> ident \<Rightarrow> PaymentAttempt \<Rightarrow> CheckoutOrder \<Rightarrow> SeatHold \<Rightarrow> CheckoutOrderItem list \<Rightarrow> time
     \<Rightarrow> database \<Rightarrow> service_error + database" where
  "fulfill draw webhookId attempt o' hold items now db =
     and_then (update_attempt (pay_id attempt)
       (\<lambda>a. (succeed_attempt now a)\<lparr>pay_safeFailureCode := None\<rparr>) db) (\<lambda>db1.
     and_then (write_booking draw o' items now db1) (\<lambda>db2.
     and_then (convert_sale o' hold (map oitem_inventoryId items) now db2) (\<lambda>db3.
     and_then (enqueueInventoryEvent InventoryEventType.PAYMENT_SUCCEEDED (ord_sessionId o') (Some (ord_id o'))
       (''payment-succeeded:'' @ webhookId) now db3) (\<lambda>db4.
     and_then (enqueueInventoryEvent InventoryEventType.INVENTORY_BOOKED (ord_sessionId o') (Some (bd_bookingId draw))
       (''inventory-booked:'' @ bd_bookingId draw) now db4) (\<lambda>db5.
     and_then (enqueueInventoryEvent InventoryEventType.BOOKING_CONFIRMED (ord_sessionId o') (Some (bd_bookingId draw))
       (''booking-confirmed:'' @ bd_bookingId draw) now db5) (\<lambda>db6.
     update_webhook webhookId
       (processed_webhook PaymentWebhookProcessingStatus.PROCESSED now None) db6))))))"

section \<open>Processing\<close>

text \<open>A failed or cancelled payment.\<close>

definition fail_payment ::
  "ident \<Rightarrow> PaymentAttempt \<Rightarrow> CheckoutOrder \<Rightarrow> PaymentAttemptStatus \<Rightarrow> time \<Rightarrow> database \<Rightarrow> service_error + database" where
  "fail_payment webhookId attempt o' status now db =
     (let cancelled = (status = PaymentAttemptStatus.CANCELLED);
          code = (if cancelled then ''PAYMENT_CANCELLED'' else ''PAYMENT_FAILED'')
      in and_then (update_attempt (pay_id attempt)
           (\<lambda>a. a\<lparr>pay_status := status, pay_failedAt := (if cancelled then None else Some now),
                  pay_cancelledAt := (if cancelled then Some now else None),
                  pay_lastProviderStatus := Some (payment_status_word status),
                  pay_safeFailureCode := Some code\<rparr>) db) (\<lambda>db1.
         and_then (if unpaid (ord_status o')
                   then update_order (ord_id o')
                          (\<lambda>x. x\<lparr>ord_status := CheckoutOrderStatus.FAILED, ord_failedAt := Some now,
                                 ord_safeFailureCode := Some code, ord_version := ord_version x + 1\<rparr>) db1
                   else Inr db1) (\<lambda>db2.
         and_then (enqueueInventoryEvent InventoryEventType.PAYMENT_FAILED (ord_sessionId o') (Some (ord_id o'))
           (''payment-failed:'' @ webhookId) now db2) (\<lambda>db3.
         update_webhook webhookId (processed_webhook PaymentWebhookProcessingStatus.PROCESSED now None) db3))))"

definition pend_payment ::
  "ident \<Rightarrow> PaymentAttempt \<Rightarrow> PaymentAttemptStatus \<Rightarrow> time \<Rightarrow> database \<Rightarrow> service_error + database" where
  "pend_payment webhookId attempt status now db =
     and_then (update_attempt (pay_id attempt)
       (\<lambda>a. a\<lparr>pay_status := PaymentAttemptStatus.PENDING,
              pay_lastProviderStatus := Some (payment_status_word status)\<rparr>) db) (\<lambda>db1.
     update_webhook webhookId
       (\<lambda>w. w\<lparr>wh_processingStatus := PaymentWebhookProcessingStatus.PROCESSED, wh_processedAt := Some now,
              wh_attemptCount := wh_attemptCount w + 1\<rparr>) db1)"

text \<open>A payment that succeeded: fulfil, or take the money and ask for a review.\<close>

definition settle_payment ::
  "booking_draw \<Rightarrow> ident \<Rightarrow> PaymentAttempt \<Rightarrow> CheckoutOrder \<Rightarrow> SeatHold \<Rightarrow> EventSession \<Rightarrow> Event \<Rightarrow> time
     \<Rightarrow> database \<Rightarrow> service_error + database \<times> ident option" where
  "settle_payment draw webhookId attempt o' hold ses ev now db =
     (let items = order_items db (ord_id o');
          inventory = select_rows (\<lambda>i. List.member (map oitem_inventoryId items) (inv_id i)) (db_inventory db);
          review = (\<lambda>code db. and_then (markWebhookReview
            \<lparr>rvw_webhookId = webhookId, rvw_attemptId = Some (pay_id attempt), rvw_orderId = Some (ord_id o'),
             rvw_sessionId = Some (ord_sessionId o'), rvw_safeCode = code, rvw_paid = True,
             rvw_preserveOrder = False\<rparr> now db) (\<lambda>db'. Inr (db', None)))
      in case decidePaidFulfillment (ord_status o') (hold_status hold) (hold_expiresAt hold)
                (ev_status ev) (ses_status ses) now of
           REVIEW code \<Rightarrow>
             and_then (if code = ''HOLD_EXPIRED'' \<and> hold_status hold = SeatHoldStatus.ACTIVE
                       then releaseExpiredHoldsForSession (ord_sessionId o') now db else Inr (db, 0))
               (\<lambda>(db1, _). review code db1)
         | _ \<Rightarrow>
             if \<not> snapshotsMatch items (hold_items db (hold_id hold)) inventory (hold_id hold)
                    (ord_sessionId o') (hold_expiresAt hold)
             then review ''FULFILLMENT_SNAPSHOT_MISMATCH'' db
             else and_then (fulfill draw webhookId attempt o' hold items now db)
                    (\<lambda>db'. Inr (db', Some (bd_bookingId draw))))"

definition booking_of_order :: "database \<Rightarrow> ident \<Rightarrow> Booking option" where
  "booking_of_order db orderId = find_row (\<lambda>b. bk_orderId b = orderId) (db_bookings db)"

definition amount_matches :: "PaymentWebhookEvent \<Rightarrow> PaymentAttempt \<Rightarrow> CheckoutOrder \<Rightarrow> bool" where
  "amount_matches w attempt o' \<longleftrightarrow>
     Some (wh_providerIntentId w) = pay_providerIntentId attempt \<and> wh_amountMinor w = pay_amountMinor attempt
     \<and> wh_currency w = pay_currency attempt \<and> ord_totalMinor o' = pay_amountMinor attempt
     \<and> ord_currency o' = pay_currency attempt"

text \<open>The branches once the attempt, order, hold and session of the event are at hand.\<close>

definition apply_payment ::
  "booking_draw \<Rightarrow> PaymentWebhookEvent \<Rightarrow> PaymentAttemptStatus \<Rightarrow> PaymentAttempt \<Rightarrow> CheckoutOrder \<Rightarrow> SeatHold
     \<Rightarrow> EventSession \<Rightarrow> Event \<Rightarrow> time \<Rightarrow> ident option tx" where
  "apply_payment draw w status attempt o' hold ses ev now db =
     (let done' = (\<lambda>m. and_then m (\<lambda>db'. Inr (db', None)));
          review = (\<lambda>code paid preserve. done' (markWebhookReview
            \<lparr>rvw_webhookId = wh_id w, rvw_attemptId = Some (pay_id attempt), rvw_orderId = Some (ord_id o'),
             rvw_sessionId = Some (ord_sessionId o'), rvw_safeCode = code, rvw_paid = paid,
             rvw_preserveOrder = preserve\<rparr> now db))
      in if booking_of_order db (ord_id o') \<noteq> None \<or> ord_status o' = CheckoutOrderStatus.FULFILLED
         then done' (update_webhook (wh_id w) (processed_webhook PaymentWebhookProcessingStatus.PROCESSED now None) db)
         else if isContradictoryTerminalStatus (pay_status attempt) status
         then review ''CONTRADICTORY_TERMINAL_STATUS'' False True
         else if isTerminalPaymentStatus (pay_status attempt) \<and> pay_status attempt = status
         then done' (update_webhook (wh_id w) (processed_webhook
                (if ord_status o' = CheckoutOrderStatus.PAID_UNFULFILLED
                    \<or> ord_status o' = CheckoutOrderStatus.REQUIRES_REVIEW
                 then PaymentWebhookProcessingStatus.REQUIRES_REVIEW
                 else PaymentWebhookProcessingStatus.PROCESSED) now (ord_safeFailureCode o')) db)
         else if \<not> amount_matches w attempt o'
         then review ''PAYMENT_AMOUNT_OR_CURRENCY_MISMATCH'' (status = PaymentAttemptStatus.SUCCEEDED) False
         else if status = PaymentAttemptStatus.FAILED \<or> status = PaymentAttemptStatus.CANCELLED
         then done' (fail_payment (wh_id w) attempt o' status now db)
         else if status \<noteq> PaymentAttemptStatus.SUCCEEDED
         then done' (pend_payment (wh_id w) attempt status now db)
         else settle_payment draw (wh_id w) attempt o' hold ses ev now db)"

definition find_webhook :: "database \<Rightarrow> ident \<Rightarrow> PaymentWebhookEvent option" where
  "find_webhook db webhookId = find_row (\<lambda>w. wh_id w = webhookId) (db_webhooks db)"

definition or_missing :: "'a option \<Rightarrow> service_error + 'a" where
  "or_missing m = (case m of None \<Rightarrow> Inl RecordNotFound | Some x \<Rightarrow> Inr x)"

text \<open>The transaction body; its value is the booking it confirmed, if any.\<close>

definition webhook_transaction :: "booking_draw \<Rightarrow> ident \<Rightarrow> time \<Rightarrow> ident option tx" where
  "webhook_transaction draw webhookId now db =
     and_then (or_missing (find_webhook db webhookId)) (\<lambda>w.
       if webhook_processed w then Inr (db, None)
       else if wh_signatureStatus w \<noteq> PaymentWebhookSignatureStatus.VERIFIED then Inl PaymentWebhookSignatureError
       else case (wh_eventCategory w, wh_normalizedStatus w) of
              (PaymentWebhookEventCategory.PAYMENT, Some status) \<Rightarrow>
                (case wh_paymentAttemptId w of
                   None \<Rightarrow>
                     and_then (markWebhookReview
                       \<lparr>rvw_webhookId = webhookId, rvw_attemptId = None, rvw_orderId = None, rvw_sessionId = None,
                        rvw_safeCode = ''UNKNOWN_PAYMENT_INTENT'', rvw_paid = (status = PaymentAttemptStatus.SUCCEEDED),
                        rvw_preserveOrder = False\<rparr> now db) (\<lambda>db'. Inr (db', None))
                 | Some attemptId \<Rightarrow>
                     and_then (or_missing (find_attempt db attemptId)) (\<lambda>attempt.
                     and_then (or_missing (find_order db (pay_orderId attempt))) (\<lambda>o'.
                     and_then (or_missing (find_hold db (ord_sourceHoldId o'))) (\<lambda>hold.
                     and_then (or_missing (find_session db (ord_sessionId o'))) (\<lambda>ses.
                     and_then (or_missing (find_event db (ses_eventId ses))) (\<lambda>ev.
                     apply_payment draw w status attempt o' hold ses ev now db))))))
            | _ \<Rightarrow> Inl PaymentWebhookValidationError)"

datatype WebhookProcessingResult =
    BOOKED string bool
  | PAYMENT_FAILED_RESULT bool
  | PENDING_RESULT bool
  | REQUIRES_REVIEW_RESULT string bool
  | REFUND_SETTLED RefundStatus bool
  | REFUND_IGNORED string bool
  | DISPUTE_RECORDED DisputeStatus bool
  | DISPUTE_IGNORED string bool
  | UNSUPPORTED_EVENT bool

definition loadExistingResult :: "database \<Rightarrow> ident \<Rightarrow> bool \<Rightarrow> service_error + WebhookProcessingResult" where
  "loadExistingResult db webhookId duplicate =
     and_then (or_missing (find_webhook db webhookId)) (\<lambda>w.
       let booking = (case wh_paymentAttemptId w of
                        None \<Rightarrow> None
                      | Some attemptId \<Rightarrow>
                          (case find_attempt db attemptId of
                             None \<Rightarrow> None
                           | Some attempt \<Rightarrow> booking_of_order db (pay_orderId attempt)))
       in case booking of
            Some b \<Rightarrow> Inr (BOOKED (bk_publicReference b) duplicate)
          | None \<Rightarrow>
              if wh_processingStatus w = PaymentWebhookProcessingStatus.REQUIRES_REVIEW
              then Inr (REQUIRES_REVIEW_RESULT (case wh_safeProcessingError w of
                          None \<Rightarrow> ''PAYMENT_REQUIRES_REVIEW'' | Some s \<Rightarrow> s) duplicate)
              else if wh_normalizedStatus w = Some PaymentAttemptStatus.FAILED
                   \<or> wh_normalizedStatus w = Some PaymentAttemptStatus.CANCELLED
              then Inr (PAYMENT_FAILED_RESULT duplicate)
              else Inr (PENDING_RESULT duplicate))"

text \<open>The \<open>catch\<close>: a record that is not yet processed is marked FAILED for a retry.\<close>

definition mark_failed :: "ident \<Rightarrow> database \<Rightarrow> database" where
  "mark_failed webhookId db =
     db\<lparr>db_webhooks := update_rows
       (\<lambda>w. wh_id w = webhookId \<and> List.member [PaymentWebhookProcessingStatus.RECEIVED,
              PaymentWebhookProcessingStatus.FAILED] (wh_processingStatus w))
       (\<lambda>w. w\<lparr>wh_processingStatus := PaymentWebhookProcessingStatus.FAILED,
              wh_attemptCount := wh_attemptCount w + 1,
              wh_safeProcessingError := Some ''PROCESSING_RETRY_REQUIRED''\<rparr>) (db_webhooks db)\<rparr>"

text \<open>
  \<open>issueTickets\<close> is the immediate ticket issuance after the commit when a credential secret is
  configured (its errors are swallowed); \<open>None\<close> when there is none.
\<close>

definition processVerifiedWebhookRecord ::
  "(ident \<Rightarrow> database \<Rightarrow> database) option \<Rightarrow> booking_draw \<Rightarrow> ident \<Rightarrow> time \<Rightarrow> database
     \<Rightarrow> database \<times> (service_error + WebhookProcessingResult)" where
  "processVerifiedWebhookRecord issueTickets draw webhookId now db =
     (case webhook_transaction draw webhookId now db of
        Inl e \<Rightarrow>
          if e = PaymentWebhookSignatureError then (db, Inl e)
          else (mark_failed webhookId db, Inl e)
      | Inr (db1, confirmed) \<Rightarrow>
          let db2 = (case (confirmed, issueTickets) of
                       (Some bookingId, Some issue) \<Rightarrow> issue bookingId db1
                     | _ \<Rightarrow> db1)
          in (db2, loadExistingResult db2 webhookId False))"

text \<open>The duplicate flag of a result is overwritten with that of the envelope.\<close>

fun with_duplicate :: "bool \<Rightarrow> WebhookProcessingResult \<Rightarrow> WebhookProcessingResult" where
  "with_duplicate d (BOOKED r _) = BOOKED r d"
| "with_duplicate d (PAYMENT_FAILED_RESULT _) = PAYMENT_FAILED_RESULT d"
| "with_duplicate d (PENDING_RESULT _) = PENDING_RESULT d"
| "with_duplicate d (REQUIRES_REVIEW_RESULT c _) = REQUIRES_REVIEW_RESULT c d"
| "with_duplicate d (REFUND_SETTLED s _) = REFUND_SETTLED s d"
| "with_duplicate d (REFUND_IGNORED r _) = REFUND_IGNORED r d"
| "with_duplicate d (DISPUTE_RECORDED s _) = DISPUTE_RECORDED s d"
| "with_duplicate d (DISPUTE_IGNORED r _) = DISPUTE_IGNORED r d"
| "with_duplicate d (UNSUPPORTED_EVENT _) = UNSUPPORTED_EVENT d"

text \<open>
  A delivered payment event after the size and signature checks: store, then process unless an
  earlier delivery of the same event has been processed. Reprocessing by an operator is
  \<open>processVerifiedWebhookRecord\<close> on the stored record.
\<close>

definition processPaymentEvent ::
  "(ident \<Rightarrow> database \<Rightarrow> database) option \<Rightarrow> booking_draw \<Rightarrow> ident \<Rightarrow> PaymentProviderName
     \<Rightarrow> NormalizedPaymentWebhookEvent \<Rightarrow> time \<Rightarrow> database \<Rightarrow> database \<times> (service_error + WebhookProcessingResult)" where
  "processPaymentEvent issueTickets draw freshId provider event now db =
     (let (db1, webhookId, duplicate) = storeVerifiedWebhook freshId provider event now db
      in case find_webhook db1 webhookId of
           None \<Rightarrow> (db1, Inl RecordNotFound)
         | Some stored \<Rightarrow>
             if duplicate \<and> webhook_processed stored then (db1, loadExistingResult db1 webhookId True)
             else
               (case processVerifiedWebhookRecord issueTickets draw webhookId now db1 of
                  (db2, Inl e) \<Rightarrow> (db2, Inl e)
                | (db2, Inr r) \<Rightarrow> (db2, Inr (with_duplicate duplicate r))))"

definition reprocessVerifiedWebhook ::
  "(ident \<Rightarrow> database \<Rightarrow> database) option \<Rightarrow> booking_draw \<Rightarrow> ident \<Rightarrow> time \<Rightarrow> database
     \<Rightarrow> database \<times> (service_error + WebhookProcessingResult)" where
  "reprocessVerifiedWebhook issueTickets draw webhookId now db =
     (case find_webhook db webhookId of
        None \<Rightarrow> (db, Inl (PlainError ''Verified webhook record was not found.''))
      | Some w \<Rightarrow>
          if wh_signatureStatus w \<noteq> PaymentWebhookSignatureStatus.VERIFIED
          then (db, Inl (PlainError ''Verified webhook record was not found.''))
          else processVerifiedWebhookRecord issueTickets draw webhookId now db)"

end
