(* ===== verification/Frames.thy ===== *)
theory Frames
  imports Webhook_Service
begin

text \<open>
  Frame conditions. A step is quiet when it leaves inventory, holds, hold items and booking
  seats alone and adds to the inventory outbox only events that are not about holds; a quiet step keeps the
  invariant of Hold_Invariant. The guarded updates of orders, attempts and webhook records
  and the payment events are quiet.
\<close>

definition hold_event_key :: "string \<Rightarrow> bool" where
  "hold_event_key k \<longleftrightarrow> take 5 k = ''hold-''"

definition quiet :: "database \<Rightarrow> database \<Rightarrow> bool" where
  "quiet db db' \<longleftrightarrow> db_inventory db' = db_inventory db \<and> db_holds db' = db_holds db
     \<and> db_holdItems db' = db_holdItems db \<and> db_bookingSeats db' = db_bookingSeats db
     \<and> filter hold_event_key (outbox_keys db') = filter hold_event_key (outbox_keys db)"

named_theorems quiet_intros \<open>the primitive steps that are quiet\<close>

lemma quiet_refl [quiet_intros]: "quiet db db"
  by (simp add: quiet_def)

lemma quiet_trans [trans]: "quiet a b \<Longrightarrow> quiet b c \<Longrightarrow> quiet a c"
  by (simp add: quiet_def)

lemma hold_keys [simp]:
  "hold_event_key (''hold-created:'' @ x)" "hold_event_key (''hold-released:'' @ x)"
  "hold_event_key (''hold-expired:'' @ x)"
  by (simp_all add: hold_event_key_def)

lemma quiet_holds_ok:
  assumes "holds_ok db" "quiet db db'"
  shows "holds_ok db'"
proof -
  have "k \<in> set (outbox_keys db') \<longleftrightarrow> k \<in> set (outbox_keys db)" if "hold_event_key k" for k
    using arg_cong [of _ _ "\<lambda>l. k \<in> set l", OF assms(2) [unfolded quiet_def, THEN conjunct2, THEN conjunct2, THEN conjunct2, THEN conjunct2]] that
    by simp
  note keys = this [OF hold_keys(1)] this [OF hold_keys(2)] this [OF hold_keys(3)]
  have same: "db_inventory db' = db_inventory db" "db_holds db' = db_holds db" "db_holdItems db' = db_holdItems db"
    using assms(2) by (simp_all add: quiet_def)
  show ?thesis
    using assms(1) unfolding holds_ok_def hold_events_ok_def same keys .
qed

lemma quiet_update_order [quiet_intros]: "update_order i f db = Inr db' \<Longrightarrow> quiet db db'"
  by (auto simp: update_order_Inr quiet_def outbox_keys_def)

lemma quiet_update_attempt [quiet_intros]: "update_attempt i f db = Inr db' \<Longrightarrow> quiet db db'"
  by (auto simp: update_attempt_Inr quiet_def outbox_keys_def)

lemma quiet_update_webhook [quiet_intros]: "update_webhook i f db = Inr db' \<Longrightarrow> quiet db db'"
  by (auto simp: update_webhook_Inr quiet_def outbox_keys_def)

lemma quiet_enqueue [quiet_intros]:
  "enqueueInventoryEvent t s a key now db = Inr db' \<Longrightarrow> \<not> hold_event_key key \<Longrightarrow> quiet db db'"
  by (auto simp: enqueue_event_Inr quiet_def outbox_keys_def)

lemma not_hold_keys [simp]:
  "\<not> hold_event_key (''checkout-created:'' @ x)" "\<not> hold_event_key (''payment-intent-created:'' @ x)"
  "\<not> hold_event_key (''payment-succeeded-review:'' @ x)" "\<not> hold_event_key (''payment-review:'' @ x)"
  "\<not> hold_event_key (''payment-failed:'' @ x)" "\<not> hold_event_key (''payment-succeeded:'' @ x)"
  "\<not> hold_event_key (''inventory-booked:'' @ x)" "\<not> hold_event_key (''booking-confirmed:'' @ x)"
  by (simp_all add: hold_event_key_def)

section \<open>Bookings\<close>

text \<open>
  A seat is BOOKED exactly when a booking seat names its inventory row, and no two booking
  seats name the same one.
\<close>

definition sold :: "database \<Rightarrow> ident set" where
  "sold db = bseat_inventoryId ` set (db_bookingSeats db)"

definition sales_ok :: "database \<Rightarrow> bool" where
  "sales_ok db \<longleftrightarrow>
     distinct (map bseat_inventoryId (db_bookingSeats db))
     \<and> (\<forall>i\<in>set (db_inventory db). inv_state i = SeatInventoryState.BOOKED \<longleftrightarrow> inv_id i \<in> sold db)
     \<and> sold db \<subseteq> inv_id ` set (db_inventory db)"

text \<open>A step on seats that books none and keeps the booked ones.\<close>

definition books_none :: "database \<Rightarrow> database \<Rightarrow> bool" where
  "books_none db db' \<longleftrightarrow> db_bookingSeats db' = db_bookingSeats db
     \<and> map (\<lambda>i. (inv_id i, inv_state i = SeatInventoryState.BOOKED)) (db_inventory db')
       = map (\<lambda>i. (inv_id i, inv_state i = SeatInventoryState.BOOKED)) (db_inventory db)"

lemma books_none_refl: "books_none db db"
  by (simp add: books_none_def)

lemma books_none_trans: "books_none a b \<Longrightarrow> books_none b c \<Longrightarrow> books_none a c"
  by (simp add: books_none_def)

definition booked_pair :: "SessionSeatInventory \<Rightarrow> ident \<times> bool" where
  "booked_pair i = (inv_id i, inv_state i = SeatInventoryState.BOOKED)"

lemma books_none_sales:
  assumes "books_none db db'" "sales_ok db"
  shows "sales_ok db'"
proof -
  have pairs: "booked_pair ` set (db_inventory db') = booked_pair ` set (db_inventory db)"
    using arg_cong [of _ _ set, OF assms(1) [unfolded books_none_def, THEN conjunct2]]
    by (simp add: booked_pair_def [abs_def])
  have "inv_id ` set (db_inventory db') = inv_id ` set (db_inventory db)"
    using arg_cong [OF pairs, of "image fst"] by (simp add: image_image booked_pair_def)
  moreover have "sold db' = sold db" using assms(1) by (simp add: sold_def books_none_def)
  moreover have "inv_state i = SeatInventoryState.BOOKED \<longleftrightarrow> inv_id i \<in> sold db" if "i \<in> set (db_inventory db')" for i
  proof -
    have "booked_pair i \<in> booked_pair ` set (db_inventory db)" using that pairs by blast
    then obtain j where "j \<in> set (db_inventory db)" "booked_pair i = booked_pair j" by blast
    then show ?thesis using assms(2) by (auto simp: sales_ok_def booked_pair_def)
  qed
  ultimately show ?thesis
    using assms unfolding sales_ok_def books_none_def by simp
qed

lemma quiet_books_none: "quiet db db' \<Longrightarrow> books_none db db'"
  by (simp add: quiet_def books_none_def)

lemma books_none_update:
  assumes "\<And>i. i \<in> set (db_inventory db) \<Longrightarrow> P i \<Longrightarrow> inv_state i \<noteq> SeatInventoryState.BOOKED
      \<and> inv_state (f i) \<noteq> SeatInventoryState.BOOKED \<and> inv_id (f i) = inv_id i"
    and "db_inventory db' = update_rows P f (db_inventory db)" "db_bookingSeats db' = db_bookingSeats db"
  shows "books_none db db'"
  using assms by (auto simp: books_none_def update_rows_def)

section \<open>The contract of a frame\<close>

text \<open>
  What identifies an order and a payment attempt and what they cost; no update changes it.
\<close>

definition order_key :: "CheckoutOrder \<Rightarrow> ident \<times> ident \<times> ident \<times> minor \<times> Currency" where
  "order_key o' = (ord_id o', ord_sourceHoldId o', ord_userId o', ord_totalMinor o', ord_currency o')"

definition attempt_key :: "PaymentAttempt \<Rightarrow> ident \<times> ident \<times> minor \<times> Currency" where
  "attempt_key a = (pay_id a, pay_orderId a, pay_amountMinor a, pay_currency a)"

text \<open>With the two refund aggregates, which only the refund trigger writes.\<close>

definition attempt_money :: "PaymentAttempt \<Rightarrow> (ident \<times> ident \<times> minor \<times> Currency) \<times> minor \<times> minor" where
  "attempt_money a = (attempt_key a, pay_refundedMinor a, pay_inFlightRefundMinor a)"

text \<open>
  A frame is a relation between databases that the guarded updates and the payment events
  respect; then the branches of a payment webhook that are made of them respect it too. It is
  interpreted on \<open>quiet\<close> and, in Order_Invariant, on the relation that keeps the money of orders.
\<close>

locale frame =
  fixes P :: "database \<Rightarrow> database \<Rightarrow> bool"
  assumes frame_refl: "P db db"
    and frame_trans: "P db1 db2 \<Longrightarrow> P db2 db3 \<Longrightarrow> P db1 db3"

locale payment_frame = frame +
  assumes frame_order: "update_order i f db = Inr db' \<Longrightarrow> (\<And>o'. order_key (f o') = order_key o') \<Longrightarrow> P db db'"
    and frame_attempt: "update_attempt i g db = Inr db' \<Longrightarrow> (\<And>a. attempt_money (g a) = attempt_money a) \<Longrightarrow> P db db'"
    and frame_webhook: "update_webhook i k db = Inr db' \<Longrightarrow> P db db'"
    and frame_event: "enqueueInventoryEvent t s a key now db = Inr db' \<Longrightarrow> \<not> hold_event_key key \<Longrightarrow> P db db'"
begin

lemma frame_then:
  "and_then m f = Inr db' \<Longrightarrow> (\<And>x. m = Inr x \<Longrightarrow> P db x) \<Longrightarrow> (\<And>x. f x = Inr db' \<Longrightarrow> P x db') \<Longrightarrow> P db db'"
  by (auto simp: and_then_eq_Inr intro: frame_trans)

lemma frame_succeed: "update_attempt i (succeed_attempt now) db = Inr db' \<Longrightarrow> P db db'"
  by (erule frame_attempt) (simp add: succeed_attempt_def attempt_money_def attempt_key_def)

lemma frame_review: "update_order i (review_order paid code now) db = Inr db' \<Longrightarrow> P db db'"
  by (erule frame_order) (simp add: review_order_def order_key_def)

lemma review_frame:
  assumes "markWebhookReview input now db = Inr db'"
  shows "P db db'"
proof -
  from assms obtain db1 db2 db3 where
    1: "(case (rvw_attemptId input, rvw_paid input) of
           (Some attemptId, True) \<Rightarrow> update_attempt attemptId (succeed_attempt now) db | _ \<Rightarrow> Inr db) = Inr db1" and
    2: "(case (rvw_orderId input, rvw_preserveOrder input) of
           (Some orderId, False) \<Rightarrow> update_order orderId (review_order (rvw_paid input) (rvw_safeCode input) now) db1
         | _ \<Rightarrow> Inr db1) = Inr db2" and
    3: "(case rvw_sessionId input of None \<Rightarrow> Inr db2
         | Some sessionId \<Rightarrow> and_then (if rvw_paid input
             then enqueueInventoryEvent InventoryEventType.PAYMENT_SUCCEEDED sessionId (rvw_orderId input)
               (''payment-succeeded-review:'' @ rvw_webhookId input) now db2 else Inr db2)
             (enqueueInventoryEvent InventoryEventType.PAYMENT_REQUIRES_REVIEW sessionId (rvw_orderId input)
                (''payment-review:'' @ rvw_webhookId input) now)) = Inr db3" and
    4: "update_webhook (rvw_webhookId input)
         (processed_webhook PaymentWebhookProcessingStatus.REQUIRES_REVIEW now (Some (rvw_safeCode input))) db3 = Inr db'"
    unfolding markWebhookReview_def and_then_eq_Inr by blast
  have "P db db1"
    using 1 by (cases "rvw_attemptId input"; cases "rvw_paid input") (auto intro: frame_succeed frame_refl)
  moreover have "P db1 db2"
    using 2 by (cases "rvw_orderId input"; cases "rvw_preserveOrder input") (auto intro: frame_review frame_refl)
  moreover have "P db2 db3"
    using 3 by (cases "rvw_sessionId input"; cases "rvw_paid input")
      (auto simp: and_then_eq_Inr hold_event_key_def intro: frame_refl elim!: frame_event intro: frame_trans [OF frame_event frame_event])
  moreover have "P db3 db'" using 4 by (rule frame_webhook)
  ultimately show ?thesis by (meson frame_trans)
qed

lemma fail_frame:
  assumes "fail_payment wid a o' status now db = Inr db'"
  shows "P db db'"
proof -
  from assms obtain db1 db2 db3 where 1: "update_attempt (pay_id a)
        (\<lambda>a. a\<lparr>pay_status := status, pay_failedAt := (if status = PaymentAttemptStatus.CANCELLED then None else Some now),
               pay_cancelledAt := (if status = PaymentAttemptStatus.CANCELLED then Some now else None),
               pay_lastProviderStatus := Some (payment_status_word status),
               pay_safeFailureCode := Some (if status = PaymentAttemptStatus.CANCELLED then ''PAYMENT_CANCELLED''
                 else ''PAYMENT_FAILED'')\<rparr>) db = Inr db1"
    and 2: "(if unpaid (ord_status o') then update_order (ord_id o')
        (\<lambda>x. x\<lparr>ord_status := CheckoutOrderStatus.FAILED, ord_failedAt := Some now,
               ord_safeFailureCode := Some (if status = PaymentAttemptStatus.CANCELLED then ''PAYMENT_CANCELLED''
                 else ''PAYMENT_FAILED''), ord_version := ord_version x + 1\<rparr>) db1 else Inr db1) = Inr db2"
    and 3: "enqueueInventoryEvent InventoryEventType.PAYMENT_FAILED (ord_sessionId o') (Some (ord_id o'))
      (''payment-failed:'' @ wid) now db2 = Inr db3"
    and 4: "update_webhook wid (processed_webhook PaymentWebhookProcessingStatus.PROCESSED now None) db3 = Inr db'"
    unfolding fail_payment_def Let_def and_then_eq_Inr by blast
  have "P db db1" using 1 by (rule frame_attempt) (simp add: attempt_money_def attempt_key_def)
  moreover have "P db1 db2"
    using 2 by (cases "unpaid (ord_status o')") (auto simp: order_key_def intro: frame_refl elim!: frame_order)
  moreover have "P db2 db3" using 3 by (rule frame_event) (simp add: hold_event_key_def)
  moreover have "P db3 db'" using 4 by (rule frame_webhook)
  ultimately show ?thesis by (meson frame_trans)
qed

lemma pend_frame: "pend_payment wid a status now db = Inr db' \<Longrightarrow> P db db'"
  unfolding pend_payment_def
  by (erule frame_then) (erule frame_attempt, simp add: attempt_money_def attempt_key_def, erule frame_webhook)

end

end
