(* ===== verification/Webhook_Properties.thy ===== *)
theory Webhook_Properties
  imports Frames
begin

text \<open>
  What processing a verified payment webhook guarantees: the invariants of holds and of sales
  hold afterwards, a booking is made only of live, matching holds and books exactly the seats
  of the order, an event is applied once, and a payment that arrives for a closed order is
  never recorded.
\<close>

section \<open>Quiet branches\<close>

interpretation quiet: payment_frame quiet
  by unfold_locales (auto intro: quiet_refl quiet_update_order quiet_update_attempt quiet_update_webhook quiet_enqueue
      elim: quiet_trans)

section \<open>Fulfilment\<close>

lemma card_matching:
  assumes "distinct xs" "length xs = length ys" "set xs \<subseteq> set ys"
  shows "set xs = set ys"
  using assms by (metis List.finite_set card_length card_seteq distinct_card)

lemma distinct_by_lookup:
  assumes "distinct (map key rows)" "length (filter (\<lambda>r. List.member ks (key r)) rows) = length ks"
  shows "distinct ks"
proof -
  let ?f = "filter (\<lambda>r. List.member ks (key r)) rows"
  have "distinct (map key ?f)" using assms(1) by (rule distinct_map_filter_key)
  then have "length ?f = card (set (map key ?f))" by (metis distinct_card length_map)
  also have "\<dots> \<le> card (set ks)" by (intro card_mono) auto
  finally have "length ks \<le> card (set ks)" using assms(2) by simp
  then show ?thesis using card_length [of ks] by (intro card_distinct) simp
qed

lemma snapshot_item:
  assumes "snapshotsMatch oitems hitems inventory hid s e" "t \<in> set oitems"
  obtains h i where "js_map_get (map (\<lambda>h. (hitem_inventoryId h, h)) hitems) (oitem_inventoryId t) = Some h"
    "js_map_get (map (\<lambda>i. (inv_id i, i)) inventory) (oitem_inventoryId t) = Some i"
    "inv_state i = SeatInventoryState.HELD" "inv_currentHoldId i = Some hid"
    "hitem_priceMinor h = oitem_priceMinor t" "inv_priceMinor i = oitem_priceMinor t"
    "inv_sessionId i = s" "inv_seatId i = oitem_seatId t" "inv_holdExpiresAt i = Some e"
proof -
  let ?h = "js_map_get (map (\<lambda>h. (hitem_inventoryId h, h)) hitems) (oitem_inventoryId t)"
  let ?i = "js_map_get (map (\<lambda>i. (inv_id i, i)) inventory) (oitem_inventoryId t)"
  show thesis
    using assms that by (cases ?h; cases ?i) (auto simp: snapshotsMatch_def list_all_iff split: if_splits)
qed

text \<open>What the test of the snapshots establishes of the seats under the invariant.\<close>

lemma snapshots_seats:
  assumes core: "holds_core seats holds items"
    and snap: "snapshotsMatch oitems hitems (select_rows (\<lambda>i. List.member (map oitem_inventoryId oitems) (inv_id i)) seats)
        hid s e"
    and hitems: "hitems = filter (\<lambda>t. hitem_holdId t = hid) items"
  shows "distinct (map oitem_inventoryId oitems)"
    and "set (map oitem_inventoryId oitems) = set (map hitem_inventoryId hitems)"
    and "\<exists>h\<in>set holds. hold_id h = hid \<and> hold_status h = SeatHoldStatus.ACTIVE"
    and "i \<in> set seats \<Longrightarrow> points_at [hid] i \<longleftrightarrow> books (map oitem_inventoryId oitems) hid i"
    and "i \<in> set seats \<Longrightarrow> inv_id i \<in> set (map oitem_inventoryId oitems) \<Longrightarrow>
      books (map oitem_inventoryId oitems) hid i"
proof -
  let ?inv = "select_rows (\<lambda>i. List.member (map oitem_inventoryId oitems) (inv_id i)) seats"
  let ?ids = "map oitem_inventoryId oitems"
  note facts = holds_coreD [OF core]
  have ne: "oitems \<noteq> []" and len: "length oitems = length hitems" "length oitems = length ?inv"
    using snap by (auto simp: snapshotsMatch_def split: if_splits)
  have invd: "distinct (map inv_id seats)" using facts(1) by (simp add: inventory_ok_def)
  show d: "distinct ?ids"
    by (rule distinct_by_lookup [OF invd]) (use len(2) in \<open>simp add: select_rows_def\<close>)
  have each: "\<exists>h\<in>set hitems. hitem_inventoryId h = k" and seat: "\<exists>i\<in>set seats. inv_id i = k
      \<and> inv_state i = SeatInventoryState.HELD \<and> inv_currentHoldId i = Some hid" if k: "k \<in> set ?ids" for k
  proof -
    from k obtain t where t: "t \<in> set oitems" "k = oitem_inventoryId t" by auto
    from snapshot_item [OF snap t(1)] obtain h i where
      h: "js_map_get (map (\<lambda>h. (hitem_inventoryId h, h)) hitems) k = Some h" and
      i: "js_map_get (map (\<lambda>i. (inv_id i, i)) ?inv) k = Some i"
      and st: "inv_state i = SeatInventoryState.HELD" "inv_currentHoldId i = Some hid"
      unfolding t(2) by blast
    from js_map_get_SomeD [OF h] show "\<exists>h\<in>set hitems. hitem_inventoryId h = k" by auto
    from js_map_get_SomeD [OF i] have "i \<in> set seats" "inv_id i = k" by (auto simp: select_rows_def)
    with st show "\<exists>i\<in>set seats. inv_id i = k \<and> inv_state i = SeatInventoryState.HELD
        \<and> inv_currentHoldId i = Some hid" by blast
  qed
  show same: "set ?ids = set (map hitem_inventoryId hitems)"
    proof (rule card_matching [OF d])
    show "set ?ids \<subseteq> set (map hitem_inventoryId hitems)"
    proof
      fix k assume "k \<in> set ?ids"
      from each [OF this] show "k \<in> set (map hitem_inventoryId hitems)" by auto
    qed
  qed (use len(1) in simp)
  show "\<exists>h\<in>set holds. hold_id h = hid \<and> hold_status h = SeatHoldStatus.ACTIVE"
  proof -
    have "oitem_inventoryId (hd oitems) \<in> set ?ids" using ne by simp
    from seat [OF this] obtain i where "i \<in> set seats" "inv_state i = SeatInventoryState.HELD"
      "inv_currentHoldId i = Some hid" by blast
    with facts(3) [of i] show ?thesis by (auto simp: seat_link_def)
  qed
  show "books ?ids hid i" if "i \<in> set seats" "inv_id i \<in> set ?ids"
  proof -
    from seat [OF that(2)] obtain j where "j \<in> set seats" "inv_id j = inv_id i" "inv_state j = SeatInventoryState.HELD"
      "inv_currentHoldId j = Some hid"
      by blast
    moreover from this have "j = i" using inv_id_inj [OF facts(1) _ that(1)] by blast
    ultimately show ?thesis using that(2) unfolding books_def by simp
  qed
  show "points_at [hid] i \<longleftrightarrow> books ?ids hid i" if i: "i \<in> set seats"
  proof
    assume "points_at [hid] i"
    then have cur: "inv_currentHoldId i = Some hid" by (simp add: points_at_iff)
    with facts(3) [OF i] have st: "inv_state i = SeatInventoryState.HELD"
      by (auto simp: seat_link_def split: if_splits)
    with facts(3) [OF i] cur obtain t where "t \<in> set items" "hitem_holdId t = hid" "hitem_inventoryId t = inv_id i"
      by (auto simp: seat_link_def)
    then have "inv_id i \<in> set ?ids" unfolding same hitems by force
    with cur st show "books ?ids hid i" by (simp add: books_def)
  qed (simp add: books_def points_at_iff)
qed

lemma settles_convert: "settles (convert_hold now)"
  by (auto simp: settles_def convert_hold_def hold_key_def hold_lifecycle_def)

lemma lets_go_book: "lets_go book_seat"
  by (simp add: lets_go_def book_seat_def)

lemma create_booking_seats_append: "create_booking_seats ss t = Inr t' \<Longrightarrow> t' = t @ ss"
proof (induction ss arbitrary: t)
  case (Cons s ss)
  then have "create_booking_seats ss (t @ [s]) = Inr t'" by (auto simp: insert_row_def split: if_splits)
  from Cons.IH [OF this] show ?case by simp
qed simp

lemma create_booking_seats_distinct:
  "create_booking_seats ss t = Inr t' \<Longrightarrow> distinct (map bseat_inventoryId t) \<Longrightarrow> distinct (map bseat_inventoryId t')"
proof (induction ss arbitrary: t)
  case (Cons s ss)
  then have fresh: "\<not> list_ex (seat_clash s) t" and rest: "create_booking_seats ss (t @ [s]) = Inr t'"
    by (auto simp: insert_row_def split: if_splits)
  from fresh have "bseat_inventoryId s \<notin> bseat_inventoryId ` set t"
    by (force simp: list_ex_iff seat_clash_def)
  with Cons.prems(2) have "distinct (map bseat_inventoryId (t @ [s]))" by simp
  with Cons.IH [OF rest] show ?case by blast
qed simp

lemma write_booking_Inr:
  assumes "write_booking draw o' items now db = Inr db'"
  shows "db_bookings db' = db_bookings db @ [new_booking draw o' now]"
    and "db_bookingSeats db' = db_bookingSeats db @ map (new_booking_seat draw o') items"
    and "distinct (map bseat_inventoryId (db_bookingSeats db)) \<Longrightarrow> distinct (map bseat_inventoryId (db_bookingSeats db'))"
    and "db_inventory db' = db_inventory db" "db_holds db' = db_holds db" "db_holdItems db' = db_holdItems db"
      "db_orders db' = db_orders db" "db_attempts db' = db_attempts db" "db_webhooks db' = db_webhooks db"
      "db_invOutbox db' = db_invOutbox db" "db_orderItems db' = db_orderItems db"
    and "booking_of_order db (ord_id o') = None"
proof -
  from assms obtain t where
    b: "create_booking (new_booking draw o' now) db = Inr (db\<lparr>db_bookings := db_bookings db @ [new_booking draw o' now]\<rparr>)" and
    t: "create_booking_seats (map (new_booking_seat draw o') items) (db_bookingSeats db) = Inr t" and
    db': "db' = enqueueTicketIssuance (bd_issuanceId draw) (bd_bookingId draw) now
      (db\<lparr>db_bookings := db_bookings db @ [new_booking draw o' now], db_bookingSeats := t\<rparr>)"
    by (auto simp: write_booking_def create_booking_def and_then_eq_Inr insert_row_def split: if_splits)
  from b show "booking_of_order db (ord_id o') = None"
    by (auto simp: create_booking_def booking_of_order_def tbl.find_None_iff list_ex_iff new_booking_def split: if_splits)
  note seats = create_booking_seats_append [OF t]
  show "db_bookings db' = db_bookings db @ [new_booking draw o' now]"
    "db_inventory db' = db_inventory db" "db_holds db' = db_holds db" "db_holdItems db' = db_holdItems db"
    "db_orders db' = db_orders db" "db_attempts db' = db_attempts db" "db_webhooks db' = db_webhooks db"
    "db_invOutbox db' = db_invOutbox db" "db_orderItems db' = db_orderItems db"
    by (simp_all add: db' enqueueTicketIssuance_def)
  have "db_bookingSeats db' = t" by (simp add: db' enqueueTicketIssuance_def)
  with seats show "db_bookingSeats db' = db_bookingSeats db @ map (new_booking_seat draw o') items" by simp
  show "distinct (map bseat_inventoryId (db_bookingSeats db'))" if "distinct (map bseat_inventoryId (db_bookingSeats db))"
    using create_booking_seats_distinct [OF t that] unfolding \<open>db_bookingSeats db' = t\<close> .
qed

lemma convert_sale_Inr:
  assumes "convert_sale o' hold ids now db = Inr db'"
  shows "length (filter (books ids (hold_id hold)) (db_inventory db)) = length ids"
    and "db' = db\<lparr>db_inventory := update_rows (books ids (hold_id hold)) book_seat (db_inventory db),
           db_holds := update_rows (\<lambda>h. hold_id h = hold_id hold) (convert_hold now) (db_holds db),
           db_orders := update_rows (\<lambda>x. ord_id x = ord_id o') (fulfill_order now) (db_orders db)\<rparr>"
    and "\<exists>r. find_row (\<lambda>x. ord_id x = ord_id o') (db_orders db) = Some r \<and> order_update_ok r (fulfill_order now r)"
  using assms
  by (auto simp: convert_sale_def Let_def select_rows_def and_then_eq_Inr checked_update_Inr update_order_Inr
      split: if_splits)

definition sale_keys :: "booking_draw \<Rightarrow> ident \<Rightarrow> string list" where
  "sale_keys draw webhookId = [''payment-succeeded:'' @ webhookId, ''inventory-booked:'' @ bd_bookingId draw,
     ''booking-confirmed:'' @ bd_bookingId draw]"

text \<open>Everything a fulfilment changes, table by table.\<close>

lemma fulfill_Inr:
  assumes "fulfill draw webhookId attempt o' hold items now db = Inr db'"
  defines "ids \<equiv> map oitem_inventoryId items"
  shows "length (filter (books ids (hold_id hold)) (db_inventory db)) = length ids"
    and "db_inventory db' = update_rows (books ids (hold_id hold)) book_seat (db_inventory db)"
    and "db_holds db' = update_rows (\<lambda>h. hold_id h = hold_id hold) (convert_hold now) (db_holds db)"
    and "db_holdItems db' = db_holdItems db"
    and "db_orders db' = update_rows (\<lambda>x. ord_id x = ord_id o') (fulfill_order now) (db_orders db)"
    and "db_attempts db' = update_rows (\<lambda>a. pay_id a = pay_id attempt)
           (\<lambda>a. (succeed_attempt now a)\<lparr>pay_safeFailureCode := None\<rparr>) (db_attempts db)"
    and "db_bookings db' = db_bookings db @ [new_booking draw o' now]"
    and "db_bookingSeats db' = db_bookingSeats db @ map (new_booking_seat draw o') items"
    and "distinct (map bseat_inventoryId (db_bookingSeats db)) \<Longrightarrow> distinct (map bseat_inventoryId (db_bookingSeats db'))"
    and "outbox_keys db' = outbox_keys db @ sale_keys draw webhookId"
    and "db_webhooks db' = update_rows (\<lambda>w. wh_id w = webhookId)
           (processed_webhook PaymentWebhookProcessingStatus.PROCESSED now None) (db_webhooks db)"
    and "db_orderItems db' = db_orderItems db"
proof -
  from assms(1) obtain db1 db2 db3 db4 db5 db6 where
    1: "update_attempt (pay_id attempt) (\<lambda>a. (succeed_attempt now a)\<lparr>pay_safeFailureCode := None\<rparr>) db = Inr db1" and
    2: "write_booking draw o' items now db1 = Inr db2" and
    3: "convert_sale o' hold ids now db2 = Inr db3" and
    4: "enqueueInventoryEvent InventoryEventType.PAYMENT_SUCCEEDED (ord_sessionId o') (Some (ord_id o'))
          (''payment-succeeded:'' @ webhookId) now db3 = Inr db4" and
    5: "enqueueInventoryEvent InventoryEventType.INVENTORY_BOOKED (ord_sessionId o') (Some (bd_bookingId draw))
          (''inventory-booked:'' @ bd_bookingId draw) now db4 = Inr db5" and
    6: "enqueueInventoryEvent InventoryEventType.BOOKING_CONFIRMED (ord_sessionId o') (Some (bd_bookingId draw))
          (''booking-confirmed:'' @ bd_bookingId draw) now db5 = Inr db6" and
    7: "update_webhook webhookId (processed_webhook PaymentWebhookProcessingStatus.PROCESSED now None) db6 = Inr db'"
    unfolding fulfill_def and_then_eq_Inr ids_def by blast
  note u1 = 1 [unfolded update_attempt_Inr, THEN conjunct2, symmetric]
  note u4 = 4 [unfolded enqueue_event_Inr, THEN conjunct2, symmetric]
  note u5 = 5 [unfolded enqueue_event_Inr, THEN conjunct2, symmetric]
  note u6 = 6 [unfolded enqueue_event_Inr, THEN conjunct2, symmetric]
  note u7 = 7 [unfolded update_webhook_Inr, THEN conjunct2, symmetric]
  note w = write_booking_Inr [OF 2] and c = convert_sale_Inr [OF 3]
  show "length (filter (books ids (hold_id hold)) (db_inventory db)) = length ids"
    using c(1) by (simp add: w u1)
  show "db_inventory db' = update_rows (books ids (hold_id hold)) book_seat (db_inventory db)"
    "db_holds db' = update_rows (\<lambda>h. hold_id h = hold_id hold) (convert_hold now) (db_holds db)"
    "db_holdItems db' = db_holdItems db"
    "db_orders db' = update_rows (\<lambda>x. ord_id x = ord_id o') (fulfill_order now) (db_orders db)"
    "db_attempts db' = update_rows (\<lambda>a. pay_id a = pay_id attempt)
       (\<lambda>a. (succeed_attempt now a)\<lparr>pay_safeFailureCode := None\<rparr>) (db_attempts db)"
    "db_bookings db' = db_bookings db @ [new_booking draw o' now]"
    "db_bookingSeats db' = db_bookingSeats db @ map (new_booking_seat draw o') items"
    "outbox_keys db' = outbox_keys db @ sale_keys draw webhookId"
    "db_webhooks db' = update_rows (\<lambda>w. wh_id w = webhookId)
       (processed_webhook PaymentWebhookProcessingStatus.PROCESSED now None) (db_webhooks db)"
    "db_orderItems db' = db_orderItems db"
    by (simp_all add: u7 u6 u5 u4 c(2) w(1,2,4-11) u1 outbox_keys_def sale_keys_def)
  have "db_bookingSeats db' = db_bookingSeats db2" "db_bookingSeats db1 = db_bookingSeats db"
    by (simp_all add: u7 u6 u5 u4 c(2) u1)
  then show "distinct (map bseat_inventoryId (db_bookingSeats db)) \<Longrightarrow> distinct (map bseat_inventoryId (db_bookingSeats db'))"
    using w(3) by metis
qed

lemma update_rows_cong:
  "(\<And>r. r \<in> set t \<Longrightarrow> P r \<longleftrightarrow> Q r) \<Longrightarrow> update_rows P f t = update_rows Q f t"
  by (simp add: update_rows_def)

lemma quiet_keys_ok:
  assumes "hold_events_ok holds keys" "\<And>k. k \<in> set new \<Longrightarrow> \<not> hold_event_key k"
  shows "hold_events_ok holds (keys @ new)"
proof -
  have "k \<in> set (keys @ new) \<longleftrightarrow> k \<in> set keys" if "hold_event_key k" for k
    using assms(2) that by auto
  note keys = this [OF hold_keys(1)] this [OF hold_keys(2)] this [OF hold_keys(3)]
  show ?thesis using assms(1) unfolding hold_events_ok_def keys .
qed

lemma sale_keys_quiet: "k \<in> set (sale_keys draw webhookId) \<Longrightarrow> \<not> hold_event_key k"
  by (auto simp: sale_keys_def hold_event_key_def)

definition order_snapshot :: "database \<Rightarrow> SeatHold \<Rightarrow> CheckoutOrderItem list \<Rightarrow> ident \<Rightarrow> time \<Rightarrow> bool" where
  "order_snapshot db hold items sessionId expiresAt \<longleftrightarrow>
     snapshotsMatch items (hold_items db (hold_id hold))
       (select_rows (\<lambda>i. List.member (map oitem_inventoryId items) (inv_id i)) (db_inventory db))
       (hold_id hold) sessionId expiresAt"

lemma fulfill_holds_ok:
  assumes ok: "holds_ok db" and snap: "order_snapshot db hold items s e"
    and run: "fulfill draw webhookId attempt o' hold items now db = Inr db'"
  shows "holds_ok db'"
proof -
  let ?hid = "hold_id hold" and ?ids = "map oitem_inventoryId items"
  let ?hit = "\<lambda>h. hold_id h = ?hid \<and> hold_status h = SeatHoldStatus.ACTIVE"
  have core: "holds_core (db_inventory db) (db_holds db) (db_holdItems db)"
    and ev: "hold_events_ok (db_holds db) (outbox_keys db)"
    using ok by (simp_all add: holds_ok_def)
  note f = fulfill_Inr [OF run]
  note seats = snapshots_seats [OF core snap [unfolded order_snapshot_def] hold_items_def [unfolded select_rows_def]]
  have table: "hold_table_ok (db_holds db)" using holds_coreD(2) [OF core] .
  from seats(3) obtain h0 where h0: "h0 \<in> set (db_holds db)" "hold_id h0 = ?hid" "hold_status h0 = SeatHoldStatus.ACTIVE"
    by blast
  have holds: "db_holds db' = update_rows ?hit (convert_hold now) (db_holds db)"
    unfolding f(3)
  proof (rule update_rows_cong)
    fix h assume "h \<in> set (db_holds db)"
    then show "hold_id h = ?hid \<longleftrightarrow> ?hit h"
      using hold_id_inj [OF table _ h0(1), of h] h0 by auto
  qed
  have inventory: "db_inventory db' = update_rows (points_at [?hid]) book_seat (db_inventory db)"
    unfolding f(2) by (rule update_rows_cong) (simp add: seats(4))
  have "holds_core (db_inventory db') (db_holds db') (db_holdItems db')"
    unfolding inventory holds f(4)
    by (rule holds_core_settle [OF core settles_convert lets_go_book]) auto
  moreover have "hold_events_ok (db_holds db') (outbox_keys db @ [])"
    unfolding holds by (rule hold_events_settle [OF ev settles_convert]) auto
  then have "hold_events_ok (db_holds db') (outbox_keys db')"
    unfolding f(10) append_Nil2 using sale_keys_quiet by (rule quiet_keys_ok)
  ultimately show ?thesis by (simp add: holds_ok_def)
qed

lemma fulfill_sales_ok:
  assumes ok: "holds_ok db" and sales: "sales_ok db" and snap: "order_snapshot db hold items s e"
    and run: "fulfill draw webhookId attempt o' hold items now db = Inr db'"
  shows "sales_ok db'"
proof -
  let ?hid = "hold_id hold" and ?ids = "map oitem_inventoryId items"
  have core: "holds_core (db_inventory db) (db_holds db) (db_holdItems db)"
    using ok by (simp add: holds_ok_def)
  note f = fulfill_Inr [OF run]
  note seats = snapshots_seats [OF core snap [unfolded order_snapshot_def] hold_items_def [unfolded select_rows_def]]
  have sold: "sold db' = sold db \<union> set ?ids"
    by (simp add: sold_def f(8) image_Un image_image new_booking_seat_def)
  have ids: "set ?ids \<subseteq> inv_id ` set (db_inventory db)"
  proof
    fix k assume "k \<in> set ?ids"
    then obtain t where "t \<in> set items" "k = oitem_inventoryId t" by auto
    from snapshot_item [OF snap [unfolded order_snapshot_def] this(1)] obtain i where
      "js_map_get (map (\<lambda>i. (inv_id i, i)) (select_rows (\<lambda>i. List.member ?ids (inv_id i)) (db_inventory db)))
         (oitem_inventoryId t) = Some i" by blast
    from js_map_get_SomeD [OF this] show "k \<in> inv_id ` set (db_inventory db)"
      using \<open>k = oitem_inventoryId t\<close> by (auto simp: select_rows_def)
  qed
  show ?thesis
    unfolding sales_ok_def
  proof (intro conjI ballI)
    show "distinct (map bseat_inventoryId (db_bookingSeats db'))"
      using f(9) sales by (simp add: sales_ok_def)
    have "map inv_id (db_inventory db') = map inv_id (db_inventory db)"
      unfolding f(2) by (rule map_update_rows) (simp add: book_seat_def)
    from arg_cong [OF this, of set] have "inv_id ` set (db_inventory db') = inv_id ` set (db_inventory db)" by simp
    then show "sold db' \<subseteq> inv_id ` set (db_inventory db')"
      using sales ids by (simp add: sold sales_ok_def)
    fix i' assume "i' \<in> set (db_inventory db')"
    then obtain i where i: "i \<in> set (db_inventory db)" "i' = (if books ?ids ?hid i then book_seat i else i)"
      unfolding f(2) mem_update_rows by blast
    have "books ?ids ?hid i \<longleftrightarrow> inv_id i \<in> set ?ids"
      using seats(5) [OF i(1)] by (auto simp: books_def)
    moreover have "inv_state i = SeatInventoryState.BOOKED \<longleftrightarrow> inv_id i \<in> sold db"
      using sales i(1) by (simp add: sales_ok_def)
    ultimately show "inv_state i' = SeatInventoryState.BOOKED \<longleftrightarrow> inv_id i' \<in> sold db'"
      using i(2) by (auto simp: sold book_seat_def)
  qed
qed

section \<open>The transaction keeps both invariants\<close>

definition shop_ok :: "database \<Rightarrow> bool" where
  "shop_ok db \<longleftrightarrow> holds_ok db \<and> sales_ok db"

lemma quiet_shop_ok: "shop_ok db \<Longrightarrow> quiet db db' \<Longrightarrow> shop_ok db'"
  unfolding shop_ok_def by (metis quiet_holds_ok quiet_books_none books_none_sales)

lemma held_not_booked:
  assumes "holds_ok db" "i \<in> set (db_inventory db)" "points_at ids i"
  shows "inv_state i \<noteq> SeatInventoryState.BOOKED"
  using assms holds_coreD(3) [of "db_inventory db" "db_holds db" "db_holdItems db" i]
  by (auto simp: holds_ok_def seat_link_def points_at_iff split: if_splits)

lemma after_expiry_shop_ok: "shop_ok db \<Longrightarrow> shop_ok (after_expiry s now db)"
  unfolding shop_ok_def
proof (elim conjE, intro conjI)
  assume ok: "holds_ok db" and sales: "sales_ok db"
  show "holds_ok (after_expiry s now db)" using ok by (rule after_expiry_ok)
  have "books_none db (after_expiry s now db)"
    by (rule books_none_update [where P = "points_at (expired_ids s now db)" and f = free_seat])
      (use held_not_booked [OF ok] in \<open>auto simp: after_expiry_def\<close>)
  then show "sales_ok (after_expiry s now db)" using sales by (rule books_none_sales)
qed

lemma review_shop_ok:
  assumes "shop_ok db" "and_then (markWebhookReview input now db) (\<lambda>db'. Inr (db', x)) = Inr (db', y)"
  shows "shop_ok db'"
  using assms by (auto simp: and_then_eq_Inr intro: quiet_shop_ok quiet.review_frame)

lemma settle_shop_ok:
  assumes ok: "shop_ok db" and run: "settle_payment draw wid attempt o' hold ses ev now db = Inr (db', r)"
  shows "shop_ok db'"
proof -
  let ?items = "order_items db (ord_id o')"
  let ?d = "decidePaidFulfillment (ord_status o') (hold_status hold) (hold_expiresAt hold) (ev_status ev) (ses_status ses) now"
  let ?snap = "order_snapshot db hold ?items (ord_sessionId o') (hold_expiresAt hold)"
  have rest: "shop_ok db'" if "\<And>code. ?d \<noteq> REVIEW code"
  proof (cases ?snap)
    case True
    with run that have "and_then (fulfill draw wid attempt o' hold ?items now db)
        (\<lambda>db'. Inr (db', Some (bd_bookingId draw))) = Inr (db', r)"
      unfolding settle_payment_def Let_def order_snapshot_def by (cases ?d) auto
    then obtain db1 where f: "fulfill draw wid attempt o' hold ?items now db = Inr db'"
      unfolding and_then_eq_Inr by blast
    show ?thesis
      using ok fulfill_holds_ok [OF _ True f] fulfill_sales_ok [OF _ _ True f] by (simp add: shop_ok_def)
  next
    case False
    with run that show ?thesis
      unfolding settle_payment_def Let_def order_snapshot_def
      by (cases ?d) (auto intro: review_shop_ok [OF ok])
  qed
  show ?thesis
  proof (cases ?d)
    case (REVIEW code)
    show ?thesis
    proof (cases "code = ''HOLD_EXPIRED'' \<and> hold_status hold = SeatHoldStatus.ACTIVE")
      case True
      have h: "holds_ok db" using ok by (simp add: shop_ok_def)
      show ?thesis
        using run True REVIEW unfolding settle_payment_def Let_def
        by (auto simp: release_expired_total [OF h] intro: review_shop_ok [OF after_expiry_shop_ok [OF ok]])
    next
      case False
      with run REVIEW show ?thesis
        unfolding settle_payment_def Let_def by (auto intro: review_shop_ok [OF ok])
    qed
  qed (auto intro: rest)
qed

lemma apply_shop_ok:
  assumes ok: "shop_ok db" and run: "apply_payment draw w status attempt o' hold ses ev now db = Inr (db', r)"
  shows "shop_ok db'"
proof -
  have done': "shop_ok db'" if "and_then m (\<lambda>db'. Inr (db', None)) = Inr (db', r)" "\<And>x. m = Inr x \<Longrightarrow> quiet db x" for m
    using that ok by (auto simp: and_then_eq_Inr intro: quiet_shop_ok)
  show ?thesis
    using run unfolding apply_payment_def Let_def
    by (simp split: if_split_asm del: terminal_payment_iff)
      (erule done', erule quiet_update_webhook quiet.review_frame quiet.fail_frame quiet.pend_frame | erule settle_shop_ok [OF ok])+
qed

lemma or_missing_Inr: "or_missing m = Inr x \<longleftrightarrow> m = Some x"
  by (cases m) (simp_all add: or_missing_def)

definition unknown_intent :: "ident \<Rightarrow> PaymentAttemptStatus \<Rightarrow> review_input" where
  "unknown_intent webhookId status =
     \<lparr>rvw_webhookId = webhookId, rvw_attemptId = None, rvw_orderId = None, rvw_sessionId = None,
      rvw_safeCode = ''UNKNOWN_PAYMENT_INTENT'', rvw_paid = (status = PaymentAttemptStatus.SUCCEEDED),
      rvw_preserveOrder = False\<rparr>"

lemma webhook_transaction_Inr:
  assumes "webhook_transaction draw webhookId now db = Inr (db', r)"
  obtains (processed) w where "find_webhook db webhookId = Some w" "webhook_processed w" "db' = db" "r = None"
  | (unknown) w status where "find_webhook db webhookId = Some w" "\<not> webhook_processed w"
      "wh_normalizedStatus w = Some status"
      "markWebhookReview (unknown_intent webhookId status) now db = Inr db'" "r = None"
  | (applied) w status attempt o' hold ses ev where "find_webhook db webhookId = Some w" "\<not> webhook_processed w"
      "wh_normalizedStatus w = Some status" "wh_paymentAttemptId w = Some (pay_id attempt)"
      "find_attempt db (pay_id attempt) = Some attempt" "find_order db (pay_orderId attempt) = Some o'"
      "find_hold db (ord_sourceHoldId o') = Some hold" "find_session db (ord_sessionId o') = Some ses"
      "find_event db (ses_eventId ses) = Some ev"
      "apply_payment draw w status attempt o' hold ses ev now db = Inr (db', r)"
proof -
  from assms obtain w where w: "find_webhook db webhookId = Some w"
    unfolding webhook_transaction_def and_then_eq_Inr or_missing_Inr by blast
  then have w': "or_missing (find_webhook db webhookId) = Inr w" by (simp add: or_missing_Inr)
  note run = assms [unfolded webhook_transaction_def w' and_then_simps]
  show thesis
  proof (cases "webhook_processed w")
    case True
    with run w show thesis by (intro processed) simp_all
  next
    case False
    with run have "wh_signatureStatus w = PaymentWebhookSignatureStatus.VERIFIED"
      by (cases "wh_signatureStatus w = PaymentWebhookSignatureStatus.VERIFIED") simp_all
    note run = run [simplified False this if_False simp_thms]
    from run obtain status where st: "wh_eventCategory w = PaymentWebhookEventCategory.PAYMENT"
      "wh_normalizedStatus w = Some status"
      by (cases "wh_eventCategory w"; cases "wh_normalizedStatus w") simp_all
    show thesis
    proof (cases "wh_paymentAttemptId w")
      case None
      with run st w False show thesis
        by (intro unknown [of w status]) (auto simp: unknown_intent_def and_then_eq_Inr)
    next
      case (Some attemptId)
      with run st have "and_then (or_missing (find_attempt db attemptId)) (\<lambda>attempt.
        and_then (or_missing (find_order db (pay_orderId attempt))) (\<lambda>o'.
        and_then (or_missing (find_hold db (ord_sourceHoldId o'))) (\<lambda>hold.
        and_then (or_missing (find_session db (ord_sessionId o'))) (\<lambda>ses.
        and_then (or_missing (find_event db (ses_eventId ses))) (\<lambda>ev.
        apply_payment draw w status attempt o' hold ses ev now db))))) = Inr (db', r)" by simp
      then obtain attempt o' hold ses ev where
        f: "find_attempt db attemptId = Some attempt" "find_order db (pay_orderId attempt) = Some o'"
          "find_hold db (ord_sourceHoldId o') = Some hold" "find_session db (ord_sessionId o') = Some ses"
          "find_event db (ses_eventId ses) = Some ev"
          "apply_payment draw w status attempt o' hold ses ev now db = Inr (db', r)"
        unfolding and_then_eq_Inr or_missing_Inr by blast
      have "pay_id attempt = attemptId" using tbl.find_SomeD [OF f(1) [unfolded find_attempt_def]] by blast
      note eqs = f(1) [folded this] Some [folded this]
      show thesis by (rule applied [OF w False st(2) eqs(2,1) f(2-6)])
    qed
  qed
qed

lemma webhook_keeps_shop:
  assumes "shop_ok db" "webhook_transaction draw webhookId now db = Inr (db', r)"
  shows "shop_ok db'"
  using assms(2)
proof (cases rule: webhook_transaction_Inr)
  case (unknown w status)
  then show ?thesis using assms(1) quiet.review_frame quiet_shop_ok by blast
next
  case (applied w status attempt o' hold ses ev)
  then show ?thesis using assms(1) apply_shop_ok by blast
qed (use assms in simp)

text \<open>Processing a verified payment webhook, whatever the event says, keeps the invariant of holds
  and that of sales: a seat is BOOKED exactly when one booking seat names it, and no seat is sold twice.\<close>

theorem webhook_preserves:
  assumes "shop_ok db" "webhook_transaction draw webhookId now db = Inr (db', r)"
  shows "shop_ok db'"
  using assms by (rule webhook_keeps_shop)

section \<open>What a confirmed booking means\<close>

lemma settle_Some:
  assumes "settle_payment draw wid attempt o' hold ses ev now db = Inr (db', Some b)"
  shows "order_snapshot db hold (order_items db (ord_id o')) (ord_sessionId o') (hold_expiresAt hold)"
    and "fulfill draw wid attempt o' hold (order_items db (ord_id o')) now db = Inr db'"
    and "b = bd_bookingId draw"
    and "ord_status o' \<noteq> CheckoutOrderStatus.FULFILLED \<Longrightarrow>
      decidePaidFulfillment (ord_status o') (hold_status hold) (hold_expiresAt hold) (ev_status ev) (ses_status ses) now = FULFILL"
proof -
  let ?items = "order_items db (ord_id o')"
  let ?d = "decidePaidFulfillment (ord_status o') (hold_status hold) (hold_expiresAt hold) (ev_status ev) (ses_status ses) now"
  have none: "and_then m (\<lambda>db'. Inr (db', None)) \<noteq> Inr (db', Some b)" for m :: "service_error + database"
    by (auto simp: and_then_eq_Inr)
  have nr: "?d \<noteq> REVIEW code" for code
    using assms unfolding settle_payment_def Let_def by (cases ?d) (auto simp: none and_then_eq_Inr)
  show snap: "order_snapshot db hold ?items (ord_sessionId o') (hold_expiresAt hold)"
    using assms nr unfolding settle_payment_def Let_def order_snapshot_def by (cases ?d) (auto simp: none split: if_splits)
  have "and_then (fulfill draw wid attempt o' hold ?items now db) (\<lambda>db'. Inr (db', Some (bd_bookingId draw))) = Inr (db', Some b)"
    using assms nr snap unfolding settle_payment_def Let_def order_snapshot_def by (cases ?d) auto
  then show "fulfill draw wid attempt o' hold ?items now db = Inr db'" "b = bd_bookingId draw"
    by (auto simp: and_then_eq_Inr)
  show "?d = FULFILL" if "ord_status o' \<noteq> CheckoutOrderStatus.FULFILLED"
  proof (cases ?d)
    case IDEMPOTENT
    with that show ?thesis by (auto simp: decidePaidFulfillment_def split: if_splits)
  qed (use nr in auto)
qed

lemma apply_Some:
  assumes "apply_payment draw w status attempt o' hold ses ev now db = Inr (db', Some b)"
  shows "status = PaymentAttemptStatus.SUCCEEDED" "ord_status o' \<noteq> CheckoutOrderStatus.FULFILLED"
    "amount_matches w attempt o'" "\<not> isTerminalPaymentStatus (pay_status attempt)"
    "settle_payment draw (wh_id w) attempt o' hold ses ev now db = Inr (db', Some b)"
proof -
  have none: "and_then m (\<lambda>db'. Inr (db', None)) \<noteq> Inr (db', Some b)" for m :: "service_error + database"
    by (auto simp: and_then_eq_Inr)
  show "status = PaymentAttemptStatus.SUCCEEDED" "ord_status o' \<noteq> CheckoutOrderStatus.FULFILLED"
    "amount_matches w attempt o'" "\<not> isTerminalPaymentStatus (pay_status attempt)"
    "settle_payment draw (wh_id w) attempt o' hold ses ev now db = Inr (db', Some b)"
    using assms unfolding apply_payment_def Let_def isContradictoryTerminalStatus_def
    by (auto simp: none simp del: terminal_payment_iff split: if_split_asm)
qed

lemma fulfilled_seat:
  assumes core: "holds_core (db_inventory db) (db_holds db) (db_holdItems db)"
    and snap: "order_snapshot db hold items s e"
    and run: "fulfill draw wid attempt o' hold items now db = Inr db'"
    and i: "i \<in> set (db_inventory db)"
  shows "if inv_currentHoldId i = Some (hold_id hold)
         then book_seat i \<in> set (db_inventory db')
           \<and> (\<exists>s\<in>set (db_bookingSeats db'). bseat_bookingId s = bd_bookingId draw \<and> bseat_inventoryId s = inv_id i
                \<and> bseat_seatId s = inv_seatId i \<and> bseat_priceMinor s = inv_priceMinor i)
         else i \<in> set (db_inventory db')"
proof (cases "inv_currentHoldId i = Some (hold_id hold)")
  case True
  let ?ids = "map oitem_inventoryId items"
  note f = fulfill_Inr [OF run]
  have "books ?ids (hold_id hold) i"
    using snapshots_seats(4) [OF core snap [unfolded order_snapshot_def] hold_items_def [unfolded select_rows_def] i] True
    by (simp add: points_at_iff)
  moreover from this obtain t where t: "t \<in> set items" "oitem_inventoryId t = inv_id i" by (auto simp: books_def)
  from snapshot_item [OF snap [unfolded order_snapshot_def] t(1)] obtain j where
    j: "js_map_get (map (\<lambda>i. (inv_id i, i)) (select_rows (\<lambda>i. List.member ?ids (inv_id i)) (db_inventory db)))
         (oitem_inventoryId t) = Some j" "inv_priceMinor j = oitem_priceMinor t" "inv_seatId j = oitem_seatId t" by blast
  from js_map_get_SomeD [OF j(1)] have "j \<in> set (db_inventory db)" "inv_id j = inv_id i"
    using t(2) by (auto simp: select_rows_def)
  then have "j = i" using inv_id_inj [OF holds_coreD(1) [OF core] _ i] by blast
  moreover have "new_booking_seat draw o' t \<in> set (db_bookingSeats db')" unfolding f(8) using t(1) by auto
  ultimately show ?thesis
    using True i j(2,3) t(2) f(2)
    by (intro if_P [THEN iffD2] conjI bexI [of _ "new_booking_seat draw o' t"]) (auto simp: update_rows_mem new_booking_seat_def)
next
  case False
  then have "\<not> books (map oitem_inventoryId items) (hold_id hold) i" by (simp add: books_def)
  with False i show ?thesis by (simp add: fulfill_Inr(2) [OF run] update_rows_mem)
qed


end
