(* ===== verification/Order_Invariant.thy ===== *)
theory Order_Invariant
  imports Webhook_Properties
begin

text \<open>
  The money of orders: an order's total is the sum of its items, its payment attempt asks for
  exactly that, and a hold has at most one order. The frame contract carries the invariant
  through every step of a payment webhook; checkout is the one operation that extends it.
\<close>

section \<open>The frame of a sale\<close>

locale sale_frame = payment_frame +
  assumes frame_expiry: "releaseExpiredHoldsForSession s now db = Inr (db', n) \<Longrightarrow> P db db'"
    and frame_sale: "fulfill draw wid attempt o' hold items now db = Inr db' \<Longrightarrow> P db db'"
begin

lemma done_frame: "and_then m (\<lambda>db'. Inr (db', x)) = Inr (db', r) \<Longrightarrow> (\<And>y. m = Inr y \<Longrightarrow> P db y) \<Longrightarrow> P db db'"
  by (auto simp: and_then_eq_Inr)

lemma settle_frame:
  assumes run: "settle_payment draw wid attempt o' hold ses ev now db = Inr (db', r)"
  shows "P db db'"
proof -
  let ?d = "decidePaidFulfillment (ord_status o') (hold_status hold) (hold_expiresAt hold) (ev_status ev) (ses_status ses) now"
  show ?thesis
  proof (cases ?d)
    case (REVIEW code)
    define input where "input = \<lparr>rvw_webhookId = wid, rvw_attemptId = Some (pay_id attempt), rvw_orderId = Some (ord_id o'),
      rvw_sessionId = Some (ord_sessionId o'), rvw_safeCode = code, rvw_paid = True, rvw_preserveOrder = False\<rparr>"
    have "and_then (if code = ''HOLD_EXPIRED'' \<and> hold_status hold = SeatHoldStatus.ACTIVE
           then releaseExpiredHoldsForSession (ord_sessionId o') now db else Inr (db, 0))
         (\<lambda>(db1, _). and_then (markWebhookReview input now db1) (\<lambda>db'. Inr (db', None))) = Inr (db', r)"
      using run REVIEW by (simp add: settle_payment_def Let_def input_def)
    then obtain db1 n where 1: "(if code = ''HOLD_EXPIRED'' \<and> hold_status hold = SeatHoldStatus.ACTIVE
           then releaseExpiredHoldsForSession (ord_sessionId o') now db else Inr (db, 0)) = Inr (db1, n)"
      and 2: "and_then (markWebhookReview input now db1) (\<lambda>db'. Inr (db', None)) = Inr (db', r)"
      unfolding and_then_eq_Inr by (auto simp: and_then_eq_Inr)
    have "P db db1"
      using 1 by (cases "code = ''HOLD_EXPIRED'' \<and> hold_status hold = SeatHoldStatus.ACTIVE")
        (auto intro: frame_expiry frame_refl)
    moreover have "P db1 db'" using 2 by (rule done_frame) (erule review_frame)
    ultimately show ?thesis by (rule frame_trans)
  qed (use run in \<open>auto simp: settle_payment_def Let_def elim!: done_frame review_frame frame_sale split: if_split_asm\<close>)
qed

lemma apply_frame:
  assumes "apply_payment draw w status attempt o' hold ses ev now db = Inr (db', r)"
  shows "P db db'"
  using assms unfolding apply_payment_def Let_def
  by (simp split: if_split_asm del: terminal_payment_iff)
    (erule done_frame, erule frame_webhook review_frame fail_frame pend_frame | erule settle_frame)+

lemma transaction_frame:
  assumes "webhook_transaction draw webhookId now db = Inr (db', r)"
  shows "P db db'"
  using assms
proof (cases rule: webhook_transaction_Inr)
  case (unknown w status)
  from unknown(4) show ?thesis by (rule review_frame)
next
  case (applied w status attempt o' hold ses ev)
  from applied(10) show ?thesis by (rule apply_frame)
qed (simp add: frame_refl)

end

section \<open>The invariant\<close>

definition keeps_orders :: "database \<Rightarrow> database \<Rightarrow> bool" where
  "keeps_orders db db' \<longleftrightarrow> map order_key (db_orders db') = map order_key (db_orders db)
     \<and> db_orderItems db' = db_orderItems db \<and> map attempt_key (db_attempts db') = map attempt_key (db_attempts db)"

lemma keeps_orders_rest:
  "db_orders db' = db_orders db \<Longrightarrow> db_orderItems db' = db_orderItems db \<Longrightarrow> db_attempts db' = db_attempts db
    \<Longrightarrow> keeps_orders db db'"
  by (simp add: keeps_orders_def)

lemma release_expired_frame:
  assumes "releaseExpiredHoldsForSession s now db = Inr (db', n)"
  shows "\<exists>h i x. db' = db\<lparr>db_holds := h, db_inventory := i, db_invOutbox := x\<rparr>"
proof -
  let ?hit = "\<lambda>h. hold_sessionId h = s \<and> overdue now h"
  let ?ids = "map hold_id (select_rows ?hit (db_holds db))"
  let ?db1 = "db\<lparr>db_holds := update_rows ?hit (expire_hold now) (db_holds db)\<rparr>"
  have "and_then (enqueueExpiredHoldEvents s ?ids now (fst (releaseInventoryForHolds ?ids ?db1)))
      (\<lambda>db3. Inr (db3, length ?ids)) = Inr (db', n)"
    using assms unfolding releaseExpiredHoldsForSession_def Let_def by (simp add: case_prod_beta)
  then have "enqueueExpiredHoldEvents s ?ids now (fst (releaseInventoryForHolds ?ids ?db1)) = Inr db'"
    by (auto simp: and_then_eq_Inr)
  note this [unfolded enqueue_expired_Inr release_inventory_fst, THEN conjunct2, THEN conjunct2, symmetric]
  then show ?thesis by (intro exI) simp
qed

interpretation orders: sale_frame keeps_orders
proof
  fix draw wid attempt o' hold items now db db'
  assume run: "fulfill draw wid attempt o' hold items now db = Inr db'"
  note f = fulfill_Inr [OF run]
  show "keeps_orders db db'"
    unfolding keeps_orders_def f(5,6,12)
    by (intro conjI map_update_rows refl) (simp_all add: order_key_def attempt_key_def fulfill_order_def succeed_attempt_def)
next
  fix s now db db' n
  assume "releaseExpiredHoldsForSession s now db = Inr (db', n)"
  then show "keeps_orders db db'" by (auto dest!: release_expired_frame intro: keeps_orders_rest)
qed (auto simp: attempt_money_def keeps_orders_def update_order_Inr update_attempt_Inr update_webhook_Inr enqueue_event_Inr map_update_rows)

definition order_items_total :: "CheckoutOrderItem list \<Rightarrow> ident \<Rightarrow> minor" where
  "order_items_total items orderId = sum_list (map oitem_priceMinor (filter (\<lambda>t. oitem_orderId t = orderId) items))"

definition orders_core ::
  "(ident \<times> ident \<times> ident \<times> minor \<times> Currency) list \<Rightarrow> CheckoutOrderItem list
     \<Rightarrow> (ident \<times> ident \<times> minor \<times> Currency) list \<Rightarrow> bool" where
  "orders_core orders items attempts \<longleftrightarrow>
     distinct (map fst orders) \<and> distinct (map (\<lambda>(i, h, _). h) orders)
     \<and> (\<forall>t\<in>set items. oitem_orderId t \<in> fst ` set orders)
     \<and> (\<forall>(i, h, u, total', c)\<in>set orders. total' = order_items_total items i
          \<and> (\<forall>t\<in>set items. oitem_orderId t = i \<longrightarrow> oitem_currency t = c))
     \<and> (\<forall>(p, i, amount, c)\<in>set attempts. \<exists>h u. (i, h, u, amount, c) \<in> set orders)"

definition orders_ok :: "database \<Rightarrow> bool" where
  "orders_ok db \<longleftrightarrow>
     orders_core (map order_key (db_orders db)) (db_orderItems db) (map attempt_key (db_attempts db))"

lemma keeps_orders_ok: "keeps_orders db db' \<Longrightarrow> orders_ok db \<Longrightarrow> orders_ok db'"
  by (simp add: keeps_orders_def orders_ok_def)

lemma orders_core_insert:
  assumes core: "orders_core orders items attempts"
    and fresh: "i \<notin> fst ` set orders" "h \<notin> (\<lambda>(i, h, _). h) ` set orders"
    and new: "\<And>t. t \<in> set added \<Longrightarrow> oitem_orderId t = i \<and> oitem_currency t = c"
      "total' = sum_list (map oitem_priceMinor added)"
  shows "orders_core (orders @ [(i, h, u, total', c)]) (items @ added) (attempts @ [(p, i, total', c)])"
proof -
  have old: "order_items_total (items @ added) j = order_items_total items j" if "j \<noteq> i" for j
    using new(1) that by (simp add: order_items_total_def filter_empty_conv)
  have none: "filter (\<lambda>t. oitem_orderId t = i) items = []"
    using core fresh(1) by (auto simp: orders_core_def filter_empty_conv)
  have "filter (\<lambda>t. oitem_orderId t = i) added = added" using new(1) by (simp add: filter_id_conv)
  with none new(2) have total: "order_items_total (items @ added) i = total'" by (simp add: order_items_total_def)
  have other: "fst x \<noteq> i" if "x \<in> set orders" for x using fresh(1) that by blast
  have items: "oitem_orderId t \<noteq> i" if "t \<in> set items" for t
    using core fresh(1) that by (auto simp: orders_core_def)
  note c = core [unfolded orders_core_def]
  show ?thesis
    unfolding orders_core_def
  proof (intro conjI)
    show "distinct (map fst (orders @ [(i, h, u, total', c)]))"
      "distinct (map (\<lambda>(i, h, _). h) (orders @ [(i, h, u, total', c)]))"
      using c fresh by simp_all
    show "\<forall>t\<in>set (items @ added). oitem_orderId t \<in> fst ` set (orders @ [(i, h, u, total', c)])"
      using c new(1) by auto
    have "\<forall>x\<in>set orders. case x of (j, h, u, total', c) \<Rightarrow> total' = order_items_total (items @ added) j
        \<and> (\<forall>t\<in>set (items @ added). oitem_orderId t = j \<longrightarrow> oitem_currency t = c)"
    proof
      fix x assume x: "x \<in> set orders"
      obtain j h' u' t' c' where eq: "x = (j, h', u', t', c')" by (cases x)
      have j: "j \<noteq> i" using other [OF x] eq by simp
      from c have "\<forall>(j, h, u, total', c)\<in>set orders. total' = order_items_total items j
        \<and> (\<forall>t\<in>set items. oitem_orderId t = j \<longrightarrow> oitem_currency t = c)" by blast
      from bspec [OF this x] have tot: "t' = order_items_total items j"
        and cur: "\<forall>t\<in>set items. oitem_orderId t = j \<longrightarrow> oitem_currency t = c'" by (simp_all add: eq)
      have add: "oitem_orderId t \<noteq> j" if "t \<in> set added" for t using new(1) [OF that] j by simp
      show "case x of (j, h, u, total', c) \<Rightarrow> total' = order_items_total (items @ added) j
        \<and> (\<forall>t\<in>set (items @ added). oitem_orderId t = j \<longrightarrow> oitem_currency t = c)"
        unfolding eq prod.case old [OF j]
      proof (intro conjI ballI impI)
        show "t' = order_items_total items j" by (rule tot)
        fix t assume "t \<in> set (items @ added)" "oitem_orderId t = j"
        then have "t \<in> set items" using add by auto
        with \<open>oitem_orderId t = j\<close> cur show "oitem_currency t = c'" by blast
      qed
    qed
    moreover have "\<forall>t\<in>set (items @ added). oitem_orderId t = i \<longrightarrow> oitem_currency t = c"
      using items new(1) by auto
    ultimately show "\<forall>(j, h, u, total', c)\<in>set (orders @ [(i, h, u, total', c)]).
        total' = order_items_total (items @ added) j
        \<and> (\<forall>t\<in>set (items @ added). oitem_orderId t = j \<longrightarrow> oitem_currency t = c)"
      using total by simp
    show "\<forall>(q, j, amount, d)\<in>set (attempts @ [(p, i, total', c)]).
        \<exists>h' u'. (j, h', u', amount, d) \<in> set (orders @ [(i, h, u, total', c)])"
    proof
      fix x assume x: "x \<in> set (attempts @ [(p, i, total', c)])"
      obtain q j amount c' where eq: "x = (q, j, amount, c')" by (cases x)
      have "\<exists>h' u'. (j, h', u', amount, c') \<in> set (orders @ [(i, h, u, total', c)])"
      proof (cases "x \<in> set attempts")
        case True
        from bspec [OF c [THEN conjunct2, THEN conjunct2, THEN conjunct2, THEN conjunct2] True]
        show ?thesis by (auto simp: eq)
      next
        case False
        with x eq have "j = i" "amount = total'" "c' = c" by simp_all
        then show ?thesis by (intro exI [of _ h] exI [of _ u]) simp
      qed
      then show "case x of (q, j, amount, d) \<Rightarrow> \<exists>h' u'. (j, h', u', amount, d) \<in> set (orders @ [(i, h, u, total', c)])"
        by (simp add: eq)
    qed
  qed
qed

end
