(* ===== verification/Checkout_Properties.thy ===== *)
theory Checkout_Properties
  imports Order_Invariant
begin

text \<open>
  Checkout: an order copies its hold at the price snapshots, a hold gets one order, the
  provider's answers never make anything paid, and expiry closes the overdue orders.
\<close>

section \<open>What a checkout writes\<close>

definition made_item :: "ident \<Rightarrow> SeatHoldItem \<Rightarrow> SessionSeatInventory \<Rightarrow> CheckoutOrderItem" where
  "made_item orderId item i =
     \<lparr>oitem_orderId = orderId, oitem_inventoryId = hitem_inventoryId item, oitem_seatId = inv_seatId i,
      oitem_sectionId = inv_sectionId i, oitem_priceTierId = inv_priceTierId i, oitem_labels = inv_labels i,
      oitem_priceMinor = hitem_priceMinor item, oitem_currency = hitem_currency item\<rparr>"

definition seat_row :: "database \<Rightarrow> SeatHoldItem \<Rightarrow> SessionSeatInventory" where
  "seat_row db item = the (find_inventory db (hitem_inventoryId item))"

definition made_items :: "database \<Rightarrow> ident \<Rightarrow> ident \<Rightarrow> CheckoutOrderItem list" where
  "made_items db orderId holdId = map (\<lambda>t. made_item orderId t (seat_row db t)) (hold_items db holdId)"

lemma order_item_found:
  assumes "holds_core (db_inventory db) (db_holds db) (db_holdItems db)" "t \<in> set (db_holdItems db)"
  shows "order_item db orderId t = Some (made_item orderId t (seat_row db t))"
proof -
  from holds_coreD(4) [OF assms] obtain i where "i \<in> set (db_inventory db)" "inv_id i = hitem_inventoryId t"
    by (auto simp: item_link_def)
  then have "find_inventory db (hitem_inventoryId t) \<noteq> None"
    by (auto simp: find_inventory_def tbl.find_None_iff)
  then show ?thesis by (auto simp: order_item_def made_item_def seat_row_def)
qed

lemma order_items_made:
  assumes "holds_core (db_inventory db) (db_holds db) (db_holdItems db)"
  shows "List.map_filter (order_item db orderId) (hold_items db holdId) = made_items db orderId holdId"
proof -
  have "order_item db orderId t = Some (made_item orderId t (seat_row db t))" if "t \<in> set (hold_items db holdId)" for t
    using that order_item_found [OF assms] by (simp add: hold_items_def select_rows_def)
  then show ?thesis
    unfolding made_items_def List.map_filter_def by (simp add: filter_id_conv cong: map_cong)
qed

text \<open>The database after a new order.\<close>

definition ordered_db ::
  "checkout_draw \<Rightarrow> CheckoutCreateInput \<Rightarrow> PaymentProviderName \<Rightarrow> SeatHold \<Rightarrow> EventSession \<Rightarrow> Event
     \<Rightarrow> CheckoutTotal \<Rightarrow> time \<Rightarrow> database \<Rightarrow> database" where
  "ordered_db draw input provider hold ses ev t now db =
     db\<lparr>db_orders := db_orders db @ [new_order draw input hold ses ev t],
        db_orderItems := db_orderItems db @ made_items db (cd_orderId draw) (hold_id hold),
        db_attempts := db_attempts db @ [new_attempt draw provider t],
        db_invOutbox := db_invOutbox db @ [iev_row InventoryEventType.CHECKOUT_CREATED (hold_sessionId hold)
          (Some (cd_orderId draw)) (''checkout-created:'' @ cd_orderId draw) now]\<rparr>"

lemma write_checkout_Inr:
  assumes core: "holds_core (db_inventory db) (db_holds db) (db_holdItems db)"
    and run: "write_checkout draw input provider hold ses ev t now db = Inr (db', r)"
  shows "db' = ordered_db draw input provider hold ses ev t now db"
    and "cd_orderId draw \<notin> ord_id ` set (db_orders db)" "hold_id hold \<notin> ord_sourceHoldId ` set (db_orders db)"
    and "r = \<lparr>ccr_orderId = cd_orderId draw, ccr_publicReference = cd_publicReference draw, ccr_replayed = False\<rparr>"
proof -
  from run obtain db1 db2 db3 where
    1: "create_order (new_order draw input hold ses ev t) db = Inr db1" and
    2: "create_attempt (new_attempt draw provider t)
       (db1\<lparr>db_orderItems := db_orderItems db1 @
          List.map_filter (order_item db (cd_orderId draw)) (hold_items db (hold_id hold))\<rparr>) = Inr db2" and
    3: "enqueueInventoryEvent InventoryEventType.CHECKOUT_CREATED (hold_sessionId hold)
       (Some (cd_orderId draw)) (''checkout-created:'' @ cd_orderId draw) now db2 = Inr db3" and
    4: "db' = db3" "r = \<lparr>ccr_orderId = cd_orderId draw, ccr_publicReference = cd_publicReference draw, ccr_replayed = False\<rparr>"
    unfolding write_checkout_def and_then_eq_Inr by blast
  have u1: "db1 = db\<lparr>db_orders := db_orders db @ [new_order draw input hold ses ev t]\<rparr>"
    and fresh: "cd_orderId draw \<notin> ord_id ` set (db_orders db)" "hold_id hold \<notin> ord_sourceHoldId ` set (db_orders db)"
    using 1 by (auto simp: create_order_def insert_row_def list_ex_iff new_order_def split: if_split_asm)
  note u2 = 2 [unfolded order_items_made [OF core] create_attempt_def]
  have "db2 = db1\<lparr>db_orderItems := db_orderItems db1 @ made_items db (cd_orderId draw) (hold_id hold),
      db_attempts := db_attempts db1 @ [new_attempt draw provider t]\<rparr>"
    using u2 by (simp add: insert_row_def split: if_split_asm)
  with 3 u1 4 show "db' = ordered_db draw input provider hold ses ev t now db"
    by (auto simp: enqueue_event_Inr ordered_db_def)
  show "cd_orderId draw \<notin> ord_id ` set (db_orders db)" "hold_id hold \<notin> ord_sourceHoldId ` set (db_orders db)"
    "r = \<lparr>ccr_orderId = cd_orderId draw, ccr_publicReference = cd_publicReference draw, ccr_replayed = False\<rparr>"
    using fresh 4 by simp_all
qed

text \<open>An accepted checkout replays an existing order or writes a new one.\<close>

lemma checkout_Inr:
  assumes core: "holds_core (db_inventory db) (db_holds db) (db_holdItems db)"
    and run: "createCheckoutOrder u raw provider now draw db = (db', Inr r)"
  obtains (replayed) input o' where "checkoutCreateInputSchema raw = Some input" "db' = db" "o' \<in> set (db_orders db)"
      "ord_userId o' = u" "ord_idempotencyKey o' = cci_idempotencyKey input"
      "r = \<lparr>ccr_orderId = ord_id o', ccr_publicReference = ord_publicReference o', ccr_replayed = True\<rparr>"
  | (made) input hold ses ev t where "checkoutCreateInputSchema raw = Some input" "hold \<in> set (db_holds db)"
      "hold_publicToken hold = cci_holdToken input" "hold_userId hold = u"
      "hold_status hold = SeatHoldStatus.ACTIVE" "now < hold_expiresAt hold" "inventory_matches db hold"
      "calculateCheckoutTotal (map priced_item (hold_items db (hold_id hold))) = Inr t"
      "db' = ordered_db draw input provider hold ses ev t now db"
      "cd_orderId draw \<notin> ord_id ` set (db_orders db)" "hold_id hold \<notin> ord_sourceHoldId ` set (db_orders db)"
      "\<not> ccr_replayed r" "ccr_orderId r = cd_orderId draw"
proof -
  from run obtain input where input: "checkoutCreateInputSchema raw = Some input"
    and tx: "checkout_transaction draw input provider u now db = Inr (db', r)"
    by (auto simp: createCheckoutOrder_def transact_Inr split: if_split_asm option.splits)
  let ?rows = "select_rows (\<lambda>h. hold_publicToken h = cci_holdToken input) (db_holds db)"
  from tx obtain hold where rows: "?rows = [hold]"
    unfolding checkout_transaction_def by (cases ?rows rule: remdups_adj.cases) simp_all
  from arg_cong [OF rows, of set] have hold: "hold \<in> set (db_holds db)" "hold_publicToken hold = cci_holdToken input"
    by (auto simp: select_rows_def)
  from tx rows have user: "hold_userId hold = u" by (simp add: checkout_transaction_def split: if_split_asm)
  show thesis
  proof (cases "order_of_hold db (hold_id hold)")
    case (Some o')
    with tx rows user have "db' = db" "ord_userId o' = u" "ord_idempotencyKey o' = cci_idempotencyKey input"
      "r = \<lparr>ccr_orderId = ord_id o', ccr_publicReference = ord_publicReference o', ccr_replayed = True\<rparr>"
      by (auto simp: checkout_transaction_def split: if_split_asm)
    with tbl.find_SomeD [OF Some [unfolded order_of_hold_def]] input show thesis by (intro replayed) simp_all
  next
    case None
    with tx rows user have c: "checkout_checks draw input provider hold now db = Inr (db', r)"
      by (simp add: checkout_transaction_def)
    then have ok: "hold_status hold = SeatHoldStatus.ACTIVE" "now < hold_expiresAt hold" "inventory_matches db hold"
      by (auto simp: checkout_checks_def Let_def split: if_split_asm)
    from c obtain ses ev t where t: "calculateCheckoutTotal (map priced_item (hold_items db (hold_id hold))) = Inr t"
      and w: "write_checkout draw input provider hold ses ev t now db = Inr (db', r)"
      unfolding checkout_checks_def Let_def by (auto split: if_split_asm option.splits sum.splits)
    note w' = write_checkout_Inr [OF core w]
    show thesis
      by (rule made [OF input hold user ok t w'(1-3)]) (simp_all add: w'(4))
  qed
qed

lemma priced_total: "items_total (map priced_item ts) = sum_list (map hitem_priceMinor ts)"
  by (simp add: items_total_def priced_item_def comp_def)

lemma checkout_currency:
  assumes "calculateCheckoutTotal (map priced_item ts) = Inr t" "y \<in> set ts"
  shows "hitem_currency y = ct_currency t"
proof -
  let ?c = "cpi_currency (hd (map priced_item ts))"
  from assms(1) have "list_all (well_priced ?c) (map priced_item ts)" and c: "ct_currency t = ?c"
    unfolding checkout_total_iff by simp_all
  then have "well_priced ?c (priced_item y)" using assms(2) by (simp add: list_all_iff)
  then show ?thesis unfolding c by (simp add: well_priced_def priced_item_def)
qed

lemma made_items_simps [simp]:
  "map oitem_inventoryId (made_items db oid hid) = map hitem_inventoryId (hold_items db hid)"
  "map oitem_priceMinor (made_items db oid hid) = map hitem_priceMinor (hold_items db hid)"
  "t \<in> set (made_items db oid hid) \<Longrightarrow> oitem_orderId t = oid"
  by (auto simp: made_items_def made_item_def comp_def)

lemma orders_item_known:
  assumes "orders_ok db" "x \<in> set (db_orderItems db)"
  shows "oitem_orderId x \<in> ord_id ` set (db_orders db)"
proof -
  have "\<forall>t\<in>set (db_orderItems db). oitem_orderId t \<in> fst ` set (map order_key (db_orders db))"
    using assms(1) unfolding orders_ok_def orders_core_def by blast
  with assms(2) show ?thesis by (auto simp: order_key_def image_image)
qed


section \<open>The invariant of the whole shop\<close>

definition store_ok :: "database \<Rightarrow> bool" where
  "store_ok db \<longleftrightarrow> shop_ok db \<and> orders_ok db"

lemma checkout_store_ok:
  assumes ok: "store_ok db"
  shows "store_ok (fst (createCheckoutOrder u raw provider now draw db))"
proof (cases "createCheckoutOrder u raw provider now draw db")
  case (Pair db' res)
  show ?thesis
  proof (cases res)
    case (Inl e)
    with Pair have "db' = db"
      by (auto simp: createCheckoutOrder_def transact_Inl split: if_split_asm option.splits)
    with Pair ok show ?thesis by simp
  next
    case (Inr r)
    have core: "holds_core (db_inventory db) (db_holds db) (db_holdItems db)"
      using ok by (simp add: store_ok_def shop_ok_def holds_ok_def)
    from core Pair [unfolded Inr] show ?thesis
    proof (cases rule: checkout_Inr)
      case (made input hold ses ev t)
      have q: "quiet db db'"
        by (simp add: made(9) ordered_db_def quiet_def outbox_keys_def hold_event_key_def)
      have "orders_core (map order_key (db_orders db) @ [(cd_orderId draw, hold_id hold, u, ct_totalMinor t, ct_currency t)])
          (db_orderItems db @ made_items db (cd_orderId draw) (hold_id hold))
          (map attempt_key (db_attempts db) @ [(cd_attemptId draw, cd_orderId draw, ct_totalMinor t, ct_currency t)])"
      proof (rule orders_core_insert)
        show "orders_core (map order_key (db_orders db)) (db_orderItems db) (map attempt_key (db_attempts db))"
          using ok by (simp add: store_ok_def orders_ok_def)
        show "cd_orderId draw \<notin> fst ` set (map order_key (db_orders db))"
          "hold_id hold \<notin> (\<lambda>(i, h, _). h) ` set (map order_key (db_orders db))"
          using made(10,11) by (auto simp: order_key_def)
        show "ct_totalMinor t = sum_list (map oitem_priceMinor (made_items db (cd_orderId draw) (hold_id hold)))"
          using made(8) by (simp add: checkout_total_iff priced_total)
        fix x assume x: "x \<in> set (made_items db (cd_orderId draw) (hold_id hold))"
        then obtain y where "y \<in> set (hold_items db (hold_id hold))" "x = made_item (cd_orderId draw) y (seat_row db y)"
          unfolding made_items_def set_map by blast
        with checkout_currency [OF made(8), of y] show "oitem_orderId x = cd_orderId draw \<and> oitem_currency x = ct_currency t"
          by (simp add: made_item_def)
      qed
      moreover have "map order_key (db_orders db') = map order_key (db_orders db) @ [(cd_orderId draw, hold_id hold, u, ct_totalMinor t, ct_currency t)]"
        "db_orderItems db' = db_orderItems db @ made_items db (cd_orderId draw) (hold_id hold)"
        "map attempt_key (db_attempts db') = map attempt_key (db_attempts db) @ [(cd_attemptId draw, cd_orderId draw, ct_totalMinor t, ct_currency t)]"
        unfolding made(9) ordered_db_def using made(4)
        by (simp_all add: order_key_def attempt_key_def new_order_def new_attempt_def)
      ultimately have "orders_ok db'" unfolding orders_ok_def by metis
      with quiet_shop_ok [OF _ q] show ?thesis
        using ok Pair by (simp add: store_ok_def)
    qed (use Pair ok in simp)
  qed
qed

context payment_frame
begin

lemma attach_frame:
  assumes "attach_intent attemptId intent now db = Inr (db', r)"
  shows "P db db'"
proof -
  from assms obtain current o' where c: "find_attempt db attemptId = Some current" "find_order db (pay_orderId current) = Some o'"
    by (auto simp: attach_intent_def split: option.splits)
  show ?thesis
  proof (cases "pay_providerIntentId current")
    case None
    with assms c obtain db1 db2 where
      1: "update_attempt (pay_id current) (\<lambda>a. a\<lparr>pay_providerIntentId := Some (ppi_providerIntentId intent),
            pay_status := PaymentAttemptStatus.PENDING,
            pay_lastProviderStatus := Some (take 80 (ppi_providerStatus intent))\<rparr>) db = Inr db1" and
      2: "(if ord_status o' = CheckoutOrderStatus.PENDING
           then update_order (ord_id o') (\<lambda>x. x\<lparr>ord_status := CheckoutOrderStatus.PAYMENT_PENDING,
                  ord_version := ord_version x + 1\<rparr>) db1 else Inr db1) = Inr db2" and
      3: "enqueueInventoryEvent InventoryEventType.PAYMENT_INTENT_CREATED (ord_sessionId o')
            (Some (pay_id current)) (''payment-intent-created:'' @ pay_id current) now db2 = Inr db'"
      by (auto simp: attach_intent_def and_then_eq_Inr)
    have "P db db1" using 1 by (rule frame_attempt) (simp add: attempt_money_def attempt_key_def)
    moreover have "P db1 db2"
      using 2 by (cases "ord_status o' = CheckoutOrderStatus.PENDING") (auto simp: order_key_def intro: frame_refl elim!: frame_order)
    moreover have "P db2 db'" using 3 by (rule frame_event) (simp add: hold_event_key_def)
    ultimately show ?thesis by (meson frame_trans)
  qed (use assms c in \<open>auto simp: attach_intent_def intro: frame_refl\<close>)
qed

lemma intent_frame: "P db (fst (ensurePaymentIntent provider createIntent orderId now seen db))"
proof -
  have "P db (fst (transact (attach_intent i intent now) db))" for i intent
    by (cases "attach_intent i intent now db") (auto simp: transact_def intro: frame_refl attach_frame)
  then show ?thesis
    unfolding ensurePaymentIntent_def by (auto intro: frame_refl split: option.splits)
qed

end

lemma checkout_keeps_store:
  assumes "store_ok db"
  shows "store_ok (fst (createCheckoutAndPayment provider createIntent u raw now draw db))"
proof -
  obtain db1 res where made: "createCheckoutOrder u raw provider now draw db = (db1, res)" by (cases "createCheckoutOrder u raw provider now draw db")
  have ok: "store_ok db1" using checkout_store_ok [OF assms, of u raw provider now draw] by (simp add: made)
  have pay: "store_ok db2" if "ensurePaymentIntent provider createIntent i now db1 db1 = (db2, x)" for i db2 x
    using ok quiet.intent_frame [of db1 provider createIntent i now db1] orders.intent_frame [of db1 provider createIntent i now db1]
    unfolding store_ok_def that fst_conv by (metis quiet_shop_ok keeps_orders_ok)
  show ?thesis
  proof (cases res)
    case (Inr r)
    then show ?thesis
      by (cases "ensurePaymentIntent provider createIntent (ccr_orderId r) now db1 db1")
        (auto simp: createCheckoutAndPayment_def made dest: pay split: sum.splits)
  qed (simp add: createCheckoutAndPayment_def made ok)
qed

section \<open>The provider's answer is no authority\<close>

text \<open>Everything that says an order is paid or fulfilled.\<close>

definition payment_facts :: "database \<Rightarrow> (ident \<times> time option \<times> time option) list \<times> (ident \<times> time option \<times> bool) list
     \<times> Booking list \<times> BookingSeat list" where
  "payment_facts db =
     (map (\<lambda>o'. (ord_id o', ord_paidAt o', ord_fulfilledAt o')) (db_orders db),
      map (\<lambda>a. (pay_id a, pay_succeededAt a, pay_status a = PaymentAttemptStatus.SUCCEEDED)) (db_attempts db),
      db_bookings db, db_bookingSeats db)"

lemma map_update_rows_on:
  "(\<And>r. r \<in> set t \<Longrightarrow> P r \<Longrightarrow> key (f r) = key r) \<Longrightarrow> map key (update_rows P f t) = map key t"
  by (simp add: update_rows_def)

lemma attach_pays_nothing:
  assumes ids: "distinct (map pay_id (db_attempts db))" and run: "attach_intent attemptId intent now db = Inr (db', r)"
  shows "payment_facts db' = payment_facts db \<and> map pay_id (db_attempts db') = map pay_id (db_attempts db)"
proof -
  from run obtain current o' where c: "find_attempt db attemptId = Some current" "find_order db (pay_orderId current) = Some o'"
    by (auto simp: attach_intent_def split: option.splits)
  let ?f = "\<lambda>a. a\<lparr>pay_providerIntentId := Some (ppi_providerIntentId intent),
            pay_status := PaymentAttemptStatus.PENDING,
            pay_lastProviderStatus := Some (take 80 (ppi_providerStatus intent))\<rparr>"
  let ?g = "\<lambda>x. x\<lparr>ord_status := CheckoutOrderStatus.PAYMENT_PENDING, ord_version := ord_version x + 1\<rparr>"
  show ?thesis
  proof (cases "pay_providerIntentId current")
    case None
    with run c obtain db1 db2 where
      1: "update_attempt (pay_id current) ?f db = Inr db1" and
      2: "(if ord_status o' = CheckoutOrderStatus.PENDING then update_order (ord_id o') ?g db1 else Inr db1) = Inr db2" and
      3: "enqueueInventoryEvent InventoryEventType.PAYMENT_INTENT_CREATED (ord_sessionId o')
            (Some (pay_id current)) (''payment-intent-created:'' @ pay_id current) now db2 = Inr db'"
      by (auto simp: attach_intent_def and_then_eq_Inr)
    note u3 = 3 [unfolded enqueue_event_Inr, THEN conjunct2, symmetric]
    have 2: "db_attempts db2 = db_attempts db1" "db_bookings db2 = db_bookings db1" "db_bookingSeats db2 = db_bookingSeats db1"
      "map (\<lambda>o'. (ord_id o', ord_paidAt o', ord_fulfilledAt o')) (db_orders db2)
         = map (\<lambda>o'. (ord_id o', ord_paidAt o', ord_fulfilledAt o')) (db_orders db1)"
      using 2 by (auto simp: update_order_Inr map_update_rows split: if_split_asm)
    from 1 obtain a0 where a0: "find_row (\<lambda>a. pay_id a = pay_id current) (db_attempts db) = Some a0"
        "attempt_update_ok a0 (?f a0)"
      and u1: "db1 = db\<lparr>db_attempts := update_rows (\<lambda>a. pay_id a = pay_id current) ?f (db_attempts db)\<rparr>"
      unfolding update_attempt_Inr by blast
    have open': "pay_status a \<noteq> PaymentAttemptStatus.SUCCEEDED"
      if "a \<in> set (db_attempts db)" "pay_id a = pay_id current" for a
    proof -
      have "find_row (\<lambda>a. pay_id a = pay_id current) (db_attempts db) = Some a"
        using that by (simp add: tbl.find_keyed [OF ids])
      with a0(1) have "a = a0" by simp
      with a0(2) show ?thesis by (auto simp: attempt_update_ok_def)
    qed
    have "map (\<lambda>a. (pay_id a, pay_succeededAt a, pay_status a = PaymentAttemptStatus.SUCCEEDED)) (db_attempts db1)
        = map (\<lambda>a. (pay_id a, pay_succeededAt a, pay_status a = PaymentAttemptStatus.SUCCEEDED)) (db_attempts db)"
      "map pay_id (db_attempts db1) = map pay_id (db_attempts db)"
      unfolding u1 by (simp_all add: map_update_rows_on open')
    with 2 u1 u3 show ?thesis by (simp add: payment_facts_def)
  qed (use run c in \<open>auto simp: attach_intent_def\<close>)
qed

lemma intent_pays_nothing:
  assumes "distinct (map pay_id (db_attempts db))"
  shows "payment_facts (fst (ensurePaymentIntent provider createIntent orderId now seen db)) = payment_facts db
    \<and> map pay_id (db_attempts (fst (ensurePaymentIntent provider createIntent orderId now seen db)))
      = map pay_id (db_attempts db)"
proof -
  have "payment_facts (fst (transact (attach_intent i intent now) db)) = payment_facts db
      \<and> map pay_id (db_attempts (fst (transact (attach_intent i intent now) db))) = map pay_id (db_attempts db)" for i intent
    using attach_pays_nothing [OF assms] by (cases "attach_intent i intent now db") (auto simp: transact_def)
  then show ?thesis unfolding ensurePaymentIntent_def by (auto split: option.splits)
qed

lemma reconcile_pays_nothing:
  assumes "distinct (map pay_id (db_attempts db))"
  shows "payment_facts (fst (reconcile_loop provider createIntent retrieveIntent now attempts result db)) = payment_facts db"
  using assms
proof (induction attempts arbitrary: result db)
  case (Cons attempt attempts)
  show ?case
  proof (cases "pay_providerIntentId attempt")
    case None
    obtain db' res where e: "ensurePaymentIntent provider createIntent (pay_orderId attempt) now db db = (db', res)"
      by (cases "ensurePaymentIntent provider createIntent (pay_orderId attempt) now db db")
    have same: "payment_facts db' = payment_facts db" "distinct (map pay_id (db_attempts db'))"
      using intent_pays_nothing [OF Cons.prems, of provider createIntent "pay_orderId attempt" now db] Cons.prems
      by (simp_all add: e)
    show ?thesis using Cons.IH [OF same(2)] same(1) by (cases res) (simp_all add: None e)
  next
    case (Some intentId)
    show ?thesis
    proof (cases "retrieveIntent intentId")
      case None
      then show ?thesis using Some Cons by simp
    next
      case intent: (Some intent)
      let ?f = "\<lambda>a. a\<lparr>pay_lastProviderStatus := Some (take 80 (ppi_providerStatus intent))\<rparr>"
      show ?thesis
      proof (cases "update_attempt (pay_id attempt) ?f db")
        case (Inl e)
        then show ?thesis using Some intent Cons by simp
      next
        case (Inr db')
        then have "db' = db\<lparr>db_attempts := update_rows (\<lambda>a. pay_id a = pay_id attempt) ?f (db_attempts db)\<rparr>"
          by (auto simp: update_attempt_Inr)
        then have "payment_facts db' = payment_facts db" "map pay_id (db_attempts db') = map pay_id (db_attempts db)"
          by (simp_all add: payment_facts_def map_update_rows)
        then show ?thesis using Some intent Inr Cons.IH [of db'] Cons.prems by simp
      qed
    qed
  qed
qed simp

text \<open>Neither creating a payment intent nor reconciling pending ones grants payment authority: whatever
  the provider answers, success included, no order becomes paid or fulfilled, no attempt succeeds
  and no booking appears.\<close>

theorem provider_answer_pays_nothing:
  assumes "distinct (map pay_id (db_attempts db))"
  shows "payment_facts (fst (reconcilePendingPaymentIntents provider createIntent retrieveIntent now limit db)) = payment_facts db
    \<and> payment_facts (fst (ensurePaymentIntent provider createIntent orderId now seen db)) = payment_facts db"
  using reconcile_pays_nothing [OF assms] intent_pays_nothing [OF assms]
  by (simp add: reconcilePendingPaymentIntents_def Let_def)

section \<open>Expiry of unpaid orders\<close>

definition overdue_order :: "time \<Rightarrow> CheckoutOrder \<Rightarrow> bool" where
  "overdue_order now o' \<longleftrightarrow> unpaid (ord_status o') \<and> ord_checkoutExpiresAt o' \<le> now"

definition claimed_orders :: "time \<Rightarrow> nat \<Rightarrow> database \<Rightarrow> CheckoutOrder list" where
  "claimed_orders now n db =
     take n (sort_key ord_checkoutExpiresAt (sort_key ord_id (filter (overdue_order now) (db_orders db))))"

lemma claimed_orders_sub: "o' \<in> set (claimed_orders now n db) \<Longrightarrow> o' \<in> set (db_orders db) \<and> overdue_order now o'"
  by (auto simp: claimed_orders_def dest!: in_set_takeD)

lemma claimed_orders_Nil: "0 < n \<Longrightarrow> claimed_orders now n db = [] \<longleftrightarrow> (\<forall>o'\<in>set (db_orders db). \<not> overdue_order now o')"
  by (auto simp: claimed_orders_def filter_empty_conv take_eq_Nil) (metis set_empty set_sort empty_filter_conv)+

lemma release_sessions_total:
  assumes "shop_ok db"
  shows "\<exists>db'. release_sessions ss now db = Inr db' \<and> shop_ok db' \<and> db_orders db' = db_orders db
    \<and> db_orderItems db' = db_orderItems db \<and> db_attempts db' = db_attempts db"
  using assms
proof (induction ss arbitrary: db)
  case (Cons s ss)
  have h: "holds_ok db" using Cons.prems by (simp add: shop_ok_def)
  from Cons.IH [OF after_expiry_shop_ok [OF Cons.prems, of s now]] show ?case
    by (simp add: release_expired_total [OF h]) (simp add: after_expiry_def)
qed simp

definition expire_hit :: "CheckoutOrder list \<Rightarrow> CheckoutOrder \<Rightarrow> bool" where
  "expire_hit claimed o' \<longleftrightarrow> List.member (map ord_id claimed) (ord_id o') \<and> unpaid (ord_status o')"

lemma expire_batch_eq:
  "expire_orders_batch now n db =
     (let c = claimed_orders now n db
      in if c = [] then Inr (db, 0)
         else and_then (release_sessions (js_unique (map ord_sessionId c)) now
                (db\<lparr>db_orders := update_rows (expire_hit c) (expire_order now) (db_orders db)\<rparr>))
                (\<lambda>db1. Inr (db1, length c)))"
  by (simp only: expire_orders_batch_def claimed_orders_def overdue_order_def [abs_def] select_rows_def
      expire_hit_def [abs_def] Let_def)

text \<open>One batch never throws, keeps the invariants and closes exactly the claimed orders.\<close>

lemma expire_batch_total:
  assumes ok: "store_ok db"
  shows "\<exists>db'. expire_orders_batch now n db = Inr (db', length (claimed_orders now n db)) \<and> store_ok db'
    \<and> db_orders db' = update_rows (expire_hit (claimed_orders now n db)) (expire_order now) (db_orders db)"
proof (cases "claimed_orders now n db = []")
  case True
  moreover have "update_rows (expire_hit []) (expire_order now) (db_orders db) = db_orders db"
    by (simp add: update_rows_def expire_hit_def)
  ultimately show ?thesis
    using ok by (simp add: expire_batch_eq)
next
  case False
  let ?c = "claimed_orders now n db"
  let ?db1 = "db\<lparr>db_orders := update_rows (expire_hit ?c) (expire_order now) (db_orders db)\<rparr>"
  have "quiet db ?db1" by (simp add: quiet_def outbox_keys_def)
  moreover have "keeps_orders db ?db1"
    by (simp add: keeps_orders_def map_update_rows expire_order_def order_key_def)
  ultimately have db1: "shop_ok ?db1" "orders_ok ?db1"
    using ok quiet_shop_ok keeps_orders_ok unfolding store_ok_def by blast+
  from release_sessions_total [OF db1(1), of "js_unique (map ord_sessionId ?c)" now] obtain db' where
    r: "release_sessions (js_unique (map ord_sessionId ?c)) now ?db1 = Inr db'" "shop_ok db'"
      "db_orders db' = db_orders ?db1" "db_orderItems db' = db_orderItems ?db1" "db_attempts db' = db_attempts ?db1" by blast
  have "orders_ok db'" using keeps_orders_ok [OF keeps_orders_rest [OF r(3-5)] db1(2)] .
  moreover have "expire_orders_batch now n db = Inr (db', length ?c)"
    using False r(1) by (simp add: expire_batch_eq Let_def)
  ultimately show ?thesis using r(2,3) by (simp add: store_ok_def)
qed

definition expired_from :: "time \<Rightarrow> CheckoutOrder \<Rightarrow> CheckoutOrder \<Rightarrow> bool" where
  "expired_from now o' x \<longleftrightarrow> x = o' \<or> overdue_order now o' \<and> x = expire_order now o'"

lemma expire_hit_overdue:
  assumes "distinct (map ord_id (db_orders db))" "o' \<in> set (db_orders db)" "expire_hit (claimed_orders now n db) o'"
  shows "overdue_order now o'"
proof -
  from assms(3) obtain x where x: "x \<in> set (claimed_orders now n db)" "ord_id x = ord_id o'"
    by (auto simp: expire_hit_def)
  from claimed_orders_sub [OF x(1)] x(2) assms(1,2) have "x = o'"
    by (auto simp: distinct_map dest: inj_onD)
  with claimed_orders_sub [OF x(1)] show ?thesis by simp
qed

lemma orders_distinct: "store_ok db \<Longrightarrow> distinct (map ord_id (db_orders db))"
  by (simp add: store_ok_def orders_ok_def orders_core_def order_key_def comp_def)

lemma list_all2_update:
  "(\<And>r. r \<in> set t \<Longrightarrow> Q r r) \<Longrightarrow> (\<And>r. r \<in> set t \<Longrightarrow> P r \<Longrightarrow> Q r (f r)) \<Longrightarrow> list_all2 Q t (update_rows P f t)"
  by (simp add: update_rows_def list_all2_map2 list.rel_refl_strong)

lemma expired_from_trans: "expired_from now a b \<Longrightarrow> expired_from now b c \<Longrightarrow> expired_from now a c"
proof -
  have "\<not> overdue_order now (expire_order now a)" by (simp add: overdue_order_def expire_order_def unpaid_def)
  then show "expired_from now a b \<Longrightarrow> expired_from now b c \<Longrightarrow> expired_from now a c"
    unfolding expired_from_def by metis
qed

lemma expire_batch_step:
  assumes "store_ok db"
  obtains db' where "transact (expire_orders_batch now n) db = (db', Inr (length (claimed_orders now n db)))"
    "store_ok db'" "list_all2 (expired_from now) (db_orders db) (db_orders db')"
proof -
  from expire_batch_total [OF assms] obtain db' where
    d: "expire_orders_batch now n db = Inr (db', length (claimed_orders now n db))" "store_ok db'"
      "db_orders db' = update_rows (expire_hit (claimed_orders now n db)) (expire_order now) (db_orders db)" by blast
  have "list_all2 (expired_from now) (db_orders db) (db_orders db')"
    unfolding d(3) by (rule list_all2_update) (auto simp: expired_from_def dest: expire_hit_overdue [OF orders_distinct [OF assms]])
  moreover have "transact (expire_orders_batch now n) db = (db', Inr (length (claimed_orders now n db)))"
    using d(1) by (simp add: transact_Inr)
  ultimately show thesis using d(2) that by blast
qed

lemma expire_loop:
  assumes "store_ok db" "0 < n"
  shows "\<exists>db' k m. expire_orders_loop left now n e b db = (db', Inr (e + k, b + m)) \<and> store_ok db'
    \<and> list_all2 (expired_from now) (db_orders db) (db_orders db')
    \<and> (m < left \<longrightarrow> (\<forall>o'\<in>set (db_orders db'). \<not> overdue_order now o'))"
  using assms(1)
proof (induction left arbitrary: e b db)
  case 0
  then show ?case by (auto simp: expired_from_def list.rel_refl_strong)
next
  case (Suc left)
  from expire_batch_step [OF Suc.prems, of now n] obtain db1 where
    d: "transact (expire_orders_batch now n) db = (db1, Inr (length (claimed_orders now n db)))" "store_ok db1"
      "list_all2 (expired_from now) (db_orders db) (db_orders db1)" by blast
  show ?case
  proof (cases "claimed_orders now n db = []")
    case True
    then have "transact (expire_orders_batch now n) db = (db, Inr 0)"
      by (simp add: transact_Inr expire_batch_eq)
    moreover have "\<forall>o'\<in>set (db_orders db). \<not> overdue_order now o'"
      using True claimed_orders_Nil [OF assms(2)] by blast
    ultimately show ?thesis
      using Suc.prems by (intro exI [of _ db] exI [of _ 0]) (simp add: expired_from_def list.rel_refl_strong)
  next
    case False
    let ?l = "length (claimed_orders now n db)"
    from Suc.IH [OF d(2), of "e + ?l" "b + 1"] obtain db' k m where
      i: "expire_orders_loop left now n (e + ?l) (b + 1) db1 = (db', Inr (e + ?l + k, b + 1 + m))" "store_ok db'"
        "list_all2 (expired_from now) (db_orders db1) (db_orders db')"
        "m < left \<longrightarrow> (\<forall>o'\<in>set (db_orders db'). \<not> overdue_order now o')" by blast
    have "list_all2 (expired_from now) (db_orders db) (db_orders db')"
      by (rule list_all2_trans [OF _ d(3) i(3)]) (rule expired_from_trans)
    moreover have "expire_orders_loop (Suc left) now n e b db = (db', Inr (e + (?l + k), b + Suc m))"
      using i(1) d(1) False by (simp add: add.assoc)
    ultimately show ?thesis using i(2,4) by (intro exI [of _ db'] exI [of _ "?l + k"] exI [of _ "Suc m"]) simp
  qed
qed

text \<open>C21: Expiring unpaid orders never throws and keeps the invariants; every order is left as it was or was
  unpaid and overdue and is now EXPIRED; and when the batches did not run out, none is overdue.\<close>

theorem expiry_closes_overdue:
  assumes "store_ok db"
  shows "\<exists>db' k m. expireUnpaidCheckoutOrders now batchSize maxBatches db = (db', Inr (k, m)) \<and> store_ok db'
    \<and> list_all2 (expired_from now) (db_orders db) (db_orders db')
    \<and> (m < clamp 1 100000 (case maxBatches of None \<Rightarrow> 10 | Some n \<Rightarrow> n) \<longrightarrow>
         (\<forall>o'\<in>set (db_orders db'). \<not> overdue_order now o'))"
proof -
  have "0 < clamp 1 1000 (case batchSize of None \<Rightarrow> 100 | Some n \<Rightarrow> n)" by (simp add: clamp_def)
  from expire_loop [OF assms this, of "clamp 1 100000 (case maxBatches of None \<Rightarrow> 10 | Some n \<Rightarrow> n)" now 0 0]
  show ?thesis by (simp add: expireUnpaidCheckoutOrders_def)
qed

end
