(* ===== verification/Review_Machine.thy ===== *)
theory Review_Machine
  imports Domain
begin

text \<open>
  The contract that the refund and the dispute state machines share with the services that
  drive them. Provider events arrive late, twice and out of order; each machine answers one
  event with a status, and the services rely on four promises: a record under review stays
  there, a repeated status changes nothing, a terminal outcome is never replaced by another
  one (a contradiction goes to review), and an open record takes the first terminal outcome
  it hears of. \<open>step current incoming\<close> is the status after one event.
\<close>

locale review_machine =
  fixes step :: "'s \<Rightarrow> 's \<Rightarrow> 's"
    and terminal :: "'s \<Rightarrow> bool"
    and review :: 's
  assumes review_absorbs: "step review i = review"
    and repeat_ignored: "step s s = s"
    and terminal_kept: "terminal s \<Longrightarrow> step s i = s \<or> step s i = review"
    and contradiction_reviewed: "terminal s \<Longrightarrow> terminal i \<Longrightarrow> i \<noteq> s \<Longrightarrow> step s i = review"
    and stale_ignored: "terminal s \<Longrightarrow> \<not> terminal i \<Longrightarrow> i \<noteq> review \<Longrightarrow> step s i = s"
    and open_takes_terminal: "\<not> terminal s \<Longrightarrow> s \<noteq> review \<Longrightarrow> terminal i \<Longrightarrow> step s i = i"
    and open_stays_open:
      "\<not> terminal s \<Longrightarrow> s \<noteq> review \<Longrightarrow> \<not> terminal i \<Longrightarrow> i \<noteq> review \<Longrightarrow>
         \<not> terminal (step s i) \<and> step s i \<noteq> review"
    and open_choice: "\<not> terminal s \<Longrightarrow> step s i = s \<or> step s i = i"
    and review_not_terminal: "\<not> terminal review"
begin

text \<open>A delivery sequence is folded over the machine.\<close>

lemma run_review [simp]: "foldl step review evs = review"
  by (induction evs) (simp_all add: review_absorbs)

lemma step_idempotent: "step (step s i) i = step s i"
  by (metis contradiction_reviewed open_choice repeat_ignored review_absorbs terminal_kept)

lemma run_duplicate: "foldl step s (pre @ i # i # post) = foldl step s (pre @ i # post)"
  by (simp add: step_idempotent)

lemma run_terminal: "terminal s \<Longrightarrow> foldl step s evs = s \<or> foldl step s evs = review"
proof (induction evs)
  case (Cons i evs)
  from terminal_kept [OF Cons.prems] consider "step s i = s" | "step s i = review" by blast
  then show ?case by cases (simp_all add: Cons)
qed simp

lemma run_same_terminal:
  "terminal s \<Longrightarrow> review \<notin> set evs \<Longrightarrow> (\<forall>i\<in>set evs. terminal i \<longrightarrow> i = s) \<Longrightarrow> foldl step s evs = s"
proof (induction evs)
  case (Cons i evs)
  then have "step s i = s"
    by (cases "terminal i") (auto simp: repeat_ignored intro: stale_ignored)
  with Cons show ?case by auto
qed simp

lemma run_contradiction:
  "terminal s \<Longrightarrow> i \<in> set evs \<Longrightarrow> terminal i \<Longrightarrow> i \<noteq> s \<Longrightarrow> foldl step s evs = review"
proof (induction evs)
  case (Cons j evs)
  show ?case
  proof (cases "j = i")
    case True
    with Cons.prems show ?thesis by (simp add: contradiction_reviewed)
  next
    case False
    from terminal_kept [OF Cons.prems(1)] consider "step s j = s" | "step s j = review" by blast
    then show ?thesis using False Cons by cases simp_all
  qed
qed simp

lemma run_no_terminal:
  assumes "\<not> terminal s" "s \<noteq> review" "review \<notin> set evs" "\<forall>i\<in>set evs. \<not> terminal i"
  shows "\<not> terminal (foldl step s evs) \<and> foldl step s evs \<noteq> review"
  using assms
proof (induction evs arbitrary: s)
  case (Cons i evs)
  then have "\<not> terminal (step s i) \<and> step s i \<noteq> review"
    by (intro open_stays_open) auto
  with Cons.IH [of "step s i"] Cons.prems show ?case by simp
qed simp

lemma run_one_outcome:
  assumes "\<not> terminal s" "s \<noteq> review" "review \<notin> set evs"
    and "t \<in> set evs" "terminal t" "\<forall>i\<in>set evs. terminal i \<longrightarrow> i = t"
  shows "foldl step s evs = t"
  using assms
proof (induction evs arbitrary: s)
  case (Cons i evs)
  show ?case
  proof (cases "terminal i")
    case True
    then have "i = t" using Cons.prems(6) by simp
    moreover have "step s i = i" using Cons.prems(1,2) True by (rule open_takes_terminal)
    moreover have "foldl step t evs = t"
      by (rule run_same_terminal) (use Cons.prems in simp_all)
    ultimately show ?thesis by simp
  next
    case False
    have "i \<noteq> review" using Cons.prems(3) by auto
    note stays = open_stays_open [OF Cons.prems(1,2) False this]
    have "i \<noteq> t" using False Cons.prems by blast+
    then have mem: "t \<in> set evs" using Cons.prems(4) by simp
    have rest: "review \<notin> set evs" using Cons.prems(3) by simp
    have only: "\<forall>j\<in>set evs. terminal j \<longrightarrow> j = t"
      using Cons.prems(6) [rule_format] by (intro ballI impI) (meson list.set_intros(2))
    from Cons.IH [OF stays [THEN conjunct1] stays [THEN conjunct2] rest mem Cons.prems(5) only]
    have "foldl step (step s i) evs = t" .
    then show ?thesis by simp
  qed
qed simp

lemma run_two_outcomes:
  assumes "\<not> terminal s" "s \<noteq> review" "review \<notin> set evs"
    and "t \<in> set evs" "terminal t" "u \<in> set evs" "terminal u" "t \<noteq> u"
  shows "foldl step s evs = review"
  using assms
proof (induction evs arbitrary: s)
  case (Cons i evs)
  show ?case
  proof (cases "terminal i")
    case True
    then have i: "step s i = i" using Cons.prems open_takes_terminal by auto
    show ?thesis
    proof (cases "i = t")
      case True
      then show ?thesis using i Cons.prems run_contradiction [of t u evs] by simp
    next
      case False
      then show ?thesis using i \<open>terminal i\<close> Cons.prems run_contradiction [of i t evs] by simp
    qed
  next
    case False
    have "i \<noteq> review" using Cons.prems(3) by auto
    note stays = open_stays_open [OF Cons.prems(1,2) False this]
    have "i \<noteq> t" "i \<noteq> u" using False Cons.prems by blast+
    then show ?thesis
      using stays Cons.prems by (simp add: Cons.IH)
  qed
qed simp

text \<open>
  The outcome of a delivery depends on the set of terminal outcomes reported, not on the
  order of the events nor on how often each came.
\<close>

theorem run_order_free:
  assumes "\<not> terminal s" "s \<noteq> review" "review \<notin> set evs" "set evs' = set evs"
    and "\<exists>i\<in>set evs. terminal i"
  shows "foldl step s evs' = foldl step s evs"
proof -
  have nr: "review \<notin> set evs'" using assms by simp
  from assms(5) obtain t where t: "t \<in> set evs" "terminal t" by blast
  show ?thesis
  proof (cases "\<forall>i\<in>set evs. terminal i \<longrightarrow> i = t")
    case True
    then have "foldl step s evs = t" "foldl step s evs' = t"
      using run_one_outcome [OF assms(1-3), of t] run_one_outcome [OF assms(1,2) nr, of t] t assms(4) by blast+
    then show ?thesis by simp
  next
    case False
    then obtain u where "u \<in> set evs" "terminal u" "t \<noteq> u" by blast
    then have "foldl step s evs = review" "foldl step s evs' = review"
      using run_two_outcomes [OF assms(1-3), of t u] run_two_outcomes [OF assms(1,2) nr, of t u] t assms(4) by blast+
    then show ?thesis by simp
  qed
qed

lemma first_terminal_wins:
  assumes "terminal (foldl step s pre)"
  shows "foldl step s (pre @ post) = foldl step s pre \<or> foldl step s (pre @ post) = review"
  using run_terminal [OF assms] by simp

end

end
