(* ===== verification/Refund_Rules.thy ===== *)
theory Refund_Rules
  imports Review_Machine
begin

text \<open>
  The pure refund rules of src/features/refunds: what a refund may be worth
  (calculation.ts), what a provider event does to a refund (lifecycle.ts), who may ask for
  one and what it does to a ticket (authorization.ts).
\<close>

section \<open>Refund amounts\<close>

record RefundableSeatSnapshot =
  snap_bookingSeatId :: ident
  snap_priceMinor :: minor
  snap_currency :: Currency
  snap_alreadyRefunded :: bool

record RefundCapacity =
  cap_capturedMinor :: minor
  cap_refundedMinor :: minor
  cap_inFlightMinor :: minor
  cap_currency :: Currency

definition remainingRefundableMinor :: "RefundCapacity \<Rightarrow> minor" where
  "remainingRefundableMinor capacity =
     max 0 (cap_capturedMinor capacity - cap_refundedMinor capacity - cap_inFlightMinor capacity)"

datatype RefundRejectionReason =
    NOTHING_REFUNDABLE | SEAT_NOT_IN_BOOKING | SEAT_ALREADY_REFUNDED | NO_SEATS_SELECTED
  | MIXED_CURRENCY | EXCEEDS_REMAINING | AMOUNT_NOT_POSITIVE

record RefundQuote =
  quote_scope :: RefundScope
  quote_amountMinor :: minor
  quote_currency :: Currency
  quote_bookingSeatIds :: "ident list"

text \<open>\<open>{ outcome: "REJECTED", reason }\<close> is \<open>Inl reason\<close>, \<open>{ outcome: "ELIGIBLE", ... }\<close> is \<open>Inr\<close>.\<close>

type_synonym RefundCalculationResult = "RefundRejectionReason + RefundQuote"

definition calculateFullBookingRefund ::
  "RefundableSeatSnapshot list \<Rightarrow> RefundCapacity \<Rightarrow> RefundCalculationResult" where
  "calculateFullBookingRefund seats capacity =
     (let remaining = remainingRefundableMinor capacity;
          openSeats = filter (\<lambda>seat. \<not> snap_alreadyRefunded seat) seats;
          seatTotal = sum_list (map snap_priceMinor openSeats);
          amountMinor = min seatTotal remaining
      in if remaining \<le> 0 then Inl NOTHING_REFUNDABLE
         else if openSeats = [] then Inl NOTHING_REFUNDABLE
         else if list_ex (\<lambda>seat. snap_currency seat \<noteq> cap_currency capacity) openSeats
         then Inl MIXED_CURRENCY
         else if amountMinor \<le> 0 then Inl AMOUNT_NOT_POSITIVE
         else Inr \<lparr>quote_scope = (if amountMinor = seatTotal then FULL_BOOKING else SELECTED_SEATS),
                   quote_amountMinor = amountMinor,
                   quote_currency = cap_currency capacity,
                   quote_bookingSeatIds = map snap_bookingSeatId openSeats\<rparr>)"

text \<open>The loop that resolves the requested ids against the snapshots.\<close>

fun select_refund_seats ::
  "(ident \<times> RefundableSeatSnapshot) list \<Rightarrow> ident list \<Rightarrow>
     RefundRejectionReason + RefundableSeatSnapshot list" where
  "select_refund_seats byId [] = Inr []"
| "select_refund_seats byId (seatId # ids) =
     (case js_map_get byId seatId of
        None \<Rightarrow> Inl SEAT_NOT_IN_BOOKING
      | Some seat \<Rightarrow>
          if snap_alreadyRefunded seat then Inl SEAT_ALREADY_REFUNDED
          else and_then (select_refund_seats byId ids) (\<lambda>rest. Inr (seat # rest)))"

definition calculateSeatRefund ::
  "RefundableSeatSnapshot list \<Rightarrow> ident list \<Rightarrow> RefundCapacity \<Rightarrow> RefundCalculationResult" where
  "calculateSeatRefund seats requestedBookingSeatIds capacity =
     (let requested = js_unique requestedBookingSeatIds;
          byId = map (\<lambda>seat. (snap_bookingSeatId seat, seat)) seats
      in if requested = [] then Inl NO_SEATS_SELECTED
         else and_then (select_refund_seats byId requested) (\<lambda>selected.
           if list_ex (\<lambda>seat. snap_currency seat \<noteq> cap_currency capacity) selected
           then Inl MIXED_CURRENCY
           else
             let amountMinor = sum_list (map snap_priceMinor selected)
             in if amountMinor \<le> 0 then Inl AMOUNT_NOT_POSITIVE
                else if remainingRefundableMinor capacity < amountMinor then Inl EXCEEDS_REMAINING
                else Inr \<lparr>quote_scope = SELECTED_SEATS, quote_amountMinor = amountMinor,
                          quote_currency = cap_currency capacity,
                          quote_bookingSeatIds = map snap_bookingSeatId selected\<rparr>))"

definition calculateFixedRefund :: "js_number \<Rightarrow> RefundCapacity \<Rightarrow> RefundCalculationResult" where
  "calculateFixedRefund approvedAmountMinor capacity =
     (case approvedAmountMinor of
        NonIntegral \<Rightarrow> Inl AMOUNT_NOT_POSITIVE
      | Integral amount \<Rightarrow>
          if \<not> js_safe_integer amount \<or> amount \<le> 0 then Inl AMOUNT_NOT_POSITIVE
          else if remainingRefundableMinor capacity < amount then Inl EXCEEDS_REMAINING
          else Inr \<lparr>quote_scope = FIXED_AMOUNT, quote_amountMinor = amount,
                    quote_currency = cap_currency capacity, quote_bookingSeatIds = []\<rparr>)"

definition isFullyRefunded :: "minor \<Rightarrow> minor \<Rightarrow> bool" where
  "isFullyRefunded capturedMinor refundedMinor \<longleftrightarrow> capturedMinor \<le> refundedMinor"

definition open_seats :: "RefundableSeatSnapshot list \<Rightarrow> RefundableSeatSnapshot list" where
  "open_seats seats = filter (\<lambda>seat. \<not> snap_alreadyRefunded seat) seats"

definition seats_total :: "RefundableSeatSnapshot list \<Rightarrow> minor" where
  "seats_total seats = sum_list (map snap_priceMinor seats)"

lemma not_list_ex: "list_ex (\<lambda>x. f x \<noteq> c) xs \<longleftrightarrow> \<not> list_all (\<lambda>x. f x = c) xs"
  by (simp add: list_ex_iff list_all_iff)

lemma full_refund_Inr:
  "calculateFullBookingRefund seats capacity = Inr q \<longleftrightarrow>
     0 < remainingRefundableMinor capacity \<and> open_seats seats \<noteq> []
     \<and> list_all (\<lambda>s. snap_currency s = cap_currency capacity) (open_seats seats)
     \<and> 0 < seats_total (open_seats seats)
     \<and> \<lparr>quote_scope = (if seats_total (open_seats seats) \<le> remainingRefundableMinor capacity
                           then FULL_BOOKING else SELECTED_SEATS),
            quote_amountMinor = min (seats_total (open_seats seats)) (remainingRefundableMinor capacity),
            quote_currency = cap_currency capacity,
            quote_bookingSeatIds = map snap_bookingSeatId (open_seats seats)\<rparr> = q"
proof (cases "0 < remainingRefundableMinor capacity \<and> open_seats seats \<noteq> []
    \<and> list_all (\<lambda>s. snap_currency s = cap_currency capacity) (open_seats seats)
    \<and> 0 < seats_total (open_seats seats)")
  case True
  then show ?thesis
    unfolding calculateFullBookingRefund_def Let_def open_seats_def [symmetric] seats_total_def [symmetric]
    by (simp add: not_list_ex min_def)
next
  case False
  then show ?thesis
    unfolding calculateFullBookingRefund_def Let_def open_seats_def [symmetric] seats_total_def [symmetric]
    by (simp add: not_list_ex min_le_iff_disj not_less; blast)
qed

lemma select_refund_seats_Inr:
  "select_refund_seats byId ids = Inr sel \<longleftrightarrow>
     map (js_map_get byId) ids = map Some sel \<and> list_all (\<lambda>s. \<not> snap_alreadyRefunded s) sel"
proof (induction ids arbitrary: sel)
  case (Cons i ids)
  show ?case
    by (cases "js_map_get byId i"; cases sel) (auto simp: and_then_eq_Inr Cons.IH)
qed auto

lemma seat_refund_Inr:
  "calculateSeatRefund seats ids capacity = Inr q \<longleftrightarrow>
     ids \<noteq> [] \<and>
     (\<exists>selected. select_refund_seats (map (\<lambda>s. (snap_bookingSeatId s, s)) seats) (js_unique ids) = Inr selected
        \<and> list_all (\<lambda>s. snap_currency s = cap_currency capacity) selected
        \<and> 0 < seats_total selected \<and> seats_total selected \<le> remainingRefundableMinor capacity
        \<and> \<lparr>quote_scope = SELECTED_SEATS, quote_amountMinor = seats_total selected,
               quote_currency = cap_currency capacity,
               quote_bookingSeatIds = map snap_bookingSeatId selected\<rparr> = q)"
  unfolding calculateSeatRefund_def Let_def seats_total_def [symmetric]
  by (cases "select_refund_seats (map (\<lambda>s. (snap_bookingSeatId s, s)) seats) (js_unique ids)")
    (simp_all add: not_list_ex not_less)

lemma select_refund_seats_keyed:
  assumes "select_refund_seats (map (\<lambda>s. (snap_bookingSeatId s, s)) seats) ids = Inr sel"
  shows "map snap_bookingSeatId sel = ids" "set sel \<subseteq> set seats"
    "list_all (\<lambda>s. \<not> snap_alreadyRefunded s) sel"
proof -
  let ?es = "map (\<lambda>s. (snap_bookingSeatId s, s)) seats"
  have m: "map (js_map_get ?es) ids = map Some sel"
    and "list_all (\<lambda>s. \<not> snap_alreadyRefunded s) sel"
    using assms by (auto simp: select_refund_seats_Inr)
  then show "list_all (\<lambda>s. \<not> snap_alreadyRefunded s) sel" by simp
  have len: "length ids = length sel" using m by (metis length_map)
  have nth: "snap_bookingSeatId (sel ! i) = ids ! i \<and> sel ! i \<in> set seats" if "i < length sel" for i
  proof -
    have "js_map_get ?es (ids ! i) = Some (sel ! i)"
      using arg_cong [OF m, of "\<lambda>l. l ! i"] that len by simp
    then show ?thesis by (auto dest!: js_map_get_SomeD)
  qed
  show "map snap_bookingSeatId sel = ids"
    using nth len by (auto intro: nth_equalityI)
  show "set sel \<subseteq> set seats"
    using nth by (auto simp: in_set_conv_nth)
qed

lemma fixed_refund_Inr:
  "calculateFixedRefund a capacity = Inr q \<longleftrightarrow>
     (\<exists>n. a = Integral n \<and> js_safe_integer n \<and> 0 < n \<and> n \<le> remainingRefundableMinor capacity \<and>
        q = \<lparr>quote_scope = FIXED_AMOUNT, quote_amountMinor = n,
             quote_currency = cap_currency capacity, quote_bookingSeatIds = []\<rparr>)"
  by (cases a) (auto simp: calculateFixedRefund_def)

text \<open>C26: A quote of any of the three kinds is positive, is in the currency of the payment, and fits in
  what refunds and refunds in flight leave of the capture.\<close>

lemma quote_within_capacity:
  assumes "calculateFullBookingRefund seats capacity = Inr q \<or>
      calculateSeatRefund seats ids capacity = Inr q \<or> calculateFixedRefund a capacity = Inr q"
  shows "0 < quote_amountMinor q
    \<and> quote_amountMinor q + cap_refundedMinor capacity + cap_inFlightMinor capacity \<le> cap_capturedMinor capacity
    \<and> quote_currency q = cap_currency capacity"
proof -
  have "0 < quote_amountMinor q \<and> quote_amountMinor q \<le> remainingRefundableMinor capacity
      \<and> quote_currency q = cap_currency capacity"
    using assms by (auto simp: full_refund_Inr seat_refund_Inr fixed_refund_Inr)
  then show ?thesis by (auto simp: remainingRefundableMinor_def)
qed

lemma quote_within_capacity_witness:
  "0 < quote_amountMinor \<lparr>quote_scope = FIXED_AMOUNT, quote_amountMinor = 300, quote_currency = USD, quote_bookingSeatIds = []\<rparr>
    \<and> 300 + 600 + 100 \<le> (1000::int) \<and> USD = USD"
proof -
  let ?c = "\<lparr>cap_capturedMinor = 1000, cap_refundedMinor = 600, cap_inFlightMinor = 100, cap_currency = USD\<rparr>"
  have "calculateFixedRefund (Integral 300) ?c
      = Inr \<lparr>quote_scope = FIXED_AMOUNT, quote_amountMinor = 300, quote_currency = USD, quote_bookingSeatIds = []\<rparr>"
    by code_simp
  from quote_within_capacity [OF disjI2 [OF disjI2 [OF this]]] show ?thesis by simp
qed

section \<open>Lifecycle\<close>

definition REFUND_TERMINAL_STATUSES :: "RefundStatus list" where
  "REFUND_TERMINAL_STATUSES = [RefundStatus.SUCCEEDED, RefundStatus.FAILED, RefundStatus.CANCELLED]"

definition REFUND_IN_FLIGHT_STATUSES :: "RefundStatus list" where
  "REFUND_IN_FLIGHT_STATUSES =
     [RefundStatus.REQUESTED, RefundStatus.SUBMITTING, RefundStatus.PROCESSING, RefundStatus.REQUIRES_REVIEW]"

definition isTerminalRefundStatus :: "RefundStatus \<Rightarrow> bool" where
  "isTerminalRefundStatus status = List.member REFUND_TERMINAL_STATUSES status"

definition isInFlightRefundStatus :: "RefundStatus \<Rightarrow> bool" where
  "isInFlightRefundStatus status = List.member REFUND_IN_FLIGHT_STATUSES status"

definition isContradictoryRefundOutcome :: "RefundStatus \<Rightarrow> RefundStatus \<Rightarrow> bool" where
  "isContradictoryRefundOutcome current incoming =
     (if \<not> isTerminalRefundStatus current \<or> \<not> isTerminalRefundStatus incoming then False
      else current \<noteq> incoming)"

datatype RefundTransitionDecision = APPLY RefundStatus | IGNORE string | REVIEW string

definition decideRefundTransition :: "RefundStatus \<Rightarrow> RefundStatus \<Rightarrow> RefundTransitionDecision" where
  "decideRefundTransition current incoming =
     (if current = RefundStatus.REQUIRES_REVIEW then IGNORE ''ALREADY_UNDER_REVIEW''
      else if current = incoming then IGNORE ''DUPLICATE_STATUS''
      else if isContradictoryRefundOutcome current incoming then REVIEW ''CONTRADICTORY_REFUND_OUTCOME''
      else if isTerminalRefundStatus current then IGNORE ''STALE_EVENT_AFTER_TERMINAL''
      else if incoming = RefundStatus.REQUIRES_REVIEW then REVIEW ''PROVIDER_REQUESTED_REVIEW''
      else if incoming = RefundStatus.REQUESTED then IGNORE ''NON_ADVANCING_STATUS''
      else APPLY incoming)"

definition isStaleProviderEvent :: "time option \<Rightarrow> time option \<Rightarrow> bool" where
  "isStaleProviderEvent lastAppliedAt incomingOccurredAt =
     (case (lastAppliedAt, incomingOccurredAt) of
        (Some applied, Some occurred) \<Rightarrow> occurred < applied
      | _ \<Rightarrow> False)"

lemma terminal_refund_iff [simp]:
  "isTerminalRefundStatus s \<longleftrightarrow> s \<in> {RefundStatus.SUCCEEDED, RefundStatus.FAILED, RefundStatus.CANCELLED}"
  by (simp add: isTerminalRefundStatus_def REFUND_TERMINAL_STATUSES_def)

lemma in_flight_refund_iff [simp]:
  "isInFlightRefundStatus s \<longleftrightarrow>
     s \<in> {RefundStatus.REQUESTED, RefundStatus.SUBMITTING, RefundStatus.PROCESSING, RefundStatus.REQUIRES_REVIEW}"
  by (simp add: isInFlightRefundStatus_def REFUND_IN_FLIGHT_STATUSES_def)

lemmas refund_decision_defs = decideRefundTransition_def isContradictoryRefundOutcome_def

declare refund_decision_defs [decision_defs]

text \<open>Every status reserves money or has settled, and never both.\<close>

lemma refund_status_partition: "isInFlightRefundStatus s \<longleftrightarrow> \<not> isTerminalRefundStatus s"
  by (cases s) simp_all

text \<open>The status a refund has after one provider event.\<close>

definition refund_step :: "RefundStatus \<Rightarrow> RefundStatus \<Rightarrow> RefundStatus" where
  "refund_step current incoming =
     (case decideRefundTransition current incoming of
        APPLY status \<Rightarrow> status
      | IGNORE _ \<Rightarrow> current
      | REVIEW _ \<Rightarrow> RefundStatus.REQUIRES_REVIEW)"

interpretation refund_machine: review_machine refund_step isTerminalRefundStatus RefundStatus.REQUIRES_REVIEW
proof unfold_locales
qed (auto simp: refund_step_def decision_defs)

lemma refund_apply_iff:
  "decideRefundTransition current incoming = APPLY status \<longleftrightarrow>
     status = incoming \<and> \<not> isTerminalRefundStatus current \<and> current \<noteq> RefundStatus.REQUIRES_REVIEW
     \<and> incoming \<notin> {current, RefundStatus.REQUIRES_REVIEW, RefundStatus.REQUESTED}"
  by (auto simp: decision_defs)

section \<open>Authorization\<close>

datatype RefundEligibilityReason =
    BOOKING_NOT_CONFIRMED | PAYMENT_NOT_CAPTURED | ORDER_NOT_FULFILLED
  | NOTHING_REFUNDABLE_NOW | ALREADY_FULLY_REFUNDED | SESSION_ALREADY_COMPLETED
  | UNDER_FINANCIAL_REVIEW

text \<open>\<open>None\<close> is \<open>{ eligible: true }\<close>, \<open>Some reason\<close> is \<open>{ eligible: false, reason }\<close>.\<close>

definition evaluateRefundEligibility ::
  "BookingStatus \<Rightarrow> CheckoutOrderStatus \<Rightarrow> PaymentAttemptStatus \<Rightarrow> EventSessionStatus \<Rightarrow> minor \<Rightarrow> bool
     \<Rightarrow> RefundEligibilityReason option" where
  "evaluateRefundEligibility bookingStatus orderStatus paymentStatus sessionStatus remaining underFinancialReview =
     (if paymentStatus \<noteq> PaymentAttemptStatus.SUCCEEDED then Some PAYMENT_NOT_CAPTURED
      else if bookingStatus = BookingStatus.REFUNDED then Some ALREADY_FULLY_REFUNDED
      else if bookingStatus \<noteq> BookingStatus.CONFIRMED then Some BOOKING_NOT_CONFIRMED
      else if \<not> List.member [CheckoutOrderStatus.FULFILLED, CheckoutOrderStatus.PAID,
                            CheckoutOrderStatus.PAID_UNFULFILLED] orderStatus
      then Some ORDER_NOT_FULFILLED
      else if underFinancialReview then Some UNDER_FINANCIAL_REVIEW
      else if remaining \<le> 0 then Some NOTHING_REFUNDABLE_NOW
      else None)"

datatype RefundActorRole = CUSTOMER | ORGANIZER | PLATFORM_ADMIN

datatype RefundAuthorizationDenial =
    NOT_BOOKING_OWNER | NOT_IN_ORGANIZATION | ORGANIZER_CANNOT_INITIATE_PROVIDER_REFUND | UNKNOWN_ROLE

text \<open>\<open>Inr (initiator, requiresApproval)\<close> when allowed.\<close>

definition authorizeRefundRequest ::
  "RefundActorRole \<Rightarrow> ident \<Rightarrow> ident \<Rightarrow> ident \<Rightarrow> ident list \<Rightarrow> bool
     \<Rightarrow> RefundAuthorizationDenial + RefundInitiator \<times> bool" where
  "authorizeRefundRequest role actorUserId bookingOwnerUserId bookingOrganizationId
       actorOrganizationIds isPlatformAdmin =
     (case role of
        RefundActorRole.CUSTOMER \<Rightarrow>
          if actorUserId \<noteq> bookingOwnerUserId then Inl NOT_BOOKING_OWNER
          else Inr (RefundInitiator.CUSTOMER, True)
      | RefundActorRole.ORGANIZER \<Rightarrow>
          if \<not> List.member actorOrganizationIds bookingOrganizationId then Inl NOT_IN_ORGANIZATION
          else Inl ORGANIZER_CANNOT_INITIATE_PROVIDER_REFUND
      | RefundActorRole.PLATFORM_ADMIN \<Rightarrow>
          if \<not> isPlatformAdmin then Inl UNKNOWN_ROLE
          else Inr (RefundInitiator.PLATFORM_ADMIN, False))"

definition canReadOrganizationFinancials :: "bool \<Rightarrow> ident list \<Rightarrow> ident \<Rightarrow> bool" where
  "canReadOrganizationFinancials isPlatformAdmin actorOrganizationIds resourceOrganizationId =
     (isPlatformAdmin \<or> List.member actorOrganizationIds resourceOrganizationId)"

datatype RefundTicketConsequence = REVOKE_TICKET string | KEEP_TICKET string

definition decideRefundTicketConsequence :: "TicketStatus \<Rightarrow> bool \<Rightarrow> RefundTicketConsequence" where
  "decideRefundTicketConsequence ticketStatus seatWasRefunded =
     (if \<not> seatWasRefunded then KEEP_TICKET ''SEAT_NOT_REFUNDED''
      else if ticketStatus = TicketStatus.USED then KEEP_TICKET ''USED_TICKETS_REMAIN_HISTORICALLY_USED''
      else if ticketStatus = TicketStatus.REVOKED then KEEP_TICKET ''ALREADY_REVOKED''
      else REVOKE_TICKET ''REFUNDED'')"

lemma refund_eligible_iff:
  "evaluateRefundEligibility bookingStatus orderStatus paymentStatus sessionStatus remaining review = None \<longleftrightarrow>
     paymentStatus = PaymentAttemptStatus.SUCCEEDED \<and> bookingStatus = BookingStatus.CONFIRMED
     \<and> orderStatus \<in> {CheckoutOrderStatus.FULFILLED, CheckoutOrderStatus.PAID, CheckoutOrderStatus.PAID_UNFULFILLED}
     \<and> \<not> review \<and> 0 < remaining"
  by (cases bookingStatus) (auto simp: evaluateRefundEligibility_def)

lemma authorized_iff:
  "(\<exists>grant. authorizeRefundRequest role actor bookingOwner org orgs admin = Inr grant) \<longleftrightarrow>
     role = RefundActorRole.CUSTOMER \<and> actor = bookingOwner \<or> role = RefundActorRole.PLATFORM_ADMIN \<and> admin"
  by (cases role) (auto simp: authorizeRefundRequest_def)

end
