(* ===== verification/Refund_Constraints.thy ===== *)
theory Refund_Constraints
  imports Constraints Refund_Rules
begin

text \<open>
  What PostgreSQL enforces on refunds, their seats and attempts and on refunded bookings
  (prisma/migrations/20260719120000_phase_5c2a_refunds_disputes_ledger): the CHECKs, the
  freezing triggers, the trigger that recomputes the refund aggregates of the payment attempt
  under its CHECK, the seat snapshot trigger, and the unique indexes. Formats of values that
  the code itself generates (references, idempotency keys) and foreign keys are left out.
\<close>

section \<open>One refund row\<close>

definition refund_lifecycle :: "Refund \<Rightarrow> bool" where
  "refund_lifecycle r \<longleftrightarrow>
     (let submitted = ref_submittedAt r \<noteq> None; succeeded = ref_succeededAt r \<noteq> None;
          failed = ref_failedAt r \<noteq> None; cancelled = ref_cancelledAt r \<noteq> None;
          review = ref_reviewRequiredAt r \<noteq> None; code = ref_safeFailureCode r \<noteq> None
      in case ref_status r of
           RefundStatus.REQUESTED \<Rightarrow> \<not> submitted \<and> \<not> succeeded \<and> \<not> failed \<and> \<not> cancelled \<and> \<not> review
         | RefundStatus.SUBMITTING \<Rightarrow> submitted \<and> \<not> succeeded \<and> \<not> failed \<and> \<not> cancelled \<and> \<not> review
         | RefundStatus.PROCESSING \<Rightarrow> submitted \<and> \<not> succeeded \<and> \<not> failed \<and> \<not> cancelled \<and> \<not> review
         | RefundStatus.SUCCEEDED \<Rightarrow> succeeded \<and> \<not> failed \<and> \<not> cancelled \<and> \<not> review \<and> \<not> code
         | RefundStatus.FAILED \<Rightarrow> failed \<and> \<not> succeeded \<and> \<not> cancelled \<and> \<not> review \<and> code
         | RefundStatus.CANCELLED \<Rightarrow> cancelled \<and> \<not> succeeded \<and> \<not> failed \<and> \<not> review
         | RefundStatus.REQUIRES_REVIEW \<Rightarrow> review \<and> code)"

definition not_before :: "time \<Rightarrow> time option \<Rightarrow> bool" where
  "not_before t m \<longleftrightarrow> (case m of None \<Rightarrow> True | Some s \<Rightarrow> t \<le> s)"

definition refund_times_ordered :: "Refund \<Rightarrow> bool" where
  "refund_times_ordered r \<longleftrightarrow>
     not_before (ref_requestedAt r) (ref_submittedAt r) \<and> not_before (ref_requestedAt r) (ref_succeededAt r)
     \<and> not_before (ref_requestedAt r) (ref_failedAt r) \<and> not_before (ref_requestedAt r) (ref_cancelledAt r)
     \<and> not_before (ref_requestedAt r) (ref_reviewRequiredAt r)"

definition refund_outcomes_exclusive :: "Refund \<Rightarrow> bool" where
  "refund_outcomes_exclusive r \<longleftrightarrow>
     length (filter (\<lambda>m. m \<noteq> None) [ref_succeededAt r, ref_failedAt r, ref_cancelledAt r]) \<le> 1"

definition failure_code_char :: "char \<Rightarrow> bool" where
  "failure_code_char c \<longleftrightarrow> char_between CHR ''A'' CHR ''Z'' c \<or> char_between CHR ''0'' CHR ''9'' c
     \<or> c = CHR ''_'' \<or> c = CHR '':'' \<or> c = CHR ''-''"

definition failure_code_ok :: "string option \<Rightarrow> bool" where
  "failure_code_ok m \<longleftrightarrow>
     (case m of None \<Rightarrow> True
      | Some s \<Rightarrow> 1 \<le> length s \<and> length s \<le> 80 \<and> list_all failure_code_char s)"

definition provider_id_ok :: "string option \<Rightarrow> bool" where
  "provider_id_ok m \<longleftrightarrow> (case m of None \<Rightarrow> True | Some s \<Rightarrow> 1 \<le> length s \<and> length s \<le> 191)"

definition refund_row_ok :: "Refund \<Rightarrow> bool" where
  "refund_row_ok r \<longleftrightarrow> 0 < ref_requestedAmountMinor r \<and> refund_lifecycle r \<and> refund_times_ordered r
     \<and> refund_outcomes_exclusive r \<and> failure_code_ok (ref_safeFailureCode r)
     \<and> provider_id_ok (ref_providerRefundId r)"

definition set_once :: "'a option \<Rightarrow> 'a option \<Rightarrow> bool" where
  "set_once old new \<longleftrightarrow> old = None \<or> new = old"

text \<open>The trigger \<open>Refund_protect_identity\<close> on the columns the updates write.\<close>

definition refund_update_ok :: "Refund \<Rightarrow> Refund \<Rightarrow> bool" where
  "refund_update_ok old new \<longleftrightarrow>
     set_once (ref_providerRefundId old) (ref_providerRefundId new)
     \<and> set_once (ref_succeededAt old) (ref_succeededAt new)
     \<and> set_once (ref_failedAt old) (ref_failedAt new)
     \<and> set_once (ref_cancelledAt old) (ref_cancelledAt new)
     \<and> set_once (ref_submittedAt old) (ref_submittedAt new)
     \<and> (ref_status old = RefundStatus.REQUIRES_REVIEW \<longrightarrow> ref_status new = ref_status old)
     \<and> (isTerminalRefundStatus (ref_status old) \<longrightarrow>
          ref_status new = ref_status old \<or> ref_status new = RefundStatus.REQUIRES_REVIEW)
     \<and> refund_row_ok new"

section \<open>The aggregates of the payment attempt\<close>

definition refunded_total :: "Refund list \<Rightarrow> ident \<Rightarrow> minor" where
  "refunded_total refunds attemptId =
     sum_list (map ref_requestedAmountMinor
       (filter (\<lambda>r. ref_paymentAttemptId r = attemptId \<and> ref_succeededAt r \<noteq> None) refunds))"

definition in_flight_total :: "Refund list \<Rightarrow> ident \<Rightarrow> minor" where
  "in_flight_total refunds attemptId =
     sum_list (map ref_requestedAmountMinor
       (filter (\<lambda>r. ref_paymentAttemptId r = attemptId \<and> ref_succeededAt r = None
                    \<and> isInFlightRefundStatus (ref_status r)) refunds))"

definition aggregate_ok :: "PaymentAttempt \<Rightarrow> bool" where
  "aggregate_ok a \<longleftrightarrow> 0 \<le> pay_refundedMinor a \<and> 0 \<le> pay_inFlightRefundMinor a
     \<and> pay_refundedMinor a + pay_inFlightRefundMinor a \<le> pay_amountMinor a
     \<and> (pay_refundedMinor a = 0 \<and> pay_inFlightRefundMinor a = 0 \<or> pay_status a = PaymentAttemptStatus.SUCCEEDED)"

definition aggregated :: "Refund list \<Rightarrow> PaymentAttempt \<Rightarrow> PaymentAttempt" where
  "aggregated refunds a =
     a\<lparr>pay_refundedMinor := refunded_total refunds (pay_id a),
       pay_inFlightRefundMinor := in_flight_total refunds (pay_id a)\<rparr>"

definition maintain_payment_aggregate :: "ident \<Rightarrow> database \<Rightarrow> service_error + database" where
  "maintain_payment_aggregate attemptId db =
     (if list_all (\<lambda>a. pay_id a = attemptId \<longrightarrow> aggregate_ok (aggregated (db_refunds db) a)) (db_attempts db)
      then Inr (db\<lparr>db_attempts := update_rows (\<lambda>a. pay_id a = attemptId) (aggregated (db_refunds db)) (db_attempts db)\<rparr>)
      else Inl (ConstraintViolation ''PaymentAttempt_refund_aggregate_check''))"

section \<open>Writing refunds\<close>

definition find_refund :: "database \<Rightarrow> ident \<Rightarrow> Refund option" where
  "find_refund db refundId = find_row (\<lambda>r. ref_id r = refundId) (db_refunds db)"

definition provider_refund_ids :: "Refund list \<Rightarrow> (PaymentProviderName \<times> string) list" where
  "provider_refund_ids refunds =
     List.map_filter (\<lambda>r. map_option (Pair (ref_provider r)) (ref_providerRefundId r)) refunds"

text \<open>An update: the frozen columns, the CHECKs, the unique index, then the aggregate trigger.\<close>

definition update_refund :: "ident \<Rightarrow> (Refund \<Rightarrow> Refund) \<Rightarrow> database \<Rightarrow> service_error + database" where
  "update_refund refundId f db =
     (case find_refund db refundId of
        None \<Rightarrow> Inl RecordNotFound
      | Some r \<Rightarrow>
          if \<not> refund_update_ok r (f r) then Inl (ConstraintViolation ''Refund'')
          else
            let refunds = update_rows (\<lambda>x. ref_id x = refundId) f (db_refunds db)
            in if \<not> distinct (provider_refund_ids refunds) then Inl (UniqueViolation ''providerRefundId'')
               else maintain_payment_aggregate (ref_paymentAttemptId r) (db\<lparr>db_refunds := refunds\<rparr>))"

text \<open>\<open>updateMany\<close> on the key and a condition: no row is no error.\<close>

definition update_refund_if ::
  "ident \<Rightarrow> (Refund \<Rightarrow> bool) \<Rightarrow> (Refund \<Rightarrow> Refund) \<Rightarrow> database \<Rightarrow> service_error + database" where
  "update_refund_if refundId P f db =
     (case find_refund db refundId of
        None \<Rightarrow> Inr db
      | Some r \<Rightarrow> if P r then update_refund refundId f db else Inr db)"

definition find_booking :: "database \<Rightarrow> ident \<Rightarrow> Booking option" where
  "find_booking db bookingId = find_row (\<lambda>b. bk_id b = bookingId) (db_bookings db)"

definition refund_ancestry :: "database \<Rightarrow> Refund \<Rightarrow> bool" where
  "refund_ancestry db r \<longleftrightarrow>
     (case (find_row (\<lambda>a. pay_id a = ref_paymentAttemptId r) (db_attempts db), find_booking db (ref_bookingId r)) of
        (Some a, Some b) \<Rightarrow>
          pay_orderId a = ref_orderId r \<and> bk_orderId b = ref_orderId r
          \<and> pay_status a = PaymentAttemptStatus.SUCCEEDED \<and> pay_currency a = ref_currency r
          \<and> pay_provider a = ref_provider r \<and> ref_requestedAmountMinor r \<le> pay_amountMinor a
      | _ \<Rightarrow> False)"

definition create_refund :: "Refund \<Rightarrow> database \<Rightarrow> service_error + database" where
  "create_refund r db =
     (if \<not> refund_ancestry db r \<or> \<not> refund_row_ok r then Inl (ConstraintViolation ''Refund'')
      else if has_key ref_id (ref_id r) (db_refunds db) then Inl (UniqueViolation ''id'')
      else if has_key ref_publicReference (ref_publicReference r) (db_refunds db) then Inl (UniqueViolation ''publicReference'')
      else if has_key ref_providerIdempotencyKey (ref_providerIdempotencyKey r) (db_refunds db)
      then Inl (UniqueViolation ''providerIdempotencyKey'')
      else maintain_payment_aggregate (ref_paymentAttemptId r) (db\<lparr>db_refunds := insert_row r (db_refunds db)\<rparr>))"

section \<open>Refunded seats\<close>

text \<open>A refund covers its seats when it succeeded or may still succeed.\<close>

definition refund_live :: "Refund \<Rightarrow> bool" where
  "refund_live r \<longleftrightarrow> ref_succeededAt r \<noteq> None \<or> isInFlightRefundStatus (ref_status r)"

definition covered_by :: "database \<Rightarrow> ident \<Rightarrow> RefundSeat \<Rightarrow> bool" where
  "covered_by db bookingSeatId s \<longleftrightarrow> rseat_bookingSeatId s = bookingSeatId
     \<and> (case find_refund db (rseat_refundId s) of None \<Rightarrow> False | Some r \<Rightarrow> refund_live r)"

definition refund_seat_ok :: "database \<Rightarrow> RefundSeat \<Rightarrow> bool" where
  "refund_seat_ok db s \<longleftrightarrow>
     (case (find_refund db (rseat_refundId s),
            find_row (\<lambda>b. bseat_id b = rseat_bookingSeatId s) (db_bookingSeats db)) of
        (Some r, Some b) \<Rightarrow>
          bseat_bookingId b = ref_bookingId r \<and> bseat_priceMinor b = rseat_priceMinor s
          \<and> bseat_currency b = rseat_currency s \<and> ref_currency r = rseat_currency s
          \<and> \<not> list_ex (\<lambda>o'. rseat_refundId o' \<noteq> rseat_refundId s \<and> covered_by db (rseat_bookingSeatId s) o')
                (db_refundSeats db)
      | _ \<Rightarrow> False)"

definition refund_seat_key :: "RefundSeat \<Rightarrow> ident \<times> ident" where
  "refund_seat_key s = (rseat_refundId s, rseat_bookingSeatId s)"

fun create_refund_seats :: "RefundSeat list \<Rightarrow> database \<Rightarrow> service_error + database" where
  "create_refund_seats [] db = Inr db"
| "create_refund_seats (s # ss) db =
     (if \<not> refund_seat_ok db s then Inl (ConstraintViolation ''RefundSeat'')
      else if has_key refund_seat_key (refund_seat_key s) (db_refundSeats db) then Inl (UniqueViolation ''RefundSeat'')
      else create_refund_seats ss (db\<lparr>db_refundSeats := insert_row s (db_refundSeats db)\<rparr>))"

text \<open>The deferred trigger \<open>Refund_verify_seat_total\<close>; the seats of a refund are written once, with it.\<close>

definition seats_of_refund :: "RefundSeat list \<Rightarrow> ident \<Rightarrow> RefundSeat list" where
  "seats_of_refund seats refundId = select_rows (\<lambda>s. rseat_refundId s = refundId) seats"

definition seat_total_ok :: "RefundSeat list \<Rightarrow> Refund \<Rightarrow> bool" where
  "seat_total_ok seats r \<longleftrightarrow>
     (let named = seats_of_refund seats (ref_id r); total = sum_list (map rseat_priceMinor named)
      in case ref_scope r of
           SELECTED_SEATS \<Rightarrow> named \<noteq> [] \<and> total = ref_requestedAmountMinor r
         | FULL_BOOKING \<Rightarrow> named = [] \<or> total = ref_requestedAmountMinor r
         | FIXED_AMOUNT \<Rightarrow> named = [])"

definition verify_seat_total :: "ident \<Rightarrow> database \<Rightarrow> service_error + database" where
  "verify_seat_total refundId db =
     (case find_refund db refundId of
        None \<Rightarrow> Inr db
      | Some r \<Rightarrow> if seat_total_ok (db_refundSeats db) r then Inr db else Inl (ConstraintViolation ''Refund_verify_seat_total''))"

section \<open>Submission attempts\<close>

definition refund_attempt_ok :: "RefundAttempt \<Rightarrow> bool" where
  "refund_attempt_ok a \<longleftrightarrow> 1 \<le> ratt_attemptNumber a \<and> provider_id_ok (ratt_providerRequestReference a)
     \<and> failure_code_ok (ratt_safeFailureCode a)
     \<and> (case ratt_status a of
          STARTED \<Rightarrow> ratt_completedAt a = None
        | RefundAttemptStatus.SUCCEEDED \<Rightarrow> ratt_completedAt a \<noteq> None \<and> ratt_safeFailureCode a = None
        | RefundAttemptStatus.FAILED \<Rightarrow> ratt_completedAt a \<noteq> None \<and> ratt_safeFailureCode a \<noteq> None
        | TIMEOUT \<Rightarrow> ratt_completedAt a \<noteq> None \<and> ratt_safeFailureCode a \<noteq> None)"

definition create_refund_attempt :: "RefundAttempt \<Rightarrow> database \<Rightarrow> service_error + database" where
  "create_refund_attempt a db =
     (if \<not> refund_attempt_ok a then Inl (ConstraintViolation ''RefundAttempt'')
      else if has_key ratt_idempotencyKey (ratt_idempotencyKey a) (db_refundAttempts db)
           \<or> has_key (\<lambda>x. (ratt_refundId x, ratt_attemptNumber x)) (ratt_refundId a, ratt_attemptNumber a) (db_refundAttempts db)
      then Inl (UniqueViolation ''RefundAttempt'')
      else Inr (db\<lparr>db_refundAttempts := insert_row a (db_refundAttempts db)\<rparr>))"

definition update_refund_attempts ::
  "(RefundAttempt \<Rightarrow> bool) \<Rightarrow> (RefundAttempt \<Rightarrow> RefundAttempt) \<Rightarrow> database \<Rightarrow> service_error + database" where
  "update_refund_attempts P f db =
     (if list_all (\<lambda>a. P a \<longrightarrow> refund_attempt_ok (f a)) (db_refundAttempts db)
      then Inr (db\<lparr>db_refundAttempts := update_rows P f (db_refundAttempts db)\<rparr>)
      else Inl (ConstraintViolation ''RefundAttempt''))"

section \<open>Refunded bookings\<close>

definition booking_lifecycle :: "Booking \<Rightarrow> bool" where
  "booking_lifecycle b \<longleftrightarrow>
     (case bk_status b of
        BookingStatus.CONFIRMED \<Rightarrow> bk_refundedAt b = None
      | BookingStatus.REFUNDED \<Rightarrow> (case bk_refundedAt b of None \<Rightarrow> False | Some t \<Rightarrow> bk_confirmedAt b \<le> t))"

definition booking_update_ok :: "Booking \<Rightarrow> Booking \<Rightarrow> bool" where
  "booking_update_ok old new \<longleftrightarrow>
     (bk_status old = BookingStatus.REFUNDED \<longrightarrow> bk_status new = bk_status old)
     \<and> set_once (bk_refundedAt old) (bk_refundedAt new) \<and> booking_lifecycle new"

definition booking_refunded_total :: "Refund list \<Rightarrow> ident \<Rightarrow> minor" where
  "booking_refunded_total refunds bookingId =
     sum_list (map ref_requestedAmountMinor
       (filter (\<lambda>r. ref_bookingId r = bookingId \<and> ref_succeededAt r \<noteq> None) refunds))"

text \<open>\<open>Booking_verify_refund_completion\<close>: the refunds that succeeded must cover the price.\<close>

definition update_booking :: "ident \<Rightarrow> (Booking \<Rightarrow> Booking) \<Rightarrow> database \<Rightarrow> service_error + database" where
  "update_booking bookingId f db =
     and_then (checked_update ''Booking'' (\<lambda>b. bk_id b = bookingId)
       (\<lambda>old new. booking_update_ok old new
          \<and> (bk_status new = BookingStatus.REFUNDED \<longrightarrow> bk_totalMinor new \<le> booking_refunded_total (db_refunds db) bookingId))
       f (db_bookings db))
       (\<lambda>t. Inr (db\<lparr>db_bookings := t\<rparr>))"

end
