(* ===== verification/Authorization.thy ===== *)
theory Authorization
  imports Transactions
begin

text \<open>
  Organization roles (src/server/authorization/organization-membership.ts). The ranks make the
  roles a linear order, MEMBER below ADMIN below OWNER, and a minimum role is a bound in it.
\<close>

fun membershipRoleRank :: "MembershipRole \<Rightarrow> nat" where
  "membershipRoleRank MembershipRole.MEMBER = 1"
| "membershipRoleRank MembershipRole.ADMIN = 2"
| "membershipRoleRank MembershipRole.OWNER = 3"

lemma membershipRoleRank_inj [simp]: "membershipRoleRank a = membershipRoleRank b \<longleftrightarrow> a = b"
  by (cases a; cases b) simp_all

instantiation MembershipRole :: linorder
begin

definition less_eq_MembershipRole :: "MembershipRole \<Rightarrow> MembershipRole \<Rightarrow> bool" where
  "less_eq_MembershipRole a b \<longleftrightarrow> membershipRoleRank a \<le> membershipRoleRank b"

definition less_MembershipRole :: "MembershipRole \<Rightarrow> MembershipRole \<Rightarrow> bool" where
  "less_MembershipRole a b \<longleftrightarrow> membershipRoleRank a < membershipRoleRank b"

instance
  by standard (auto simp: less_eq_MembershipRole_def less_MembershipRole_def)

end

definition hasMinimumMembershipRole :: "MembershipRole \<Rightarrow> MembershipRole \<Rightarrow> bool" where
  "hasMinimumMembershipRole actual minimum \<longleftrightarrow> minimum \<le> actual"

lemma minimum_admin_iff: "hasMinimumMembershipRole r MembershipRole.ADMIN \<longleftrightarrow> r \<noteq> MembershipRole.MEMBER"
  by (cases r) (simp_all add: hasMinimumMembershipRole_def less_eq_MembershipRole_def)

lemma minimum_owner_iff: "hasMinimumMembershipRole r MembershipRole.OWNER \<longleftrightarrow> r = MembershipRole.OWNER"
  by (cases r) (simp_all add: hasMinimumMembershipRole_def less_eq_MembershipRole_def)

definition find_membership :: "database \<Rightarrow> ident \<Rightarrow> ident \<Rightarrow> Membership option" where
  "find_membership db userId organizationId =
     find_row (\<lambda>m. mem_userId m = userId \<and> mem_organizationId m = organizationId) (db_memberships db)"

definition find_user :: "database \<Rightarrow> ident \<Rightarrow> User option" where
  "find_user db userId = find_row (\<lambda>u. usr_id u = userId) (db_users db)"

definition is_platform_admin :: "database \<Rightarrow> ident \<Rightarrow> bool" where
  "is_platform_admin db userId \<longleftrightarrow>
     (case find_user db userId of None \<Rightarrow> False | Some u \<Rightarrow> usr_platformRole u = PlatformRole.ADMIN)"

end
