(* ===== verification/Refund_Service.thy ===== *)
theory Refund_Service
  imports Refund_Constraints Ledger Checkout_Service Authorization
begin

text \<open>
  Asking for a refund and sending it to the provider: src/server/refunds/refund-service.ts and
  submission-service.ts. The provider is a function of the request it gets; it answers with a
  refund or throws an error whose message is \<open>Some m\<close> (or that has none). SHA-256 and
  HMAC-SHA256 are parameters.
\<close>

section \<open>Requesting a refund\<close>

definition deriveProviderIdempotencyKey :: "(string \<Rightarrow> string \<Rightarrow> string) \<Rightarrow> ident \<Rightarrow> string \<Rightarrow> string" where
  "deriveProviderIdempotencyKey hmac64 paymentAttemptId requestIdempotencyKey =
     ''refund_'' @ take 40 (hmac64 ''seatflow-refund-idempotency'' (paymentAttemptId @ '':'' @ requestIdempotencyKey))"

record RefundRequestInput =
  rri_bookingReference :: string
  rri_scope :: RefundScope
  rri_bookingSeatIds :: "ident list"
  rri_reasonCode :: RefundReasonCode
  rri_idempotencyKey :: string

record RefundActor =
  act_userId :: ident
  act_role :: RefundActorRole

record CreateRefundResult =
  crr_refundId :: ident
  crr_publicReference :: string
  crr_amountMinor :: minor
  crr_currency :: Currency
  crr_status :: RefundStatus
  crr_replayed :: bool

record refund_draw =
  rd_refundId :: ident
  rd_publicReference :: string

definition booking_of_reference :: "database \<Rightarrow> string \<Rightarrow> Booking option" where
  "booking_of_reference db reference = find_row (\<lambda>b. bk_publicReference b = reference) (db_bookings db)"

definition captured_attempt :: "database \<Rightarrow> ident \<Rightarrow> PaymentAttempt option" where
  "captured_attempt db orderId =
     find_row (\<lambda>a. pay_orderId a = orderId \<and> pay_status a = PaymentAttemptStatus.SUCCEEDED) (db_attempts db)"

definition refund_capacity :: "PaymentAttempt \<Rightarrow> RefundCapacity" where
  "refund_capacity a = \<lparr>cap_capturedMinor = pay_amountMinor a, cap_refundedMinor = pay_refundedMinor a,
                        cap_inFlightMinor = pay_inFlightRefundMinor a, cap_currency = pay_currency a\<rparr>"

text \<open>The booked seats with their price snapshots; a live or completed refund covers a seat.\<close>

definition seat_covered :: "database \<Rightarrow> ident \<Rightarrow> bool" where
  "seat_covered db bookingSeatId \<longleftrightarrow> list_ex (covered_by db bookingSeatId) (db_refundSeats db)"

definition booking_seats :: "database \<Rightarrow> ident \<Rightarrow> BookingSeat list" where
  "booking_seats db bookingId = sort_key bseat_id (select_rows (\<lambda>s. bseat_bookingId s = bookingId) (db_bookingSeats db))"

definition seat_snapshots :: "database \<Rightarrow> ident \<Rightarrow> RefundableSeatSnapshot list" where
  "seat_snapshots db bookingId =
     map (\<lambda>s. \<lparr>snap_bookingSeatId = bseat_id s, snap_priceMinor = bseat_priceMinor s, snap_currency = bseat_currency s,
               snap_alreadyRefunded = seat_covered db (bseat_id s)\<rparr>) (booking_seats db bookingId)"

definition quote_refund ::
  "RefundRequestInput \<Rightarrow> RefundableSeatSnapshot list \<Rightarrow> RefundCapacity \<Rightarrow> RefundCalculationResult" where
  "quote_refund input seats capacity =
     (if rri_scope input = SELECTED_SEATS then calculateSeatRefund seats (rri_bookingSeatIds input) capacity
      else calculateFullBookingRefund seats capacity)"

fun rejection_code :: "RefundRejectionReason \<Rightarrow> string" where
  "rejection_code NOTHING_REFUNDABLE = ''NOTHING_REFUNDABLE''"
| "rejection_code SEAT_NOT_IN_BOOKING = ''SEAT_NOT_IN_BOOKING''"
| "rejection_code SEAT_ALREADY_REFUNDED = ''SEAT_ALREADY_REFUNDED''"
| "rejection_code NO_SEATS_SELECTED = ''NO_SEATS_SELECTED''"
| "rejection_code MIXED_CURRENCY = ''MIXED_CURRENCY''"
| "rejection_code EXCEEDS_REMAINING = ''EXCEEDS_REMAINING''"
| "rejection_code AMOUNT_NOT_POSITIVE = ''AMOUNT_NOT_POSITIVE''"

fun eligibility_code :: "RefundEligibilityReason \<Rightarrow> string" where
  "eligibility_code BOOKING_NOT_CONFIRMED = ''BOOKING_NOT_CONFIRMED''"
| "eligibility_code PAYMENT_NOT_CAPTURED = ''PAYMENT_NOT_CAPTURED''"
| "eligibility_code ORDER_NOT_FULFILLED = ''ORDER_NOT_FULFILLED''"
| "eligibility_code NOTHING_REFUNDABLE_NOW = ''NOTHING_REFUNDABLE_NOW''"
| "eligibility_code ALREADY_FULLY_REFUNDED = ''ALREADY_FULLY_REFUNDED''"
| "eligibility_code SESSION_ALREADY_COMPLETED = ''SESSION_ALREADY_COMPLETED''"
| "eligibility_code UNDER_FINANCIAL_REVIEW = ''UNDER_FINANCIAL_REVIEW''"

fun denial_code :: "RefundAuthorizationDenial \<Rightarrow> string" where
  "denial_code NOT_BOOKING_OWNER = ''REFUND_TARGET_NOT_FOUND''"
| "denial_code NOT_IN_ORGANIZATION = ''NOT_IN_ORGANIZATION''"
| "denial_code ORGANIZER_CANNOT_INITIATE_PROVIDER_REFUND = ''ORGANIZER_CANNOT_INITIATE_PROVIDER_REFUND''"
| "denial_code UNKNOWN_ROLE = ''UNKNOWN_ROLE''"

definition new_refund ::
  "refund_draw \<Rightarrow> RefundActor \<Rightarrow> RefundRequestInput \<Rightarrow> Booking \<Rightarrow> PaymentAttempt \<Rightarrow> RefundInitiator \<Rightarrow> bool
     \<Rightarrow> string \<Rightarrow> RefundQuote \<Rightarrow> time \<Rightarrow> Refund" where
  "new_refund draw actor input b a initiator requiresApproval key quote now =
     \<lparr>ref_id = rd_refundId draw, ref_publicReference = rd_publicReference draw, ref_orderId = bk_orderId b,
      ref_paymentAttemptId = pay_id a, ref_bookingId = bk_id b, ref_requestedByUserId = Some (act_userId actor),
      ref_approvedByUserId = (if requiresApproval then None else Some (act_userId actor)), ref_initiator = initiator,
      ref_status = RefundStatus.REQUESTED, ref_reasonCode = rri_reasonCode input, ref_scope = quote_scope quote,
      ref_requestedAmountMinor = quote_amountMinor quote, ref_currency = quote_currency quote,
      ref_provider = pay_provider a, ref_providerRefundId = None, ref_providerIdempotencyKey = key,
      ref_requestedAt = now, ref_submittedAt = None, ref_succeededAt = None, ref_failedAt = None,
      ref_cancelledAt = None, ref_reviewRequiredAt = None, ref_safeFailureCode = None, ref_version = 0\<rparr>"

text \<open>The seats of the quote at their snapshots; every quoted id names one.\<close>

definition new_refund_seats :: "ident \<Rightarrow> RefundableSeatSnapshot list \<Rightarrow> ident list \<Rightarrow> RefundSeat list" where
  "new_refund_seats refundId seats ids =
     List.map_filter (\<lambda>i. map_option (\<lambda>s. \<lparr>rseat_refundId = refundId, rseat_bookingSeatId = i,
         rseat_priceMinor = snap_priceMinor s, rseat_currency = snap_currency s\<rparr>)
       (js_map_get (map (\<lambda>s. (snap_bookingSeatId s, s)) seats) i)) ids"

definition refund_entry ::
  "LedgerEntryType \<Rightarrow> Refund \<Rightarrow> string \<Rightarrow> string option \<Rightarrow> time \<Rightarrow> AppendLedgerEntryInput" where
  "refund_entry entryType r causeKey providerReference effectiveAt =
     \<lparr>ali_entryType = entryType, ali_amountMinor = ref_requestedAmountMinor r, ali_currency = ref_currency r,
      ali_orderId = ref_orderId r, ali_paymentAttemptId = ref_paymentAttemptId r, ali_bookingId = Some (ref_bookingId r),
      ali_refundId = Some (ref_id r), ali_disputeId = None, ali_provider = ref_provider r, ali_causeKey = causeKey,
      ali_providerReference = providerReference, ali_effectiveAt = effectiveAt\<rparr>"

definition refund_event :: "FinancialOutboxEventType \<Rightarrow> string \<Rightarrow> Refund \<Rightarrow> time \<Rightarrow> FinancialOutbox" where
  "refund_event eventType key r now =
     \<lparr>fin_eventType = eventType, fin_aggregateId = Some (ref_id r), fin_orderId = Some (ref_orderId r),
      fin_refundId = Some (ref_id r), fin_disputeId = None, fin_bookingId = Some (ref_bookingId r),
      fin_deduplicationKey = key, fin_availableAt = now\<rparr>"

definition write_refund ::
  "(string \<Rightarrow> string) \<Rightarrow> Refund \<Rightarrow> RefundSeat list \<Rightarrow> time \<Rightarrow> database \<Rightarrow> service_error + database" where
  "write_refund sha r seats now db =
     and_then (create_refund r db) (\<lambda>db1.
     and_then (create_refund_seats seats db1) (\<lambda>db2.
     and_then (appendLedgerEntry sha (refund_entry LedgerEntryType.REFUND_REQUESTED r (ref_id r) None now) db2) (\<lambda>db3.
     verify_seat_total (ref_id r)
       (enqueueFinancialEvent (refund_event FinancialOutboxEventType.REFUND_REQUESTED (''refund-requested:'' @ ref_id r) r now) db3))))"

definition refund_result :: "Refund \<Rightarrow> bool \<Rightarrow> CreateRefundResult" where
  "refund_result r replayed =
     \<lparr>crr_refundId = ref_id r, crr_publicReference = ref_publicReference r, crr_amountMinor = ref_requestedAmountMinor r,
      crr_currency = ref_currency r, crr_status = ref_status r, crr_replayed = replayed\<rparr>"

text \<open>With the booking authorized and its captured payment locked.\<close>

definition refund_of_payment ::
  "(string \<Rightarrow> string) \<Rightarrow> string \<Rightarrow> refund_draw \<Rightarrow> RefundActor \<Rightarrow> RefundRequestInput \<Rightarrow> Booking \<Rightarrow> CheckoutOrder
     \<Rightarrow> EventSession \<Rightarrow> PaymentAttempt \<Rightarrow> RefundInitiator \<Rightarrow> bool \<Rightarrow> time \<Rightarrow> CreateRefundResult tx" where
  "refund_of_payment sha key draw actor input b o' ses a initiator requiresApproval now db =
     (case find_row (\<lambda>r. ref_providerIdempotencyKey r = key) (db_refunds db) of
        Some existing \<Rightarrow> Inr (db, refund_result existing True)
      | None \<Rightarrow>
          let capacity = refund_capacity a; seats = seat_snapshots db (bk_id b)
          in case evaluateRefundEligibility (bk_status b) (ord_status o') (pay_status a) (ses_status ses)
                    (remainingRefundableMinor capacity) (ord_financialReviewState o' \<noteq> NONE) of
               Some reason \<Rightarrow> Inl (RefundEligibilityError (eligibility_code reason))
             | None \<Rightarrow>
                 (case quote_refund input seats capacity of
                    Inl reason \<Rightarrow> Inl (RefundEligibilityError (rejection_code reason))
                  | Inr quote \<Rightarrow>
                      let r = new_refund draw actor input b a initiator requiresApproval key quote now
                      in and_then (write_refund sha r (new_refund_seats (ref_id r) seats (quote_bookingSeatIds quote)) now db)
                           (\<lambda>db'. Inr (db', refund_result r False))))"

definition request_transaction ::
  "(string \<Rightarrow> string) \<Rightarrow> (string \<Rightarrow> string \<Rightarrow> string) \<Rightarrow> refund_draw \<Rightarrow> RefundActor \<Rightarrow> RefundRequestInput \<Rightarrow> time
     \<Rightarrow> CreateRefundResult tx" where
  "request_transaction sha hmac64 draw actor input now db =
     (case booking_of_reference db (rri_bookingReference input) of
        None \<Rightarrow> Inl (RefundAuthorizationError ''REFUND_TARGET_NOT_FOUND'')
      | Some b \<Rightarrow>
          (case (find_order db (bk_orderId b), find_session db (bk_sessionId b), find_user db (act_userId actor)) of
             (Some o', Some ses, Some u) \<Rightarrow>
               (case authorizeRefundRequest (act_role actor) (act_userId actor) (bk_userId b) (bk_organizationId b)
                       (map mem_organizationId (select_rows (\<lambda>m. mem_userId m = act_userId actor) (db_memberships db)))
                       (usr_platformRole u = PlatformRole.ADMIN) of
                  Inl denial \<Rightarrow> Inl (RefundAuthorizationError (denial_code denial))
                | Inr (initiator, requiresApproval) \<Rightarrow>
                    (case captured_attempt db (bk_orderId b) of
                       None \<Rightarrow> Inl (RefundEligibilityError ''PAYMENT_NOT_CAPTURED'')
                     | Some a \<Rightarrow>
                         refund_of_payment sha (deriveProviderIdempotencyKey hmac64 (pay_id a) (rri_idempotencyKey input))
                           draw actor input b o' ses a initiator requiresApproval now db))
           | _ \<Rightarrow> Inl RecordNotFound))"

definition requestRefund ::
  "(string \<Rightarrow> string) \<Rightarrow> (string \<Rightarrow> string \<Rightarrow> string) \<Rightarrow> refund_draw \<Rightarrow> RefundActor \<Rightarrow> RefundRequestInput \<Rightarrow> time
     \<Rightarrow> database \<Rightarrow> database \<times> (service_error + CreateRefundResult)" where
  "requestRefund sha hmac64 draw actor input now db = transact (request_transaction sha hmac64 draw actor input now) db"

section \<open>What a customer is shown\<close>

record refundability =
  rfb_paidMinor :: minor
  rfb_refundedMinor :: minor
  rfb_inFlightMinor :: minor
  rfb_maximumRefundableMinor :: minor
  rfb_reason :: "string option"
  rfb_seats :: "RefundableSeatSnapshot list"

definition summarizeRefundability :: "database \<Rightarrow> string \<Rightarrow> ident \<Rightarrow> refundability option" where
  "summarizeRefundability db bookingReference actorUserId =
     (case booking_of_reference db bookingReference of
        None \<Rightarrow> None
      | Some b \<Rightarrow>
          if bk_userId b \<noteq> actorUserId then None
          else (case (find_order db (bk_orderId b), find_session db (bk_sessionId b)) of
                  (Some o', Some ses) \<Rightarrow>
                    (case captured_attempt db (bk_orderId b) of
                       None \<Rightarrow> Some \<lparr>rfb_paidMinor = bk_totalMinor b, rfb_refundedMinor = 0, rfb_inFlightMinor = 0,
                                     rfb_maximumRefundableMinor = 0, rfb_reason = Some ''PAYMENT_NOT_CAPTURED'', rfb_seats = []\<rparr>
                     | Some a \<Rightarrow>
                         Some \<lparr>rfb_paidMinor = pay_amountMinor a, rfb_refundedMinor = pay_refundedMinor a,
                               rfb_inFlightMinor = pay_inFlightRefundMinor a,
                               rfb_maximumRefundableMinor = remainingRefundableMinor (refund_capacity a),
                               rfb_reason = map_option eligibility_code (evaluateRefundEligibility (bk_status b)
                                 (ord_status o') (pay_status a) (ses_status ses)
                                 (remainingRefundableMinor (refund_capacity a)) (ord_financialReviewState o' \<noteq> NONE)),
                               rfb_seats = seat_snapshots db (bk_id b)\<rparr>)
                | _ \<Rightarrow> None))"

definition listRefundsForBooking :: "database \<Rightarrow> string \<Rightarrow> ident \<Rightarrow> Refund list option" where
  "listRefundsForBooking db bookingReference actorUserId =
     (case booking_of_reference db bookingReference of
        None \<Rightarrow> None
      | Some b \<Rightarrow>
          if bk_userId b \<noteq> actorUserId then None
          else Some (rev (sort_key ref_requestedAt (select_rows (\<lambda>r. ref_bookingId r = bk_id b) (db_refunds db)))))"

end
