(* ===== verification/Refund_Submission.thy ===== *)
theory Refund_Submission
  imports Refund_Service
begin

text \<open>
  Sending a refund to the provider (src/server/refunds/submission-service.ts): claim it in one
  transaction, call the provider with none open, record the outcome in another.
\<close>

section \<open>What the provider answers\<close>

record CreateRefundInput =
  cri_providerIntentId :: string
  cri_amountMinor :: minor
  cri_currency :: Currency
  cri_idempotencyKey :: string
  cri_safeReasonCode :: RefundReasonCode

text \<open>The refund identifier of the provider, or the message of the error it threw.\<close>

type_synonym refund_provider = "CreateRefundInput \<Rightarrow> string option + string"

definition error_code_char :: "char \<Rightarrow> char" where
  "error_code_char c = (if url_safe_char c \<or> c = CHR '':'' then c else CHR ''_'')"

definition safeCodeFrom :: "string option \<Rightarrow> string" where
  "safeCodeFrom error =
     (let raw = (case error of None \<Rightarrow> ''REFUND_PROVIDER_FAILURE'' | Some m \<Rightarrow> m);
          code = take 80 (js_upper (map error_code_char raw))
      in if code = [] then ''REFUND_PROVIDER_FAILURE'' else code)"

fun contains_text :: "string \<Rightarrow> string \<Rightarrow> bool" where
  "contains_text w [] \<longleftrightarrow> w = []"
| "contains_text w (c # s) \<longleftrightarrow> take (length w) (c # s) = w \<or> contains_text w s"

definition isAmbiguousFailure :: "string option \<Rightarrow> bool" where
  "isAmbiguousFailure error \<longleftrightarrow>
     list_ex (\<lambda>w. contains_text w (safeCodeFrom error))
       [''TIMEOUT'', ''ETIMEDOUT'', ''ECONNRESET'', ''ECONNREFUSED'', ''SOCKET'', ''ABORT'', ''STRIPE_CONNECTION'', ''STRIPE_API'']"

section \<open>The claim\<close>

record ClaimedRefund =
  clm_refund :: Refund
  clm_providerIntentId :: string
  clm_attemptNumber :: nat

definition last_attempt_number :: "database \<Rightarrow> ident \<Rightarrow> nat" where
  "last_attempt_number db refundId =
     fold max (map ratt_attemptNumber (select_rows (\<lambda>a. ratt_refundId a = refundId) (db_refundAttempts db))) 0"

definition submitting :: "time \<Rightarrow> Refund \<Rightarrow> Refund" where
  "submitting now r =
     r\<lparr>ref_status := RefundStatus.SUBMITTING,
       ref_submittedAt := (case ref_submittedAt r of None \<Rightarrow> Some now | Some t \<Rightarrow> Some t),
       ref_version := ref_version r + 1\<rparr>"

definition started_attempt :: "Refund \<Rightarrow> nat \<Rightarrow> time \<Rightarrow> RefundAttempt" where
  "started_attempt r n now =
     \<lparr>ratt_refundId = ref_id r, ratt_attemptNumber = n, ratt_provider = ref_provider r, ratt_status = STARTED,
      ratt_idempotencyKey = ref_providerIdempotencyKey r @ '':a'' @ decimal n, ratt_startedAt = now,
      ratt_completedAt = None, ratt_providerRequestReference = None, ratt_safeFailureCode = None\<rparr>"

definition claimRefundForSubmission :: "ident \<Rightarrow> time \<Rightarrow> ClaimedRefund option tx" where
  "claimRefundForSubmission refundId now db =
     (case find_row (\<lambda>r. ref_id r = refundId \<and> ref_status r = RefundStatus.REQUESTED) (db_refunds db) of
        None \<Rightarrow> Inr (db, None)
      | Some r \<Rightarrow>
          (case find_attempt db (ref_paymentAttemptId r) of
             None \<Rightarrow> Inl RecordNotFound
           | Some a \<Rightarrow>
               (case pay_providerIntentId a of
                  None \<Rightarrow> Inr (db, None)
                | Some intent \<Rightarrow>
                    if intent = [] then Inr (db, None)
                    else
                      let n = last_attempt_number db refundId + 1
                      in and_then (update_refund refundId (submitting now) db) (\<lambda>db1.
                         and_then (create_refund_attempt (started_attempt r n now) db1) (\<lambda>db2.
                         Inr (db2, Some \<lparr>clm_refund = r, clm_providerIntentId = intent, clm_attemptNumber = n\<rparr>))))))"

definition completeAttempt ::
  "ident \<Rightarrow> nat \<Rightarrow> RefundAttemptStatus \<Rightarrow> string option \<Rightarrow> string option \<Rightarrow> time \<Rightarrow> database \<Rightarrow> service_error + database" where
  "completeAttempt refundId n status reference safeCode now db =
     update_refund_attempts (\<lambda>a. ratt_refundId a = refundId \<and> ratt_attemptNumber a = n \<and> ratt_status a = STARTED)
       (\<lambda>a. a\<lparr>ratt_status := status, ratt_completedAt := Some now, ratt_providerRequestReference := reference,
              ratt_safeFailureCode := safeCode\<rparr>) db"

section \<open>Recording the outcome\<close>

definition fail_row :: "string \<Rightarrow> time \<Rightarrow> Refund \<Rightarrow> Refund" where
  "fail_row safeCode now r =
     r\<lparr>ref_status := RefundStatus.FAILED, ref_failedAt := Some now, ref_safeFailureCode := Some safeCode,
       ref_version := ref_version r + 1\<rparr>"

definition failRefund :: "(string \<Rightarrow> string) \<Rightarrow> ident \<Rightarrow> string \<Rightarrow> time \<Rightarrow> database \<Rightarrow> service_error + database" where
  "failRefund sha refundId safeCode now db =
     (case find_refund db refundId of
        None \<Rightarrow> Inl RecordNotFound
      | Some r \<Rightarrow>
          if List.member [RefundStatus.SUCCEEDED, RefundStatus.FAILED, RefundStatus.CANCELLED, RefundStatus.REQUIRES_REVIEW] (ref_status r)
          then Inr db
          else and_then (update_refund refundId (fail_row safeCode now) db) (\<lambda>db1.
               and_then (appendLedgerEntry sha (refund_entry LedgerEntryType.REFUND_FAILED r (ref_id r @ '':failed'') None now) db1) (\<lambda>db2.
               Inr (enqueueFinancialEvent (refund_event FinancialOutboxEventType.REFUND_FAILED (''refund-failed:'' @ ref_id r) r now) db2))))"

definition processing :: "Refund \<Rightarrow> Refund" where
  "processing r = r\<lparr>ref_status := RefundStatus.PROCESSING, ref_version := ref_version r + 1\<rparr>"

text \<open>The outcome is unknown: the refund stays in flight for the reconciliation.\<close>

definition record_ambiguous :: "ClaimedRefund \<Rightarrow> time \<Rightarrow> database \<Rightarrow> service_error + database" where
  "record_ambiguous claimed now db =
     (let r = clm_refund claimed
      in and_then (update_refund_if (ref_id r) (\<lambda>x. ref_status x = RefundStatus.SUBMITTING) processing db) (\<lambda>db1.
         Inr (enqueueFinancialEvent (refund_event FINANCIAL_RECONCILIATION_REQUIRED
                (''refund-ambiguous:'' @ ref_id r @ '':a'' @ decimal (clm_attemptNumber claimed)) r now) db1)))"

definition accepted_by_provider :: "string \<Rightarrow> Refund \<Rightarrow> Refund" where
  "accepted_by_provider providerRefundId r = (processing r)\<lparr>ref_providerRefundId := Some providerRefundId\<rparr>"

definition record_submitted :: "(string \<Rightarrow> string) \<Rightarrow> ClaimedRefund \<Rightarrow> string \<Rightarrow> time \<Rightarrow> database \<Rightarrow> service_error + database" where
  "record_submitted sha claimed providerRefundId now db =
     (let r = clm_refund claimed
      in and_then (update_refund_if (ref_id r)
             (\<lambda>x. List.member [RefundStatus.SUBMITTING, RefundStatus.PROCESSING] (ref_status x))
             (accepted_by_provider providerRefundId) db) (\<lambda>db1.
         and_then (appendLedgerEntry sha (refund_entry LedgerEntryType.REFUND_PROCESSING r (ref_id r @ '':submitted'')
             (Some providerRefundId) now) db1) (\<lambda>db2.
         Inr (enqueueFinancialEvent (refund_event FinancialOutboxEventType.REFUND_SUBMITTED (''refund-submitted:'' @ ref_id r) r now) db2))))"

datatype RefundSubmissionResult =
    SUBMITTED | ALREADY_SUBMITTED | TIMEOUT_PENDING_RECONCILIATION string | SUBMISSION_FAILED string

definition refund_request :: "ClaimedRefund \<Rightarrow> CreateRefundInput" where
  "refund_request claimed =
     (let r = clm_refund claimed
      in \<lparr>cri_providerIntentId = clm_providerIntentId claimed, cri_amountMinor = ref_requestedAmountMinor r,
          cri_currency = ref_currency r, cri_idempotencyKey = ref_providerIdempotencyKey r,
          cri_safeReasonCode = ref_reasonCode r\<rparr>)"

definition finish_attempt ::
  "ClaimedRefund \<Rightarrow> RefundAttemptStatus \<Rightarrow> string option \<Rightarrow> string option \<Rightarrow> time \<Rightarrow> unit tx" where
  "finish_attempt claimed status reference safeCode now db =
     and_then (completeAttempt (ref_id (clm_refund claimed)) (clm_attemptNumber claimed) status reference safeCode now db)
       (\<lambda>db'. Inr (db', ()))"

definition as_tx :: "(database \<Rightarrow> service_error + database) \<Rightarrow> 'a \<Rightarrow> 'a tx" where
  "as_tx f x db = and_then (f db) (\<lambda>db'. Inr (db', x))"

text \<open>The writes after the call; each commits on its own, and an error ends them.\<close>

definition record_answer ::
  "(string \<Rightarrow> string) \<Rightarrow> ClaimedRefund \<Rightarrow> string option + string \<Rightarrow> time \<Rightarrow> database
     \<Rightarrow> database \<times> (service_error + RefundSubmissionResult)" where
  "record_answer sha claimed answer now db =
     (case answer of
        Inr providerRefundId \<Rightarrow>
          (case transact (finish_attempt claimed RefundAttemptStatus.SUCCEEDED (Some providerRefundId) None now) db of
             (db1, Inl e) \<Rightarrow> (db1, Inl e)
           | (db1, Inr _) \<Rightarrow> transact (as_tx (record_submitted sha claimed providerRefundId now) SUBMITTED) db1)
      | Inl error \<Rightarrow>
          let code = safeCodeFrom error; ambiguous = isAmbiguousFailure error
          in (case transact (finish_attempt claimed
                       (if ambiguous then RefundAttemptStatus.TIMEOUT else RefundAttemptStatus.FAILED) None (Some code) now) db of
                (db1, Inl e) \<Rightarrow> (db1, Inl e)
              | (db1, Inr _) \<Rightarrow>
                  if ambiguous then transact (as_tx (record_ambiguous claimed now) (TIMEOUT_PENDING_RECONCILIATION code)) db1
                  else transact (as_tx (failRefund sha (ref_id (clm_refund claimed)) code now) (SUBMISSION_FAILED code)) db1))"

definition submitRefund ::
  "(string \<Rightarrow> string) \<Rightarrow> refund_provider \<Rightarrow> ident \<Rightarrow> time \<Rightarrow> database \<Rightarrow> database \<times> (service_error + RefundSubmissionResult)" where
  "submitRefund sha provider refundId now db =
     (case transact (claimRefundForSubmission refundId now) db of
        (db1, Inl e) \<Rightarrow> (db1, Inl e)
      | (db1, Inr None) \<Rightarrow> (db1, Inr ALREADY_SUBMITTED)
      | (db1, Inr (Some claimed)) \<Rightarrow> record_answer sha claimed (provider (refund_request claimed)) now db1)"

section \<open>The batch\<close>

record SubmissionBatchResult =
  sbr_claimed :: nat
  sbr_submitted :: nat
  sbr_failed :: nat
  sbr_ambiguous :: nat

definition count_outcome :: "RefundSubmissionResult \<Rightarrow> SubmissionBatchResult \<Rightarrow> SubmissionBatchResult" where
  "count_outcome outcome res =
     (case outcome of
        ALREADY_SUBMITTED \<Rightarrow> res
      | SUBMITTED \<Rightarrow> res\<lparr>sbr_claimed := sbr_claimed res + 1, sbr_submitted := sbr_submitted res + 1\<rparr>
      | SUBMISSION_FAILED _ \<Rightarrow> res\<lparr>sbr_claimed := sbr_claimed res + 1, sbr_failed := sbr_failed res + 1\<rparr>
      | TIMEOUT_PENDING_RECONCILIATION _ \<Rightarrow>
          res\<lparr>sbr_claimed := sbr_claimed res + 1, sbr_ambiguous := sbr_ambiguous res + 1\<rparr>)"

fun submit_loop ::
  "(string \<Rightarrow> string) \<Rightarrow> refund_provider \<Rightarrow> time \<Rightarrow> ident list \<Rightarrow> SubmissionBatchResult \<Rightarrow> database
     \<Rightarrow> database \<times> (service_error + SubmissionBatchResult)" where
  "submit_loop sha provider now [] res db = (db, Inr res)"
| "submit_loop sha provider now (i # ids) res db =
     (case submitRefund sha provider i now db of
        (db', Inl e) \<Rightarrow> (db', Inl e)
      | (db', Inr outcome) \<Rightarrow> submit_loop sha provider now ids (count_outcome outcome res) db')"

definition pending_refunds :: "PaymentProviderName \<Rightarrow> nat option \<Rightarrow> database \<Rightarrow> Refund list" where
  "pending_refunds providerName batchSize db =
     take (case batchSize of None \<Rightarrow> 50 | Some n \<Rightarrow> n)
       (sort_key ref_requestedAt
         (select_rows (\<lambda>r. ref_status r = RefundStatus.REQUESTED \<and> ref_provider r = providerName) (db_refunds db)))"

definition submitPendingRefunds ::
  "(string \<Rightarrow> string) \<Rightarrow> refund_provider \<Rightarrow> PaymentProviderName \<Rightarrow> nat option \<Rightarrow> time \<Rightarrow> database
     \<Rightarrow> database \<times> (service_error + SubmissionBatchResult)" where
  "submitPendingRefunds sha provider providerName batchSize now db =
     submit_loop sha provider now (map ref_id (pending_refunds providerName batchSize db))
       \<lparr>sbr_claimed = 0, sbr_submitted = 0, sbr_failed = 0, sbr_ambiguous = 0\<rparr> db"

end
