(* ===== verification/Delivery_Rules.thy ===== *)
theory Delivery_Rules
  imports Domain
begin

text \<open>
  Delivery rules shared by the dispatchers: exponential backoff, dead-lettering, and the
  redaction of error messages before they are stored (src/features/notifications/delivery.ts,
  src/server/inventory-events/dispatcher-service.ts, src/features/jobs/job-contract.ts). A
  regular expression replacement is \<open>replace_all\<close> of a matcher, which says how many leading
  characters match.
\<close>

section \<open>Redaction\<close>

type_synonym matcher = "string \<Rightarrow> nat option"

text \<open>\<open>String.prototype.replace\<close> with a global expression that matches at least one character.\<close>

fun replace_all :: "matcher \<Rightarrow> string \<Rightarrow> string \<Rightarrow> string" where
  "replace_all match replacement [] = []"
| "replace_all match replacement (c # s) =
     (case match (c # s) of
        Some (Suc n) \<Rightarrow> replacement @ replace_all match replacement (drop n s)
      | _ \<Rightarrow> c # replace_all match replacement s)"

definition starts_with_nocase :: "string \<Rightarrow> string \<Rightarrow> bool" where
  "starts_with_nocase p s \<longleftrightarrow> js_lower (take (length p) s) = p"

text \<open>A literal prefix followed by one or more characters of a class; the first prefix that fits.\<close>

fun match_prefixed :: "(string \<Rightarrow> string \<Rightarrow> bool) \<Rightarrow> (char \<Rightarrow> bool) \<Rightarrow> string list \<Rightarrow> matcher" where
  "match_prefixed starts ok [] s = None"
| "match_prefixed starts ok (p # ps) s =
     (let rest = takeWhile ok (drop (length p) s)
      in if starts p s \<and> rest \<noteq> [] then Some (length p + length rest) else match_prefixed starts ok ps s)"

definition match_run :: "(char \<Rightarrow> bool) \<Rightarrow> matcher" where
  "match_run ok s = (let n = length (takeWhile ok s) in if n = 0 then None else Some n)"

definition database_url :: matcher where
  "database_url = match_prefixed starts_with_nocase (\<lambda>c. \<not> js_space c) [''postgresql://'', ''postgres://'']"

definition redis_url :: matcher where
  "redis_url = match_prefixed starts_with_nocase (\<lambda>c. \<not> js_space c) [''rediss://'', ''redis://'']"

definition web_url :: matcher where
  "web_url = match_prefixed starts_with_nocase (\<lambda>c. \<not> js_space c) [''https://'', ''http://'']"

definition starts_with :: "string \<Rightarrow> string \<Rightarrow> bool" where
  "starts_with p s \<longleftrightarrow> take (length p) s = p"

definition ticket_credential :: matcher where
  "ticket_credential = match_prefixed starts_with url_safe_char [''SFT1.'']"

definition line_break :: "char \<Rightarrow> bool" where
  "line_break c \<longleftrightarrow> of_char c \<in> {9, 10, 13 :: nat}"

text \<open>The message of the error; \<open>None\<close> for a thrown value that is not an \<open>Error\<close>.\<close>

definition sanitizeNotificationError :: "string option \<Rightarrow> string" where
  "sanitizeNotificationError error =
     (let message = (case error of None \<Rightarrow> ''UNKNOWN_NOTIFICATION_FAILURE'' | Some m \<Rightarrow> m);
          s1 = replace_all database_url ''[database endpoint redacted]'' message;
          s2 = replace_all redis_url ''[redis endpoint redacted]'' s1;
          s3 = replace_all ticket_credential ''[ticket credential redacted]'' s2
      in take 240 (replace_all (match_run line_break) '' '' s3))"

definition summarizeOutboxError :: "string option \<Rightarrow> string" where
  "summarizeOutboxError error =
     (let message = (case error of None \<Rightarrow> ''Unknown delivery failure'' | Some m \<Rightarrow> m);
          s1 = replace_all redis_url ''[redis endpoint redacted]'' message;
          s2 = replace_all database_url ''[database endpoint redacted]'' s1
      in take 500 (replace_all (match_run line_break) '' '' s2))"

definition code_char :: "char \<Rightarrow> bool" where
  "code_char c \<longleftrightarrow> url_safe_char c \<or> c = CHR '':''"

definition summarizeJobError :: "string option \<Rightarrow> string" where
  "summarizeJobError error =
     (let message = (case error of None \<Rightarrow> ''Unknown job failure'' | Some m \<Rightarrow> m);
          s1 = replace_all redis_url ''[redis endpoint redacted]'' message;
          s2 = replace_all database_url ''[database endpoint redacted]'' s1;
          s3 = replace_all web_url ''[url redacted]'' s2;
          code = take 80 (js_upper (replace_all (match_run (\<lambda>c. \<not> code_char c)) ''_'' s3))
      in if code = [] then ''JOB_FAILURE'' else code)"

section \<open>Backoff\<close>

text \<open>\<open>Math.min(maximum, base * 2 ** Math.min(attempt - 1, 30))\<close>.\<close>

definition backoff :: "int \<Rightarrow> minor \<Rightarrow> minor \<Rightarrow> minor" where
  "backoff exponent baseMs maximumMs = min maximumMs (baseMs * 2 ^ nat (min exponent 30))"

definition calculateNotificationBackoffMs :: "int \<Rightarrow> minor \<Rightarrow> minor \<Rightarrow> service_error + minor" where
  "calculateNotificationBackoffMs attempt baseMs maximumMs =
     (if attempt < 1 then Inl (PlainError ''Notification attempt must be a positive integer.'')
      else Inr (backoff (attempt - 1) baseMs maximumMs))"

definition calculateOutboxBackoffMs :: "int \<Rightarrow> minor \<Rightarrow> minor \<Rightarrow> service_error + minor" where
  "calculateOutboxBackoffMs attempt baseMs maximumMs =
     (if attempt < 1 then Inl (PlainError ''Outbox attempt must be a positive integer.'')
      else Inr (backoff (attempt - 1) baseMs maximumMs))"

definition calculateBackoff :: "int \<Rightarrow> minor \<Rightarrow> minor \<Rightarrow> minor" where
  "calculateBackoff attempt baseMs maximumMs = backoff (max (attempt - 1) 0) baseMs maximumMs"

definition shouldDeadLetterOutboxEvent :: "int \<Rightarrow> int \<Rightarrow> bool" where
  "shouldDeadLetterOutboxEvent nextAttemptCount maximumAttempts \<longleftrightarrow> maximumAttempts \<le> nextAttemptCount"

definition shouldDeadLetterNotification :: "NotificationDeliveryStatus \<Rightarrow> int \<Rightarrow> int \<Rightarrow> bool" where
  "shouldDeadLetterNotification status nextAttemptCount maximumAttempts \<longleftrightarrow>
     status = PERMANENT_FAILURE \<or> maximumAttempts \<le> nextAttemptCount"

lemma backoff_bounds:
  assumes "0 \<le> baseMs" "baseMs \<le> maximumMs"
  shows "baseMs \<le> backoff e baseMs maximumMs" "backoff e baseMs maximumMs \<le> maximumMs"
proof -
  have "baseMs * 1 \<le> baseMs * 2 ^ nat (min e 30)" using assms(1) by (intro mult_left_mono) simp_all
  then show "baseMs \<le> backoff e baseMs maximumMs" using assms(2) by (simp add: backoff_def)
qed (simp add: backoff_def)

lemma backoff_mono:
  assumes "0 \<le> baseMs" "e \<le> e'"
  shows "backoff e baseMs maximumMs \<le> backoff e' baseMs maximumMs"
proof -
  have "(2::int) ^ nat (min e 30) \<le> 2 ^ nat (min e' 30)" using assms(2) by (intro power_increasing) auto
  then show ?thesis unfolding backoff_def by (intro min.mono order_refl mult_left_mono assms)
qed

end
