(* ===== verification/Ticket_Rules.thy ===== *)
theory Ticket_Rules
  imports Hold_Rules Delivery_Rules
begin

text \<open>
  The pure ticket rules of src/features/tickets: credentials and their hashes (credential.ts),
  the entry window and the life of a download grant (lifecycle.ts), the request schemas
  (schema.ts). HMAC-SHA256 is a parameter, \<open>hmac secret message\<close>, once in base64url and once
  in hexadecimal.
\<close>

type_synonym hmac = "string \<Rightarrow> string \<Rightarrow> string"

section \<open>Credentials\<close>

definition matches_class :: "nat \<Rightarrow> nat \<Rightarrow> (char \<Rightarrow> bool) \<Rightarrow> string \<Rightarrow> bool" where
  "matches_class lo hi ok s \<longleftrightarrow> lo \<le> length s \<and> length s \<le> hi \<and> list_all ok s"

definition hex_char :: "char \<Rightarrow> bool" where
  "hex_char c \<longleftrightarrow> char_between CHR ''a'' CHR ''f'' c \<or> char_between CHR ''0'' CHR ''9'' c"

definition credentialPattern :: "string \<Rightarrow> bool" where
  "credentialPattern s \<longleftrightarrow> take 5 s = ''SFT1.'' \<and> matches_class 43 43 url_safe_char (drop 5 s)"

definition deriveTicketCredential :: "hmac \<Rightarrow> string \<Rightarrow> string \<Rightarrow> int \<Rightarrow> service_error + string" where
  "deriveTicketCredential hmac64 secret ticketReference version =
     (if version < 1 then Inl (PlainError ''Ticket credential version must be a positive integer.'')
      else if \<not> matches_class 24 80 url_safe_char ticketReference then Inl (PlainError ''Ticket reference is invalid.'')
      else if length secret < 32 then Inl (PlainError ''Ticket credential secret is invalid.'')
      else Inr (''SFT1.'' @ hmac64 secret
             (''seatflow:ticket-credential:v1:'' @ ticketReference @ '':'' @ decimal (nat version))))"

definition parseTicketCredential :: "string \<Rightarrow> string option" where
  "parseTicketCredential value =
     (if 64 < length value \<or> \<not> credentialPattern value then None else Some value)"

definition credential_hash :: "hmac \<Rightarrow> string \<Rightarrow> string \<Rightarrow> string" where
  "credential_hash hmac16 secret credential = hmac16 secret (''seatflow:ticket-credential-hash:v1:'' @ credential)"

definition hashTicketCredential :: "hmac \<Rightarrow> string \<Rightarrow> string \<Rightarrow> service_error + string" where
  "hashTicketCredential hmac16 secret credential =
     (case parseTicketCredential credential of
        None \<Rightarrow> Inl (PlainError ''Ticket credential format is invalid.'')
      | Some _ \<Rightarrow> Inr (credential_hash hmac16 secret credential))"

definition compareTicketCredentialHash :: "string \<Rightarrow> string \<Rightarrow> bool" where
  "compareTicketCredentialHash expectedHex actualHex \<longleftrightarrow>
     matches_class 64 64 hex_char expectedHex \<and> matches_class 64 64 hex_char actualHex \<and> expectedHex = actualHex"

definition deriveDownloadGrantToken :: "hmac \<Rightarrow> string \<Rightarrow> string \<Rightarrow> service_error + string" where
  "deriveDownloadGrantToken hmac64 secret idempotencySubject =
     (if \<not> matches_class 1 191 (\<lambda>c. url_safe_char c \<or> c = CHR '':'') idempotencySubject
      then Inl (PlainError ''Download grant idempotency subject is invalid.'')
      else if length secret < 32 then Inl (PlainError ''Ticket credential secret is invalid.'')
      else Inr (hmac64 secret (''seatflow:ticket-download-grant-token:v1:'' @ idempotencySubject)))"

definition hashDownloadGrantToken :: "hmac \<Rightarrow> string \<Rightarrow> string \<Rightarrow> service_error + string" where
  "hashDownloadGrantToken hmac16 secret token =
     (if \<not> matches_class 43 43 url_safe_char token then Inl (PlainError ''Download grant token format is invalid.'')
      else Inr (hmac16 secret (''seatflow:ticket-download-grant:v1:'' @ token)))"

text \<open>What is derived is a credential in the accepted format, whatever the ticket and the secret.\<close>

lemma derived_credential_parses:
  assumes "deriveTicketCredential hmac64 secret ref v = Inr c" "\<And>s m. matches_class 43 43 url_safe_char (hmac64 s m)"
  shows "parseTicketCredential c = Some c"
proof -
  from assms(1) obtain m where c: "c = ''SFT1.'' @ hmac64 secret m"
    by (auto simp: deriveTicketCredential_def split: if_splits)
  have "length (hmac64 secret m) = 43" using assms(2) [of secret m] by (simp add: matches_class_def)
  with assms(2) [of secret m] show ?thesis
    by (simp add: c parseTicketCredential_def credentialPattern_def)
qed

section \<open>Entry window and grants\<close>

datatype EntryWindowOutcome = OPEN | TOO_EARLY | TOO_LATE | SESSION_CANCELLED

definition decideEntryWindow ::
  "EventSessionStatus \<Rightarrow> time \<Rightarrow> time \<Rightarrow> time \<Rightarrow> int \<Rightarrow> int \<Rightarrow> EntryWindowOutcome" where
  "decideEntryWindow sessionStatus startAt endAt now earlyMinutes lateMinutes =
     (if sessionStatus = EventSessionStatus.CANCELLED then SESSION_CANCELLED
      else if now < startAt - earlyMinutes * 60000 then TOO_EARLY
      else if endAt + lateMinutes * 60000 < now then TOO_LATE
      else OPEN)"

definition canRotateTicket :: "TicketStatus \<Rightarrow> bool" where
  "canRotateTicket status \<longleftrightarrow> status = TicketStatus.ACTIVE"

definition ticketEntryLabel :: "TicketStatus \<Rightarrow> string" where
  "ticketEntryLabel status =
     (if status = TicketStatus.USED then ''Entry used''
      else if status = TicketStatus.REVOKED then ''Revoked'' else ''Ready for entry'')"

definition isDownloadGrantUsable :: "time \<Rightarrow> time option \<Rightarrow> time option \<Rightarrow> time \<Rightarrow> bool" where
  "isDownloadGrantUsable expiresAt usedAt revokedAt now \<longleftrightarrow> usedAt = None \<and> revokedAt = None \<and> now < expiresAt"

lemma entry_open_iff:
  "decideEntryWindow st s e now early late = OPEN \<longleftrightarrow>
     st \<noteq> EventSessionStatus.CANCELLED \<and> s - early * 60000 \<le> now \<and> now \<le> e + late * 60000"
  by (auto simp: decideEntryWindow_def)

section \<open>Request schemas\<close>

definition ticketReferenceSchema :: "string \<Rightarrow> string option" where
  "ticketReferenceSchema s = (if matches_class 24 80 url_safe_char s then Some s else None)"

definition ticketCredentialSchema :: "string \<Rightarrow> string option" where
  "ticketCredentialSchema s = (if length s \<le> 64 \<and> credentialPattern s then Some s else None)"

definition sessionIdentifierSchema :: "string \<Rightarrow> string option" where
  "sessionIdentifierSchema s = (if matches_class 1 128 url_safe_char s then Some s else None)"

definition ticketRevocationReasonSchema :: "string \<Rightarrow> string option" where
  "ticketRevocationReasonSchema = bounded_string 1 160 (\<lambda>c. \<not> line_break c)"

end
