(* ===== verification/Ticket_Store.thy ===== *)
theory Ticket_Store
  imports Ticket_Rules Refund_Constraints
begin

text \<open>
  What PostgreSQL enforces on tickets, credentials, redemption events, download grants and
  notifications (prisma/migrations/20260718070000_phase_5b_ticket_issuance_and_delivery): the
  lifecycle CHECKs, the triggers that freeze terminal rows, and the unique indexes, among them
  one active credential and one accepted redemption per ticket.
\<close>

section \<open>Tickets\<close>

definition find_ticket :: "database \<Rightarrow> ident \<Rightarrow> Ticket option" where
  "find_ticket db ticketId = find_row (\<lambda>t. tk_id t = ticketId) (db_tickets db)"

definition safe_text_ok :: "string option \<Rightarrow> bool" where
  "safe_text_ok m \<longleftrightarrow> (case m of None \<Rightarrow> True | Some s \<Rightarrow> matches_class 1 160 (\<lambda>c. \<not> line_break c) s)"

definition ticket_lifecycle :: "Ticket \<Rightarrow> bool" where
  "ticket_lifecycle t \<longleftrightarrow>
     (let untouched = tk_revokedAt t = None \<and> tk_revocationReason t = None \<and> tk_revokedByUserId t = None
      in safe_text_ok (tk_revocationReason t) \<and>
         (case tk_status t of
            TicketStatus.ACTIVE \<Rightarrow> untouched
          | TicketStatus.REVOKED \<Rightarrow> tk_revokedAt t \<noteq> None \<and> tk_revocationReason t \<noteq> None
          | TicketStatus.USED \<Rightarrow> untouched))"

definition ticket_update_ok :: "Ticket \<Rightarrow> Ticket \<Rightarrow> bool" where
  "ticket_update_ok old new \<longleftrightarrow>
     (tk_status old \<noteq> TicketStatus.ACTIVE \<longrightarrow> tk_status new = tk_status old) \<and> ticket_lifecycle new"

definition update_ticket :: "ident \<Rightarrow> (Ticket \<Rightarrow> Ticket) \<Rightarrow> database \<Rightarrow> service_error + database" where
  "update_ticket ticketId f db =
     and_then (checked_update ''Ticket'' (\<lambda>t. tk_id t = ticketId) ticket_update_ok f (db_tickets db))
       (\<lambda>t. Inr (db\<lparr>db_tickets := t\<rparr>))"

definition ticket_ancestry :: "database \<Rightarrow> Ticket \<Rightarrow> bool" where
  "ticket_ancestry db t \<longleftrightarrow>
     (case (find_booking db (tk_bookingId t),
            find_row (\<lambda>s. bseat_id s = tk_bookingSeatId t) (db_bookingSeats db)) of
        (Some b, Some s) \<Rightarrow>
          bk_status b = BookingStatus.CONFIRMED \<and> bseat_bookingId s = tk_bookingId t \<and> bk_userId b = tk_userId t
          \<and> bk_organizationId b = tk_organizationId t \<and> bk_eventId b = tk_eventId t \<and> bk_sessionId b = tk_sessionId t
      | _ \<Rightarrow> False)"

definition create_ticket :: "Ticket \<Rightarrow> database \<Rightarrow> service_error + database" where
  "create_ticket t db =
     (if \<not> ticket_ancestry db t \<or> \<not> ticket_lifecycle t \<or> \<not> matches_class 24 80 url_safe_char (tk_publicReference t)
      then Inl (ConstraintViolation ''Ticket'')
      else if has_key tk_id (tk_id t) (db_tickets db) \<or> has_key tk_publicReference (tk_publicReference t) (db_tickets db)
           \<or> has_key tk_bookingSeatId (tk_bookingSeatId t) (db_tickets db)
      then Inl (UniqueViolation ''Ticket'')
      else Inr (db\<lparr>db_tickets := insert_row t (db_tickets db)\<rparr>))"

definition audit_row :: "ident \<Rightarrow> ident option \<Rightarrow> TicketAuditAction \<Rightarrow> string option \<Rightarrow> time \<Rightarrow> TicketAuditEvent" where
  "audit_row ticketId actor action reason now =
     \<lparr>aud_ticketId = ticketId, aud_actorUserId = actor, aud_action = action, aud_safeReason = reason, aud_createdAt = now\<rparr>"

definition create_audit :: "TicketAuditEvent \<Rightarrow> database \<Rightarrow> service_error + database" where
  "create_audit a db =
     (if safe_text_ok (aud_safeReason a) then Inr (db\<lparr>db_audit := insert_row a (db_audit db)\<rparr>)
      else Inl (ConstraintViolation ''TicketAuditEvent''))"

section \<open>Credentials\<close>

definition credential_lifecycle :: "TicketCredential \<Rightarrow> bool" where
  "credential_lifecycle c \<longleftrightarrow>
     (let revoked = cred_revokedAt c \<noteq> None; replaced = cred_replacedAt c \<noteq> None; used = cred_usedAt c \<noteq> None;
          successor = cred_replacementCredentialId c \<noteq> None
      in case cred_status c of
           TicketCredentialStatus.ACTIVE \<Rightarrow> \<not> revoked \<and> \<not> replaced \<and> \<not> used \<and> \<not> successor
         | TicketCredentialStatus.REVOKED \<Rightarrow> revoked \<and> \<not> replaced \<and> \<not> used \<and> \<not> successor
         | TicketCredentialStatus.REPLACED \<Rightarrow> \<not> revoked \<and> replaced \<and> \<not> used
         | TicketCredentialStatus.USED \<Rightarrow> \<not> revoked \<and> \<not> replaced \<and> used \<and> \<not> successor)"

definition successor_ok :: "TicketCredential list \<Rightarrow> TicketCredential \<Rightarrow> bool" where
  "successor_ok credentials c \<longleftrightarrow>
     (case cred_replacementCredentialId c of
        None \<Rightarrow> True
      | Some i \<Rightarrow>
          (case find_row (\<lambda>x. cred_id x = i) credentials of
             None \<Rightarrow> False
           | Some x \<Rightarrow> cred_ticketId x = cred_ticketId c \<and> cred_version c < cred_version x))"

definition credential_update_ok :: "TicketCredential list \<Rightarrow> TicketCredential \<Rightarrow> TicketCredential \<Rightarrow> bool" where
  "credential_update_ok credentials old new \<longleftrightarrow>
     (cred_status old \<noteq> TicketCredentialStatus.ACTIVE \<longrightarrow> cred_status new = cred_status old)
     \<and> credential_lifecycle new \<and> successor_ok credentials new"

definition update_credential :: "ident \<Rightarrow> (TicketCredential \<Rightarrow> TicketCredential) \<Rightarrow> database \<Rightarrow> service_error + database" where
  "update_credential credentialId f db =
     and_then (checked_update ''TicketCredential'' (\<lambda>c. cred_id c = credentialId)
       (credential_update_ok (db_credentials db)) f (db_credentials db))
       (\<lambda>t. Inr (db\<lparr>db_credentials := t\<rparr>))"

text \<open>\<open>updateMany\<close> of the active credentials of a ticket.\<close>

definition active_credential :: "ident \<Rightarrow> TicketCredential \<Rightarrow> bool" where
  "active_credential ticketId c \<longleftrightarrow> cred_ticketId c = ticketId \<and> cred_status c = TicketCredentialStatus.ACTIVE"

definition revoke_credential :: "time \<Rightarrow> TicketCredential \<Rightarrow> TicketCredential" where
  "revoke_credential now c = c\<lparr>cred_status := TicketCredentialStatus.REVOKED, cred_revokedAt := Some now\<rparr>"

definition revoke_active_credentials :: "ident \<Rightarrow> time \<Rightarrow> database \<Rightarrow> service_error + database" where
  "revoke_active_credentials ticketId now db =
     (if list_all (\<lambda>c. active_credential ticketId c \<longrightarrow>
           credential_update_ok (db_credentials db) c (revoke_credential now c)) (db_credentials db)
      then Inr (db\<lparr>db_credentials := update_rows (active_credential ticketId) (revoke_credential now) (db_credentials db)\<rparr>)
      else Inl (ConstraintViolation ''TicketCredential''))"

definition create_credential :: "TicketCredential \<Rightarrow> database \<Rightarrow> service_error + database" where
  "create_credential c db =
     (if cred_version c < 1 \<or> \<not> credential_lifecycle c \<or> \<not> matches_class 64 64 hex_char (cred_credentialHash c)
      then Inl (ConstraintViolation ''TicketCredential'')
      else if has_key cred_id (cred_id c) (db_credentials db) \<or> has_key cred_credentialHash (cred_credentialHash c) (db_credentials db)
           \<or> has_key (\<lambda>x. (cred_ticketId x, cred_version x)) (cred_ticketId c, cred_version c) (db_credentials db)
           \<or> cred_status c = TicketCredentialStatus.ACTIVE \<and> list_ex (active_credential (cred_ticketId c)) (db_credentials db)
      then Inl (UniqueViolation ''TicketCredential'')
      else Inr (db\<lparr>db_credentials := insert_row c (db_credentials db)\<rparr>))"

text \<open>The deferred trigger: at commit a replaced credential names its successor.\<close>

definition verify_replacements :: "database \<Rightarrow> service_error + database" where
  "verify_replacements db =
     (if list_all (\<lambda>c. cred_status c = TicketCredentialStatus.REPLACED \<longrightarrow> cred_replacementCredentialId c \<noteq> None) (db_credentials db)
      then Inr db else Inl (ConstraintViolation ''TicketCredential_verify_replacement''))"

section \<open>Redemption events\<close>

definition scanner_char :: "char \<Rightarrow> bool" where
  "scanner_char c \<longleftrightarrow> url_safe_char c \<or> c = CHR ''.'' \<or> c = CHR '':''"

definition redemption_ok :: "TicketRedemptionEvent \<Rightarrow> bool" where
  "redemption_ok r \<longleftrightarrow>
     (if List.member [TicketRedemptionOutcome.INVALID, TicketRedemptionOutcome.UNAUTHORIZED_SCANNER] (red_outcome r)
      then red_ticketId r = None \<and> red_ticketCredentialId r = None
      else red_ticketId r \<noteq> None \<and> red_ticketCredentialId r \<noteq> None)
     \<and> (case red_scannerIdentifier r of None \<Rightarrow> True | Some s \<Rightarrow> matches_class 1 80 scanner_char s)
     \<and> (case red_idempotencyKey r of None \<Rightarrow> True | Some s \<Rightarrow> matches_class 16 191 url_safe_char s)"

definition accepted_ticket :: "TicketRedemptionEvent \<Rightarrow> ident option" where
  "accepted_ticket r = (if red_outcome r = TicketRedemptionOutcome.ACCEPTED then red_ticketId r else None)"

definition scan_key :: "TicketRedemptionEvent \<Rightarrow> (ident \<times> string) option" where
  "scan_key r = map_option (Pair (red_scannerUserId r)) (red_idempotencyKey r)"

definition create_redemption :: "TicketRedemptionEvent \<Rightarrow> database \<Rightarrow> service_error + database" where
  "create_redemption r db =
     (if \<not> redemption_ok r then Inl (ConstraintViolation ''TicketRedemptionEvent'')
      else if scan_key r \<noteq> None \<and> has_key scan_key (scan_key r) (db_redemptions db)
           \<or> accepted_ticket r \<noteq> None \<and> has_key accepted_ticket (accepted_ticket r) (db_redemptions db)
      then Inl (UniqueViolation ''TicketRedemptionEvent'')
      else Inr (db\<lparr>db_redemptions := insert_row r (db_redemptions db)\<rparr>))"

section \<open>Notifications and grants\<close>

definition notification_ok :: "database \<Rightarrow> NotificationOutbox \<Rightarrow> bool" where
  "notification_ok db n \<longleftrightarrow>
     (case ntf_bookingId n of
        Some b \<Rightarrow> map_option bk_userId (find_booking db b) = Some (ntf_recipientUserId n)
      | None \<Rightarrow>
          (case ntf_ticketId n of
             None \<Rightarrow> False
           | Some t \<Rightarrow> map_option tk_userId (find_ticket db t) = Some (ntf_recipientUserId n)))
     \<and> (case ntf_notificationType n of
          BOOKING_TICKETS_READY \<Rightarrow> ntf_bookingId n \<noteq> None \<and> ntf_ticketId n = None
        | CREDENTIAL_ROTATED \<Rightarrow> ntf_ticketId n \<noteq> None
        | TICKET_REVOKED \<Rightarrow> ntf_ticketId n \<noteq> None
        | _ \<Rightarrow> True)"

definition notification_row ::
  "ident \<Rightarrow> NotificationType \<Rightarrow> ident \<Rightarrow> ident option \<Rightarrow> ident option \<Rightarrow> string \<Rightarrow> time \<Rightarrow> NotificationOutbox" where
  "notification_row notificationId type recipient bookingId ticketId key now =
     \<lparr>ntf_id = notificationId, ntf_notificationType = type, ntf_recipientUserId = recipient, ntf_bookingId = bookingId,
      ntf_ticketId = ticketId, ntf_deduplicationKey = key, ntf_status = NotificationOutboxStatus.PENDING,
      ntf_availableAt = now, ntf_attemptCount = 0, ntf_processedAt = None, ntf_lastError = None,
      ntf_deadLetterAt = None, ntf_createdAt = now\<rparr>"

text \<open>\<open>upsert\<close> with an empty update: nothing when the deduplication key is there.\<close>

definition upsert_notification :: "NotificationOutbox \<Rightarrow> database \<Rightarrow> service_error + database" where
  "upsert_notification n db =
     (if has_key ntf_deduplicationKey (ntf_deduplicationKey n) (db_notifications db) then Inr db
      else if \<not> notification_ok db n then Inl (ConstraintViolation ''NotificationOutbox'')
      else if has_key ntf_id (ntf_id n) (db_notifications db) then Inl (UniqueViolation ''id'')
      else Inr (db\<lparr>db_notifications := insert_row n (db_notifications db)\<rparr>))"

definition grant_ok :: "TicketDownloadGrant \<Rightarrow> bool" where
  "grant_ok g \<longleftrightarrow> matches_class 64 64 hex_char (gr_tokenHash g) \<and> gr_createdAt g < gr_expiresAt g
     \<and> (gr_usedAt g = None \<or> gr_revokedAt g = None)"

definition create_grant :: "TicketDownloadGrant \<Rightarrow> database \<Rightarrow> service_error + database" where
  "create_grant g db =
     (if \<not> grant_ok g then Inl (ConstraintViolation ''TicketDownloadGrant'')
      else if has_key gr_id (gr_id g) (db_grants db) \<or> has_key gr_tokenHash (gr_tokenHash g) (db_grants db)
      then Inl (UniqueViolation ''TicketDownloadGrant'')
      else Inr (db\<lparr>db_grants := insert_row g (db_grants db)\<rparr>))"

definition grant_update_ok :: "TicketDownloadGrant \<Rightarrow> TicketDownloadGrant \<Rightarrow> bool" where
  "grant_update_ok old new \<longleftrightarrow>
     (gr_usedAt old \<noteq> None \<or> gr_revokedAt old \<noteq> None \<longrightarrow> gr_usedAt new = gr_usedAt old \<and> gr_revokedAt new = gr_revokedAt old)
     \<and> grant_ok new"

definition update_grant :: "ident \<Rightarrow> (TicketDownloadGrant \<Rightarrow> TicketDownloadGrant) \<Rightarrow> database \<Rightarrow> service_error + database" where
  "update_grant grantId f db =
     and_then (checked_update ''TicketDownloadGrant'' (\<lambda>g. gr_id g = grantId) grant_update_ok f (db_grants db))
       (\<lambda>t. Inr (db\<lparr>db_grants := t\<rparr>))"

section \<open>Revocation\<close>

text \<open>
  What a refund, a lost dispute and an operator do alike: the active credentials are revoked,
  the ticket is revoked with its reason, and the audit trail says so.
\<close>

definition revoke_ticket_row :: "string \<Rightarrow> ident option \<Rightarrow> time \<Rightarrow> Ticket \<Rightarrow> Ticket" where
  "revoke_ticket_row reason actor now t =
     t\<lparr>tk_status := TicketStatus.REVOKED, tk_revokedAt := Some now, tk_revocationReason := Some reason,
       tk_revokedByUserId := (case actor of None \<Rightarrow> tk_revokedByUserId t | Some _ \<Rightarrow> actor)\<rparr>"

definition revoke_admission :: "string \<Rightarrow> time \<Rightarrow> ident \<Rightarrow> database \<Rightarrow> service_error + database" where
  "revoke_admission reason now ticketId db =
     and_then (revoke_active_credentials ticketId now db) (\<lambda>db1.
     and_then (update_ticket ticketId (revoke_ticket_row reason None now) db1) (\<lambda>db2.
     create_audit (audit_row ticketId None TicketAuditAction.REVOKED (Some reason) now) db2))"

end
