(* ===== verification/Dispute_Rules.thy ===== *)
theory Dispute_Rules
  imports Review_Machine
begin

text \<open>
  The pure dispute rules of src/features/disputes/lifecycle.ts: what a verified provider
  event does to a dispute, what a dispute does to a ticket, and the overlap of refund and
  chargeback.
\<close>

definition DISPUTE_TERMINAL_STATUSES :: "DisputeStatus list" where
  "DISPUTE_TERMINAL_STATUSES = [DisputeStatus.WON, DisputeStatus.LOST, DisputeStatus.CLOSED]"

definition DISPUTE_OPEN_STATUSES :: "DisputeStatus list" where
  "DISPUTE_OPEN_STATUSES = [DisputeStatus.OPEN, DisputeStatus.NEEDS_RESPONSE, DisputeStatus.UNDER_REVIEW]"

definition isTerminalDisputeStatus :: "DisputeStatus \<Rightarrow> bool" where
  "isTerminalDisputeStatus status = List.member DISPUTE_TERMINAL_STATUSES status"

definition isOpenDisputeStatus :: "DisputeStatus \<Rightarrow> bool" where
  "isOpenDisputeStatus status = List.member DISPUTE_OPEN_STATUSES status"

definition outcomeForTerminalStatus :: "DisputeStatus \<Rightarrow> DisputeOutcome option" where
  "outcomeForTerminalStatus status =
     (if status = DisputeStatus.WON then Some DisputeOutcome.WON
      else if status = DisputeStatus.LOST then Some DisputeOutcome.LOST
      else None)"

datatype DisputeTransitionDecision =
    APPLY DisputeStatus "DisputeOutcome option" | IGNORE string | REVIEW string

definition decideDisputeTransition :: "DisputeStatus \<Rightarrow> DisputeStatus \<Rightarrow> DisputeTransitionDecision" where
  "decideDisputeTransition current incoming =
     (if current = DisputeStatus.REQUIRES_REVIEW then IGNORE ''ALREADY_UNDER_REVIEW''
      else if current = incoming then IGNORE ''DUPLICATE_STATUS''
      else if incoming = DisputeStatus.REQUIRES_REVIEW then REVIEW ''PROVIDER_REQUESTED_REVIEW''
      else if isTerminalDisputeStatus current then
        (if isTerminalDisputeStatus incoming then REVIEW ''CONTRADICTORY_DISPUTE_OUTCOME''
         else IGNORE ''STALE_EVENT_AFTER_TERMINAL'')
      else APPLY incoming (outcomeForTerminalStatus incoming))"

lemma terminal_dispute_iff [simp]:
  "isTerminalDisputeStatus s \<longleftrightarrow> s \<in> {DisputeStatus.WON, DisputeStatus.LOST, DisputeStatus.CLOSED}"
  by (simp add: isTerminalDisputeStatus_def DISPUTE_TERMINAL_STATUSES_def)

lemma open_dispute_iff [simp]:
  "isOpenDisputeStatus s \<longleftrightarrow>
     s \<in> {DisputeStatus.OPEN, DisputeStatus.NEEDS_RESPONSE, DisputeStatus.UNDER_REVIEW}"
  by (simp add: isOpenDisputeStatus_def DISPUTE_OPEN_STATUSES_def)

declare decideDisputeTransition_def [decision_defs] outcomeForTerminalStatus_def [decision_defs]

definition dispute_step :: "DisputeStatus \<Rightarrow> DisputeStatus \<Rightarrow> DisputeStatus" where
  "dispute_step current incoming =
     (case decideDisputeTransition current incoming of
        APPLY status _ \<Rightarrow> status
      | IGNORE _ \<Rightarrow> current
      | REVIEW _ \<Rightarrow> DisputeStatus.REQUIRES_REVIEW)"

interpretation dispute_machine: review_machine dispute_step isTerminalDisputeStatus DisputeStatus.REQUIRES_REVIEW
  by unfold_locales (auto simp: dispute_step_def decision_defs)

lemma dispute_status_partition:
  "isOpenDisputeStatus s \<or> isTerminalDisputeStatus s \<or> s = DisputeStatus.REQUIRES_REVIEW"
  by (cases s) simp_all

datatype DisputeTicketPolicy = PRESERVE_ON_OPEN | REVOKE_ON_OPEN

datatype TicketConsequence = NO_ACTION string | REVOKE string | PRESERVE_USED string

definition decideDisputeTicketConsequence ::
  "DisputeStatus \<Rightarrow> TicketStatus \<Rightarrow> DisputeTicketPolicy option \<Rightarrow> TicketConsequence" where
  "decideDisputeTicketConsequence disputeStatus ticketStatus policyOption =
     (let policy = (case policyOption of None \<Rightarrow> PRESERVE_ON_OPEN | Some p \<Rightarrow> p)
      in if ticketStatus = TicketStatus.USED then PRESERVE_USED ''USED_TICKETS_REMAIN_HISTORICALLY_USED''
         else if ticketStatus = TicketStatus.REVOKED then NO_ACTION ''ALREADY_REVOKED''
         else if disputeStatus = DisputeStatus.LOST then REVOKE ''DISPUTE_LOST''
         else if isOpenDisputeStatus disputeStatus \<and> policy = REVOKE_ON_OPEN then REVOKE ''DISPUTE_OPENED''
         else NO_ACTION ''DISPUTE_DOES_NOT_AFFECT_ADMISSION'')"

lemma dispute_revokes_iff:
  "(\<exists>why. decideDisputeTicketConsequence d t policy = REVOKE why) \<longleftrightarrow>
     t = TicketStatus.ACTIVE \<and>
     (d = DisputeStatus.LOST \<or> isOpenDisputeStatus d \<and> policy = Some REVOKE_ON_OPEN)"
  by (cases t; cases policy) (auto simp: decideDisputeTicketConsequence_def Let_def)

record RefundDisputeOverlap =
  ovl_overlapping :: bool
  ovl_exceedsCaptured :: bool
  ovl_combinedMinor :: minor

definition detectRefundDisputeOverlap :: "minor \<Rightarrow> minor \<Rightarrow> minor \<Rightarrow> RefundDisputeOverlap" where
  "detectRefundDisputeOverlap succeededRefundMinor disputedAmountMinor capturedMinor =
     (let combined = succeededRefundMinor + disputedAmountMinor
      in \<lparr>ovl_overlapping = (succeededRefundMinor > 0 \<and> disputedAmountMinor > 0),
          ovl_exceedsCaptured = (combined > capturedMinor),
          ovl_combinedMinor = combined\<rparr>)"

end
