(* ===== verification/Refund_Settlement.thy ===== *)
theory Refund_Settlement
  imports Refund_Submission Ticket_Store Webhook_Service Dispute_Rules
begin

text \<open>
  What a verified refund event does (src/server/refunds/settlement-service.ts), and how it is
  stored and processed (src/server/payments/webhook-service.ts).
\<close>

section \<open>Tickets\<close>

fun revoke_refunded :: "time \<Rightarrow> Ticket list \<Rightarrow> nat \<Rightarrow> nat \<Rightarrow> database \<Rightarrow> service_error + database \<times> nat \<times> nat" where
  "revoke_refunded now [] revoked preserved db = Inr (db, revoked, preserved)"
| "revoke_refunded now (t # ts) revoked preserved db =
     (case decideRefundTicketConsequence (tk_status t) True of
        KEEP_TICKET _ \<Rightarrow>
          revoke_refunded now ts revoked (if tk_status t = TicketStatus.USED then preserved + 1 else preserved) db
      | REVOKE_TICKET reason \<Rightarrow>
          and_then (revoke_admission reason now (tk_id t) db) (revoke_refunded now ts (revoked + 1) preserved))"

definition refund_tickets :: "database \<Rightarrow> Refund \<Rightarrow> Ticket list" where
  "refund_tickets db r =
     select_rows (\<lambda>t. tk_bookingId t = ref_bookingId r
       \<and> (ref_scope r = SELECTED_SEATS \<longrightarrow>
            List.member (map rseat_bookingSeatId (seats_of_refund (db_refundSeats db) (ref_id r))) (tk_bookingSeatId t)))
       (db_tickets db)"

definition applyTicketConsequences :: "Refund \<Rightarrow> time \<Rightarrow> database \<Rightarrow> service_error + database \<times> nat \<times> nat" where
  "applyTicketConsequences r now db = revoke_refunded now (refund_tickets db r) 0 0 db"

section \<open>Settlement\<close>

definition review_refund_row :: "string \<Rightarrow> time \<Rightarrow> Refund \<Rightarrow> Refund" where
  "review_refund_row safeCode now r =
     r\<lparr>ref_status := RefundStatus.REQUIRES_REVIEW, ref_reviewRequiredAt := Some now, ref_safeFailureCode := Some safeCode,
       ref_version := ref_version r + 1\<rparr>"

definition markRefundUnderReview :: "Refund \<Rightarrow> string \<Rightarrow> time \<Rightarrow> database \<Rightarrow> service_error + database" where
  "markRefundUnderReview r safeCode now db =
     and_then (update_refund (ref_id r) (review_refund_row safeCode now) db) (\<lambda>db1.
     and_then (update_order (ref_orderId r) (\<lambda>o'. o'\<lparr>ord_financialReviewState := REFUND_REVIEW\<rparr>) db1) (\<lambda>db2.
     Inr (enqueueFinancialEvent (refund_event FinancialOutboxEventType.REFUND_REQUIRES_REVIEW (''refund-review:'' @ ref_id r) r now) db2)))"

definition maybeMarkBookingFullyRefunded :: "ident \<Rightarrow> ident \<Rightarrow> time \<Rightarrow> database \<Rightarrow> service_error + database" where
  "maybeMarkBookingFullyRefunded bookingId paymentAttemptId now db =
     (case find_attempt db paymentAttemptId of
        None \<Rightarrow> Inl RecordNotFound
      | Some a \<Rightarrow>
          if pay_refundedMinor a < pay_amountMinor a then Inr db
          else (case find_booking db bookingId of
                  None \<Rightarrow> Inl RecordNotFound
                | Some b \<Rightarrow>
                    if bk_status b \<noteq> BookingStatus.CONFIRMED then Inr db
                    else update_booking bookingId
                           (\<lambda>b. b\<lparr>bk_status := BookingStatus.REFUNDED, bk_refundedAt := Some now\<rparr>) db))"

definition succeed_row :: "time \<Rightarrow> Refund \<Rightarrow> Refund" where
  "succeed_row now r =
     r\<lparr>ref_status := RefundStatus.SUCCEEDED, ref_succeededAt := Some now, ref_safeFailureCode := None,
       ref_version := ref_version r + 1\<rparr>"

record SettleInput =
  stl_webhookId :: ident
  stl_providerRefundId :: string
  stl_incomingStatus :: RefundStatus
  stl_amountMinor :: minor
  stl_currency :: Currency
  stl_occurredAt :: "time option"

definition effective_at :: "SettleInput \<Rightarrow> time \<Rightarrow> time" where
  "effective_at input now = (case stl_occurredAt input of None \<Rightarrow> now | Some t \<Rightarrow> t)"

definition settle_succeeded ::
  "(string \<Rightarrow> string) \<Rightarrow> SettleInput \<Rightarrow> Refund \<Rightarrow> time \<Rightarrow> database \<Rightarrow> service_error + database" where
  "settle_succeeded sha input r now db =
     and_then (update_refund (ref_id r) (succeed_row now) db) (\<lambda>db1.
     and_then (appendLedgerEntry sha (refund_entry LedgerEntryType.REFUND_SUCCEEDED r (stl_webhookId input)
         (Some (stl_providerRefundId input)) (effective_at input now)) db1) (\<lambda>db2.
     and_then (applyTicketConsequences r now db2) (\<lambda>(db3, revoked, _).
     and_then (maybeMarkBookingFullyRefunded (ref_bookingId r) (ref_paymentAttemptId r) now db3) (\<lambda>db4.
     let db5 = enqueueFinancialEvent (refund_event FinancialOutboxEventType.REFUND_SUCCEEDED
                 (''refund-succeeded:'' @ ref_id r) r now) db4
     in Inr (if 0 < revoked
             then enqueueFinancialEvent (refund_event TICKET_REVOCATION_REQUESTED (''refund-revocation:'' @ ref_id r) r now) db5
             else db5)))))"

definition settle_failed ::
  "(string \<Rightarrow> string) \<Rightarrow> SettleInput \<Rightarrow> Refund \<Rightarrow> time \<Rightarrow> database \<Rightarrow> service_error + database" where
  "settle_failed sha input r now db =
     and_then (update_refund (ref_id r) (fail_row ''PROVIDER_REPORTED_FAILURE'' now) db) (\<lambda>db1.
     and_then (appendLedgerEntry sha (refund_entry LedgerEntryType.REFUND_FAILED r (stl_webhookId input)
         (Some (stl_providerRefundId input)) (effective_at input now)) db1) (\<lambda>db2.
     Inr (enqueueFinancialEvent (refund_event FinancialOutboxEventType.REFUND_FAILED (''refund-failed:'' @ ref_id r) r now) db2)))"

text \<open>PROCESSING and the other advancing states, CANCELLED among them, share one update.\<close>

definition advance_row :: "RefundStatus \<Rightarrow> time \<Rightarrow> Refund \<Rightarrow> Refund" where
  "advance_row status now r =
     r\<lparr>ref_status := status, ref_submittedAt := Some now, ref_version := ref_version r + 1\<rparr>"

datatype RefundSettlementOutcome =
    SETTLEMENT_APPLIED RefundStatus | SETTLEMENT_IGNORED string | SETTLEMENT_REVIEW string | UNKNOWN_REFUND

definition settle_decided ::
  "(string \<Rightarrow> string) \<Rightarrow> SettleInput \<Rightarrow> Refund \<Rightarrow> RefundStatus \<Rightarrow> time \<Rightarrow> database \<Rightarrow> service_error + database" where
  "settle_decided sha input r status now db =
     (if status = RefundStatus.SUCCEEDED then settle_succeeded sha input r now db
      else if status = RefundStatus.FAILED then settle_failed sha input r now db
      else update_refund (ref_id r) (advance_row status now) db)"

definition applied_at :: "Refund \<Rightarrow> time option" where
  "applied_at r = (case ref_succeededAt r of None \<Rightarrow> ref_failedAt r | Some t \<Rightarrow> Some t)"

definition settle_refund ::
  "(string \<Rightarrow> string) \<Rightarrow> SettleInput \<Rightarrow> Refund \<Rightarrow> time \<Rightarrow> RefundSettlementOutcome tx" where
  "settle_refund sha input r now db =
     (if stl_amountMinor input \<noteq> ref_requestedAmountMinor r \<or> stl_currency input \<noteq> ref_currency r
      then and_then (markRefundUnderReview r ''REFUND_AMOUNT_OR_CURRENCY_MISMATCH'' now db)
             (\<lambda>db'. Inr (db', SETTLEMENT_REVIEW ''REFUND_AMOUNT_OR_CURRENCY_MISMATCH''))
      else if isStaleProviderEvent (applied_at r) (stl_occurredAt input)
      then Inr (db, SETTLEMENT_IGNORED ''STALE_PROVIDER_EVENT'')
      else (case decideRefundTransition (ref_status r) (stl_incomingStatus input) of
              RefundTransitionDecision.IGNORE reason \<Rightarrow> Inr (db, SETTLEMENT_IGNORED reason)
            | RefundTransitionDecision.REVIEW code \<Rightarrow>
                and_then (markRefundUnderReview r code now db) (\<lambda>db'. Inr (db', SETTLEMENT_REVIEW code))
            | RefundTransitionDecision.APPLY status \<Rightarrow>
                and_then (settle_decided sha input r status now db) (\<lambda>db'. Inr (db', SETTLEMENT_APPLIED status))))"

definition link_refund :: "ident \<Rightarrow> ident \<Rightarrow> database \<Rightarrow> service_error + database" where
  "link_refund webhookId refundId db =
     and_then (case find_webhook db webhookId of
                 None \<Rightarrow> Inl RecordNotFound
               | Some w \<Rightarrow> if set_once (wh_refundId w) (Some refundId) then Inr () else Inl (ConstraintViolation ''PaymentWebhookEvent''))
       (\<lambda>_. update_webhook webhookId (\<lambda>w. w\<lparr>wh_refundId := Some refundId\<rparr>) db)"

definition settleRefundFromVerifiedEvent ::
  "(string \<Rightarrow> string) \<Rightarrow> SettleInput \<Rightarrow> time \<Rightarrow> RefundSettlementOutcome tx" where
  "settleRefundFromVerifiedEvent sha input now db =
     (case find_row (\<lambda>r. ref_providerRefundId r = Some (stl_providerRefundId input)) (db_refunds db) of
        None \<Rightarrow> Inr (db, UNKNOWN_REFUND)
      | Some r \<Rightarrow> and_then (link_refund (stl_webhookId input) (ref_id r) db) (settle_refund sha input r now))"

section \<open>Refund webhooks\<close>

record NormalizedRefundWebhookEvent =
  nre_providerEventId :: string
  nre_eventType :: string
  nre_providerIntentId :: string
  nre_providerRefundId :: string
  nre_status :: RefundStatus
  nre_amountMinor :: minor
  nre_currency :: Currency
  nre_occurredAt :: "time option"

definition refund_envelope ::
  "ident \<Rightarrow> PaymentProviderName \<Rightarrow> NormalizedRefundWebhookEvent \<Rightarrow> ident option \<Rightarrow> time \<Rightarrow> PaymentWebhookEvent" where
  "refund_envelope webhookId provider event attemptId now =
     \<lparr>wh_id = webhookId, wh_provider = provider, wh_providerEventId = nre_providerEventId event,
      wh_eventType = nre_eventType event, wh_eventCategory = PaymentWebhookEventCategory.REFUND,
      wh_providerIntentId = nre_providerIntentId event, wh_paymentAttemptId = attemptId, wh_normalizedStatus = None,
      wh_normalizedRefundStatus = Some (nre_status event), wh_normalizedDisputeStatus = None,
      wh_providerRefundId = Some (nre_providerRefundId event), wh_providerDisputeId = None,
      wh_refundId = None, wh_disputeId = None, wh_amountMinor = nre_amountMinor event,
      wh_currency = nre_currency event, wh_signatureStatus = PaymentWebhookSignatureStatus.VERIFIED,
      wh_processingStatus = PaymentWebhookProcessingStatus.RECEIVED, wh_receivedAt = now, wh_processedAt = None,
      wh_providerOccurredAt = nre_occurredAt event, wh_attemptCount = 0, wh_safeProcessingError = None\<rparr>"

text \<open>The stored envelope: its identifier, and whether the event was stored before.\<close>

definition store_envelope :: "PaymentWebhookEvent \<Rightarrow> database \<Rightarrow> database \<times> ident \<times> bool" where
  "store_envelope w db =
     (case webhook_of_event db (wh_provider w) (wh_providerEventId w) of
        Some existing \<Rightarrow> (db, wh_id existing, True)
      | None \<Rightarrow> (db\<lparr>db_webhooks := insert_row w (db_webhooks db)\<rparr>, wh_id w, False))"

definition settle_input :: "PaymentWebhookEvent \<Rightarrow> string \<Rightarrow> RefundStatus \<Rightarrow> SettleInput" where
  "settle_input w providerRefundId status =
     \<lparr>stl_webhookId = wh_id w, stl_providerRefundId = providerRefundId, stl_incomingStatus = status,
      stl_amountMinor = wh_amountMinor w, stl_currency = wh_currency w, stl_occurredAt = wh_providerOccurredAt w\<rparr>"

definition finish_webhook :: "ident \<Rightarrow> string option \<Rightarrow> time \<Rightarrow> database \<Rightarrow> service_error + database" where
  "finish_webhook webhookId review now db =
     update_webhook webhookId (processed_webhook
       (case review of None \<Rightarrow> PaymentWebhookProcessingStatus.PROCESSED | Some _ \<Rightarrow> PaymentWebhookProcessingStatus.REQUIRES_REVIEW)
       now review) db"

fun refund_webhook_result :: "RefundSettlementOutcome \<Rightarrow> WebhookProcessingResult" where
  "refund_webhook_result (SETTLEMENT_APPLIED s) = REFUND_SETTLED s False"
| "refund_webhook_result (SETTLEMENT_REVIEW c) = REQUIRES_REVIEW_RESULT c False"
| "refund_webhook_result UNKNOWN_REFUND = REQUIRES_REVIEW_RESULT ''UNKNOWN_PROVIDER_REFUND'' False"
| "refund_webhook_result (SETTLEMENT_IGNORED r) = REFUND_IGNORED r False"

fun settlement_review :: "RefundSettlementOutcome \<Rightarrow> string option" where
  "settlement_review (SETTLEMENT_REVIEW c) = Some c"
| "settlement_review UNKNOWN_REFUND = Some ''UNKNOWN_PROVIDER_REFUND''"
| "settlement_review _ = None"

definition refund_webhook_transaction ::
  "(string \<Rightarrow> string) \<Rightarrow> ident \<Rightarrow> time \<Rightarrow> WebhookProcessingResult tx" where
  "refund_webhook_transaction sha webhookId now db =
     and_then (or_missing (find_webhook db webhookId)) (\<lambda>w.
       if webhook_processed w then Inr (db, REFUND_IGNORED ''ALREADY_PROCESSED'' True)
       else if wh_signatureStatus w \<noteq> PaymentWebhookSignatureStatus.VERIFIED then Inl PaymentWebhookSignatureError
       else (case (wh_providerRefundId w, wh_normalizedRefundStatus w) of
               (Some providerRefundId, Some status) \<Rightarrow>
                 if providerRefundId = [] then Inl PaymentWebhookValidationError
                 else and_then (settleRefundFromVerifiedEvent sha (settle_input w providerRefundId status) now db) (\<lambda>(db1, outcome).
                      and_then (finish_webhook webhookId (settlement_review outcome) now db1) (\<lambda>db2.
                      Inr (db2, refund_webhook_result outcome)))
             | _ \<Rightarrow> Inl PaymentWebhookValidationError))"

definition processVerifiedRefundRecord ::
  "(string \<Rightarrow> string) \<Rightarrow> ident \<Rightarrow> time \<Rightarrow> database \<Rightarrow> database \<times> (service_error + WebhookProcessingResult)" where
  "processVerifiedRefundRecord sha webhookId now db = transact (refund_webhook_transaction sha webhookId now) db"

fun result_duplicate :: "WebhookProcessingResult \<Rightarrow> bool" where
  "result_duplicate (BOOKED _ d) = d"
| "result_duplicate (PAYMENT_FAILED_RESULT d) = d"
| "result_duplicate (PENDING_RESULT d) = d"
| "result_duplicate (REQUIRES_REVIEW_RESULT _ d) = d"
| "result_duplicate (REFUND_SETTLED _ d) = d"
| "result_duplicate (REFUND_IGNORED _ d) = d"
| "result_duplicate (DISPUTE_RECORDED _ d) = d"
| "result_duplicate (DISPUTE_IGNORED _ d) = d"
| "result_duplicate (UNSUPPORTED_EVENT d) = d"

definition or_duplicate :: "bool \<Rightarrow> WebhookProcessingResult \<Rightarrow> WebhookProcessingResult" where
  "or_duplicate d r = with_duplicate (d \<or> result_duplicate r) r"

text \<open>A delivered refund event after the size and signature checks.\<close>

definition processRefundEvent ::
  "(string \<Rightarrow> string) \<Rightarrow> ident \<Rightarrow> PaymentProviderName \<Rightarrow> NormalizedRefundWebhookEvent \<Rightarrow> time \<Rightarrow> database
     \<Rightarrow> database \<times> (service_error + WebhookProcessingResult)" where
  "processRefundEvent sha freshId provider event now db =
     (let (db1, webhookId, duplicate) = store_envelope (refund_envelope freshId provider event
            (map_option pay_id (attempt_of_intent db provider (nre_providerIntentId event))) now) db
      in (case processVerifiedRefundRecord sha webhookId now db1 of
            (db2, Inl e) \<Rightarrow> (db2, Inl e)
          | (db2, Inr r) \<Rightarrow> (db2, Inr (or_duplicate duplicate r))))"

end
