(* ===== verification/Dispute_Service.thy ===== *)
theory Dispute_Service
  imports Refund_Settlement
begin

text \<open>
  Disputes and chargebacks (src/server/disputes/dispute-service.ts) with the rows PostgreSQL
  accepts for them (prisma/migrations/20260719120000_phase_5c2a_refunds_disputes_ledger), and the
  processing of verified dispute events (src/server/payments/webhook-service.ts).
\<close>

section \<open>Dispute rows\<close>

definition dispute_lifecycle :: "PaymentDispute \<Rightarrow> bool" where
  "dispute_lifecycle d \<longleftrightarrow>
     (case dsp_status d of
        DisputeStatus.WON \<Rightarrow> dsp_closedAt d \<noteq> None \<and> dsp_outcome d = Some DisputeOutcome.WON
      | DisputeStatus.LOST \<Rightarrow> dsp_closedAt d \<noteq> None \<and> dsp_outcome d = Some DisputeOutcome.LOST
      | DisputeStatus.CLOSED \<Rightarrow> dsp_closedAt d \<noteq> None \<and> dsp_outcome d \<noteq> None
      | DisputeStatus.REQUIRES_REVIEW \<Rightarrow> True
      | _ \<Rightarrow> dsp_closedAt d = None \<and> dsp_outcome d = None)"

definition dispute_row_ok :: "PaymentDispute \<Rightarrow> bool" where
  "dispute_row_ok d \<longleftrightarrow> 0 < dsp_disputedAmountMinor d \<and> provider_id_ok (Some (dsp_providerDisputeId d))
     \<and> not_before (dsp_openedAt d) (dsp_closedAt d) \<and> not_before (dsp_openedAt d) (dsp_evidenceDueAt d)
     \<and> dispute_lifecycle d"

definition dispute_update_ok :: "PaymentDispute \<Rightarrow> PaymentDispute \<Rightarrow> bool" where
  "dispute_update_ok old new \<longleftrightarrow>
     set_once (dsp_closedAt old) (dsp_closedAt new) \<and> set_once (dsp_outcome old) (dsp_outcome new)
     \<and> (dsp_status old = DisputeStatus.REQUIRES_REVIEW \<longrightarrow> dsp_status new = dsp_status old)
     \<and> (isTerminalDisputeStatus (dsp_status old) \<longrightarrow>
          dsp_status new = dsp_status old \<or> dsp_status new = DisputeStatus.REQUIRES_REVIEW)
     \<and> dispute_row_ok new"

definition update_dispute :: "ident \<Rightarrow> (PaymentDispute \<Rightarrow> PaymentDispute) \<Rightarrow> database \<Rightarrow> service_error + database" where
  "update_dispute disputeId f db =
     and_then (checked_update ''PaymentDispute'' (\<lambda>d. dsp_id d = disputeId) dispute_update_ok f (db_disputes db))
       (\<lambda>t. Inr (db\<lparr>db_disputes := t\<rparr>))"

definition dispute_ancestry :: "database \<Rightarrow> PaymentDispute \<Rightarrow> bool" where
  "dispute_ancestry db d \<longleftrightarrow>
     (case find_attempt db (dsp_paymentAttemptId d) of
        None \<Rightarrow> False
      | Some a \<Rightarrow> pay_orderId a = dsp_orderId d \<and> pay_provider a = dsp_provider d \<and> pay_currency a = dsp_currency d
          \<and> dsp_disputedAmountMinor d \<le> pay_amountMinor a)
     \<and> (case dsp_bookingId d of
          None \<Rightarrow> True
        | Some b \<Rightarrow> map_option bk_orderId (find_booking db b) = Some (dsp_orderId d))"

definition dispute_key :: "PaymentDispute \<Rightarrow> PaymentProviderName \<times> string" where
  "dispute_key d = (dsp_provider d, dsp_providerDisputeId d)"

definition create_dispute :: "PaymentDispute \<Rightarrow> database \<Rightarrow> service_error + database" where
  "create_dispute d db =
     (if \<not> dispute_ancestry db d \<or> \<not> dispute_row_ok d then Inl (ConstraintViolation ''PaymentDispute'')
      else if has_key dsp_id (dsp_id d) (db_disputes db) \<or> has_key dispute_key (dispute_key d) (db_disputes db)
           \<or> has_key dsp_publicReference (dsp_publicReference d) (db_disputes db)
      then Inl (UniqueViolation ''PaymentDispute'')
      else Inr (db\<lparr>db_disputes := insert_row d (db_disputes db)\<rparr>))"

section \<open>History\<close>

definition dispute_event_key :: "PaymentDisputeEvent \<Rightarrow> ident \<times> string" where
  "dispute_event_key e = (dev_disputeId e, dev_providerEventId e)"

definition appendDisputeEvent :: "PaymentDisputeEvent \<Rightarrow> database \<Rightarrow> database" where
  "appendDisputeEvent e db = db\<lparr>db_disputeEvents := insert_skip dispute_event_key e (db_disputeEvents db)\<rparr>"

record DisputeEventInput =
  dei_webhookId :: ident
  dei_providerEventId :: string
  dei_eventType :: string
  dei_providerIntentId :: string
  dei_providerDisputeId :: string
  dei_status :: DisputeStatus
  dei_reasonCategory :: DisputeReasonCategory
  dei_amountMinor :: minor
  dei_currency :: Currency
  dei_occurredAt :: "time option"
  dei_evidenceDueAt :: "time option"

definition dei_effectiveAt :: "DisputeEventInput \<Rightarrow> time \<Rightarrow> time" where
  "dei_effectiveAt input now = (case dei_occurredAt input of None \<Rightarrow> now | Some t \<Rightarrow> t)"

definition dispute_event ::
  "DisputeEventInput \<Rightarrow> ident \<Rightarrow> DisputeStatus option \<Rightarrow> DisputeStatus \<Rightarrow> string option \<Rightarrow> time \<Rightarrow> PaymentDisputeEvent" where
  "dispute_event input disputeId previous new note now =
     \<lparr>dev_disputeId = disputeId, dev_providerEventId = dei_providerEventId input,
      dev_eventType = take 120 (dei_eventType input), dev_previousStatus = previous, dev_newStatus = new,
      dev_effectiveAt = dei_effectiveAt input now, dev_note = note\<rparr>"

section \<open>Ledger and consequences\<close>

fun LEDGER_TYPE_BY_STATUS :: "DisputeStatus \<Rightarrow> LedgerEntryType option" where
  "LEDGER_TYPE_BY_STATUS DisputeStatus.OPEN = Some LedgerEntryType.DISPUTE_OPENED"
| "LEDGER_TYPE_BY_STATUS DisputeStatus.NEEDS_RESPONSE = Some LedgerEntryType.DISPUTE_UPDATED"
| "LEDGER_TYPE_BY_STATUS DisputeStatus.UNDER_REVIEW = Some LedgerEntryType.DISPUTE_UPDATED"
| "LEDGER_TYPE_BY_STATUS DisputeStatus.WON = Some LedgerEntryType.DISPUTE_WON"
| "LEDGER_TYPE_BY_STATUS DisputeStatus.LOST = Some LedgerEntryType.DISPUTE_LOST"
| "LEDGER_TYPE_BY_STATUS DisputeStatus.CLOSED = Some LedgerEntryType.DISPUTE_UPDATED"
| "LEDGER_TYPE_BY_STATUS DisputeStatus.REQUIRES_REVIEW = None"

text \<open>Everything the record of a dispute status needs, read before it.\<close>

record dispute_context =
  dcx_disputeId :: ident
  dcx_status :: DisputeStatus
  dcx_orderId :: ident
  dcx_paymentAttemptId :: ident
  dcx_bookingId :: "ident option"
  dcx_amountMinor :: minor
  dcx_currency :: Currency
  dcx_provider :: PaymentProviderName
  dcx_webhookId :: ident
  dcx_providerDisputeId :: string
  dcx_effectiveAt :: time
  dcx_capturedMinor :: minor
  dcx_refundedMinor :: minor

definition dispute_entry :: "LedgerEntryType \<Rightarrow> string \<Rightarrow> dispute_context \<Rightarrow> AppendLedgerEntryInput" where
  "dispute_entry entryType causeKey x =
     \<lparr>ali_entryType = entryType, ali_amountMinor = dcx_amountMinor x, ali_currency = dcx_currency x,
      ali_orderId = dcx_orderId x, ali_paymentAttemptId = dcx_paymentAttemptId x, ali_bookingId = dcx_bookingId x,
      ali_refundId = None, ali_disputeId = Some (dcx_disputeId x), ali_provider = dcx_provider x,
      ali_causeKey = causeKey, ali_providerReference = Some (dcx_providerDisputeId x),
      ali_effectiveAt = dcx_effectiveAt x\<rparr>"

definition dispute_outbox :: "FinancialOutboxEventType \<Rightarrow> string \<Rightarrow> ident \<Rightarrow> ident \<Rightarrow> ident option \<Rightarrow> time \<Rightarrow> FinancialOutbox" where
  "dispute_outbox eventType key disputeId orderId bookingId now =
     \<lparr>fin_eventType = eventType, fin_aggregateId = Some disputeId, fin_orderId = Some orderId, fin_refundId = None,
      fin_disputeId = Some disputeId, fin_bookingId = bookingId, fin_deduplicationKey = key, fin_availableAt = now\<rparr>"

fun revoke_disputed :: "time \<Rightarrow> Ticket list \<Rightarrow> database \<Rightarrow> service_error + database" where
  "revoke_disputed now [] db = Inr db"
| "revoke_disputed now (t # ts) db =
     (case decideDisputeTicketConsequence DisputeStatus.LOST (tk_status t) None of
        REVOKE reason \<Rightarrow> and_then (revoke_admission reason now (tk_id t) db) (revoke_disputed now ts)
      | _ \<Rightarrow> revoke_disputed now ts db)"

definition revokeUnusedTicketsForLostDispute :: "ident \<Rightarrow> time \<Rightarrow> database \<Rightarrow> service_error + database" where
  "revokeUnusedTicketsForLostDispute bookingId now db =
     revoke_disputed now (select_rows (\<lambda>t. tk_bookingId t = bookingId) (db_tickets db)) db"

definition flag_order :: "ident \<Rightarrow> FinancialReviewState \<Rightarrow> database \<Rightarrow> service_error + database" where
  "flag_order orderId state db = update_order orderId (\<lambda>o'. o'\<lparr>ord_financialReviewState := state\<rparr>) db"

definition raise_overlap :: "dispute_context \<Rightarrow> time \<Rightarrow> database \<Rightarrow> service_error + database" where
  "raise_overlap x now db =
     (let overlap = detectRefundDisputeOverlap (dcx_refundedMinor x) (dcx_amountMinor x) (dcx_capturedMinor x)
      in if \<not> ovl_overlapping overlap then Inr db
         else and_then (flag_order (dcx_orderId x)
                (if ovl_exceedsCaptured overlap then CHARGEBACK_REVIEW else DISPUTE_REVIEW) db) (\<lambda>db1.
              Inr (enqueueFinancialEvent (dispute_outbox FINANCIAL_RECONCILIATION_REQUIRED
                (''refund-dispute-overlap:'' @ dcx_disputeId x) (dcx_disputeId x) (dcx_orderId x) (dcx_bookingId x) now) db1)))"

definition record_chargeback :: "(string \<Rightarrow> string) \<Rightarrow> dispute_context \<Rightarrow> time \<Rightarrow> database \<Rightarrow> service_error + database" where
  "record_chargeback sha x now db =
     (if dcx_status x \<noteq> DisputeStatus.LOST then Inr db
      else and_then (appendLedgerEntry sha
             (dispute_entry LedgerEntryType.CHARGEBACK_RECORDED (dcx_webhookId x @ '':chargeback'') x) db) (\<lambda>db1.
           and_then (flag_order (dcx_orderId x) CHARGEBACK_REVIEW db1) (\<lambda>db2.
           and_then (case dcx_bookingId x of None \<Rightarrow> Inr db2
                     | Some b \<Rightarrow> revokeUnusedTicketsForLostDispute b now db2) (\<lambda>db3.
           Inr (enqueueFinancialEvent (dispute_outbox FinancialOutboxEventType.CHARGEBACK_RECORDED
             (''chargeback:'' @ dcx_disputeId x) (dcx_disputeId x) (dcx_orderId x) (dcx_bookingId x) now) db3)))))"

fun dispute_outbox_type :: "DisputeStatus \<Rightarrow> FinancialOutboxEventType \<times> string" where
  "dispute_outbox_type DisputeStatus.WON = (FinancialOutboxEventType.DISPUTE_WON, ''dispute_won'')"
| "dispute_outbox_type DisputeStatus.LOST = (FinancialOutboxEventType.DISPUTE_LOST, ''dispute_lost'')"
| "dispute_outbox_type DisputeStatus.OPEN = (FinancialOutboxEventType.DISPUTE_OPENED, ''dispute_opened'')"
| "dispute_outbox_type _ = (FinancialOutboxEventType.DISPUTE_UPDATED, ''dispute_updated'')"

definition recordDisputeLedgerAndConsequences ::
  "(string \<Rightarrow> string) \<Rightarrow> dispute_context \<Rightarrow> time \<Rightarrow> database \<Rightarrow> service_error + database" where
  "recordDisputeLedgerAndConsequences sha x now db =
     and_then (case LEDGER_TYPE_BY_STATUS (dcx_status x) of
                 None \<Rightarrow> Inr db
               | Some entryType \<Rightarrow> appendLedgerEntry sha (dispute_entry entryType (dcx_webhookId x) x) db) (\<lambda>db1.
     and_then (raise_overlap x now db1) (\<lambda>db2.
     and_then (record_chargeback sha x now db2) (\<lambda>db3.
     let (eventType, name) = dispute_outbox_type (dcx_status x)
     in Inr (enqueueFinancialEvent (dispute_outbox eventType
          (''dispute-'' @ name @ '':'' @ dcx_disputeId x @ '':'' @ dcx_webhookId x)
          (dcx_disputeId x) (dcx_orderId x) (dcx_bookingId x) now) db3))))"

section \<open>Opening and advancing\<close>

record dispute_draw =
  dd_disputeId :: ident
  dd_publicReference :: string

definition new_dispute :: "dispute_draw \<Rightarrow> DisputeEventInput \<Rightarrow> PaymentAttempt \<Rightarrow> ident option \<Rightarrow> time \<Rightarrow> PaymentDispute" where
  "new_dispute draw input a bookingId now =
     \<lparr>dsp_id = dd_disputeId draw, dsp_publicReference = dd_publicReference draw, dsp_paymentAttemptId = pay_id a,
      dsp_orderId = pay_orderId a, dsp_bookingId = bookingId, dsp_provider = pay_provider a,
      dsp_providerDisputeId = dei_providerDisputeId input, dsp_status = dei_status input,
      dsp_reasonCategory = dei_reasonCategory input, dsp_disputedAmountMinor = dei_amountMinor input,
      dsp_currency = dei_currency input, dsp_openedAt = dei_effectiveAt input now,
      dsp_evidenceDueAt = dei_evidenceDueAt input,
      dsp_closedAt = (if isTerminalDisputeStatus (dei_status input) then Some now else None),
      dsp_outcome = (if dei_status input = DisputeStatus.WON then Some DisputeOutcome.WON
                     else if dei_status input = DisputeStatus.LOST then Some DisputeOutcome.LOST else None),
      dsp_safeProviderStatus = Some (take 80 (dei_eventType input)), dsp_version = 0\<rparr>"

definition link_dispute :: "ident \<Rightarrow> ident \<Rightarrow> database \<Rightarrow> service_error + database" where
  "link_dispute webhookId disputeId db =
     and_then (case find_webhook db webhookId of
                 None \<Rightarrow> Inl RecordNotFound
               | Some w \<Rightarrow> if set_once (wh_disputeId w) (Some disputeId) then Inr () else Inl (ConstraintViolation ''PaymentWebhookEvent''))
       (\<lambda>_. update_webhook webhookId (\<lambda>w. w\<lparr>wh_disputeId := Some disputeId\<rparr>) db)"

definition event_context ::
  "DisputeEventInput \<Rightarrow> PaymentAttempt \<Rightarrow> PaymentDispute \<Rightarrow> DisputeStatus \<Rightarrow> time \<Rightarrow> dispute_context" where
  "event_context input a d status now =
     \<lparr>dcx_disputeId = dsp_id d, dcx_status = status, dcx_orderId = dsp_orderId d,
      dcx_paymentAttemptId = dsp_paymentAttemptId d, dcx_bookingId = dsp_bookingId d,
      dcx_amountMinor = dsp_disputedAmountMinor d, dcx_currency = dsp_currency d, dcx_provider = pay_provider a,
      dcx_webhookId = dei_webhookId input, dcx_providerDisputeId = dei_providerDisputeId input,
      dcx_effectiveAt = dei_effectiveAt input now, dcx_capturedMinor = pay_amountMinor a,
      dcx_refundedMinor = pay_refundedMinor a\<rparr>"

definition openDispute ::
  "(string \<Rightarrow> string) \<Rightarrow> dispute_draw \<Rightarrow> DisputeEventInput \<Rightarrow> PaymentAttempt \<Rightarrow> ident option \<Rightarrow> time
     \<Rightarrow> database \<Rightarrow> service_error + database" where
  "openDispute sha draw input a bookingId now db =
     (let d = new_dispute draw input a bookingId now
      in and_then (create_dispute d db) (\<lambda>db1.
         and_then (link_dispute (dei_webhookId input) (dsp_id d) db1) (\<lambda>db2.
         and_then (flag_order (dsp_orderId d) DISPUTE_REVIEW
             (appendDisputeEvent (dispute_event input (dsp_id d) None (dei_status input) None now) db2)) (\<lambda>db3.
         and_then (case bookingId of None \<Rightarrow> Inr db3
                   | Some b \<Rightarrow> update_booking b (\<lambda>b. b\<lparr>bk_financialReviewState := DISPUTE_REVIEW\<rparr>) db3) (\<lambda>db4.
         recordDisputeLedgerAndConsequences sha (event_context input a d (dei_status input) now) now db4)))))"

datatype DisputeProcessingOutcome =
    DISPUTE_OPENED_OUTCOME ident | DISPUTE_APPLIED ident DisputeStatus
  | DISPUTE_IGNORED_OUTCOME ident string | DISPUTE_REVIEWED ident string | UNKNOWN_PAYMENT

definition review_dispute ::
  "DisputeEventInput \<Rightarrow> PaymentDispute \<Rightarrow> string \<Rightarrow> time \<Rightarrow> database \<Rightarrow> service_error + database" where
  "review_dispute input d code now db =
     and_then (update_dispute (dsp_id d)
       (\<lambda>d. d\<lparr>dsp_status := DisputeStatus.REQUIRES_REVIEW, dsp_safeProviderStatus := Some code, dsp_version := dsp_version d + 1\<rparr>) db) (\<lambda>db1.
     and_then (flag_order (dsp_orderId d) DISPUTE_REVIEW db1) (\<lambda>db2.
     Inr (enqueueFinancialEvent (dispute_outbox FINANCIAL_RECONCILIATION_REQUIRED (''dispute-review:'' @ dsp_id d)
            (dsp_id d) (dsp_orderId d) (dsp_bookingId d) now)
          (appendDisputeEvent (dispute_event input (dsp_id d) (Some (dsp_status d)) DisputeStatus.REQUIRES_REVIEW (Some code) now) db2))))"

definition advance_dispute ::
  "(string \<Rightarrow> string) \<Rightarrow> DisputeEventInput \<Rightarrow> PaymentAttempt \<Rightarrow> PaymentDispute \<Rightarrow> DisputeStatus \<Rightarrow> DisputeOutcome option
     \<Rightarrow> time \<Rightarrow> database \<Rightarrow> service_error + database" where
  "advance_dispute sha input a d status result now db =
     and_then (update_dispute (dsp_id d)
       (\<lambda>d. d\<lparr>dsp_status := status, dsp_outcome := result,
              dsp_closedAt := (if isTerminalDisputeStatus status then Some now else None),
              dsp_safeProviderStatus := Some (take 80 (dei_eventType input)),
              dsp_evidenceDueAt := (case dei_evidenceDueAt input of None \<Rightarrow> dsp_evidenceDueAt d | Some t \<Rightarrow> Some t),
              dsp_version := dsp_version d + 1\<rparr>) db) (\<lambda>db1.
     recordDisputeLedgerAndConsequences sha (event_context input a d status now) now
       (appendDisputeEvent (dispute_event input (dsp_id d) (Some (dsp_status d)) status None now) db1))"

definition apply_to_dispute ::
  "(string \<Rightarrow> string) \<Rightarrow> DisputeEventInput \<Rightarrow> PaymentAttempt \<Rightarrow> PaymentDispute \<Rightarrow> time \<Rightarrow> DisputeProcessingOutcome tx" where
  "apply_to_dispute sha input a d now db =
     and_then (link_dispute (dei_webhookId input) (dsp_id d) db) (\<lambda>db1.
       (case decideDisputeTransition (dsp_status d) (dei_status input) of
          DisputeTransitionDecision.IGNORE reason \<Rightarrow>
            Inr (appendDisputeEvent (dispute_event input (dsp_id d) (Some (dsp_status d)) (dsp_status d) (Some reason) now) db1,
                 DISPUTE_IGNORED_OUTCOME (dsp_id d) reason)
        | DisputeTransitionDecision.REVIEW code \<Rightarrow>
            and_then (review_dispute input d code now db1) (\<lambda>db2. Inr (db2, DISPUTE_REVIEWED (dsp_id d) code))
        | DisputeTransitionDecision.APPLY status result \<Rightarrow>
            and_then (advance_dispute sha input a d status result now db1) (\<lambda>db2. Inr (db2, DISPUTE_APPLIED (dsp_id d) status))))"

definition applyDisputeFromVerifiedEvent ::
  "(string \<Rightarrow> string) \<Rightarrow> dispute_draw \<Rightarrow> DisputeEventInput \<Rightarrow> time \<Rightarrow> DisputeProcessingOutcome tx" where
  "applyDisputeFromVerifiedEvent sha draw input now db =
     (case find_row (\<lambda>a. pay_providerIntentId a = Some (dei_providerIntentId input)) (db_attempts db) of
        None \<Rightarrow> Inr (db, UNKNOWN_PAYMENT)
      | Some a \<Rightarrow>
          (case find_row (\<lambda>d. dispute_key d = (pay_provider a, dei_providerDisputeId input)) (db_disputes db) of
             None \<Rightarrow>
               and_then (openDispute sha draw input a (map_option bk_id (booking_of_order db (pay_orderId a))) now db)
                 (\<lambda>db'. Inr (db', DISPUTE_OPENED_OUTCOME (dd_disputeId draw)))
           | Some d \<Rightarrow> apply_to_dispute sha input a d now db))"

section \<open>Dispute webhooks\<close>

record NormalizedDisputeWebhookEvent =
  nde_providerEventId :: string
  nde_eventType :: string
  nde_providerIntentId :: string
  nde_providerDisputeId :: string
  nde_status :: DisputeStatus
  nde_amountMinor :: minor
  nde_currency :: Currency
  nde_occurredAt :: "time option"

definition dispute_envelope ::
  "ident \<Rightarrow> PaymentProviderName \<Rightarrow> NormalizedDisputeWebhookEvent \<Rightarrow> ident option \<Rightarrow> time \<Rightarrow> PaymentWebhookEvent" where
  "dispute_envelope webhookId provider event attemptId now =
     \<lparr>wh_id = webhookId, wh_provider = provider, wh_providerEventId = nde_providerEventId event,
      wh_eventType = nde_eventType event, wh_eventCategory = PaymentWebhookEventCategory.DISPUTE,
      wh_providerIntentId = nde_providerIntentId event, wh_paymentAttemptId = attemptId, wh_normalizedStatus = None,
      wh_normalizedRefundStatus = None, wh_normalizedDisputeStatus = Some (nde_status event),
      wh_providerRefundId = None, wh_providerDisputeId = Some (nde_providerDisputeId event),
      wh_refundId = None, wh_disputeId = None, wh_amountMinor = nde_amountMinor event,
      wh_currency = nde_currency event, wh_signatureStatus = PaymentWebhookSignatureStatus.VERIFIED,
      wh_processingStatus = PaymentWebhookProcessingStatus.RECEIVED, wh_receivedAt = now, wh_processedAt = None,
      wh_providerOccurredAt = nde_occurredAt event, wh_attemptCount = 0, wh_safeProcessingError = None\<rparr>"

definition dispute_input :: "PaymentWebhookEvent \<Rightarrow> string \<Rightarrow> DisputeStatus \<Rightarrow> DisputeEventInput" where
  "dispute_input w providerDisputeId status =
     \<lparr>dei_webhookId = wh_id w, dei_providerEventId = wh_providerEventId w, dei_eventType = wh_eventType w,
      dei_providerIntentId = wh_providerIntentId w, dei_providerDisputeId = providerDisputeId, dei_status = status,
      dei_reasonCategory = UNRECOGNIZED, dei_amountMinor = wh_amountMinor w, dei_currency = wh_currency w,
      dei_occurredAt = wh_providerOccurredAt w, dei_evidenceDueAt = None\<rparr>"

fun dispute_review :: "DisputeProcessingOutcome \<Rightarrow> string option" where
  "dispute_review (DISPUTE_REVIEWED _ c) = Some c"
| "dispute_review UNKNOWN_PAYMENT = Some ''UNKNOWN_PAYMENT_INTENT''"
| "dispute_review _ = None"

fun dispute_webhook_result :: "DisputeProcessingOutcome \<Rightarrow> WebhookProcessingResult" where
  "dispute_webhook_result (DISPUTE_OPENED_OUTCOME _) = DISPUTE_RECORDED DisputeStatus.OPEN False"
| "dispute_webhook_result (DISPUTE_APPLIED _ s) = DISPUTE_RECORDED s False"
| "dispute_webhook_result (DISPUTE_REVIEWED _ c) = REQUIRES_REVIEW_RESULT c False"
| "dispute_webhook_result UNKNOWN_PAYMENT = REQUIRES_REVIEW_RESULT ''UNKNOWN_PAYMENT_INTENT'' False"
| "dispute_webhook_result (DISPUTE_IGNORED_OUTCOME _ r) = DISPUTE_IGNORED r False"

definition dispute_webhook_transaction ::
  "(string \<Rightarrow> string) \<Rightarrow> dispute_draw \<Rightarrow> ident \<Rightarrow> time \<Rightarrow> WebhookProcessingResult tx" where
  "dispute_webhook_transaction sha draw webhookId now db =
     and_then (or_missing (find_webhook db webhookId)) (\<lambda>w.
       if webhook_processed w then Inr (db, DISPUTE_IGNORED ''ALREADY_PROCESSED'' True)
       else if wh_signatureStatus w \<noteq> PaymentWebhookSignatureStatus.VERIFIED then Inl PaymentWebhookSignatureError
       else (case (wh_providerDisputeId w, wh_normalizedDisputeStatus w) of
               (Some providerDisputeId, Some status) \<Rightarrow>
                 if providerDisputeId = [] then Inl PaymentWebhookValidationError
                 else and_then (applyDisputeFromVerifiedEvent sha draw (dispute_input w providerDisputeId status) now db) (\<lambda>(db1, outcome).
                      and_then (finish_webhook webhookId (dispute_review outcome) now db1) (\<lambda>db2.
                      Inr (db2, dispute_webhook_result outcome)))
             | _ \<Rightarrow> Inl PaymentWebhookValidationError))"

definition processVerifiedDisputeRecord ::
  "(string \<Rightarrow> string) \<Rightarrow> dispute_draw \<Rightarrow> ident \<Rightarrow> time \<Rightarrow> database \<Rightarrow> database \<times> (service_error + WebhookProcessingResult)" where
  "processVerifiedDisputeRecord sha draw webhookId now db = transact (dispute_webhook_transaction sha draw webhookId now) db"

definition processDisputeEvent ::
  "(string \<Rightarrow> string) \<Rightarrow> dispute_draw \<Rightarrow> ident \<Rightarrow> PaymentProviderName \<Rightarrow> NormalizedDisputeWebhookEvent \<Rightarrow> time \<Rightarrow> database
     \<Rightarrow> database \<times> (service_error + WebhookProcessingResult)" where
  "processDisputeEvent sha draw freshId provider event now db =
     (let (db1, webhookId, duplicate) = store_envelope (dispute_envelope freshId provider event
            (map_option pay_id (attempt_of_intent db provider (nde_providerIntentId event))) now) db
      in (case processVerifiedDisputeRecord sha draw webhookId now db1 of
            (db2, Inl e) \<Rightarrow> (db2, Inl e)
          | (db2, Inr r) \<Rightarrow> (db2, Inr (or_duplicate duplicate r))))"

section \<open>One entry point for every event\<close>

datatype NormalizedWebhookEvent =
    PAYMENT_EVENT NormalizedPaymentWebhookEvent
  | REFUND_EVENT NormalizedRefundWebhookEvent
  | DISPUTE_EVENT NormalizedDisputeWebhookEvent
  | UNSUPPORTED string string

text \<open>
  \<open>verify\<close> checks the signature over the body, \<open>parseEvent\<close> parses it (\<open>None\<close> when it throws): both
  belong to the provider adapter. A body that is too long or badly signed is refused first.
\<close>

definition processPaymentWebhook ::
  "('body \<Rightarrow> int) \<Rightarrow> js_number option \<Rightarrow> ('body \<Rightarrow> bool) \<Rightarrow> ('body \<Rightarrow> NormalizedWebhookEvent option) \<Rightarrow> (string \<Rightarrow> string)
     \<Rightarrow> (ident \<Rightarrow> database \<Rightarrow> database) option \<Rightarrow> booking_draw \<Rightarrow> dispute_draw \<Rightarrow> ident \<Rightarrow> PaymentProviderName
     \<Rightarrow> 'body \<Rightarrow> time \<Rightarrow> database \<Rightarrow> database \<times> (service_error + WebhookProcessingResult)" where
  "processPaymentWebhook bodyLength maximumBytes verify parseEvent sha issueTickets bdraw ddraw freshId provider body now db =
     (case assertPaymentWebhookPayloadSize (bodyLength body) maximumBytes of
        Inl e \<Rightarrow> (db, Inl e)
      | Inr _ \<Rightarrow>
          if \<not> verify body then (db, Inl PaymentWebhookSignatureError)
          else (case parseEvent body of
              None \<Rightarrow> (db, Inl PaymentWebhookValidationError)
            | Some (UNSUPPORTED _ _) \<Rightarrow> (db, Inr (UNSUPPORTED_EVENT False))
            | Some (PAYMENT_EVENT event) \<Rightarrow> processPaymentEvent issueTickets bdraw freshId provider event now db
            | Some (REFUND_EVENT event) \<Rightarrow> processRefundEvent sha freshId provider event now db
            | Some (DISPUTE_EVENT event) \<Rightarrow> processDisputeEvent sha ddraw freshId provider event now db))"

end
