(* ===== verification/Ticket_Service.thy ===== *)
theory Ticket_Service
  imports Ticket_Store Hold_Service "HOL-Library.Product_Lexorder"
begin

text \<open>
  Tickets after a booking: issuance (src/server/tickets/issuance-service.ts), entry validation
  (validation-service.ts, scanner-authorization.ts), rotation and revocation by an operator
  (management-service.ts) and the one-time download grants (download-grant-service.ts; drawing
  the PDF is left out). The identifiers and random references a call draws are functions of
  what they are drawn for.
\<close>

section \<open>Issuance\<close>

record ticket_draw =
  td_ticketId :: "ident \<Rightarrow> ident"
  td_ticketReference :: "ident \<Rightarrow> string"
  td_credentialId :: "ident \<Rightarrow> int \<Rightarrow> ident"
  td_notificationId :: ident

definition ticket_of_seat :: "database \<Rightarrow> ident \<Rightarrow> Ticket option" where
  "ticket_of_seat db seatId = find_row (\<lambda>t. tk_bookingSeatId t = seatId) (db_tickets db)"

definition new_ticket :: "ticket_draw \<Rightarrow> Booking \<Rightarrow> ident \<Rightarrow> time \<Rightarrow> Ticket" where
  "new_ticket draw b seatId now =
     \<lparr>tk_id = td_ticketId draw seatId, tk_publicReference = td_ticketReference draw seatId, tk_bookingId = bk_id b,
      tk_bookingSeatId = seatId, tk_userId = bk_userId b, tk_organizationId = bk_organizationId b,
      tk_eventId = bk_eventId b, tk_sessionId = bk_sessionId b, tk_status = TicketStatus.ACTIVE, tk_issuedAt = now,
      tk_revokedAt = None, tk_revocationReason = None, tk_revokedByUserId = None, tk_lastCredentialRotationAt = None\<rparr>"

text \<open>The ticket of a seat, made when it is missing.\<close>

definition ensure_ticket ::
  "ticket_draw \<Rightarrow> Booking \<Rightarrow> ident \<Rightarrow> time \<Rightarrow> database \<Rightarrow> service_error + database \<times> Ticket \<times> nat" where
  "ensure_ticket draw b seatId now db =
     (case ticket_of_seat db seatId of
        Some t \<Rightarrow> Inr (db, t, 0)
      | None \<Rightarrow>
          let t = new_ticket draw b seatId now
          in and_then (create_ticket t db) (\<lambda>db1.
             and_then (create_audit (audit_row (tk_id t) None ISSUED None now) db1) (\<lambda>db2.
             Inr (db2, t, 1))))"

definition latest_version :: "database \<Rightarrow> ident \<Rightarrow> int" where
  "latest_version db ticketId =
     fold max (map cred_version (select_rows (\<lambda>c. cred_ticketId c = ticketId) (db_credentials db))) 0"

definition new_credential :: "ident \<Rightarrow> ident \<Rightarrow> int \<Rightarrow> string \<Rightarrow> time \<Rightarrow> TicketCredential" where
  "new_credential credentialId ticketId version hash now =
     \<lparr>cred_id = credentialId, cred_ticketId = ticketId, cred_version = version, cred_credentialHash = hash,
      cred_status = TicketCredentialStatus.ACTIVE, cred_issuedAt = now, cred_revokedAt = None, cred_replacedAt = None,
      cred_usedAt = None, cred_replacementCredentialId = None\<rparr>"

definition issue_credential ::
  "hmac \<Rightarrow> hmac \<Rightarrow> string \<Rightarrow> ticket_draw \<Rightarrow> Ticket \<Rightarrow> int \<Rightarrow> time \<Rightarrow> database \<Rightarrow> service_error + database" where
  "issue_credential hmac64 hmac16 secret draw t version now db =
     and_then (deriveTicketCredential hmac64 secret (tk_publicReference t) version) (\<lambda>credential.
     and_then (hashTicketCredential hmac16 secret credential) (\<lambda>hash.
     create_credential (new_credential (td_credentialId draw (tk_id t) version) (tk_id t) version hash now) db))"

definition ensure_credential ::
  "hmac \<Rightarrow> hmac \<Rightarrow> string \<Rightarrow> ticket_draw \<Rightarrow> Ticket \<Rightarrow> time \<Rightarrow> database \<Rightarrow> service_error + database \<times> nat" where
  "ensure_credential hmac64 hmac16 secret draw t now db =
     (if list_ex (active_credential (tk_id t)) (db_credentials db) \<or> tk_status t \<noteq> TicketStatus.ACTIVE then Inr (db, 0)
      else and_then (issue_credential hmac64 hmac16 secret draw t (latest_version db (tk_id t) + 1) now db)
             (\<lambda>db1. Inr (db1, 1)))"

fun issue_seats ::
  "hmac \<Rightarrow> hmac \<Rightarrow> string \<Rightarrow> ticket_draw \<Rightarrow> Booking \<Rightarrow> time \<Rightarrow> ident list \<Rightarrow> nat \<Rightarrow> nat \<Rightarrow> database
     \<Rightarrow> service_error + database \<times> nat \<times> nat" where
  "issue_seats hmac64 hmac16 secret draw b now [] issued created db = Inr (db, issued, created)"
| "issue_seats hmac64 hmac16 secret draw b now (seatId # ids) issued created db =
     and_then (ensure_ticket draw b seatId now db) (\<lambda>(db1, t, n).
     and_then (ensure_credential hmac64 hmac16 secret draw t now db1) (\<lambda>(db2, k).
     issue_seats hmac64 hmac16 secret draw b now ids (issued + n) (created + k) db2))"

record IssuanceResult =
  isr_bookingId :: ident
  isr_total :: nat
  isr_issued :: nat
  isr_credentialsCreated :: nat

definition seats_of_booking :: "database \<Rightarrow> ident \<Rightarrow> ident list" where
  "seats_of_booking db bookingId = sort (map bseat_id (select_rows (\<lambda>s. bseat_bookingId s = bookingId) (db_bookingSeats db)))"

definition booking_tickets :: "database \<Rightarrow> ident \<Rightarrow> Ticket list" where
  "booking_tickets db bookingId = select_rows (\<lambda>t. tk_bookingId t = bookingId) (db_tickets db)"

definition active_credentials_of :: "database \<Rightarrow> ident \<Rightarrow> TicketCredential list" where
  "active_credentials_of db bookingId =
     select_rows (\<lambda>c. cred_status c = TicketCredentialStatus.ACTIVE
       \<and> List.member (map tk_id (booking_tickets db bookingId)) (cred_ticketId c)) (db_credentials db)"

definition issueBookingTicketsInTransaction ::
  "hmac \<Rightarrow> hmac \<Rightarrow> string \<Rightarrow> ticket_draw \<Rightarrow> ident \<Rightarrow> time \<Rightarrow> IssuanceResult tx" where
  "issueBookingTicketsInTransaction hmac64 hmac16 secret draw bookingId now db =
     (case find_booking db bookingId of
        None \<Rightarrow> Inl RecordNotFound
      | Some b \<Rightarrow>
          let seats = seats_of_booking db bookingId
          in if bk_status b \<noteq> BookingStatus.CONFIRMED \<or> seats = []
             then Inl (PlainError ''TICKET_ISSUANCE_BOOKING_NOT_CONFIRMED'')
             else and_then (issue_seats hmac64 hmac16 secret draw b now seats 0 0 db) (\<lambda>(db1, issued, created).
               if length (booking_tickets db1 bookingId) \<noteq> length seats
                  \<or> length (active_credentials_of db1 bookingId) \<noteq> length seats
               then Inl (PlainError ''TICKET_ISSUANCE_INCOMPLETE'')
               else and_then (upsert_notification
                      (notification_row (td_notificationId draw) BOOKING_TICKETS_READY (bk_userId b) (Some bookingId) None
                         (''booking-tickets-ready:'' @ bookingId @ '':v1'') now) db1) (\<lambda>db2.
                    Inr (db2, \<lparr>isr_bookingId = bookingId, isr_total = length (booking_tickets db1 bookingId),
                               isr_issued = issued, isr_credentialsCreated = created\<rparr>))))"

definition complete_issuance :: "time \<Rightarrow> TicketIssuanceRequest \<Rightarrow> TicketIssuanceRequest" where
  "complete_issuance now r =
     r\<lparr>iss_status := TicketIssuanceRequestStatus.COMPLETED, iss_processedAt := Some now, iss_lastError := None\<rparr>"

definition update_issuance :: "ident \<Rightarrow> (TicketIssuanceRequest \<Rightarrow> TicketIssuanceRequest) \<Rightarrow> database \<Rightarrow> service_error + database" where
  "update_issuance requestId f db =
     and_then (checked_update ''TicketIssuanceRequest'' (\<lambda>r. iss_id r = requestId)
       (\<lambda>_ r. 0 \<le> iss_attemptCount r
          \<and> (case iss_status r of
               TicketIssuanceRequestStatus.PENDING \<Rightarrow> iss_processedAt r = None \<and> iss_deadLetterAt r = None
             | TicketIssuanceRequestStatus.COMPLETED \<Rightarrow> iss_processedAt r \<noteq> None \<and> iss_deadLetterAt r = None \<and> iss_lastError r = None
             | TicketIssuanceRequestStatus.DEAD_LETTER \<Rightarrow> iss_processedAt r = None \<and> iss_deadLetterAt r \<noteq> None \<and> iss_lastError r \<noteq> None))
       f (db_issuance db)) (\<lambda>t. Inr (db\<lparr>db_issuance := t\<rparr>))"

definition issuance_transaction ::
  "hmac \<Rightarrow> hmac \<Rightarrow> string \<Rightarrow> ticket_draw \<Rightarrow> ident \<Rightarrow> time \<Rightarrow> IssuanceResult tx" where
  "issuance_transaction hmac64 hmac16 secret draw bookingId now db =
     (case find_row (\<lambda>r. iss_bookingId r = bookingId) (db_issuance db) of
        None \<Rightarrow> Inl RecordNotFound
      | Some request \<Rightarrow>
          if iss_status request = TicketIssuanceRequestStatus.COMPLETED
          then Inr (db, \<lparr>isr_bookingId = bookingId, isr_total = 0, isr_issued = 0, isr_credentialsCreated = 0\<rparr>)
          else if iss_status request = TicketIssuanceRequestStatus.DEAD_LETTER
          then Inl (PlainError ''TICKET_ISSUANCE_DEAD_LETTER'')
          else and_then (issueBookingTicketsInTransaction hmac64 hmac16 secret draw bookingId now db) (\<lambda>(db1, result).
               and_then (update_issuance (iss_id request) (complete_issuance now) db1) (\<lambda>db2. Inr (db2, result))))"

definition processTicketIssuanceForBooking ::
  "hmac \<Rightarrow> hmac \<Rightarrow> string \<Rightarrow> ticket_draw \<Rightarrow> ident \<Rightarrow> time \<Rightarrow> database \<Rightarrow> database \<times> (service_error + IssuanceResult)" where
  "processTicketIssuanceForBooking hmac64 hmac16 secret draw bookingId now db =
     transact (issuance_transaction hmac64 hmac16 secret draw bookingId now) db"

text \<open>An error of the immediate issuance is swallowed: the worker will retry it.\<close>

definition attemptImmediateTicketIssuance ::
  "hmac \<Rightarrow> hmac \<Rightarrow> string \<Rightarrow> ticket_draw \<Rightarrow> time \<Rightarrow> ident \<Rightarrow> database \<Rightarrow> database" where
  "attemptImmediateTicketIssuance hmac64 hmac16 secret draw now bookingId db =
     fst (processTicketIssuanceForBooking hmac64 hmac16 secret draw bookingId now db)"

section \<open>The issuance worker\<close>

record TicketIssuanceConfiguration =
  tic_batchSize :: nat
  tic_maximumAttempts :: int
  tic_backoffBaseMs :: int
  tic_backoffMaximumMs :: int

record IssuanceBatchResult =
  ibr_claimed :: nat
  ibr_completed :: nat
  ibr_failed :: nat
  ibr_deadLettered :: nat

definition next_issuance :: "time \<Rightarrow> database \<Rightarrow> TicketIssuanceRequest option" where
  "next_issuance now db =
     (case sort_key (\<lambda>r. (iss_createdAt r, iss_id r))
             (select_rows (\<lambda>r. iss_status r = TicketIssuanceRequestStatus.PENDING \<and> iss_availableAt r \<le> now) (db_issuance db)) of
        [] \<Rightarrow> None | r # _ \<Rightarrow> Some r)"

definition fail_issuance ::
  "TicketIssuanceConfiguration \<Rightarrow> string \<Rightarrow> time \<Rightarrow> TicketIssuanceRequest \<Rightarrow> TicketIssuanceRequest" where
  "fail_issuance config lastError now r =
     (let nextAttempt = iss_attemptCount r + 1; dead = tic_maximumAttempts config \<le> nextAttempt
      in r\<lparr>iss_status := (if dead then TicketIssuanceRequestStatus.DEAD_LETTER else TicketIssuanceRequestStatus.PENDING),
           iss_attemptCount := nextAttempt, iss_lastError := Some lastError,
           iss_availableAt := now + calculateBackoff nextAttempt (tic_backoffBaseMs config) (tic_backoffMaximumMs config),
           iss_deadLetterAt := (if dead then Some now else None)\<rparr>)"

text \<open>
  One claimed request: issued and completed in one transaction, or its failure recorded in
  another when it is still due. \<open>describe\<close> is the message of a thrown error.
\<close>

definition issue_transaction ::
  "hmac \<Rightarrow> hmac \<Rightarrow> string \<Rightarrow> ticket_draw \<Rightarrow> time \<Rightarrow> TicketIssuanceRequest \<Rightarrow> unit tx" where
  "issue_transaction hmac64 hmac16 secret draw now request db =
     and_then (issueBookingTicketsInTransaction hmac64 hmac16 secret draw (iss_bookingId request) now db) (\<lambda>(db1, _).
     and_then (update_issuance (iss_id request) (complete_issuance now) db1) (\<lambda>db2. Inr (db2, ())))"

definition record_failure ::
  "TicketIssuanceConfiguration \<Rightarrow> string \<Rightarrow> time \<Rightarrow> ident \<Rightarrow> bool tx" where
  "record_failure config lastError now requestId db =
     (case find_row (\<lambda>r. iss_id r = requestId) (db_issuance db) of
        None \<Rightarrow> Inr (db, False)
      | Some due \<Rightarrow>
          if iss_status due \<noteq> TicketIssuanceRequestStatus.PENDING \<or> now < iss_availableAt due then Inr (db, False)
          else and_then (update_issuance requestId (fail_issuance config lastError now) db)
                 (\<lambda>db1. Inr (db1, tic_maximumAttempts config \<le> iss_attemptCount due + 1)))"

definition issue_claimed ::
  "(service_error \<Rightarrow> string option) \<Rightarrow> hmac \<Rightarrow> hmac \<Rightarrow> string \<Rightarrow> ticket_draw \<Rightarrow> TicketIssuanceConfiguration \<Rightarrow> time
     \<Rightarrow> TicketIssuanceRequest \<Rightarrow> database \<Rightarrow> database \<times> (service_error + bool \<times> bool)" where
  "issue_claimed describe hmac64 hmac16 secret draw config now request db =
     (case transact (issue_transaction hmac64 hmac16 secret draw now request) db of
        (db', Inr _) \<Rightarrow> (db', Inr (True, False))
      | (db', Inl e) \<Rightarrow>
          (case transact (record_failure config (sanitizeNotificationError (describe e)) now (iss_id request)) db' of
             (db'', Inl e') \<Rightarrow> (db'', Inl e')
           | (db'', Inr dead) \<Rightarrow> (db'', Inr (False, dead))))"

fun issuance_loop ::
  "(service_error \<Rightarrow> string option) \<Rightarrow> hmac \<Rightarrow> hmac \<Rightarrow> string \<Rightarrow> ticket_draw \<Rightarrow> TicketIssuanceConfiguration \<Rightarrow> time \<Rightarrow> nat \<Rightarrow> IssuanceBatchResult
     \<Rightarrow> database \<Rightarrow> database \<times> (service_error + IssuanceBatchResult)" where
  "issuance_loop describe hmac64 hmac16 secret draw config now 0 result db = (db, Inr result)"
| "issuance_loop describe hmac64 hmac16 secret draw config now (Suc left) result db =
     (case next_issuance now db of
        None \<Rightarrow> (db, Inr result)
      | Some request \<Rightarrow>
          (case issue_claimed describe hmac64 hmac16 secret draw config now request db of
             (db', Inl e) \<Rightarrow> (db', Inl e)
           | (db', Inr (completed, dead)) \<Rightarrow>
               issuance_loop describe hmac64 hmac16 secret draw config now left
                 (result\<lparr>ibr_claimed := ibr_claimed result + 1,
                         ibr_completed := ibr_completed result + (if completed then 1 else 0),
                         ibr_failed := ibr_failed result + (if completed then 0 else 1),
                         ibr_deadLettered := ibr_deadLettered result + (if dead then 1 else 0)\<rparr>) db'))"

definition processTicketIssuanceBatch ::
  "(service_error \<Rightarrow> string option) \<Rightarrow> hmac \<Rightarrow> hmac \<Rightarrow> string \<Rightarrow> ticket_draw \<Rightarrow> TicketIssuanceConfiguration \<Rightarrow> time
     \<Rightarrow> database \<Rightarrow> database \<times> (service_error + IssuanceBatchResult)" where
  "processTicketIssuanceBatch describe hmac64 hmac16 secret draw config now db =
     issuance_loop describe hmac64 hmac16 secret draw config now (tic_batchSize config)
       \<lparr>ibr_claimed = 0, ibr_completed = 0, ibr_failed = 0, ibr_deadLettered = 0\<rparr> db"

definition retryTicketIssuanceRequest :: "ident \<Rightarrow> time \<Rightarrow> database \<Rightarrow> database \<times> nat" where
  "retryTicketIssuanceRequest requestId now db =
     (let hit = (\<lambda>r. iss_id r = requestId \<and> iss_status r = TicketIssuanceRequestStatus.DEAD_LETTER)
      in (db\<lparr>db_issuance := update_rows hit
              (\<lambda>r. r\<lparr>iss_status := TicketIssuanceRequestStatus.PENDING, iss_availableAt := now, iss_attemptCount := 0,
                     iss_processedAt := None, iss_lastError := None, iss_deadLetterAt := None\<rparr>) (db_issuance db)\<rparr>,
          length (select_rows hit (db_issuance db))))"

section \<open>Entry validation\<close>

record scan_input =
  scan_userId :: ident
  scan_sessionId :: ident
  scan_credential :: string
  scan_earlyMinutes :: int
  scan_lateMinutes :: int
  scan_scannerIdentifier :: "string option"
  scan_idempotencyKey :: "string option"

record TicketScanResult =
  tsr_outcome :: TicketRedemptionOutcome
  tsr_accepted :: bool
  tsr_ticket :: "(string \<times> SeatLabels) option"

text \<open>The membership that lets a user scan at a session, if there is one.\<close>

definition findAuthorizedScannerSession :: "database \<Rightarrow> ident \<Rightarrow> EventSession \<Rightarrow> Event \<Rightarrow> Membership option" where
  "findAuthorizedScannerSession db userId ses ev =
     find_row (\<lambda>m. mem_userId m = userId \<and> List.member [MembershipRole.OWNER, MembershipRole.ADMIN] (mem_role m)
       \<and> List.member [ev_organizerOrganizationId ev, ses_venueOrganizationId ses] (mem_organizationId m))
       (db_memberships db)"

definition redemption ::
  "scan_input \<Rightarrow> EventSession \<Rightarrow> Event \<Rightarrow> time \<Rightarrow> (ident \<times> ident) option \<Rightarrow> TicketRedemptionOutcome \<Rightarrow> TicketRedemptionEvent" where
  "redemption input ses ev now target outcome =
     \<lparr>red_ticketId = map_option fst target, red_ticketCredentialId = map_option snd target,
      red_organizationId = ev_organizerOrganizationId ev, red_eventId = ses_eventId ses, red_sessionId = ses_id ses,
      red_scannerUserId = scan_userId input, red_outcome = outcome, red_scannedAt = now,
      red_scannerIdentifier = scan_scannerIdentifier input,
      red_rejectionReason = (if outcome = TicketRedemptionOutcome.ACCEPTED then None else Some outcome),
      red_idempotencyKey = scan_idempotencyKey input\<rparr>"

fun window_outcome :: "EntryWindowOutcome \<Rightarrow> TicketRedemptionOutcome" where
  "window_outcome EntryWindowOutcome.OPEN = TicketRedemptionOutcome.ACCEPTED"
| "window_outcome EntryWindowOutcome.TOO_EARLY = TicketRedemptionOutcome.TOO_EARLY"
| "window_outcome EntryWindowOutcome.TOO_LATE = TicketRedemptionOutcome.TOO_LATE"
| "window_outcome EntryWindowOutcome.SESSION_CANCELLED = TicketRedemptionOutcome.SESSION_CANCELLED"

definition decide_entry ::
  "scan_input \<Rightarrow> EventSession \<Rightarrow> TicketCredential \<Rightarrow> Ticket \<Rightarrow> Booking \<Rightarrow> EventSession \<Rightarrow> time \<Rightarrow> TicketRedemptionOutcome" where
  "decide_entry input ses credential t b ticketSession now =
     (if tk_sessionId t \<noteq> scan_sessionId input \<or> tk_eventId t \<noteq> ses_eventId ses then TicketRedemptionOutcome.WRONG_SESSION
      else if cred_status credential = TicketCredentialStatus.USED \<or> tk_status t = TicketStatus.USED
      then TicketRedemptionOutcome.ALREADY_USED
      else if List.member [TicketCredentialStatus.REVOKED, TicketCredentialStatus.REPLACED] (cred_status credential)
              \<or> tk_status t = TicketStatus.REVOKED
      then TicketRedemptionOutcome.REVOKED
      else if bk_status b \<noteq> BookingStatus.CONFIRMED then TicketRedemptionOutcome.REVOKED
      else window_outcome (decideEntryWindow (ses_status ticketSession) (ses_startAt ticketSession)
             (ses_endAt ticketSession) now (scan_earlyMinutes input) (scan_lateMinutes input)))"

definition admit :: "TicketCredential \<Rightarrow> Ticket \<Rightarrow> time \<Rightarrow> database \<Rightarrow> service_error + database" where
  "admit credential t now db =
     and_then (update_credential (cred_id credential)
       (\<lambda>c. c\<lparr>cred_status := TicketCredentialStatus.USED, cred_usedAt := Some now\<rparr>) db)
       (update_ticket (tk_id t) (\<lambda>t. t\<lparr>tk_status := TicketStatus.USED\<rparr>))"

definition redeem ::
  "scan_input \<Rightarrow> EventSession \<Rightarrow> Event \<Rightarrow> TicketCredential \<Rightarrow> Ticket \<Rightarrow> Booking \<Rightarrow> EventSession \<Rightarrow> BookingSeat
     \<Rightarrow> time \<Rightarrow> TicketScanResult tx" where
  "redeem input ses ev credential t b ticketSession seat now db =
     (let outcome = decide_entry input ses credential t b ticketSession now
      in and_then (create_redemption (redemption input ses ev now (Some (tk_id t, cred_id credential)) outcome) db) (\<lambda>db1.
         and_then (if outcome = TicketRedemptionOutcome.ACCEPTED then admit credential t now db1 else Inr db1) (\<lambda>db2.
         Inr (db2, \<lparr>tsr_outcome = outcome, tsr_accepted = (outcome = TicketRedemptionOutcome.ACCEPTED),
                    tsr_ticket = (if List.member [TicketRedemptionOutcome.ACCEPTED, TicketRedemptionOutcome.ALREADY_USED,
                                        TicketRedemptionOutcome.REVOKED] outcome
                                  then Some (tk_publicReference t, bseat_labels seat) else None)\<rparr>))))"

definition plain_result :: "TicketRedemptionOutcome \<Rightarrow> TicketScanResult" where
  "plain_result outcome =
     \<lparr>tsr_outcome = outcome, tsr_accepted = (outcome = TicketRedemptionOutcome.ACCEPTED), tsr_ticket = None\<rparr>"

definition reject_invalid :: "scan_input \<Rightarrow> EventSession \<Rightarrow> Event \<Rightarrow> time \<Rightarrow> TicketScanResult tx" where
  "reject_invalid input ses ev now db =
     and_then (create_redemption (redemption input ses ev now None TicketRedemptionOutcome.INVALID) db)
       (\<lambda>db1. Inr (db1, plain_result TicketRedemptionOutcome.INVALID))"

text \<open>An empty idempotency key is no key.\<close>

definition earlier_scan :: "database \<Rightarrow> scan_input \<Rightarrow> TicketRedemptionEvent option" where
  "earlier_scan db input =
     (case scan_idempotencyKey input of
        None \<Rightarrow> None
      | Some key \<Rightarrow>
          if key = [] then None
          else find_row (\<lambda>r. red_scannerUserId r = scan_userId input \<and> red_idempotencyKey r = Some key) (db_redemptions db))"

definition scan_transaction ::
  "hmac \<Rightarrow> string \<Rightarrow> scan_input \<Rightarrow> EventSession \<Rightarrow> Event \<Rightarrow> time \<Rightarrow> TicketScanResult tx" where
  "scan_transaction hmac16 secret input ses ev now db =
     (case earlier_scan db input of
        Some r \<Rightarrow> Inr (db, plain_result (red_outcome r))
      | None \<Rightarrow>
          (case parseTicketCredential (scan_credential input) of
             None \<Rightarrow> reject_invalid input ses ev now db
           | Some credential \<Rightarrow>
               and_then (hashTicketCredential hmac16 secret credential) (\<lambda>suppliedHash.
               case find_row (\<lambda>c. cred_credentialHash c = suppliedHash) (db_credentials db) of
                 None \<Rightarrow> reject_invalid input ses ev now db
               | Some c \<Rightarrow>
                   if \<not> compareTicketCredentialHash (cred_credentialHash c) suppliedHash
                   then reject_invalid input ses ev now db
                   else (case find_ticket db (cred_ticketId c) of
                           None \<Rightarrow> Inl RecordNotFound
                         | Some t \<Rightarrow>
                             (case (find_booking db (tk_bookingId t), find_session db (tk_sessionId t),
                                    find_row (\<lambda>s. bseat_id s = tk_bookingSeatId t) (db_bookingSeats db)) of
                                (Some b, Some ticketSession, Some seat) \<Rightarrow>
                                  redeem input ses ev c t b ticketSession seat now db
                              | _ \<Rightarrow> Inl RecordNotFound)))))"

text \<open>
  The refusal of a user who may not scan is recorded outside a transaction and an error of
  that record is swallowed.
\<close>

definition validateTicketEntry ::
  "hmac \<Rightarrow> string \<Rightarrow> scan_input \<Rightarrow> time \<Rightarrow> database \<Rightarrow> database \<times> (service_error + TicketScanResult)" where
  "validateTicketEntry hmac16 secret input now db =
     (case find_session db (scan_sessionId input) of
        None \<Rightarrow> (db, Inr (plain_result TicketRedemptionOutcome.UNAUTHORIZED_SCANNER))
      | Some ses \<Rightarrow>
          (case find_event db (ses_eventId ses) of
             None \<Rightarrow> (db, Inl RecordNotFound)
           | Some ev \<Rightarrow>
               (case findAuthorizedScannerSession db (scan_userId input) ses ev of
                  None \<Rightarrow>
                    ((case create_redemption (redemption input ses ev now None TicketRedemptionOutcome.UNAUTHORIZED_SCANNER) db of
                        Inl _ \<Rightarrow> db | Inr db' \<Rightarrow> db'),
                     Inr (plain_result TicketRedemptionOutcome.UNAUTHORIZED_SCANNER))
                | Some _ \<Rightarrow> transact (scan_transaction hmac16 secret input ses ev now) db)))"

end
