(* ===== verification/Ticket_Management.thy ===== *)
theory Ticket_Management
  imports Ticket_Service Authorization
begin

text \<open>
  What an operator does with a ticket (src/server/tickets/management-service.ts: who may, the
  rotation of its credential, its revocation) and the one-time grants to download the tickets
  of a booking (download-grant-service.ts; the PDF itself is left out).
\<close>

section \<open>Rotation and revocation\<close>

definition ticket_of_reference :: "database \<Rightarrow> string \<Rightarrow> Ticket option" where
  "ticket_of_reference db reference = find_row (\<lambda>t. tk_publicReference t = reference) (db_tickets db)"

definition canManageTicket :: "database \<Rightarrow> ident \<Rightarrow> string \<Rightarrow> bool" where
  "canManageTicket db actorUserId ticketReference \<longleftrightarrow>
     (case (ticket_of_reference db ticketReference, find_user db actorUserId) of
        (Some t, Some u) \<Rightarrow>
          usr_platformRole u = PlatformRole.ADMIN
          \<or> (case find_membership db actorUserId (tk_organizationId t) of
               None \<Rightarrow> False | Some m \<Rightarrow> hasMinimumMembershipRole (mem_role m) MembershipRole.ADMIN)
      | _ \<Rightarrow> False)"

text \<open>The active credential of the highest version.\<close>

definition current_credential :: "database \<Rightarrow> ident \<Rightarrow> TicketCredential option" where
  "current_credential db ticketId =
     (case sort_key (\<lambda>c. - cred_version c) (select_rows (active_credential ticketId) (db_credentials db)) of
        [] \<Rightarrow> None | c # _ \<Rightarrow> Some c)"

definition replace_credential :: "time \<Rightarrow> TicketCredential \<Rightarrow> TicketCredential" where
  "replace_credential now c = c\<lparr>cred_status := TicketCredentialStatus.REPLACED, cred_replacedAt := Some now\<rparr>"

definition rotate_writes ::
  "hmac \<Rightarrow> hmac \<Rightarrow> string \<Rightarrow> ticket_draw \<Rightarrow> ident \<Rightarrow> Ticket \<Rightarrow> TicketCredential \<Rightarrow> time \<Rightarrow> database \<Rightarrow> service_error + database" where
  "rotate_writes hmac64 hmac16 secret draw actorUserId t c now db =
     (let version = cred_version c + 1; successor = td_credentialId draw (tk_id t) version
      in and_then (update_credential (cred_id c) (replace_credential now) db) (\<lambda>db1.
         and_then (issue_credential hmac64 hmac16 secret draw t version now db1) (\<lambda>db2.
         and_then (update_credential (cred_id c) (\<lambda>c. c\<lparr>cred_replacementCredentialId := Some successor\<rparr>) db2) (\<lambda>db3.
         and_then (update_ticket (tk_id t) (\<lambda>t. t\<lparr>tk_lastCredentialRotationAt := Some now\<rparr>) db3) (\<lambda>db4.
         and_then (create_audit (audit_row (tk_id t) (Some actorUserId) TicketAuditAction.CREDENTIAL_ROTATED None now) db4) (\<lambda>db5.
         and_then (upsert_notification (notification_row (td_notificationId draw) NotificationType.CREDENTIAL_ROTATED
             (tk_userId t) None (Some (tk_id t))
             (''ticket-credential-rotated:'' @ tk_id t @ '':v'' @ decimal (nat version)) now) db5)
           verify_replacements))))))"

definition rotate_transaction ::
  "hmac \<Rightarrow> hmac \<Rightarrow> string \<Rightarrow> ticket_draw \<Rightarrow> ident \<Rightarrow> string \<Rightarrow> time \<Rightarrow> (string \<times> int) tx" where
  "rotate_transaction hmac64 hmac16 secret draw actorUserId ticketReference now db =
     (case ticket_of_reference db ticketReference of
        None \<Rightarrow> Inl (TicketError ''TICKET_NOT_FOUND'')
      | Some t \<Rightarrow>
          if \<not> canRotateTicket (tk_status t) then Inl (TicketError ''TICKET_CREDENTIAL_ROTATION_FORBIDDEN'')
          else (case current_credential db (tk_id t) of
                  None \<Rightarrow> Inl RecordNotFound
                | Some c \<Rightarrow>
                    and_then (deriveTicketCredential hmac64 secret (tk_publicReference t) (cred_version c + 1)) (\<lambda>_.
                    and_then (rotate_writes hmac64 hmac16 secret draw actorUserId t c now db) (\<lambda>db1.
                    Inr (db1, (tk_publicReference t, cred_version c + 1))))))"

text \<open>The right to manage is read before the transaction.\<close>

definition rotateTicketCredential ::
  "hmac \<Rightarrow> hmac \<Rightarrow> string \<Rightarrow> ticket_draw \<Rightarrow> ident \<Rightarrow> string \<Rightarrow> time \<Rightarrow> database
     \<Rightarrow> database \<times> (service_error + string \<times> int)" where
  "rotateTicketCredential hmac64 hmac16 secret draw actorUserId ticketReference now db =
     (if \<not> canManageTicket db actorUserId ticketReference then (db, Inl (TicketError ''TICKET_MANAGEMENT_FORBIDDEN''))
      else transact (rotate_transaction hmac64 hmac16 secret draw actorUserId ticketReference now) db)"

definition revoke_writes :: "ticket_draw \<Rightarrow> ident \<Rightarrow> string \<Rightarrow> Ticket \<Rightarrow> time \<Rightarrow> database \<Rightarrow> service_error + database" where
  "revoke_writes draw actorUserId reason t now db =
     and_then (case find_row (active_credential (tk_id t)) (db_credentials db) of
                 None \<Rightarrow> Inr db
               | Some c \<Rightarrow> update_credential (cred_id c) (revoke_credential now) db) (\<lambda>db1.
     and_then (update_ticket (tk_id t) (revoke_ticket_row reason (Some actorUserId) now) db1) (\<lambda>db2.
     and_then (create_audit (audit_row (tk_id t) (Some actorUserId) TicketAuditAction.REVOKED (Some reason) now) db2) (\<lambda>db3.
     upsert_notification (notification_row (td_notificationId draw) NotificationType.TICKET_REVOKED (tk_userId t) None
       (Some (tk_id t)) (''ticket-revoked:'' @ tk_id t) now) db3)))"

text \<open>The value says whether the ticket was already revoked.\<close>

definition revoke_transaction :: "ticket_draw \<Rightarrow> ident \<Rightarrow> string \<Rightarrow> string \<Rightarrow> time \<Rightarrow> (string \<times> bool) tx" where
  "revoke_transaction draw actorUserId ticketReference reason now db =
     (case ticket_of_reference db ticketReference of
        None \<Rightarrow> Inl (TicketError ''TICKET_NOT_FOUND'')
      | Some t \<Rightarrow>
          (case tk_status t of
             TicketStatus.REVOKED \<Rightarrow> Inr (db, (tk_publicReference t, True))
           | TicketStatus.USED \<Rightarrow> Inl (TicketError ''USED_TICKET_CANNOT_BE_REVOKED'')
           | TicketStatus.ACTIVE \<Rightarrow>
               and_then (revoke_writes draw actorUserId reason t now db) (\<lambda>db1. Inr (db1, (tk_publicReference t, False)))))"

definition revokeTicket ::
  "ticket_draw \<Rightarrow> ident \<Rightarrow> string \<Rightarrow> string \<Rightarrow> time \<Rightarrow> database \<Rightarrow> database \<times> (service_error + string \<times> bool)" where
  "revokeTicket draw actorUserId ticketReference rawReason now db =
     (if \<not> canManageTicket db actorUserId ticketReference then (db, Inl (TicketError ''TICKET_MANAGEMENT_FORBIDDEN''))
      else (case ticketRevocationReasonSchema rawReason of
              None \<Rightarrow> (db, Inl ZodError)
            | Some reason \<Rightarrow> transact (revoke_transaction draw actorUserId ticketReference reason now) db))"

section \<open>Download grants\<close>

text \<open>
  The booking is named by its reference (\<open>Inl\<close>) or its identifier (\<open>Inr\<close>). With a subject the
  token is derived from it, otherwise it is drawn. The value is the grant, its token and expiry.
\<close>

definition createBookingPdfGrant ::
  "hmac \<Rightarrow> hmac \<Rightarrow> string \<Rightarrow> ident \<Rightarrow> string \<Rightarrow> ident \<Rightarrow> string + ident \<Rightarrow> int \<Rightarrow> string option \<Rightarrow> time
     \<Rightarrow> (ident \<times> string \<times> time) option tx" where
  "createBookingPdfGrant hmac64 hmac16 secret grantId drawnToken userId which ttlMinutes subject now db =
     (case find_row (\<lambda>b. (case which of Inl r \<Rightarrow> bk_publicReference b = r | Inr i \<Rightarrow> bk_id b = i)
             \<and> bk_userId b = userId \<and> bk_status b = BookingStatus.CONFIRMED) (db_bookings db) of
        None \<Rightarrow> Inr (db, None)
      | Some b \<Rightarrow>
          and_then (case subject of None \<Rightarrow> Inr drawnToken
                    | Some s \<Rightarrow> if s = [] then Inr drawnToken else deriveDownloadGrantToken hmac64 secret s) (\<lambda>token.
          and_then (hashDownloadGrantToken hmac16 secret token) (\<lambda>tokenHash.
          let g = \<lparr>gr_id = grantId, gr_bookingId = bk_id b, gr_userId = userId, gr_tokenHash = tokenHash,
                   gr_purpose = BOOKING_PDF, gr_expiresAt = now + ttlMinutes * 60000, gr_usedAt = None,
                   gr_revokedAt = None, gr_createdAt = now\<rparr>
          in and_then (create_grant g db) (\<lambda>db1. Inr (db1, Some (grantId, token, gr_expiresAt g))))))"

text \<open>
  What the document shows of a ticket; an active ticket shows its credential, derived again and
  checked against the stored hash.
\<close>

record TicketPdfEntry =
  tpe_ticketReference :: string
  tpe_labels :: SeatLabels
  tpe_status :: TicketStatus
  tpe_credential :: "string option"

definition pdf_credential :: "hmac \<Rightarrow> hmac \<Rightarrow> string \<Rightarrow> database \<Rightarrow> Ticket \<Rightarrow> service_error + string option" where
  "pdf_credential hmac64 hmac16 secret db t =
     (if tk_status t \<noteq> TicketStatus.ACTIVE then Inr None
      else (case current_credential db (tk_id t) of
              None \<Rightarrow> Inl (PlainError ''TICKET_CREDENTIAL_NOT_AVAILABLE'')
            | Some stored \<Rightarrow>
                and_then (deriveTicketCredential hmac64 secret (tk_publicReference t) (cred_version stored)) (\<lambda>credential.
                and_then (hashTicketCredential hmac16 secret credential) (\<lambda>actualHash.
                if compareTicketCredentialHash (cred_credentialHash stored) actualHash then Inr (Some credential)
                else Inl (PlainError ''TICKET_CREDENTIAL_INTEGRITY_FAILURE'')))))"

definition seat_labels_of :: "database \<Rightarrow> Ticket \<Rightarrow> service_error + SeatLabels" where
  "seat_labels_of db t =
     (case find_row (\<lambda>s. bseat_id s = tk_bookingSeatId t) (db_bookingSeats db) of
        None \<Rightarrow> Inl RecordNotFound | Some s \<Rightarrow> Inr (bseat_labels s))"

fun pdf_entries ::
  "hmac \<Rightarrow> hmac \<Rightarrow> string \<Rightarrow> database \<Rightarrow> Ticket list \<Rightarrow> service_error + TicketPdfEntry list" where
  "pdf_entries hmac64 hmac16 secret db [] = Inr []"
| "pdf_entries hmac64 hmac16 secret db (t # ts) =
     and_then (seat_labels_of db t) (\<lambda>labels.
     and_then (pdf_credential hmac64 hmac16 secret db t) (\<lambda>credential.
     and_then (pdf_entries hmac64 hmac16 secret db ts) (\<lambda>rest.
     Inr (\<lparr>tpe_ticketReference = tk_publicReference t, tpe_labels = labels, tpe_status = tk_status t,
            tpe_credential = credential\<rparr> # rest))))"

definition buildPdfView :: "hmac \<Rightarrow> hmac \<Rightarrow> string \<Rightarrow> database \<Rightarrow> ident \<Rightarrow> service_error + TicketPdfEntry list" where
  "buildPdfView hmac64 hmac16 secret db bookingId =
     pdf_entries hmac64 hmac16 secret db
       (sort_key (\<lambda>t. case seat_labels_of db t of Inl _ \<Rightarrow> [] | Inr labels \<Rightarrow> lbl_seatLabel labels)
         (booking_tickets db bookingId))"

definition consume_transaction ::
  "hmac \<Rightarrow> hmac \<Rightarrow> string \<Rightarrow> ident \<Rightarrow> string \<Rightarrow> time \<Rightarrow> TicketPdfEntry list option tx" where
  "consume_transaction hmac64 hmac16 secret userId tokenHash now db =
     (case find_row (\<lambda>g. gr_tokenHash g = tokenHash) (db_grants db) of
        None \<Rightarrow> Inr (db, None)
      | Some g \<Rightarrow>
          if gr_userId g \<noteq> userId then Inr (db, None)
          else if gr_purpose g \<noteq> BOOKING_PDF
               \<or> \<not> isDownloadGrantUsable (gr_expiresAt g) (gr_usedAt g) (gr_revokedAt g) now then Inr (db, None)
          else (case find_booking db (gr_bookingId g) of
                  None \<Rightarrow> Inr (db, None)
                | Some b \<Rightarrow>
                    if bk_userId b \<noteq> userId \<or> bk_status b \<noteq> BookingStatus.CONFIRMED then Inr (db, None)
                    else and_then (buildPdfView hmac64 hmac16 secret db (gr_bookingId g)) (\<lambda>view.
                         and_then (update_grant (gr_id g) (\<lambda>g. g\<lparr>gr_usedAt := Some now\<rparr>) db) (\<lambda>db1.
                         Inr (db1, Some view)))))"

definition consumeBookingPdfGrant ::
  "hmac \<Rightarrow> hmac \<Rightarrow> string \<Rightarrow> ident \<Rightarrow> string \<Rightarrow> time \<Rightarrow> database
     \<Rightarrow> database \<times> (service_error + TicketPdfEntry list option)" where
  "consumeBookingPdfGrant hmac64 hmac16 secret userId token now db =
     (case hashDownloadGrantToken hmac16 secret token of
        Inl e \<Rightarrow> (db, Inl e)
      | Inr tokenHash \<Rightarrow> transact (consume_transaction hmac64 hmac16 secret userId tokenHash now) db)"

end
