(* ===== verification/Finance_Frames.thy ===== *)
theory Finance_Frames
  imports Checkout_Properties Dispute_Service Ticket_Management
begin

text \<open>
  Frame conditions of refunds and disputes. A frame is a relation between the databases before
  and after a step; the locales say which primitive writes must respect it, and their lemmas
  carry it through every transaction of the two services. Instances: the relations that keep
  holds, sales and orders (below), and, in Refund_Invariant and Ticket_Invariant, the
  implication from an invariant before to the invariant after.
\<close>

section \<open>A calculus of frames\<close>

text \<open>
  A fallible step obeys \<open>P\<close> when every database it returns is related to the one it
  started from; \<open>sel\<close> finds the database in the value.
\<close>

definition obeys :: "(database \<Rightarrow> database \<Rightarrow> bool) \<Rightarrow> ('a \<Rightarrow> database) \<Rightarrow> database \<Rightarrow> service_error + 'a \<Rightarrow> bool" where
  "obeys P sel db m \<longleftrightarrow> (\<forall>x. m = Inr x \<longrightarrow> P db (sel x))"

lemma obeys_Inl [simp]: "obeys P sel db (Inl e)"
  by (simp add: obeys_def)

lemma obeys_Inr [simp]: "obeys P sel db (Inr x) \<longleftrightarrow> P db (sel x)"
  by (simp add: obeys_def)

lemma obeysI: "(\<And>x. m = Inr x \<Longrightarrow> P db (sel x)) \<Longrightarrow> obeys P sel db m"
  by (simp add: obeys_def)

lemma obeys_pure: "(\<And>x. m = Inr x \<Longrightarrow> obeys P sel db (f x)) \<Longrightarrow> obeys P sel db (and_then m f)"
  by (cases m) simp_all

lemma obeys_if: "(b \<Longrightarrow> obeys P sel db m) \<Longrightarrow> (\<not> b \<Longrightarrow> obeys P sel db n) \<Longrightarrow> obeys P sel db (if b then m else n)"
  by simp

lemma obeys_option:
  "(v = None \<Longrightarrow> obeys P sel db m) \<Longrightarrow> (\<And>x. v = Some x \<Longrightarrow> obeys P sel db (f x)) \<Longrightarrow>
     obeys P sel db (case v of None \<Rightarrow> m | Some x \<Rightarrow> f x)"
  by (cases v) simp_all

lemma obeys_prod: "(\<And>a b. v = (a, b) \<Longrightarrow> obeys P sel db (f a b)) \<Longrightarrow> obeys P sel db (case v of (a, b) \<Rightarrow> f a b)"
  by (cases v) simp

lemma obeys_mono: "obeys P sel db m \<Longrightarrow> (\<And>x. P db x \<Longrightarrow> Q db x) \<Longrightarrow> obeys Q sel db m"
  by (auto simp: obeys_def)

lemma obeys_transact: "P db db \<Longrightarrow> obeys P fst db (f db) \<Longrightarrow> P db (fst (transact f db))"
  by (cases "f db") (auto simp: transact_def)

context frame
begin

lemma resp_then:
  assumes "obeys P (\<lambda>x. x) db m" "\<And>x. m = Inr x \<Longrightarrow> obeys P sel x (f x)"
  shows "obeys P sel db (and_then m f)"
  using assms by (cases m) (auto simp: obeys_def intro: frame_trans)

lemma resp_then_pair:
  assumes "obeys P fst db m" "\<And>x y. m = Inr (x, y) \<Longrightarrow> obeys P sel x (f x y)"
  shows "obeys P sel db (and_then m (\<lambda>(x, y). f x y))"
  using assms by (cases m) (auto simp: obeys_def intro: frame_trans)

lemma resp_value: "obeys P (\<lambda>x. x) db m \<Longrightarrow> obeys P fst db (and_then m (\<lambda>x. Inr (x, r)))"
  by (cases m) auto

lemma resp_same: "obeys P (\<lambda>x. x) db (Inr db)" "obeys P fst db (Inr (db, r))"
  by (simp_all add: frame_refl)

end

context payment_frame
begin

lemma resp_order: "(\<And>o'. order_key (f o') = order_key o') \<Longrightarrow> obeys P (\<lambda>x. x) db (update_order i f db)"
  by (rule obeysI) (rule frame_order)

lemma resp_webhook: "obeys P (\<lambda>x. x) db (update_webhook i f db)"
  by (rule obeysI) (rule frame_webhook)

end

section \<open>Ledger writes\<close>

locale ledger_frame = payment_frame +
  assumes frame_ledger: "P db (db\<lparr>db_ledger := l\<rparr>)"
    and frame_outbox: "P db (db\<lparr>db_finOutbox := u\<rparr>)"
    and frame_envelopes: "P db (db\<lparr>db_webhooks := w\<rparr>)"
begin

lemma resp_append: "obeys P (\<lambda>x. x) db (appendLedgerEntry sha input db)"
  by (auto simp: appendLedgerEntry_def frame_ledger split: sum.split)

lemma frame_enqueue: "P db db' \<Longrightarrow> P db (enqueueFinancialEvent row db')"
  unfolding enqueueFinancialEvent_def by (rule frame_trans [OF _ frame_outbox])

lemma frame_store_envelope: "P db (fst (store_envelope w db))"
  by (auto simp: store_envelope_def frame_refl frame_envelopes split: option.split)

lemma resp_finish_webhook: "obeys P (\<lambda>x. x) db (finish_webhook i review now db)"
  unfolding finish_webhook_def by (rule resp_webhook)

text \<open>A delivery: store the envelope, then run the transaction of the stored record.\<close>

lemma frame_delivery:
  assumes "\<And>db' i d. store_envelope w db = (db', i, d) \<Longrightarrow> P db' (fst (process i db'))"
  shows "P db (fst (let (db1, i, d) = store_envelope w db
      in case process i db1 of (db2, Inl e) \<Rightarrow> (db2, Inl e) | (db2, Inr r) \<Rightarrow> (db2, Inr (g d r))))"
proof (cases "store_envelope w db")
  case (fields db1 i d)
  have "P db db1" using frame_store_envelope [of db w] by (simp add: fields)
  from frame_trans [OF this assms [OF fields]]
  show ?thesis by (cases "process i db1"; cases "snd (process i db1)") (simp_all add: fields)
qed

end

section \<open>Disputes\<close>

text \<open>What identifies a booking and what it cost.\<close>

definition booking_key :: "Booking \<Rightarrow> ident \<times> ident \<times> ident \<times> minor \<times> Currency" where
  "booking_key b = (bk_id b, bk_orderId b, bk_userId b, bk_totalMinor b, bk_currency b)"

locale dispute_frame = ledger_frame +
  assumes frame_revoke: "revoke_admission reason now t db = Inr db' \<Longrightarrow> P db db'"
    and frame_booking: "update_booking b f db = Inr db' \<Longrightarrow> (\<And>x. booking_key (f x) = booking_key x) \<Longrightarrow> P db db'"
    and frame_disputes: "P db (db\<lparr>db_disputes := d\<rparr>)"
    and frame_dispute_events: "P db (db\<lparr>db_disputeEvents := e\<rparr>)"
begin

lemma resp_revoke: "obeys P (\<lambda>x. x) db (revoke_admission reason now t db)"
  by (rule obeysI) (rule frame_revoke)

lemma resp_booking: "(\<And>x. booking_key (f x) = booking_key x) \<Longrightarrow> obeys P (\<lambda>x. x) db (update_booking b f db)"
  by (rule obeysI) (rule frame_booking)

lemma resp_revoke_disputed: "obeys P (\<lambda>x. x) db (revoke_disputed now ts db)"
proof (induction ts arbitrary: db)
  case (Cons t ts)
  then show ?case
    by (cases "decideDisputeTicketConsequence DisputeStatus.LOST (tk_status t) None")
      (auto intro!: resp_then resp_revoke)
qed (simp add: frame_refl)

lemma resp_flag: "obeys P (\<lambda>x. x) db (flag_order i s db)"
  unfolding flag_order_def by (rule resp_order) (simp add: order_key_def)

lemma resp_overlap: "obeys P (\<lambda>x. x) db (raise_overlap x now db)"
  unfolding raise_overlap_def Let_def
  by (intro obeys_if resp_then resp_flag) (simp_all add: frame_refl frame_enqueue)

lemma resp_chargeback: "obeys P (\<lambda>x. x) db (record_chargeback sha x now db)"
  unfolding record_chargeback_def revokeUnusedTicketsForLostDispute_def
  by (intro obeys_if resp_then resp_append resp_flag obeys_option resp_revoke_disputed)
    (simp_all add: frame_refl frame_enqueue)

lemma resp_consequences: "obeys P (\<lambda>x. x) db (recordDisputeLedgerAndConsequences sha x now db)"
  unfolding recordDisputeLedgerAndConsequences_def Let_def
  by (intro resp_then obeys_option resp_append resp_overlap resp_chargeback obeys_prod)
    (simp_all add: frame_refl frame_enqueue)

lemma frame_append_event: "P db db' \<Longrightarrow> P db (appendDisputeEvent e db')"
  unfolding appendDisputeEvent_def by (rule frame_trans [OF _ frame_dispute_events])

lemma resp_after_event:
  assumes "\<And>db1. obeys P (\<lambda>x. x) db1 (f db1)"
  shows "obeys P (\<lambda>x. x) db (f (appendDisputeEvent e db))"
proof (rule obeysI)
  fix x assume "f (appendDisputeEvent e db) = Inr x"
  with assms have "P (appendDisputeEvent e db) x" by (simp add: obeys_def)
  with frame_append_event [OF frame_refl] show "P db x" by (rule frame_trans)
qed

lemma resp_update_dispute: "obeys P (\<lambda>x. x) db (update_dispute i f db)"
  by (auto simp: update_dispute_def obeys_def and_then_eq_Inr frame_disputes)

lemma resp_create_dispute: "obeys P (\<lambda>x. x) db (create_dispute d db)"
  by (auto simp: create_dispute_def frame_disputes)

lemma resp_link_dispute: "obeys P (\<lambda>x. x) db (link_dispute w i db)"
  unfolding link_dispute_def by (intro obeys_pure resp_webhook)

lemma resp_open: "obeys P (\<lambda>x. x) db (openDispute sha draw input a b now db)"
  unfolding openDispute_def Let_def
  by (intro resp_then resp_create_dispute resp_link_dispute resp_after_event [OF resp_flag] obeys_option
        resp_consequences resp_booking)
    (simp_all add: frame_refl booking_key_def)

lemma resp_apply_dispute: "obeys P fst db (apply_to_dispute sha input a d now db)"
proof -
  have advance: "obeys P (\<lambda>x. x) db1 (advance_dispute sha input a d s r now db1)" for db1 s r
    unfolding advance_dispute_def
    by (intro resp_then resp_update_dispute resp_after_event [OF resp_consequences])
  have review: "obeys P (\<lambda>x. x) db1 (review_dispute input d code now db1)" for db1 code
    unfolding review_dispute_def
    by (intro resp_then resp_update_dispute resp_flag) (simp add: frame_refl frame_enqueue frame_append_event)
  show ?thesis
    unfolding apply_to_dispute_def
  proof (rule resp_then [OF resp_link_dispute])
    fix db1
    show "obeys P fst db1 (case decideDisputeTransition (dsp_status d) (dei_status input) of
          DisputeTransitionDecision.IGNORE reason \<Rightarrow>
            Inr (appendDisputeEvent (dispute_event input (dsp_id d) (Some (dsp_status d)) (dsp_status d) (Some reason) now) db1,
                 DISPUTE_IGNORED_OUTCOME (dsp_id d) reason)
        | DisputeTransitionDecision.REVIEW code \<Rightarrow>
            and_then (review_dispute input d code now db1) (\<lambda>db2. Inr (db2, DISPUTE_REVIEWED (dsp_id d) code))
        | DisputeTransitionDecision.APPLY status result \<Rightarrow>
            and_then (advance_dispute sha input a d status result now db1) (\<lambda>db2. Inr (db2, DISPUTE_APPLIED (dsp_id d) status)))"
      by (cases "decideDisputeTransition (dsp_status d) (dei_status input)")
        (auto intro: resp_value advance review frame_append_event frame_refl)
  qed
qed

theorem dispute_frame: "P db (fst (processDisputeEvent sha draw freshId provider event now db))"
proof -
  have tx: "obeys P fst db1 (dispute_webhook_transaction sha draw i now db1)" for i db1
    unfolding dispute_webhook_transaction_def applyDisputeFromVerifiedEvent_def
    by (intro obeys_pure obeys_if obeys_prod obeys_option resp_then_pair resp_then resp_value
          resp_finish_webhook resp_apply_dispute resp_open) (simp_all add: frame_refl)
  show ?thesis
    unfolding processDisputeEvent_def
    by (rule frame_delivery [where process = "\<lambda>i. processVerifiedDisputeRecord sha draw i now" and g = or_duplicate])
      (auto simp: processVerifiedDisputeRecord_def intro: obeys_transact frame_refl tx)
qed

end

section \<open>Refunds\<close>

text \<open>
  What identifies a refund and what it is worth. No update changes it, and none that sends a
  refund to review says that money moved.
\<close>

definition refund_key :: "Refund \<Rightarrow> ident \<times> ident \<times> ident \<times> minor \<times> Currency \<times> RefundScope" where
  "refund_key r = (ref_id r, ref_paymentAttemptId r, ref_bookingId r, ref_requestedAmountMinor r, ref_currency r, ref_scope r)"

definition refund_change :: "(Refund \<Rightarrow> Refund) \<Rightarrow> bool" where
  "refund_change f \<longleftrightarrow> (\<forall>r. refund_key (f r) = refund_key r
     \<and> (ref_status (f r) = RefundStatus.REQUIRES_REVIEW \<longrightarrow> ref_succeededAt (f r) = ref_succeededAt r))"

lemma refund_changes [simp]:
  "refund_change (submitting now)" "refund_change (fail_row code now)" "refund_change processing"
  "refund_change (accepted_by_provider i)" "refund_change (review_refund_row code now)"
  "refund_change (succeed_row now)" "refund_change (advance_row s now)"
  by (simp_all add: refund_change_def refund_key_def submitting_def fail_row_def processing_def
      accepted_by_provider_def review_refund_row_def succeed_row_def advance_row_def)

text \<open>A refund as it is requested, with the snapshots of the seats it names.\<close>

definition requested_with :: "Refund \<Rightarrow> RefundSeat list \<Rightarrow> bool" where
  "requested_with r seats \<longleftrightarrow> ref_status r = RefundStatus.REQUESTED \<and> ref_succeededAt r = None
     \<and> (\<forall>s\<in>set seats. rseat_refundId s = ref_id r)"

text \<open>Sending a refund moves it forward and never says that its money moved.\<close>

definition submission_change :: "(Refund \<Rightarrow> Refund) \<Rightarrow> bool" where
  "submission_change f \<longleftrightarrow> refund_change f
     \<and> (\<forall>r. ref_succeededAt (f r) = ref_succeededAt r \<and> ref_status (f r) \<noteq> RefundStatus.REQUESTED)"

lemma submission_changes [simp]:
  "submission_change (submitting now)" "submission_change (fail_row code now)" "submission_change processing"
  "submission_change (accepted_by_provider i)"
  unfolding submission_change_def by (simp, simp add: submitting_def fail_row_def processing_def accepted_by_provider_def)+

locale submission_frame = ledger_frame +
  assumes frame_submission: "update_refund i f db = Inr db' \<Longrightarrow> submission_change f \<Longrightarrow> P db db'"
    and frame_attempts: "P db (db\<lparr>db_refundAttempts := a\<rparr>)"
begin

lemma resp_sent: "submission_change f \<Longrightarrow> obeys P (\<lambda>x. x) db (update_refund i f db)"
  by (rule obeysI) (rule frame_submission)

lemma resp_sent_if: "submission_change f \<Longrightarrow> obeys P (\<lambda>x. x) db (update_refund_if i Q f db)"
  unfolding update_refund_if_def by (intro obeys_option obeys_if resp_sent) (simp_all add: frame_refl)

lemma resp_new_attempt: "obeys P (\<lambda>x. x) db (create_refund_attempt a db)"
  by (simp add: create_refund_attempt_def frame_attempts)

lemma resp_claim: "obeys P fst db (claimRefundForSubmission i now db)"
  unfolding claimRefundForSubmission_def Let_def
  by (intro obeys_option obeys_if resp_then resp_sent resp_new_attempt) (simp_all add: frame_refl)

lemma resp_finish_attempt: "obeys P fst db (finish_attempt c s r code now db)"
  by (auto simp: finish_attempt_def completeAttempt_def update_refund_attempts_def frame_attempts)

lemma resp_fail: "obeys P (\<lambda>x. x) db (failRefund sha i code now db)"
  unfolding failRefund_def
  by (intro obeys_option obeys_if resp_then resp_sent resp_append) (simp_all add: frame_refl frame_enqueue)

lemma resp_ambiguous: "obeys P (\<lambda>x. x) db (record_ambiguous c now db)"
  unfolding record_ambiguous_def Let_def
  by (intro resp_then resp_sent_if) (simp_all add: frame_refl frame_enqueue)

lemma resp_submitted: "obeys P (\<lambda>x. x) db (record_submitted sha c i now db)"
  unfolding record_submitted_def Let_def
  by (intro resp_then resp_sent_if resp_append) (simp_all add: frame_refl frame_enqueue)

lemma resp_as_tx: "(\<And>db. obeys P (\<lambda>x. x) db (f db)) \<Longrightarrow> obeys P fst db (as_tx f x db)"
  unfolding as_tx_def by (rule resp_value)

lemma answer_frame: "P db (fst (record_answer sha c answer now db))"
proof -
  have step: "P db (fst (case transact (finish_attempt c s r code now) db of
      (db1, Inl e) \<Rightarrow> (db1, Inl e) | (db1, Inr _) \<Rightarrow> transact (g db1) db1))"
    if g: "\<And>db1. obeys P fst db1 (g db1 db1)" for s r code g
  proof (cases "transact (finish_attempt c s r code now) db")
    case (Pair db1 res)
    then have "P db db1"
      using obeys_transact [of P db "finish_attempt c s r code now", OF frame_refl resp_finish_attempt] by simp
    moreover have "P db1 (fst (transact (g db1) db1))" by (rule obeys_transact [OF frame_refl g])
    ultimately show ?thesis using Pair by (cases res) (auto intro: frame_trans)
  qed
  show ?thesis
  proof (cases answer)
    case (Inr i)
    then show ?thesis
      using step [of "\<lambda>_. as_tx (record_submitted sha c i now) SUBMITTED" "RefundAttemptStatus.SUCCEEDED" "Some i" None]
      by (simp add: record_answer_def resp_as_tx resp_submitted)
  next
    case (Inl m)
    show ?thesis
    proof (cases "isAmbiguousFailure m")
      case True
      then show ?thesis
        using step [of "\<lambda>_. as_tx (record_ambiguous c now) (TIMEOUT_PENDING_RECONCILIATION (safeCodeFrom m))"
            "RefundAttemptStatus.TIMEOUT" None "Some (safeCodeFrom m)"]
        by (simp add: record_answer_def Let_def Inl resp_as_tx resp_ambiguous)
    next
      case False
      then show ?thesis
        using step [of "\<lambda>_. as_tx (failRefund sha (ref_id (clm_refund c)) (safeCodeFrom m) now) (SUBMISSION_FAILED (safeCodeFrom m))"
            "RefundAttemptStatus.FAILED" None "Some (safeCodeFrom m)"]
        by (simp add: record_answer_def Let_def Inl resp_as_tx resp_fail)
    qed
  qed
qed

theorem submit_frame: "P db (fst (submitRefund sha provider i now db))"
proof (cases "transact (claimRefundForSubmission i now) db")
  case (Pair db1 res)
  then have "P db db1"
    using obeys_transact [of P db "claimRefundForSubmission i now", OF frame_refl resp_claim] by simp
  with frame_trans [OF this answer_frame] Pair show ?thesis
    by (auto simp: submitRefund_def split: sum.split option.split)
qed

theorem submit_all_frame: "P db (fst (submitPendingRefunds sha provider name n now db))"
proof -
  have "P db (fst (submit_loop sha provider now ids res db))" for ids res db
  proof (induction ids arbitrary: res db)
    case (Cons i ids)
    show ?case
      using submit_frame [of db sha provider i now] Cons.IH
      by (auto split: prod.split sum.split intro: frame_trans)
  qed (simp add: frame_refl)
  then show ?thesis by (simp add: submitPendingRefunds_def)
qed

end

locale refund_frame = dispute_frame +
  assumes frame_refund: "update_refund i f db = Inr db' \<Longrightarrow> refund_change f \<Longrightarrow> P db db'"
    and frame_refund_attempts: "P db (db\<lparr>db_refundAttempts := a\<rparr>)"
    and frame_request: "write_refund sha r seats now db = Inr db' \<Longrightarrow> requested_with r seats \<Longrightarrow> P db db'"

sublocale refund_frame \<subseteq> submission_frame
  by unfold_locales (auto simp: submission_change_def intro: frame_refund frame_refund_attempts)

context refund_frame
begin

lemma resp_refund: "refund_change f \<Longrightarrow> obeys P (\<lambda>x. x) db (update_refund i f db)"
  by (rule obeysI) (rule frame_refund)

lemma resp_review_refund: "obeys P (\<lambda>x. x) db (markRefundUnderReview r code now db)"
  unfolding markRefundUnderReview_def
  by (intro resp_then resp_refund resp_order) (simp_all add: frame_refl frame_enqueue order_key_def)

lemma resp_revoke_refunded: "obeys P fst db (revoke_refunded now ts m n db)"
proof (induction ts arbitrary: m n db)
  case (Cons t ts)
  then show ?case
    by (cases "decideRefundTicketConsequence (tk_status t) True") (auto intro!: resp_then resp_revoke)
qed (simp add: frame_refl)

lemma resp_fully_refunded: "obeys P (\<lambda>x. x) db (maybeMarkBookingFullyRefunded b a now db)"
  unfolding maybeMarkBookingFullyRefunded_def
  by (intro obeys_option obeys_if resp_booking) (simp_all add: frame_refl booking_key_def)

lemma resp_succeeded: "obeys P (\<lambda>x. x) db (settle_succeeded sha input r now db)"
  unfolding settle_succeeded_def Let_def applyTicketConsequences_def
  by (intro resp_then resp_refund resp_append resp_then_pair resp_revoke_refunded obeys_prod resp_fully_refunded)
    (simp_all add: frame_refl frame_enqueue)

lemma resp_failed: "obeys P (\<lambda>x. x) db (settle_failed sha input r now db)"
  unfolding settle_failed_def
  by (intro resp_then resp_refund resp_append) (simp_all add: frame_refl frame_enqueue)

lemma resp_decided: "obeys P (\<lambda>x. x) db (settle_decided sha input r s now db)"
  unfolding settle_decided_def by (intro obeys_if resp_succeeded resp_failed resp_refund) simp

lemma resp_settle: "obeys P fst db (settle_refund sha input r now db)"
  unfolding settle_refund_def
  by (cases "decideRefundTransition (ref_status r) (stl_incomingStatus input)")
    (auto intro!: resp_value resp_review_refund resp_decided simp: frame_refl)

lemma resp_link_refund: "obeys P (\<lambda>x. x) db (link_refund w i db)"
  unfolding link_refund_def by (intro obeys_pure resp_webhook)

lemma resp_settle_event: "obeys P fst db (settleRefundFromVerifiedEvent sha input now db)"
  unfolding settleRefundFromVerifiedEvent_def
  by (intro obeys_option resp_then resp_link_refund resp_settle) (simp add: frame_refl)

theorem refund_event_frame: "P db (fst (processRefundEvent sha freshId provider event now db))"
proof -
  have tx: "obeys P fst db1 (refund_webhook_transaction sha i now db1)" for i db1
    unfolding refund_webhook_transaction_def
    by (intro obeys_pure obeys_if obeys_prod obeys_option resp_then_pair resp_value
          resp_finish_webhook resp_settle_event) (simp_all add: frame_refl)
  show ?thesis
    unfolding processRefundEvent_def
    by (rule frame_delivery [where process = "\<lambda>i. processVerifiedRefundRecord sha i now" and g = or_duplicate])
      (auto simp: processVerifiedRefundRecord_def intro: obeys_transact frame_refl tx)
qed

lemma new_refund_requested:
  "requested_with (new_refund draw actor input b a i ap key q now)
     (new_refund_seats (ref_id (new_refund draw actor input b a i ap key q now)) seats ids)"
  by (auto simp: requested_with_def new_refund_def new_refund_seats_def List.map_filter_def)

lemma resp_request: "requested_with r seats \<Longrightarrow> obeys P (\<lambda>x. x) db (write_refund sha r seats now db)"
  by (rule obeysI) (rule frame_request)

theorem request_frame: "P db (fst (requestRefund sha hmac64 draw actor input now db))"
proof -
  have pay: "obeys P fst db (refund_of_payment sha key draw actor input b o' ses a i ap now db)" for key b o' ses a i ap
    unfolding refund_of_payment_def Let_def
    by (auto intro!: obeys_option resp_value resp_request new_refund_requested
        simp: frame_refl split: sum.split option.split)
  have "obeys P fst db (request_transaction sha hmac64 draw actor input now db)"
    unfolding request_transaction_def
    by (auto intro!: obeys_option pay split: sum.split option.split)
  then show ?thesis
    unfolding requestRefund_def by (rule obeys_transact [OF frame_refl])
qed

end

section \<open>Holds, sales and orders\<close>

text \<open>Refunds and disputes touch no seat and no price.\<close>

lemma update_booking_Inr:
  "update_booking b f db = Inr db' \<longleftrightarrow>
     (\<exists>t. checked_update ''Booking'' (\<lambda>x. bk_id x = b)
        (\<lambda>old new. booking_update_ok old new
          \<and> (bk_status new = BookingStatus.REFUNDED \<longrightarrow> bk_totalMinor new \<le> booking_refunded_total (db_refunds db) b))
        f (db_bookings db) = Inr t \<and> db\<lparr>db_bookings := t\<rparr> = db')"
  by (auto simp: update_booking_def and_then_eq_Inr)

lemma revoke_admission_Inr:
  assumes "revoke_admission reason now t db = Inr db'"
  obtains creds tickets audit where
    "db' = db\<lparr>db_credentials := creds, db_tickets := tickets, db_audit := audit\<rparr>"
    "creds = update_rows (active_credential t) (revoke_credential now) (db_credentials db)"
    "checked_update ''Ticket'' (\<lambda>x. tk_id x = t) ticket_update_ok (revoke_ticket_row reason None now) (db_tickets db) = Inr tickets"
  using assms
  by (auto simp: revoke_admission_def revoke_active_credentials_def update_ticket_def create_audit_def and_then_eq_Inr
      split: if_split_asm)

lemma maintain_Inr:
  "maintain_payment_aggregate p db = Inr db' \<longleftrightarrow>
     (\<forall>a\<in>set (db_attempts db). pay_id a = p \<longrightarrow> aggregate_ok (aggregated (db_refunds db) a))
     \<and> db\<lparr>db_attempts := update_rows (\<lambda>a. pay_id a = p) (aggregated (db_refunds db)) (db_attempts db)\<rparr> = db'"
  by (auto simp: maintain_payment_aggregate_def list_all_iff)

lemma update_refund_Inr:
  assumes "update_refund i f db = Inr db'"
  obtains r refunds where "find_refund db i = Some r" "refund_update_ok r (f r)"
    "refunds = update_rows (\<lambda>x. ref_id x = i) f (db_refunds db)"
    "maintain_payment_aggregate (ref_paymentAttemptId r) (db\<lparr>db_refunds := refunds\<rparr>) = Inr db'"
  using assms by (auto simp: update_refund_def Let_def split: option.splits if_split_asm)

lemma create_refund_seats_Inr:
  "create_refund_seats ss db = Inr db' \<Longrightarrow> db' = db\<lparr>db_refundSeats := db_refundSeats db @ ss\<rparr>"
proof (induction ss arbitrary: db)
  case (Cons s ss)
  then have "create_refund_seats ss (db\<lparr>db_refundSeats := db_refundSeats db @ [s]\<rparr>) = Inr db'"
    by (simp add: insert_row_def split: if_split_asm)
  from Cons.IH [OF this] show ?case by simp
qed simp

lemma write_refund_Inr:
  assumes "write_refund sha r seats now db = Inr db'"
  obtains db1 db2 led u where "create_refund r db = Inr db1" "create_refund_seats seats db1 = Inr db2"
    "db2 = db1\<lparr>db_refundSeats := db_refundSeats db1 @ seats\<rparr>"
    "db' = db2\<lparr>db_ledger := led, db_finOutbox := u\<rparr>" "verify_seat_total (ref_id r) db' = Inr db'"
proof -
  from assms obtain db1 db2 db3 where 1: "create_refund r db = Inr db1" "create_refund_seats seats db1 = Inr db2"
    and 3: "appendLedgerEntry sha (refund_entry LedgerEntryType.REFUND_REQUESTED r (ref_id r) None now) db2 = Inr db3"
    and 4: "verify_seat_total (ref_id r) (enqueueFinancialEvent
       (refund_event FinancialOutboxEventType.REFUND_REQUESTED (''refund-requested:'' @ ref_id r) r now) db3) = Inr db'"
    by (auto simp: write_refund_def and_then_eq_Inr)
  from 4 have "db' = enqueueFinancialEvent
       (refund_event FinancialOutboxEventType.REFUND_REQUESTED (''refund-requested:'' @ ref_id r) r now) db3"
    by (auto simp: verify_seat_total_def split: option.splits if_split_asm)
  with 3 obtain led u where "db' = db2\<lparr>db_ledger := led, db_finOutbox := u\<rparr>"
    by (auto elim!: append_ledger_Inr simp: enqueueFinancialEvent_def)
  moreover from this 4 have "verify_seat_total (ref_id r) db' = Inr db'"
    using \<open>db' = enqueueFinancialEvent _ db3\<close> by simp
  ultimately show thesis using that 1 create_refund_seats_Inr [OF 1(2)] by blast
qed

lemma create_refund_Inr:
  assumes "create_refund r db = Inr db'"
  shows "refund_ancestry db r" "refund_row_ok r" "ref_id r \<notin> ref_id ` set (db_refunds db)"
    "maintain_payment_aggregate (ref_paymentAttemptId r) (db\<lparr>db_refunds := db_refunds db @ [r]\<rparr>) = Inr db'"
  using assms by (auto simp: create_refund_def insert_row_def has_key_def split: if_split_asm)

lemma aggregated_simps [simp]:
  "attempt_key (aggregated refunds a) = attempt_key a" "pay_id (aggregated refunds a) = pay_id a"
  "pay_status (aggregated refunds a) = pay_status a" "pay_amountMinor (aggregated refunds a) = pay_amountMinor a"
  by (simp_all add: aggregated_def attempt_key_def)

interpretation quiet_money: refund_frame quiet
proof unfold_locales
  fix sha r seats now db db'
  assume "write_refund sha r seats now db = Inr db'"
  then show "quiet db db'"
    by (elim write_refund_Inr) (auto dest!: create_refund_Inr(4) simp: maintain_Inr quiet_def outbox_keys_def)
qed (auto elim!: revoke_admission_Inr update_refund_Inr simp: update_booking_Inr maintain_Inr quiet_def outbox_keys_def)

interpretation order_money: refund_frame keeps_orders
proof unfold_locales
  fix sha r seats now db db'
  assume "write_refund sha r seats now db = Inr db'"
  then show "keeps_orders db db'"
    by (elim write_refund_Inr) (auto dest!: create_refund_Inr(4) simp: maintain_Inr keeps_orders_def map_update_rows)
qed (auto elim!: revoke_admission_Inr update_refund_Inr simp: update_booking_Inr maintain_Inr keeps_orders_def map_update_rows)

section \<open>What a sale leaves alone\<close>

definition aftersales ::
  "database \<Rightarrow> Refund list \<times> RefundSeat list \<times> Ticket list \<times> TicketCredential list \<times> TicketRedemptionEvent list" where
  "aftersales db = (db_refunds db, db_refundSeats db, db_tickets db, db_credentials db, db_redemptions db)"

lemma aftersales_simps [simp]:
  "aftersales (db\<lparr>db_orders := a\<rparr>) = aftersales db" "aftersales (db\<lparr>db_attempts := b\<rparr>) = aftersales db"
  "aftersales (db\<lparr>db_inventory := c\<rparr>) = aftersales db" "aftersales (db\<lparr>db_holds := d\<rparr>) = aftersales db"
  "aftersales (db\<lparr>db_holdItems := e\<rparr>) = aftersales db" "aftersales (db\<lparr>db_invOutbox := f\<rparr>) = aftersales db"
  "aftersales (db\<lparr>db_webhooks := g\<rparr>) = aftersales db" "aftersales (db\<lparr>db_bookings := h\<rparr>) = aftersales db"
  "aftersales (db\<lparr>db_bookingSeats := i\<rparr>) = aftersales db" "aftersales (db\<lparr>db_issuance := j\<rparr>) = aftersales db"
  "aftersales (db\<lparr>db_orderItems := k\<rparr>) = aftersales db"
  by (simp_all add: aftersales_def)

lemma write_booking_aftersales: "write_booking draw o' items now db = Inr db' \<Longrightarrow> aftersales db' = aftersales db"
proof -
  assume "write_booking draw o' items now db = Inr db'"
  then obtain db1 t where "create_booking (new_booking draw o' now) db = Inr db1"
    and db': "db' = enqueueTicketIssuance (bd_issuanceId draw) (bd_bookingId draw) now (db1\<lparr>db_bookingSeats := t\<rparr>)"
    unfolding write_booking_def and_then_eq_Inr by blast
  then have "aftersales db1 = aftersales db" by (auto simp: create_booking_def split: if_split_asm)
  then show ?thesis unfolding db' enqueueTicketIssuance_def by simp
qed

lemma fulfill_split:
  assumes "fulfill draw webhookId attempt o' hold items now db = Inr db'"
  obtains db1 where
    "update_attempt (pay_id attempt) (\<lambda>a. (succeed_attempt now a)\<lparr>pay_safeFailureCode := None\<rparr>) db = Inr db1"
    "aftersales db' = aftersales db1" "db_attempts db' = db_attempts db1"
proof -
  from assms obtain db1 db2 db3 db4 db5 db6 where
    1: "update_attempt (pay_id attempt) (\<lambda>a. (succeed_attempt now a)\<lparr>pay_safeFailureCode := None\<rparr>) db = Inr db1" and
    2: "write_booking draw o' items now db1 = Inr db2" and
    3: "convert_sale o' hold (map oitem_inventoryId items) now db2 = Inr db3" and
    4: "enqueueInventoryEvent InventoryEventType.PAYMENT_SUCCEEDED (ord_sessionId o') (Some (ord_id o'))
          (''payment-succeeded:'' @ webhookId) now db3 = Inr db4"
       "enqueueInventoryEvent InventoryEventType.INVENTORY_BOOKED (ord_sessionId o') (Some (bd_bookingId draw))
          (''inventory-booked:'' @ bd_bookingId draw) now db4 = Inr db5"
       "enqueueInventoryEvent InventoryEventType.BOOKING_CONFIRMED (ord_sessionId o') (Some (bd_bookingId draw))
          (''booking-confirmed:'' @ bd_bookingId draw) now db5 = Inr db6"
       "update_webhook webhookId (processed_webhook PaymentWebhookProcessingStatus.PROCESSED now None) db6 = Inr db'"
    unfolding fulfill_def and_then_eq_Inr by blast
  have event: "aftersales y = aftersales x \<and> db_attempts y = db_attempts x"
    if "enqueueInventoryEvent ty s a key now x = Inr y" for ty s a key x y
    using that by (auto simp: enqueue_event_Inr)
  have webhook: "aftersales db' = aftersales db6 \<and> db_attempts db' = db_attempts db6"
    using 4(4) by (auto simp: update_webhook_Inr)
  have "aftersales db3 = aftersales db2 \<and> db_attempts db3 = db_attempts db2"
    unfolding convert_sale_Inr(2) [OF 3] by simp
  with webhook event [OF 4(1)] event [OF 4(2)] event [OF 4(3)] write_booking_aftersales [OF 2] write_booking_Inr(8) [OF 2]
  have "aftersales db' = aftersales db1" "db_attempts db' = db_attempts db1" by metis+
  with 1 show thesis by (rule that)
qed

end
