(* ===== verification/Refund_Reconciliation.thy ===== *)
theory Refund_Reconciliation
  imports Finance_Frames
begin

text \<open>
  Financial reconciliation (src/server/refunds/reconciliation-service.ts): adopting refunds that the
  provider made although its answer was lost, processing verified payment events that were stored
  but not applied, and reporting divergence for review. Nothing here pays a refund or closes a dispute.
\<close>

section \<open>Backlogs\<close>

record RefundBacklogReport =
  rbl_requested :: nat
  rbl_submitting :: nat
  rbl_processing :: nat
  rbl_requiresReview :: nat
  rbl_failed :: nat
  rbl_oldestPendingAgeSeconds :: "int option"

definition refunds_in :: "RefundStatus \<Rightarrow> database \<Rightarrow> nat" where
  "refunds_in status db = length (select_rows (\<lambda>r. ref_status r = status) (db_refunds db))"

definition pending_refund :: "Refund \<Rightarrow> bool" where
  "pending_refund r \<longleftrightarrow> ref_status r \<in> {RefundStatus.REQUESTED, RefundStatus.SUBMITTING, RefundStatus.PROCESSING}"

definition reportRefundBacklog :: "time \<Rightarrow> database \<Rightarrow> RefundBacklogReport" where
  "reportRefundBacklog now db =
     \<lparr>rbl_requested = refunds_in RefundStatus.REQUESTED db, rbl_submitting = refunds_in RefundStatus.SUBMITTING db,
      rbl_processing = refunds_in RefundStatus.PROCESSING db, rbl_requiresReview = refunds_in RefundStatus.REQUIRES_REVIEW db,
      rbl_failed = refunds_in RefundStatus.FAILED db,
      rbl_oldestPendingAgeSeconds =
        map_option (\<lambda>r. max 0 ((now - ref_requestedAt r) div 1000))
          (find_row (\<lambda>_. True) (sort_key ref_requestedAt (select_rows pending_refund (db_refunds db))))\<rparr>"

record DisputeBacklogReport =
  dbl_open :: nat
  dbl_needsResponse :: nat
  dbl_underReview :: nat
  dbl_lost :: nat
  dbl_requiresReview :: nat
  dbl_evidenceDueWithin48Hours :: nat

definition disputes_in :: "DisputeStatus \<Rightarrow> database \<Rightarrow> nat" where
  "disputes_in status db = length (select_rows (\<lambda>d. dsp_status d = status) (db_disputes db))"

definition evidence_due :: "time \<Rightarrow> PaymentDispute \<Rightarrow> bool" where
  "evidence_due soon d \<longleftrightarrow> dsp_status d \<in> {DisputeStatus.OPEN, DisputeStatus.NEEDS_RESPONSE, DisputeStatus.UNDER_REVIEW}
     \<and> (case dsp_evidenceDueAt d of None \<Rightarrow> False | Some t \<Rightarrow> t \<le> soon)"

definition reportDisputeBacklog :: "time \<Rightarrow> database \<Rightarrow> DisputeBacklogReport" where
  "reportDisputeBacklog now db =
     \<lparr>dbl_open = disputes_in DisputeStatus.OPEN db, dbl_needsResponse = disputes_in DisputeStatus.NEEDS_RESPONSE db,
      dbl_underReview = disputes_in DisputeStatus.UNDER_REVIEW db, dbl_lost = disputes_in DisputeStatus.LOST db,
      dbl_requiresReview = disputes_in DisputeStatus.REQUIRES_REVIEW db,
      dbl_evidenceDueWithin48Hours =
        length (select_rows (evidence_due (now + 48 * 60 * 60 * 1000)) (db_disputes db))\<rparr>"

section \<open>Refunds whose outcome is unknown\<close>

record ProviderRefund =
  prf_providerRefundId :: string
  prf_status :: RefundStatus
  prf_providerStatus :: string
  prf_amountMinor :: minor
  prf_currency :: Currency
  prf_duplicate :: bool

text \<open>What the provider lists for an intent when a given refund asks; \<open>None\<close> is a call that throws.\<close>

type_synonym refund_listing = "ident \<Rightarrow> string \<Rightarrow> ProviderRefund list option"

record RefundReconciliation =
  rrc_inspected :: nat
  rrc_adopted :: nat
  rrc_stillUnknown :: nat
  rrc_failed :: nat

definition ambiguous_refund :: "PaymentProviderName \<Rightarrow> Refund \<Rightarrow> bool" where
  "ambiguous_refund provider r \<longleftrightarrow> ref_provider r = provider
     \<and> ref_status r \<in> {RefundStatus.SUBMITTING, RefundStatus.PROCESSING} \<and> ref_providerRefundId r = None"

definition intent_of_refund :: "database \<Rightarrow> Refund \<Rightarrow> string option" where
  "intent_of_refund db r =
     Option.bind (find_row (\<lambda>a. pay_id a = ref_paymentAttemptId r) (db_attempts db)) pay_providerIntentId"

definition ambiguous_refunds :: "PaymentProviderName \<Rightarrow> nat \<Rightarrow> database \<Rightarrow> (Refund \<times> string option) list" where
  "ambiguous_refunds provider batchSize db =
     map (\<lambda>r. (r, intent_of_refund db r))
       (take batchSize (sort_key ref_requestedAt (select_rows (ambiguous_refund provider) (db_refunds db))))"

definition unadopted :: "database \<Rightarrow> Refund \<Rightarrow> ProviderRefund list \<Rightarrow> ProviderRefund option" where
  "unadopted db r listed =
     find_row (\<lambda>p. prf_amountMinor p = ref_requestedAmountMinor r
       \<and> \<not> list_ex (\<lambda>x. ref_providerRefundId x = Some (prf_providerRefundId p)) (db_refunds db)) listed"

definition adopt_refund :: "ident \<Rightarrow> string \<Rightarrow> unit tx" where
  "adopt_refund refundId providerRefundId =
     as_tx (update_refund_if refundId (\<lambda>r. ref_providerRefundId r = None) (accepted_by_provider providerRefundId)) ()"

fun reconcile_refunds ::
  "(ident \<Rightarrow> nat \<Rightarrow> bool) \<Rightarrow> refund_listing \<Rightarrow> (Refund \<times> string option) list \<Rightarrow> RefundReconciliation \<Rightarrow> database
     \<Rightarrow> database \<times> (service_error + RefundReconciliation)" where
  "reconcile_refunds conflict listing [] res db = (db, Inr res)"
| "reconcile_refunds conflict listing ((r, intent) # rest) res db =
     (if intent = None \<or> intent = Some [] then reconcile_refunds conflict listing rest res db
      else let res = res\<lparr>rrc_inspected := rrc_inspected res + 1\<rparr>
           in case listing (ref_id r) (the intent) of
                None \<Rightarrow> reconcile_refunds conflict listing rest (res\<lparr>rrc_failed := rrc_failed res + 1\<rparr>) db
              | Some listed \<Rightarrow>
                  (case unadopted db r listed of
                     None \<Rightarrow> reconcile_refunds conflict listing rest (res\<lparr>rrc_stillUnknown := rrc_stillUnknown res + 1\<rparr>) db
                   | Some p \<Rightarrow>
                       (case runInTransaction (conflict (ref_id r)) None (adopt_refund (ref_id r) (prf_providerRefundId p)) db of
                          (db1, Inl e) \<Rightarrow> (db1, Inl e)
                        | (db1, Inr _) \<Rightarrow>
                            reconcile_refunds conflict listing rest (res\<lparr>rrc_adopted := rrc_adopted res + 1\<rparr>) db1)))"

definition reconcileAmbiguousRefunds ::
  "(ident \<Rightarrow> nat \<Rightarrow> bool) \<Rightarrow> PaymentProviderName \<Rightarrow> refund_listing \<Rightarrow> nat option \<Rightarrow> database
     \<Rightarrow> database \<times> (service_error + RefundReconciliation)" where
  "reconcileAmbiguousRefunds conflict provider listing batchSize db =
     reconcile_refunds conflict listing
       (ambiguous_refunds provider (case batchSize of None \<Rightarrow> 50 | Some n \<Rightarrow> n) db)
       \<lparr>rrc_inspected = 0, rrc_adopted = 0, rrc_stillUnknown = 0, rrc_failed = 0\<rparr> db"

section \<open>Webhook records that were stored but not processed\<close>

record WebhookReconciliation =
  wrc_inspected :: nat
  wrc_reprocessed :: nat
  wrc_failed :: nat

definition stuck_webhook :: "time \<Rightarrow> PaymentWebhookEvent \<Rightarrow> bool" where
  "stuck_webhook cutoff w \<longleftrightarrow> wh_signatureStatus w = PaymentWebhookSignatureStatus.VERIFIED
     \<and> wh_processingStatus w \<in> {PaymentWebhookProcessingStatus.RECEIVED, PaymentWebhookProcessingStatus.FAILED}
     \<and> wh_receivedAt w \<le> cutoff"

fun reprocess_loop ::
  "(ident \<Rightarrow> booking_draw) \<Rightarrow> time \<Rightarrow> PaymentWebhookEvent list \<Rightarrow> WebhookReconciliation \<Rightarrow> database
     \<Rightarrow> database \<times> WebhookReconciliation" where
  "reprocess_loop draw now [] res db = (db, res)"
| "reprocess_loop draw now (w # rest) res db =
     (if wh_eventCategory w \<noteq> PaymentWebhookEventCategory.PAYMENT then reprocess_loop draw now rest res db
      else case processVerifiedWebhookRecord None (draw (wh_id w)) (wh_id w) now db of
             (db1, Inl _) \<Rightarrow> reprocess_loop draw now rest (res\<lparr>wrc_failed := wrc_failed res + 1\<rparr>) db1
           | (db1, Inr _) \<Rightarrow> reprocess_loop draw now rest (res\<lparr>wrc_reprocessed := wrc_reprocessed res + 1\<rparr>) db1)"

definition reconcileUnprocessedWebhooks ::
  "(ident \<Rightarrow> booking_draw) \<Rightarrow> nat option \<Rightarrow> int option \<Rightarrow> time \<Rightarrow> database \<Rightarrow> database \<times> WebhookReconciliation" where
  "reconcileUnprocessedWebhooks draw batchSize olderThanSeconds now db =
     (let cutoff = now - (case olderThanSeconds of None \<Rightarrow> 60 | Some n \<Rightarrow> n) * 1000;
          stuck = take (case batchSize of None \<Rightarrow> 50 | Some n \<Rightarrow> n)
                    (sort_key wh_receivedAt (select_rows (stuck_webhook cutoff) (db_webhooks db)))
      in reprocess_loop draw now stuck \<lparr>wrc_inspected = length stuck, wrc_reprocessed = 0, wrc_failed = 0\<rparr> db)"

section \<open>Divergence\<close>

datatype DivergenceReason =
  LEDGER_DISAGREES_WITH_AGGREGATE | OVER_REFUND_RISK | REFUND_DISPUTE_OVERLAP | REFUNDED_BOOKING_NOT_TERMINAL

record DivergenceFinding =
  dvf_orderId :: ident
  dvf_paymentAttemptId :: ident
  dvf_reason :: DivergenceReason
  dvf_expectedMinor :: "minor option"
  dvf_actualMinor :: "minor option"

definition ledger_covers :: "database \<Rightarrow> PaymentAttempt \<Rightarrow> bool" where
  "ledger_covers db a \<longleftrightarrow> 0 < length (readLedgerForPayment db (pay_id a))
     \<or> 0 < length (select_rows (\<lambda>r. ref_paymentAttemptId r = pay_id a) (db_refunds db))
     \<or> 0 < length (select_rows (\<lambda>d. dsp_paymentAttemptId d = pay_id a) (db_disputes db))"

definition disputed_total :: "database \<Rightarrow> ident \<Rightarrow> minor" where
  "disputed_total db attemptId =
     sum_list (map dsp_disputedAmountMinor
       (select_rows (\<lambda>d. dsp_paymentAttemptId d = attemptId \<and> dsp_status d \<noteq> DisputeStatus.WON) (db_disputes db)))"

definition finding :: "PaymentAttempt \<Rightarrow> DivergenceReason \<Rightarrow> minor option \<Rightarrow> minor option \<Rightarrow> DivergenceFinding" where
  "finding a reason expected actual =
     \<lparr>dvf_orderId = pay_orderId a, dvf_paymentAttemptId = pay_id a, dvf_reason = reason, dvf_expectedMinor = expected,
      dvf_actualMinor = actual\<rparr>"

definition attempt_findings :: "database \<Rightarrow> PaymentAttempt \<Rightarrow> DivergenceFinding list" where
  "attempt_findings db a =
     (let divergence = detectLedgerDivergence (pay_amountMinor a) (pay_refundedMinor a) (readLedgerForPayment db (pay_id a));
          overlap = detectRefundDisputeOverlap (pay_refundedMinor a) (disputed_total db (pay_id a)) (pay_amountMinor a)
      in (if ledger_covers db a \<and> div_diverged divergence
          then [finding a LEDGER_DISAGREES_WITH_AGGREGATE (Some (div_expectedMinor divergence)) (Some (div_actualMinor divergence))] else [])
         @ (if pay_amountMinor a < pay_refundedMinor a + pay_inFlightRefundMinor a
            then [finding a OVER_REFUND_RISK (Some (pay_amountMinor a)) (Some (pay_refundedMinor a + pay_inFlightRefundMinor a))] else [])
         @ (if ovl_overlapping overlap then [finding a REFUND_DISPUTE_OVERLAP None (Some (ovl_combinedMinor overlap))] else []))"

text \<open>Row order stands for the order of \<open>updatedAt\<close>, a column that is not modelled.\<close>

definition detectFinancialDivergence :: "nat option \<Rightarrow> database \<Rightarrow> DivergenceFinding list" where
  "detectFinancialDivergence batchSize db =
     concat (map (attempt_findings db)
       (take (case batchSize of None \<Rightarrow> 200 | Some n \<Rightarrow> n)
         (select_rows (\<lambda>a. pay_status a = PaymentAttemptStatus.SUCCEEDED) (db_attempts db))))"

definition active_tickets_of :: "database \<Rightarrow> ident \<Rightarrow> nat" where
  "active_tickets_of db bookingId =
     length (select_rows (\<lambda>t. tk_bookingId t = bookingId \<and> tk_status t = TicketStatus.ACTIVE) (db_tickets db))"

definition detectTicketRevocationBacklog :: "database \<Rightarrow> (ident \<times> nat) list" where
  "detectTicketRevocationBacklog db =
     map (\<lambda>b. (bk_id b, active_tickets_of db (bk_id b)))
       (select_rows (\<lambda>b. bk_status b = BookingStatus.REFUNDED \<and> 0 < active_tickets_of db (bk_id b)) (db_bookings db))"

section \<open>Raising for review\<close>

definition reason_name :: "DivergenceReason \<Rightarrow> string" where
  "reason_name reason =
     (case reason of
        LEDGER_DISAGREES_WITH_AGGREGATE \<Rightarrow> ''LEDGER_DISAGREES_WITH_AGGREGATE''
      | OVER_REFUND_RISK \<Rightarrow> ''OVER_REFUND_RISK''
      | REFUND_DISPUTE_OVERLAP \<Rightarrow> ''REFUND_DISPUTE_OVERLAP''
      | REFUNDED_BOOKING_NOT_TERMINAL \<Rightarrow> ''REFUNDED_BOOKING_NOT_TERMINAL'')"

definition review_event :: "string \<Rightarrow> ident \<Rightarrow> ident option \<Rightarrow> ident option \<Rightarrow> time \<Rightarrow> FinancialOutbox" where
  "review_event key aggregateId orderId bookingId now =
     \<lparr>fin_eventType = FINANCIAL_RECONCILIATION_REQUIRED, fin_aggregateId = Some aggregateId, fin_orderId = orderId,
      fin_refundId = None, fin_disputeId = None, fin_bookingId = bookingId, fin_deduplicationKey = key, fin_availableAt = now\<rparr>"

definition divergence_event :: "time \<Rightarrow> DivergenceFinding \<Rightarrow> FinancialOutbox" where
  "divergence_event now f =
     review_event (''divergence:'' @ dvf_paymentAttemptId f @ '':'' @ reason_name (dvf_reason f)) (dvf_paymentAttemptId f)
       (Some (dvf_orderId f)) None now"

definition backlog_event :: "time \<Rightarrow> ident \<times> nat \<Rightarrow> FinancialOutbox" where
  "backlog_event now entry = review_event (''ticket-revocation-backlog:'' @ fst entry) (fst entry) None (Some (fst entry)) now"

text \<open>An event is created when its deduplication key is new.\<close>

definition raise_event :: "FinancialOutbox \<Rightarrow> bool tx" where
  "raise_event e db =
     Inr (enqueueFinancialEvent e db, \<not> has_key fin_deduplicationKey (fin_deduplicationKey e) (db_finOutbox db))"

fun raise_events ::
  "(string \<Rightarrow> nat \<Rightarrow> bool) \<Rightarrow> FinancialOutbox list \<Rightarrow> nat \<Rightarrow> database \<Rightarrow> database \<times> (service_error + nat)" where
  "raise_events conflict [] raised db = (db, Inr raised)"
| "raise_events conflict (e # es) raised db =
     (case runInTransaction (conflict (fin_deduplicationKey e)) None (raise_event e) db of
        (db1, Inl err) \<Rightarrow> (db1, Inl err)
      | (db1, Inr created) \<Rightarrow> raise_events conflict es (if created then raised + 1 else raised) db1)"

definition raiseDivergenceForReview ::
  "(string \<Rightarrow> nat \<Rightarrow> bool) \<Rightarrow> DivergenceFinding list \<Rightarrow> time \<Rightarrow> database \<Rightarrow> database \<times> (service_error + nat)" where
  "raiseDivergenceForReview conflict findings now = raise_events conflict (map (divergence_event now) findings) 0"

definition escalateTicketRevocationBacklog ::
  "(string \<Rightarrow> nat \<Rightarrow> bool) \<Rightarrow> (ident \<times> nat) list \<Rightarrow> time \<Rightarrow> database \<Rightarrow> database \<times> (service_error + nat)" where
  "escalateTicketRevocationBacklog conflict backlog now = raise_events conflict (map (backlog_event now) backlog) 0"

definition retriable_notifications :: "time \<Rightarrow> nat \<Rightarrow> database \<Rightarrow> ident list" where
  "retriable_notifications now limit db =
     map ntf_id (take limit (sort_key ntf_createdAt
       (select_rows (\<lambda>n. ntf_status n = NotificationOutboxStatus.PENDING \<and> now < ntf_availableAt n) (db_notifications db))))"

definition retrySafeNotificationFailures :: "time \<Rightarrow> nat option \<Rightarrow> database \<Rightarrow> database \<times> nat" where
  "retrySafeNotificationFailures now limit db =
     (let ids = retriable_notifications now (case limit of None \<Rightarrow> 100 | Some n \<Rightarrow> n) db
      in if length ids = 0 then (db, 0)
         else (db\<lparr>db_notifications := update_rows (\<lambda>n. List.member ids (ntf_id n)) (\<lambda>n. n\<lparr>ntf_availableAt := now\<rparr>) (db_notifications db)\<rparr>,
               length (select_rows (\<lambda>n. List.member ids (ntf_id n)) (db_notifications db))))"

section \<open>Frames\<close>

lemma obeys_run:
  assumes "P db db" "obeys P fst db (operation db)"
  shows "P db (fst (runInTransaction conflict n operation db))"
  using assms by (simp add: run_in_transaction_once obeys_transact)

context ledger_frame
begin

lemma frame_raise: "P db (fst (raise_events conflict es raised db))"
proof (induction es arbitrary: raised db)
  case (Cons e es)
  have "P db (fst (runInTransaction (conflict (fin_deduplicationKey e)) None (raise_event e) db))"
    by (rule obeys_run) (simp_all add: frame_refl raise_event_def frame_enqueue)
  with Cons.IH show ?case by (auto split: prod.split sum.split intro: frame_trans)
qed (simp add: frame_refl)

lemma raise_frame:
  "P db (fst (raiseDivergenceForReview conflict findings now db))"
  "P db (fst (escalateTicketRevocationBacklog conflict backlog now db))"
  by (simp_all add: raiseDivergenceForReview_def escalateTicketRevocationBacklog_def frame_raise)

end

context submission_frame
begin

lemma resp_adopt: "obeys P fst db (adopt_refund i p db)"
  unfolding adopt_refund_def by (intro resp_as_tx resp_sent_if) simp

lemma reconcile_refunds_frame: "P db (fst (reconcile_refunds conflict listing rs res db))"
proof (induction rs arbitrary: res db)
  case (Cons p rs)
  obtain r intent where p: "p = (r, intent)" by (cases p)
  have adopted: "P db db1" if "runInTransaction c None (adopt_refund i j) db = (db1, x)" for c i j db1 x
    using obeys_run [of P db "adopt_refund i j" c None, OF frame_refl resp_adopt] that by simp
  show ?case
    by (auto simp: p Let_def split: option.split prod.split sum.split intro: Cons.IH adopted frame_trans [OF adopted Cons.IH])
qed (simp add: frame_refl)

theorem reconcile_refunds_all_frame: "P db (fst (reconcileAmbiguousRefunds conflict provider listing n db))"
  by (simp add: reconcileAmbiguousRefunds_def reconcile_refunds_frame)

end

end
