(* ===== verification/Refund_Invariant.thy ===== *)
theory Refund_Invariant
  imports Refund_Reconciliation
begin

text \<open>
  The invariant of refunds: every payment attempt carries the exact totals of what was refunded
  and what is still in flight, together never more than was captured; every refund row is in a
  consistent state and adds up to the seats it names; and no seat is paid back twice. It is
  carried through every operation by the frame locales, with the implication from the
  invariant before to the invariant after as the frame.
\<close>

section \<open>The invariant\<close>

text \<open>A refund is committed when its money moved or may move without a human.\<close>

definition committed :: "Refund \<Rightarrow> bool" where
  "committed r \<longleftrightarrow> ref_succeededAt r \<noteq> None
     \<or> ref_status r \<in> {RefundStatus.REQUESTED, RefundStatus.SUBMITTING, RefundStatus.PROCESSING}"

definition commits :: "Refund list \<Rightarrow> RefundSeat \<Rightarrow> bool" where
  "commits refunds s \<longleftrightarrow> (\<exists>r\<in>set refunds. ref_id r = rseat_refundId s \<and> committed r)"

definition totals_ok :: "Refund list \<Rightarrow> PaymentAttempt \<Rightarrow> bool" where
  "totals_ok refunds a \<longleftrightarrow> pay_refundedMinor a = refunded_total refunds (pay_id a)
     \<and> pay_inFlightRefundMinor a = in_flight_total refunds (pay_id a) \<and> aggregate_ok a"

definition money_core :: "PaymentAttempt list \<Rightarrow> Refund list \<Rightarrow> bool" where
  "money_core attempts refunds \<longleftrightarrow> distinct (map pay_id attempts) \<and> distinct (map ref_id refunds)
     \<and> (\<forall>a\<in>set attempts. totals_ok refunds a)
     \<and> (\<forall>r\<in>set refunds. refund_row_ok r \<and> ref_paymentAttemptId r \<in> pay_id ` set attempts)"

definition seats_core :: "Refund list \<Rightarrow> RefundSeat list \<Rightarrow> bool" where
  "seats_core refunds seats \<longleftrightarrow> (\<forall>s\<in>set seats. rseat_refundId s \<in> ref_id ` set refunds)
     \<and> (\<forall>r\<in>set refunds. seat_total_ok seats r)
     \<and> (\<forall>s\<in>set seats. \<forall>s'\<in>set seats. rseat_bookingSeatId s = rseat_bookingSeatId s' \<and> commits refunds s
          \<and> commits refunds s' \<longrightarrow> rseat_refundId s = rseat_refundId s')"

definition refunds_ok :: "database \<Rightarrow> bool" where
  "refunds_ok db \<longleftrightarrow> money_core (db_attempts db) (db_refunds db) \<and> seats_core (db_refunds db) (db_refundSeats db)"

section \<open>Totals\<close>

lemma total_filters:
  "refunded_total refunds p = sum_list (map ref_requestedAmountMinor
     (filter (\<lambda>r. ref_succeededAt r \<noteq> None) (filter (\<lambda>r. ref_paymentAttemptId r = p) refunds)))"
  "in_flight_total refunds p = sum_list (map ref_requestedAmountMinor
     (filter (\<lambda>r. ref_succeededAt r = None \<and> isInFlightRefundStatus (ref_status r))
       (filter (\<lambda>r. ref_paymentAttemptId r = p) refunds)))"
  unfolding refunded_total_def in_flight_total_def filter_filter by (simp_all add: conj_ac)

lemma totals_cong:
  assumes "filter (\<lambda>r. ref_paymentAttemptId r = p) refunds' = filter (\<lambda>r. ref_paymentAttemptId r = p) refunds"
  shows "refunded_total refunds' p = refunded_total refunds p" "in_flight_total refunds' p = in_flight_total refunds p"
  by (simp_all add: total_filters assms del: in_flight_refund_iff filter_filter)

text \<open>A write to the refunds of one payment, followed by the trigger that recomputes its totals.\<close>

lemma money_write:
  assumes core: "money_core attempts refunds"
    and ids: "distinct (map ref_id refunds')"
    and others: "\<And>q. q \<noteq> p \<Longrightarrow> filter (\<lambda>r. ref_paymentAttemptId r = q) refunds' = filter (\<lambda>r. ref_paymentAttemptId r = q) refunds"
    and rows: "\<And>r. r \<in> set refunds' \<Longrightarrow> refund_row_ok r \<and> ref_paymentAttemptId r \<in> pay_id ` set attempts"
    and check: "\<forall>a\<in>set attempts. pay_id a = p \<longrightarrow> aggregate_ok (aggregated refunds' a)"
  shows "money_core (update_rows (\<lambda>a. pay_id a = p) (aggregated refunds') attempts) refunds'"
proof -
  let ?new = "update_rows (\<lambda>a. pay_id a = p) (aggregated refunds') attempts"
  have keys: "map pay_id ?new = map pay_id attempts" by (rule map_update_rows) simp
  have totals: "totals_ok refunds' a" if "a \<in> set ?new" for a
  proof -
    from that obtain b where b: "b \<in> set attempts" "a = (if pay_id b = p then aggregated refunds' b else b)"
      by (auto simp: tbl.mem_update)
    show ?thesis
    proof (cases "pay_id b = p")
      case True
      with b check have "aggregate_ok a" by simp
      with True b show ?thesis by (simp add: totals_ok_def) (simp add: aggregated_def)
    next
      case False
      from core b(1) have "totals_ok refunds b" by (simp add: money_core_def)
      with b False totals_cong [OF others [OF False]] show ?thesis by (simp add: totals_ok_def)
    qed
  qed
  have "pay_id ` set ?new = pay_id ` set attempts" using keys by (metis set_map)
  with core ids rows totals keys show ?thesis unfolding money_core_def by simp
qed

section \<open>Updates\<close>

lemma committed_kept:
  assumes "refund_update_ok r (f r)" "refund_row_ok r" "refund_change f" "committed (f r)"
  shows "committed r"
proof (cases "ref_status (f r) = RefundStatus.REQUIRES_REVIEW")
  case True
  with assms show ?thesis by (simp add: committed_def refund_change_def)
next
  case False
  have row: "refund_lifecycle (f r)" "refund_lifecycle r" and upd: "refund_update_ok r (f r)"
    using assms by (simp_all add: refund_update_ok_def refund_row_ok_def)
  show ?thesis
    using row upd assms(4) False
    by (cases "ref_status r"; cases "ref_status (f r)")
      (auto simp: refund_lifecycle_def Let_def refund_update_ok_def committed_def set_once_def)
qed

lemma find_refund_mem: "find_refund db i = Some r \<Longrightarrow> r \<in> set (db_refunds db) \<and> ref_id r = i"
  unfolding find_refund_def by (drule tbl.find_SomeD) simp

lemma seat_total_cong:
  "ref_id x = ref_id y \<Longrightarrow> ref_scope x = ref_scope y \<Longrightarrow> ref_requestedAmountMinor x = ref_requestedAmountMinor y \<Longrightarrow>
     seat_total_ok seats x = seat_total_ok seats y"
  by (cases "ref_scope y") (simp_all add: seat_total_ok_def Let_def)

lemma update_refund_ok:
  assumes ok: "refunds_ok db" and run: "update_refund i f db = Inr db'" and change: "refund_change f"
  shows "refunds_ok db'"
  using run
proof (rule update_refund_Inr)
  fix r refunds
  assume r: "find_refund db i = Some r" "refund_update_ok r (f r)"
    and refunds: "refunds = update_rows (\<lambda>x. ref_id x = i) f (db_refunds db)"
    and trigger: "maintain_payment_aggregate (ref_paymentAttemptId r) (db\<lparr>db_refunds := refunds\<rparr>) = Inr db'"
  note mem = find_refund_mem [OF r(1)]
  have core: "money_core (db_attempts db) (db_refunds db)" and seats: "seats_core (db_refunds db) (db_refundSeats db)"
    using ok by (simp_all add: refunds_ok_def)
  have key: "refund_key (f x) = refund_key x" for x using change by (simp add: refund_change_def)
  then have key_id: "ref_id (f x) = ref_id x" "ref_paymentAttemptId (f x) = ref_paymentAttemptId x"
    "ref_scope (f x) = ref_scope x" "ref_requestedAmountMinor (f x) = ref_requestedAmountMinor x" for x
    by (simp_all add: refund_key_def)
  have only: "x = r" if "x \<in> set (db_refunds db)" "ref_id x = i" for x
    using that mem core by (auto simp: money_core_def distinct_map dest: inj_onD)
  have old: "x' \<in> set refunds \<Longrightarrow> \<exists>x\<in>set (db_refunds db). x' = (if ref_id x = i then f r else x)
      \<and> ref_id x' = ref_id x \<and> ref_scope x' = ref_scope x \<and> ref_requestedAmountMinor x' = ref_requestedAmountMinor x
      \<and> ref_paymentAttemptId x' = ref_paymentAttemptId x" for x'
    using only by (auto simp: refunds tbl.mem_update key_id)
  have ids: "map ref_id refunds = map ref_id (db_refunds db)"
    unfolding refunds by (rule map_update_rows) (simp add: key_id)
  have "money_core (update_rows (\<lambda>a. pay_id a = ref_paymentAttemptId r) (aggregated refunds) (db_attempts db)) refunds"
  proof (rule money_write [OF core])
    show "distinct (map ref_id refunds)" using ids core by (simp add: money_core_def)
    fix q assume "q \<noteq> ref_paymentAttemptId r"
    then have "select_rows (\<lambda>r. ref_paymentAttemptId r = q) refunds = select_rows (\<lambda>r. ref_paymentAttemptId r = q) (db_refunds db)"
      unfolding refunds by (intro tbl.select_update_frame) (auto simp: key_id dest: only)
    then show "filter (\<lambda>r. ref_paymentAttemptId r = q) refunds = filter (\<lambda>r. ref_paymentAttemptId r = q) (db_refunds db)"
      by (simp add: select_rows_def)
  next
    fix x' assume "x' \<in> set refunds"
    from old [OF this] obtain x where x: "x \<in> set (db_refunds db)" "x' = (if ref_id x = i then f r else x)"
      "ref_paymentAttemptId x' = ref_paymentAttemptId x" by blast
    have "refund_row_ok (f r)" using r(2) by (simp add: refund_update_ok_def)
    with x core show "refund_row_ok x' \<and> ref_paymentAttemptId x' \<in> pay_id ` set (db_attempts db)"
      by (auto simp: money_core_def)
  next
    show "\<forall>a\<in>set (db_attempts db). pay_id a = ref_paymentAttemptId r \<longrightarrow> aggregate_ok (aggregated refunds a)"
      using trigger by (simp add: maintain_Inr)
  qed
  moreover have "seats_core refunds (db_refundSeats db)"
  proof -
    have "commits (db_refunds db) s" if "commits refunds s" for s
    proof -
      from that obtain x' where x': "x' \<in> set refunds" "ref_id x' = rseat_refundId s" "committed x'"
        by (auto simp: commits_def)
      from old [OF x'(1)] obtain x where x: "x \<in> set (db_refunds db)" "x' = (if ref_id x = i then f r else x)"
        "ref_id x' = ref_id x" by blast
      have "refund_row_ok r" using core mem by (simp add: money_core_def)
      then have "committed x"
        using x x'(3) committed_kept [of r f, OF r(2) _ change] only by (cases "ref_id x = i") auto
      with x x' show ?thesis by (auto simp: commits_def)
    qed
    moreover have "seat_total_ok (db_refundSeats db) x'" if "x' \<in> set refunds" for x'
    proof -
      from old [OF that] obtain x where "x \<in> set (db_refunds db)" "seat_total_ok (db_refundSeats db) x' = seat_total_ok (db_refundSeats db) x"
        using seat_total_cong by blast
      with seats show ?thesis by (simp add: seats_core_def)
    qed
    moreover have "ref_id ` set refunds = ref_id ` set (db_refunds db)" using ids by (metis set_map)
    ultimately show ?thesis using seats unfolding seats_core_def by metis
  qed
  moreover have "db' = db\<lparr>db_refunds := refunds,
      db_attempts := update_rows (\<lambda>a. pay_id a = ref_paymentAttemptId r) (aggregated refunds) (db_attempts db)\<rparr>"
    using trigger by (auto simp: maintain_Inr)
  ultimately show ?thesis by (simp add: refunds_ok_def)
qed

section \<open>Requests\<close>

lemma covered_seats_refused:
  assumes "create_refund_seats ss db = Inr db'" "s \<in> set ss" "x \<in> set (db_refundSeats db)"
    "rseat_refundId x \<noteq> rseat_refundId s"
  shows "\<not> covered_by db (rseat_bookingSeatId s) x"
  using assms
proof (induction ss arbitrary: db)
  case (Cons y ss)
  let ?db = "db\<lparr>db_refundSeats := insert_row y (db_refundSeats db)\<rparr>"
  from Cons.prems(1) have y: "refund_seat_ok db y" and rest: "create_refund_seats ss ?db = Inr db'"
    by (simp_all split: if_split_asm)
  show ?case
  proof (cases "s = y")
    case True
    with y Cons.prems(3,4) show ?thesis by (auto simp: refund_seat_ok_def list_ex_iff split: option.splits)
  next
    case False
    then have "s \<in> set ss" "x \<in> set (db_refundSeats ?db)" using Cons.prems(2,3) by (simp_all add: insert_row_def)
    from Cons.IH [OF rest this Cons.prems(4)] show ?thesis by (simp add: covered_by_def find_refund_def)
  qed
qed simp

lemma committed_live: "committed r \<Longrightarrow> refund_live r"
  by (auto simp: committed_def refund_live_def)

lemma find_refund_distinct:
  "distinct (map ref_id (db_refunds db)) \<Longrightarrow> r \<in> set (db_refunds db) \<Longrightarrow> find_refund db (ref_id r) = Some r"
  unfolding find_refund_def by (simp add: tbl.find_keyed)

lemma request_money:
  assumes core: "money_core (db_attempts db) (db_refunds db)" and run: "create_refund r db = Inr db'"
  shows "money_core (db_attempts db') (db_refunds db')" "db_refunds db' = db_refunds db @ [r]"
    "ref_id r \<notin> ref_id ` set (db_refunds db)" "db_refundSeats db' = db_refundSeats db"
proof -
  note c = create_refund_Inr [OF run]
  have "money_core (update_rows (\<lambda>a. pay_id a = ref_paymentAttemptId r) (aggregated (db_refunds db @ [r])) (db_attempts db))
      (db_refunds db @ [r])"
  proof (rule money_write [OF core])
    show "distinct (map ref_id (db_refunds db @ [r]))" using core c(3) by (simp add: money_core_def)
    have "ref_paymentAttemptId r \<in> pay_id ` set (db_attempts db)"
      using c(1) by (auto simp: refund_ancestry_def dest!: tbl.find_SomeD intro: rev_image_eqI split: option.splits)
    then show "refund_row_ok x \<and> ref_paymentAttemptId x \<in> pay_id ` set (db_attempts db)" if "x \<in> set (db_refunds db @ [r])" for x
      using that core c(2) by (auto simp: money_core_def)
    show "\<forall>a\<in>set (db_attempts db). pay_id a = ref_paymentAttemptId r \<longrightarrow> aggregate_ok (aggregated (db_refunds db @ [r]) a)"
      using c(4) by (simp add: maintain_Inr)
  qed simp
  then show "money_core (db_attempts db') (db_refunds db')" "db_refunds db' = db_refunds db @ [r]"
    "ref_id r \<notin> ref_id ` set (db_refunds db)" "db_refundSeats db' = db_refundSeats db"
    using c(3,4) by (auto simp: maintain_Inr)
qed

lemma request_seats:
  assumes seats: "seats_core refunds old" and fresh: "ref_id r \<notin> ref_id ` set refunds"
    and new: "\<forall>s\<in>set new. rseat_refundId s = ref_id r" and total: "seat_total_ok (old @ new) r"
    and apart: "\<And>s x. s \<in> set new \<Longrightarrow> x \<in> set old \<Longrightarrow> commits refunds x \<Longrightarrow> rseat_bookingSeatId x \<noteq> rseat_bookingSeatId s"
  shows "seats_core (refunds @ [r]) (old @ new)"
  unfolding seats_core_def
proof (intro conjI ballI impI)
  fix s assume s: "s \<in> set (old @ new)"
  then show "rseat_refundId s \<in> ref_id ` set (refunds @ [r])" using seats new by (auto simp: seats_core_def)
  fix s' assume s': "s' \<in> set (old @ new)" and both: "rseat_bookingSeatId s = rseat_bookingSeatId s'
      \<and> commits (refunds @ [r]) s \<and> commits (refunds @ [r]) s'"
  have id_old: "rseat_refundId x \<noteq> ref_id r" if "x \<in> set old" for x
  proof -
    have "rseat_refundId x \<in> ref_id ` set refunds" using that seats by (simp add: seats_core_def)
    with fresh show ?thesis by metis
  qed
  have com: "commits refunds x" if "x \<in> set old" "commits (refunds @ [r]) x" for x
    using that id_old [OF that(1)] by (auto simp: commits_def)
  have cross: "rseat_bookingSeatId x \<noteq> rseat_bookingSeatId y" if "x \<in> set old" "commits (refunds @ [r]) x" "y \<in> set new" for x y
    using apart [OF that(3,1) com [OF that(1,2)]] .
  from s s' consider "s \<in> set old" "s' \<in> set old" | "s \<in> set old" "s' \<in> set new"
    | "s \<in> set new" "s' \<in> set old" | "s \<in> set new" "s' \<in> set new" by auto
  then show "rseat_refundId s = rseat_refundId s'"
  proof cases
    case 1
    with both com have "commits refunds s" "commits refunds s'" by blast+
    with 1 both seats [unfolded seats_core_def, THEN conjunct2, THEN conjunct2] show ?thesis by blast
  next
    case 2
    with cross [of s s'] both show ?thesis by simp
  next
    case 3
    with cross [of s' s] both show ?thesis by simp
  qed (use new in simp)
next
  fix x assume "x \<in> set (refunds @ [r])"
  then consider "x = r" | "x \<in> set refunds" by auto
  then show "seat_total_ok (old @ new) x"
  proof cases
    case 2
    then have "ref_id x \<in> ref_id ` set refunds" by simp
    with fresh have "ref_id x \<noteq> ref_id r" by metis
    then have "seats_of_refund (old @ new) (ref_id x) = seats_of_refund old (ref_id x)"
      using new by (auto simp: seats_of_refund_def select_rows_def filter_empty_conv)
    with 2 seats show ?thesis by (simp add: seats_core_def seat_total_ok_def)
  qed (simp add: total)
qed

lemma request_ok:
  assumes ok: "refunds_ok db" and run: "write_refund sha r seats now db = Inr db'" and req: "requested_with r seats"
  shows "refunds_ok db'"
  using run
proof (rule write_refund_Inr)
  fix db1 db2 led u
  assume 1: "create_refund r db = Inr db1" and 2: "create_refund_seats seats db1 = Inr db2"
    and db2: "db2 = db1\<lparr>db_refundSeats := db_refundSeats db1 @ seats\<rparr>"
    and db': "db' = db2\<lparr>db_ledger := led, db_finOutbox := u\<rparr>" and v: "verify_seat_total (ref_id r) db' = Inr db'"
  have core: "money_core (db_attempts db) (db_refunds db)" and old: "seats_core (db_refunds db) (db_refundSeats db)"
    using ok by (simp_all add: refunds_ok_def)
  note m = request_money [OF core 1]
  have distinct: "distinct (map ref_id (db_refunds db1))" using m(1) by (simp add: money_core_def)
  have "find_refund db' (ref_id r) = Some r"
    using find_refund_distinct [OF distinct, of r] m(2) by (simp add: db' db2 find_refund_def)
  with v have total: "seat_total_ok (db_refundSeats db @ seats) r"
    by (simp add: verify_seat_total_def db' db2 m(4) split: if_split_asm)
  have "seats_core (db_refunds db @ [r]) (db_refundSeats db @ seats)"
  proof (rule request_seats [OF old m(3) _ total])
    show "\<forall>s\<in>set seats. rseat_refundId s = ref_id r" using req by (simp add: requested_with_def)
    fix s x assume s: "s \<in> set seats" and x: "x \<in> set (db_refundSeats db)" "commits (db_refunds db) x"
    have "rseat_refundId x \<in> ref_id ` set (db_refunds db)" using old x(1) by (simp add: seats_core_def)
    then have ne: "rseat_refundId x \<noteq> rseat_refundId s" using m(3) s req by (auto simp: requested_with_def)
    have "x \<in> set (db_refundSeats db1)" using x(1) m(4) by simp
    from covered_seats_refused [OF 2 s this ne] have nc: "\<not> covered_by db1 (rseat_bookingSeatId s) x" .
    from x(2) obtain y where y: "y \<in> set (db_refunds db1)" "ref_id y = rseat_refundId x" "committed y"
      unfolding commits_def m(2) by auto
    with find_refund_distinct [OF distinct y(1)] nc committed_live show "rseat_bookingSeatId x \<noteq> rseat_bookingSeatId s"
      by (auto simp: covered_by_def)
  qed
  with m(1,2,4) show ?thesis by (simp add: refunds_ok_def db' db2)
qed

section \<open>Every other step\<close>

lemma refunds_ok_same:
  "db_attempts db' = db_attempts db \<Longrightarrow> db_refunds db' = db_refunds db \<Longrightarrow> db_refundSeats db' = db_refundSeats db
    \<Longrightarrow> refunds_ok db' = refunds_ok db"
  by (simp add: refunds_ok_def)

text \<open>Only a captured payment has refunds, and a captured payment stays captured.\<close>

lemma update_attempt_refunds_ok:
  assumes ok: "refunds_ok db" and run: "update_attempt i g db = Inr db'"
    and money: "\<And>a. attempt_money (g a) = attempt_money a"
  shows "refunds_ok db'"
proof -
  from run obtain r where r: "find_row (\<lambda>a. pay_id a = i) (db_attempts db) = Some r" "attempt_update_ok r (g r)"
    and db': "db' = db\<lparr>db_attempts := update_rows (\<lambda>a. pay_id a = i) g (db_attempts db)\<rparr>"
    by (auto simp: update_attempt_Inr)
  have core: "money_core (db_attempts db) (db_refunds db)" using ok by (simp add: refunds_ok_def)
  have same: "pay_id (g a) = pay_id a" "pay_amountMinor (g a) = pay_amountMinor a"
    "pay_refundedMinor (g a) = pay_refundedMinor a" "pay_inFlightRefundMinor (g a) = pay_inFlightRefundMinor a" for a
    using money [of a] by (simp_all add: attempt_money_def attempt_key_def)
  have keys: "map pay_id (db_attempts db') = map pay_id (db_attempts db)"
    unfolding db' by simp (rule map_update_rows, simp add: same)
  have mem: "r \<in> set (db_attempts db)" "pay_id r = i" using tbl.find_SomeD [OF r(1)] by simp_all
  have "totals_ok (db_refunds db) a" if "a \<in> set (db_attempts db')" for a
  proof -
    from that obtain b where b: "b \<in> set (db_attempts db)" "a = (if pay_id b = i then g b else b)"
      by (auto simp: db' tbl.mem_update)
    have old: "totals_ok (db_refunds db) b" using core b(1) by (simp add: money_core_def)
    show ?thesis
    proof (cases "pay_id b = i")
      case True
      then have "b = r" using b(1) mem core by (auto simp: money_core_def distinct_map dest: inj_onD)
      with r(2) have "pay_status b = PaymentAttemptStatus.SUCCEEDED \<Longrightarrow> pay_status (g b) = PaymentAttemptStatus.SUCCEEDED"
        by (simp add: attempt_update_ok_def)
      with old True b(2) show ?thesis by (auto simp: totals_ok_def aggregate_ok_def same)
    qed (use old b(2) in simp)
  qed
  moreover have "pay_id ` set (db_attempts db') = pay_id ` set (db_attempts db)" using keys by (metis set_map)
  moreover have "db_refunds db' = db_refunds db" "db_refundSeats db' = db_refundSeats db" by (simp_all add: db')
  ultimately show ?thesis using ok keys unfolding refunds_ok_def money_core_def by simp
qed

definition keeps_refunds :: "database \<Rightarrow> database \<Rightarrow> bool" where
  "keeps_refunds db db' \<longleftrightarrow> (refunds_ok db \<longrightarrow> refunds_ok db')"

lemma keeps_refunds_same:
  "db_attempts db' = db_attempts db \<Longrightarrow> db_refunds db' = db_refunds db \<Longrightarrow> db_refundSeats db' = db_refundSeats db
    \<Longrightarrow> keeps_refunds db db'"
  unfolding keeps_refunds_def using refunds_ok_same [of db' db] by blast

interpretation refund_sale: sale_frame keeps_refunds
proof unfold_locales
  fix i g db db'
  assume "update_attempt i g db = Inr db'" "\<And>a. attempt_money (g a) = attempt_money a"
  then show "keeps_refunds db db'" by (simp add: keeps_refunds_def update_attempt_refunds_ok)
next
  fix draw wid attempt o' hold items now db db'
  assume "fulfill draw wid attempt o' hold items now db = Inr db'"
  then show "keeps_refunds db db'"
  proof (rule fulfill_split)
    fix db1
    assume 1: "update_attempt (pay_id attempt) (\<lambda>a. (succeed_attempt now a)\<lparr>pay_safeFailureCode := None\<rparr>) db = Inr db1"
      and same: "aftersales db' = aftersales db1" "db_attempts db' = db_attempts db1"
    have "refunds_ok db1" if "refunds_ok db"
      by (rule update_attempt_refunds_ok [OF that 1]) (simp add: succeed_attempt_def attempt_money_def attempt_key_def)
    then show ?thesis using same refunds_ok_same [of db' db1] by (simp add: keeps_refunds_def aftersales_def)
  qed
next
  fix s now db db' n
  assume "releaseExpiredHoldsForSession s now db = Inr (db', n)"
  then show "keeps_refunds db db'" by (auto dest!: release_expired_frame intro: keeps_refunds_same)
next
  fix i f db db'
  assume "update_order i f db = Inr db'"
  then show "keeps_refunds db db'" by (auto simp: update_order_Inr intro!: keeps_refunds_same)
next
  fix i f db db'
  assume "update_webhook i f db = Inr db'"
  then show "keeps_refunds db db'" by (auto simp: update_webhook_Inr intro!: keeps_refunds_same)
next
  fix t s a key now db db'
  assume "enqueueInventoryEvent t s a key now db = Inr db'"
  then show "keeps_refunds db db'" by (auto simp: enqueue_event_Inr intro!: keeps_refunds_same)
qed (simp_all add: keeps_refunds_def)

interpretation refund_money: refund_frame keeps_refunds
proof unfold_locales
  fix i f db db'
  assume "update_refund i f db = Inr db'" "refund_change f"
  then show "keeps_refunds db db'" by (simp add: keeps_refunds_def update_refund_ok)
next
  fix sha r seats now db db'
  assume "write_refund sha r seats now db = Inr db'" "requested_with r seats"
  then show "keeps_refunds db db'" by (simp add: keeps_refunds_def request_ok)
next
  fix b f db db'
  assume "update_booking b f db = Inr db'"
  then show "keeps_refunds db db'" by (auto simp: update_booking_Inr intro!: keeps_refunds_same)
next
  fix reason now t db db'
  assume "revoke_admission reason now t db = Inr db'"
  then show "keeps_refunds db db'" by (rule revoke_admission_Inr) (simp add: keeps_refunds_same)
qed (simp_all add: keeps_refunds_same)

end
