(* ===== verification/Ticket_Invariant.thy ===== *)
theory Ticket_Invariant
  imports Refund_Invariant
begin

text \<open>
  The invariant of tickets: one ticket per seat, at most one active credential per ticket and
  only for an active ticket, and exactly one accepted redemption for every used ticket. The
  payment, refund and dispute services keep it by the frame locales; issuance, scanning,
  rotation and revocation are proved here.
\<close>

section \<open>The invariant\<close>

definition tickets_core :: "Ticket list \<Rightarrow> TicketCredential list \<Rightarrow> TicketRedemptionEvent list \<Rightarrow> bool" where
  "tickets_core ts cs rs \<longleftrightarrow>
     distinct (map tk_id ts) \<and> distinct (map tk_bookingSeatId ts)
     \<and> distinct (map cred_id cs) \<and> distinct (map cred_credentialHash cs)
     \<and> (\<forall>c\<in>set cs. cred_status c = TicketCredentialStatus.ACTIVE \<longrightarrow>
          (\<exists>t\<in>set ts. tk_id t = cred_ticketId c \<and> tk_status t = TicketStatus.ACTIVE)
          \<and> (\<forall>x\<in>set cs. active_credential (cred_ticketId c) x \<longrightarrow> x = c))
     \<and> (\<forall>t\<in>set ts. tk_status t = TicketStatus.USED \<longleftrightarrow> Some (tk_id t) \<in> accepted_ticket ` set rs)
     \<and> (\<forall>r\<in>set rs. accepted_ticket r \<in> insert None (Some ` tk_id ` set ts))
     \<and> distinct (filter (\<lambda>k. k \<noteq> None) (map accepted_ticket rs))"

definition tickets_ok :: "database \<Rightarrow> bool" where
  "tickets_ok db \<longleftrightarrow> tickets_core (db_tickets db) (db_credentials db) (db_redemptions db)"

definition keeps_tickets :: "database \<Rightarrow> database \<Rightarrow> bool" where
  "keeps_tickets db db' \<longleftrightarrow> (tickets_ok db \<longrightarrow> tickets_ok db')"

lemma tickets_ok_same: "aftersales db' = aftersales db \<Longrightarrow> tickets_ok db' = tickets_ok db"
  by (simp add: tickets_ok_def aftersales_def)

lemma keeps_tickets_same:
  "db_tickets db' = db_tickets db \<Longrightarrow> db_credentials db' = db_credentials db \<Longrightarrow> db_redemptions db' = db_redemptions db
     \<Longrightarrow> keeps_tickets db db'"
  by (simp add: keeps_tickets_def tickets_ok_def)

section \<open>Rows\<close>

lemma core_ticket_update:
  assumes core: "tickets_core ts cs rs"
    and key: "\<And>t. tk_id (f t) = tk_id t \<and> tk_bookingSeatId (f t) = tk_bookingSeatId t"
    and used: "\<And>t. t \<in> set ts \<Longrightarrow> tk_id t = k \<Longrightarrow> tk_status (f t) = TicketStatus.USED \<longleftrightarrow> tk_status t = TicketStatus.USED"
    and live: "\<And>t c. t \<in> set ts \<Longrightarrow> tk_id t = k \<Longrightarrow> c \<in> set cs \<Longrightarrow> active_credential k c \<Longrightarrow> tk_status t = TicketStatus.ACTIVE \<Longrightarrow>
      tk_status (f t) = TicketStatus.ACTIVE"
  shows "tickets_core (update_rows (\<lambda>t. tk_id t = k) f ts) cs rs"
proof -
  let ?new = "update_rows (\<lambda>t. tk_id t = k) f ts"
  have ids: "map tk_id ?new = map tk_id ts" "map tk_bookingSeatId ?new = map tk_bookingSeatId ts"
    by (simp_all add: update_rows_def key)
  then have id_set: "tk_id ` set ?new = tk_id ` set ts" by (metis set_map)
  have "\<exists>t\<in>set ?new. tk_id t = cred_ticketId c \<and> tk_status t = TicketStatus.ACTIVE"
    if "c \<in> set cs" "cred_status c = TicketCredentialStatus.ACTIVE" for c
  proof -
    from core that obtain t where t: "t \<in> set ts" "tk_id t = cred_ticketId c" "tk_status t = TicketStatus.ACTIVE"
      by (auto simp: tickets_core_def)
    let ?t = "if tk_id t = k then f t else t"
    have "?t \<in> set ?new" using t(1) by (auto simp: tbl.mem_update)
    moreover have "tk_id ?t = cred_ticketId c" using t(2) key by simp
    moreover have "tk_status ?t = TicketStatus.ACTIVE"
      using t live [OF t(1) _ that(1)] that(2) by (simp add: active_credential_def)
    ultimately show ?thesis by blast
  qed
  moreover have "\<forall>t\<in>set ?new. tk_status t = TicketStatus.USED \<longleftrightarrow> Some (tk_id t) \<in> accepted_ticket ` set rs"
    using core used unfolding tbl.all_update by (auto simp: tickets_core_def key)
  ultimately show ?thesis using core unfolding tickets_core_def ids id_set by blast
qed

lemma core_credential_update:
  assumes core: "tickets_core ts cs rs"
    and key: "\<And>c. cred_id (g c) = cred_id c \<and> cred_credentialHash (g c) = cred_credentialHash c \<and> cred_ticketId (g c) = cred_ticketId c"
    and off: "\<And>c. c \<in> set cs \<Longrightarrow> Q c \<Longrightarrow> cred_status (g c) \<noteq> TicketCredentialStatus.ACTIVE"
  shows "tickets_core ts (update_rows Q g cs) rs"
proof -
  let ?new = "update_rows Q g cs"
  have ids: "map cred_id ?new = map cred_id cs" "map cred_credentialHash ?new = map cred_credentialHash cs"
    by (simp_all add: update_rows_def key)
  have old: "c \<in> set cs" if "c \<in> set ?new" "cred_status c = TicketCredentialStatus.ACTIVE" for c
    using that off by (auto simp: tbl.mem_update split: if_splits)
  have part: "(\<exists>t\<in>set ts. tk_id t = cred_ticketId c \<and> tk_status t = TicketStatus.ACTIVE)
      \<and> (\<forall>x\<in>set ?new. active_credential (cred_ticketId c) x \<longrightarrow> x = c)"
    if c: "c \<in> set ?new" "cred_status c = TicketCredentialStatus.ACTIVE" for c
  proof -
    have live: "\<exists>t\<in>set ts. tk_id t = cred_ticketId c \<and> tk_status t = TicketStatus.ACTIVE"
      and only: "\<forall>x\<in>set cs. active_credential (cred_ticketId c) x \<longrightarrow> x = c"
      using core old [OF c] c(2) by (simp_all add: tickets_core_def)
    have "x = c" if "x \<in> set ?new" "active_credential (cred_ticketId c) x" for x
      using only that old [of x] by (simp add: active_credential_def)
    with live show ?thesis by blast
  qed
  with core show ?thesis unfolding tickets_core_def ids by blast
qed

lemma core_credential_insert:
  assumes core: "tickets_core ts cs rs"
    and fresh: "cred_id c \<notin> cred_id ` set cs" "cred_credentialHash c \<notin> cred_credentialHash ` set cs"
    and none: "\<And>x. x \<in> set cs \<Longrightarrow> \<not> active_credential (cred_ticketId c) x"
    and t: "t \<in> set ts" "tk_id t = cred_ticketId c" "tk_status t = TicketStatus.ACTIVE"
  shows "tickets_core ts (cs @ [c]) rs"
  using core fresh t none unfolding tickets_core_def by (auto simp: active_credential_def)

lemma core_ticket_insert:
  assumes core: "tickets_core ts cs rs"
    and fresh: "tk_id t \<notin> tk_id ` set ts" "tk_bookingSeatId t \<notin> tk_bookingSeatId ` set ts"
    and act: "tk_status t = TicketStatus.ACTIVE"
  shows "tickets_core (ts @ [t]) cs rs"
proof -
  have "Some (tk_id t) \<notin> accepted_ticket ` set rs"
    using core fresh(1) unfolding tickets_core_def by fastforce
  then show ?thesis using core fresh act unfolding tickets_core_def by auto
qed

lemma core_rejection:
  "tickets_core ts cs rs \<Longrightarrow> accepted_ticket r = None \<Longrightarrow> tickets_core ts cs (rs @ [r])"
  unfolding tickets_core_def by (auto simp: image_iff)

text \<open>Admission: the redemption, the credential and the ticket change together.\<close>

lemma core_admission:
  assumes core: "tickets_core ts cs rs"
    and r: "accepted_ticket r = Some k" "Some k \<notin> accepted_ticket ` set rs"
    and t: "t \<in> set ts" "tk_id t = k" "tk_status t = TicketStatus.ACTIVE"
    and c: "c \<in> set cs" "active_credential k c"
  shows "tickets_core (update_rows (\<lambda>t. tk_id t = k) (\<lambda>t. t\<lparr>tk_status := TicketStatus.USED\<rparr>) ts)
    (update_rows (\<lambda>x. cred_id x = cred_id c) (\<lambda>x. x\<lparr>cred_status := TicketCredentialStatus.USED, cred_usedAt := now\<rparr>) cs) (rs @ [r])"
proof -
  let ?ts = "update_rows (\<lambda>t. tk_id t = k) (\<lambda>t. t\<lparr>tk_status := TicketStatus.USED\<rparr>) ts"
  let ?cs = "update_rows (\<lambda>x. cred_id x = cred_id c) (\<lambda>x. x\<lparr>cred_status := TicketCredentialStatus.USED, cred_usedAt := now\<rparr>) cs"
  have mid: "tickets_core ts ?cs rs" by (rule core_credential_update [OF core]) simp_all
  have none: "\<not> active_credential k x" if "x \<in> set ?cs" for x
  proof
    assume a: "active_credential k x"
    from that obtain y where y: "y \<in> set cs"
      "x = (if cred_id y = cred_id c then y\<lparr>cred_status := TicketCredentialStatus.USED, cred_usedAt := now\<rparr> else y)"
      by (auto simp: tbl.mem_update)
    with a have x: "x \<in> set cs" "cred_id x \<noteq> cred_id c"
      by (cases "cred_id y = cred_id c"; simp add: active_credential_def)+
    from core c have "\<forall>x\<in>set cs. active_credential k x \<longrightarrow> x = c"
      unfolding tickets_core_def active_credential_def by auto
    with x a show False by blast
  qed
  have ids: "map tk_id ?ts = map tk_id ts" "map tk_bookingSeatId ?ts = map tk_bookingSeatId ts"
    by (simp_all add: update_rows_def)
  then have id_set: "tk_id ` set ?ts = tk_id ` set ts" by (metis set_map)
  have live: "\<exists>t\<in>set ?ts. tk_id t = cred_ticketId x \<and> tk_status t = TicketStatus.ACTIVE"
    if "x \<in> set ?cs" "cred_status x = TicketCredentialStatus.ACTIVE" for x
  proof -
    from mid that obtain u where u: "u \<in> set ts" "tk_id u = cred_ticketId x" "tk_status u = TicketStatus.ACTIVE"
      by (auto simp: tickets_core_def)
    have "cred_ticketId x \<noteq> k" using none [OF that(1)] that(2) by (simp add: active_credential_def)
    with u have "u \<in> set ?ts" unfolding tbl.mem_update by (intro bexI [of _ u]) simp_all
    with u show ?thesis by blast
  qed
  have used: "\<forall>t\<in>set ?ts. tk_status t = TicketStatus.USED \<longleftrightarrow> Some (tk_id t) \<in> accepted_ticket ` set (rs @ [r])"
    using core r(1) unfolding tbl.all_update by (auto simp: tickets_core_def)
  have "k \<in> tk_id ` set ts" using t by blast
  with mid live used r show ?thesis unfolding tickets_core_def ids id_set by auto
qed

section \<open>Payments, refunds and disputes\<close>

lemma revoked_not_used:
  assumes "ticket_update_ok t (revoke_ticket_row reason actor now t)"
  shows "tk_status t \<noteq> TicketStatus.USED"
  using assms by (auto simp: ticket_update_ok_def revoke_ticket_row_def)

lemma core_revoke:
  assumes core: "tickets_core ts cs rs" and none: "\<And>c. c \<in> set cs \<Longrightarrow> \<not> active_credential k c"
    and run: "checked_update ''Ticket'' (\<lambda>t. tk_id t = k) ticket_update_ok (revoke_ticket_row reason actor now) ts = Inr ts'"
  shows "tickets_core ts' cs rs"
proof -
  from run obtain u where u: "find_row (\<lambda>t. tk_id t = k) ts = Some u" "ticket_update_ok u (revoke_ticket_row reason actor now u)"
    and ts': "ts' = update_rows (\<lambda>t. tk_id t = k) (revoke_ticket_row reason actor now) ts"
    by (auto simp: checked_update_Inr)
  have only: "t = u" if "t \<in> set ts" "tk_id t = k" for t
    using that tbl.find_SomeD [OF u(1)] core by (auto simp: tickets_core_def distinct_map dest: inj_onD)
  show ?thesis
    unfolding ts' using revoked_not_used [OF u(2)]
    by (intro core_ticket_update [OF core]) (auto simp: revoke_ticket_row_def dest: only none)
qed

lemma revoked_none: "c \<in> set (update_rows (active_credential k) (revoke_credential now) cs) \<Longrightarrow> \<not> active_credential k c"
proof -
  assume "c \<in> set (update_rows (active_credential k) (revoke_credential now) cs)"
  then obtain y where "c = (if active_credential k y then revoke_credential now y else y)"
    unfolding tbl.mem_update by blast
  then show ?thesis by (cases "active_credential k y") (simp_all add: active_credential_def revoke_credential_def)
qed

lemma revoke_admission_tickets:
  assumes "revoke_admission reason now k db = Inr db'"
  shows "keeps_tickets db db'"
  using assms
proof (rule revoke_admission_Inr)
  fix creds tickets audit
  assume db': "db' = db\<lparr>db_credentials := creds, db_tickets := tickets, db_audit := audit\<rparr>"
    and creds: "creds = update_rows (active_credential k) (revoke_credential now) (db_credentials db)"
    and run: "checked_update ''Ticket'' (\<lambda>x. tk_id x = k) ticket_update_ok (revoke_ticket_row reason None now) (db_tickets db) = Inr tickets"
  have "tickets_core tickets creds (db_redemptions db)" if "tickets_ok db"
  proof (rule core_revoke [OF _ _ run])
    show "tickets_core (db_tickets db) creds (db_redemptions db)"
      unfolding creds using that by (intro core_credential_update) (simp_all add: tickets_ok_def revoke_credential_def)
    show "\<not> active_credential k c" if "c \<in> set creds" for c
      using that unfolding creds by (rule revoked_none)
  qed
  then show ?thesis by (simp add: keeps_tickets_def tickets_ok_def db')
qed

interpretation ticket_sale: sale_frame keeps_tickets
proof unfold_locales
  fix draw wid attempt o' hold items now db db'
  assume "fulfill draw wid attempt o' hold items now db = Inr db'"
  then show "keeps_tickets db db'"
  proof (rule fulfill_split)
    fix db1
    assume "update_attempt (pay_id attempt) (\<lambda>a. (succeed_attempt now a)\<lparr>pay_safeFailureCode := None\<rparr>) db = Inr db1"
      and same: "aftersales db' = aftersales db1"
    then have "aftersales db1 = aftersales db" by (auto simp: update_attempt_Inr)
    with same have "aftersales db' = aftersales db" by simp
    from tickets_ok_same [OF this] show ?thesis by (simp add: keeps_tickets_def)
  qed
next
  fix s now db db' n
  assume "releaseExpiredHoldsForSession s now db = Inr (db', n)"
  then show "keeps_tickets db db'" by (auto dest!: release_expired_frame intro: keeps_tickets_same)
qed (auto simp: keeps_tickets_def tickets_ok_def update_order_Inr update_attempt_Inr update_webhook_Inr enqueue_event_Inr)

interpretation ticket_money: refund_frame keeps_tickets
proof unfold_locales
  fix sha r seats now db db'
  assume "write_refund sha r seats now db = Inr db'"
  then show "keeps_tickets db db'"
    by (elim write_refund_Inr) (auto dest!: create_refund_Inr(4) simp: maintain_Inr intro: keeps_tickets_same)
qed (auto simp: update_booking_Inr maintain_Inr elim!: update_refund_Inr intro: keeps_tickets_same revoke_admission_tickets)

section \<open>Issuance\<close>

lemma tickets_okI:
  "tickets_core (db_tickets db') (db_credentials db') (db_redemptions db') \<Longrightarrow> keeps_tickets db db'"
  by (simp add: keeps_tickets_def tickets_ok_def)

lemma resp_audit: "obeys keeps_tickets (\<lambda>x. x) db (create_audit a db)"
  by (auto simp: create_audit_def intro: keeps_tickets_same)

lemma resp_notification: "obeys keeps_tickets (\<lambda>x. x) db (upsert_notification n db)"
  by (auto simp: upsert_notification_def intro: keeps_tickets_same)

lemma resp_create_ticket:
  assumes "tk_status t = TicketStatus.ACTIVE"
  shows "obeys keeps_tickets (\<lambda>x. x) db (create_ticket t db)"
proof (rule obeysI)
  fix db' assume "create_ticket t db = Inr db'"
  then have "tk_id t \<notin> tk_id ` set (db_tickets db)" "tk_bookingSeatId t \<notin> tk_bookingSeatId ` set (db_tickets db)"
    "db' = db\<lparr>db_tickets := db_tickets db @ [t]\<rparr>"
    by (auto simp: create_ticket_def has_key_def insert_row_def split: if_split_asm)
  with assms show "keeps_tickets db db'"
    by (auto simp: keeps_tickets_def tickets_ok_def intro: core_ticket_insert)
qed

lemma create_ticket_Inr: "create_ticket t db = Inr db' \<Longrightarrow> db' = db\<lparr>db_tickets := db_tickets db @ [t]\<rparr>"
  by (auto simp: create_ticket_def insert_row_def split: if_split_asm)

lemma ensure_ticket_keeps: "obeys keeps_tickets fst db (ensure_ticket draw b seatId now db)"
  unfolding ensure_ticket_def Let_def
  by (intro obeys_option ticket_sale.resp_then resp_create_ticket resp_audit ticket_sale.resp_value)
    (simp_all add: new_ticket_def ticket_sale.frame_refl)

lemma ensure_ticket_mem: "ensure_ticket draw b seatId now db = Inr (db', t, n) \<Longrightarrow> t \<in> set (db_tickets db')"
proof (cases "ticket_of_seat db seatId")
  case (Some u)
  moreover assume "ensure_ticket draw b seatId now db = Inr (db', t, n)"
  ultimately have "db' = db" "t = u" by (simp_all add: ensure_ticket_def)
  with tbl.find_SomeD [OF Some [unfolded ticket_of_seat_def]] show ?thesis by simp
next
  case None
  moreover assume "ensure_ticket draw b seatId now db = Inr (db', t, n)"
  ultimately obtain db1 where 1: "create_ticket t db = Inr db1"
    and 2: "create_audit (audit_row (tk_id t) None ISSUED None now) db1 = Inr db'"
    by (auto simp: ensure_ticket_def Let_def and_then_eq_Inr)
  have "db_tickets db' = db_tickets db1" using 2 by (auto simp: create_audit_def split: if_split_asm)
  with create_ticket_Inr [OF 1] show ?thesis by simp
qed

text \<open>A new active credential for an active ticket that has none.\<close>

lemma create_credential_keeps:
  assumes "create_credential c db = Inr db'" "cred_status c = TicketCredentialStatus.ACTIVE"
    and "t \<in> set (db_tickets db)" "tk_id t = cred_ticketId c" "tk_status t = TicketStatus.ACTIVE"
  shows "keeps_tickets db db'" "db' = db\<lparr>db_credentials := db_credentials db @ [c]\<rparr>"
proof -
  from assms(1,2) have fresh: "cred_id c \<notin> cred_id ` set (db_credentials db)"
    "cred_credentialHash c \<notin> cred_credentialHash ` set (db_credentials db)"
    and none: "\<not> list_ex (active_credential (cred_ticketId c)) (db_credentials db)"
    and db': "db' = db\<lparr>db_credentials := db_credentials db @ [c]\<rparr>"
    by (auto simp: create_credential_def has_key_def insert_row_def split: if_split_asm)
  show "keeps_tickets db db'"
    unfolding keeps_tickets_def tickets_ok_def db'
    using core_credential_insert [OF _ fresh _ assms(3-5)] none by (auto simp: list_ex_iff)
  show "db' = db\<lparr>db_credentials := db_credentials db @ [c]\<rparr>" by (rule db')
qed

lemma issue_credential_Inr:
  assumes "issue_credential hmac64 hmac16 secret draw t version now db = Inr db'"
  obtains hash where "create_credential (new_credential (td_credentialId draw (tk_id t) version) (tk_id t) version hash now) db = Inr db'"
  using assms unfolding issue_credential_def and_then_eq_Inr by blast

lemma new_credential_simps [simp]:
  "cred_status (new_credential i k v h now) = TicketCredentialStatus.ACTIVE"
  "cred_ticketId (new_credential i k v h now) = k" "cred_id (new_credential i k v h now) = i"
  "cred_version (new_credential i k v h now) = v"
  by (simp_all add: new_credential_def)

lemma issue_credential_keeps:
  assumes "t \<in> set (db_tickets db)" "tk_status t = TicketStatus.ACTIVE"
  shows "obeys keeps_tickets (\<lambda>x. x) db (issue_credential hmac64 hmac16 secret draw t version now db)"
  using assms by (intro obeysI) (auto elim!: issue_credential_Inr dest: create_credential_keeps(1))

lemma ensure_credential_keeps:
  assumes "t \<in> set (db_tickets db)"
  shows "obeys keeps_tickets fst db (ensure_credential hmac64 hmac16 secret draw t now db)"
  unfolding ensure_credential_def
  by (intro obeys_if ticket_sale.resp_value issue_credential_keeps) (simp_all add: assms ticket_sale.frame_refl)

lemma issue_seats_keeps: "obeys keeps_tickets fst db (issue_seats hmac64 hmac16 secret draw b now ids m n db)"
proof (induction ids arbitrary: m n db)
  case (Cons seatId ids)
  show ?case
    unfolding issue_seats.simps
  proof (rule ticket_sale.resp_then_pair [OF ensure_ticket_keeps])
    fix db1 y assume 1: "ensure_ticket draw b seatId now db = Inr (db1, y)"
    obtain t k where y: "y = (t, k)" by (cases y) blast
    have "t \<in> set (db_tickets db1)" using 1 y ensure_ticket_mem by blast
    then show "obeys keeps_tickets fst db1 (case y of (t, n') \<Rightarrow>
        and_then (ensure_credential hmac64 hmac16 secret draw t now db1) (\<lambda>(db2, k).
        issue_seats hmac64 hmac16 secret draw b now ids (m + n') (n + k) db2))"
      unfolding y prod.case
      by (intro ticket_sale.resp_then_pair [OF ensure_credential_keeps] Cons.IH)
  qed
qed (simp add: ticket_sale.frame_refl)

lemma issue_booking_keeps:
  "obeys keeps_tickets fst db (issueBookingTicketsInTransaction hmac64 hmac16 secret draw bookingId now db)"
  unfolding issueBookingTicketsInTransaction_def Let_def
  by (intro obeys_option obeys_if ticket_sale.resp_then_pair [OF issue_seats_keeps] obeys_prod
        ticket_sale.resp_value resp_notification) simp_all

lemma resp_update_issuance: "obeys keeps_tickets (\<lambda>x. x) db (update_issuance i f db)"
  by (auto simp: update_issuance_def obeys_def and_then_eq_Inr intro: keeps_tickets_same)

lemma issuance_keeps: "keeps_tickets db (fst (processTicketIssuanceForBooking hmac64 hmac16 secret draw bookingId now db))"
proof -
  have "obeys keeps_tickets fst db (issuance_transaction hmac64 hmac16 secret draw bookingId now db)"
    unfolding issuance_transaction_def
    by (intro obeys_option obeys_if ticket_sale.resp_then_pair [OF issue_booking_keeps]
          ticket_sale.resp_value resp_update_issuance) (simp_all add: ticket_sale.frame_refl)
  then show ?thesis
    unfolding processTicketIssuanceForBooking_def by (rule obeys_transact [OF ticket_sale.frame_refl])
qed

section \<open>Scanning\<close>

lemma decide_accepted_iff:
  "decide_entry input ses c t b ts now = TicketRedemptionOutcome.ACCEPTED \<longleftrightarrow>
     tk_sessionId t = scan_sessionId input \<and> tk_eventId t = ses_eventId ses
     \<and> cred_status c = TicketCredentialStatus.ACTIVE \<and> tk_status t = TicketStatus.ACTIVE
     \<and> bk_status b = BookingStatus.CONFIRMED
     \<and> decideEntryWindow (ses_status ts) (ses_startAt ts) (ses_endAt ts) now (scan_earlyMinutes input) (scan_lateMinutes input)
         = EntryWindowOutcome.OPEN"
  by (cases "cred_status c"; cases "tk_status t";
      cases "decideEntryWindow (ses_status ts) (ses_startAt ts) (ses_endAt ts) now (scan_earlyMinutes input) (scan_lateMinutes input)")
    (auto simp: decide_entry_def)

lemma create_redemption_Inr:
  "create_redemption r db = Inr db' \<Longrightarrow> db' = db\<lparr>db_redemptions := db_redemptions db @ [r]\<rparr>
     \<and> (\<forall>k. accepted_ticket r = Some k \<longrightarrow> Some k \<notin> accepted_ticket ` set (db_redemptions db))"
  by (auto simp: create_redemption_def has_key_def insert_row_def split: if_split_asm)

lemma rejection_keeps:
  assumes "accepted_ticket r = None"
  shows "obeys keeps_tickets (\<lambda>x. x) db (create_redemption r db)"
proof (rule obeysI)
  fix db' assume "create_redemption r db = Inr db'"
  from create_redemption_Inr [OF this] have "db' = db\<lparr>db_redemptions := db_redemptions db @ [r]\<rparr>" by blast
  with core_rejection [OF _ assms] show "keeps_tickets db db'" by (simp add: keeps_tickets_def tickets_ok_def)
qed

lemma admit_Inr:
  assumes "admit c t now db = Inr db'"
  shows "db' = db\<lparr>db_credentials := update_rows (\<lambda>x. cred_id x = cred_id c)
      (\<lambda>x. x\<lparr>cred_status := TicketCredentialStatus.USED, cred_usedAt := Some now\<rparr>) (db_credentials db),
    db_tickets := update_rows (\<lambda>x. tk_id x = tk_id t) (\<lambda>t. t\<lparr>tk_status := TicketStatus.USED\<rparr>) (db_tickets db)\<rparr>"
  using assms by (auto simp: admit_def update_credential_def update_ticket_def and_then_eq_Inr checked_update_Inr)

lemma redeem_keeps:
  assumes c: "c \<in> set (db_credentials db)" and t: "t \<in> set (db_tickets db)" "tk_id t = cred_ticketId c"
  shows "obeys keeps_tickets fst db (redeem input ses ev c t b ticketSession seat now db)"
proof (cases "decide_entry input ses c t b ticketSession now = TicketRedemptionOutcome.ACCEPTED")
  case False
  have "accepted_ticket (redemption input ses ev now target outcome) = None"
    if "outcome \<noteq> TicketRedemptionOutcome.ACCEPTED" for target outcome
    using that by (simp add: accepted_ticket_def redemption_def)
  with False show ?thesis
    unfolding redeem_def Let_def
    by (intro ticket_sale.resp_then rejection_keeps obeys_if) (simp_all add: ticket_sale.frame_refl)
next
  case True
  then have act: "cred_status c = TicketCredentialStatus.ACTIVE" "tk_status t = TicketStatus.ACTIVE"
    by (simp_all add: decide_accepted_iff)
  let ?r = "redemption input ses ev now (Some (tk_id t, cred_id c)) TicketRedemptionOutcome.ACCEPTED"
  show ?thesis
  proof (rule obeysI)
    fix p assume run: "redeem input ses ev c t b ticketSession seat now db = Inr p"
    then obtain db1 where 1: "create_redemption ?r db = Inr db1" and 2: "admit c t now db1 = Inr (fst p)"
      unfolding redeem_def Let_def True and_then_eq_Inr by auto
    have r: "accepted_ticket ?r = Some (tk_id t)" by (simp add: accepted_ticket_def redemption_def)
    from create_redemption_Inr [OF 1] r
    have db1: "db1 = db\<lparr>db_redemptions := db_redemptions db @ [?r]\<rparr>"
      and new: "Some (tk_id t) \<notin> accepted_ticket ` set (db_redemptions db)" by simp_all
    show "keeps_tickets db (fst p)"
      unfolding admit_Inr [OF 2] db1 keeps_tickets_def tickets_ok_def
      using core_admission [OF _ r new t(1) refl act(2) c] act(1) t(2) by (simp add: active_credential_def)
  qed
qed

lemma scan_keeps: "keeps_tickets db (fst (validateTicketEntry hmac16 secret input now db))"
proof -
  have invalid: "obeys keeps_tickets fst db1 (reject_invalid input ses ev now db1)" for ses ev db1
    unfolding reject_invalid_def
    by (intro ticket_sale.resp_value rejection_keeps) (simp add: accepted_ticket_def redemption_def)
  have "obeys keeps_tickets fst db (scan_transaction hmac16 secret input ses ev now db)" for ses ev
    unfolding scan_transaction_def
    by (intro obeys_option obeys_pure obeys_if obeys_prod invalid redeem_keeps)
      (auto simp: ticket_sale.frame_refl find_ticket_def dest!: tbl.find_SomeD split: option.splits)
  then have tx: "keeps_tickets db (fst (transact (scan_transaction hmac16 secret input ses ev now) db))" for ses ev
    by (rule obeys_transact [OF ticket_sale.frame_refl])
  have refused: "keeps_tickets db (case create_redemption (redemption input ses ev now None TicketRedemptionOutcome.UNAUTHORIZED_SCANNER) db of
      Inl _ \<Rightarrow> db | Inr db' \<Rightarrow> db')" for ses ev
    using rejection_keeps [of "redemption input ses ev now None TicketRedemptionOutcome.UNAUTHORIZED_SCANNER" db]
    by (auto simp: accepted_ticket_def redemption_def obeys_def ticket_sale.frame_refl split: sum.split)
  show ?thesis
    unfolding validateTicketEntry_def
    by (auto simp: ticket_sale.frame_refl tx refused split: option.split)
qed

section \<open>Rotation and revocation\<close>

lemma update_credential_Inr:
  assumes "update_credential i g db = Inr db'"
  shows "db' = db\<lparr>db_credentials := update_rows (\<lambda>c. cred_id c = i) g (db_credentials db)\<rparr>"
    "\<exists>c. find_row (\<lambda>c. cred_id c = i) (db_credentials db) = Some c \<and> credential_update_ok (db_credentials db) c (g c)"
  using assms by (auto simp: update_credential_def and_then_eq_Inr checked_update_Inr)

text \<open>A write that leaves the credential inactive.\<close>

lemma credential_off_keeps:
  assumes "update_credential i g db = Inr db'"
    and "\<And>c. cred_id (g c) = cred_id c \<and> cred_credentialHash (g c) = cred_credentialHash c \<and> cred_ticketId (g c) = cred_ticketId c"
    and "\<And>c. c \<in> set (db_credentials db) \<Longrightarrow> cred_id c = i \<Longrightarrow> cred_status (g c) \<noteq> TicketCredentialStatus.ACTIVE"
  shows "keeps_tickets db db'"
  unfolding update_credential_Inr(1) [OF assms(1)] keeps_tickets_def tickets_ok_def
  using core_credential_update [where g = g, OF _ assms(2,3)] by simp

lemma update_ticket_Inr:
  "update_ticket i f db = Inr db' \<longleftrightarrow>
     (\<exists>t. checked_update ''Ticket'' (\<lambda>t. tk_id t = i) ticket_update_ok f (db_tickets db) = Inr t \<and> db\<lparr>db_tickets := t\<rparr> = db')"
  by (auto simp: update_ticket_def and_then_eq_Inr)

lemma active_credential_unique:
  assumes "tickets_ok db" "x \<in> set (db_credentials db)" "active_credential k x" "c \<in> set (db_credentials db)" "active_credential k c"
  shows "x = c"
  using assms unfolding tickets_ok_def tickets_core_def active_credential_def by blast

lemma revoke_writes_keep:
  assumes t: "t \<in> set (db_tickets db)"
  shows "obeys keeps_tickets (\<lambda>x. x) db (revoke_writes draw actor reason t now db)"
proof (rule obeysI)
  fix db' assume "revoke_writes draw actor reason t now db = Inr db'"
  then obtain db1 db2 db3 where
    1: "(case find_row (active_credential (tk_id t)) (db_credentials db) of
           None \<Rightarrow> Inr db | Some c \<Rightarrow> update_credential (cred_id c) (revoke_credential now) db) = Inr db1" and
    2: "update_ticket (tk_id t) (revoke_ticket_row reason (Some actor) now) db1 = Inr db2" and
    3: "create_audit (audit_row (tk_id t) (Some actor) TicketAuditAction.REVOKED (Some reason) now) db2 = Inr db3" and
    4: "upsert_notification (notification_row (td_notificationId draw) NotificationType.TICKET_REVOKED (tk_userId t) None
       (Some (tk_id t)) (''ticket-revoked:'' @ tk_id t) now) db3 = Inr db'"
    unfolding revoke_writes_def and_then_eq_Inr by blast
  have "tickets_ok db2" if ok: "tickets_ok db"
  proof -
    have core1: "tickets_ok db1 \<and> (\<forall>c\<in>set (db_credentials db1). \<not> active_credential (tk_id t) c)"
    proof (cases "find_row (active_credential (tk_id t)) (db_credentials db)")
      case None
      then have "\<forall>c\<in>set (db_credentials db). \<not> active_credential (tk_id t) c" by (simp add: tbl.find_None_iff)
      moreover have "db1 = db" using 1 None by simp
      ultimately show ?thesis using ok by simp
    next
      case (Some c)
      with 1 have run: "update_credential (cred_id c) (revoke_credential now) db = Inr db1" by simp
      have c: "c \<in> set (db_credentials db)" "active_credential (tk_id t) c" using tbl.find_SomeD [OF Some] by simp_all
      have "keeps_tickets db db1" by (rule credential_off_keeps [OF run]) (simp_all add: revoke_credential_def)
      moreover have "\<not> active_credential (tk_id t) x" if "x \<in> set (db_credentials db1)" for x
      proof
        assume a: "active_credential (tk_id t) x"
        from that obtain y where y: "y \<in> set (db_credentials db)" "x = (if cred_id y = cred_id c then revoke_credential now y else y)"
          by (auto simp: update_credential_Inr(1) [OF run] tbl.mem_update)
        with a have "x = y" "cred_id y \<noteq> cred_id c"
          by (cases "cred_id y = cred_id c"; simp add: active_credential_def revoke_credential_def)+
        with active_credential_unique [OF ok y(1) _ c] a show False by simp
      qed
      ultimately show ?thesis using ok by (simp add: keeps_tickets_def)
    qed
    from 2 obtain ts where "checked_update ''Ticket'' (\<lambda>x. tk_id x = tk_id t) ticket_update_ok
        (revoke_ticket_row reason (Some actor) now) (db_tickets db1) = Inr ts" and db2: "db2 = db1\<lparr>db_tickets := ts\<rparr>"
      by (auto simp: update_ticket_Inr)
    from core_revoke [OF _ _ this(1)] core1 show ?thesis by (simp add: db2 tickets_ok_def)
  qed
  then have "keeps_tickets db db2" by (simp add: keeps_tickets_def)
  moreover have "keeps_tickets db2 db3" "keeps_tickets db3 db'"
    using resp_audit 3 resp_notification 4 unfolding obeys_def by blast+
  ultimately show "keeps_tickets db db'" using ticket_sale.frame_trans by blast
qed

lemma revocation_keeps: "keeps_tickets db (fst (revokeTicket draw actor ref raw now db))"
proof -
  have "obeys keeps_tickets fst db (revoke_transaction draw actor ref reason now db)" for reason
  proof (cases "ticket_of_reference db ref")
    case None
    then show ?thesis by (simp add: revoke_transaction_def)
  next
    case (Some t)
    have "t \<in> set (db_tickets db)" using tbl.find_SomeD [OF Some [unfolded ticket_of_reference_def]] by simp
    from revoke_writes_keep [OF this] Some show ?thesis
      by (cases "tk_status t") (simp_all add: revoke_transaction_def ticket_sale.frame_refl ticket_sale.resp_value)
  qed
  then have "keeps_tickets db (fst (transact (revoke_transaction draw actor ref reason now) db))" for reason
    by (rule obeys_transact [OF ticket_sale.frame_refl])
  then show ?thesis by (simp add: revokeTicket_def ticket_sale.frame_refl split: option.split)
qed

lemma current_credential_Some:
  "current_credential db k = Some c \<Longrightarrow> c \<in> set (db_credentials db) \<and> active_credential k c"
proof -
  assume "current_credential db k = Some c"
  then obtain cs where "sort_key (\<lambda>c. - cred_version c) (select_rows (active_credential k) (db_credentials db)) = c # cs"
    by (auto simp: current_credential_def split: list.splits)
  then have "c \<in> set (select_rows (active_credential k) (db_credentials db))" by (metis list.set_intros(1) set_sort)
  then show ?thesis by (simp add: select_rows_def)
qed

lemma update_credential_ids:
  assumes "update_credential i g db = Inr db'" "\<And>c. cred_id (g c) = cred_id c"
  shows "map cred_id (db_credentials db') = map cred_id (db_credentials db)" "i \<in> cred_id ` set (db_credentials db')"
proof -
  show same: "map cred_id (db_credentials db') = map cred_id (db_credentials db)"
    by (simp add: update_credential_Inr(1) [OF assms(1)] update_rows_def assms(2))
  from update_credential_Inr(2) [OF assms(1)] obtain y where "find_row (\<lambda>x. cred_id x = i) (db_credentials db) = Some y"
    by blast
  from tbl.find_SomeD [OF this] have "i \<in> cred_id ` set (db_credentials db)" by (metis rev_image_eqI)
  then show "i \<in> cred_id ` set (db_credentials db')" using same by (metis set_map)
qed

lemma rotate_writes_split:
  assumes "rotate_writes hmac64 hmac16 secret draw actor t c now db = Inr db'"
  obtains db1 db2 db3 where
    "update_credential (cred_id c) (replace_credential now) db = Inr db1"
    "issue_credential hmac64 hmac16 secret draw t (cred_version c + 1) now db1 = Inr db2"
    "update_credential (cred_id c) (\<lambda>x. x\<lparr>cred_replacementCredentialId :=
        Some (td_credentialId draw (tk_id t) (cred_version c + 1))\<rparr>) db2 = Inr db3"
    "db_credentials db' = db_credentials db3" "keeps_tickets db3 db'"
proof -
  from assms obtain db1 db2 db3 db4 db5 db6 where
    1: "update_credential (cred_id c) (replace_credential now) db = Inr db1"
       "issue_credential hmac64 hmac16 secret draw t (cred_version c + 1) now db1 = Inr db2"
       "update_credential (cred_id c) (\<lambda>x. x\<lparr>cred_replacementCredentialId :=
          Some (td_credentialId draw (tk_id t) (cred_version c + 1))\<rparr>) db2 = Inr db3" and
    4: "update_ticket (tk_id t) (\<lambda>t. t\<lparr>tk_lastCredentialRotationAt := Some now\<rparr>) db3 = Inr db4" and
    5: "create_audit (audit_row (tk_id t) (Some actor) TicketAuditAction.CREDENTIAL_ROTATED None now) db4 = Inr db5"
       "upsert_notification (notification_row (td_notificationId draw) NotificationType.CREDENTIAL_ROTATED
             (tk_userId t) None (Some (tk_id t))
             (''ticket-credential-rotated:'' @ tk_id t @ '':v'' @ decimal (nat (cred_version c + 1))) now) db5 = Inr db6"
       "verify_replacements db6 = Inr db'"
    unfolding rotate_writes_def Let_def and_then_eq_Inr by blast
  have "keeps_tickets db3 db4"
    using 4 by (auto simp: update_ticket_Inr checked_update_Inr keeps_tickets_def tickets_ok_def intro!: core_ticket_update)
  moreover have "keeps_tickets db4 db5" "keeps_tickets db5 db6"
    using resp_audit 5(1) resp_notification 5(2) unfolding obeys_def by blast+
  moreover have "db' = db6" using 5(3) by (simp add: verify_replacements_def split: if_split_asm)
  ultimately have "keeps_tickets db3 db'" unfolding keeps_tickets_def by blast
  moreover have "db_credentials db' = db_credentials db3"
    using 4 5 by (auto simp: update_ticket_Inr create_audit_def upsert_notification_def verify_replacements_def split: if_split_asm)
  ultimately show thesis using 1 that by blast
qed

lemma rotate_writes_keep:
  assumes t: "t \<in> set (db_tickets db)" "tk_status t = TicketStatus.ACTIVE"
  shows "obeys keeps_tickets (\<lambda>x. x) db (rotate_writes hmac64 hmac16 secret draw actor t c now db)"
proof (rule obeysI)
  fix db' assume "rotate_writes hmac64 hmac16 secret draw actor t c now db = Inr db'"
  then obtain db1 db2 db3 where
    1: "update_credential (cred_id c) (replace_credential now) db = Inr db1" and
    2: "issue_credential hmac64 hmac16 secret draw t (cred_version c + 1) now db1 = Inr db2" and
    3: "update_credential (cred_id c) (\<lambda>x. x\<lparr>cred_replacementCredentialId :=
          Some (td_credentialId draw (tk_id t) (cred_version c + 1))\<rparr>) db2 = Inr db3" and
    k4: "keeps_tickets db3 db'" by (rule rotate_writes_split)
  have k1: "keeps_tickets db db1" by (rule credential_off_keeps [OF 1]) (simp_all add: replace_credential_def)
  have tickets1: "db_tickets db1 = db_tickets db" by (simp add: update_credential_Inr(1) [OF 1])
  have k2: "keeps_tickets db1 db2"
    using issue_credential_keeps [of t db1] t tickets1 2 unfolding obeys_def by simp
  from 2 obtain new where new: "create_credential new db1 = Inr db2"
    by (rule issue_credential_Inr)
  then have db2: "db_credentials db2 = db_credentials db1 @ [new]" "cred_id new \<notin> cred_id ` set (db_credentials db1)"
    by (auto simp: create_credential_def has_key_def insert_row_def split: if_split_asm)
  have off: "cred_status x \<noteq> TicketCredentialStatus.ACTIVE" if "x \<in> set (db_credentials db2)" "cred_id x = cred_id c" for x
  proof -
    have "cred_id c \<in> cred_id ` set (db_credentials db1)" using update_credential_ids [OF 1] by (simp add: replace_credential_def)
    with that db2 have "x \<in> set (db_credentials db1)" by auto
    then obtain y where "x = (if cred_id y = cred_id c then replace_credential now y else y)"
      by (auto simp: update_credential_Inr(1) [OF 1] tbl.mem_update)
    with that(2) show ?thesis by (cases "cred_id y = cred_id c") (simp_all add: replace_credential_def)
  qed
  have k3: "keeps_tickets db2 db3" by (rule credential_off_keeps [OF 3]) (simp_all add: off)
  from k1 k2 k3 k4 show "keeps_tickets db db'" unfolding keeps_tickets_def by blast
qed

lemma rotation_keeps: "keeps_tickets db (fst (rotateTicketCredential hmac64 hmac16 secret draw actor ref now db))"
proof -
  have "obeys keeps_tickets fst db (rotate_transaction hmac64 hmac16 secret draw actor ref now db)"
    unfolding rotate_transaction_def
    by (intro obeys_option obeys_if obeys_pure ticket_sale.resp_value rotate_writes_keep)
      (auto simp: ticket_of_reference_def canRotateTicket_def dest!: tbl.find_SomeD)
  then have "keeps_tickets db (fst (transact (rotate_transaction hmac64 hmac16 secret draw actor ref now) db))"
    by (rule obeys_transact [OF ticket_sale.frame_refl])
  then show ?thesis by (simp add: rotateTicketCredential_def ticket_sale.frame_refl)
qed

end
