(* ===== verification/Ticket_Frames.thy ===== *)
theory Ticket_Frames
  imports Ticket_Invariant
begin

text \<open>
  Frame conditions of the ticket services: a relation that the writes to tickets, credentials,
  redemptions, audit, notifications, grants and issuance requests respect is respected by every
  operation on tickets. It is interpreted on the equality of everything else.
\<close>

text \<open>The issuance worker, over any issuance that respects the frame.\<close>

locale issuance_frame = frame +
  assumes resp_issue: "obeys P fst db (issueBookingTicketsInTransaction hmac64 hmac16 secret draw bookingId now db)"
    and frame_issuance: "P db (db\<lparr>db_issuance := q\<rparr>)"
begin

lemma resp_issuance: "obeys P (\<lambda>x. x) db (update_issuance i h db)"
  by (auto simp: obeys_def update_issuance_def and_then_eq_Inr frame_issuance)

theorem issuance_frame: "P db (fst (processTicketIssuanceForBooking hmac64 hmac16 secret draw bookingId now db))"
proof -
  have "obeys P fst db (issuance_transaction hmac64 hmac16 secret draw bookingId now db)"
    unfolding issuance_transaction_def
    by (intro obeys_option obeys_if resp_then_pair [OF resp_issue] resp_value resp_issuance) (simp_all add: frame_refl)
  then show ?thesis unfolding processTicketIssuanceForBooking_def by (rule obeys_transact [OF frame_refl])
qed

lemma claimed_frame: "P db (fst (issue_claimed describe hmac64 hmac16 secret draw config now request db))"
proof (cases "transact (issue_transaction hmac64 hmac16 secret draw now request) db")
  case (Pair db1 res)
  have "obeys P fst db (issue_transaction hmac64 hmac16 secret draw now request db)"
    unfolding issue_transaction_def by (intro resp_then_pair [OF resp_issue] resp_value resp_issuance)
  then have "P db (fst (transact (issue_transaction hmac64 hmac16 secret draw now request) db))"
    by (rule obeys_transact [OF frame_refl])
  then have 1: "P db db1" by (simp add: Pair)
  have "obeys P fst db1 (record_failure config e now i db1)" for e i
    unfolding record_failure_def by (intro obeys_option obeys_if resp_value resp_issuance) (simp_all add: frame_refl)
  then have 2: "P db1 (fst (transact (record_failure config e now i) db1))" for e i
    by (rule obeys_transact [OF frame_refl])
  show ?thesis
    unfolding issue_claimed_def Pair
    using 1 frame_trans [OF 1 2] by (auto split: sum.split prod.split) (metis fst_conv)+
qed

theorem issuance_batch_frame: "P db (fst (processTicketIssuanceBatch describe hmac64 hmac16 secret draw config now db))"
proof -
  have "P db (fst (issuance_loop describe hmac64 hmac16 secret draw config now left result db))" for left result
  proof (induction left arbitrary: result db)
    case (Suc left)
    show ?case
    proof (cases "next_issuance now db")
      case (Some request)
      obtain db1 res where 1: "issue_claimed describe hmac64 hmac16 secret draw config now request db = (db1, res)" by fastforce
      have "P db db1" using claimed_frame [of db describe hmac64 hmac16 secret draw config now request] 1 by simp
      with frame_trans [OF this Suc.IH] Some 1 show ?thesis by (cases res) (auto split: prod.split)
    qed (simp add: frame_refl)
  qed (simp add: frame_refl)
  then show ?thesis by (simp add: processTicketIssuanceBatch_def)
qed

theorem retry_frame: "P db (fst (retryTicketIssuanceRequest i now db))"
  by (simp add: retryTicketIssuanceRequest_def Let_def frame_issuance)

end

interpretation issued_tickets: issuance_frame keeps_tickets
  by unfold_locales (auto intro: keeps_tickets_same issue_booking_keeps)

text \<open>Download grants.\<close>

locale grant_frame = frame +
  assumes frame_grants: "P db (db\<lparr>db_grants := g\<rparr>)"
begin

lemma resp_new_grant: "obeys P (\<lambda>x. x) db (create_grant g db)"
  by (simp add: create_grant_def frame_grants)

lemma resp_grant: "obeys P (\<lambda>x. x) db (update_grant i k db)"
  by (auto simp: obeys_def update_grant_def and_then_eq_Inr frame_grants)

theorem grant_frame:
  "P db (fst (transact (createBookingPdfGrant hmac64 hmac16 secret grantId tok u which ttl subject now) db))"
proof -
  have "obeys P fst db (createBookingPdfGrant hmac64 hmac16 secret grantId tok u which ttl subject now db)"
    unfolding createBookingPdfGrant_def Let_def
    by (intro obeys_option obeys_pure resp_value resp_new_grant) (simp_all add: frame_refl)
  then show ?thesis by (rule obeys_transact [OF frame_refl])
qed

theorem download_frame: "P db (fst (consumeBookingPdfGrant hmac64 hmac16 secret u tok now db))"
proof -
  have "obeys P fst db (consume_transaction hmac64 hmac16 secret u h now db)" for h
    unfolding consume_transaction_def
    by (intro obeys_option obeys_if obeys_pure resp_value resp_grant) (simp_all add: frame_refl)
  then have "P db (fst (transact (consume_transaction hmac64 hmac16 secret u h now) db))" for h
    by (rule obeys_transact [OF frame_refl])
  then show ?thesis by (simp add: consumeBookingPdfGrant_def frame_refl split: sum.split)
qed

end

interpretation granted_tickets: grant_frame keeps_tickets
  by unfold_locales (simp add: keeps_tickets_same)

text \<open>The writes of issuance, admission, rotation and revocation.\<close>

locale ticket_frame = frame +
  assumes frame_tickets: "P db (db\<lparr>db_tickets := t\<rparr>)"
    and frame_credentials: "P db (db\<lparr>db_credentials := c\<rparr>)"
    and frame_redemptions: "P db (db\<lparr>db_redemptions := r\<rparr>)"
    and frame_audit: "P db (db\<lparr>db_audit := a\<rparr>)"
    and frame_notifications: "P db (db\<lparr>db_notifications := n\<rparr>)"
begin

lemma resp_writes:
  "obeys P (\<lambda>x. x) db (create_ticket t db)" "obeys P (\<lambda>x. x) db (create_audit a db)"
  "obeys P (\<lambda>x. x) db (create_credential c db)" "obeys P (\<lambda>x. x) db (upsert_notification n db)"
  "obeys P (\<lambda>x. x) db (create_redemption r db)"
  by (simp_all add: create_ticket_def create_audit_def create_credential_def upsert_notification_def
      create_redemption_def frame_refl frame_tickets frame_audit frame_credentials
      frame_notifications frame_redemptions)

lemma resp_updates:
  "obeys P (\<lambda>x. x) db (update_ticket i f db)" "obeys P (\<lambda>x. x) db (update_credential i g db)"
  by (auto simp: obeys_def update_ticket_def update_credential_def and_then_eq_Inr frame_tickets frame_credentials)

lemma resp_issue_credential: "obeys P (\<lambda>x. x) db (issue_credential hmac64 hmac16 secret draw t v now db)"
  unfolding issue_credential_def by (intro obeys_pure resp_writes)

lemma resp_issue_seats: "obeys P fst db (issue_seats hmac64 hmac16 secret draw b now ids m n db)"
proof (induction ids arbitrary: m n db)
  case (Cons seatId ids)
  have ticket: "obeys P fst db (ensure_ticket draw b seatId now db)"
    unfolding ensure_ticket_def Let_def
    by (intro obeys_option resp_then resp_writes resp_value) (simp_all add: frame_refl)
  have credential: "obeys P fst db1 (ensure_credential hmac64 hmac16 secret draw t now db1)" for db1 t
    unfolding ensure_credential_def by (intro obeys_if resp_value resp_issue_credential) (simp add: frame_refl)
  show ?case
    unfolding issue_seats.simps
    by (intro resp_then_pair [OF ticket] obeys_prod resp_then_pair [OF credential] Cons.IH)
qed (simp add: frame_refl)

lemma resp_issue_booking: "obeys P fst db (issueBookingTicketsInTransaction hmac64 hmac16 secret draw bookingId now db)"
  unfolding issueBookingTicketsInTransaction_def Let_def
  by (intro obeys_option obeys_if resp_then_pair [OF resp_issue_seats] obeys_prod resp_value resp_writes) simp_all

theorem scan_frame: "P db (fst (validateTicketEntry hmac16 secret input now db))"
proof -
  have invalid: "obeys P fst db1 (reject_invalid input ses ev now db1)" for ses ev db1
    unfolding reject_invalid_def by (intro resp_value resp_writes)
  have redeem: "obeys P fst db1 (redeem input ses ev c t b ts seat now db1)" for ses ev c t b ts seat db1
    unfolding redeem_def Let_def admit_def
    by (intro resp_then resp_writes obeys_if resp_updates) (simp_all add: frame_refl)
  have "obeys P fst db (scan_transaction hmac16 secret input ses ev now db)" for ses ev
    unfolding scan_transaction_def
    by (intro obeys_option obeys_pure obeys_if obeys_prod invalid redeem) (simp_all add: frame_refl)
  then have tx: "P db (fst (transact (scan_transaction hmac16 secret input ses ev now) db))" for ses ev
    by (rule obeys_transact [OF frame_refl])
  have "P db (case create_redemption r db of Inl _ \<Rightarrow> db | Inr db' \<Rightarrow> db')" for r
    using resp_writes(5) [of db r] by (auto simp: obeys_def frame_refl split: sum.split)
  with tx show ?thesis by (auto simp: validateTicketEntry_def frame_refl split: option.split)
qed

lemma resp_rotate_writes: "obeys P (\<lambda>x. x) db (rotate_writes hmac64 hmac16 secret draw actor t c now db)"
proof -
  have "obeys P (\<lambda>x. x) db1 (verify_replacements db1)" for db1
    by (simp add: verify_replacements_def frame_refl)
  then show ?thesis
    unfolding rotate_writes_def Let_def by (intro resp_then resp_updates resp_writes resp_issue_credential)
qed

theorem rotation_frame: "P db (fst (rotateTicketCredential hmac64 hmac16 secret draw actor ref now db))"
proof -
  have "obeys P fst db (rotate_transaction hmac64 hmac16 secret draw actor ref now db)"
    unfolding rotate_transaction_def
    by (intro obeys_option obeys_if obeys_pure resp_value resp_rotate_writes) simp_all
  then have "P db (fst (transact (rotate_transaction hmac64 hmac16 secret draw actor ref now) db))"
    by (rule obeys_transact [OF frame_refl])
  then show ?thesis by (simp add: rotateTicketCredential_def frame_refl)
qed

theorem revocation_frame: "P db (fst (revokeTicket draw actor ref raw now db))"
proof -
  have writes: "obeys P (\<lambda>x. x) db (revoke_writes draw actor reason t now db)" for reason t
    unfolding revoke_writes_def
    by (intro resp_then obeys_option resp_updates resp_writes) (simp_all add: frame_refl)
  have "obeys P fst db (revoke_transaction draw actor ref reason now db)" for reason
    by (cases "ticket_of_reference db ref"; cases "tk_status (the (ticket_of_reference db ref))")
      (auto simp: revoke_transaction_def frame_refl intro: resp_value writes)
  then have "P db (fst (transact (revoke_transaction draw actor ref reason now) db))" for reason
    by (rule obeys_transact [OF frame_refl])
  then show ?thesis by (simp add: revokeTicket_def frame_refl split: option.split)
qed

end

section \<open>What tickets leave alone\<close>

definition shop_side ::
  "database \<Rightarrow> (SessionSeatInventory list \<times> SeatHold list \<times> SeatHoldItem list \<times> InventoryEventOutbox list)
     \<times> (CheckoutOrder list \<times> CheckoutOrderItem list \<times> PaymentAttempt list)
     \<times> (Booking list \<times> BookingSeat list) \<times> (Refund list \<times> RefundSeat list)" where
  "shop_side db = ((db_inventory db, db_holds db, db_holdItems db, db_invOutbox db),
     (db_orders db, db_orderItems db, db_attempts db), (db_bookings db, db_bookingSeats db),
     (db_refunds db, db_refundSeats db))"

definition same_shop :: "database \<Rightarrow> database \<Rightarrow> bool" where
  "same_shop db db' \<longleftrightarrow> shop_side db' = shop_side db"

interpretation shop: ticket_frame same_shop
  by unfold_locales (simp_all add: same_shop_def shop_side_def)

interpretation shop_issue: issuance_frame same_shop
  by unfold_locales (rule shop.resp_issue_booking, simp add: same_shop_def shop_side_def)

interpretation shop_grant: grant_frame same_shop
  by unfold_locales (simp add: same_shop_def shop_side_def)

end
