(* ===== verification/Hold_Sweep.thy ===== *)
theory Hold_Sweep
  imports Hold_Release
begin

text \<open>
  The expiry sweep: one batch keeps the invariant and expires exactly the claimed holds, and
  the loop over batches ends, with no overdue hold left, whatever the batch size.
\<close>

definition claimed_holds :: "time \<Rightarrow> nat \<Rightarrow> database \<Rightarrow> SeatHold list" where
  "claimed_holds now n db = take n (sort_key hold_expiresAt (filter (overdue now) (db_holds db)))"

definition overdue_count :: "time \<Rightarrow> database \<Rightarrow> nat" where
  "overdue_count now db = length (filter (overdue now) (db_holds db))"

lemma overdue_count_zero: "overdue_count now db = 0 \<longleftrightarrow> (\<forall>h\<in>set (db_holds db). \<not> overdue now h)"
  by (simp add: overdue_count_def filter_empty_conv)

lemma claimed_holds_sub:
  "h \<in> set (claimed_holds now n db) \<Longrightarrow> h \<in> set (db_holds db) \<and> overdue now h"
  using set_take_subset [of n "sort_key hold_expiresAt (filter (overdue now) (db_holds db))"]
  by (auto simp: claimed_holds_def)

lemma claimed_holds_Nil: "0 < n \<Longrightarrow> claimed_holds now n db = [] \<longleftrightarrow> overdue_count now db = 0"
  unfolding claimed_holds_def overdue_count_def by (metis length_0_conv length_sort not_gr0 take_eq_Nil)

lemma claimed_holds_distinct:
  assumes "hold_table_ok (db_holds db)"
  shows "distinct (map hold_id (claimed_holds now n db))"
proof -
  have "distinct (map hold_id (filter (overdue now) (db_holds db)))"
    using assms by (intro distinct_map_filter_key) (simp add: hold_table_ok_def)
  then have "distinct (map hold_id (sort_key hold_expiresAt (filter (overdue now) (db_holds db))))"
    by (metis distinct_sort mset_map mset_sort distinct_map set_sort)
  then show ?thesis unfolding claimed_holds_def by (simp add: take_map [symmetric] del: take_map)
qed

definition swept_hit :: "SeatHold list \<Rightarrow> SeatHold \<Rightarrow> bool" where
  "swept_hit claimed h \<longleftrightarrow> List.member (map hold_id claimed) (hold_id h) \<and> hold_status h = SeatHoldStatus.ACTIVE"

definition swept_event :: "time \<Rightarrow> SeatHold \<Rightarrow> InventoryEventOutbox" where
  "swept_event now h = iev_row InventoryEventType.HOLD_EXPIRED (hold_sessionId h) (Some (hold_id h))
     (''hold-expired:'' @ hold_id h) now"

definition swept_db :: "SeatHold list \<Rightarrow> time \<Rightarrow> database \<Rightarrow> database" where
  "swept_db claimed now db =
     db\<lparr>db_holds := update_rows (swept_hit claimed) (expire_hold now) (db_holds db),
        db_inventory := update_rows (points_at (map hold_id claimed)) free_seat (db_inventory db),
        db_invOutbox := db_invOutbox db @ map (swept_event now) claimed\<rparr>"

lemma enqueue_swept_eq:
  assumes "distinct (map hold_id hs)" "\<forall>h\<in>set hs. ''hold-expired:'' @ hold_id h \<notin> set (outbox_keys db)"
  shows "enqueue_swept hs now db = Inr (db\<lparr>db_invOutbox := db_invOutbox db @ map (swept_event now) hs\<rparr>)"
  using assms
proof (induction hs arbitrary: db)
  case (Cons h hs)
  let ?db = "db\<lparr>db_invOutbox := db_invOutbox db @ [swept_event now h]\<rparr>"
  have "enqueueInventoryEvent InventoryEventType.HOLD_EXPIRED (hold_sessionId h) (Some (hold_id h))
      (''hold-expired:'' @ hold_id h) now db = Inr ?db"
    using Cons.prems(2) by (simp add: enqueue_event_Inr swept_event_def)
  moreover have "outbox_keys ?db = outbox_keys db @ [''hold-expired:'' @ hold_id h]"
    by (simp add: outbox_keys_def swept_event_def)
  then have "\<forall>h'\<in>set hs. ''hold-expired:'' @ hold_id h' \<notin> set (outbox_keys ?db)"
    using Cons.prems by (auto simp: image_iff)
  then have "enqueue_swept hs now ?db = Inr (?db\<lparr>db_invOutbox := db_invOutbox ?db @ map (swept_event now) hs\<rparr>)"
    using Cons.prems(1) by (intro Cons.IH) simp_all
  ultimately show ?case by simp
qed simp

lemma swept_hit_iff:
  assumes "hold_table_ok (db_holds db)" "h \<in> set (db_holds db)"
  shows "swept_hit (claimed_holds now n db) h \<longleftrightarrow> h \<in> set (claimed_holds now n db)"
proof
  assume "swept_hit (claimed_holds now n db) h"
  then obtain h' where h': "h' \<in> set (claimed_holds now n db)" "hold_id h' = hold_id h"
    by (auto simp: swept_hit_def)
  then have "h' = h" using hold_id_inj [OF assms(1) _ assms(2)] claimed_holds_sub by blast
  with h' show "h \<in> set (claimed_holds now n db)" by simp
next
  assume "h \<in> set (claimed_holds now n db)"
  then show "swept_hit (claimed_holds now n db) h"
    using claimed_holds_sub [of h now n db] by (simp add: swept_hit_def overdue_def)
qed

lemma sweep_batch_eq:
  assumes ok: "holds_ok db"
  shows "sweep_batch now n db =
     (if claimed_holds now n db = [] then Inr (db, 0, 0)
      else Inr (swept_db (claimed_holds now n db) now db,
                length (filter (swept_hit (claimed_holds now n db)) (db_holds db)),
                snd (releaseInventoryForHolds (map hold_id (claimed_holds now n db)) db)))"
proof -
  let ?c = "claimed_holds now n db"
  have table: "hold_table_ok (db_holds db)" and ev: "hold_events_ok (db_holds db) (outbox_keys db)"
    using ok by (auto simp: holds_ok_def holds_core_def)
  let ?db2 = "db\<lparr>db_holds := update_rows (swept_hit ?c) (expire_hold now) (db_holds db),
        db_inventory := update_rows (points_at (map hold_id ?c)) free_seat (db_inventory db)\<rparr>"
  have "\<forall>h\<in>set ?c. ''hold-expired:'' @ hold_id h \<notin> set (outbox_keys ?db2)"
    using active_not_announced(1) [OF ev table] claimed_holds_sub by (fastforce simp: outbox_keys_def overdue_def)
  then have enq: "enqueue_swept ?c now ?db2 = Inr (swept_db ?c now db)"
    using enqueue_swept_eq [OF claimed_holds_distinct [OF table], of now n ?db2] by (simp add: swept_db_def)
  have claimed: "take n (sort_key hold_expiresAt (select_rows (overdue now) (db_holds db))) = ?c"
    by (simp add: claimed_holds_def select_rows_def)
  have hit: "(\<lambda>h. List.member (map hold_id ?c) (hold_id h) \<and> hold_status h = SeatHoldStatus.ACTIVE) = swept_hit ?c"
    by (simp add: swept_hit_def fun_eq_iff)
  have rel: "releaseInventoryForHolds (map hold_id ?c) (db\<lparr>db_holds := update_rows (swept_hit ?c) (expire_hold now) (db_holds db)\<rparr>)
      = (?db2, snd (releaseInventoryForHolds (map hold_id ?c) db))"
    by (subst release_inventory_pair) (simp add: releaseInventoryForHolds_def)
  show ?thesis
    unfolding sweep_batch_def Let_def claimed hit rel
    by (simp add: enq select_rows_def)
qed

lemma swept_ok:
  assumes ok: "holds_ok db"
  shows "holds_ok (swept_db (claimed_holds now n db) now db)"
proof -
  let ?c = "claimed_holds now n db"
  have core: "holds_core (db_inventory db) (db_holds db) (db_holdItems db)"
    and ev: "hold_events_ok (db_holds db) (outbox_keys db)"
    using ok by (auto simp: holds_ok_def)
  then have table: "hold_table_ok (db_holds db)" by (simp add: holds_core_def)
  have act: "hold_status h = SeatHoldStatus.ACTIVE" if "swept_hit ?c h" for h
    using that by (simp add: swept_hit_def)
  have "holds_core (update_rows (points_at (map hold_id ?c)) free_seat (db_inventory db))
      (update_rows (swept_hit ?c) (expire_hold now) (db_holds db)) (db_holdItems db)"
    by (intro holds_core_settle core settles_expire lets_go_free act) (auto simp: swept_hit_def)
  moreover have "hold_events_ok (update_rows (swept_hit ?c) (expire_hold now) (db_holds db))
      (outbox_keys db @ map (\<lambda>h. ''hold-expired:'' @ hold_id h) ?c)"
  proof (intro hold_events_settle ev settles_expire act)
    fix k assume "k \<in> set (map (\<lambda>h. ''hold-expired:'' @ hold_id h) ?c)"
    then obtain h where h: "h \<in> set ?c" "k = ''hold-expired:'' @ hold_id h" by auto
    then have "h \<in> set (db_holds db)" using claimed_holds_sub by blast
    then show "\<exists>h\<in>set (db_holds db). swept_hit ?c h \<and>
       (k = ''hold-expired:'' @ hold_id h \<and> hold_status (expire_hold now h) = SeatHoldStatus.EXPIRED
        \<or> k = ''hold-released:'' @ hold_id h \<and> hold_status (expire_hold now h) = SeatHoldStatus.RELEASED)"
      using h swept_hit_iff [OF table] by (intro bexI [of _ h]) auto
  qed
  ultimately show ?thesis by (simp add: holds_ok_def swept_db_def outbox_keys_def swept_event_def comp_def)
qed

lemma filter_update_count:
  assumes "\<forall>x\<in>set xs. hit x \<longrightarrow> P x \<and> \<not> P (f x)"
  shows "length (filter P (update_rows hit f xs)) + length (filter hit xs) = length (filter P xs)"
  using assms by (induction xs) (auto simp: update_rows_def)

lemma swept_count:
  assumes ok: "holds_ok db"
  shows "overdue_count now (swept_db (claimed_holds now n db) now db)
       + length (filter (swept_hit (claimed_holds now n db)) (db_holds db)) = overdue_count now db"
    and "claimed_holds now n db \<noteq> [] \<Longrightarrow> 0 < length (filter (swept_hit (claimed_holds now n db)) (db_holds db))"
proof -
  have table: "hold_table_ok (db_holds db)" using ok by (auto simp: holds_ok_def holds_core_def)
  have "\<forall>h\<in>set (db_holds db). swept_hit (claimed_holds now n db) h \<longrightarrow> overdue now h \<and> \<not> overdue now (expire_hold now h)"
    using swept_hit_iff [OF table] claimed_holds_sub by (auto simp: overdue_def)
  then show "overdue_count now (swept_db (claimed_holds now n db) now db)
       + length (filter (swept_hit (claimed_holds now n db)) (db_holds db)) = overdue_count now db"
    using filter_update_count by (simp add: overdue_count_def swept_db_def)
  show "0 < length (filter (swept_hit (claimed_holds now n db)) (db_holds db))" if "claimed_holds now n db \<noteq> []"
  proof -
    from that obtain h where "h \<in> set (claimed_holds now n db)" by (cases "claimed_holds now n db") auto
    then show ?thesis
      using swept_hit_iff [OF table] claimed_holds_sub by (fastforce simp: filter_empty_conv)
  qed
qed

lemma sweep_loop_ends:
  assumes "holds_ok db" "0 < n" "overdue_count now db < fuel"
  shows "\<exists>db' r. sweep_loop fuel now n None acc db = Some (db', Inr r) \<and> holds_ok db'
    \<and> overdue_count now db' = 0
    \<and> swp_holdsExpired r = swp_holdsExpired acc + overdue_count now db"
  using assms
proof (induction fuel arbitrary: acc db)
  case (Suc fuel)
  let ?c = "claimed_holds now n db"
  show ?case
  proof (cases "?c = []")
    case True
    then have "overdue_count now db = 0" using claimed_holds_Nil [OF Suc.prems(2)] by simp
    with True Suc.prems(1) show ?thesis by (simp add: sweep_batch_eq [OF Suc.prems(1)] transact_def)
  next
    case False
    let ?k = "length (filter (swept_hit ?c) (db_holds db))"
    let ?seats = "snd (releaseInventoryForHolds (map hold_id ?c) db)"
    let ?acc = "\<lparr>swp_holdsExpired = swp_holdsExpired acc + ?k, swp_seatsReleased = swp_seatsReleased acc + ?seats,
                 swp_batches = swp_batches acc + 1\<rparr>"
    have k: "overdue_count now (swept_db ?c now db) + ?k = overdue_count now db" "0 < ?k"
      using swept_count [OF Suc.prems(1)] False by blast+
    then have "overdue_count now (swept_db ?c now db) < fuel" using Suc.prems(3) by linarith
    then obtain db' r where r: "sweep_loop fuel now n None ?acc (swept_db ?c now db) = Some (db', Inr r)"
      "holds_ok db'" "overdue_count now db' = 0"
      "swp_holdsExpired r = swp_holdsExpired acc + ?k + overdue_count now (swept_db ?c now db)"
      using Suc.IH [OF swept_ok [OF Suc.prems(1)] Suc.prems(2), of now n ?acc] by auto
    have "sweep_loop (Suc fuel) now n None acc db = sweep_loop fuel now n None ?acc (swept_db ?c now db)"
      using False k(2) by (simp add: sweep_batch_eq [OF Suc.prems(1)] transact_def)
    then show ?thesis using r k(1) by (intro exI [of _ db'] exI [of _ r]) simp
  qed
qed simp

text \<open>C18: The sweep terminates: with any batch size above zero, fuel for one batch more than there are
  overdue holds is enough, and it ends with the invariant, no overdue hold left, and a count of
  every hold it expired.\<close>

theorem sweep_terminates:
  assumes "holds_ok db" "0 < batchSize" "overdue_count now db < fuel"
  shows "\<exists>db' r. sweepExpiredHolds fuel now batchSize None db = Some (db', Inr r)
    \<and> holds_ok db' \<and> (\<forall>h\<in>set (db_holds db'). \<not> overdue now h)
    \<and> swp_holdsExpired r = overdue_count now db"
  using sweep_loop_ends [OF assms, of "\<lparr>swp_holdsExpired = 0, swp_seatsReleased = 0, swp_batches = 0\<rparr>"]
  by (auto simp: sweepExpiredHolds_def overdue_count_zero)

end
