(* ===== verification/System_Steps.thy ===== *)
theory System_Steps
  imports Ticket_Frames Hold_Sweep
begin

text \<open>
  The invariant of the whole system, and how every operation of the services evolves it: the
  operations on seats change only holds, seats and the outbox; orders and payments extend the
  books; refunds, disputes and tickets leave seats and orders alone.
\<close>

section \<open>The relations\<close>

definition sys_ok :: "database \<Rightarrow> bool" where
  "sys_ok db \<longleftrightarrow> store_ok db \<and> refunds_ok db \<and> tickets_ok db"

text \<open>A step evolves the system when it keeps the invariant and only ever adds booking seats.\<close>

definition evolves :: "database \<Rightarrow> database \<Rightarrow> bool" where
  "evolves db db' \<longleftrightarrow> (sys_ok db \<longrightarrow> sys_ok db' \<and> (\<exists>new. db_bookingSeats db' = db_bookingSeats db @ new))"

interpretation evolution: frame evolves
  by unfold_locales (auto simp: evolves_def)

text \<open>A step is steady when it respects the frame of each of the four invariants.\<close>

definition steady :: "database \<Rightarrow> database \<Rightarrow> bool" where
  "steady db db' \<longleftrightarrow> quiet db db' \<and> keeps_orders db db' \<and> keeps_refunds db db' \<and> keeps_tickets db db'"

lemma steady_evolves: "steady db db' \<Longrightarrow> evolves db db'"
  unfolding steady_def evolves_def sys_ok_def store_ok_def keeps_refunds_def keeps_tickets_def
  by (auto intro: quiet_shop_ok keeps_orders_ok simp: quiet_def)

text \<open>What the seats of holds do not touch.\<close>

definition books ::
  "database \<Rightarrow> CheckoutOrder list \<times> CheckoutOrderItem list \<times> PaymentAttempt list
     \<times> (Refund list \<times> RefundSeat list \<times> Ticket list \<times> TicketCredential list \<times> TicketRedemptionEvent list)" where
  "books db = (db_orders db, db_orderItems db, db_attempts db, aftersales db)"

lemma books_ok:
  assumes "books db' = books db" "sys_ok db" "shop_ok db'"
  shows "sys_ok db'"
  using assms by (simp add: books_def aftersales_def sys_ok_def store_ok_def orders_ok_def refunds_ok_def tickets_ok_def)

lemma seats_evolve:
  assumes "holds_ok db \<Longrightarrow> holds_ok db' \<and> books_none db db' \<and> books db' = books db"
  shows "evolves db db'"
  unfolding evolves_def
proof (intro impI)
  assume ok: "sys_ok db"
  then have shop: "shop_ok db" by (simp add: sys_ok_def store_ok_def)
  with assms have db': "holds_ok db'" "books_none db db'" "books db' = books db" by (simp_all add: shop_ok_def)
  with shop have "shop_ok db'" by (auto simp: shop_ok_def intro: books_none_sales)
  with books_ok [OF db'(3) ok] db'(2) show "sys_ok db' \<and> (\<exists>new. db_bookingSeats db' = db_bookingSeats db @ new)"
    by (simp add: books_none_def)
qed

section \<open>Seats\<close>

lemma after_expiry_seats:
  assumes "holds_ok db"
  shows "books_none db (after_expiry s now db) \<and> books (after_expiry s now db) = books db"
proof
  show "books_none db (after_expiry s now db)"
    by (rule books_none_update [where P = "points_at (expired_ids s now db)" and f = free_seat])
      (use held_not_booked [OF assms] in \<open>auto simp: after_expiry_def\<close>)
qed (simp add: after_expiry_def books_def)

lemma acquire_evolves: "evolves db (fst (acquireSeatHold config u raw now hid tok seen db))"
proof (rule seats_evolve)
  assume ok: "holds_ok db"
  obtain db' res where run: "acquireSeatHold config u raw now hid tok seen db = (db', res)" by fastforce
  have "holds_ok db'" using acquire_keeps_holds [OF ok, of config u raw now hid tok seen] run by simp
  moreover from run have "books_none db db' \<and> books db' = books db"
  proof (cases rule: acquire_cases)
    case unchanged
    then show ?thesis by (simp add: books_none_refl)
  next
    case (committed input r)
    from acquire_transaction_Inr [OF ok committed(4)] obtain n locked where
      db': "db' = claimed_db n locked now (after_expiry (hci_sessionId input) now db)" by metis
    let ?db1 = "after_expiry (hci_sessionId input) now db"
    have "books_none ?db1 db'"
      by (rule books_none_update [where P = "claims locked" and f = "claim_seat (hold_id n) (hold_expiresAt n)"])
        (auto simp: db' claimed_db_def claims_def claim_seat_def)
    moreover have "books db' = books ?db1" by (simp add: db' claimed_db_def books_def)
    ultimately show ?thesis using after_expiry_seats [OF ok] by (metis books_none_trans)
  qed
  ultimately show "holds_ok (fst (acquireSeatHold config u raw now hid tok seen db))
      \<and> books_none db (fst (acquireSeatHold config u raw now hid tok seen db))
      \<and> books (fst (acquireSeatHold config u raw now hid tok seen db)) = books db"
    by (simp add: run)
qed

lemma release_evolves: "evolves db (fst (releaseSeatHold u rawTok now seen db))"
proof (rule seats_evolve)
  assume ok: "holds_ok db"
  obtain db' res where run: "releaseSeatHold u rawTok now seen db = (db', res)" by fastforce
  have "holds_ok db'" using release_keeps_holds [OF ok, of u rawTok now seen] run by simp
  moreover from ok run have "books_none db db' \<and> books db' = books db"
  proof (cases rule: release_cases)
    case (found tok hold)
    have "books_none db (released_db hold now db)"
      by (rule books_none_update [where P = "points_at [hold_id hold]" and f = free_seat])
        (use held_not_booked [OF ok] in \<open>auto simp: released_db_def\<close>)
    moreover have "books (released_db hold now db) = books db" by (simp add: released_db_def books_def)
    ultimately show ?thesis using found(6) by (simp add: books_none_refl)
  qed (simp add: books_none_refl)
  ultimately show "holds_ok (fst (releaseSeatHold u rawTok now seen db))
      \<and> books_none db (fst (releaseSeatHold u rawTok now seen db))
      \<and> books (fst (releaseSeatHold u rawTok now seen db)) = books db"
    by (simp add: run)
qed

lemma sweep_batch_evolves: "evolves db (fst (transact (sweep_batch now n) db))"
proof (rule seats_evolve)
  assume ok: "holds_ok db"
  let ?c = "claimed_holds now n db"
  have "books_none db (swept_db ?c now db)"
    by (rule books_none_update [where P = "points_at (map hold_id ?c)" and f = free_seat])
      (use held_not_booked [OF ok] in \<open>auto simp: swept_db_def\<close>)
  moreover have "books (swept_db ?c now db) = books db" by (simp add: swept_db_def books_def)
  ultimately show "holds_ok (fst (transact (sweep_batch now n) db)) \<and> books_none db (fst (transact (sweep_batch now n) db))
      \<and> books (fst (transact (sweep_batch now n) db)) = books db"
    using ok swept_ok [OF ok] by (simp add: transact_def sweep_batch_eq [OF ok] books_none_refl)
qed

lemma sweep_evolves: "sweepExpiredHolds fuel now n limit db = Some (db', r) \<Longrightarrow> evolves db db'"
proof -
  have "sweep_loop fuel now n limit acc db = Some (db', r) \<Longrightarrow> evolves db db'" for acc
  proof (induction fuel arbitrary: acc limit db)
    case (Suc fuel)
    obtain db1 res where tx: "transact (sweep_batch now n) db = (db1, res)" by fastforce
    have 1: "evolves db db1" using sweep_batch_evolves [of db now n] by (simp add: tx)
    from Suc.prems tx 1 show ?case
      by (cases res) (auto intro: evolution.frame_refl evolution.frame_trans dest!: Suc.IH split: if_split_asm option.splits)
  qed simp
  then show "sweepExpiredHolds fuel now n limit db = Some (db', r) \<Longrightarrow> evolves db db'"
    by (simp add: sweepExpiredHolds_def)
qed

section \<open>Orders\<close>

lemma release_sessions_frame:
  assumes "release_sessions ss now db = Inr db'"
  shows "db_bookingSeats db' = db_bookingSeats db \<and> aftersales db' = aftersales db \<and> db_attempts db' = db_attempts db"
  using assms
proof (induction ss arbitrary: db)
  case (Cons s ss)
  then obtain db1 n where 1: "releaseExpiredHoldsForSession s now db = Inr (db1, n)" and "release_sessions ss now db1 = Inr db'"
    by (auto simp: and_then_eq_Inr)
  from Cons.IH [OF this(2)] release_expired_frame [OF 1] show ?case by auto
qed simp

lemma expire_batch_evolves: "evolves db (fst (transact (expire_orders_batch now n) db))"
  unfolding evolves_def
proof (intro impI)
  assume ok: "sys_ok db"
  then have store: "store_ok db" by (simp add: sys_ok_def)
  let ?c = "claimed_orders now n db"
  from expire_batch_total [OF store] obtain db' where
    d: "expire_orders_batch now n db = Inr (db', length ?c)" "store_ok db'" by blast
  have "db_bookingSeats db' = db_bookingSeats db \<and> aftersales db' = aftersales db \<and> db_attempts db' = db_attempts db"
    using d(1) by (auto simp: expire_batch_eq Let_def and_then_eq_Inr dest!: release_sessions_frame split: if_split_asm)
  with ok d show "sys_ok (fst (transact (expire_orders_batch now n) db))
      \<and> (\<exists>new. db_bookingSeats (fst (transact (expire_orders_batch now n) db)) = db_bookingSeats db @ new)"
    by (simp add: transact_def sys_ok_def refunds_ok_def tickets_ok_def aftersales_def)
qed

lemma expiry_evolves: "evolves db (fst (expireUnpaidCheckoutOrders now batch batches db))"
proof -
  have "evolves db (fst (expire_orders_loop left now n e b db))" for left n e b
  proof (induction left arbitrary: e b db)
    case (Suc left)
    obtain db1 res where tx: "transact (expire_orders_batch now n) db = (db1, res)" by fastforce
    have 1: "evolves db db1" using expire_batch_evolves [of db now n] by (simp add: tx)
    show ?case
      by (cases res) (auto simp: tx intro: 1 evolution.frame_trans [OF 1 Suc.IH])
  qed (simp add: evolution.frame_refl)
  then show ?thesis by (simp add: expireUnpaidCheckoutOrders_def)
qed

text \<open>A new payment attempt gets a fresh identity.\<close>

definition keeps_attempt_ids :: "database \<Rightarrow> database \<Rightarrow> bool" where
  "keeps_attempt_ids db db' \<longleftrightarrow> (distinct (map pay_id (db_attempts db)) \<longrightarrow> distinct (map pay_id (db_attempts db')))"

interpretation attempt_ids: frame keeps_attempt_ids
  by unfold_locales (simp_all add: keeps_attempt_ids_def)

lemma create_order_attempts: "create_order o' db = Inr db' \<Longrightarrow> db_attempts db' = db_attempts db"
  by (auto simp: create_order_def split: if_split_asm)

lemma create_attempt_ids: "create_attempt a db = Inr db' \<Longrightarrow> keeps_attempt_ids db db'"
  by (auto simp: create_attempt_def keeps_attempt_ids_def insert_row_def list_ex_iff split: if_split_asm) blast

lemma write_checkout_ids: "obeys keeps_attempt_ids fst db (write_checkout draw input provider hold ses ev t now db)"
proof (rule obeysI)
  fix x assume "write_checkout draw input provider hold ses ev t now db = Inr x"
  then obtain db1 db2 db3 where
    1: "create_order (new_order draw input hold ses ev t) db = Inr db1" and
    2: "create_attempt (new_attempt draw provider t)
       (db1\<lparr>db_orderItems := db_orderItems db1 @
          List.map_filter (order_item db (cd_orderId draw)) (hold_items db (hold_id hold))\<rparr>) = Inr db2" and
    3: "enqueueInventoryEvent InventoryEventType.CHECKOUT_CREATED (hold_sessionId hold)
       (Some (cd_orderId draw)) (''checkout-created:'' @ cd_orderId draw) now db2 = Inr db3" and
    4: "fst x = db3"
    by (auto simp: write_checkout_def and_then_eq_Inr)
  from 3 have "db_attempts db3 = db_attempts db2" by (auto simp: enqueue_event_Inr)
  with create_order_attempts [OF 1] create_attempt_ids [OF 2] 4 show "keeps_attempt_ids db (fst x)"
    by (simp add: keeps_attempt_ids_def)
qed

lemma checkout_ids: "keeps_attempt_ids db (fst (createCheckoutOrder u raw provider now draw db))"
proof -
  have "obeys keeps_attempt_ids fst db (checkout_checks draw input provider hold now db)" for input hold
    unfolding checkout_checks_def Let_def
    by (auto intro: write_checkout_ids split: option.split sum.split)
  then have "obeys keeps_attempt_ids fst db (checkout_transaction draw input provider u now db)" for input
    by (auto simp: checkout_transaction_def attempt_ids.frame_refl split: list.split option.split)
  then have "keeps_attempt_ids db (fst (transact (checkout_transaction draw input provider u now) db))" for input
    by (rule obeys_transact [OF attempt_ids.frame_refl])
  then show ?thesis by (auto simp: createCheckoutOrder_def attempt_ids.frame_refl split: option.split)
qed

lemma new_attempt_money:
  assumes core: "money_core attempts refunds" and fresh: "pay_id a \<notin> pay_id ` set attempts"
    and new: "pay_refundedMinor a = 0" "pay_inFlightRefundMinor a = 0" "0 \<le> pay_amountMinor a"
  shows "money_core (attempts @ [a]) refunds"
proof -
  have "ref_paymentAttemptId r \<noteq> pay_id a" if "r \<in> set refunds" for r
    using core fresh that unfolding money_core_def by metis
  then have none: "filter (\<lambda>r. ref_paymentAttemptId r = pay_id a) refunds = []"
    by (simp add: filter_empty_conv)
  then have "totals_ok refunds a"
    by (simp add: totals_ok_def total_filters new aggregate_ok_def del: filter_filter)
  with core fresh show ?thesis by (auto simp: money_core_def)
qed

lemma checkout_order_evolves: "evolves db (fst (createCheckoutOrder u raw provider now draw db))"
  unfolding evolves_def
proof (intro impI)
  assume ok: "sys_ok db"
  then have store: "store_ok db" by (simp add: sys_ok_def)
  obtain db' res where run: "createCheckoutOrder u raw provider now draw db = (db', res)" by fastforce
  have store': "store_ok db'" using checkout_store_ok [OF store, of u raw provider now draw] by (simp add: run)
  have core: "holds_core (db_inventory db) (db_holds db) (db_holdItems db)"
    using store by (simp add: store_ok_def shop_ok_def holds_ok_def)
  have "refunds_ok db' \<and> aftersales db' = aftersales db \<and> db_bookingSeats db' = db_bookingSeats db"
  proof (cases res)
    case (Inl e)
    with run have "db' = db" by (auto simp: createCheckoutOrder_def transact_Inl split: if_split_asm option.splits)
    with ok show ?thesis by (simp add: sys_ok_def)
  next
    case (Inr r)
    from core run [unfolded Inr] show ?thesis
    proof (cases rule: checkout_Inr)
      case (made input hold ses ev t)
      have money: "money_core (db_attempts db) (db_refunds db)" using ok by (simp add: sys_ok_def refunds_ok_def)
      then have "distinct (map pay_id (db_attempts db'))"
        using checkout_ids [of db u raw provider now draw] by (simp add: run keeps_attempt_ids_def money_core_def)
      then have fresh: "pay_id (new_attempt draw provider t) \<notin> pay_id ` set (db_attempts db)"
        by (simp add: made(9) ordered_db_def)
      note t = made(8) [unfolded checkout_total_iff]
      have "0 \<le> ct_totalMinor t"
        using items_total_nonneg [OF t [THEN conjunct2, THEN conjunct1]] by (simp add: t [THEN conjunct2, THEN conjunct2, THEN conjunct2])
      with new_attempt_money [OF money fresh] have "money_core (db_attempts db @ [new_attempt draw provider t]) (db_refunds db)"
        by (simp add: new_attempt_def)
      with ok show ?thesis by (simp add: made(9) ordered_db_def sys_ok_def refunds_ok_def)
    qed (use ok in \<open>simp add: sys_ok_def\<close>)
  qed
  then have rest: "refunds_ok db'" "tickets_ok db' = tickets_ok db" "db_bookingSeats db' = db_bookingSeats db"
    using tickets_ok_same by blast+
  from ok rest(2) have "tickets_ok db'" by (simp add: sys_ok_def)
  with store' rest(1,3) show "sys_ok (fst (createCheckoutOrder u raw provider now draw db))
      \<and> (\<exists>new. db_bookingSeats (fst (createCheckoutOrder u raw provider now draw db)) = db_bookingSeats db @ new)"
    by (simp add: run sys_ok_def)
qed

lemma intent_steady: "steady db (fst (ensurePaymentIntent provider createIntent i now seen db))"
  by (simp add: steady_def quiet.intent_frame orders.intent_frame refund_sale.intent_frame ticket_sale.intent_frame)

lemma checkout_evolves: "evolves db (fst (createCheckoutAndPayment provider createIntent u raw now draw db))"
proof -
  obtain db1 res where 1: "createCheckoutOrder u raw provider now draw db = (db1, res)" by fastforce
  then have "evolves db db1" using checkout_order_evolves [of db u raw provider now draw] by simp
  moreover have "evolves db1 (fst (ensurePaymentIntent provider createIntent i now db1 db1))" for i
    by (rule steady_evolves) (rule intent_steady)
  ultimately show ?thesis
    by (auto simp: createCheckoutAndPayment_def 1 intro: evolution.frame_trans split: sum.split prod.split)
      (metis evolution.frame_trans fst_conv)+
qed

context payment_frame
begin

lemma reconcile_frame:
  "P db (fst (reconcilePendingPaymentIntents provider createIntent retrieveIntent now limit db))"
proof -
  have "P db (fst (reconcile_loop provider createIntent retrieveIntent now attempts result db))" for attempts result
  proof (induction attempts arbitrary: result db)
    case (Cons a attempts)
    have intent: "P db db'" if "ensurePaymentIntent provider createIntent i now db db = (db', res)" for i db' res
      using intent_frame [of db provider createIntent i now db] that by simp
    have refresh: "P db db'"
      if "update_attempt (pay_id a) (\<lambda>a. a\<lparr>pay_lastProviderStatus := Some s\<rparr>) db = Inr db'" for s db'
      using that by (rule frame_attempt) (simp add: attempt_money_def attempt_key_def)
    show ?case
      by (auto split: option.split sum.split prod.split intro: Cons.IH frame_trans [OF intent Cons.IH] frame_trans [OF refresh Cons.IH])
  qed (simp add: frame_refl)
  then show ?thesis by (simp add: reconcilePendingPaymentIntents_def Let_def)
qed

end

lemma reconcile_evolves:
  "evolves db (fst (reconcilePendingPaymentIntents provider createIntent retrieveIntent now limit db))"
  by (rule steady_evolves)
    (simp add: steady_def quiet.reconcile_frame orders.reconcile_frame refund_sale.reconcile_frame ticket_sale.reconcile_frame)

section \<open>Payments\<close>

definition sells_on :: "database \<Rightarrow> database \<Rightarrow> bool" where
  "sells_on db db' \<longleftrightarrow> (\<exists>new. db_bookingSeats db' = db_bookingSeats db @ new)"

interpretation sales: sale_frame sells_on
proof unfold_locales
  fix draw wid attempt o' hold items now db db'
  assume "fulfill draw wid attempt o' hold items now db = Inr db'"
  from fulfill_Inr(8) [OF this] show "sells_on db db'" by (simp add: sells_on_def)
next
  fix s now db db' n
  assume "releaseExpiredHoldsForSession s now db = Inr (db', n)"
  then show "sells_on db db'" by (auto dest!: release_expired_frame simp: sells_on_def)
qed (auto simp: sells_on_def update_order_Inr update_attempt_Inr update_webhook_Inr enqueue_event_Inr)

lemma transaction_evolves:
  assumes "webhook_transaction draw webhookId now db = Inr (db', r)"
  shows "evolves db db'"
  unfolding evolves_def
proof (intro impI conjI)
  assume ok: "sys_ok db"
  then have "shop_ok db'" using webhook_keeps_shop [OF _ assms] by (simp add: sys_ok_def store_ok_def)
  with ok orders.transaction_frame [OF assms] refund_sale.transaction_frame [OF assms] ticket_sale.transaction_frame [OF assms]
  show "sys_ok db'"
    by (auto simp: sys_ok_def store_ok_def keeps_refunds_def keeps_tickets_def intro: keeps_orders_ok)
  show "\<exists>new. db_bookingSeats db' = db_bookingSeats db @ new"
    using sales.transaction_frame [OF assms] by (simp add: sells_on_def)
qed

lemma records_steady: "steady db (db\<lparr>db_webhooks := w\<rparr>)"
  by (simp add: steady_def quiet_def outbox_keys_def keeps_orders_def keeps_refunds_same keeps_tickets_same)

text \<open>Processing a stored record, with any issuance after the commit that evolves the system.\<close>

definition issues_well :: "(ident \<Rightarrow> database \<Rightarrow> database) option \<Rightarrow> bool" where
  "issues_well issueTickets \<longleftrightarrow> (\<forall>issue b db. issueTickets = Some issue \<longrightarrow> evolves db (issue b db))"

lemma process_evolves:
  assumes "issues_well issueTickets"
  shows "evolves db (fst (processVerifiedWebhookRecord issueTickets draw webhookId now db))"
proof (cases "webhook_transaction draw webhookId now db")
  case (Inl e)
  then show ?thesis
    by (simp add: processVerifiedWebhookRecord_def mark_failed_def evolution.frame_refl steady_evolves [OF records_steady])
next
  case (Inr p)
  then obtain db1 confirmed where p: "webhook_transaction draw webhookId now db = Inr (db1, confirmed)" by (cases p) simp
  from transaction_evolves [OF p] assms show ?thesis
    by (auto simp: processVerifiedWebhookRecord_def p Let_def issues_well_def intro: evolution.frame_trans split: option.split)
qed

lemma payment_event_evolves:
  assumes "issues_well issueTickets"
  shows "evolves db (fst (processPaymentEvent issueTickets draw freshId provider event now db))"
proof -
  obtain db1 i d where 1: "storeVerifiedWebhook freshId provider event now db = (db1, i, d)" by (cases "storeVerifiedWebhook freshId provider event now db")
  have "db1 = db \<or> (\<exists>w. db1 = db\<lparr>db_webhooks := w\<rparr>)"
    using 1 by (auto simp: storeVerifiedWebhook_def split: option.splits)
  then have "evolves db db1" using steady_evolves [OF records_steady] evolution.frame_refl by auto
  moreover have "evolves db1 (fst (processVerifiedWebhookRecord issueTickets draw i now db1))"
    using assms by (rule process_evolves)
  ultimately show ?thesis
    by (auto simp: processPaymentEvent_def 1 intro: evolution.frame_trans split: option.split prod.split sum.split)
qed

lemma reprocess_evolves:
  "issues_well issueTickets \<Longrightarrow> evolves db (fst (reprocessVerifiedWebhook issueTickets draw webhookId now db))"
  by (auto simp: reprocessVerifiedWebhook_def evolution.frame_refl intro: process_evolves split: option.split)

lemma reconcile_webhooks_evolves: "evolves db (fst (reconcileUnprocessedWebhooks draw batch older now db))"
proof -
  have "evolves db (fst (reprocess_loop draw now ws res db))" for ws res
  proof (induction ws arbitrary: res db)
    case (Cons w ws)
    have processed: "evolves db db1" if "processVerifiedWebhookRecord None (draw (wh_id w)) (wh_id w) now db = (db1, r)" for db1 r
      using process_evolves [of None db "draw (wh_id w)" "wh_id w" now] that by (simp add: issues_well_def)
    show ?case
      by (auto split: prod.split sum.split intro: Cons.IH evolution.frame_trans [OF processed Cons.IH])
  qed (simp add: evolution.frame_refl)
  then show ?thesis by (simp add: reconcileUnprocessedWebhooks_def Let_def)
qed

section \<open>Refunds and disputes\<close>

lemma finance_evolves:
  "evolves db (fst (requestRefund sha hmac64 draw actor input now db))"
  "evolves db (fst (submitRefund sha answers i now db))"
  "evolves db (fst (submitPendingRefunds sha answers name n now db))"
  "evolves db (fst (processRefundEvent sha freshId provider event now db))"
  "evolves db (fst (processDisputeEvent sha ddraw freshId provider devent now db))"
  "evolves db (fst (reconcileAmbiguousRefunds conflict name listing batch db))"
  "evolves db (fst (raiseDivergenceForReview attempts findings now db))"
  "evolves db (fst (escalateTicketRevocationBacklog attempts backlog now db))"
  by (rule steady_evolves, simp add: steady_def quiet_money.reconcile_refunds_all_frame order_money.reconcile_refunds_all_frame
        refund_money.reconcile_refunds_all_frame ticket_money.reconcile_refunds_all_frame quiet_money.raise_frame
        order_money.raise_frame refund_money.raise_frame ticket_money.raise_frame quiet_money.request_frame order_money.request_frame
        refund_money.request_frame ticket_money.request_frame quiet_money.submit_frame order_money.submit_frame
        refund_money.submit_frame ticket_money.submit_frame quiet_money.submit_all_frame order_money.submit_all_frame
        refund_money.submit_all_frame ticket_money.submit_all_frame quiet_money.refund_event_frame
        order_money.refund_event_frame refund_money.refund_event_frame ticket_money.refund_event_frame
        quiet_money.dispute_frame order_money.dispute_frame refund_money.dispute_frame ticket_money.dispute_frame)+

lemma notifications_evolve: "evolves db (fst (retrySafeNotificationFailures now limit db))"
  by (rule steady_evolves)
    (simp add: retrySafeNotificationFailures_def Let_def steady_def quiet_def outbox_keys_def keeps_orders_def keeps_refunds_same
      keeps_tickets_same)

section \<open>Tickets\<close>

lemma apart_evolves:
  assumes "same_shop db db'" "keeps_tickets db db'"
  shows "evolves db db'"
proof (rule steady_evolves)
  have "quiet db db'" "keeps_orders db db'" "keeps_refunds db db'"
    using assms(1) by (simp_all add: same_shop_def shop_side_def quiet_def outbox_keys_def keeps_orders_def keeps_refunds_same)
  with assms(2) show "steady db db'" by (simp add: steady_def)
qed

lemma tickets_evolve:
  "evolves db (fst (processTicketIssuanceForBooking hmac64 hmac16 secret draw bookingId now db))"
  "evolves db (fst (processTicketIssuanceBatch describe hmac64 hmac16 secret draw config now db))"
  "evolves db (fst (retryTicketIssuanceRequest i now db))"
  "evolves db (fst (validateTicketEntry hmac16 secret input now db))"
  "evolves db (fst (rotateTicketCredential hmac64 hmac16 secret draw actor reference now db))"
  "evolves db (fst (revokeTicket draw actor reference reason now db))"
  "evolves db (fst (transact (createBookingPdfGrant hmac64 hmac16 secret grantId tok u which ttl subject now) db))"
  "evolves db (fst (consumeBookingPdfGrant hmac64 hmac16 secret u token now db))"
  by (intro apart_evolves shop_issue.issuance_frame issued_tickets.issuance_frame shop_issue.issuance_batch_frame
        issued_tickets.issuance_batch_frame shop_issue.retry_frame issued_tickets.retry_frame shop.scan_frame scan_keeps
        shop.rotation_frame rotation_keeps shop.revocation_frame revocation_keeps shop_grant.grant_frame
        granted_tickets.grant_frame shop_grant.download_frame granted_tickets.download_frame)+

lemma issuer_evolves:
  "issues_well None" "issues_well (Some (attemptImmediateTicketIssuance hmac64 hmac16 secret draw now))"
  by (simp_all add: issues_well_def attemptImmediateTicketIssuance_def tickets_evolve)

end
