(* ===== verification/Row_Labels.thy ===== *)
theory Row_Labels
  imports SeatFlow_Prelude
begin

text \<open>
  Row and seat labels (src/features/seat-maps/row-labels.ts): A to Z, AA to ZZ and AAA to ZZZ
  number the rows from 1 to 18278. A thrown error is \<open>None\<close>.
\<close>

definition row_letter :: "char \<Rightarrow> bool" where
  "row_letter c \<longleftrightarrow> char_between CHR ''A'' CHR ''Z'' c"

definition row_label_step :: "int \<Rightarrow> char \<Rightarrow> int" where
  "row_label_step v c = v * 26 + of_char c - 64"

definition rowLabelToNumber :: "string \<Rightarrow> int option" where
  "rowLabelToNumber label =
     (let normalized = js_upper (js_trim label)
      in if 1 \<le> length normalized \<and> length normalized \<le> 3 \<and> list_all row_letter normalized
         then Some (foldl row_label_step 0 normalized) else None)"

text \<open>The \<open>while (remainder > 0)\<close> loop.\<close>

fun row_label_loop :: "nat \<Rightarrow> string \<Rightarrow> string" where
  "row_label_loop 0 label = label"
| "row_label_loop (Suc remainder) label =
     row_label_loop (remainder div 26) (char_of (65 + remainder mod 26) # label)"

definition numberToRowLabel :: "int \<Rightarrow> string option" where
  "numberToRowLabel n = (if n < 1 \<or> 18278 < n then None else Some (row_label_loop (nat n) []))"

definition generateRowLabels :: "string \<Rightarrow> nat \<Rightarrow> string list option" where
  "generateRowLabels startLabel count =
     (case rowLabelToNumber startLabel of
        None \<Rightarrow> None
      | Some start \<Rightarrow> those (map (\<lambda>index. numberToRowLabel (start + int index)) [0..<count]))"

definition generateSeatLabels :: "int \<Rightarrow> int \<Rightarrow> string list option" where
  "generateSeatLabels startNumber count =
     (if startNumber < 1 \<or> 9999 < startNumber then None
      else if count < 1 \<or> 9999 < startNumber + count - 1 then None
      else Some (map (\<lambda>index. decimal (nat startNumber + index)) [0..<nat count]))"

section \<open>Labels and numbers\<close>

lemma row_letter_iff: "row_letter c \<longleftrightarrow> 65 \<le> (of_char c :: nat) \<and> (of_char c :: nat) \<le> 90"
  by (simp add: row_letter_def char_between_def)

lemma of_char_int: "(of_char c :: int) = int (of_char c)"
  unfolding of_char_def by (simp add: horner_sum_eq_sum)

lemma row_letter_bounds:
  assumes "row_letter c"
  shows "1 \<le> (of_char c :: int) - 64" "(of_char c :: int) - 64 \<le> 26"
proof -
  have "(of_char c :: int) = int (of_char c)" by (simp add: of_char_int)
  with assms show "1 \<le> (of_char c :: int) - 64" "(of_char c :: int) - 64 \<le> 26"
    unfolding row_letter_iff by linarith+
qed

lemma row_label_char [simp]:
  assumes "r < 26"
  shows "row_letter (char_of (65 + r))" "(of_char (char_of (65 + r :: nat)) :: int) = 65 + int r"
proof -
  have "of_char (char_of (65 + r)) = 65 + r" using assms by (simp add: of_char_of)
  then show "row_letter (char_of (65 + r))" using assms by (simp add: row_letter_iff)
  from \<open>of_char (char_of (65 + r)) = 65 + r\<close> show "(of_char (char_of (65 + r :: nat)) :: int) = 65 + int r"
    by (metis of_nat_add of_nat_numeral of_nat_of_char)
qed

lemma loop_value: "foldl row_label_step 0 (row_label_loop n l) = foldl row_label_step (int n) l"
proof (induction n l rule: row_label_loop.induct)
  case (2 r l)
  have "row_label_step (int (r div 26)) (char_of (65 + r mod 26)) = int (Suc r)"
    by (simp add: row_label_step_def) (metis div_mult_mod_eq of_nat_add of_nat_mult of_nat_numeral mult.commute)
  with 2 show ?case by simp
qed simp

lemma loop_letters: "list_all row_letter (row_label_loop n l) \<longleftrightarrow> list_all row_letter l"
  by (induction n l rule: row_label_loop.induct) simp_all

lemma fold_lower:
  assumes "list_all row_letter s" "0 \<le> v"
  shows "v \<le> foldl row_label_step v s"
  using assms
proof (induction s arbitrary: v)
  case (Cons c s)
  have "v \<le> row_label_step v c" "0 \<le> row_label_step v c"
    using row_letter_bounds [of c] Cons.prems by (simp_all add: row_label_step_def)
  with Cons.IH [of "row_label_step v c"] Cons.prems(1) show ?case by simp
qed simp

lemma letters_loop:
  assumes "list_all row_letter s"
  shows "row_label_loop (nat (foldl row_label_step 0 s)) l = s @ l"
  using assms
proof (induction s arbitrary: l rule: rev_induct)
  case (snoc c s)
  let ?v = "foldl row_label_step 0 s"
  have v: "0 \<le> ?v" using snoc.prems fold_lower [of s 0] by simp
  have c: "row_letter c" using snoc.prems by simp
  define r where "r = 26 * nat ?v + (of_char c - 65)"
  have low: "65 \<le> (of_char c :: nat)" "(of_char c :: nat) \<le> 90" using c by (simp_all add: row_letter_iff)
  have "row_label_step ?v c = int (Suc r)"
  proof -
    have "int (of_char c - 65) = (of_char c :: int) - 65" using low by (simp add: of_nat_diff of_char_int)
    then show ?thesis using v by (simp add: row_label_step_def r_def)
  qed
  moreover have "r div 26 = nat ?v" "r mod 26 = of_char c - 65"
  proof -
    obtain k where k: "of_char c - 65 = k" "k < (26 :: nat)" using low by force
    show "r div 26 = nat ?v" "r mod 26 = of_char c - 65" unfolding r_def k using k(2) by simp_all
  qed
  moreover have "char_of (65 + (of_char c - 65 :: nat)) = c" using low by simp
  ultimately show ?case using snoc.IH [of "c # l"] snoc.prems by (simp del: of_nat_Suc)
qed simp

lemma letters_bounds:
  assumes "list_all row_letter s" "s \<noteq> []"
  shows "1 \<le> foldl row_label_step 0 s" "length s \<le> 3 \<longleftrightarrow> foldl row_label_step 0 s \<le> 18278"
proof -
  obtain a r1 where s: "s = a # r1" using assms(2) by (cases s) auto
  have a: "1 \<le> row_label_step 0 a" "row_label_step 0 a \<le> 26"
    using row_letter_bounds [of a] assms(1) s by (simp_all add: row_label_step_def)
  then show "1 \<le> foldl row_label_step 0 s" using fold_lower [of r1 "row_label_step 0 a"] assms(1) s by simp
  have step: "26 * v + 1 \<le> row_label_step v c" "row_label_step v c \<le> 26 * v + 26" if "row_letter c" for v c
    using row_letter_bounds [OF that] by (simp_all add: row_label_step_def)
  show "length s \<le> 3 \<longleftrightarrow> foldl row_label_step 0 s \<le> 18278"
  proof (cases "length s \<le> 3")
    case True
    then consider "r1 = []" | b where "r1 = [b]" | b c where "r1 = [b, c]"
      using s by (cases r1; cases "tl r1") auto
    then have "foldl row_label_step 0 s \<le> 18278"
    proof cases
      case (2 b)
      then show ?thesis using a s assms(1) step [of b "row_label_step 0 a"] by simp
    next
      case (3 b c)
      then show ?thesis
        using a s assms(1) step [of b "row_label_step 0 a"] step [of c "row_label_step (row_label_step 0 a) b"] by simp
    qed (use a s in simp)
    with True show ?thesis by simp
  next
    case False
    then obtain b c d r where r1: "r1 = b # c # d # r"
      using s by (cases r1; cases "tl r1"; cases "tl (tl r1)") auto
    let ?d = "row_label_step (row_label_step (row_label_step (row_label_step 0 a) b) c) d"
    have "18279 \<le> ?d"
      using a assms(1) s r1 step [of b "row_label_step 0 a"] step [of c "row_label_step (row_label_step 0 a) b"]
        step [of d "row_label_step (row_label_step (row_label_step 0 a) b) c"] by simp
    moreover from this have "?d \<le> foldl row_label_step ?d r" using assms(1) s r1 by (intro fold_lower) simp_all
    ultimately show ?thesis using False s r1 by simp
  qed
qed

lemma row_label_upper:
  assumes "list_all row_letter s"
  shows "js_upper (js_trim s) = s"
proof -
  have "\<not> js_space c" if "c \<in> set s" for c
    using assms that unfolding list_all_iff row_letter_iff js_space_def by (auto simp: of_char_eq_iff)
  then have "js_trim s = s" by (cases s) (auto simp: js_trim_id intro!: js_trim_id)
  moreover have "js_upper_char c = c" if "c \<in> set s" for c
    using assms that by (auto simp: list_all_iff row_letter_iff js_upper_char_def char_between_def)
  ultimately show ?thesis by (simp add: js_upper_def map_idI)
qed

text \<open>C39: Row labels and row numbers name the same rows: every number from 1 to 18278 has a label that reads back
  as the number, and every accepted label is, up to case and white space, the label of its number.\<close>

theorem row_label_round_trip:
  "(\<forall>n. 1 \<le> n \<and> n \<le> 18278 \<longrightarrow> (\<exists>label. numberToRowLabel n = Some label \<and> rowLabelToNumber label = Some n))
   \<and> (\<forall>label n. rowLabelToNumber label = Some n \<longrightarrow>
        1 \<le> n \<and> n \<le> 18278 \<and> numberToRowLabel n = Some (js_upper (js_trim label)))"
proof (intro conjI allI impI)
  fix n :: int assume n: "1 \<le> n \<and> n \<le> 18278"
  let ?l = "row_label_loop (nat n) []"
  have letters: "list_all row_letter ?l" by (simp add: loop_letters)
  have val: "foldl row_label_step 0 ?l = n" using n by (simp add: loop_value)
  with n have "?l \<noteq> []" by auto
  with letters_bounds [OF letters] val n have "rowLabelToNumber ?l = Some n"
    by (auto simp: rowLabelToNumber_def row_label_upper [OF letters] letters Let_def Suc_le_eq)
  with n show "\<exists>label. numberToRowLabel n = Some label \<and> rowLabelToNumber label = Some n"
    by (simp add: numberToRowLabel_def)
next
  fix label n assume "rowLabelToNumber label = Some n"
  then have s: "js_upper (js_trim label) \<noteq> []" "length (js_upper (js_trim label)) \<le> 3"
    "list_all row_letter (js_upper (js_trim label))" "foldl row_label_step 0 (js_upper (js_trim label)) = n"
    by (auto simp: rowLabelToNumber_def Let_def split: if_split_asm)
  from letters_bounds [OF s(3,1)] s(2,4) show "1 \<le> n" "n \<le> 18278" by simp_all
  with letters_loop [OF s(3), of "[]"] s(4) show "numberToRowLabel n = Some (js_upper (js_trim label))"
    by (simp add: numberToRowLabel_def)
qed

lemma row_label_round_trip_witness:
  "rowLabelToNumber '' zz'' = Some 702 \<and> numberToRowLabel 702 = Some ''ZZ''"
proof -
  have read: "rowLabelToNumber '' zz'' = Some 702" by code_simp
  have "js_upper (js_trim '' zz'') = ''ZZ''" by code_simp
  with row_label_round_trip read show ?thesis by metis
qed

end
