(* ===== verification/Seat_Map_Rules.thy ===== *)
theory Seat_Map_Rules
  imports Row_Labels Domain
begin

text \<open>
  The pure rules of seat maps (src/features/seat-maps): capacity, the editing lifecycle, the
  input schemas and the validation before publication. A graph is the sections of a map with
  their rows and seats, in the order of the query that loads them.
\<close>

record GraphRow =
  grow_row :: SeatRow
  grow_seats :: "Seat list"

record GraphSection =
  gsec_section :: SeatSection
  gsec_rows :: "GraphRow list"

type_synonym seat_graph = "GraphSection list"

definition section_seats :: "GraphSection \<Rightarrow> Seat list" where
  "section_seats s = concat (map grow_seats (gsec_rows s))"

definition graph_seats :: "seat_graph \<Rightarrow> Seat list" where
  "graph_seats g = concat (map section_seats g)"

section \<open>Capacity\<close>

record SeatCounts =
  cnt_total :: nat
  cnt_sellable :: nat
  cnt_blocked :: nat

definition count_seats :: "Seat list \<Rightarrow> SeatCounts" where
  "count_seats seats =
     \<lparr>cnt_total = length seats,
      cnt_sellable = length (filter (\<lambda>s. seat_state s = SeatState.ACTIVE) seats),
      cnt_blocked = length (filter (\<lambda>s. seat_state s = SeatState.BLOCKED) seats)\<rparr>"

definition seat_types :: "SeatType list" where
  "seat_types = [SeatType.STANDARD, SeatType.ACCESSIBLE, SeatType.COMPANION, SeatType.PREMIUM]"

record SeatMapCapacity =
  cap_seats :: SeatCounts
  cap_byType :: "(SeatType \<times> SeatCounts) list"

definition calculateSeatMapCapacity :: "seat_graph \<Rightarrow> SeatMapCapacity" where
  "calculateSeatMapCapacity g =
     (let seats = graph_seats g
      in \<lparr>cap_seats = count_seats seats,
          cap_byType = map (\<lambda>ty. (ty, count_seats (filter (\<lambda>s. seat_type s = ty) seats))) seat_types\<rparr>)"

lemma capacity_partition:
  "cnt_total (cap_seats (calculateSeatMapCapacity g)) = sum_list (map (cnt_total \<circ> snd) (cap_byType (calculateSeatMapCapacity g)))"
  "cnt_total (cap_seats (calculateSeatMapCapacity g))
     = cnt_sellable (cap_seats (calculateSeatMapCapacity g)) + cnt_blocked (cap_seats (calculateSeatMapCapacity g))"
proof -
  let ?n = "\<lambda>ty l. length (filter (\<lambda>s. seat_type s = ty) l)"
  have types: "length l = ?n SeatType.STANDARD l + ?n SeatType.ACCESSIBLE l + ?n SeatType.COMPANION l + ?n SeatType.PREMIUM l" for l
  proof (induction l)
    case (Cons s l)
    then show ?case by (cases "seat_type s") simp_all
  qed simp
  from types [of "graph_seats g"]
  show "cnt_total (cap_seats (calculateSeatMapCapacity g)) = sum_list (map (cnt_total \<circ> snd) (cap_byType (calculateSeatMapCapacity g)))"
    by (simp add: calculateSeatMapCapacity_def Let_def count_seats_def seat_types_def)
  have states: "length l = length (filter (\<lambda>s. seat_state s = SeatState.ACTIVE) l) + length (filter (\<lambda>s. seat_state s = SeatState.BLOCKED) l)" for l
  proof (induction l)
    case (Cons s l)
    then show ?case by (cases "seat_state s") simp_all
  qed simp
  from states [of "graph_seats g"]
  show "cnt_total (cap_seats (calculateSeatMapCapacity g))
     = cnt_sellable (cap_seats (calculateSeatMapCapacity g)) + cnt_blocked (cap_seats (calculateSeatMapCapacity g))"
    by (simp add: calculateSeatMapCapacity_def Let_def count_seats_def)
qed

section \<open>Lifecycle\<close>

definition hasOperationalParents :: "SpaceStatus \<Rightarrow> VenueStatus \<Rightarrow> bool" where
  "hasOperationalParents spaceStatus venueStatus \<longleftrightarrow> spaceStatus \<noteq> SpaceStatus.ARCHIVED \<and> venueStatus \<noteq> VenueStatus.ARCHIVED"

definition canEditSeatMap :: "SeatMapStatus \<Rightarrow> SpaceStatus \<Rightarrow> VenueStatus \<Rightarrow> bool" where
  "canEditSeatMap mapStatus spaceStatus venueStatus \<longleftrightarrow>
     mapStatus = SeatMapStatus.DRAFT \<and> hasOperationalParents spaceStatus venueStatus"

definition canPublishSeatMap :: "SeatMapStatus \<Rightarrow> SpaceStatus \<Rightarrow> VenueStatus \<Rightarrow> bool" where
  "canPublishSeatMap mapStatus spaceStatus venueStatus \<longleftrightarrow> canEditSeatMap mapStatus spaceStatus venueStatus"

definition canCloneSeatMap :: "SeatMapStatus \<Rightarrow> SpaceStatus \<Rightarrow> VenueStatus \<Rightarrow> bool" where
  "canCloneSeatMap mapStatus spaceStatus venueStatus \<longleftrightarrow>
     mapStatus = SeatMapStatus.PUBLISHED \<and> hasOperationalParents spaceStatus venueStatus"

section \<open>Input schemas\<close>

text \<open>\<open>value.replace(/\s+/g, " ")\<close>.\<close>

function squeeze_spaces :: "string \<Rightarrow> string" where
  "squeeze_spaces [] = []"
| "squeeze_spaces (c # cs) =
     (if js_space c then CHR '' '' # squeeze_spaces (dropWhile js_space cs) else c # squeeze_spaces cs)"
  by pat_completeness auto
termination by (relation "measure length") (auto simp: le_imp_less_Suc length_dropWhile_le)

definition bounded_text :: "nat \<Rightarrow> nat \<Rightarrow> string \<Rightarrow> string option" where
  "bounded_text minimum maximum s = (if minimum \<le> length s \<and> length s \<le> maximum then Some s else None)"

definition compactText :: "nat \<Rightarrow> nat \<Rightarrow> string \<Rightarrow> string option" where
  "compactText minimum maximum raw = bounded_text minimum maximum (squeeze_spaces (js_trim raw))"

text \<open>\<open>/^A+(?:SA+)*$/\<close> for a class \<open>ok\<close> of characters and a class \<open>sep\<close> of separators.\<close>

fun grouped :: "(char \<Rightarrow> bool) \<Rightarrow> (char \<Rightarrow> bool) \<Rightarrow> string \<Rightarrow> bool" where
  "grouped ok sep [] \<longleftrightarrow> False"
| "grouped ok sep [c] \<longleftrightarrow> ok c"
| "grouped ok sep (c # d # s) \<longleftrightarrow> ok c \<and> (if ok d then grouped ok sep (d # s) else sep d \<and> grouped ok sep s)"

definition upper_alnum :: "char \<Rightarrow> bool" where
  "upper_alnum c \<longleftrightarrow> char_between CHR ''A'' CHR ''Z'' c \<or> is_digit c"

definition code_schema :: "string \<Rightarrow> string option" where
  "code_schema raw =
     (let s = js_upper (js_trim raw)
      in if 1 \<le> length s \<and> length s \<le> 20 \<and> grouped upper_alnum (\<lambda>c. c = CHR ''-'' \<or> c = CHR ''_'') s
         then Some s else None)"

definition label_schema :: "string \<Rightarrow> string option" where
  "label_schema raw = bounded_text 1 12 (js_upper (js_trim raw))"

definition seatMapInputSchema :: "string \<Rightarrow> string option" where
  "seatMapInputSchema name = compactText 2 120 name"

record SectionInput =
  sci_name :: string
  sci_code :: string

definition sectionInputSchema :: "SectionInput \<Rightarrow> SectionInput option" where
  "sectionInputSchema raw =
     (case (compactText 1 80 (sci_name raw), code_schema (sci_code raw)) of
        (Some name, Some code) \<Rightarrow> Some \<lparr>sci_name = name, sci_code = code\<rparr>
      | _ \<Rightarrow> None)"

definition maximumSections :: nat where "maximumSections = 20"
definition maximumRowsPerSection :: nat where "maximumRowsPerSection = 60"
definition maximumSeatsPerRow :: nat where "maximumSeatsPerRow = 80"
definition maximumSeatsPerMap :: nat where "maximumSeatsPerMap = 3000"
definition maximumBulkRows :: int where "maximumBulkRows = 30"
definition minimumCoordinate :: int where "minimumCoordinate = 0"
definition maximumCoordinate :: int where "maximumCoordinate = 10000"
definition maximumSpacing :: int where "maximumSpacing = 200"

definition on_canvas :: "int \<Rightarrow> bool" where
  "on_canvas v \<longleftrightarrow> minimumCoordinate \<le> v \<and> v \<le> maximumCoordinate"

text \<open>The coordinates are the numbers after coercion; type and state are enumerations.\<close>

record SeatInput =
  sti_label :: string
  sti_x :: int
  sti_y :: int
  sti_type :: SeatType
  sti_state :: SeatState

definition seatInputSchema :: "SeatInput \<Rightarrow> SeatInput option" where
  "seatInputSchema raw =
     (case label_schema (sti_label raw) of
        None \<Rightarrow> None
      | Some label \<Rightarrow> if on_canvas (sti_x raw) \<and> on_canvas (sti_y raw) then Some (raw\<lparr>sti_label := label\<rparr>) else None)"

record BulkSeatGenerationInput =
  bulk_startRowLabel :: string
  bulk_rowCount :: int
  bulk_seatsPerRow :: int
  bulk_startSeatNumber :: int
  bulk_horizontalSpacing :: int
  bulk_verticalSpacing :: int

definition bulkSeatGenerationSchema :: "BulkSeatGenerationInput \<Rightarrow> BulkSeatGenerationInput option" where
  "bulkSeatGenerationSchema raw =
     (let label = js_upper (js_trim (bulk_startRowLabel raw));
          value = raw\<lparr>bulk_startRowLabel := label\<rparr>
      in case rowLabelToNumber label of
           None \<Rightarrow> None
         | Some start \<Rightarrow>
             if 1 \<le> bulk_rowCount raw \<and> bulk_rowCount raw \<le> maximumBulkRows
                \<and> 1 \<le> bulk_seatsPerRow raw \<and> bulk_seatsPerRow raw \<le> int maximumSeatsPerRow
                \<and> 1 \<le> bulk_startSeatNumber raw \<and> bulk_startSeatNumber raw \<le> 9999
                \<and> 1 \<le> bulk_horizontalSpacing raw \<and> bulk_horizontalSpacing raw \<le> maximumSpacing
                \<and> 1 \<le> bulk_verticalSpacing raw \<and> bulk_verticalSpacing raw \<le> maximumSpacing
                \<and> start + bulk_rowCount raw - 1 \<le> 18278
                \<and> bulk_startSeatNumber raw + bulk_seatsPerRow raw - 1 \<le> 9999
                \<and> (bulk_seatsPerRow raw - 1) * bulk_horizontalSpacing raw \<le> maximumCoordinate
             then Some value else None)"

section \<open>Validation before publication\<close>

definition hasDuplicates :: "'a list \<Rightarrow> bool" where
  "hasDuplicates values \<longleftrightarrow> js_size values \<noteq> length values"

lemma hasDuplicates_iff [simp]: "hasDuplicates xs \<longleftrightarrow> \<not> distinct xs"
  by (simp add: hasDuplicates_def js_size_eq_length)

definition issue_if :: "bool \<Rightarrow> string \<Rightarrow> string list" where
  "issue_if b message = (if b then [message] else [])"

lemma issue_if_Nil [simp]: "issue_if b m = [] \<longleftrightarrow> \<not> b"
  by (simp add: issue_if_def)

definition of_type :: "SeatType \<Rightarrow> Seat list \<Rightarrow> nat" where
  "of_type ty seats = length (filter (\<lambda>s. seat_type s = ty) seats)"

definition row_issues :: "SeatSection \<Rightarrow> GraphRow \<Rightarrow> string list" where
  "row_issues s row =
     (let seats = grow_seats row; name = sec_code s @ ''-'' @ row_label (grow_row row)
      in issue_if (seats = []) (''Row '' @ name @ '' has no seats.'')
         @ issue_if (maximumSeatsPerRow < length seats) (''Row '' @ name @ '' exceeds the seat limit.'')
         @ issue_if (hasDuplicates (map (js_upper \<circ> seat_label) seats)) (''Row '' @ name @ '' contains duplicate seat labels.'')
         @ issue_if (hasDuplicates (map seat_displayOrder seats)) (''Row '' @ name @ '' contains duplicate seat order values.'')
         @ issue_if (of_type SeatType.ACCESSIBLE seats < of_type SeatType.COMPANION seats)
             (''Row '' @ name @ '' needs at least one accessible seat for each companion seat.'')
         @ concat (map (\<lambda>t. issue_if (\<not> (on_canvas (seat_x t) \<and> on_canvas (seat_y t)))
             (''Seat '' @ name @ ''-'' @ seat_label t @ '' is outside the canvas.'')) seats))"

text \<open>A pair stands for the text \<open>x:y\<close> of two coordinates.\<close>

definition section_issues :: "GraphSection \<Rightarrow> string list" where
  "section_issues g =
     (let s = gsec_section g; rows = gsec_rows g
      in issue_if (rows = []) (''Section '' @ sec_code s @ '' has no rows.'')
         @ issue_if (maximumRowsPerSection < length rows) (''Section '' @ sec_code s @ '' exceeds the row limit.'')
         @ issue_if (hasDuplicates (map (js_upper \<circ> row_label \<circ> grow_row) rows))
             (''Section '' @ sec_code s @ '' contains duplicate row labels.'')
         @ issue_if (hasDuplicates (map (row_displayOrder \<circ> grow_row) rows))
             (''Section '' @ sec_code s @ '' contains duplicate row order values.'')
         @ issue_if (hasDuplicates (map (\<lambda>t. (seat_x t, seat_y t)) (section_seats g)))
             (''Section '' @ sec_code s @ '' contains overlapping seat coordinates.'')
         @ concat (map (row_issues s) rows))"

definition validateSeatMapForPublication :: "seat_graph \<Rightarrow> string list" where
  "validateSeatMapForPublication g =
     js_unique
       (issue_if (g = []) ''Add at least one section.''
        @ issue_if (maximumSections < length g) ''A map can contain at most 20 sections.''
        @ issue_if (length (graph_seats g) = 0) ''Add at least one seat.''
        @ issue_if (maximumSeatsPerMap < length (graph_seats g)) ''A map can contain at most 3000 seats.''
        @ issue_if (hasDuplicates (map (js_upper \<circ> sec_code \<circ> gsec_section) g)) ''Section codes must be unique.''
        @ issue_if (hasDuplicates (map (sec_displayOrder \<circ> gsec_section) g)) ''Section order values must be unique.''
        @ concat (map section_issues g))"

text \<open>What a map without issues looks like.\<close>

definition row_well_formed :: "GraphRow \<Rightarrow> bool" where
  "row_well_formed row \<longleftrightarrow>
     grow_seats row \<noteq> [] \<and> length (grow_seats row) \<le> 80
     \<and> distinct (map (js_upper \<circ> seat_label) (grow_seats row)) \<and> distinct (map seat_displayOrder (grow_seats row))
     \<and> of_type SeatType.COMPANION (grow_seats row) \<le> of_type SeatType.ACCESSIBLE (grow_seats row)
     \<and> (\<forall>t\<in>set (grow_seats row). 0 \<le> seat_x t \<and> seat_x t \<le> 10000 \<and> 0 \<le> seat_y t \<and> seat_y t \<le> 10000)"

definition section_well_formed :: "GraphSection \<Rightarrow> bool" where
  "section_well_formed g \<longleftrightarrow>
     gsec_rows g \<noteq> [] \<and> length (gsec_rows g) \<le> 60
     \<and> distinct (map (js_upper \<circ> row_label \<circ> grow_row) (gsec_rows g))
     \<and> distinct (map (row_displayOrder \<circ> grow_row) (gsec_rows g))
     \<and> distinct (map (\<lambda>t. (seat_x t, seat_y t)) (section_seats g)) \<and> (\<forall>row\<in>set (gsec_rows g). row_well_formed row)"

definition graph_well_formed :: "seat_graph \<Rightarrow> bool" where
  "graph_well_formed g \<longleftrightarrow>
     g \<noteq> [] \<and> length g \<le> 20 \<and> graph_seats g \<noteq> [] \<and> length (graph_seats g) \<le> 3000
     \<and> distinct (map (js_upper \<circ> sec_code \<circ> gsec_section) g) \<and> distinct (map (sec_displayOrder \<circ> gsec_section) g)
     \<and> (\<forall>s\<in>set g. section_well_formed s)"

lemma publication_valid_iff: "validateSeatMapForPublication g = [] \<longleftrightarrow> graph_well_formed g"
proof -
  have row: "row_issues s row = [] \<longleftrightarrow> row_well_formed row" for s row
    by (auto simp: row_issues_def row_well_formed_def Let_def maximumSeatsPerRow_def on_canvas_def
        minimumCoordinate_def maximumCoordinate_def not_less)
  have "section_issues s = [] \<longleftrightarrow> section_well_formed s" for s
    by (auto simp: section_issues_def section_well_formed_def Let_def maximumRowsPerSection_def row not_less)
  then show ?thesis
    by (auto simp: validateSeatMapForPublication_def graph_well_formed_def maximumSections_def maximumSeatsPerMap_def not_less)
qed

end
