(* ===== verification/Event_Rules.thy ===== *)
theory Event_Rules
  imports Seat_Map_Rules Hold_Rules
begin

text \<open>
  The pure rules of events (src/features/events): lifecycle, overlap, public visibility, input
  schemas, the coverage of a seat map by prices, and of src/features/holds/inventory.ts the
  derivation of the sellable inventory and what a customer sees of it.
\<close>

section \<open>Lifecycle\<close>

definition canEditEvent :: "EventStatus \<Rightarrow> bool" where
  "canEditEvent status \<longleftrightarrow> status = EventStatus.DRAFT"

definition canPublishEvent :: "EventStatus \<Rightarrow> bool" where
  "canPublishEvent status \<longleftrightarrow> status = EventStatus.DRAFT \<or> status = EventStatus.PUBLISHED"

definition canCancelEvent :: "EventStatus \<Rightarrow> bool" where
  "canCancelEvent status \<longleftrightarrow> status = EventStatus.DRAFT \<or> status = EventStatus.PUBLISHED"

definition canArchiveEvent :: "EventStatus \<Rightarrow> bool" where
  "canArchiveEvent status \<longleftrightarrow> status \<noteq> EventStatus.ARCHIVED"

definition canRestoreEvent :: "EventStatus \<Rightarrow> EventStatus option \<Rightarrow> bool" where
  "canRestoreEvent status preArchiveStatus \<longleftrightarrow> status = EventStatus.ARCHIVED
     \<and> (preArchiveStatus = Some EventStatus.DRAFT \<or> preArchiveStatus = Some EventStatus.PUBLISHED)"

definition canEditSession :: "EventSessionStatus \<Rightarrow> bool" where
  "canEditSession status \<longleftrightarrow> status = EventSessionStatus.DRAFT"

definition canEditSessionPricing :: "EventSessionStatus \<Rightarrow> bool" where
  "canEditSessionPricing status \<longleftrightarrow> status = EventSessionStatus.DRAFT"

definition canPublishSession :: "EventSessionStatus \<Rightarrow> bool" where
  "canPublishSession status \<longleftrightarrow>
     status = EventSessionStatus.DRAFT \<or> status = EventSessionStatus.SCHEDULED \<or> status = EventSessionStatus.ON_SALE"

definition canPauseSessionSales :: "EventSessionStatus \<Rightarrow> bool" where
  "canPauseSessionSales status \<longleftrightarrow> status = EventSessionStatus.ON_SALE"

definition canResumeSessionSales :: "EventSessionStatus \<Rightarrow> bool" where
  "canResumeSessionSales status \<longleftrightarrow> status = EventSessionStatus.SALES_PAUSED"

definition canCancelSession :: "EventSessionStatus \<Rightarrow> bool" where
  "canCancelSession status \<longleftrightarrow> status \<notin> {EventSessionStatus.CANCELLED, EventSessionStatus.COMPLETED}"

text \<open>Statuses of a session that was published and neither cancelled nor completed.\<close>

definition published_session_status :: "EventSessionStatus \<Rightarrow> bool" where
  "published_session_status status \<longleftrightarrow>
     status \<in> {EventSessionStatus.SCHEDULED, EventSessionStatus.ON_SALE, EventSessionStatus.SALES_PAUSED}"

definition sessionRangesOverlap :: "time \<times> time \<Rightarrow> time \<times> time \<Rightarrow> bool" where
  "sessionRangesOverlap first second \<longleftrightarrow> fst first < snd second \<and> fst second < snd first"

definition isPubliclyEligibleSession :: "EventStatus \<Rightarrow> EventSessionStatus \<Rightarrow> time \<Rightarrow> bool \<Rightarrow> time \<Rightarrow> bool" where
  "isPubliclyEligibleSession eventStatus sessionStatus sessionStartAt hasValidPricing now \<longleftrightarrow>
     eventStatus = EventStatus.PUBLISHED \<and> published_session_status sessionStatus \<and> now < sessionStartAt \<and> hasValidPricing"

section \<open>Coverage of a seat map by prices\<close>

record SectionCapacity =
  scap_sectionId :: ident
  scap_sectionName :: string
  scap_sectionCode :: string
  scap_sellable :: nat
  scap_blocked :: nat
  scap_priceTierId :: "ident option"

record PricingCoverage =
  cov_sections :: "SectionCapacity list"
  cov_tiers :: "(SessionPriceTier \<times> nat) list"
  cov_totalSellable :: nat
  cov_pricedSellable :: nat
  cov_minimumPriceMinor :: "minor option"
  cov_currency :: "Currency option"
  cov_issues :: "string list"

definition sellable_seats :: "GraphSection \<Rightarrow> nat" where
  "sellable_seats s = length (filter (\<lambda>t. seat_state t = SeatState.ACTIVE) (section_seats s))"

definition blocked_seats :: "GraphSection \<Rightarrow> nat" where
  "blocked_seats s = length (filter (\<lambda>t. seat_state t = SeatState.BLOCKED) (section_seats s))"

text \<open>A JavaScript map built from entries: the last entry of a key wins.\<close>

definition assigned_tier :: "SessionSectionPricing list \<Rightarrow> ident \<Rightarrow> ident option" where
  "assigned_tier assignments sectionId = js_map_get (map (\<lambda>a. (spr_sectionId a, spr_priceTierId a)) assignments) sectionId"

definition tier_by_id :: "SessionPriceTier list \<Rightarrow> ident \<Rightarrow> SessionPriceTier option" where
  "tier_by_id tiers i = js_map_get (map (\<lambda>t. (tier_id t, t)) tiers) i"

fun assignment_issues ::
  "seat_graph \<Rightarrow> SessionPriceTier list \<Rightarrow> ident list \<Rightarrow> SessionSectionPricing list \<Rightarrow> string list" where
  "assignment_issues sections tiers assigned [] = []"
| "assignment_issues sections tiers assigned (a # rest) =
     issue_if (spr_sectionId a \<in> set assigned) ''A section can have at most one price tier for a session.''
     @ issue_if (spr_sectionId a \<notin> set (map (sec_id \<circ> gsec_section) sections))
         ''A pricing assignment references a section from another seat map.''
     @ issue_if (tier_by_id tiers (spr_priceTierId a) = None) ''A pricing assignment references a tier from another session.''
     @ assignment_issues sections tiers (spr_sectionId a # assigned) rest"

definition section_capacity :: "SessionSectionPricing list \<Rightarrow> GraphSection \<Rightarrow> SectionCapacity" where
  "section_capacity assignments s =
     \<lparr>scap_sectionId = sec_id (gsec_section s), scap_sectionName = sec_name (gsec_section s),
      scap_sectionCode = sec_code (gsec_section s), scap_sellable = sellable_seats s, scap_blocked = blocked_seats s,
      scap_priceTierId = assigned_tier assignments (sec_id (gsec_section s))\<rparr>"

definition unpriced_issue :: "SessionSectionPricing list \<Rightarrow> GraphSection \<Rightarrow> string list" where
  "unpriced_issue assignments s =
     issue_if (0 < sellable_seats s \<and> assigned_tier assignments (sec_id (gsec_section s)) = None)
       (''Section '' @ sec_code (gsec_section s) @ '' has sellable seats without a price tier.'')"

definition is_priced :: "SessionPriceTier list \<Rightarrow> SectionCapacity \<Rightarrow> bool" where
  "is_priced tiers c \<longleftrightarrow>
     (case scap_priceTierId c of None \<Rightarrow> False | Some i \<Rightarrow> i \<noteq> [] \<and> tier_by_id tiers i \<noteq> None)"

definition calculatePricingCoverage ::
  "seat_graph \<Rightarrow> SessionPriceTier list \<Rightarrow> SessionSectionPricing list \<Rightarrow> PricingCoverage" where
  "calculatePricingCoverage sections tiers assignments =
     (let capacities = map (section_capacity assignments) sections;
          currencies = js_unique (map tier_currency tiers)
      in \<lparr>cov_sections = capacities,
          cov_tiers = map (\<lambda>t. (t, sum_list (map scap_sellable (filter (\<lambda>c. scap_priceTierId c = Some (tier_id t)) capacities)))) tiers,
          cov_totalSellable = sum_list (map scap_sellable capacities),
          cov_pricedSellable = sum_list (map scap_sellable (filter (is_priced tiers) capacities)),
          cov_minimumPriceMinor =
            (case tiers of [] \<Rightarrow> None | t # rest \<Rightarrow> Some (fold min (map tier_priceMinor rest) (tier_priceMinor t))),
          cov_currency = (if length currencies = 1 then map_option tier_currency (find_row (\<lambda>_. True) tiers) else None),
          cov_issues = js_unique
            (assignment_issues sections tiers [] assignments @ concat (map (unpriced_issue assignments) sections)
             @ issue_if (list_ex (\<lambda>t. tier_priceMinor t < 0) tiers) ''Ticket prices cannot be negative.''
             @ issue_if (1 < length currencies) ''All price tiers in a session must use the same currency.'')\<rparr>)"

definition cov_unpricedSellable :: "PricingCoverage \<Rightarrow> int" where
  "cov_unpricedSellable c = int (cov_totalSellable c) - int (cov_pricedSellable c)"

section \<open>Sellable inventory\<close>

record MaterializedInventoryRow =
  mat_seatId :: ident
  mat_sectionId :: ident
  mat_priceTierId :: ident
  mat_priceMinor :: minor
  mat_currency :: Currency

definition inventory_row :: "GraphSection \<Rightarrow> SessionPriceTier \<Rightarrow> Seat \<Rightarrow> MaterializedInventoryRow" where
  "inventory_row s tier seat =
     \<lparr>mat_seatId = seat_id seat, mat_sectionId = sec_id (gsec_section s), mat_priceTierId = tier_id tier,
      mat_priceMinor = tier_priceMinor tier, mat_currency = tier_currency tier\<rparr>"

text \<open>The tier of a section; an empty identifier of a tier is no tier.\<close>

definition tier_of_section :: "SessionPriceTier list \<Rightarrow> SessionSectionPricing list \<Rightarrow> GraphSection \<Rightarrow> SessionPriceTier option" where
  "tier_of_section tiers assignments s =
     (case assigned_tier assignments (sec_id (gsec_section s)) of
        None \<Rightarrow> None
      | Some i \<Rightarrow> if i = [] then None else tier_by_id tiers i)"

definition section_inventory :: "SessionPriceTier list \<Rightarrow> SessionSectionPricing list \<Rightarrow> GraphSection \<Rightarrow> MaterializedInventoryRow list" where
  "section_inventory tiers assignments s =
     (case tier_of_section tiers assignments s of
        None \<Rightarrow> []
      | Some tier \<Rightarrow> map (inventory_row s tier) (filter (\<lambda>t. seat_state t = SeatState.ACTIVE) (section_seats s)))"

definition computeSessionInventoryRows ::
  "seat_graph \<Rightarrow> SessionPriceTier list \<Rightarrow> SessionSectionPricing list \<Rightarrow> MaterializedInventoryRow list" where
  "computeSessionInventoryRows sections tiers assignments = concat (map (section_inventory tiers assignments) sections)"

section \<open>What a customer sees\<close>

datatype SeatSelectionState = AVAILABLE | HELD_BY_YOU | UNAVAILABLE | BLOCKED

record SelectionSeatView =
  sel_seatId :: ident
  sel_label :: string
  sel_x :: int
  sel_y :: int
  sel_type :: SeatType
  sel_state :: SeatSelectionState
  sel_priceMinor :: "minor option"
  sel_currency :: "Currency option"

record SelectionRowView =
  selr_id :: ident
  selr_label :: string
  selr_seats :: "SelectionSeatView list"

record SelectionSectionView =
  sels_id :: ident
  sels_name :: string
  sels_code :: string
  sels_rows :: "SelectionRowView list"

definition seat_view :: "Seat \<Rightarrow> SeatSelectionState \<Rightarrow> (minor \<times> Currency) option \<Rightarrow> SelectionSeatView" where
  "seat_view t state price =
     \<lparr>sel_seatId = seat_id t, sel_label = seat_label t, sel_x = seat_x t, sel_y = seat_y t, sel_type = seat_type t,
      sel_state = state, sel_priceMinor = map_option fst price, sel_currency = map_option snd price\<rparr>"

definition mapSeat :: "Seat \<Rightarrow> SessionSeatInventory option \<Rightarrow> ident option \<Rightarrow> SelectionSeatView" where
  "mapSeat t snapshot viewerHoldId =
     (case snapshot of
        None \<Rightarrow> seat_view t (if seat_state t = SeatState.BLOCKED then SeatSelectionState.BLOCKED else SeatSelectionState.UNAVAILABLE) None
      | Some i \<Rightarrow>
          if seat_state t = SeatState.BLOCKED then seat_view t SeatSelectionState.BLOCKED None
          else let state =
                 (if inv_state i = SeatInventoryState.AVAILABLE then SeatSelectionState.AVAILABLE
                  else if viewerHoldId \<noteq> None \<and> viewerHoldId \<noteq> Some [] \<and> inv_currentHoldId i = viewerHoldId
                  then SeatSelectionState.HELD_BY_YOU else SeatSelectionState.UNAVAILABLE)
               in seat_view t state
                    (if state = SeatSelectionState.AVAILABLE \<or> state = SeatSelectionState.HELD_BY_YOU
                     then Some (inv_priceMinor i, inv_currency i) else None))"

definition mapSeatSelectionSections ::
  "seat_graph \<Rightarrow> SessionSeatInventory list \<Rightarrow> ident option \<Rightarrow> SelectionSectionView list" where
  "mapSeatSelectionSections sections inventory viewerHoldId =
     map (\<lambda>s. \<lparr>sels_id = sec_id (gsec_section s), sels_name = sec_name (gsec_section s), sels_code = sec_code (gsec_section s),
        sels_rows = map (\<lambda>r. \<lparr>selr_id = row_id (grow_row r), selr_label = row_label (grow_row r),
          selr_seats = map (\<lambda>t. mapSeat t (js_map_get (map (\<lambda>i. (inv_seatId i, i)) inventory) (seat_id t)) viewerHoldId)
            (grow_seats r)\<rparr>) (gsec_rows s)\<rparr>) sections"

record SelectionAvailabilityCounts =
  avc_total :: nat
  avc_available :: nat
  avc_heldByYou :: nat
  avc_unavailable :: nat
  avc_blocked :: nat

definition count_view :: "SelectionSeatView \<Rightarrow> SelectionAvailabilityCounts \<Rightarrow> SelectionAvailabilityCounts" where
  "count_view t counts =
     (let counts = counts\<lparr>avc_total := avc_total counts + 1\<rparr>
      in case sel_state t of
           SeatSelectionState.AVAILABLE \<Rightarrow> counts\<lparr>avc_available := avc_available counts + 1\<rparr>
         | SeatSelectionState.HELD_BY_YOU \<Rightarrow> counts\<lparr>avc_heldByYou := avc_heldByYou counts + 1\<rparr>
         | SeatSelectionState.BLOCKED \<Rightarrow> counts\<lparr>avc_blocked := avc_blocked counts + 1\<rparr>
         | SeatSelectionState.UNAVAILABLE \<Rightarrow> counts\<lparr>avc_unavailable := avc_unavailable counts + 1\<rparr>)"

definition selection_seats :: "SelectionSectionView list \<Rightarrow> SelectionSeatView list" where
  "selection_seats sections = concat (map (\<lambda>s. concat (map selr_seats (sels_rows s))) sections)"

definition countSelectionStates :: "SelectionSectionView list \<Rightarrow> SelectionAvailabilityCounts" where
  "countSelectionStates sections =
     fold count_view (selection_seats sections)
       \<lparr>avc_total = 0, avc_available = 0, avc_heldByYou = 0, avc_unavailable = 0, avc_blocked = 0\<rparr>"

end
