(* ===== verification/Catalogue_Access.thy ===== *)
theory Catalogue_Access
  imports Authorization Seat_Map_Rules
begin

text \<open>
  Who may touch what in the catalogue (src/server/authorization/organization-membership.ts,
  venue-resources.ts and event-resources.ts). A resource is found only below an organization of
  the right kind in which the user has at least the minimum role; \<open>Inr None\<close> is the \<open>null\<close> of
  a refusal, \<open>Inl\<close> a thrown error.
\<close>

section \<open>Rows by identifier\<close>

definition find_organization :: "database \<Rightarrow> ident \<Rightarrow> Organization option" where
  "find_organization db i = find_row (\<lambda>x. org_id x = i) (cat_organizations (db_catalogue db))"

definition find_venue :: "database \<Rightarrow> ident \<Rightarrow> Venue option" where
  "find_venue db i = find_row (\<lambda>x. ven_id x = i) (cat_venues (db_catalogue db))"

definition find_space :: "database \<Rightarrow> ident \<Rightarrow> Space option" where
  "find_space db i = find_row (\<lambda>x. spc_id x = i) (cat_spaces (db_catalogue db))"

definition find_map :: "catalogue \<Rightarrow> ident \<Rightarrow> SeatMap option" where
  "find_map cat i = find_row (\<lambda>x. map_id x = i) (cat_seatMaps cat)"

definition find_section :: "catalogue \<Rightarrow> ident \<Rightarrow> SeatSection option" where
  "find_section cat i = find_row (\<lambda>x. sec_id x = i) (cat_sections cat)"

definition find_seat_row :: "catalogue \<Rightarrow> ident \<Rightarrow> SeatRow option" where
  "find_seat_row cat i = find_row (\<lambda>x. row_id x = i) (cat_rows cat)"

definition find_seat :: "catalogue \<Rightarrow> ident \<Rightarrow> Seat option" where
  "find_seat cat i = find_row (\<lambda>x. seat_id x = i) (cat_seats cat)"

section \<open>Memberships\<close>

text \<open>\<open>Boolean(text)\<close>: an absent or empty text is false.\<close>

definition js_true :: "string option \<Rightarrow> bool" where
  "js_true t \<longleftrightarrow> t \<noteq> None \<and> t \<noteq> Some []"

definition organization_matches ::
  "ident option \<Rightarrow> string option \<Rightarrow> OrganizationKind option \<Rightarrow> Organization \<Rightarrow> bool" where
  "organization_matches organizationId organizationSlug kind org \<longleftrightarrow>
     (if js_true organizationId then Some (org_id org) = organizationId else Some (org_slug org) = organizationSlug)
     \<and> (kind = None \<or> kind = Some (org_kind org))"

definition member_of ::
  "database \<Rightarrow> ident \<Rightarrow> (Organization \<Rightarrow> bool) \<Rightarrow> Membership \<Rightarrow> bool" where
  "member_of db userId P m \<longleftrightarrow> mem_userId m = userId
     \<and> (case find_organization db (mem_organizationId m) of None \<Rightarrow> False | Some org \<Rightarrow> P org)"

definition findAuthorizedOrganizationMembership ::
  "database \<Rightarrow> ident \<Rightarrow> ident option \<Rightarrow> string option \<Rightarrow> OrganizationKind option \<Rightarrow> MembershipRole
     \<Rightarrow> service_error + (Membership \<times> Organization) option" where
  "findAuthorizedOrganizationMembership db userId organizationId organizationSlug kind minimumRole =
     (if js_true organizationId = js_true organizationSlug
      then Inl (PlainError ''Organization authorization requires exactly one organization identifier.'')
      else case find_row (member_of db userId (organization_matches organizationId organizationSlug kind)) (db_memberships db) of
             None \<Rightarrow> Inr None
           | Some m \<Rightarrow>
               if hasMinimumMembershipRole (mem_role m) minimumRole
               then Inr (map_option (Pair m) (find_organization db (mem_organizationId m))) else Inr None)"

definition findAuthorizedVenueOperatorOrganization ::
  "database \<Rightarrow> ident \<Rightarrow> string \<Rightarrow> MembershipRole \<Rightarrow> service_error + (Membership \<times> Organization) option" where
  "findAuthorizedVenueOperatorOrganization db userId slug minimumRole =
     findAuthorizedOrganizationMembership db userId None (Some slug) (Some OrganizationKind.VENUE_OPERATOR) minimumRole"

definition findAuthorizedOrganizerOrganization ::
  "database \<Rightarrow> ident \<Rightarrow> string \<Rightarrow> MembershipRole \<Rightarrow> service_error + (Membership \<times> Organization) option" where
  "findAuthorizedOrganizerOrganization db userId slug minimumRole =
     findAuthorizedOrganizationMembership db userId None (Some slug) (Some OrganizationKind.ORGANIZER) minimumRole"

lemma organization_membership_Inr:
  assumes "findAuthorizedOrganizationMembership db userId i slug kind minimumRole = Inr (Some (m, org))"
  shows "m \<in> set (db_memberships db)" "mem_userId m = userId" "find_organization db (mem_organizationId m) = Some org"
    "organization_matches i slug kind org" "hasMinimumMembershipRole (mem_role m) minimumRole"
  using assms
  by (auto simp: findAuthorizedOrganizationMembership_def member_of_def dest!: tbl.find_SomeD
      split: if_split_asm option.splits)

section \<open>Venue resources\<close>

record SpaceScope =
  scp_userId :: ident
  scp_organizationSlug :: string
  scp_venueSlug :: string
  scp_spaceSlug :: string

record SeatMapScope = SpaceScope +
  scp_seatMapId :: ident

definition findAuthorizedVenue ::
  "database \<Rightarrow> ident \<Rightarrow> string \<Rightarrow> string \<Rightarrow> MembershipRole \<Rightarrow> service_error + (Membership \<times> Venue) option" where
  "findAuthorizedVenue db userId organizationSlug venueSlug minimumRole =
     and_then (findAuthorizedVenueOperatorOrganization db userId organizationSlug minimumRole) (\<lambda>found.
       case found of
         None \<Rightarrow> Inr None
       | Some (m, _) \<Rightarrow>
           Inr (map_option (Pair m)
             (find_row (\<lambda>v. ven_organizationId v = mem_organizationId m \<and> ven_slug v = venueSlug)
                (cat_venues (db_catalogue db)))))"

definition space_under :: "database \<Rightarrow> ident \<Rightarrow> string \<Rightarrow> string \<Rightarrow> Space \<Rightarrow> bool" where
  "space_under db organizationId venueSlug spaceSlug s \<longleftrightarrow> spc_slug s = spaceSlug
     \<and> (case find_venue db (spc_venueId s) of
          None \<Rightarrow> False
        | Some v \<Rightarrow> ven_slug v = venueSlug \<and> ven_organizationId v = organizationId)"

definition with_venue :: "database \<Rightarrow> Space \<Rightarrow> (Space \<times> Venue) option" where
  "with_venue db s = map_option (Pair s) (find_venue db (spc_venueId s))"

definition findAuthorizedSpace ::
  "database \<Rightarrow> ('a SpaceScope_scheme) \<Rightarrow> MembershipRole \<Rightarrow> service_error + (Membership \<times> Space \<times> Venue) option" where
  "findAuthorizedSpace db scope minimumRole =
     and_then (findAuthorizedVenueOperatorOrganization db (scp_userId scope) (scp_organizationSlug scope) minimumRole) (\<lambda>found.
       case found of
         None \<Rightarrow> Inr None
       | Some (m, _) \<Rightarrow>
           (case find_row (space_under db (mem_organizationId m) (scp_venueSlug scope) (scp_spaceSlug scope))
                   (cat_spaces (db_catalogue db)) of
              None \<Rightarrow> Inr None
            | Some s \<Rightarrow> Inr (map_option (Pair m) (with_venue db s))))"

text \<open>The map is named by its identifier or, when that is absent or empty, by its version.\<close>

definition map_named :: "ident option \<Rightarrow> int option \<Rightarrow> SeatMap \<Rightarrow> bool" where
  "map_named seatMapId version m \<longleftrightarrow>
     (if js_true seatMapId then Some (map_id m) = seatMapId
      else case version of None \<Rightarrow> True | Some v \<Rightarrow> map_version m = v)"

definition map_under :: "database \<Rightarrow> ident \<Rightarrow> string \<Rightarrow> string \<Rightarrow> SeatMap \<Rightarrow> bool" where
  "map_under db organizationId venueSlug spaceSlug m \<longleftrightarrow>
     (case find_space db (map_spaceId m) of
        None \<Rightarrow> False
      | Some s \<Rightarrow> space_under db organizationId venueSlug spaceSlug s)"

definition map_with_parents :: "database \<Rightarrow> SeatMap \<Rightarrow> (SeatMap \<times> Space \<times> Venue) option" where
  "map_with_parents db m =
     (case find_space db (map_spaceId m) of None \<Rightarrow> None | Some s \<Rightarrow> map_option (Pair m) (with_venue db s))"

definition findAuthorizedSeatMapBy ::
  "database \<Rightarrow> ('a SpaceScope_scheme) \<Rightarrow> ident option \<Rightarrow> int option \<Rightarrow> MembershipRole
     \<Rightarrow> service_error + (Membership \<times> SeatMap \<times> Space \<times> Venue) option" where
  "findAuthorizedSeatMapBy db scope seatMapId version minimumRole =
     and_then (findAuthorizedVenueOperatorOrganization db (scp_userId scope) (scp_organizationSlug scope) minimumRole) (\<lambda>found.
       case found of
         None \<Rightarrow> Inr None
       | Some (m, _) \<Rightarrow>
           (case find_row (\<lambda>x. map_named seatMapId version x
                     \<and> map_under db (mem_organizationId m) (scp_venueSlug scope) (scp_spaceSlug scope) x)
                   (cat_seatMaps (db_catalogue db)) of
              None \<Rightarrow> Inr None
            | Some x \<Rightarrow> Inr (map_option (Pair m) (map_with_parents db x))))"

definition findAuthorizedSeatMap ::
  "database \<Rightarrow> ('a SeatMapScope_scheme) \<Rightarrow> MembershipRole
     \<Rightarrow> service_error + (Membership \<times> SeatMap \<times> Space \<times> Venue) option" where
  "findAuthorizedSeatMap db scope minimumRole = findAuthorizedSeatMapBy db scope (Some (scp_seatMapId scope)) None minimumRole"

definition findAuthorizedSection ::
  "database \<Rightarrow> ('a SeatMapScope_scheme) \<Rightarrow> ident \<Rightarrow> MembershipRole
     \<Rightarrow> service_error + (SeatSection \<times> SeatMap \<times> Space \<times> Venue) option" where
  "findAuthorizedSection db scope sectionId minimumRole =
     and_then (findAuthorizedSeatMap db scope minimumRole) (\<lambda>found.
       case found of
         None \<Rightarrow> Inr None
       | Some (_, m, s, v) \<Rightarrow>
           Inr (map_option (\<lambda>x. (x, m, s, v))
             (find_row (\<lambda>x. sec_id x = sectionId \<and> sec_seatMapId x = map_id m) (cat_sections (db_catalogue db)))))"

definition findAuthorizedRow ::
  "database \<Rightarrow> ('a SeatMapScope_scheme) \<Rightarrow> ident \<Rightarrow> ident \<Rightarrow> MembershipRole
     \<Rightarrow> service_error + (SeatRow \<times> SeatSection \<times> SeatMap \<times> Space \<times> Venue) option" where
  "findAuthorizedRow db scope sectionId rowId minimumRole =
     and_then (findAuthorizedSection db scope sectionId minimumRole) (\<lambda>found.
       case found of
         None \<Rightarrow> Inr None
       | Some (sec, rest) \<Rightarrow>
           Inr (map_option (\<lambda>x. (x, sec, rest))
             (find_row (\<lambda>x. row_id x = rowId \<and> row_sectionId x = sec_id sec) (cat_rows (db_catalogue db)))))"

definition findAuthorizedSeat ::
  "database \<Rightarrow> ('a SeatMapScope_scheme) \<Rightarrow> ident \<Rightarrow> ident \<Rightarrow> ident \<Rightarrow> MembershipRole
     \<Rightarrow> service_error + (Seat \<times> SeatRow \<times> SeatSection \<times> SeatMap \<times> Space \<times> Venue) option" where
  "findAuthorizedSeat db scope sectionId rowId seatId minimumRole =
     and_then (findAuthorizedRow db scope sectionId rowId minimumRole) (\<lambda>found.
       case found of
         None \<Rightarrow> Inr None
       | Some (row, rest) \<Rightarrow>
           Inr (map_option (\<lambda>x. (x, row, rest))
             (find_row (\<lambda>x. seat_id x = seatId \<and> seat_rowId x = row_id row) (cat_seats (db_catalogue db)))))"

section \<open>Event resources\<close>

record OrganizerScope =
  osc_userId :: ident
  osc_organizationSlug :: string

record EventScope = OrganizerScope +
  osc_eventSlug :: string

record SessionScope = EventScope +
  osc_sessionId :: ident

definition findAuthorizedEventBy ::
  "database \<Rightarrow> ident \<Rightarrow> string \<Rightarrow> ident option \<Rightarrow> string option \<Rightarrow> MembershipRole
     \<Rightarrow> service_error + (Membership \<times> Organization \<times> Event) option" where
  "findAuthorizedEventBy db userId organizationSlug eventId eventSlug minimumRole =
     and_then (findAuthorizedOrganizerOrganization db userId organizationSlug minimumRole) (\<lambda>found.
       case found of
         None \<Rightarrow> Inr None
       | Some (m, org) \<Rightarrow>
           Inr (map_option (\<lambda>e. (m, org, e))
             (find_row (\<lambda>e. ev_organizerOrganizationId e = mem_organizationId m
                  \<and> (if js_true eventId then Some (ev_id e) = eventId
                     else case eventSlug of None \<Rightarrow> True | Some s \<Rightarrow> ev_slug e = s)) (db_events db))))"

definition findAuthorizedEvent ::
  "database \<Rightarrow> ('a EventScope_scheme) \<Rightarrow> MembershipRole \<Rightarrow> service_error + (Membership \<times> Organization \<times> Event) option" where
  "findAuthorizedEvent db scope minimumRole =
     findAuthorizedEventBy db (osc_userId scope) (osc_organizationSlug scope) None (Some (osc_eventSlug scope)) minimumRole"

definition findAuthorizedEventSession ::
  "database \<Rightarrow> ('a SessionScope_scheme) \<Rightarrow> MembershipRole
     \<Rightarrow> service_error + (Membership \<times> Event \<times> EventSession) option" where
  "findAuthorizedEventSession db scope minimumRole =
     and_then (findAuthorizedEvent db scope minimumRole) (\<lambda>found.
       case found of
         None \<Rightarrow> Inr None
       | Some (m, _, e) \<Rightarrow>
           Inr (map_option (\<lambda>s. (m, e, s))
             (find_row (\<lambda>s. ses_id s = osc_sessionId scope \<and> ses_eventId s = ev_id e) (db_sessions db))))"

definition findAuthorizedPriceTier ::
  "database \<Rightarrow> ('a SessionScope_scheme) \<Rightarrow> ident \<Rightarrow> MembershipRole
     \<Rightarrow> service_error + (SessionPriceTier \<times> Event \<times> EventSession) option" where
  "findAuthorizedPriceTier db scope priceTierId minimumRole =
     and_then (findAuthorizedEventSession db scope minimumRole) (\<lambda>found.
       case found of
         None \<Rightarrow> Inr None
       | Some (_, e, s) \<Rightarrow>
           Inr (map_option (\<lambda>t. (t, e, s))
             (find_row (\<lambda>t. tier_id t = priceTierId \<and> tier_sessionId t = ses_id s) (cat_tiers (db_catalogue db)))))"

text \<open>A refusal is an error of the service that asked.\<close>

definition authorized :: "service_error \<Rightarrow> service_error + 'a option \<Rightarrow> service_error + 'a" where
  "authorized e access = and_then access (\<lambda>found. case found of None \<Rightarrow> Inl e | Some x \<Rightarrow> Inr x)"

lemma authorized_Inr: "authorized e access = Inr x \<longleftrightarrow> access = Inr (Some x)"
  by (auto simp: authorized_def and_then_eq_Inr split: option.splits)

section \<open>Services over the catalogue\<close>

text \<open>
  A service reads what it needs for authorization from the database it sees, then runs one
  transaction on the database as it is by then.
\<close>

definition run_service :: "service_error + 'x \<Rightarrow> ('x \<Rightarrow> 'a tx) \<Rightarrow> database \<Rightarrow> database \<times> (service_error + 'a)" where
  "run_service checks body db = (case checks of Inl e \<Rightarrow> (db, Inl e) | Inr x \<Rightarrow> transact (body x) db)"

text \<open>The \<open>catch\<close> that turns a violated unique index into an error of the service.\<close>

definition catch_unique :: "service_error \<Rightarrow> database \<times> (service_error + 'a) \<Rightarrow> database \<times> (service_error + 'a)" where
  "catch_unique e p = (case p of (db, Inl (UniqueViolation _)) \<Rightarrow> (db, Inl e) | _ \<Rightarrow> p)"

lemma fst_catch_unique [simp]: "fst (catch_unique e p) = fst p"
  by (cases p; cases "snd p") (auto simp: catch_unique_def split: service_error.split sum.split)

text \<open>Statements on the catalogue, and statements that return their row.\<close>

definition on_catalogue :: "(catalogue \<Rightarrow> service_error + catalogue) \<Rightarrow> database \<Rightarrow> service_error + database" where
  "on_catalogue f db = and_then (f (db_catalogue db)) (\<lambda>cat. Inr (db\<lparr>db_catalogue := cat\<rparr>))"

definition returning :: "'a \<Rightarrow> service_error + database \<Rightarrow> service_error + database \<times> 'a" where
  "returning x m = and_then m (\<lambda>db. Inr (db, x))"

end
