(* ===== verification/Catalogue_Store.thy ===== *)
theory Catalogue_Store
  imports Catalogue_Access
begin

text \<open>
  The tables of seat maps under their unique indexes, checks and triggers (the migrations of
  phase 2 and the hardening of published ancestry): layouts change only on draft maps, published
  maps are immutable except for becoming archived, archived ones altogether. Prisma's \<open>update\<close> and
  \<open>delete\<close> throw when the row is gone.
\<close>

section \<open>Where a layout row belongs\<close>

definition map_status_of :: "catalogue \<Rightarrow> ident \<Rightarrow> SeatMapStatus option" where
  "map_status_of cat mapId = map_option map_status (find_map cat mapId)"

definition section_map :: "catalogue \<Rightarrow> ident \<Rightarrow> ident option" where
  "section_map cat sectionId = map_option sec_seatMapId (find_section cat sectionId)"

definition row_map :: "catalogue \<Rightarrow> ident \<Rightarrow> ident option" where
  "row_map cat rowId = Option.bind (map_option row_sectionId (find_seat_row cat rowId)) (section_map cat)"

text \<open>The status a trigger selects through the joins: NULL when a parent is missing.\<close>

definition joined_status :: "catalogue \<Rightarrow> ident option \<Rightarrow> SeatMapStatus option" where
  "joined_status cat m = Option.bind m (map_status_of cat)"

definition require_draft :: "string \<Rightarrow> catalogue \<Rightarrow> ident option \<Rightarrow> service_error + unit" where
  "require_draft trigger cat m =
     (if joined_status cat m = Some SeatMapStatus.DRAFT then Inr () else Inl (ConstraintViolation trigger))"

lemma require_draft_Inr: "require_draft t cat m = Inr u \<longleftrightarrow> joined_status cat m = Some SeatMapStatus.DRAFT"
  by (simp add: require_draft_def)

definition unless :: "bool \<Rightarrow> service_error \<Rightarrow> service_error + unit" where
  "unless b e = (if b then Inl e else Inr ())"

lemma unless_Inr [simp]: "unless b e = Inr u \<longleftrightarrow> \<not> b"
  by (simp add: unless_def)

section \<open>Sections\<close>

definition section_clash :: "SeatSection \<Rightarrow> catalogue \<Rightarrow> bool" where
  "section_clash s cat \<longleftrightarrow> list_ex (\<lambda>x. sec_id x \<noteq> sec_id s \<and> sec_seatMapId x = sec_seatMapId s \<and> sec_code x = sec_code s) (cat_sections cat)"

definition create_section :: "SeatSection \<Rightarrow> catalogue \<Rightarrow> service_error + catalogue" where
  "create_section s cat =
     and_then (require_draft ''SeatSection_require_draft_map'' cat (Some (sec_seatMapId s))) (\<lambda>_.
     and_then (unless (sec_displayOrder s < 0) (ConstraintViolation ''SeatSection_displayOrder_check'')) (\<lambda>_.
     and_then (unless (has_key sec_id (sec_id s) (cat_sections cat)) (UniqueViolation ''id'')) (\<lambda>_.
     and_then (unless (section_clash s cat) (UniqueViolation ''seatMapId_code'')) (\<lambda>_.
     Inr (cat\<lparr>cat_sections := insert_row s (cat_sections cat)\<rparr>)))))"

definition update_section :: "ident \<Rightarrow> (SeatSection \<Rightarrow> SeatSection) \<Rightarrow> catalogue \<Rightarrow> service_error + catalogue" where
  "update_section i f cat =
     and_then (case find_section cat i of None \<Rightarrow> Inl RecordNotFound | Some s \<Rightarrow> Inr s) (\<lambda>s.
     and_then (require_draft ''SeatSection_require_draft_map'' cat (Some (sec_seatMapId s))) (\<lambda>_.
     and_then (require_draft ''SeatSection_require_draft_map'' cat (Some (sec_seatMapId (f s)))) (\<lambda>_.
     and_then (unless (sec_displayOrder (f s) < 0) (ConstraintViolation ''SeatSection_displayOrder_check'')) (\<lambda>_.
     and_then (unless (section_clash (f s) cat) (UniqueViolation ''seatMapId_code'')) (\<lambda>_.
     Inr (cat\<lparr>cat_sections := update_rows (\<lambda>x. sec_id x = i) f (cat_sections cat)\<rparr>))))))"

section \<open>Rows\<close>

definition row_clash :: "SeatRow \<Rightarrow> catalogue \<Rightarrow> bool" where
  "row_clash r cat \<longleftrightarrow> list_ex (\<lambda>x. row_id x \<noteq> row_id r \<and> row_sectionId x = row_sectionId r \<and> row_label x = row_label r) (cat_rows cat)"

definition create_row :: "SeatRow \<Rightarrow> catalogue \<Rightarrow> service_error + catalogue" where
  "create_row r cat =
     and_then (require_draft ''SeatRow_require_draft_map'' cat (section_map cat (row_sectionId r))) (\<lambda>_.
     and_then (unless (row_displayOrder r < 0) (ConstraintViolation ''SeatRow_displayOrder_check'')) (\<lambda>_.
     and_then (unless (has_key row_id (row_id r) (cat_rows cat)) (UniqueViolation ''id'')) (\<lambda>_.
     and_then (unless (row_clash r cat) (UniqueViolation ''sectionId_label'')) (\<lambda>_.
     Inr (cat\<lparr>cat_rows := insert_row r (cat_rows cat)\<rparr>)))))"

definition update_row :: "ident \<Rightarrow> (SeatRow \<Rightarrow> SeatRow) \<Rightarrow> catalogue \<Rightarrow> service_error + catalogue" where
  "update_row i f cat =
     and_then (case find_seat_row cat i of None \<Rightarrow> Inl RecordNotFound | Some r \<Rightarrow> Inr r) (\<lambda>r.
     and_then (require_draft ''SeatRow_require_draft_map'' cat (section_map cat (row_sectionId r))) (\<lambda>_.
     and_then (require_draft ''SeatRow_require_draft_map'' cat (section_map cat (row_sectionId (f r)))) (\<lambda>_.
     and_then (unless (row_displayOrder (f r) < 0) (ConstraintViolation ''SeatRow_displayOrder_check'')) (\<lambda>_.
     and_then (unless (row_clash (f r) cat) (UniqueViolation ''sectionId_label'')) (\<lambda>_.
     Inr (cat\<lparr>cat_rows := update_rows (\<lambda>x. row_id x = i) f (cat_rows cat)\<rparr>))))))"

section \<open>Seats\<close>

definition seat_label_clash :: "Seat \<Rightarrow> catalogue \<Rightarrow> bool" where
  "seat_label_clash t cat \<longleftrightarrow> list_ex (\<lambda>x. seat_id x \<noteq> seat_id t \<and> seat_rowId x = seat_rowId t \<and> seat_label x = seat_label t) (cat_seats cat)"

definition seat_checks :: "Seat \<Rightarrow> bool" where
  "seat_checks t \<longleftrightarrow> 0 \<le> seat_displayOrder t \<and> on_canvas (seat_x t) \<and> on_canvas (seat_y t)"

definition create_seat :: "Seat \<Rightarrow> catalogue \<Rightarrow> service_error + catalogue" where
  "create_seat t cat =
     and_then (require_draft ''Seat_require_draft_map'' cat (row_map cat (seat_rowId t))) (\<lambda>_.
     and_then (unless (\<not> seat_checks t) (ConstraintViolation ''Seat_check'')) (\<lambda>_.
     and_then (unless (has_key seat_id (seat_id t) (cat_seats cat)) (UniqueViolation ''id'')) (\<lambda>_.
     and_then (unless (seat_label_clash t cat) (UniqueViolation ''rowId_label'')) (\<lambda>_.
     Inr (cat\<lparr>cat_seats := insert_row t (cat_seats cat)\<rparr>)))))"

definition update_seat :: "ident \<Rightarrow> (Seat \<Rightarrow> Seat) \<Rightarrow> catalogue \<Rightarrow> service_error + catalogue" where
  "update_seat i f cat =
     and_then (case find_seat cat i of None \<Rightarrow> Inl RecordNotFound | Some t \<Rightarrow> Inr t) (\<lambda>t.
     and_then (require_draft ''Seat_require_draft_map'' cat (row_map cat (seat_rowId t))) (\<lambda>_.
     and_then (require_draft ''Seat_require_draft_map'' cat (row_map cat (seat_rowId (f t)))) (\<lambda>_.
     and_then (unless (\<not> seat_checks (f t)) (ConstraintViolation ''Seat_check'')) (\<lambda>_.
     and_then (unless (seat_label_clash (f t) cat) (UniqueViolation ''rowId_label'')) (\<lambda>_.
     Inr (cat\<lparr>cat_seats := update_rows (\<lambda>x. seat_id x = i) f (cat_seats cat)\<rparr>))))))"

section \<open>Deletions\<close>

text \<open>
  The foreign keys cascade: the children of a deleted row are deleted after it, and their own
  BEFORE DELETE trigger runs in a catalogue from which the parent is already gone.
\<close>

definition delete_rows :: "('r \<Rightarrow> bool) \<Rightarrow> 'r list \<Rightarrow> 'r list" where
  "delete_rows P t = filter (\<lambda>r. \<not> P r) t"

definition delete_seat :: "ident \<Rightarrow> catalogue \<Rightarrow> service_error + catalogue" where
  "delete_seat i cat =
     and_then (case find_seat cat i of None \<Rightarrow> Inl RecordNotFound | Some t \<Rightarrow> Inr t) (\<lambda>t.
     and_then (require_draft ''Seat_require_draft_map'' cat (row_map cat (seat_rowId t))) (\<lambda>_.
     Inr (cat\<lparr>cat_seats := delete_rows (\<lambda>x. seat_id x = i) (cat_seats cat)\<rparr>)))"

fun cascade_seats :: "Seat list \<Rightarrow> catalogue \<Rightarrow> service_error + catalogue" where
  "cascade_seats [] cat = Inr cat"
| "cascade_seats (t # ts) cat = and_then (delete_seat (seat_id t) cat) (cascade_seats ts)"

definition delete_row :: "ident \<Rightarrow> catalogue \<Rightarrow> service_error + catalogue" where
  "delete_row i cat =
     and_then (case find_seat_row cat i of None \<Rightarrow> Inl RecordNotFound | Some r \<Rightarrow> Inr r) (\<lambda>r.
     and_then (require_draft ''SeatRow_require_draft_map'' cat (section_map cat (row_sectionId r))) (\<lambda>_.
     cascade_seats (select_rows (\<lambda>t. seat_rowId t = i) (cat_seats cat))
       (cat\<lparr>cat_rows := delete_rows (\<lambda>x. row_id x = i) (cat_rows cat)\<rparr>)))"

fun cascade_rows :: "SeatRow list \<Rightarrow> catalogue \<Rightarrow> service_error + catalogue" where
  "cascade_rows [] cat = Inr cat"
| "cascade_rows (r # rs) cat = and_then (delete_row (row_id r) cat) (cascade_rows rs)"

definition delete_section :: "ident \<Rightarrow> catalogue \<Rightarrow> service_error + catalogue" where
  "delete_section i cat =
     and_then (case find_section cat i of None \<Rightarrow> Inl RecordNotFound | Some s \<Rightarrow> Inr s) (\<lambda>s.
     and_then (require_draft ''SeatSection_require_draft_map'' cat (Some (sec_seatMapId s))) (\<lambda>_.
     and_then (unless (list_ex (\<lambda>p. spr_sectionId p = i) (cat_pricing cat)) (ConstraintViolation ''SessionSectionPricing_sectionId_fkey'')) (\<lambda>_.
     cascade_rows (select_rows (\<lambda>r. row_sectionId r = i) (cat_rows cat))
       (cat\<lparr>cat_sections := delete_rows (\<lambda>x. sec_id x = i) (cat_sections cat)\<rparr>))))"

section \<open>Maps\<close>

definition map_row_ok :: "SeatMap \<Rightarrow> bool" where
  "map_row_ok m \<longleftrightarrow> 1 \<le> map_version m \<and> (map_status m = SeatMapStatus.DRAFT \<longleftrightarrow> map_publishedAt m = None)"

definition source_ok :: "SeatMap \<Rightarrow> catalogue \<Rightarrow> bool" where
  "source_ok m cat \<longleftrightarrow>
     (case map_sourceSeatMapId m of
        None \<Rightarrow> True
      | Some i \<Rightarrow> map_option map_spaceId (find_map cat i) = Some (map_spaceId m))"

definition map_clash :: "SeatMap \<Rightarrow> SeatMap list \<Rightarrow> bool" where
  "map_clash m maps \<longleftrightarrow> list_ex (\<lambda>x. map_id x \<noteq> map_id m \<and> map_spaceId x = map_spaceId m \<and> map_version x = map_version m) maps"

text \<open>The partial index \<open>SeatMap_one_published_per_space_key\<close>.\<close>

definition publish_clash :: "SeatMap \<Rightarrow> SeatMap list \<Rightarrow> bool" where
  "publish_clash m maps \<longleftrightarrow> map_status m = SeatMapStatus.PUBLISHED
     \<and> list_ex (\<lambda>x. map_id x \<noteq> map_id m \<and> map_spaceId x = map_spaceId m \<and> map_status x = SeatMapStatus.PUBLISHED) maps"

definition create_map :: "SeatMap \<Rightarrow> catalogue \<Rightarrow> service_error + catalogue" where
  "create_map m cat =
     and_then (unless (\<not> source_ok m cat) (ConstraintViolation ''SeatMap_require_same_space_source'')) (\<lambda>_.
     and_then (unless (\<not> map_row_ok m) (ConstraintViolation ''SeatMap_check'')) (\<lambda>_.
     and_then (unless (has_key map_id (map_id m) (cat_seatMaps cat)) (UniqueViolation ''id'')) (\<lambda>_.
     and_then (unless (map_clash m (cat_seatMaps cat)) (UniqueViolation ''spaceId_version'')) (\<lambda>_.
     and_then (unless (publish_clash m (cat_seatMaps cat)) (UniqueViolation ''one_published_per_space'')) (\<lambda>_.
     Inr (cat\<lparr>cat_seatMaps := insert_row m (cat_seatMaps cat)\<rparr>))))))"

definition map_fixed :: "SeatMap \<Rightarrow> ident \<times> ident option \<times> string \<times> int \<times> time option" where
  "map_fixed m = (map_spaceId m, map_sourceSeatMapId m, map_name m, map_version m, map_publishedAt m)"

definition map_update_ok :: "SeatMap \<Rightarrow> SeatMap \<Rightarrow> bool" where
  "map_update_ok old new \<longleftrightarrow> map_row_ok new \<and>
     (case map_status old of
        SeatMapStatus.DRAFT \<Rightarrow> True
      | SeatMapStatus.PUBLISHED \<Rightarrow> map_status new \<noteq> SeatMapStatus.DRAFT \<and> map_fixed new = map_fixed old
      | SeatMapStatus.ARCHIVED \<Rightarrow> False)"

text \<open>
  Every row the filter selects is rewritten under the trigger; the indexes hold of the table that
  results. Prisma's \<open>update\<close> rewrites one row, \<open>updateMany\<close> those of a filter; neither moves a map to
  another space or gives it another source.
\<close>

definition update_maps :: "(SeatMap \<Rightarrow> bool) \<Rightarrow> (SeatMap \<Rightarrow> SeatMap) \<Rightarrow> catalogue \<Rightarrow> service_error + catalogue" where
  "update_maps P f cat =
     (let maps = update_rows P f (cat_seatMaps cat)
      in and_then (unless (list_ex (\<lambda>m. P m \<and> \<not> map_update_ok m (f m)) (cat_seatMaps cat))
           (ConstraintViolation ''SeatMap_enforce_immutable_version'')) (\<lambda>_.
         and_then (unless (list_ex (\<lambda>m. map_clash m maps) maps) (UniqueViolation ''spaceId_version'')) (\<lambda>_.
         and_then (unless (list_ex (\<lambda>m. publish_clash m maps) maps) (UniqueViolation ''one_published_per_space'')) (\<lambda>_.
         Inr (cat\<lparr>cat_seatMaps := maps\<rparr>)))))"

definition update_map :: "ident \<Rightarrow> (SeatMap \<Rightarrow> SeatMap) \<Rightarrow> catalogue \<Rightarrow> service_error + catalogue" where
  "update_map i f cat = (if find_map cat i = None then Inl RecordNotFound else update_maps (\<lambda>x. map_id x = i) f cat)"

end
