(* ===== verification/Event_Store.thy ===== *)
theory Event_Store
  imports Event_Rules Catalogue_Store Hold_Service
begin

text \<open>
  The tables of events, sessions, prices and sellable seats under their unique indexes, CHECKs,
  triggers and the exclusion constraint on overlapping sessions (the migrations of phases 3 and
  4A). A statement is a function on the database that either returns the changed database or the
  error that aborts the transaction.
\<close>

section \<open>Events\<close>

definition event_lifecycle :: "Event \<Rightarrow> bool" where
  "event_lifecycle e \<longleftrightarrow>
     (case ev_status e of
        EventStatus.DRAFT \<Rightarrow>
          ev_publishedAt e = None \<and> ev_cancelledAt e = None \<and> ev_archivedAt e = None \<and> ev_preArchiveStatus e = None
      | EventStatus.PUBLISHED \<Rightarrow>
          ev_publishedAt e \<noteq> None \<and> ev_cancelledAt e = None \<and> ev_archivedAt e = None \<and> ev_preArchiveStatus e = None
      | EventStatus.CANCELLED \<Rightarrow> ev_cancelledAt e \<noteq> None \<and> ev_archivedAt e = None \<and> ev_preArchiveStatus e = None
      | EventStatus.ARCHIVED \<Rightarrow> ev_archivedAt e \<noteq> None \<and>
          (case ev_preArchiveStatus e of
             Some EventStatus.DRAFT \<Rightarrow> ev_publishedAt e = None \<and> ev_cancelledAt e = None
           | Some EventStatus.PUBLISHED \<Rightarrow> ev_publishedAt e \<noteq> None \<and> ev_cancelledAt e = None
           | Some EventStatus.CANCELLED \<Rightarrow> ev_cancelledAt e \<noteq> None
           | _ \<Rightarrow> False))"

definition event_owner_ok :: "database \<Rightarrow> Event \<Rightarrow> bool" where
  "event_owner_ok db e \<longleftrightarrow>
     (case find_organization db (ev_organizerOrganizationId e) of
        None \<Rightarrow> False
      | Some org \<Rightarrow> org_kind org = OrganizationKind.ORGANIZER \<and> ev_publicSlug e = org_slug org @ ''--'' @ ev_slug e)"

text \<open>
  The trigger on the owner runs for updates of the organization and the slugs only; for one that
  writes back what was there it has nothing to refuse.
\<close>

definition slug_written :: "Event \<Rightarrow> Event \<Rightarrow> bool" where
  "slug_written old e \<longleftrightarrow> ev_organizerOrganizationId e \<noteq> ev_organizerOrganizationId old \<or> ev_slug e \<noteq> ev_slug old
     \<or> ev_publicSlug e \<noteq> ev_publicSlug old"

definition event_slug_clash :: "Event \<Rightarrow> Event list \<Rightarrow> bool" where
  "event_slug_clash e events \<longleftrightarrow>
     list_ex (\<lambda>x. ev_id x \<noteq> ev_id e
       \<and> (ev_publicSlug x = ev_publicSlug e
          \<or> ev_organizerOrganizationId x = ev_organizerOrganizationId e \<and> ev_slug x = ev_slug e)) events"

definition create_event :: "Event \<Rightarrow> database \<Rightarrow> service_error + database" where
  "create_event e db =
     and_then (unless (\<not> event_owner_ok db e) (ConstraintViolation ''Event_require_organizer_organization'')) (\<lambda>_.
     and_then (unless (\<not> event_lifecycle e) (ConstraintViolation ''Event_lifecycle_check'')) (\<lambda>_.
     and_then (unless (has_key ev_id (ev_id e) (db_events db)) (UniqueViolation ''id'')) (\<lambda>_.
     and_then (unless (event_slug_clash e (db_events db)) (UniqueViolation ''slug'')) (\<lambda>_.
     Inr (db\<lparr>db_events := insert_row e (db_events db)\<rparr>)))))"

definition update_event :: "ident \<Rightarrow> (Event \<Rightarrow> Event) \<Rightarrow> database \<Rightarrow> service_error + database" where
  "update_event i f db =
     and_then (case find_event db i of None \<Rightarrow> Inl RecordNotFound | Some e \<Rightarrow> Inr e) (\<lambda>e.
     and_then (unless (slug_written e (f e) \<and> \<not> event_owner_ok db (f e) \<or> ev_organizerOrganizationId (f e) \<noteq> ev_organizerOrganizationId e)
       (ConstraintViolation ''Event_require_organizer_organization'')) (\<lambda>_.
     and_then (unless (\<not> event_lifecycle (f e)) (ConstraintViolation ''Event_lifecycle_check'')) (\<lambda>_.
     and_then (unless (event_slug_clash (f e) (db_events db)) (UniqueViolation ''slug'')) (\<lambda>_.
     Inr (db\<lparr>db_events := update_rows (\<lambda>x. ev_id x = i) f (db_events db)\<rparr>)))))"

definition delete_event :: "ident \<Rightarrow> database \<Rightarrow> service_error + database" where
  "delete_event i db =
     and_then (case find_event db i of None \<Rightarrow> Inl RecordNotFound | Some e \<Rightarrow> Inr e) (\<lambda>e.
     and_then (unless (ev_status e \<noteq> EventStatus.DRAFT) (ConstraintViolation ''Event_protect_history'')) (\<lambda>_.
     and_then (unless (list_ex (\<lambda>s. ses_eventId s = i) (db_sessions db)) (ConstraintViolation ''EventSession_eventId_fkey'')) (\<lambda>_.
     Inr (db\<lparr>db_events := delete_rows (\<lambda>x. ev_id x = i) (db_events db)\<rparr>))))"

section \<open>Sessions\<close>

definition session_lifecycle :: "EventSession \<Rightarrow> bool" where
  "session_lifecycle s \<longleftrightarrow>
     (case ses_status s of
        EventSessionStatus.DRAFT \<Rightarrow> ses_publishedAt s = None \<and> ses_cancelledAt s = None
      | EventSessionStatus.CANCELLED \<Rightarrow> ses_cancelledAt s \<noteq> None
      | _ \<Rightarrow> ses_publishedAt s \<noteq> None \<and> ses_cancelledAt s = None)"

definition session_row_ok :: "EventSession \<Rightarrow> bool" where
  "session_row_ok s \<longleftrightarrow> ses_startAt s < ses_endAt s \<and> ses_salesStartAt s < ses_salesEndAt s \<and> ses_salesEndAt s \<le> ses_startAt s
     \<and> session_lifecycle s"

definition active_access :: "database \<Rightarrow> ident \<Rightarrow> ident \<Rightarrow> nat" where
  "active_access db organizerId venueId =
     length (filter (\<lambda>g. acc_organizerOrganizationId g = organizerId \<and> acc_venueId g = venueId
       \<and> acc_status g = VenueAccessGrantStatus.ACTIVE) (cat_access (db_catalogue db)))"

text \<open>The trigger on the ancestry of a session; \<open>old\<close> is \<open>None\<close> for an insertion.\<close>

definition needs_current_access :: "EventSession option \<Rightarrow> EventSession \<Rightarrow> bool" where
  "needs_current_access old s \<longleftrightarrow>
     (case old of
        None \<Rightarrow> True
      | Some x \<Rightarrow> ses_eventId s \<noteq> ses_eventId x \<or> ses_venueId s \<noteq> ses_venueId x \<or> ses_spaceId s \<noteq> ses_spaceId x
          \<or> ses_seatMapId s \<noteq> ses_seatMapId x \<or> ses_publishedAt x = None \<and> ses_publishedAt s \<noteq> None)"

text \<open>It runs for updates of the references and of \<open>publishedAt\<close> only, not for a change of status.\<close>

definition ancestry_written :: "EventSession option \<Rightarrow> EventSession \<Rightarrow> bool" where
  "ancestry_written old s \<longleftrightarrow> needs_current_access old s \<or> map_option ses_publishedAt old \<noteq> Some (ses_publishedAt s)"

definition session_ancestry_ok :: "database \<Rightarrow> EventSession option \<Rightarrow> EventSession \<Rightarrow> bool" where
  "session_ancestry_ok db old s \<longleftrightarrow> (ancestry_written old s \<longrightarrow>
     (case old of None \<Rightarrow> True | Some x \<Rightarrow> ses_eventId s = ses_eventId x)
     \<and> map_option spc_venueId (find_space db (ses_spaceId s)) = Some (ses_venueId s)
     \<and> map_option map_spaceId (find_map (db_catalogue db) (ses_seatMapId s)) = Some (ses_spaceId s)
     \<and> (needs_current_access old s \<longrightarrow>
          map_option ven_status (find_venue db (ses_venueId s)) = Some VenueStatus.ACTIVE
          \<and> map_option spc_status (find_space db (ses_spaceId s)) = Some SpaceStatus.ACTIVE
          \<and> map_option map_status (find_map (db_catalogue db) (ses_seatMapId s)) = Some SeatMapStatus.PUBLISHED
          \<and> (case find_event db (ses_eventId s) of
               None \<Rightarrow> False
             | Some e \<Rightarrow> active_access db (ev_organizerOrganizationId e) (ses_venueId s) = 1)))"

definition session_snapshot :: "EventSession \<Rightarrow> ident list \<times> time list \<times> time option" where
  "session_snapshot s = ([ses_eventId s, ses_venueId s, ses_spaceId s, ses_seatMapId s],
     [ses_startAt s, ses_endAt s, ses_salesStartAt s, ses_salesEndAt s], ses_publishedAt s)"

definition session_update_ok :: "EventSession \<Rightarrow> EventSession \<Rightarrow> bool" where
  "session_update_ok old new \<longleftrightarrow> (ses_publishedAt old \<noteq> None \<longrightarrow> session_snapshot new = session_snapshot old)"

text \<open>The exclusion constraint: half-open ranges of sessions of one space that are not cancelled.\<close>

definition sessions_clash :: "EventSession \<Rightarrow> EventSession \<Rightarrow> bool" where
  "sessions_clash a b \<longleftrightarrow> ses_id a \<noteq> ses_id b \<and> ses_spaceId a = ses_spaceId b
     \<and> ses_status a \<noteq> EventSessionStatus.CANCELLED \<and> ses_status b \<noteq> EventSessionStatus.CANCELLED
     \<and> sessionRangesOverlap (ses_startAt a, ses_endAt a) (ses_startAt b, ses_endAt b)"

definition no_overlap :: string where
  "no_overlap = ''EventSession_no_overlapping_space_time''"

definition create_session :: "EventSession \<Rightarrow> database \<Rightarrow> service_error + database" where
  "create_session s db =
     and_then (unless (\<not> session_ancestry_ok db None s) (ConstraintViolation ''EventSession_enforce_ancestry'')) (\<lambda>_.
     and_then (unless (\<not> session_row_ok s) (ConstraintViolation ''EventSession_check'')) (\<lambda>_.
     and_then (unless (has_key ses_id (ses_id s) (db_sessions db)) (UniqueViolation ''id'')) (\<lambda>_.
     and_then (unless (list_ex (sessions_clash s) (db_sessions db)) (ConstraintViolation no_overlap)) (\<lambda>_.
     Inr (db\<lparr>db_sessions := insert_row s (db_sessions db)\<rparr>)))))"

text \<open>\<open>updateMany\<close>: every selected row is rewritten under its triggers; the exclusion holds of the result.\<close>

definition update_sessions :: "(EventSession \<Rightarrow> bool) \<Rightarrow> (EventSession \<Rightarrow> EventSession) \<Rightarrow> database \<Rightarrow> service_error + database" where
  "update_sessions P f db =
     (let sessions = update_rows P f (db_sessions db)
      in and_then (unless (list_ex (\<lambda>s. P s \<and> \<not> session_ancestry_ok db (Some s) (f s)) (db_sessions db))
           (ConstraintViolation ''EventSession_enforce_ancestry'')) (\<lambda>_.
         and_then (unless (list_ex (\<lambda>s. P s \<and> \<not> session_update_ok s (f s)) (db_sessions db))
           (ConstraintViolation ''EventSession_protect_published_snapshot'')) (\<lambda>_.
         and_then (unless (list_ex (\<lambda>s. P s \<and> \<not> session_row_ok (f s)) (db_sessions db)) (ConstraintViolation ''EventSession_check'')) (\<lambda>_.
         and_then (unless (list_ex (\<lambda>s. list_ex (sessions_clash s) sessions) sessions) (ConstraintViolation no_overlap)) (\<lambda>_.
         Inr (db\<lparr>db_sessions := sessions\<rparr>))))))"

definition update_session :: "ident \<Rightarrow> (EventSession \<Rightarrow> EventSession) \<Rightarrow> database \<Rightarrow> service_error + database" where
  "update_session i f db =
     (if find_session db i = None then Inl RecordNotFound else update_sessions (\<lambda>s. ses_id s = i) f db)"

section \<open>Prices\<close>

definition session_is_draft :: "database \<Rightarrow> ident \<Rightarrow> bool" where
  "session_is_draft db sessionId \<longleftrightarrow> map_option ses_status (find_session db sessionId) = Some EventSessionStatus.DRAFT"

definition find_tier :: "database \<Rightarrow> ident \<Rightarrow> SessionPriceTier option" where
  "find_tier db i = find_row (\<lambda>t. tier_id t = i) (cat_tiers (db_catalogue db))"

definition tier_currency_clash :: "SessionPriceTier \<Rightarrow> SessionPriceTier list \<Rightarrow> bool" where
  "tier_currency_clash t tiers \<longleftrightarrow>
     list_ex (\<lambda>x. tier_sessionId x = tier_sessionId t \<and> tier_id x \<noteq> tier_id t \<and> tier_currency x \<noteq> tier_currency t) tiers"

definition tier_code_clash :: "SessionPriceTier \<Rightarrow> SessionPriceTier list \<Rightarrow> bool" where
  "tier_code_clash t tiers \<longleftrightarrow>
     list_ex (\<lambda>x. tier_id x \<noteq> tier_id t \<and> tier_sessionId x = tier_sessionId t \<and> tier_code x = tier_code t) tiers"

definition tier_row_ok :: "SessionPriceTier \<Rightarrow> bool" where
  "tier_row_ok t \<longleftrightarrow> 0 \<le> tier_priceMinor t \<and> 0 \<le> tier_displayOrder t"

definition set_tiers :: "SessionPriceTier list \<Rightarrow> database \<Rightarrow> database" where
  "set_tiers tiers db = db\<lparr>db_catalogue := (db_catalogue db)\<lparr>cat_tiers := tiers\<rparr>\<rparr>"

definition tier_trigger :: "database \<Rightarrow> SessionPriceTier \<Rightarrow> service_error + unit" where
  "tier_trigger db t =
     unless (\<not> session_is_draft db (tier_sessionId t) \<or> tier_currency_clash t (cat_tiers (db_catalogue db)))
       (ConstraintViolation ''SessionPriceTier_enforce_draft_and_currency'')"

definition create_tier :: "SessionPriceTier \<Rightarrow> database \<Rightarrow> service_error + database" where
  "create_tier t db =
     and_then (tier_trigger db t) (\<lambda>_.
     and_then (unless (\<not> tier_row_ok t) (ConstraintViolation ''SessionPriceTier_check'')) (\<lambda>_.
     and_then (unless (has_key tier_id (tier_id t) (cat_tiers (db_catalogue db))) (UniqueViolation ''id'')) (\<lambda>_.
     and_then (unless (tier_code_clash t (cat_tiers (db_catalogue db))) (UniqueViolation ''sessionId_code'')) (\<lambda>_.
     Inr (set_tiers (insert_row t (cat_tiers (db_catalogue db))) db)))))"

definition update_tier :: "ident \<Rightarrow> (SessionPriceTier \<Rightarrow> SessionPriceTier) \<Rightarrow> database \<Rightarrow> service_error + database" where
  "update_tier i f db =
     and_then (case find_tier db i of None \<Rightarrow> Inl RecordNotFound | Some t \<Rightarrow> Inr t) (\<lambda>t.
     and_then (unless (tier_sessionId (f t) \<noteq> tier_sessionId t) (ConstraintViolation ''SessionPriceTier_enforce_draft_and_currency'')) (\<lambda>_.
     and_then (tier_trigger db (f t)) (\<lambda>_.
     and_then (unless (\<not> tier_row_ok (f t)) (ConstraintViolation ''SessionPriceTier_check'')) (\<lambda>_.
     and_then (unless (tier_code_clash (f t) (cat_tiers (db_catalogue db))) (UniqueViolation ''sessionId_code'')) (\<lambda>_.
     Inr (set_tiers (update_rows (\<lambda>x. tier_id x = i) f (cat_tiers (db_catalogue db))) db))))))"

definition delete_tier :: "ident \<Rightarrow> database \<Rightarrow> service_error + database" where
  "delete_tier i db =
     and_then (case find_tier db i of None \<Rightarrow> Inl RecordNotFound | Some t \<Rightarrow> Inr t) (\<lambda>t.
     and_then (unless (\<not> session_is_draft db (tier_sessionId t)) (ConstraintViolation ''SessionPriceTier_enforce_draft_and_currency'')) (\<lambda>_.
     and_then (unless (list_ex (\<lambda>p. spr_priceTierId p = i) (cat_pricing (db_catalogue db))
         \<or> list_ex (\<lambda>v. inv_priceTierId v = i) (db_inventory db)) (ConstraintViolation ''priceTierId_fkey'')) (\<lambda>_.
     Inr (set_tiers (delete_rows (\<lambda>x. tier_id x = i) (cat_tiers (db_catalogue db))) db))))"

definition set_pricing :: "SessionSectionPricing list \<Rightarrow> database \<Rightarrow> database" where
  "set_pricing pricing db = db\<lparr>db_catalogue := (db_catalogue db)\<lparr>cat_pricing := pricing\<rparr>\<rparr>"

definition pricing_row_ok :: "database \<Rightarrow> SessionSectionPricing \<Rightarrow> bool" where
  "pricing_row_ok db p \<longleftrightarrow> session_is_draft db (spr_sessionId p)
     \<and> map_option tier_sessionId (find_tier db (spr_priceTierId p)) = Some (spr_sessionId p)
     \<and> section_map (db_catalogue db) (spr_sectionId p) = map_option ses_seatMapId (find_session db (spr_sessionId p))"

definition pricing_key :: "SessionSectionPricing \<Rightarrow> ident \<times> ident" where
  "pricing_key p = (spr_sessionId p, spr_sectionId p)"

definition delete_pricing :: "ident \<Rightarrow> database \<Rightarrow> service_error + database" where
  "delete_pricing sessionId db =
     and_then (unless (list_ex (\<lambda>p. spr_sessionId p = sessionId) (cat_pricing (db_catalogue db)) \<and> \<not> session_is_draft db sessionId)
       (ConstraintViolation ''SessionSectionPricing_enforce_ancestry'')) (\<lambda>_.
     Inr (set_pricing (delete_rows (\<lambda>p. spr_sessionId p = sessionId) (cat_pricing (db_catalogue db))) db))"

fun create_pricing :: "SessionSectionPricing list \<Rightarrow> database \<Rightarrow> service_error + database" where
  "create_pricing [] db = Inr db"
| "create_pricing (p # ps) db =
     and_then (unless (\<not> pricing_row_ok db p) (ConstraintViolation ''SessionSectionPricing_enforce_ancestry'')) (\<lambda>_.
     and_then (unless (has_key pricing_key (pricing_key p) (cat_pricing (db_catalogue db))) (UniqueViolation ''sessionId_sectionId'')) (\<lambda>_.
     create_pricing ps (set_pricing (insert_row p (cat_pricing (db_catalogue db))) db)))"

section \<open>Sellable seats\<close>

text \<open>The trigger on insertion: an active seat of the section, of the session's map, at the price of the assigned tier.\<close>

definition inventory_ancestry_ok :: "database \<Rightarrow> SessionSeatInventory \<Rightarrow> bool" where
  "inventory_ancestry_ok db i \<longleftrightarrow>
     (case find_seat (db_catalogue db) (inv_seatId i) of
        None \<Rightarrow> False
      | Some t \<Rightarrow> seat_state t = SeatState.ACTIVE
          \<and> map_option row_sectionId (find_seat_row (db_catalogue db) (seat_rowId t)) = Some (inv_sectionId i))
     \<and> section_map (db_catalogue db) (inv_sectionId i) = map_option ses_seatMapId (find_session db (inv_sessionId i))
     \<and> (case find_tier db (inv_priceTierId i) of
          None \<Rightarrow> False
        | Some t \<Rightarrow> tier_sessionId t = inv_sessionId i \<and> tier_currency t = inv_currency i \<and> tier_priceMinor t = inv_priceMinor i)
     \<and> map_option spr_priceTierId (find_row (\<lambda>p. pricing_key p = (inv_sessionId i, inv_sectionId i)) (cat_pricing (db_catalogue db)))
         = Some (inv_priceTierId i)
     \<and> inv_currentHoldId i = None"

definition inventory_row_ok :: "SessionSeatInventory \<Rightarrow> bool" where
  "inventory_row_ok i \<longleftrightarrow> 0 \<le> inv_priceMinor i \<and> inv_state i = SeatInventoryState.AVAILABLE
     \<and> inv_currentHoldId i = None \<and> inv_holdExpiresAt i = None"

definition inventory_key :: "SessionSeatInventory \<Rightarrow> ident \<times> ident" where
  "inventory_key i = (inv_sessionId i, inv_seatId i)"

text \<open>\<open>createMany\<close> with \<open>skipDuplicates\<close>, counting the rows it created; the trigger runs for every row.\<close>

fun create_inventory :: "SessionSeatInventory list \<Rightarrow> database \<Rightarrow> service_error + database \<times> nat" where
  "create_inventory [] db = Inr (db, 0)"
| "create_inventory (i # rest) db =
     and_then (unless (\<not> inventory_ancestry_ok db i \<or> \<not> inventory_row_ok i) (ConstraintViolation ''SessionSeatInventory_enforce_ancestry'')) (\<lambda>_.
     if has_key inventory_key (inventory_key i) (db_inventory db) \<or> has_key inv_id (inv_id i) (db_inventory db)
     then create_inventory rest db
     else and_then (create_inventory rest (db\<lparr>db_inventory := insert_row i (db_inventory db)\<rparr>)) (\<lambda>(db', n). Inr (db', n + 1)))"

end
