(* ===== verification/Seat_Map_Service.thy ===== *)
theory Seat_Map_Service
  imports Catalogue_Store Transactions "HOL-Library.List_Lexorder" "HOL-Library.Product_Lexorder"
begin

text \<open>
  The editor of seat maps (src/server/seat-maps/seat-map-service.ts). Every operation authorizes
  against what it reads first (\<open>seen\<close>) and then writes to the database as it is by then; fresh
  identifiers are drawn by the caller, \<open>conflict\<close> says which attempts PostgreSQL aborts.
\<close>

section \<open>Loading a map with its layout\<close>

text \<open>Rows by their display order, ties by the code points of the text.\<close>

definition by_order :: "('r \<Rightarrow> int) \<Rightarrow> ('r \<Rightarrow> string) \<Rightarrow> 'r list \<Rightarrow> 'r list" where
  "by_order displayOrder name = sort_key (\<lambda>r. (displayOrder r, map (of_char :: char \<Rightarrow> int) (name r)))"

definition load_rows :: "catalogue \<Rightarrow> ident \<Rightarrow> GraphRow list" where
  "load_rows cat sectionId =
     map (\<lambda>r. \<lparr>grow_row = r,
                grow_seats = by_order seat_displayOrder seat_label (select_rows (\<lambda>t. seat_rowId t = row_id r) (cat_seats cat))\<rparr>)
       (by_order row_displayOrder row_label (select_rows (\<lambda>r. row_sectionId r = sectionId) (cat_rows cat)))"

definition seatMapGraphInclude :: "catalogue \<Rightarrow> ident \<Rightarrow> seat_graph" where
  "seatMapGraphInclude cat mapId =
     map (\<lambda>s. \<lparr>gsec_section = s, gsec_rows = load_rows cat (sec_id s)\<rparr>)
       (by_order sec_displayOrder sec_code (select_rows (\<lambda>s. sec_seatMapId s = mapId) (cat_sections cat)))"

definition find_map_graph :: "ident \<Rightarrow> database \<Rightarrow> service_error + SeatMap \<times> seat_graph" where
  "find_map_graph mapId db =
     (case find_map (db_catalogue db) mapId of
        None \<Rightarrow> Inl RecordNotFound
      | Some m \<Rightarrow> Inr (m, seatMapGraphInclude (db_catalogue db) mapId))"

section \<open>Guards\<close>

type_synonym SeatMapLifecycleRecord = "SeatMap \<times> Space \<times> Venue"

definition lifecycleContext :: "(SeatMapStatus \<Rightarrow> SpaceStatus \<Rightarrow> VenueStatus \<Rightarrow> bool) \<Rightarrow> SeatMapLifecycleRecord \<Rightarrow> bool" where
  "lifecycleContext rule seatMap = (case seatMap of (m, s, v) \<Rightarrow> rule (map_status m) (spc_status s) (ven_status v))"

definition assertEditableMap :: "SeatMapLifecycleRecord \<Rightarrow> service_error + unit" where
  "assertEditableMap seatMap =
     (if map_status (fst seatMap) \<noteq> SeatMapStatus.DRAFT
      then Inl (VenueManagementLifecycleError ''Published and archived seat maps are read-only.'')
      else if \<not> lifecycleContext canEditSeatMap seatMap
      then Inl (VenueManagementLifecycleError ''Restore the venue and space before editing this draft.'')
      else Inr ())"

definition find_map_with_parents :: "database \<Rightarrow> ident \<Rightarrow> SeatMapLifecycleRecord option" where
  "find_map_with_parents db mapId = Option.bind (find_map (db_catalogue db) mapId) (map_with_parents db)"

definition assertMapStillEditable :: "ident \<Rightarrow> database \<Rightarrow> service_error + unit" where
  "assertMapStillEditable mapId db =
     (case find_map_with_parents db mapId of
        None \<Rightarrow> Inl VenueManagementAuthorizationError
      | Some seatMap \<Rightarrow> assertEditableMap seatMap)"

definition requireDraftMap :: "database \<Rightarrow> ('a SeatMapScope_scheme) \<Rightarrow> service_error + SeatMapLifecycleRecord" where
  "requireDraftMap db scope =
     and_then (authorized VenueManagementAuthorizationError (findAuthorizedSeatMap db scope MembershipRole.ADMIN)) (\<lambda>(_, seatMap).
     and_then (assertEditableMap seatMap) (\<lambda>_. Inr seatMap))"

definition require_section ::
  "database \<Rightarrow> ('a SeatMapScope_scheme) \<Rightarrow> ident \<Rightarrow> service_error + SeatSection \<times> SeatMapLifecycleRecord" where
  "require_section db scope sectionId =
     and_then (authorized VenueManagementAuthorizationError (findAuthorizedSection db scope sectionId MembershipRole.ADMIN))
       (\<lambda>(sec, seatMap). and_then (assertEditableMap seatMap) (\<lambda>_. Inr (sec, seatMap)))"

definition require_row ::
  "database \<Rightarrow> ('a SeatMapScope_scheme) \<Rightarrow> ident \<Rightarrow> ident
     \<Rightarrow> service_error + SeatRow \<times> SeatSection \<times> SeatMapLifecycleRecord" where
  "require_row db scope sectionId rowId =
     and_then (authorized VenueManagementAuthorizationError (findAuthorizedRow db scope sectionId rowId MembershipRole.ADMIN))
       (\<lambda>(row, sec, seatMap). and_then (assertEditableMap seatMap) (\<lambda>_. Inr (row, sec, seatMap)))"

definition require_seat ::
  "database \<Rightarrow> ('a SeatMapScope_scheme) \<Rightarrow> ident \<Rightarrow> ident \<Rightarrow> ident
     \<Rightarrow> service_error + Seat \<times> SeatRow \<times> SeatSection \<times> SeatMapLifecycleRecord" where
  "require_seat db scope sectionId rowId seatId =
     and_then (authorized VenueManagementAuthorizationError (findAuthorizedSeat db scope sectionId rowId seatId MembershipRole.ADMIN))
       (\<lambda>(t, row, sec, seatMap). and_then (assertEditableMap seatMap) (\<lambda>_. Inr (t, row, sec, seatMap)))"

text \<open>\<open>schema.parse\<close>.\<close>

definition parsed :: "'a option \<Rightarrow> service_error + 'a" where
  "parsed r = (case r of None \<Rightarrow> Inl ZodError | Some x \<Rightarrow> Inr x)"

lemma parsed_Inr [simp]: "parsed r = Inr x \<longleftrightarrow> r = Some x"
  by (simp add: parsed_def split: option.split)

definition then_find :: "(catalogue \<Rightarrow> 'r option) \<Rightarrow> service_error + database \<Rightarrow> service_error + database \<times> 'r" where
  "then_find find_it m = and_then m (\<lambda>db.
     case find_it (db_catalogue db) of None \<Rightarrow> Inl RecordNotFound | Some r \<Rightarrow> Inr (db, r))"

lemma then_find_Inr:
  "then_find g m = Inr (db', r) \<longleftrightarrow> m = Inr db' \<and> g (db_catalogue db') = Some r"
  by (auto simp: then_find_def and_then_eq_Inr split: option.splits)

section \<open>Retries\<close>

definition withSerializableRetry :: "(nat \<Rightarrow> bool) \<Rightarrow> 'a tx \<Rightarrow> database \<Rightarrow> database \<times> (service_error + 'a)" where
  "withSerializableRetry conflict operation db = retry_transaction conflict 1 3 operation db"

lemma serializable_retry_cases:
  "withSerializableRetry conflict operation db = (db, Inl TransactionConflict)
   \<or> withSerializableRetry conflict operation db = transact operation db"
  by (simp add: withSerializableRetry_def retry_transaction_cases)

text \<open>The allocation of a version number: attempt \<open>k\<close> draws its own identifiers and meets its own conflicts.\<close>

fun createVersionWithRetry ::
  "(nat \<Rightarrow> database \<Rightarrow> database \<times> (service_error + 'a)) \<Rightarrow> nat \<Rightarrow> nat \<Rightarrow> database \<Rightarrow> database \<times> (service_error + 'a)" where
  "createVersionWithRetry operation attempt 0 db =
     (db, Inl (VenueManagementConflictError ''Could not allocate a seat-map version.''))"
| "createVersionWithRetry operation attempt (Suc left) db =
     (case operation attempt db of
        (db', Inl (UniqueViolation index)) \<Rightarrow>
          if left = 0 then (db', Inl (UniqueViolation index)) else createVersionWithRetry operation (Suc attempt) left db'
      | outcome \<Rightarrow> outcome)"

definition run_after :: "service_error + 'x \<Rightarrow> ('x \<Rightarrow> database \<Rightarrow> database \<times> (service_error + 'a)) \<Rightarrow> database
    \<Rightarrow> database \<times> (service_error + 'a)" where
  "run_after checks run db = (case checks of Inl e \<Rightarrow> (db, Inl e) | Inr x \<Rightarrow> run x db)"

section \<open>Maps\<close>

definition latest_map_version :: "catalogue \<Rightarrow> ident \<Rightarrow> int option" where
  "latest_map_version cat spaceId =
     (let versions = map map_version (select_rows (\<lambda>m. map_spaceId m = spaceId) (cat_seatMaps cat))
      in if versions = [] then None else Some (fold max versions (hd versions)))"

definition next_version :: "catalogue \<Rightarrow> ident \<Rightarrow> int" where
  "next_version cat spaceId = (case latest_map_version cat spaceId of None \<Rightarrow> 0 | Some v \<Rightarrow> v) + 1"

definition new_map :: "ident \<Rightarrow> ident \<Rightarrow> ident option \<Rightarrow> string \<Rightarrow> int \<Rightarrow> SeatMap" where
  "new_map mapId spaceId sourceId name version =
     \<lparr>map_id = mapId, map_spaceId = spaceId, map_sourceSeatMapId = sourceId, map_name = name, map_version = version,
      map_status = SeatMapStatus.DRAFT, map_publishedAt = None\<rparr>"

definition createDraftSeatMap ::
  "(nat \<Rightarrow> nat \<Rightarrow> bool) \<Rightarrow> (nat \<Rightarrow> ident) \<Rightarrow> ('a SpaceScope_scheme) \<Rightarrow> string \<Rightarrow> database \<Rightarrow> database
     \<Rightarrow> database \<times> (service_error + SeatMap)" where
  "createDraftSeatMap conflict draw scope rawName seen =
     run_after
       (and_then (authorized VenueManagementAuthorizationError (findAuthorizedSpace seen scope MembershipRole.ADMIN)) (\<lambda>(_, s, v).
        and_then (unless (spc_status s = SpaceStatus.ARCHIVED \<or> ven_status v = VenueStatus.ARCHIVED)
          (VenueManagementLifecycleError ''Restore the venue and space before creating a seat map.'')) (\<lambda>_.
        and_then (parsed (seatMapInputSchema rawName)) (\<lambda>name. Inr (s, name)))))
       (\<lambda>(s, name). createVersionWithRetry (\<lambda>k. withSerializableRetry (conflict k) (\<lambda>db.
          let m = new_map (draw k) (spc_id s) None name (next_version (db_catalogue db) (spc_id s))
          in returning m (on_catalogue (create_map m) db))) 1 3)"

definition updateDraftSeatMap ::
  "('a SeatMapScope_scheme) \<Rightarrow> string \<Rightarrow> database \<Rightarrow> database \<Rightarrow> database \<times> (service_error + SeatMap)" where
  "updateDraftSeatMap scope rawName seen =
     run_service
       (and_then (requireDraftMap seen scope) (\<lambda>(m, _).
        and_then (parsed (seatMapInputSchema rawName)) (\<lambda>name. Inr (m, name))))
       (\<lambda>(m, name) db. then_find (\<lambda>cat. find_map cat (map_id m))
          (on_catalogue (update_map (map_id m) (\<lambda>x. x\<lparr>map_name := name\<rparr>)) db))"

section \<open>Sections\<close>

definition next_order :: "('r \<Rightarrow> int) \<Rightarrow> 'r list \<Rightarrow> int" where
  "next_order displayOrder rs =
     (case rs of [] \<Rightarrow> 0 | r # rest \<Rightarrow> fold max (map displayOrder rest) (displayOrder r) + 1)"

definition limit_error :: "string \<Rightarrow> service_error" where
  "limit_error message = SeatMapValidationError [message]"

definition section_exists :: service_error where
  "section_exists = VenueManagementConflictError ''This map already contains that section code.''"

definition row_exists :: service_error where
  "row_exists = VenueManagementConflictError ''This section already contains that row label.''"

definition seat_exists :: service_error where
  "seat_exists = VenueManagementConflictError ''This row already contains that seat label.''"

definition createSection ::
  "(nat \<Rightarrow> bool) \<Rightarrow> ident \<Rightarrow> ('a SeatMapScope_scheme) \<Rightarrow> SectionInput \<Rightarrow> database \<Rightarrow> database
     \<Rightarrow> database \<times> (service_error + SeatSection)" where
  "createSection conflict newId scope rawInput seen =
     run_after
       (and_then (requireDraftMap seen scope) (\<lambda>(m, _). and_then (parsed (sectionInputSchema rawInput)) (\<lambda>input. Inr (m, input))))
       (\<lambda>(m, input) db. catch_unique section_exists (withSerializableRetry conflict (\<lambda>db.
          and_then (assertMapStillEditable (map_id m) db) (\<lambda>_.
          let existing = select_rows (\<lambda>s. sec_seatMapId s = map_id m) (cat_sections (db_catalogue db))
          in if maximumSections \<le> length existing
             then Inl (limit_error ''A map can contain at most 20 sections.'')
             else let s = \<lparr>sec_id = newId, sec_seatMapId = map_id m, sec_name = sci_name input, sec_code = sci_code input,
                           sec_displayOrder = next_order sec_displayOrder existing\<rparr>
                  in returning s (on_catalogue (create_section s) db))) db))"

definition updateSection ::
  "('a SeatMapScope_scheme) \<Rightarrow> ident \<Rightarrow> SectionInput \<Rightarrow> database \<Rightarrow> database \<Rightarrow> database \<times> (service_error + SeatSection)" where
  "updateSection scope sectionId rawInput seen db =
     catch_unique section_exists (run_service
       (and_then (require_section seen scope sectionId) (\<lambda>(sec, _).
        and_then (parsed (sectionInputSchema rawInput)) (\<lambda>input. Inr (sec, input))))
       (\<lambda>(sec, input) db. then_find (\<lambda>cat. find_section cat (sec_id sec))
          (on_catalogue (update_section (sec_id sec) (\<lambda>s. s\<lparr>sec_name := sci_name input, sec_code := sci_code input\<rparr>)) db)) db)"

definition deleteSection ::
  "('a SeatMapScope_scheme) \<Rightarrow> ident \<Rightarrow> database \<Rightarrow> database \<Rightarrow> database \<times> (service_error + SeatSection)" where
  "deleteSection scope sectionId seen =
     run_service (require_section seen scope sectionId)
       (\<lambda>(sec, _) db. returning sec (on_catalogue (delete_section (sec_id sec)) db))"

section \<open>Rows\<close>

definition createRow ::
  "(nat \<Rightarrow> bool) \<Rightarrow> ident \<Rightarrow> ('a SeatMapScope_scheme) \<Rightarrow> ident \<Rightarrow> string \<Rightarrow> database \<Rightarrow> database
     \<Rightarrow> database \<times> (service_error + SeatRow)" where
  "createRow conflict newId scope sectionId rawLabel seen =
     run_after
       (and_then (require_section seen scope sectionId) (\<lambda>(sec, m, _).
        and_then (parsed (label_schema rawLabel)) (\<lambda>label. Inr (sec, m, label))))
       (\<lambda>(sec, m, label) db. catch_unique row_exists (withSerializableRetry conflict (\<lambda>db.
          and_then (assertMapStillEditable (map_id m) db) (\<lambda>_.
          let existing = select_rows (\<lambda>r. row_sectionId r = sec_id sec) (cat_rows (db_catalogue db))
          in if maximumRowsPerSection \<le> length existing
             then Inl (limit_error ''A section can contain at most 60 rows.'')
             else let r = \<lparr>row_id = newId, row_sectionId = sec_id sec, row_label = label,
                           row_displayOrder = next_order row_displayOrder existing\<rparr>
                  in returning r (on_catalogue (create_row r) db))) db))"

definition updateRow ::
  "('a SeatMapScope_scheme) \<Rightarrow> ident \<Rightarrow> ident \<Rightarrow> string \<Rightarrow> database \<Rightarrow> database \<Rightarrow> database \<times> (service_error + SeatRow)" where
  "updateRow scope sectionId rowId rawLabel seen db =
     catch_unique row_exists (run_service
       (and_then (require_row seen scope sectionId rowId) (\<lambda>(row, _).
        and_then (parsed (label_schema rawLabel)) (\<lambda>label. Inr (row, label))))
       (\<lambda>(row, label) db. then_find (\<lambda>cat. find_seat_row cat (row_id row))
          (on_catalogue (update_row (row_id row) (\<lambda>r. r\<lparr>row_label := label\<rparr>)) db)) db)"

definition deleteRow ::
  "('a SeatMapScope_scheme) \<Rightarrow> ident \<Rightarrow> ident \<Rightarrow> database \<Rightarrow> database \<Rightarrow> database \<times> (service_error + SeatRow)" where
  "deleteRow scope sectionId rowId seen =
     run_service (require_row seen scope sectionId rowId)
       (\<lambda>(row, _) db. returning row (on_catalogue (delete_row (row_id row)) db))"

section \<open>Seats\<close>

definition seat_in_section :: "catalogue \<Rightarrow> ident \<Rightarrow> Seat \<Rightarrow> bool" where
  "seat_in_section cat sectionId t \<longleftrightarrow> map_option row_sectionId (find_seat_row cat (seat_rowId t)) = Some sectionId"

definition seat_in_map :: "catalogue \<Rightarrow> ident \<Rightarrow> Seat \<Rightarrow> bool" where
  "seat_in_map cat mapId t \<longleftrightarrow> row_map cat (seat_rowId t) = Some mapId"

definition coordinates_taken :: "catalogue \<Rightarrow> ident \<Rightarrow> SeatInput \<Rightarrow> ident option \<Rightarrow> bool" where
  "coordinates_taken cat sectionId input besides \<longleftrightarrow>
     list_ex (\<lambda>t. Some (seat_id t) \<noteq> besides \<and> seat_x t = sti_x input \<and> seat_y t = sti_y input
       \<and> seat_in_section cat sectionId t) (cat_seats cat)"

definition coordinates_conflict :: service_error where
  "coordinates_conflict = VenueManagementConflictError ''Another seat in this section already uses those coordinates.''"

definition apply_seat_input :: "SeatInput \<Rightarrow> Seat \<Rightarrow> Seat" where
  "apply_seat_input input t = t\<lparr>seat_label := sti_label input, seat_x := sti_x input, seat_y := sti_y input,
     seat_type := sti_type input, seat_state := sti_state input\<rparr>"

definition createSeat ::
  "(nat \<Rightarrow> bool) \<Rightarrow> ident \<Rightarrow> ('a SeatMapScope_scheme) \<Rightarrow> ident \<Rightarrow> ident \<Rightarrow> SeatInput \<Rightarrow> database \<Rightarrow> database
     \<Rightarrow> database \<times> (service_error + Seat)" where
  "createSeat conflict newId scope sectionId rowId rawInput seen =
     run_after
       (and_then (require_row seen scope sectionId rowId) (\<lambda>(row, sec, m, _).
        and_then (parsed (seatInputSchema rawInput)) (\<lambda>input. Inr (row, sec, m, input))))
       (\<lambda>(row, sec, m, input) db. catch_unique seat_exists (withSerializableRetry conflict (\<lambda>db.
          and_then (assertMapStillEditable (map_id m) db) (\<lambda>_.
          let cat = db_catalogue db; existing = select_rows (\<lambda>t. seat_rowId t = row_id row) (cat_seats cat)
          in if maximumSeatsPerRow \<le> length existing
             then Inl (limit_error ''A row can contain at most 80 seats.'')
             else if maximumSeatsPerMap \<le> length (select_rows (seat_in_map cat (map_id m)) (cat_seats cat))
             then Inl (limit_error ''A map can contain at most 3000 seats.'')
             else if coordinates_taken cat (sec_id sec) input None then Inl coordinates_conflict
             else let t = \<lparr>seat_id = newId, seat_rowId = row_id row, seat_label = sti_label input,
                           seat_displayOrder = next_order seat_displayOrder existing, seat_x = sti_x input, seat_y = sti_y input,
                           seat_type = sti_type input, seat_state = sti_state input\<rparr>
                  in returning t (on_catalogue (create_seat t) db))) db))"

definition updateSeat ::
  "(nat \<Rightarrow> bool) \<Rightarrow> ('a SeatMapScope_scheme) \<Rightarrow> ident \<Rightarrow> ident \<Rightarrow> ident \<Rightarrow> SeatInput \<Rightarrow> database \<Rightarrow> database
     \<Rightarrow> database \<times> (service_error + Seat)" where
  "updateSeat conflict scope sectionId rowId seatId rawInput seen =
     run_after
       (and_then (require_seat seen scope sectionId rowId seatId) (\<lambda>(t, row, sec, m, _).
        and_then (parsed (seatInputSchema rawInput)) (\<lambda>input. Inr (t, sec, m, input))))
       (\<lambda>(t, sec, m, input) db. catch_unique seat_exists (withSerializableRetry conflict (\<lambda>db.
          and_then (assertMapStillEditable (map_id m) db) (\<lambda>_.
          if coordinates_taken (db_catalogue db) (sec_id sec) input (Some (seat_id t)) then Inl coordinates_conflict
          else then_find (\<lambda>cat. find_seat cat (seat_id t))
                 (on_catalogue (update_seat (seat_id t) (apply_seat_input input)) db))) db))"

definition deleteSeat ::
  "('a SeatMapScope_scheme) \<Rightarrow> ident \<Rightarrow> ident \<Rightarrow> ident \<Rightarrow> database \<Rightarrow> database \<Rightarrow> database \<times> (service_error + Seat)" where
  "deleteSeat scope sectionId rowId seatId seen =
     run_service (require_seat seen scope sectionId rowId seatId)
       (\<lambda>(t, _) db. returning t (on_catalogue (delete_seat (seat_id t)) db))"

section \<open>Generated layouts\<close>

text \<open>Identifiers of nested creations, by the place of the row in the input.\<close>

record layout_draw =
  ld_mapId :: ident
  ld_sectionId :: "nat \<Rightarrow> ident"
  ld_rowId :: "nat \<Rightarrow> nat \<Rightarrow> ident"
  ld_seatId :: "nat \<Rightarrow> nat \<Rightarrow> nat \<Rightarrow> ident"

fun create_all :: "('x \<Rightarrow> catalogue \<Rightarrow> service_error + catalogue) \<Rightarrow> 'x list \<Rightarrow> catalogue \<Rightarrow> service_error + catalogue" where
  "create_all create [] cat = Inr cat"
| "create_all create (x # xs) cat = and_then (create x cat) (create_all create xs)"

definition create_graph_row :: "GraphRow \<Rightarrow> catalogue \<Rightarrow> service_error + catalogue" where
  "create_graph_row g cat = and_then (create_row (grow_row g) cat) (create_all create_seat (grow_seats g))"

definition create_graph_section :: "GraphSection \<Rightarrow> catalogue \<Rightarrow> service_error + catalogue" where
  "create_graph_section g cat = and_then (create_section (gsec_section g) cat) (create_all create_graph_row (gsec_rows g))"

definition numbered :: "(nat \<Rightarrow> 'a \<Rightarrow> 'b) \<Rightarrow> 'a list \<Rightarrow> 'b list" where
  "numbered f xs = map (\<lambda>(k, x). f k x) (zip [0..<length xs] xs)"

text \<open>The rows of a bulk generation; \<open>type\<close> and \<open>state\<close> take the defaults of the schema.\<close>

definition generated_seat :: "layout_draw \<Rightarrow> ident \<Rightarrow> BulkSeatGenerationInput \<Rightarrow> int \<Rightarrow> nat \<Rightarrow> nat \<Rightarrow> string \<Rightarrow> Seat" where
  "generated_seat draw rowId input firstY rowIndex seatIndex label =
     \<lparr>seat_id = ld_seatId draw 0 rowIndex seatIndex, seat_rowId = rowId, seat_label = label, seat_displayOrder = int seatIndex,
      seat_x = int seatIndex * bulk_horizontalSpacing input, seat_y = firstY + int rowIndex * bulk_verticalSpacing input,
      seat_type = SeatType.STANDARD, seat_state = SeatState.ACTIVE\<rparr>"

definition generated_row ::
  "layout_draw \<Rightarrow> ident \<Rightarrow> BulkSeatGenerationInput \<Rightarrow> string list \<Rightarrow> int \<Rightarrow> int \<Rightarrow> nat \<Rightarrow> string \<Rightarrow> GraphRow" where
  "generated_row draw sectionId input seatLabels nextDisplayOrder firstY rowIndex label =
     (let rowId = ld_rowId draw 0 rowIndex
      in \<lparr>grow_row = \<lparr>row_id = rowId, row_sectionId = sectionId, row_label = label,
                       row_displayOrder = nextDisplayOrder + int rowIndex\<rparr>,
          grow_seats = numbered (generated_seat draw rowId input firstY rowIndex) seatLabels\<rparr>)"

definition bulk_transaction ::
  "layout_draw \<Rightarrow> SeatSection \<Rightarrow> ident \<Rightarrow> BulkSeatGenerationInput \<Rightarrow> string list \<Rightarrow> string list
     \<Rightarrow> (SeatSection \<times> GraphRow list) tx" where
  "bulk_transaction draw sec mapId input labels seatLabels db =
     and_then (assertMapStillEditable mapId db) (\<lambda>_.
     let cat = db_catalogue db;
         rows = select_rows (\<lambda>r. row_sectionId r = sec_id sec) (cat_rows cat);
         mapSeatCount = length (select_rows (seat_in_map cat mapId) (cat_seats cat));
         existingLabels = map (js_upper \<circ> row_label) rows;
         nextDisplayOrder = next_order row_displayOrder rows;
         ys = map seat_y (select_rows (seat_in_section cat (sec_id sec)) (cat_seats cat));
         firstY = fold max ys (- bulk_verticalSpacing input) + bulk_verticalSpacing input;
         finalY = firstY + (bulk_rowCount input - 1) * bulk_verticalSpacing input
     in case find_row (\<lambda>l. l \<in> set existingLabels) labels of
          Some l \<Rightarrow> Inl (VenueManagementConflictError (''Row '' @ l @ '' already exists in this section.''))
        | None \<Rightarrow>
            if int maximumRowsPerSection < int (length rows) + bulk_rowCount input
            then Inl (limit_error ''A section can contain at most 60 rows.'')
            else if int maximumSeatsPerMap < int mapSeatCount + bulk_rowCount input * bulk_seatsPerRow input
            then Inl (limit_error ''A map can contain at most 3000 seats.'')
            else if maximumCoordinate < finalY
            then Inl (limit_error ''Vertical spacing places generated rows outside the editor canvas.'')
            else if find_section cat (sec_id sec) = None then Inl RecordNotFound
            else then_find (\<lambda>cat. map_option (\<lambda>s. (s, load_rows cat (sec_id s))) (find_section cat (sec_id sec)))
                   (on_catalogue (create_all create_graph_row
                      (numbered (generated_row draw (sec_id sec) input seatLabels nextDisplayOrder firstY) labels)) db))"

definition or_plain :: "string \<Rightarrow> 'a option \<Rightarrow> service_error + 'a" where
  "or_plain message r = (case r of None \<Rightarrow> Inl (PlainError message) | Some x \<Rightarrow> Inr x)"

definition bulkGenerateRows ::
  "(nat \<Rightarrow> bool) \<Rightarrow> layout_draw \<Rightarrow> ('a SeatMapScope_scheme) \<Rightarrow> ident \<Rightarrow> BulkSeatGenerationInput \<Rightarrow> database \<Rightarrow> database
     \<Rightarrow> database \<times> (service_error + SeatSection \<times> GraphRow list)" where
  "bulkGenerateRows conflict draw scope sectionId rawInput seen =
     run_after
       (and_then (require_section seen scope sectionId) (\<lambda>(sec, m, _).
        and_then (parsed (bulkSeatGenerationSchema rawInput)) (\<lambda>input.
        and_then (or_plain ''Row label number is outside the supported A-ZZZ range.''
          (generateRowLabels (bulk_startRowLabel input) (nat (bulk_rowCount input)))) (\<lambda>labels.
        and_then (or_plain ''Generated seat labels must stay inside the 1-9999 range.''
          (generateSeatLabels (bulk_startSeatNumber input) (bulk_seatsPerRow input))) (\<lambda>seatLabels.
        Inr (sec, m, input, labels, seatLabels))))))
       (\<lambda>(sec, m, input, labels, seatLabels).
          withSerializableRetry conflict (bulk_transaction draw sec (map_id m) input labels seatLabels))"

section \<open>Reordering\<close>

datatype MoveDirection = UP | DOWN

text \<open>\<open>findIndex\<close> and the neighbour in the direction; \<open>None\<close> when either is missing.\<close>

fun neighbour :: "MoveDirection \<Rightarrow> ('r \<Rightarrow> bool) \<Rightarrow> 'r list \<Rightarrow> ('r \<times> 'r) option" where
  "neighbour d P [] = None"
| "neighbour d P [x] = None"
| "neighbour d P (x # y # rest) =
     (if P x then (case d of MoveDirection.UP \<Rightarrow> None | MoveDirection.DOWN \<Rightarrow> Some (x, y))
      else if P y \<and> d = MoveDirection.UP then Some (y, x)
      else neighbour d P (y # rest))"

definition moveSection ::
  "(nat \<Rightarrow> bool) \<Rightarrow> ('a SeatMapScope_scheme) \<Rightarrow> ident \<Rightarrow> MoveDirection \<Rightarrow> database \<Rightarrow> database
     \<Rightarrow> database \<times> (service_error + SeatSection)" where
  "moveSection conflict scope sectionId direction seen =
     run_after (require_section seen scope sectionId)
       (\<lambda>(sec, m, _). withSerializableRetry conflict (\<lambda>db.
          case neighbour direction (\<lambda>s. sec_id s = sec_id sec)
                 (by_order sec_displayOrder sec_id (select_rows (\<lambda>s. sec_seatMapId s = map_id m) (cat_sections (db_catalogue db)))) of
            None \<Rightarrow> Inr (db, sec)
          | Some (current, target) \<Rightarrow>
              returning (current\<lparr>sec_displayOrder := sec_displayOrder target\<rparr>)
                (on_catalogue (\<lambda>cat. and_then
                   (update_section (sec_id sec) (\<lambda>s. s\<lparr>sec_displayOrder := sec_displayOrder target\<rparr>) cat)
                   (update_section (sec_id target) (\<lambda>s. s\<lparr>sec_displayOrder := sec_displayOrder current\<rparr>))) db)))"

definition moveRow ::
  "(nat \<Rightarrow> bool) \<Rightarrow> ('a SeatMapScope_scheme) \<Rightarrow> ident \<Rightarrow> ident \<Rightarrow> MoveDirection \<Rightarrow> database \<Rightarrow> database
     \<Rightarrow> database \<times> (service_error + SeatRow)" where
  "moveRow conflict scope sectionId rowId direction seen =
     run_after (require_row seen scope sectionId rowId)
       (\<lambda>(row, sec, _). withSerializableRetry conflict (\<lambda>db.
          case neighbour direction (\<lambda>r. row_id r = row_id row)
                 (by_order row_displayOrder row_id (select_rows (\<lambda>r. row_sectionId r = sec_id sec) (cat_rows (db_catalogue db)))) of
            None \<Rightarrow> Inr (db, row)
          | Some (current, target) \<Rightarrow>
              returning (current\<lparr>row_displayOrder := row_displayOrder target\<rparr>)
                (on_catalogue (\<lambda>cat. and_then
                   (update_row (row_id row) (\<lambda>r. r\<lparr>row_displayOrder := row_displayOrder target\<rparr>) cat)
                   (update_row (row_id target) (\<lambda>r. r\<lparr>row_displayOrder := row_displayOrder current\<rparr>))) db)))"

section \<open>Publication\<close>

definition restore_before :: "string \<Rightarrow> service_error" where
  "restore_before doing = VenueManagementLifecycleError (''Restore the venue and space before '' @ doing)"

definition publish_transaction :: "SeatMap \<Rightarrow> time \<Rightarrow> (SeatMap \<times> seat_graph) tx" where
  "publish_transaction seen now db =
     (let cat = db_catalogue db
      in case find_row (\<lambda>m. map_id m = map_id seen \<and> map_spaceId m = map_spaceId seen) (cat_seatMaps cat) of
           None \<Rightarrow> Inl VenueManagementAuthorizationError
         | Some draft \<Rightarrow>
             (case map_with_parents db draft of
                None \<Rightarrow> Inl RecordNotFound
              | Some seatMap \<Rightarrow>
                  let graph = seatMapGraphInclude cat (map_id draft); issues = validateSeatMapForPublication graph
                  in if map_status draft = SeatMapStatus.PUBLISHED then Inr (db, draft, graph)
                     else if \<not> lifecycleContext canPublishSeatMap seatMap then Inl (restore_before ''publishing this draft.'')
                     else if issues \<noteq> [] then Inl (SeatMapValidationError issues)
                     else and_then (on_catalogue (update_maps
                              (\<lambda>m. map_spaceId m = map_spaceId draft \<and> map_status m = SeatMapStatus.PUBLISHED \<and> map_id m \<noteq> map_id draft)
                              (\<lambda>m. m\<lparr>map_status := SeatMapStatus.ARCHIVED\<rparr>)) db) (\<lambda>db1.
                          and_then (on_catalogue (update_map (map_id draft)
                              (\<lambda>m. m\<lparr>map_status := SeatMapStatus.PUBLISHED, map_publishedAt := Some now\<rparr>)) db1) (\<lambda>db2.
                          and_then (find_map_graph (map_id draft) db2) (\<lambda>found. Inr (db2, found))))))"

definition publishSeatMap ::
  "(nat \<Rightarrow> bool) \<Rightarrow> ('a SeatMapScope_scheme) \<Rightarrow> time \<Rightarrow> database \<Rightarrow> database
     \<Rightarrow> database \<times> (service_error + SeatMap \<times> seat_graph)" where
  "publishSeatMap conflict scope now seen =
     run_after (authorized VenueManagementAuthorizationError (findAuthorizedSeatMap seen scope MembershipRole.ADMIN))
       (\<lambda>(_, seatMap) db.
          if map_status (fst seatMap) = SeatMapStatus.PUBLISHED then (db, find_map_graph (map_id (fst seatMap)) db)
          else if map_status (fst seatMap) = SeatMapStatus.ARCHIVED
          then (db, Inl (VenueManagementLifecycleError ''Archived seat-map versions cannot be republished.''))
          else if \<not> lifecycleContext canPublishSeatMap seatMap then (db, Inl (restore_before ''publishing this draft.''))
          else withSerializableRetry conflict (publish_transaction (fst seatMap) now) db)"

section \<open>Cloning\<close>

definition cloned_seat :: "layout_draw \<Rightarrow> nat \<Rightarrow> nat \<Rightarrow> nat \<Rightarrow> Seat \<Rightarrow> Seat" where
  "cloned_seat draw i j k t = t\<lparr>seat_id := ld_seatId draw i j k, seat_rowId := ld_rowId draw i j\<rparr>"

definition cloned_row :: "layout_draw \<Rightarrow> nat \<Rightarrow> nat \<Rightarrow> GraphRow \<Rightarrow> GraphRow" where
  "cloned_row draw i j g =
     \<lparr>grow_row = (grow_row g)\<lparr>row_id := ld_rowId draw i j, row_sectionId := ld_sectionId draw i\<rparr>,
      grow_seats = numbered (cloned_seat draw i j) (grow_seats g)\<rparr>"

definition cloned_section :: "layout_draw \<Rightarrow> nat \<Rightarrow> GraphSection \<Rightarrow> GraphSection" where
  "cloned_section draw i g =
     \<lparr>gsec_section = (gsec_section g)\<lparr>sec_id := ld_sectionId draw i, sec_seatMapId := ld_mapId draw\<rparr>,
      gsec_rows = numbered (cloned_row draw i) (gsec_rows g)\<rparr>"

definition clone_transaction :: "layout_draw \<Rightarrow> SeatMap \<Rightarrow> (SeatMap \<times> seat_graph) tx" where
  "clone_transaction draw seen db =
     (let cat = db_catalogue db
      in case find_row (\<lambda>m. map_id m = map_id seen \<and> map_spaceId m = map_spaceId seen \<and> map_status m = SeatMapStatus.PUBLISHED)
                (cat_seatMaps cat) of
           None \<Rightarrow> Inl (VenueManagementLifecycleError ''The published source changed before it could be cloned.'')
         | Some source \<Rightarrow>
             (case map_with_parents db source of
                None \<Rightarrow> Inl RecordNotFound
              | Some seatMap \<Rightarrow>
                  if \<not> lifecycleContext canCloneSeatMap seatMap then Inl (restore_before ''cloning this seat map.'')
                  else let new = new_map (ld_mapId draw) (map_spaceId source) (Some (map_id source)) (map_name source)
                                   (next_version cat (map_spaceId source));
                           graph = seatMapGraphInclude cat (map_id source)
                       in and_then (on_catalogue (\<lambda>cat. and_then (create_map new cat)
                              (create_all create_graph_section (numbered (cloned_section draw) graph))) db) (\<lambda>db1.
                          and_then (find_map_graph (map_id new) db1) (\<lambda>found. Inr (db1, found)))))"

definition clonePublishedSeatMap ::
  "(nat \<Rightarrow> nat \<Rightarrow> bool) \<Rightarrow> (nat \<Rightarrow> layout_draw) \<Rightarrow> ('a SeatMapScope_scheme) \<Rightarrow> database \<Rightarrow> database
     \<Rightarrow> database \<times> (service_error + SeatMap \<times> seat_graph)" where
  "clonePublishedSeatMap conflict draw scope seen =
     run_after
       (and_then (authorized VenueManagementAuthorizationError (findAuthorizedSeatMap seen scope MembershipRole.ADMIN)) (\<lambda>(_, seatMap).
        and_then (unless (map_status (fst seatMap) \<noteq> SeatMapStatus.PUBLISHED)
          (VenueManagementLifecycleError ''Only the current published seat map can be cloned.'')) (\<lambda>_.
        and_then (unless (\<not> lifecycleContext canCloneSeatMap seatMap) (restore_before ''cloning this seat map.'')) (\<lambda>_.
        Inr (fst seatMap)))))
       (\<lambda>source. createVersionWithRetry (\<lambda>k. withSerializableRetry (conflict k) (clone_transaction (draw k) source)) 1 3)"

end
