(* ===== verification/Inventory_Service.thy ===== *)
theory Inventory_Service
  imports Event_Store Seat_Map_Service
begin

text \<open>
  The sellable inventory of a session (src/server/holds/inventory-service.ts): materialization in
  the transaction that publishes the session, and the backfill of sessions published before.
\<close>

definition session_tiers :: "database \<Rightarrow> ident \<Rightarrow> SessionPriceTier list" where
  "session_tiers db sessionId = select_rows (\<lambda>t. tier_sessionId t = sessionId) (cat_tiers (db_catalogue db))"

definition session_pricing :: "database \<Rightarrow> ident \<Rightarrow> SessionSectionPricing list" where
  "session_pricing db sessionId = select_rows (\<lambda>p. spr_sessionId p = sessionId) (cat_pricing (db_catalogue db))"

definition session_graph :: "database \<Rightarrow> EventSession \<Rightarrow> seat_graph" where
  "session_graph db s = seatMapGraphInclude (db_catalogue db) (ses_seatMapId s)"

definition session_rows :: "database \<Rightarrow> EventSession \<Rightarrow> MaterializedInventoryRow list" where
  "session_rows db s = computeSessionInventoryRows (session_graph db s) (session_tiers db (ses_id s)) (session_pricing db (ses_id s))"

definition session_coverage :: "database \<Rightarrow> EventSession \<Rightarrow> PricingCoverage" where
  "session_coverage db s = calculatePricingCoverage (session_graph db s) (session_tiers db (ses_id s)) (session_pricing db (ses_id s))"

definition shown :: "('a \<Rightarrow> string) \<Rightarrow> 'a option \<Rightarrow> string" where
  "shown f x = (case x of None \<Rightarrow> [] | Some y \<Rightarrow> f y)"

text \<open>The labels a row of inventory shows, by the joins the readers make; they are fixed with the layout.\<close>

definition seat_labels :: "catalogue \<Rightarrow> ident \<Rightarrow> ident \<Rightarrow> ident \<Rightarrow> SeatLabels" where
  "seat_labels cat seatId sectionId tierId =
     (let seat = find_seat cat seatId; row = Option.bind seat (\<lambda>t. find_seat_row cat (seat_rowId t));
          sec = find_section cat sectionId; tier = find_row (\<lambda>t. tier_id t = tierId) (cat_tiers cat)
      in \<lparr>lbl_seatLabel = shown seat_label seat, lbl_rowLabel = shown row_label row, lbl_sectionName = shown sec_name sec,
          lbl_sectionCode = shown sec_code sec, lbl_tierName = shown tier_name tier, lbl_tierCode = shown tier_code tier\<rparr>)"

definition new_inventory :: "(ident \<Rightarrow> ident) \<Rightarrow> database \<Rightarrow> ident \<Rightarrow> MaterializedInventoryRow \<Rightarrow> SessionSeatInventory" where
  "new_inventory draw db sessionId r =
     \<lparr>inv_id = draw (mat_seatId r), inv_sessionId = sessionId, inv_seatId = mat_seatId r, inv_sectionId = mat_sectionId r,
      inv_priceTierId = mat_priceTierId r, inv_priceMinor = mat_priceMinor r, inv_currency = mat_currency r,
      inv_state = SeatInventoryState.AVAILABLE, inv_currentHoldId = None, inv_holdExpiresAt = None,
      inv_labels = seat_labels (db_catalogue db) (mat_seatId r) (mat_sectionId r) (mat_priceTierId r)\<rparr>"

record MaterializationResult =
  mrs_sessionId :: ident
  mrs_created :: nat
  mrs_sellableCapacity :: nat
  mrs_total :: nat

record inventory_draw =
  idr_inventoryId :: "ident \<Rightarrow> ident"
  idr_uuid :: string

definition inventory_of :: "database \<Rightarrow> ident \<Rightarrow> SessionSeatInventory list" where
  "inventory_of db sessionId = select_rows (\<lambda>i. inv_sessionId i = sessionId) (db_inventory db)"

definition materialization_key :: "inventory_draw \<Rightarrow> ident \<Rightarrow> string" where
  "materialization_key draw sessionId = ''inventory-materialized:'' @ sessionId @ '':'' @ idr_uuid draw"

definition announce_inventory :: "inventory_draw \<Rightarrow> ident \<Rightarrow> nat \<Rightarrow> time \<Rightarrow> database \<Rightarrow> service_error + database" where
  "announce_inventory draw sessionId created now db =
     (if 0 < created
      then enqueueInventoryEvent InventoryEventType.INVENTORY_MATERIALIZED sessionId None (materialization_key draw sessionId) now db
      else Inr db)"

definition materializeSessionInventory :: "inventory_draw \<Rightarrow> ident \<Rightarrow> time \<Rightarrow> MaterializationResult tx" where
  "materializeSessionInventory draw sessionId now db =
     (case find_session db sessionId of
        None \<Rightarrow> Inl InventoryError
      | Some s \<Rightarrow>
          let rows = session_rows db s
          in and_then (create_inventory (map (new_inventory (idr_inventoryId draw) db sessionId) rows) db) (\<lambda>(db1, created).
             and_then (announce_inventory draw sessionId created now db1) (\<lambda>db2.
             Inr (db2, \<lparr>mrs_sessionId = sessionId, mrs_created = created, mrs_sellableCapacity = length rows,
                        mrs_total = length (inventory_of db1 sessionId)\<rparr>))))"

definition ensureSessionInventory :: "inventory_draw \<Rightarrow> ident \<Rightarrow> time \<Rightarrow> MaterializationResult tx" where
  "ensureSessionInventory draw sessionId now db =
     and_then (materializeSessionInventory draw sessionId now db) (\<lambda>(db1, result).
       if mrs_total result \<noteq> mrs_sellableCapacity result then Inl InventoryError else Inr (db1, result))"

section \<open>Backfill\<close>

datatype BackfillOutcome = MATERIALIZED | SKIPPED_COMPLETE | SKIPPED_INELIGIBLE | REFUSED_INCONSISTENT

record BackfillSessionReport =
  bfr_sessionId :: ident
  bfr_eventTitle :: string
  bfr_outcome :: BackfillOutcome
  bfr_sellableCapacity :: nat
  bfr_existingInventory :: nat
  bfr_createdInventory :: nat

record BackfillSummary =
  bfs_scanned :: nat
  bfs_materialized :: nat
  bfs_skippedComplete :: nat
  bfs_skippedIneligible :: nat
  bfs_refusedInconsistent :: nat
  bfs_sessions :: "BackfillSessionReport list"

definition backfill_candidates :: "database \<Rightarrow> (EventSession \<times> Event) list" where
  "backfill_candidates db =
     (let eligible = (\<lambda>s. ses_publishedAt s \<noteq> None \<and> published_session_status (ses_status s)
            \<and> map_option ev_status (find_event db (ses_eventId s)) = Some EventStatus.PUBLISHED)
      in concat (map (\<lambda>s. case find_event db (ses_eventId s) of None \<Rightarrow> [] | Some e \<Rightarrow> [(s, e)])
           (sort_key (\<lambda>s. case ses_publishedAt s of None \<Rightarrow> 0 | Some t \<Rightarrow> t) (select_rows eligible (db_sessions db)))))"

definition add_report :: "BackfillSessionReport \<Rightarrow> BackfillSummary \<Rightarrow> BackfillSummary" where
  "add_report r s =
     (let s = s\<lparr>bfs_sessions := bfs_sessions s @ [r]\<rparr>
      in case bfr_outcome r of
           BackfillOutcome.MATERIALIZED \<Rightarrow> s\<lparr>bfs_materialized := bfs_materialized s + 1\<rparr>
         | BackfillOutcome.SKIPPED_COMPLETE \<Rightarrow> s\<lparr>bfs_skippedComplete := bfs_skippedComplete s + 1\<rparr>
         | BackfillOutcome.SKIPPED_INELIGIBLE \<Rightarrow> s\<lparr>bfs_skippedIneligible := bfs_skippedIneligible s + 1\<rparr>
         | BackfillOutcome.REFUSED_INCONSISTENT \<Rightarrow> s\<lparr>bfs_refusedInconsistent := bfs_refusedInconsistent s + 1\<rparr>)"

text \<open>
  The loop over the candidates, which carry what the first query loaded (\<open>seen\<close>); a transaction that
  fails ends the run with its error, what was committed before stays.
\<close>

fun backfill_loop ::
  "(nat \<Rightarrow> bool) \<Rightarrow> (ident \<Rightarrow> inventory_draw) \<Rightarrow> time \<Rightarrow> database \<Rightarrow> (EventSession \<times> Event) list \<Rightarrow> BackfillSummary
     \<Rightarrow> database \<Rightarrow> database \<times> (service_error + BackfillSummary)" where
  "backfill_loop conflict draw now seen [] summary db = (db, Inr summary)"
| "backfill_loop conflict draw now seen ((s, e) # rest) summary db =
     (let coverage = session_coverage seen s; expected = length (session_rows seen s); existing = length (inventory_of db (ses_id s));
          report = (\<lambda>outcome created. \<lparr>bfr_sessionId = ses_id s, bfr_eventTitle = ev_title e, bfr_outcome = outcome,
            bfr_sellableCapacity = expected, bfr_existingInventory = existing, bfr_createdInventory = created\<rparr>);
          continue = (\<lambda>outcome. backfill_loop conflict draw now seen rest (add_report (report outcome 0) summary) db)
      in if cov_issues coverage \<noteq> [] \<or> cov_totalSellable coverage \<le> 0 then continue BackfillOutcome.SKIPPED_INELIGIBLE
         else if existing = expected then continue BackfillOutcome.SKIPPED_COMPLETE
         else if existing \<noteq> 0 then continue BackfillOutcome.REFUSED_INCONSISTENT
         else case runInTransaction conflict None (ensureSessionInventory (draw (ses_id s)) (ses_id s) now) db of
                (db1, Inl err) \<Rightarrow> (db1, Inl err)
              | (db1, Inr result) \<Rightarrow>
                  backfill_loop conflict draw now seen rest
                    (add_report (report BackfillOutcome.MATERIALIZED (mrs_created result)) summary) db1)"

definition backfillPublishedSessionInventory ::
  "(nat \<Rightarrow> bool) \<Rightarrow> (ident \<Rightarrow> inventory_draw) \<Rightarrow> time \<Rightarrow> database \<Rightarrow> database \<times> (service_error + BackfillSummary)" where
  "backfillPublishedSessionInventory conflict draw now db =
     backfill_loop conflict draw now db (backfill_candidates db)
       \<lparr>bfs_scanned = length (backfill_candidates db), bfs_materialized = 0, bfs_skippedComplete = 0, bfs_skippedIneligible = 0,
        bfs_refusedInconsistent = 0, bfs_sessions = []\<rparr> db"

end
