(* ===== verification/Date_Time.thy ===== *)
theory Date_Time
  imports Money
begin

text \<open>
  Local times of a venue (src/features/events/date-time.ts) on the calendar of a JavaScript
  \<open>Date\<close>. What a time zone shows of an instant comes from the platform's zone database: the
  parameter \<open>zone\<close> gives the parts that \<open>Intl.DateTimeFormat\<close> formats.
\<close>

section \<open>The calendar\<close>

text \<open>\<open>DayFromYear\<close>, the leap years and \<open>Date.UTC\<close> of the language; the years 0 to 99 are those of the 20th century.\<close>

definition day_from_year :: "int \<Rightarrow> int" where
  "day_from_year y = 365 * (y - 1970) + (y - 1969) div 4 - (y - 1901) div 100 + (y - 1601) div 400"

definition leap_year :: "int \<Rightarrow> bool" where
  "leap_year y \<longleftrightarrow> y mod 4 = 0 \<and> (y mod 100 \<noteq> 0 \<or> y mod 400 = 0)"

definition month_lengths :: "int \<Rightarrow> int list" where
  "month_lengths y = [31, if leap_year y then 29 else 28, 31, 30, 31, 30, 31, 31, 30, 31, 30, 31]"

definition day_from_month :: "int \<Rightarrow> nat \<Rightarrow> int" where
  "day_from_month y m = sum_list (take m (month_lengths y))"

definition make_day :: "int \<Rightarrow> int \<Rightarrow> int \<Rightarrow> int" where
  "make_day y m d = (let ym = y + m div 12 in day_from_year ym + day_from_month ym (nat (m mod 12)) + d - 1)"

definition date_utc :: "int \<Rightarrow> int \<Rightarrow> int \<Rightarrow> int \<Rightarrow> int \<Rightarrow> time" where
  "date_utc y m d h mi =
     (let yr = (if 0 \<le> y \<and> y \<le> 99 then 1900 + y else y) in make_day yr m d * 86400000 + h * 3600000 + mi * 60000)"

text \<open>The year of a day, estimated by the mean length of a year and corrected by at most one.\<close>

definition year_from_day :: "int \<Rightarrow> int" where
  "year_from_day d =
     (let y = 1970 + (d * 400) div 146097
      in if d < day_from_year y then y - 1 else if day_from_year (y + 1) \<le> d then y + 1 else y)"

fun month_in :: "int list \<Rightarrow> nat \<Rightarrow> int \<Rightarrow> nat \<times> int" where
  "month_in [] m d = (m, d)"
| "month_in (n # ns) m d = (if d < n then (m, d) else month_in ns (m + 1) (d - n))"

record DateTimeParts =
  dtp_year :: nat
  dtp_month :: nat
  dtp_day :: nat
  dtp_hour :: nat
  dtp_minute :: nat

text \<open>\<open>getUTCFullYear\<close> to \<open>getUTCMinutes\<close>, the month counted from 0.\<close>

definition utc_fields :: "time \<Rightarrow> int \<times> int \<times> int \<times> int \<times> int" where
  "utc_fields t =
     (let day = t div 86400000; within = t mod 86400000; y = year_from_day day;
          (m, d) = month_in (month_lengths y) 0 (day - day_from_year y)
      in (y, int m, d + 1, within div 3600000, within mod 3600000 div 60000))"

section \<open>Parsing and conversion\<close>

definition local_pattern :: "string \<Rightarrow> bool" where
  "local_pattern s \<longleftrightarrow>
     list_all2 (\<lambda>p c. if p = CHR ''d'' then is_digit c else c = p) ''dddd-dd-ddTdd:dd'' s"

definition digits_at :: "string \<Rightarrow> nat \<Rightarrow> nat \<Rightarrow> nat" where
  "digits_at s k n = decimal_value (take n (drop k s))"

definition local_parts :: "string \<Rightarrow> DateTimeParts" where
  "local_parts s = \<lparr>dtp_year = digits_at s 0 4, dtp_month = digits_at s 5 2, dtp_day = digits_at s 8 2,
     dtp_hour = digits_at s 11 2, dtp_minute = digits_at s 14 2\<rparr>"

definition parts_as_utc :: "DateTimeParts \<Rightarrow> time" where
  "parts_as_utc p = date_utc (int (dtp_year p)) (int (dtp_month p) - 1) (int (dtp_day p)) (int (dtp_hour p)) (int (dtp_minute p))"

definition parseLocalDateTime :: "string \<Rightarrow> string + DateTimeParts" where
  "parseLocalDateTime s =
     (if \<not> local_pattern s then Inl ''Use a valid local date and time.''
      else let p = local_parts s
           in if utc_fields (parts_as_utc p)
                \<noteq> (int (dtp_year p), int (dtp_month p) - 1, int (dtp_day p), int (dtp_hour p), int (dtp_minute p))
              then Inl ''Use a real calendar date and time.'' else Inr p)"

type_synonym zones = "string \<Rightarrow> time \<Rightarrow> DateTimeParts"

definition offsetAt :: "zones \<Rightarrow> time \<Rightarrow> string \<Rightarrow> int" where
  "offsetAt zone date timeZone = parts_as_utc (zone timeZone date) - date"

definition zonedLocalDateTimeToUtc :: "zones \<Rightarrow> string \<Rightarrow> string \<Rightarrow> string + time" where
  "zonedLocalDateTimeToUtc zone s timeZone =
     and_then (parseLocalDateTime s) (\<lambda>local.
       let localAsUtc = parts_as_utc local;
           candidate = ((\<lambda>candidate. localAsUtc - offsetAt zone candidate timeZone) ^^ 3) localAsUtc
       in if zone timeZone candidate \<noteq> local
          then Inl ''That local time does not exist in the venue time zone because of a clock change.''
          else Inr candidate)"

definition pad2 :: "nat \<Rightarrow> string" where
  "pad2 n = replicate (2 - length (decimal n)) CHR ''0'' @ decimal n"

definition toVenueLocalInputValue :: "zones \<Rightarrow> time \<Rightarrow> string \<Rightarrow> string" where
  "toVenueLocalInputValue zone date timeZone =
     (let p = zone timeZone date
      in decimal (dtp_year p) @ ''-'' @ pad2 (dtp_month p) @ ''-'' @ pad2 (dtp_day p) @ ''T''
         @ pad2 (dtp_hour p) @ '':'' @ pad2 (dtp_minute p))"

section \<open>The calendar is a bijection\<close>

lemma div_between:
  fixes a :: int
  assumes "0 < n"
  shows "n * (a div n) \<le> a" "a < n * (a div n) + n"
  using assms pos_mod_bound [of n a] pos_mod_sign [of n a] mult_div_mod_eq [of n a] by linarith+

lemma day_from_year_bounds:
  "400 * day_from_year (x + 1970) < 146097 * x + 800" "146097 * x - 800 < 400 * day_from_year (x + 1970)"
proof -
  define a b c where "a = (x + 1) div 4" and "b = (x + 69) div 100" and "c = (x + 369) div 400"
  have bounds: "4 * a \<le> x + 1" "x + 1 < 4 * a + 4" "100 * b \<le> x + 69" "x + 69 < 100 * b + 100"
    "400 * c \<le> x + 369" "x + 369 < 400 * c + 400"
    unfolding a_def b_def c_def by (rule div_between; simp)+
  have day: "day_from_year (x + 1970) = 365 * x + a - b + c"
    by (simp add: day_from_year_def a_def b_def c_def add.commute)
  show "400 * day_from_year (x + 1970) < 146097 * x + 800" using bounds day by linarith
  show "146097 * x - 800 < 400 * day_from_year (x + 1970)" using bounds day by linarith
qed

lemma div_step:
  fixes x n :: int
  assumes "0 < n"
  shows "(x + 1) div n = x div n + of_bool ((x + 1) mod n = 0)"
proof (cases "(x + 1) mod n = 0")
  case True
  then obtain k where k: "x + 1 = n * k" by auto
  then have "x div n = k - 1" using assms by (intro int_div_pos_eq [where r = "n - 1"]) (auto simp: algebra_simps)
  with k assms show ?thesis by simp
next
  case False
  define r q where "r = (x + 1) mod n" and "q = (x + 1) div n"
  have "x + 1 = n * q + r" unfolding r_def q_def by simp
  moreover have "0 < r" using False assms pos_mod_sign [of n "x + 1"] by (simp add: r_def order_less_le)
  moreover have "r < n" using assms unfolding r_def by (rule pos_mod_bound)
  ultimately have "x div n = q" by (intro int_div_pos_eq [where r = "r - 1"]) linarith+
  with False show ?thesis by (simp add: q_def)
qed

lemma year_length: "day_from_year (y + 1) = day_from_year y + (if leap_year y then 366 else 365)"
proof -
  have shift: "(y + (- k) * n) mod n = y mod n" for k n :: int by (rule mod_mult_self1)
  have mods: "(y - 1969 + 1) mod 4 = y mod 4" "(y - 1901 + 1) mod 100 = y mod 100" "(y - 1601 + 1) mod 400 = y mod 400"
    using shift [of 492 4] shift [of 19 100] shift [of 4 400] by simp_all
  have cancel: "x mod n = 0" if "x mod m = 0" "m = k * n" for x m n k :: int
    using that mod_mod_cancel [of n m x] by simp
  define p q r where "p = (y mod 4 = 0)" and "q = (y mod 100 = 0)" and "r = (y mod 400 = 0)"
  have "r \<Longrightarrow> q" unfolding r_def q_def by (erule cancel [where k = 4]) simp
  moreover have "q \<Longrightarrow> p" unfolding q_def p_def by (erule cancel [where k = 25]) simp
  moreover have leap: "leap_year y \<longleftrightarrow> p \<and> (\<not> q \<or> r)" by (simp only: leap_year_def p_def q_def r_def)
  moreover have steps: "(y - 1969 + 1) div 4 = (y - 1969) div 4 + of_bool p"
    "(y - 1901 + 1) div 100 = (y - 1901) div 100 + of_bool q" "(y - 1601 + 1) div 400 = (y - 1601) div 400 + of_bool r"
    unfolding p_def q_def r_def mods [symmetric] by (rule div_step; simp)+
  have move: "y + 1 - k = y - k + 1" for k by simp
  have "365 * (y - 1970 + 1) + (a + a') - (b + b') + (c + c') = 365 * (y - 1970) + a - b + c + (365 + a' - b' + c')"
    for a a' b b' c c' :: int by simp
  then have "day_from_year (y + 1) = day_from_year y + (365 + of_bool p - of_bool q + of_bool r)"
    unfolding day_from_year_def move steps .
  ultimately show ?thesis by (cases p; cases q; cases r) simp_all
qed

lemma year_from_day:
  "day_from_year (year_from_day d) \<le> d" "d < day_from_year (year_from_day d + 1)"
proof -
  define x where "x = (d * 400) div 146097"
  have x: "146097 * x \<le> d * 400" "d * 400 < 146097 * x + 146097" unfolding x_def by (rule div_between; simp)+
  have b: "400 * day_from_year (x + 1970 - 1) < 146097 * (x - 1) + 800" "146097 * (x + 2) - 800 < 400 * day_from_year (x + 1970 + 2)"
    using day_from_year_bounds [of "x - 1"] day_from_year_bounds [of "x + 2"] by (simp_all add: algebra_simps)
  then show "day_from_year (year_from_day d) \<le> d" "d < day_from_year (year_from_day d + 1)"
    using x by (auto simp: year_from_day_def Let_def x_def [symmetric] algebra_simps)
qed

lemma day_from_year_mono: "y < z \<Longrightarrow> day_from_year y < day_from_year z"
proof (induction "nat (z - y - 1)" arbitrary: z)
  case 0
  then have "z = y + 1" by simp
  then show ?case using year_length [of y] by simp
next
  case (Suc n)
  then have "day_from_year y < day_from_year (z - 1)" by simp
  then show ?case using year_length [of "z - 1"] by (simp split: if_splits)
qed

lemma year_from_day_unique:
  assumes "day_from_year y \<le> d" "d < day_from_year (y + 1)"
  shows "year_from_day d = y"
proof (rule ccontr)
  assume "year_from_day d \<noteq> y"
  then have "year_from_day d + 1 \<le> y \<or> y + 1 \<le> year_from_day d" by linarith
  then have "day_from_year (year_from_day d + 1) \<le> day_from_year y \<or> day_from_year (y + 1) \<le> day_from_year (year_from_day d)"
    using day_from_year_mono by (metis order_le_less)
  then show False using assms year_from_day [of d] by linarith
qed

lemma month_in_sum:
  fixes r :: int
  assumes "m < length ns" "0 \<le> r" "r < ns ! m" "\<forall>n\<in>set ns. 0 \<le> n"
  shows "month_in ns k (sum_list (take m ns) + r) = (k + m, r)"
  using assms
proof (induction ns arbitrary: m k)
  case (Cons n ns)
  show ?case
  proof (cases m)
    case (Suc m')
    have "0 \<le> sum_list (take m' ns)" using Cons.prems(4) by (auto intro!: sum_list_nonneg dest: in_set_takeD)
    with Cons.prems(2) have "\<not> n + (sum_list (take m' ns) + r) < n" by linarith
    with Suc Cons.prems Cons.IH [of m' "k + 1"] show ?thesis by (simp add: add.assoc)
  qed (use Cons.prems in simp)
qed simp

lemma month_in_range:
  assumes "0 \<le> d" "d < sum_list ns" "month_in ns k d = (m, r)"
  shows "k \<le> m \<and> m < k + length ns \<and> 0 \<le> r \<and> r < ns ! (m - k)"
  using assms
proof (induction ns arbitrary: k d)
  case (Cons n ns)
  show ?case
  proof (cases "d < n")
    case False
    with Cons.prems Cons.IH [of "d - n" "k + 1"] have *: "k + 1 \<le> m \<and> m < k + 1 + length ns \<and> 0 \<le> r \<and> r < ns ! (m - (k + 1))"
      by simp
    then have "m - k = Suc (m - (k + 1))" by linarith
    with * show ?thesis by simp
  qed (use Cons.prems in auto)
qed simp

lemma month_lengths_total: "sum_list (month_lengths y) = (if leap_year y then 366 else 365)"
  by (simp add: month_lengths_def)

lemma month_lengths_pos: "length (month_lengths y) = 12" "\<forall>n\<in>set (month_lengths y). 28 \<le> n \<and> n \<le> 31"
  by (simp_all add: month_lengths_def)

lemma day_from_month_nonneg: "0 \<le> day_from_month y m"
  unfolding day_from_month_def
proof (rule sum_list_nonneg)
  fix n assume "n \<in> set (take m (month_lengths y))"
  then have "n \<in> set (month_lengths y)" by (rule in_set_takeD)
  with month_lengths_pos(2) [of y] show "0 \<le> n" by force
qed

definition real_date :: "DateTimeParts \<Rightarrow> bool" where
  "real_date p \<longleftrightarrow> 100 \<le> dtp_year p \<and> 1 \<le> dtp_month p \<and> dtp_month p \<le> 12 \<and> 1 \<le> dtp_day p
     \<and> int (dtp_day p) \<le> month_lengths (int (dtp_year p)) ! (dtp_month p - 1) \<and> dtp_hour p < 24 \<and> dtp_minute p < 60"

lemma day_in_year:
  assumes "m < 12" "1 \<le> d" "d \<le> month_lengths y ! m"
  shows "year_from_day (make_day y (int m) d) = y"
    "month_in (month_lengths y) 0 (make_day y (int m) d - day_from_year y) = (m, d - 1)"
proof -
  have day: "make_day y (int m) d = day_from_year y + (day_from_month y m + (d - 1))"
    using assms(1) by (simp add: make_day_def Let_def)
  show "month_in (month_lengths y) 0 (make_day y (int m) d - day_from_year y) = (m, d - 1)"
    using assms month_lengths_pos month_in_sum [of m "month_lengths y" "d - 1" 0]
    by (force simp: day day_from_month_def)
  have part: "0 \<le> day_from_month y m" "day_from_month y m + month_lengths y ! m + sum_list (drop (Suc m) (month_lengths y)) = sum_list (month_lengths y)"
    "0 \<le> sum_list (drop (Suc m) (month_lengths y))"
    using assms(1) month_lengths_pos [of y] id_take_nth_drop [of m "month_lengths y"]
    by (auto simp: day_from_month_def intro!: sum_list_nonneg dest!: in_set_takeD in_set_dropD) (metis sum_list_append sum_list.Cons add.assoc)
  then have "day_from_year y \<le> make_day y (int m) d" "make_day y (int m) d < day_from_year (y + 1)"
    using assms day month_lengths_total [of y] year_length [of y] by auto
  then show "year_from_day (make_day y (int m) d) = y" by (rule year_from_day_unique)
qed

lemma clock_fields:
  fixes t day h mi :: int
  assumes "t = day * 86400000 + h * 3600000 + mi * 60000" "0 \<le> h" "h < 24" "0 \<le> mi" "mi < 60"
  shows "t div 86400000 = day" "t mod 86400000 div 3600000 = h" "t mod 86400000 mod 3600000 div 60000 = mi"
proof -
  have day: "t div 86400000 = day" by (rule int_div_pos_eq [where r = "h * 3600000 + mi * 60000"]) (use assms in auto)
  then have within: "t mod 86400000 = h * 3600000 + mi * 60000" using assms(1) minus_div_mult_eq_mod [of t 86400000] by simp
  moreover have hour: "(h * 3600000 + mi * 60000) div 3600000 = h"
    by (rule int_div_pos_eq [where r = "mi * 60000"]) (use assms in auto)
  moreover from hour have "(h * 3600000 + mi * 60000) mod 3600000 = mi * 60000"
    using minus_div_mult_eq_mod [of "h * 3600000 + mi * 60000" 3600000] by simp
  ultimately show "t div 86400000 = day" "t mod 86400000 div 3600000 = h" "t mod 86400000 mod 3600000 div 60000 = mi"
    using day by simp_all
qed

lemma utc_round_trip:
  assumes "100 \<le> y" "m < 12" "1 \<le> d" "d \<le> month_lengths y ! m" "0 \<le> h" "h < 24" "0 \<le> mi" "mi < 60"
  shows "utc_fields (date_utc y (int m) d h mi) = (y, int m, d, h, mi)"
proof -
  have "date_utc y (int m) d h mi = make_day y (int m) d * 86400000 + h * 3600000 + mi * 60000"
    using assms(1) by (simp add: date_utc_def)
  from clock_fields [OF this assms(5-8)] day_in_year [OF assms(2-4)] show ?thesis
    by (simp add: utc_fields_def Let_def)
qed

lemma utc_fields_range:
  assumes "utc_fields t = (y, m, d, h, mi)"
  shows "0 \<le> m" "m < 12" "1 \<le> d" "d \<le> month_lengths y ! nat m" "0 \<le> h" "h < 24" "0 \<le> mi" "mi < 60"
    "year_from_day (t div 86400000) = y"
proof -
  define day where "day = t div 86400000"
  obtain k r where k: "month_in (month_lengths (year_from_day day)) 0 (day - day_from_year (year_from_day day)) = (k, r)"
    by (metis surj_pair)
  with assms have eqs: "y = year_from_day day" "m = int k" "d = r + 1" "h = t mod 86400000 div 3600000"
    "mi = t mod 86400000 mod 3600000 div 60000"
    by (auto simp: utc_fields_def Let_def day_def)
  have "day - day_from_year y < sum_list (month_lengths y)" "0 \<le> day - day_from_year y"
    using year_from_day [of day] year_length [of y] by (simp_all add: eqs(1) month_lengths_total)
  from month_in_range [OF this(2,1)] k have "k < 12 \<and> 0 \<le> r \<and> r < month_lengths y ! k" by (force simp: eqs month_lengths_pos)
  then show "0 \<le> m" "m < 12" "1 \<le> d" "d \<le> month_lengths y ! nat m"
    by (auto simp: eqs)
  have "0 \<le> t mod 86400000" "t mod 86400000 < 86400000" by simp_all
  then show "0 \<le> h" "h < 24" unfolding eqs by (simp_all add: pos_imp_zdiv_nonneg_iff)
  have "0 \<le> t mod 86400000 mod 3600000" "t mod 86400000 mod 3600000 < 3600000" by simp_all
  then show "0 \<le> mi" "mi < 60" unfolding eqs by (simp_all add: pos_imp_zdiv_nonneg_iff)
  show "year_from_day (t div 86400000) = y" by (simp add: eqs(1) day_def)
qed

lemma real_date_iff:
  "utc_fields (parts_as_utc p) = (int (dtp_year p), int (dtp_month p) - 1, int (dtp_day p), int (dtp_hour p), int (dtp_minute p))
     \<longleftrightarrow> real_date p" (is "?real \<longleftrightarrow> _")
proof
  assume real: ?real
  note range = utc_fields_range [OF real]
  define m where "m = dtp_month p - 1"
  have m: "int (dtp_month p) - 1 = int m" "m < 12" using range(1,2) by (auto simp: m_def)
  have "100 \<le> dtp_year p"
  proof (rule ccontr)
    assume "\<not> 100 \<le> dtp_year p"
    then have y: "int (dtp_year p) < 100" by simp
    have "parts_as_utc p = make_day (1900 + int (dtp_year p)) (int m) (int (dtp_day p)) * 86400000
        + int (dtp_hour p) * 3600000 + int (dtp_minute p) * 60000"
      using y by (simp add: parts_as_utc_def date_utc_def m(1))
    from clock_fields(1) [OF this] range(5-9)
    have "year_from_day (make_day (1900 + int (dtp_year p)) (int m) (int (dtp_day p))) = int (dtp_year p)" by simp
    with year_from_day(2) have "make_day (1900 + int (dtp_year p)) (int m) (int (dtp_day p)) < day_from_year (int (dtp_year p) + 1)"
      by metis
    moreover have "day_from_year (int (dtp_year p) + 1) < day_from_year (1900 + int (dtp_year p))"
      by (rule day_from_year_mono) simp
    moreover have "day_from_year (1900 + int (dtp_year p)) \<le> make_day (1900 + int (dtp_year p)) (int m) (int (dtp_day p))"
      using range(3) m(2) day_from_month_nonneg [of "1900 + int (dtp_year p)" m] by (simp add: make_day_def Let_def)
    ultimately show False by linarith
  qed
  moreover from range(1,2) have "1 \<le> dtp_month p" "dtp_month p \<le> 12" by linarith+
  moreover from range(4) have "int (dtp_day p) \<le> month_lengths (int (dtp_year p)) ! (dtp_month p - 1)"
    by (simp only: m(1) nat_int m_def)
  moreover from range(3,6,8) have "1 \<le> dtp_day p" "dtp_hour p < 24" "dtp_minute p < 60" by linarith+
  ultimately show "real_date p" unfolding real_date_def by blast
next
  assume real: "real_date p"
  define m where "m = dtp_month p - 1"
  have m: "int (dtp_month p) - 1 = int m" "m < 12" "int (dtp_day p) \<le> month_lengths (int (dtp_year p)) ! m"
    using real by (auto simp: m_def real_date_def)
  have rest: "100 \<le> int (dtp_year p)" "1 \<le> int (dtp_day p)" "int (dtp_hour p) < 24" "int (dtp_minute p) < 60"
    using real by (simp_all add: real_date_def)
  show ?real
    unfolding parts_as_utc_def m(1) by (rule utc_round_trip [OF rest(1) m(2) rest(2) m(3) _ rest(3) _ rest(4)]) simp_all
qed

lemma parse_local_Inr:
  "parseLocalDateTime s = Inr p \<longleftrightarrow> local_pattern s \<and> p = local_parts s \<and> real_date p"
  unfolding parseLocalDateTime_def Let_def real_date_iff by auto

section \<open>Printing what was parsed\<close>

lemma digit_char_value: "is_digit c \<Longrightarrow> digit_char (digit_value c) = c"
  by (simp add: is_digit_def char_between_def digit_char_def digit_value_def)

lemma digit_value_bound: "is_digit c \<Longrightarrow> digit_value c < 10"
  by (auto simp: is_digit_def char_between_def digit_value_def)

lemma decimal_snoc:
  assumes "is_digit c"
  shows "decimal (decimal_value s * 10 + digit_value c) = (if decimal_value s = 0 then [c] else decimal (decimal_value s) @ [c])"
  using digit_value_bound [OF assms] digit_char_value [OF assms] by (subst decimal.simps) auto

lemma pad2_digits:
  assumes "is_digit a" "is_digit b"
  shows "pad2 (decimal_value [a, b]) = [a, b]"
  using digit_value_bound [OF assms(1)] digit_value_bound [OF assms(2)]
  by (simp add: decimal_value_def pad2_def two_digits digit_char_value assms)

lemma decimal_year:
  assumes "is_digit a" "is_digit b" "is_digit c" "is_digit d" "1000 \<le> decimal_value [a, b, c, d]"
  shows "decimal (decimal_value [a, b, c, d]) = [a, b, c, d]"
proof -
  have "digit_value a \<noteq> 0"
    using assms(5) digit_value_bound [OF assms(2)] digit_value_bound [OF assms(3)] digit_value_bound [OF assms(4)]
    by (auto simp: decimal_value_def)
  with decimal_snoc [OF assms(4), of "[a, b, c]"] decimal_snoc [OF assms(3), of "[a, b]"] decimal_snoc [OF assms(2), of "[a]"]
    decimal_snoc [OF assms(1), of "[]"] show ?thesis
    by (simp add: decimal_value_def)
qed

lemma local_pattern_cases:
  assumes "local_pattern s"
  obtains a b c d e f g h i j k l where
    "s = [a, b, c, d, CHR ''-'', e, f, CHR ''-'', g, h, CHR ''T'', i, j, CHR '':'', k, l]"
    "\<forall>x\<in>{a, b, c, d, e, f, g, h, i, j, k, l}. is_digit x"
  using assms unfolding local_pattern_def by (auto simp: list_all2_Cons1)

lemma print_parsed:
  assumes "local_pattern s" "zone tz t = local_parts s" "1000 \<le> dtp_year (local_parts s)"
  shows "toVenueLocalInputValue zone t tz = s"
  using assms(1)
proof (rule local_pattern_cases)
  fix a b c d e f g h i j k l
  assume s: "s = [a, b, c, d, CHR ''-'', e, f, CHR ''-'', g, h, CHR ''T'', i, j, CHR '':'', k, l]"
    and digits: "\<forall>x\<in>{a, b, c, d, e, f, g, h, i, j, k, l}. is_digit x"
  then show ?thesis
    using assms(2,3) by (simp add: toVenueLocalInputValue_def local_parts_def digits_at_def pad2_digits decimal_year)
qed


text \<open>A zone two hours ahead.\<close>

definition sample_zone :: zones where
  "sample_zone timeZone t =
     (case utc_fields (t + 7200000) of (y, m, d, h, mi) \<Rightarrow>
        \<lparr>dtp_year = nat y, dtp_month = nat (m + 1), dtp_day = nat d, dtp_hour = nat h, dtp_minute = nat mi\<rparr>)"


end
