(* ===== verification/Event_Schemas.thy ===== *)
theory Event_Schemas
  imports Event_Rules Date_Time
begin

text \<open>
  The input schemas of events, sessions and prices and the slugs of events
  (src/features/events/schema.ts). A schema returns the cleaned input or \<open>None\<close>; texts are
  ASCII, on which Unicode normalization changes nothing.
\<close>

section \<open>Slugs\<close>

definition lower_alnum :: "char \<Rightarrow> bool" where
  "lower_alnum c \<longleftrightarrow> char_between CHR ''a'' CHR ''z'' c \<or> is_digit c"

text \<open>\<open>value.replace(/[^a-z0-9]+/g, "-")\<close>; the first argument says whether the last character was replaced.\<close>

fun dash_runs :: "bool \<Rightarrow> string \<Rightarrow> string" where
  "dash_runs replaced [] = []"
| "dash_runs replaced (c # cs) =
     (if lower_alnum c then c # dash_runs False cs
      else if replaced then dash_runs True cs else CHR ''-'' # dash_runs True cs)"

definition is_dash :: "char \<Rightarrow> bool" where
  "is_dash c \<longleftrightarrow> c = CHR ''-''"

definition strip_right :: "string \<Rightarrow> string" where
  "strip_right s = rev (dropWhile is_dash (rev s))"

definition createEventSlug :: "string \<Rightarrow> string" where
  "createEventSlug text =
     (let slug = strip_right (take 80 (strip_right (dropWhile is_dash (dash_runs False (js_lower text)))))
      in if slug = [] then ''event'' else slug)"

definition createPublicEventSlug :: "string \<Rightarrow> string \<Rightarrow> string" where
  "createPublicEventSlug organizationSlug eventSlug = organizationSlug @ ''--'' @ eventSlug"

section \<open>Schemas\<close>

text \<open>An absent or blank text is absent; otherwise the schema decides. The outer \<open>None\<close> is a rejection.\<close>

definition optional_field :: "(string \<Rightarrow> string option) \<Rightarrow> string option \<Rightarrow> string option option" where
  "optional_field schema raw =
     (case raw of
        None \<Rightarrow> Some None
      | Some s \<Rightarrow> if js_trim s = [] then Some None else map_option Some (schema s))"

definition slug_pattern :: "string \<Rightarrow> bool" where
  "slug_pattern s \<longleftrightarrow> grouped lower_alnum is_dash s"

definition slug_schema :: "string \<Rightarrow> string option" where
  "slug_schema raw = (let s = js_lower (js_trim raw) in if slug_pattern s then bounded_text 2 80 s else None)"

definition image_pattern :: "string \<Rightarrow> bool" where
  "image_pattern s \<longleftrightarrow>
     (let rest = drop 8 s; name = takeWhile (\<lambda>c. c \<noteq> CHR ''.'') rest; extension = dropWhile (\<lambda>c. c \<noteq> CHR ''.'') rest
      in take 8 s = ''/events/'' \<and> name \<noteq> [] \<and> hd name \<noteq> CHR ''_'' \<and> hd name \<noteq> CHR ''-'' \<and> list_all url_safe_char name
         \<and> extension \<in> {''.svg'', ''.png'', ''.webp'', ''.jpg'', ''.jpeg''})"

definition image_schema :: "string \<Rightarrow> string option" where
  "image_schema raw = (if image_pattern (js_trim raw) then Some (js_trim raw) else None)"

record EventInput =
  evi_title :: string
  evi_slug :: "string option"
  evi_shortDescription :: string
  evi_description :: string
  evi_category :: EventCategory
  evi_imagePath :: "string option"

definition eventInputSchema :: "EventInput \<Rightarrow> EventInput option" where
  "eventInputSchema raw =
     (case (compactText 3 160 (evi_title raw), optional_field slug_schema (evi_slug raw),
            compactText 10 280 (evi_shortDescription raw), bounded_text 30 10000 (js_trim (evi_description raw)),
            optional_field image_schema (evi_imagePath raw)) of
        (Some title, Some slug, Some short, Some description, Some picture) \<Rightarrow>
          Some \<lparr>evi_title = title, evi_slug = slug, evi_shortDescription = short, evi_description = description,
                evi_category = evi_category raw, evi_imagePath = picture\<rparr>
      | _ \<Rightarrow> None)"

definition identifier_schema :: "string \<Rightarrow> ident option" where
  "identifier_schema raw = bounded_text 1 191 (js_trim raw)"

definition local_schema :: "string \<Rightarrow> string option" where
  "local_schema raw = (if local_pattern (js_trim raw) then Some (js_trim raw) else None)"

record SessionPlace =
  spl_venueId :: ident
  spl_spaceId :: ident
  spl_seatMapId :: ident

record EventSessionInput = SessionPlace +
  evs_startLocal :: string
  evs_endLocal :: string
  evs_salesStartLocal :: string
  evs_salesEndLocal :: string

definition eventSessionInputSchema :: "EventSessionInput \<Rightarrow> EventSessionInput option" where
  "eventSessionInputSchema raw =
     (case (identifier_schema (spl_venueId raw), identifier_schema (spl_spaceId raw), identifier_schema (spl_seatMapId raw)) of
        (Some venue, Some space, Some seatMap) \<Rightarrow>
          (case (local_schema (evs_startLocal raw), local_schema (evs_endLocal raw), local_schema (evs_salesStartLocal raw),
                 local_schema (evs_salesEndLocal raw)) of
             (Some start, Some end, Some salesStart, Some salesEnd) \<Rightarrow>
               Some \<lparr>spl_venueId = venue, spl_spaceId = space, spl_seatMapId = seatMap, evs_startLocal = start,
                     evs_endLocal = end, evs_salesStartLocal = salesStart, evs_salesEndLocal = salesEnd\<rparr>
           | _ \<Rightarrow> None)
      | _ \<Rightarrow> None)"

record SessionDateRange =
  sdr_startAt :: time
  sdr_endAt :: time
  sdr_salesStartAt :: time
  sdr_salesEndAt :: time

definition sessionDateRangeSchema :: "SessionDateRange \<Rightarrow> SessionDateRange option" where
  "sessionDateRangeSchema r =
     (if sdr_endAt r \<le> sdr_startAt r \<or> sdr_salesStartAt r \<ge> sdr_salesEndAt r \<or> sdr_salesEndAt r > sdr_startAt r
      then None else Some r)"

record PriceTierInput =
  pti_name :: string
  pti_code :: string
  pti_priceMinor :: int
  pti_currency :: Currency
  pti_description :: "string option"

definition priceTierInputSchema :: "PriceTierInput \<Rightarrow> PriceTierInput option" where
  "priceTierInputSchema raw =
     (case (compactText 1 80 (pti_name raw), code_schema (pti_code raw),
            optional_field (\<lambda>s. bounded_text 0 500 (js_trim s)) (pti_description raw)) of
        (Some name, Some code, Some description) \<Rightarrow>
          if 0 \<le> pti_priceMinor raw \<and> pti_priceMinor raw \<le> 2147483647
          then Some (raw\<lparr>pti_name := name, pti_code := code, pti_description := description\<rparr>) else None
      | _ \<Rightarrow> None)"

record SectionAssignment =
  asg_sectionId :: ident
  asg_priceTierId :: ident

definition assignment_schema :: "SectionAssignment \<Rightarrow> SectionAssignment option" where
  "assignment_schema raw =
     (case (identifier_schema (asg_sectionId raw), identifier_schema (asg_priceTierId raw)) of
        (Some sec, Some tier) \<Rightarrow> Some \<lparr>asg_sectionId = sec, asg_priceTierId = tier\<rparr>
      | _ \<Rightarrow> None)"

fun sectionPricingInputSchema :: "SectionAssignment list \<Rightarrow> SectionAssignment list option" where
  "sectionPricingInputSchema [] = Some []"
| "sectionPricingInputSchema (a # rest) =
     (case (assignment_schema a, sectionPricingInputSchema rest) of
        (Some x, Some xs) \<Rightarrow> Some (x # xs)
      | _ \<Rightarrow> None)"

lemma section_pricing_Some:
  "sectionPricingInputSchema raw = Some xs \<Longrightarrow> map assignment_schema raw = map Some xs"
  by (induction raw arbitrary: xs) (auto split: option.splits)

section \<open>A slug that is made is a slug that is accepted\<close>

lemma grouped_snoc: "grouped ok sep s \<Longrightarrow> (\<And>c. ok c \<Longrightarrow> \<not> sep c) \<Longrightarrow> ok c \<Longrightarrow> grouped ok sep (s @ [c])"
  by (induction ok sep s rule: grouped.induct) (auto split: if_splits)

text \<open>Characters of slugs without two dashes in a row.\<close>

fun dashed :: "string \<Rightarrow> bool" where
  "dashed [] \<longleftrightarrow> True"
| "dashed [c] \<longleftrightarrow> lower_alnum c \<or> is_dash c"
| "dashed (c # d # s) \<longleftrightarrow> (lower_alnum c \<or> is_dash c) \<and> \<not> (is_dash c \<and> is_dash d) \<and> dashed (d # s)"

lemma dash_not_alnum: "is_dash c \<Longrightarrow> \<not> lower_alnum c"
  by (auto simp: is_dash_def lower_alnum_def char_between_def is_digit_def)

lemma dashed_Cons: "dashed (c # s) \<longleftrightarrow> (lower_alnum c \<or> is_dash c) \<and> (s = [] \<or> \<not> (is_dash c \<and> is_dash (hd s))) \<and> dashed s"
  by (cases s) auto

lemma dash_runs_dashed: "dashed (dash_runs b s) \<and> (b \<longrightarrow> dash_runs b s = [] \<or> \<not> is_dash (hd (dash_runs b s)))"
proof (induction s arbitrary: b)
  case (Cons c s)
  then show ?case using dash_not_alnum by (auto simp: dashed_Cons is_dash_def)
qed simp

lemma dashed_append: "dashed (s @ t) \<Longrightarrow> dashed s \<and> dashed t"
  by (induction s) (auto simp: dashed_Cons hd_append split: if_splits)

lemma dashed_grouped:
  "dashed s \<Longrightarrow> s \<noteq> [] \<Longrightarrow> \<not> is_dash (hd s) \<Longrightarrow> \<not> is_dash (last s) \<Longrightarrow> slug_pattern s"
  unfolding slug_pattern_def
proof (induction lower_alnum is_dash s rule: grouped.induct)
  case (3 c d s)
  then show ?case
    by (cases "lower_alnum d") (auto simp: dashed_Cons dash_not_alnum split: if_splits dest: dash_not_alnum)
qed auto

lemma strip_right_prefix: "\<exists>u. s = strip_right s @ u"
proof -
  have "rev s = takeWhile is_dash (rev s) @ dropWhile is_dash (rev s)" by simp
  then have "s = strip_right s @ rev (takeWhile is_dash (rev s))" unfolding strip_right_def by (metis rev_append rev_rev_ident)
  then show ?thesis by blast
qed

lemma strip_right_last: "strip_right s \<noteq> [] \<Longrightarrow> \<not> is_dash (last (strip_right s))"
  unfolding strip_right_def by (metis hd_dropWhile last_rev rev_is_Nil_conv)

definition trimmed :: "string \<Rightarrow> bool" where
  "trimmed s \<longleftrightarrow> dashed s \<and> (s \<noteq> [] \<longrightarrow> \<not> is_dash (hd s))"

lemma trimmed_prefix: "trimmed (s @ u) \<Longrightarrow> trimmed s"
  by (auto simp: trimmed_def hd_append dest: dashed_append)

lemma trimmed_strip: "trimmed s \<Longrightarrow> trimmed (strip_right s)"
  by (metis strip_right_prefix trimmed_prefix)

lemma trimmed_take: "trimmed s \<Longrightarrow> trimmed (take n s)"
  by (metis append_take_drop_id trimmed_prefix)

text \<open>A slug made from a title has the form the schema asks for, and at most 80 characters.\<close>

lemma event_slug_ok: "slug_pattern (createEventSlug t) \<and> createEventSlug t \<noteq> [] \<and> length (createEventSlug t) \<le> 80"
proof -
  define a where "a = dropWhile is_dash (dash_runs False (js_lower t))"
  define s where "s = strip_right (take 80 (strip_right a))"
  have slug: "createEventSlug t = (if s = [] then ''event'' else s)" by (simp add: createEventSlug_def Let_def s_def a_def)
  have "dashed a" unfolding a_def by (metis dash_runs_dashed dashed_append takeWhile_dropWhile_id)
  moreover have "a \<noteq> [] \<Longrightarrow> \<not> is_dash (hd a)" unfolding a_def by (rule hd_dropWhile)
  ultimately have "trimmed s" unfolding s_def by (intro trimmed_strip trimmed_take) (simp add: trimmed_def)
  then have "s \<noteq> [] \<Longrightarrow> slug_pattern s"
    using strip_right_last [of "take 80 (strip_right a)"] by (auto simp: trimmed_def s_def intro: dashed_grouped)
  moreover have "length s \<le> length (take 80 (strip_right a))"
    unfolding s_def by (metis strip_right_prefix length_append le_add1)
  then have "length s \<le> 80" by simp
  moreover have "slug_pattern ''event''" by code_simp
  ultimately show ?thesis by (simp add: slug)
qed

end
