(* ===== verification/Session_Service.thy ===== *)
theory Session_Service
  imports Inventory_Service Event_Schemas
begin

text \<open>
  Sessions of an event (src/server/events/event-session-service.ts). Every operation authorizes
  against what it reads first (\<open>seen\<close>) and writes to the database as it is by then; \<open>conflict\<close> says
  which attempts PostgreSQL aborts, \<open>zone\<close> is the platform's time zone database.
\<close>

section \<open>Guards\<close>

definition event_open :: "EventStatus \<Rightarrow> bool" where
  "event_open status \<longleftrightarrow> status \<in> {EventStatus.DRAFT, EventStatus.PUBLISHED}"

definition assertEventAllowsSessionManagement :: "EventStatus \<Rightarrow> service_error + unit" where
  "assertEventAllowsSessionManagement status =
     unless (\<not> event_open status) (EventLifecycleError ''Restore an archived event before changing its sessions.'')"

definition authorized_session ::
  "database \<Rightarrow> ('a SessionScope_scheme) \<Rightarrow> service_error + Membership \<times> Event \<times> EventSession" where
  "authorized_session seen scope =
     authorized EventAuthorizationError (findAuthorizedEventSession seen scope MembershipRole.ADMIN)"

text \<open>An error of the conversion is a validation error, a range that the schema rejects a \<open>ZodError\<close>.\<close>

definition session_instant :: "zones \<Rightarrow> string \<Rightarrow> string \<Rightarrow> service_error + time" where
  "session_instant zone text timeZone =
     (case zonedLocalDateTimeToUtc zone text timeZone of Inl message \<Rightarrow> Inl (EventValidationError [message]) | Inr t \<Rightarrow> Inr t)"

definition parseSessionTimes :: "zones \<Rightarrow> EventSessionInput \<Rightarrow> string \<Rightarrow> service_error + SessionDateRange" where
  "parseSessionTimes zone input timeZone =
     and_then (session_instant zone (evs_startLocal input) timeZone) (\<lambda>startAt.
     and_then (session_instant zone (evs_endLocal input) timeZone) (\<lambda>endAt.
     and_then (session_instant zone (evs_salesStartLocal input) timeZone) (\<lambda>salesStartAt.
     and_then (session_instant zone (evs_salesEndLocal input) timeZone) (\<lambda>salesEndAt.
     parsed (sessionDateRangeSchema \<lparr>sdr_startAt = startAt, sdr_endAt = endAt, sdr_salesStartAt = salesStartAt,
       sdr_salesEndAt = salesEndAt\<rparr>)))))"

definition loadAuthorizedConfiguration ::
  "database \<Rightarrow> ident \<Rightarrow> ('a SessionPlace_scheme) \<Rightarrow> service_error + Venue \<times> Space \<times> SeatMap" where
  "loadAuthorizedConfiguration db organizerId input =
     (case (find_venue db (spl_venueId input), find_space db (spl_spaceId input), find_map (db_catalogue db) (spl_seatMapId input)) of
        (Some v, Some s, Some m) \<Rightarrow>
          if \<not> list_ex (\<lambda>g. acc_organizerOrganizationId g = organizerId \<and> acc_venueId g = spl_venueId input
               \<and> acc_status g = VenueAccessGrantStatus.ACTIVE) (cat_access (db_catalogue db))
          then Inl EventAuthorizationError
          else if ven_status v \<noteq> VenueStatus.ACTIVE \<or> spc_status s \<noteq> SpaceStatus.ACTIVE
          then Inl (EventLifecycleError ''Sessions require an active venue and space.'')
          else if spc_venueId s \<noteq> ven_id v then Inl EventAuthorizationError
          else if map_spaceId m \<noteq> spc_id s \<or> map_status m \<noteq> SeatMapStatus.PUBLISHED then Inl EventAuthorizationError
          else Inr (v, s, m)
      | _ \<Rightarrow> Inl EventAuthorizationError)"

definition findConflict :: "database \<Rightarrow> ident \<Rightarrow> time \<Rightarrow> time \<Rightarrow> ident option \<Rightarrow> EventSession option" where
  "findConflict db spaceId startAt endAt excludeSessionId =
     find_row (\<lambda>s. ses_spaceId s = spaceId \<and> ses_status s \<noteq> EventSessionStatus.CANCELLED
       \<and> ses_startAt s < endAt \<and> startAt < ses_endAt s
       \<and> (js_true excludeSessionId \<longrightarrow> Some (ses_id s) \<noteq> excludeSessionId)) (db_sessions db)"

definition throwOverlap :: service_error where
  "throwOverlap = EventConflictError ''Another non-cancelled session already occupies this space during that time.''"

text \<open>The \<open>catch\<close> of a violated exclusion constraint.\<close>

definition catch_overlap :: "database \<times> (service_error + 'a) \<Rightarrow> database \<times> (service_error + 'a)" where
  "catch_overlap p =
     (case p of (db, Inl (ConstraintViolation name)) \<Rightarrow> if name = no_overlap then (db, Inl throwOverlap) else p | _ \<Rightarrow> p)"

lemma fst_catch_overlap [simp]: "fst (catch_overlap p) = fst p"
  by (cases p; cases "snd p") (auto simp: catch_overlap_def split: service_error.splits sum.splits if_splits)

lemma catch_overlap_Inr [simp]: "catch_overlap p = (db, Inr x) \<longleftrightarrow> p = (db, Inr x)"
  by (cases p; cases "snd p") (auto simp: catch_overlap_def split: service_error.splits sum.splits if_splits)

definition then_session :: "ident \<Rightarrow> service_error + database \<Rightarrow> service_error + database \<times> EventSession" where
  "then_session i m =
     and_then m (\<lambda>db. case find_session db i of None \<Rightarrow> Inl RecordNotFound | Some s \<Rightarrow> Inr (db, s))"

lemma then_session_Inr: "then_session i m = Inr (db, s) \<longleftrightarrow> m = Inr db \<and> find_session db i = Some s"
  by (auto simp: then_session_def and_then_eq_Inr split: option.splits)

section \<open>Creating and editing\<close>

definition new_session :: "ident \<Rightarrow> ident \<Rightarrow> Venue \<Rightarrow> Space \<Rightarrow> SeatMap \<Rightarrow> SessionDateRange \<Rightarrow> EventSession" where
  "new_session i eventId v s m dates =
     \<lparr>ses_id = i, ses_eventId = eventId, ses_venueId = ven_id v, ses_spaceId = spc_id s, ses_seatMapId = map_id m,
      ses_status = EventSessionStatus.DRAFT, ses_startAt = sdr_startAt dates, ses_endAt = sdr_endAt dates,
      ses_salesStartAt = sdr_salesStartAt dates, ses_salesEndAt = sdr_salesEndAt dates, ses_publishedAt = None,
      ses_cancelledAt = None, ses_venueOrganizationId = ven_organizationId v\<rparr>"

definition replace_session :: "Venue \<Rightarrow> Space \<Rightarrow> SeatMap \<Rightarrow> SessionDateRange \<Rightarrow> EventSession \<Rightarrow> EventSession" where
  "replace_session v s m dates x =
     x\<lparr>ses_venueId := ven_id v, ses_spaceId := spc_id s, ses_seatMapId := map_id m, ses_startAt := sdr_startAt dates,
       ses_endAt := sdr_endAt dates, ses_salesStartAt := sdr_salesStartAt dates, ses_salesEndAt := sdr_salesEndAt dates,
       ses_venueOrganizationId := ven_organizationId v\<rparr>"

definition create_session_transaction ::
  "zones \<Rightarrow> ident \<Rightarrow> Membership \<Rightarrow> ident \<Rightarrow> EventSessionInput \<Rightarrow> EventSession tx" where
  "create_session_transaction zone newId m eventId input db =
     (case find_row (\<lambda>e. ev_id e = eventId \<and> ev_organizerOrganizationId e = mem_organizationId m \<and> event_open (ev_status e)) (db_events db) of
        None \<Rightarrow> Inl EventAuthorizationError
      | Some e \<Rightarrow>
          and_then (loadAuthorizedConfiguration db (mem_organizationId m) input) (\<lambda>(v, s, seatMap).
          and_then (parseSessionTimes zone input (ven_timeZone v)) (\<lambda>dates.
          if findConflict db (spl_spaceId input) (sdr_startAt dates) (sdr_endAt dates) None \<noteq> None then Inl throwOverlap
          else let row = new_session newId (ev_id e) v s seatMap dates in returning row (create_session row db))))"

definition createEventSession ::
  "(nat \<Rightarrow> bool) \<Rightarrow> zones \<Rightarrow> ident \<Rightarrow> ('a EventScope_scheme) \<Rightarrow> EventSessionInput \<Rightarrow> database \<Rightarrow> database
     \<Rightarrow> database \<times> (service_error + EventSession)" where
  "createEventSession conflict zone newId scope rawInput seen =
     run_after
       (and_then (authorized EventAuthorizationError (findAuthorizedEvent seen scope MembershipRole.ADMIN)) (\<lambda>(m, _, e).
        and_then (unless (\<not> event_open (ev_status e)) (EventLifecycleError ''Sessions cannot be added to this event.'')) (\<lambda>_.
        and_then (parsed (eventSessionInputSchema rawInput)) (\<lambda>input. Inr (m, e, input)))))
       (\<lambda>(m, e, input) db. catch_overlap (withSerializableRetry conflict (create_session_transaction zone newId m (ev_id e) input) db))"

definition update_session_transaction ::
  "zones \<Rightarrow> Membership \<Rightarrow> ident \<Rightarrow> ident \<Rightarrow> EventSessionInput \<Rightarrow> EventSession tx" where
  "update_session_transaction zone m eventId sessionId input db =
     (case find_row (\<lambda>s. ses_id s = sessionId \<and> ses_eventId s = eventId \<and> ses_status s = EventSessionStatus.DRAFT
             \<and> (case find_event db (ses_eventId s) of None \<Rightarrow> False | Some e \<Rightarrow> event_open (ev_status e))) (db_sessions db) of
        None \<Rightarrow> Inl (EventLifecycleError ''Only draft sessions can be edited.'')
      | Some x \<Rightarrow>
          and_then (loadAuthorizedConfiguration db (mem_organizationId m) input) (\<lambda>(v, s, seatMap).
          and_then (parseSessionTimes zone input (ven_timeZone v)) (\<lambda>dates.
          if findConflict db (spl_spaceId input) (sdr_startAt dates) (sdr_endAt dates) (Some (ses_id x)) \<noteq> None then Inl throwOverlap
          else then_session (ses_id x) (update_session (ses_id x) (replace_session v s seatMap dates) db))))"

definition updateDraftEventSession ::
  "(nat \<Rightarrow> bool) \<Rightarrow> zones \<Rightarrow> ('a SessionScope_scheme) \<Rightarrow> EventSessionInput \<Rightarrow> database \<Rightarrow> database
     \<Rightarrow> database \<times> (service_error + EventSession)" where
  "updateDraftEventSession conflict zone scope rawInput seen =
     run_after
       (and_then (authorized_session seen scope) (\<lambda>(m, e, s).
        and_then (assertEventAllowsSessionManagement (ev_status e)) (\<lambda>_.
        and_then (unless (\<not> canEditSession (ses_status s)) (EventLifecycleError ''Only draft sessions can be edited.'')) (\<lambda>_.
        and_then (parsed (eventSessionInputSchema rawInput)) (\<lambda>input. Inr (m, e, s, input))))))
       (\<lambda>(m, e, s, input) db.
          catch_overlap (withSerializableRetry conflict (update_session_transaction zone m (ev_id e) (ses_id s) input) db))"

section \<open>Publication\<close>

definition no_capacity_issue :: string where
  "no_capacity_issue = ''The published seat map must have positive sellable capacity.''"

definition no_tier_issue :: string where
  "no_tier_issue = ''Add at least one price tier.''"

definition getSessionPublicationReadiness ::
  "database \<Rightarrow> ident \<Rightarrow> service_error + EventSession \<times> PricingCoverage \<times> string list" where
  "getSessionPublicationReadiness db sessionId =
     (case find_session db sessionId of
        None \<Rightarrow> Inl EventAuthorizationError
      | Some s \<Rightarrow>
          let coverage = session_coverage db s
          in Inr (s, coverage, js_unique (cov_issues coverage @ issue_if (cov_totalSellable coverage \<le> 0) no_capacity_issue
               @ issue_if (length (session_tiers db (ses_id s)) = 0) no_tier_issue)))"

definition publication_issues :: "database \<Rightarrow> EventSession \<Rightarrow> time \<Rightarrow> string list" where
  "publication_issues db s now =
     (let coverage = session_coverage db s
      in cov_issues coverage
         @ issue_if (ses_startAt s \<le> now) ''The session start time must be in the future.''
         @ issue_if (ses_salesEndAt s \<le> now) ''The sales window has already ended.''
         @ issue_if (cov_totalSellable coverage \<le> 0) no_capacity_issue
         @ issue_if (length (session_tiers db (ses_id s)) = 0) no_tier_issue
         @ issue_if (findConflict db (ses_spaceId s) (ses_startAt s) (ses_endAt s) (Some (ses_id s)) \<noteq> None)
             ''Another non-cancelled session overlaps this space and time.'')"

definition publication_status :: "EventSession \<Rightarrow> time \<Rightarrow> EventSessionStatus" where
  "publication_status s now =
     (if ses_salesStartAt s \<le> now \<and> now < ses_salesEndAt s then EventSessionStatus.ON_SALE else EventSessionStatus.SCHEDULED)"

definition session_place :: "EventSession \<Rightarrow> SessionPlace" where
  "session_place s = \<lparr>spl_venueId = ses_venueId s, spl_spaceId = ses_spaceId s, spl_seatMapId = ses_seatMapId s\<rparr>"

definition session_range :: "EventSession \<Rightarrow> SessionDateRange" where
  "session_range s = \<lparr>sdr_startAt = ses_startAt s, sdr_endAt = ses_endAt s, sdr_salesStartAt = ses_salesStartAt s,
     sdr_salesEndAt = ses_salesEndAt s\<rparr>"

definition open_session :: "EventSessionStatus \<Rightarrow> time \<Rightarrow> EventSession \<Rightarrow> EventSession" where
  "open_session status now s = s\<lparr>ses_status := status, ses_publishedAt := Some now\<rparr>"

definition publish_draft :: "inventory_draw \<Rightarrow> Membership \<Rightarrow> EventSession \<Rightarrow> time \<Rightarrow> EventSession tx" where
  "publish_draft draw m s now db =
     and_then (loadAuthorizedConfiguration db (mem_organizationId m) (session_place s)) (\<lambda>_.
     and_then (parsed (sessionDateRangeSchema (session_range s))) (\<lambda>_.
     and_then (unless (publication_issues db s now \<noteq> []) (EventValidationError (js_unique (publication_issues db s now)))) (\<lambda>_.
     and_then (ensureSessionInventory draw (ses_id s) now db) (\<lambda>(db1, _).
     then_session (ses_id s) (update_session (ses_id s) (open_session (publication_status s now) now) db1)))))"

definition publish_session_transaction ::
  "inventory_draw \<Rightarrow> Membership \<Rightarrow> ident \<Rightarrow> ident \<Rightarrow> time \<Rightarrow> EventSession tx" where
  "publish_session_transaction draw m eventId sessionId now db =
     (case find_row (\<lambda>s. ses_id s = sessionId \<and> ses_eventId s = eventId) (db_sessions db) of
        None \<Rightarrow> Inl EventAuthorizationError
      | Some s \<Rightarrow>
          if published_session_status (ses_status s) then Inr (db, s)
          else if ses_status s \<noteq> EventSessionStatus.DRAFT
          then Inl (EventLifecycleError ''This session cannot be published from its current state.'')
          else if \<not> (case find_event db (ses_eventId s) of None \<Rightarrow> False | Some e \<Rightarrow> event_open (ev_status e))
          then Inl (EventLifecycleError ''The parent event is not eligible for session publication.'')
          else publish_draft draw m s now db)"

lemma publish_draft_Inr:
  "publish_draft draw m s now db = Inr (db', s') \<longleftrightarrow>
     (\<exists>place. loadAuthorizedConfiguration db (mem_organizationId m) (session_place s) = Inr place)
     \<and> (\<exists>range. sessionDateRangeSchema (session_range s) = Some range) \<and> publication_issues db s now = []
     \<and> (\<exists>db1 result. ensureSessionInventory draw (ses_id s) now db = Inr (db1, result)
          \<and> update_session (ses_id s) (open_session (publication_status s now) now) db1 = Inr db') \<and> find_session db' (ses_id s) = Some s'"
  unfolding publish_draft_def by (auto simp: and_then_eq_Inr unless_Inr then_session_Inr)

definition publishEventSession ::
  "(nat \<Rightarrow> bool) \<Rightarrow> inventory_draw \<Rightarrow> ('a SessionScope_scheme) \<Rightarrow> time \<Rightarrow> database \<Rightarrow> database
     \<Rightarrow> database \<times> (service_error + EventSession)" where
  "publishEventSession conflict draw scope now seen =
     run_after (authorized_session seen scope)
       (\<lambda>(m, e, s) db.
          catch_overlap (withSerializableRetry conflict (publish_session_transaction draw m (ev_id e) (ses_id s) now) db))"

section \<open>Pausing, resuming and cancelling\<close>

definition pauseEventSessionSales ::
  "('a SessionScope_scheme) \<Rightarrow> database \<Rightarrow> database \<Rightarrow> database \<times> (service_error + EventSession)" where
  "pauseEventSessionSales scope seen =
     run_service
       (and_then (authorized_session seen scope) (\<lambda>(_, e, s).
        and_then (assertEventAllowsSessionManagement (ev_status e)) (\<lambda>_.
        and_then (unless (\<not> canPauseSessionSales (ses_status s)) (EventLifecycleError ''Only an on-sale session can be paused.'')) (\<lambda>_.
        Inr s))))
       (\<lambda>s db. then_session (ses_id s) (update_session (ses_id s) (\<lambda>x. x\<lparr>ses_status := EventSessionStatus.SALES_PAUSED\<rparr>) db))"

definition resumeEventSessionSales ::
  "('a SessionScope_scheme) \<Rightarrow> time \<Rightarrow> database \<Rightarrow> database \<Rightarrow> database \<times> (service_error + EventSession)" where
  "resumeEventSessionSales scope now seen =
     run_service
       (and_then (authorized_session seen scope) (\<lambda>(_, e, s).
        and_then (assertEventAllowsSessionManagement (ev_status e)) (\<lambda>_.
        and_then (unless (ses_status s \<notin> {EventSessionStatus.SCHEDULED, EventSessionStatus.SALES_PAUSED})
          (EventLifecycleError ''Only a scheduled or paused session can open sales.'')) (\<lambda>_.
        and_then (unless (now < ses_salesStartAt s \<or> ses_salesEndAt s \<le> now)
          (EventLifecycleError ''Sales can open only inside the configured sales window.'')) (\<lambda>_.
        Inr s)))))
       (\<lambda>s db. then_session (ses_id s) (update_session (ses_id s) (\<lambda>x. x\<lparr>ses_status := EventSessionStatus.ON_SALE\<rparr>) db))"

definition cancel_session :: "time \<Rightarrow> EventSession \<Rightarrow> EventSession" where
  "cancel_session now s = s\<lparr>ses_status := EventSessionStatus.CANCELLED, ses_cancelledAt := Some now\<rparr>"

text \<open>Releasing the holds of a cancelled session and announcing it; the locks taken before change nothing.\<close>

definition close_session :: "ident \<Rightarrow> time \<Rightarrow> database \<Rightarrow> service_error + database" where
  "close_session sessionId now db =
     enqueueInventoryEvent InventoryEventType.SESSION_CANCELLED sessionId (Some sessionId) (''session-cancelled:'' @ sessionId) now
       (fst (releaseActiveHoldsForSession sessionId now db))"

definition cancel_session_transaction :: "ident \<Rightarrow> time \<Rightarrow> EventSession tx" where
  "cancel_session_transaction sessionId now db =
     and_then (then_session sessionId (update_session sessionId (cancel_session now) db)) (\<lambda>(db1, cancelled).
     and_then (close_session sessionId now db1) (\<lambda>db2. Inr (db2, cancelled)))"

definition cancelEventSession ::
  "(nat \<Rightarrow> bool) \<Rightarrow> ('a SessionScope_scheme) \<Rightarrow> time \<Rightarrow> database \<Rightarrow> database \<Rightarrow> database \<times> (service_error + EventSession)" where
  "cancelEventSession conflict scope now seen =
     run_after (authorized_session seen scope)
       (\<lambda>(_, e, s) db.
          if ses_status s = EventSessionStatus.CANCELLED then (db, Inr s)
          else case and_then (assertEventAllowsSessionManagement (ev_status e))
                      (\<lambda>_. unless (\<not> canCancelSession (ses_status s)) (EventLifecycleError ''This session cannot be cancelled.'')) of
                 Inl err \<Rightarrow> (db, Inl err)
               | Inr _ \<Rightarrow> withSerializableRetry conflict (cancel_session_transaction (ses_id s) now) db)"

end
