(* ===== verification/Publication.thy ===== *)
theory Publication
  imports Session_Service "HOL-Library.Sublist"
begin

text \<open>
  What the publication of a session puts on sale: one available row for every active seat of its
  map, at the price of the tier assigned to the seat's section.
\<close>

section \<open>Materialization\<close>

lemma subseq_mem: "subseq xs ys \<Longrightarrow> x \<in> set xs \<Longrightarrow> x \<in> set ys"
  by (erule list_emb_set) auto

lemma create_inventory_Inr:
  assumes "create_inventory rows db = Inr (db', n)"
  shows "\<exists>new. db' = db\<lparr>db_inventory := db_inventory db @ new\<rparr> \<and> n = length new \<and> subseq new rows
    \<and> distinct (map inventory_key new) \<and> (\<forall>i\<in>set new. inventory_key i \<notin> inventory_key ` set (db_inventory db))
    \<and> distinct (map inv_id new) \<and> (\<forall>i\<in>set new. inv_id i \<notin> inv_id ` set (db_inventory db))
    \<and> (\<forall>i\<in>set rows. inventory_row_ok i)"
  using assms
proof (induction rows arbitrary: db db' n)
  case (Cons i rows)
  show ?case
  proof (cases "has_key inventory_key (inventory_key i) (db_inventory db) \<or> has_key inv_id (inv_id i) (db_inventory db)")
    case True
    with Cons.prems have "create_inventory rows db = Inr (db', n)" "inventory_row_ok i" by (auto simp: and_then_eq_Inr unless_Inr)
    from Cons.IH [OF this(1)] this(2) show ?thesis by (metis list_emb_Cons set_ConsD)
  next
    case False
    with Cons.prems obtain k where run: "create_inventory rows (db\<lparr>db_inventory := db_inventory db @ [i]\<rparr>) = Inr (db', k)" "n = Suc k"
      and ok: "inventory_row_ok i"
      by (auto simp: and_then_eq_Inr unless_Inr insert_row_def)
    from Cons.IH [OF run(1)] obtain new where new: "db' = db\<lparr>db_inventory := db_inventory db @ i # new\<rparr>" "k = length new"
      "subseq new rows" "distinct (map inventory_key new)" "distinct (map inv_id new)" "\<forall>i\<in>set rows. inventory_row_ok i"
      "\<forall>j\<in>set new. inventory_key j \<notin> inventory_key ` set (db_inventory db @ [i])"
      "\<forall>j\<in>set new. inv_id j \<notin> inv_id ` set (db_inventory db @ [i])"
      by auto
    from new False run(2) ok show ?thesis
      by (intro exI [of _ "i # new"]) (auto simp: has_key_def)
  qed
qed simp

lemma announce_Inr:
  assumes "announce_inventory draw sessionId created now db = Inr db'"
  shows "db' = db \<or> materialization_key draw sessionId \<notin> set (outbox_keys db) \<and> db' = db\<lparr>db_invOutbox := db_invOutbox db
    @ [iev_row InventoryEventType.INVENTORY_MATERIALIZED sessionId None (materialization_key draw sessionId) now]\<rparr>"
  using assms unfolding announce_inventory_def by (auto simp: enqueue_event_Inr split: if_split_asm)

lemma announce_tables:
  assumes "announce_inventory draw sessionId created now db = Inr db'"
  shows "db_inventory db' = db_inventory db" "db_sessions db' = db_sessions db" "db_catalogue db' = db_catalogue db"
    "db_events db' = db_events db"
  using announce_Inr [OF assms] by auto

lemma materialize_Inr:
  assumes "materializeSessionInventory draw sessionId now db = Inr (db', result)" "find_session db sessionId = Some s"
  obtains db1 where
    "create_inventory (map (new_inventory (idr_inventoryId draw) db sessionId) (session_rows db s)) db = Inr (db1, mrs_created result)"
    "announce_inventory draw sessionId (mrs_created result) now db1 = Inr db'"
    "mrs_sellableCapacity result = length (session_rows db s)" "mrs_total result = length (inventory_of db1 sessionId)"
  using assms unfolding materializeSessionInventory_def Let_def
  by (auto simp: and_then_eq_Inr split: prod.splits)

lemma create_inventory_tables:
  assumes "create_inventory rows db = Inr (db', n)"
  shows "db_sessions db' = db_sessions db" "db_catalogue db' = db_catalogue db" "db_events db' = db_events db"
  using create_inventory_Inr [OF assms] by auto

lemma ensure_tables:
  assumes "ensureSessionInventory draw sessionId now db = Inr (db', result)"
  shows "db_sessions db' = db_sessions db" "db_catalogue db' = db_catalogue db" "db_events db' = db_events db"
proof -
  from assms have mat: "materializeSessionInventory draw sessionId now db = Inr (db', result)"
    by (auto simp: ensureSessionInventory_def and_then_eq_Inr split: if_split_asm)
  then obtain s where s: "find_session db sessionId = Some s" by (auto simp: materializeSessionInventory_def split: option.splits)
  from mat s obtain db1 where 1: "create_inventory (map (new_inventory (idr_inventoryId draw) db sessionId) (session_rows db s)) db
      = Inr (db1, mrs_created result)" and 2: "announce_inventory draw sessionId (mrs_created result) now db1 = Inr db'"
    by (rule materialize_Inr)
  show "db_sessions db' = db_sessions db" "db_catalogue db' = db_catalogue db" "db_events db' = db_events db"
    using create_inventory_tables [OF 1] announce_tables [OF 2] by simp_all
qed

text \<open>
  When the total is the capacity and nothing was there before, every row was created.
\<close>

lemma ensure_Inr:
  assumes run: "ensureSessionInventory draw sessionId now db = Inr (db', result)"
    and s: "find_session db sessionId = Some s" and none: "inventory_of db sessionId = []"
  shows "inventory_of db' sessionId = map (new_inventory (idr_inventoryId draw) db sessionId) (session_rows db s)
    \<and> distinct (map mat_seatId (session_rows db s)) \<and> db_sessions db' = db_sessions db \<and> db_catalogue db' = db_catalogue db"
proof -
  let ?new = "map (new_inventory (idr_inventoryId draw) db sessionId) (session_rows db s)"
  from run have mat: "materializeSessionInventory draw sessionId now db = Inr (db', result)"
    and total: "mrs_total result = mrs_sellableCapacity result"
    by (auto simp: ensureSessionInventory_def and_then_eq_Inr split: if_split_asm)
  from mat s obtain db1 where db1: "create_inventory ?new db = Inr (db1, mrs_created result)"
    and announce: "announce_inventory draw sessionId (mrs_created result) now db1 = Inr db'"
    and count: "length (inventory_of db1 sessionId) = length (session_rows db s)"
    by (rule materialize_Inr) (use total in simp)
  note same = announce_tables [OF announce]
  from create_inventory_Inr [OF db1] obtain new where new: "db1 = db\<lparr>db_inventory := db_inventory db @ new\<rparr>"
    "subseq new ?new" "distinct (map inventory_key new)" by blast
  have own: "inv_sessionId i = sessionId" if "i \<in> set new" for i
    using subseq_mem [OF new(2) that] by (auto simp: new_inventory_def)
  then have "inventory_of db1 sessionId = new"
    using none by (simp add: new(1) inventory_of_def select_rows_def filter_id_conv)
  with count new(2) have all: "new = ?new" by (simp add: subseq_same_length)
  have "inj_on snd (inventory_key ` set new)" using own by (force simp: inj_on_def inventory_key_def)
  with new(3) have "distinct (map (snd \<circ> inventory_key) new)"
    by (metis distinct_map list.map_comp list.set_map)
  then have "distinct (map mat_seatId (session_rows db s))"
    by (simp add: all comp_def inventory_key_def new_inventory_def)
  with all new(1) \<open>inventory_of db1 sessionId = new\<close> show ?thesis by (simp add: same inventory_of_def)
qed

section \<open>Coverage\<close>

lemma assignment_issues_Nil:
  "assignment_issues sections tiers assigned assignments = [] \<Longrightarrow> a \<in> set assignments \<Longrightarrow> tier_by_id tiers (spr_priceTierId a) \<noteq> None"
  by (induction assignments arbitrary: assigned) auto

lemma assigned_tier_mem: "assigned_tier assignments sectionId = Some i \<Longrightarrow> \<exists>a\<in>set assignments. spr_priceTierId a = i"
  by (auto simp: assigned_tier_def dest!: js_map_get_SomeD)

definition active_seats :: "seat_graph \<Rightarrow> Seat list" where
  "active_seats g = filter (\<lambda>t. seat_state t = SeatState.ACTIVE) (graph_seats g)"

lemma coverage_complete:
  assumes issues: "cov_issues (calculatePricingCoverage g tiers assignments) = []" and ids: "\<forall>t\<in>set tiers. tier_id t \<noteq> []"
  shows "map mat_seatId (computeSessionInventoryRows g tiers assignments) = map seat_id (active_seats g)"
proof -
  let ?active = "\<lambda>s. filter (\<lambda>t. seat_state t = SeatState.ACTIVE) (section_seats s)"
  from issues have assigned: "assignment_issues g tiers [] assignments = []"
    and priced: "\<And>s. s \<in> set g \<Longrightarrow> unpriced_issue assignments s = []"
    by (simp_all add: calculatePricingCoverage_def Let_def)
  have sec: "map mat_seatId (section_inventory tiers assignments s) = map seat_id (?active s)" if "s \<in> set g" for s
  proof (cases "?active s = []")
    case False
    have "unpriced_issue assignments s = []" using that by (rule priced)
    with False obtain i where i: "assigned_tier assignments (sec_id (gsec_section s)) = Some i"
      by (auto simp: unpriced_issue_def sellable_seats_def)
    then obtain t where t: "tier_by_id tiers i = Some t"
      using assigned_tier_mem [OF i] assignment_issues_Nil [OF assigned] by blast
    then have "t \<in> set tiers" "tier_id t = i" by (auto simp: tier_by_id_def dest!: js_map_get_SomeD)
    with ids have "i \<noteq> []" by blast
    with i t show ?thesis by (simp add: section_inventory_def tier_of_section_def inventory_row_def comp_def)
  qed (simp add: section_inventory_def split: option.split)
  have "concat (map (\<lambda>s. map mat_seatId (section_inventory tiers assignments s)) h) = concat (map (\<lambda>s. map seat_id (?active s)) h)"
    if "set h \<subseteq> set g" for h
    using that sec by (induction h) auto
  from this [of g] show ?thesis
    by (simp add: computeSessionInventoryRows_def active_seats_def graph_seats_def map_concat filter_concat comp_def)
qed

text \<open>Every row carries the price of the tier that its section is assigned to.\<close>

lemma tier_of_section_Some:
  assumes "tier_of_section tiers assignments s = Some t"
  shows "t \<in> set tiers" "assigned_tier assignments (sec_id (gsec_section s)) = Some (tier_id t)"
  using assms by (auto simp: tier_of_section_def tier_by_id_def dest!: js_map_get_SomeD split: option.splits if_split_asm)

lemma inventory_row_priced:
  assumes "r \<in> set (computeSessionInventoryRows g tiers assignments)"
  shows "\<exists>t\<in>set tiers. mat_priceTierId r = tier_id t \<and> mat_priceMinor r = tier_priceMinor t \<and> mat_currency r = tier_currency t
    \<and> assigned_tier assignments (mat_sectionId r) = Some (tier_id t)"
proof -
  from assms obtain s t seat where "tier_of_section tiers assignments s = Some t" "r = inventory_row s t seat"
    by (auto simp: computeSessionInventoryRows_def section_inventory_def split: option.splits) (metis (no_types))
  with tier_of_section_Some [OF this(1)] show ?thesis by (auto simp: inventory_row_def)
qed

lemma coverage_total: "cov_totalSellable (calculatePricingCoverage g tiers assignments) = length (active_seats g)"
  by (simp add: calculatePricingCoverage_def Let_def section_capacity_def sellable_seats_def active_seats_def graph_seats_def
      comp_def length_concat filter_concat)

section \<open>The transaction\<close>

lemma update_session_Inr:
  assumes "update_session i f db = Inr db'"
  shows "db' = db\<lparr>db_sessions := update_rows (\<lambda>s. ses_id s = i) f (db_sessions db)\<rparr>"
  using assms by (auto simp: update_session_def update_sessions_def Let_def and_then_eq_Inr unless_Inr split: if_split_asm)

lemma publish_Inr:
  assumes run: "publish_session_transaction draw m eventId sessionId now db = Inr (db', s')"
    and keys: "distinct (map ses_id (db_sessions db))"
    and s: "find_session db sessionId = Some s" "ses_status s = EventSessionStatus.DRAFT"
  obtains db1 result where "publication_issues db s now = []" "ensureSessionInventory draw sessionId now db = Inr (db1, result)"
    "update_session sessionId (open_session (publication_status s now) now) db1 = Inr db'" "find_session db' sessionId = Some s'"
proof -
  let ?own = "find_row (\<lambda>s. ses_id s = sessionId \<and> ses_eventId s = eventId) (db_sessions db)"
  from run obtain x where x: "?own = Some x"
    by (auto simp: publish_session_transaction_def split: option.splits)
  have "x \<in> set (db_sessions db)" "ses_id x = sessionId" using tbl.find_SomeD [OF x] by simp_all
  moreover have "s \<in> set (db_sessions db)" "ses_id s = sessionId"
    using tbl.find_SomeD [OF s(1) [unfolded find_session_def]] by simp_all
  ultimately have "x = s" "ses_id s = sessionId" using keys by (simp_all add: distinct_map inj_on_def)
  moreover have "\<not> published_session_status (ses_status s)" using s(2) by (simp add: published_session_status_def)
  ultimately have "publish_draft draw m s now db = Inr (db', s')"
    using run x s(2) by (simp add: publish_session_transaction_def split: if_split_asm)
  with that \<open>ses_id s = sessionId\<close> show thesis unfolding publish_draft_Inr by blast
qed

definition fully_on_sale :: "database \<Rightarrow> EventSession \<Rightarrow> time \<Rightarrow> database \<Rightarrow> EventSession \<Rightarrow> bool" where
  "fully_on_sale db s now db' s' \<longleftrightarrow>
     map inv_seatId (inventory_of db' (ses_id s)) = map seat_id (active_seats (session_graph db s))
     \<and> active_seats (session_graph db s) \<noteq> [] \<and> distinct (map inv_seatId (inventory_of db' (ses_id s)))
     \<and> (\<forall>i\<in>set (inventory_of db' (ses_id s)). inv_state i = SeatInventoryState.AVAILABLE \<and> inv_currentHoldId i = None
         \<and> (\<exists>t\<in>set (session_tiers db (ses_id s)). inv_priceTierId i = tier_id t \<and> inv_priceMinor i = tier_priceMinor t
              \<and> inv_currency i = tier_currency t
              \<and> assigned_tier (session_pricing db (ses_id s)) (inv_sectionId i) = Some (tier_id t)))
     \<and> ses_status s' \<in> {EventSessionStatus.SCHEDULED, EventSessionStatus.ON_SALE} \<and> ses_publishedAt s' = Some now"

lemma publish_transaction_sells:
  assumes run: "publish_session_transaction draw m eventId sessionId now db = Inr (db', s')"
    and keys: "distinct (map ses_id (db_sessions db))" and tiers: "\<forall>t\<in>set (session_tiers db sessionId). tier_id t \<noteq> []"
    and s: "find_session db sessionId = Some s" "ses_status s = EventSessionStatus.DRAFT"
    and none: "inventory_of db sessionId = []"
  shows "fully_on_sale db s now db' s'"
proof -
  from run keys s obtain db1 result where issues: "publication_issues db s now = []"
    and ensure: "ensureSessionInventory draw sessionId now db = Inr (db1, result)"
    and update: "update_session sessionId (open_session (publication_status s now) now) db1 = Inr db'"
    and s': "find_session db' sessionId = Some s'" by (rule publish_Inr)
  have own: "ses_id s = sessionId" using s(1) by (auto simp: find_session_def dest!: tbl.find_SomeD)
  note db' = update_session_Inr [OF update]
  have inv: "inventory_of db' sessionId = map (new_inventory (idr_inventoryId draw) db sessionId) (session_rows db s)"
    and dist: "distinct (map mat_seatId (session_rows db s))"
    using ensure_Inr [OF ensure s(1) none] by (simp_all add: db' inventory_of_def)
  from issues have "cov_issues (session_coverage db s) = []" and some: "0 < cov_totalSellable (session_coverage db s)"
    by (simp_all add: publication_issues_def Let_def)
  then have seats: "map mat_seatId (session_rows db s) = map seat_id (active_seats (session_graph db s))"
    unfolding session_coverage_def session_rows_def using tiers own by (intro coverage_complete) simp_all
  have ids: "map inv_seatId (inventory_of db' sessionId) = map mat_seatId (session_rows db s)"
    by (simp add: inv new_inventory_def)
  have mem: "s' \<in> set (db_sessions db')" and s'_id: "ses_id s' = sessionId"
    using tbl.find_SomeD [OF s' [unfolded find_session_def]] by simp_all
  from mem have "s' \<in> set (update_rows (\<lambda>x. ses_id x = sessionId) (open_session (publication_status s now) now) (db_sessions db1))"
    by (simp add: db')
  then obtain r where "s' = (if ses_id r = sessionId then open_session (publication_status s now) now r else r)"
    unfolding tbl.mem_update by blast
  with s'_id have "s' = open_session (publication_status s now) now r" by (simp split: if_split_asm)
  then have "ses_status s' = publication_status s now" "ses_publishedAt s' = Some now" by (simp_all add: open_session_def)
  moreover have "active_seats (session_graph db s) \<noteq> []"
    using some by (auto simp: session_coverage_def coverage_total)
  moreover have rows: "\<forall>r\<in>set (session_rows db s). \<exists>t\<in>set (session_tiers db sessionId). mat_priceTierId r = tier_id t
      \<and> mat_priceMinor r = tier_priceMinor t \<and> mat_currency r = tier_currency t
      \<and> assigned_tier (session_pricing db sessionId) (mat_sectionId r) = Some (tier_id t)"
    unfolding session_rows_def own by (intro ballI inventory_row_priced)
  have "\<forall>i\<in>set (inventory_of db' sessionId). inv_state i = SeatInventoryState.AVAILABLE \<and> inv_currentHoldId i = None
         \<and> (\<exists>t\<in>set (session_tiers db sessionId). inv_priceTierId i = tier_id t \<and> inv_priceMinor i = tier_priceMinor t
              \<and> inv_currency i = tier_currency t
              \<and> assigned_tier (session_pricing db sessionId) (inv_sectionId i) = Some (tier_id t))"
    using rows by (simp add: inv new_inventory_def)
  ultimately show ?thesis
    unfolding fully_on_sale_def own by (simp add: ids seats [symmetric] dist) (simp add: seats publication_status_def)
qed

lemma authorized_session_id: "authorized_session seen scope = Inr (m, e, s) \<Longrightarrow> ses_id s = osc_sessionId scope"
  by (auto simp: authorized_session_def authorized_Inr findAuthorizedEventSession_def and_then_eq_Inr dest!: tbl.find_SomeD
      split: option.splits)

lemma retry_Inr: "withSerializableRetry conflict body db = (db', Inr x) \<Longrightarrow> body db = Inr (db', x)"
  using serializable_retry_cases [of conflict body db] transact_Inr [of body db db' x] by auto

text \<open>C7: Publishing a draft session puts exactly the active seats of its map on sale: in the order of the map, one
  row per seat, available, not held, at the price and in the currency of the tier its section is assigned to; there is
  at least one, and the session is SCHEDULED or ON_SALE.\<close>

theorem publication_sells_every_seat:
  assumes run: "publishEventSession conflict draw scope now seen db = (db', Inr s')"
    and keys: "distinct (map ses_id (db_sessions db))" "\<forall>t\<in>set (session_tiers db (osc_sessionId scope)). tier_id t \<noteq> []"
    and s: "find_session db (osc_sessionId scope) = Some s" "ses_status s = EventSessionStatus.DRAFT"
    and none: "inventory_of db (osc_sessionId scope) = []"
  shows "map inv_seatId (inventory_of db' (osc_sessionId scope)) = map seat_id (active_seats (session_graph db s))
     \<and> active_seats (session_graph db s) \<noteq> [] \<and> distinct (map inv_seatId (inventory_of db' (osc_sessionId scope)))
     \<and> (\<forall>i\<in>set (inventory_of db' (osc_sessionId scope)). inv_state i = SeatInventoryState.AVAILABLE \<and> inv_currentHoldId i = None
         \<and> (\<exists>t\<in>set (session_tiers db (osc_sessionId scope)). inv_priceTierId i = tier_id t \<and> inv_priceMinor i = tier_priceMinor t
              \<and> inv_currency i = tier_currency t
              \<and> assigned_tier (session_pricing db (osc_sessionId scope)) (inv_sectionId i) = Some (tier_id t)))
     \<and> ses_status s' \<in> {EventSessionStatus.SCHEDULED, EventSessionStatus.ON_SALE} \<and> ses_publishedAt s' = Some now"
proof -
  from run obtain m e x where x: "authorized_session seen scope = Inr (m, e, x)"
    and tx: "publish_session_transaction draw m (ev_id e) (ses_id x) now db = Inr (db', s')"
    by (auto simp: publishEventSession_def run_after_def dest!: retry_Inr split: sum.splits)
  have own: "ses_id s = osc_sessionId scope" using tbl.find_SomeD [OF s(1) [unfolded find_session_def]] by simp
  show ?thesis
    using publish_transaction_sells [OF tx [unfolded authorized_session_id [OF x]] keys s none] unfolding fully_on_sale_def own .
qed

end
