(* ===== verification/Event_Service.thy ===== *)
theory Event_Service
  imports Session_Service
begin

text \<open>
  Events (src/server/events/event-service.ts). \<open>seen\<close> is what a service reads before it writes.
\<close>

section \<open>Content\<close>

definition event_slug_taken :: service_error where
  "event_slug_taken = EventConflictError ''An event in this organizer workspace already uses that slug.''"

definition input_slug :: "EventInput \<Rightarrow> string" where
  "input_slug input = (case evi_slug input of None \<Rightarrow> createEventSlug (evi_title input) | Some slug \<Rightarrow> slug)"

definition new_event :: "ident \<Rightarrow> Organization \<Rightarrow> Membership \<Rightarrow> EventInput \<Rightarrow> Event" where
  "new_event i org m input =
     \<lparr>ev_id = i, ev_title = evi_title input, ev_slug = input_slug input,
      ev_publicSlug = createPublicEventSlug (org_slug org) (input_slug input), ev_shortDescription = evi_shortDescription input,
      ev_description = evi_description input, ev_category = evi_category input, ev_imagePath = evi_imagePath input,
      ev_status = EventStatus.DRAFT, ev_preArchiveStatus = None, ev_publishedAt = None, ev_cancelledAt = None,
      ev_archivedAt = None, ev_organizerOrganizationId = mem_organizationId m\<rparr>"

definition then_event :: "ident \<Rightarrow> service_error + database \<Rightarrow> service_error + database \<times> Event" where
  "then_event i m = and_then m (\<lambda>db. case find_event db i of None \<Rightarrow> Inl RecordNotFound | Some e \<Rightarrow> Inr (db, e))"

lemma then_event_Inr: "then_event i m = Inr (db, e) \<longleftrightarrow> m = Inr db \<and> find_event db i = Some e"
  by (auto simp: then_event_def and_then_eq_Inr split: option.splits)

definition createEvent ::
  "ident \<Rightarrow> ('a OrganizerScope_scheme) \<Rightarrow> EventInput \<Rightarrow> database \<Rightarrow> database \<Rightarrow> database \<times> (service_error + Event)" where
  "createEvent newId scope rawInput seen db =
     catch_unique event_slug_taken (run_service
       (and_then (authorized EventAuthorizationError
          (findAuthorizedOrganizerOrganization seen (osc_userId scope) (osc_organizationSlug scope) MembershipRole.ADMIN)) (\<lambda>(m, org).
        and_then (parsed (eventInputSchema rawInput)) (\<lambda>input. Inr (m, org, input))))
       (\<lambda>(m, org, input) db. let e = new_event newId org m input in returning e (create_event e db)) db)"

text \<open>An absent image path is \<open>undefined\<close>, which Prisma does not write.\<close>

definition edit_event :: "Organization \<Rightarrow> EventInput \<Rightarrow> Event \<Rightarrow> Event" where
  "edit_event org input e =
     e\<lparr>ev_title := evi_title input, ev_slug := input_slug input,
       ev_publicSlug := createPublicEventSlug (org_slug org) (input_slug input), ev_shortDescription := evi_shortDescription input,
       ev_description := evi_description input, ev_category := evi_category input,
       ev_imagePath := (case evi_imagePath input of None \<Rightarrow> ev_imagePath e | Some path \<Rightarrow> Some path)\<rparr>"

definition authorized_event :: "database \<Rightarrow> ('a EventScope_scheme) \<Rightarrow> service_error + Membership \<times> Organization \<times> Event" where
  "authorized_event seen scope = authorized EventAuthorizationError (findAuthorizedEvent seen scope MembershipRole.ADMIN)"

definition updateEvent ::
  "('a EventScope_scheme) \<Rightarrow> EventInput \<Rightarrow> database \<Rightarrow> database \<Rightarrow> database \<times> (service_error + Event)" where
  "updateEvent scope rawInput seen db =
     catch_unique event_slug_taken (run_service
       (and_then (authorized_event seen scope) (\<lambda>(_, org, e).
        and_then (unless (\<not> canEditEvent (ev_status e)) (EventLifecycleError ''Only draft event content can be edited.'')) (\<lambda>_.
        and_then (parsed (eventInputSchema rawInput)) (\<lambda>input. Inr (org, e, input)))))
       (\<lambda>(org, e, input) db. then_event (ev_id e) (update_event (ev_id e) (edit_event org input) db)) db)"

section \<open>Publication\<close>

definition sellable_session :: "database \<Rightarrow> ident \<Rightarrow> time \<Rightarrow> EventSession \<Rightarrow> bool" where
  "sellable_session db eventId now s \<longleftrightarrow>
     ses_eventId s = eventId \<and> ses_publishedAt s \<noteq> None \<and> published_session_status (ses_status s) \<and> now < ses_startAt s
     \<and> cov_issues (session_coverage db s) = [] \<and> 0 < cov_totalSellable (session_coverage db s)
     \<and> 0 < length (session_tiers db (ses_id s))"

definition own_event :: "Membership \<Rightarrow> ident \<Rightarrow> database \<Rightarrow> Event option" where
  "own_event m eventId db =
     find_row (\<lambda>e. ev_id e = eventId \<and> ev_organizerOrganizationId e = mem_organizationId m) (db_events db)"

definition not_publishable :: service_error where
  "not_publishable = EventLifecycleError ''This event cannot be published from its current state.''"

definition publish_event_transaction :: "Membership \<Rightarrow> ident \<Rightarrow> time \<Rightarrow> Event tx" where
  "publish_event_transaction m eventId now db =
     (case own_event m eventId db of
        None \<Rightarrow> Inl EventAuthorizationError
      | Some e \<Rightarrow>
          if ev_status e = EventStatus.PUBLISHED then Inr (db, e)
          else if ev_status e \<noteq> EventStatus.DRAFT then Inl not_publishable
          else if \<not> list_ex (sellable_session db (ev_id e) now) (db_sessions db)
          then Inl (EventValidationError
                 [''Publish at least one future session with complete pricing before publishing the event.''])
          else then_event (ev_id e)
                 (update_event (ev_id e) (\<lambda>x. x\<lparr>ev_status := EventStatus.PUBLISHED, ev_publishedAt := Some now\<rparr>) db))"

definition publishEvent ::
  "(nat \<Rightarrow> bool) \<Rightarrow> ('a EventScope_scheme) \<Rightarrow> time \<Rightarrow> database \<Rightarrow> database \<Rightarrow> database \<times> (service_error + Event)" where
  "publishEvent conflict scope now seen =
     run_after
       (and_then (authorized_event seen scope) (\<lambda>(m, _, e).
        and_then (unless (\<not> canPublishEvent (ev_status e)) not_publishable) (\<lambda>_. Inr (m, e))))
       (\<lambda>(m, e). withSerializableRetry conflict (publish_event_transaction m (ev_id e) now))"

section \<open>Cancellation\<close>

definition cancellable :: "ident \<Rightarrow> EventSession \<Rightarrow> bool" where
  "cancellable eventId s \<longleftrightarrow> ses_eventId s = eventId
     \<and> ses_status s \<notin> {EventSessionStatus.CANCELLED, EventSessionStatus.COMPLETED}"

fun close_sessions :: "ident list \<Rightarrow> time \<Rightarrow> database \<Rightarrow> service_error + database" where
  "close_sessions [] now db = Inr db"
| "close_sessions (i # rest) now db = and_then (close_session i now db) (close_sessions rest now)"

definition not_cancellable :: service_error where
  "not_cancellable = EventLifecycleError ''This event cannot be cancelled from its current state.''"

definition cancel_event_transaction :: "Membership \<Rightarrow> ident \<Rightarrow> time \<Rightarrow> Event tx" where
  "cancel_event_transaction m eventId now db =
     (case own_event m eventId db of
        None \<Rightarrow> Inl EventAuthorizationError
      | Some e \<Rightarrow>
          if ev_status e = EventStatus.CANCELLED then Inr (db, e)
          else if \<not> canCancelEvent (ev_status e) then Inl not_cancellable
          else let sessions = sort_key (map (of_char :: char \<Rightarrow> int)) (map ses_id (select_rows (cancellable (ev_id e)) (db_sessions db)))
               in and_then (update_sessions (cancellable (ev_id e)) (cancel_session now) db) (\<lambda>db1.
                  and_then (close_sessions sessions now db1) (\<lambda>db2.
                  then_event (ev_id e)
                    (update_event (ev_id e) (\<lambda>x. x\<lparr>ev_status := EventStatus.CANCELLED, ev_cancelledAt := Some now\<rparr>) db2))))"

definition cancelEvent ::
  "(nat \<Rightarrow> bool) \<Rightarrow> ('a EventScope_scheme) \<Rightarrow> time \<Rightarrow> database \<Rightarrow> database \<Rightarrow> database \<times> (service_error + Event)" where
  "cancelEvent conflict scope now seen =
     run_after (authorized_event seen scope)
       (\<lambda>(m, _, e) db.
          if ev_status e = EventStatus.CANCELLED then (db, Inr e)
          else if \<not> canCancelEvent (ev_status e) then (db, Inl not_cancellable)
          else withSerializableRetry conflict (cancel_event_transaction m (ev_id e) now) db)"

section \<open>Archive\<close>

definition archiveEvent ::
  "('a EventScope_scheme) \<Rightarrow> time \<Rightarrow> database \<Rightarrow> database \<Rightarrow> database \<times> (service_error + Event)" where
  "archiveEvent scope now seen =
     run_after (authorized_event seen scope)
       (\<lambda>(_, _, e) db.
          if ev_status e = EventStatus.ARCHIVED then (db, Inr e)
          else if \<not> canArchiveEvent (ev_status e) then (db, Inl (EventLifecycleError ''This event cannot be archived.''))
          else transact (\<lambda>db. then_event (ev_id e) (update_event (ev_id e)
                 (\<lambda>x. x\<lparr>ev_preArchiveStatus := Some (ev_status e), ev_status := EventStatus.ARCHIVED, ev_archivedAt := Some now\<rparr>) db)) db)"

definition restoreEvent ::
  "('a EventScope_scheme) \<Rightarrow> database \<Rightarrow> database \<Rightarrow> database \<times> (service_error + Event)" where
  "restoreEvent scope seen =
     run_service
       (and_then (authorized_event seen scope) (\<lambda>(_, _, e).
        and_then (unless (\<not> canRestoreEvent (ev_status e) (ev_preArchiveStatus e))
          (EventLifecycleError ''Only events archived from draft or published state can be restored.'')) (\<lambda>_.
        case ev_preArchiveStatus e of
          None \<Rightarrow> Inl (EventLifecycleError ''This archived event is not eligible for restore.'')
        | Some status \<Rightarrow>
            if status \<noteq> EventStatus.DRAFT \<and> status \<noteq> EventStatus.PUBLISHED
            then Inl (EventLifecycleError ''This archived event is not eligible for restore.'') else Inr (e, status))))
       (\<lambda>(e, status) db. then_event (ev_id e)
          (update_event (ev_id e) (\<lambda>x. x\<lparr>ev_status := status, ev_preArchiveStatus := None, ev_archivedAt := None\<rparr>) db))"

definition deleteEmptyDraftEvent ::
  "('a EventScope_scheme) \<Rightarrow> database \<Rightarrow> database \<Rightarrow> database \<times> (service_error + Event)" where
  "deleteEmptyDraftEvent scope seen =
     run_service
       (and_then (authorized_event seen scope) (\<lambda>(_, _, e).
        and_then (unless (ev_status e \<noteq> EventStatus.DRAFT) (EventLifecycleError ''Only an empty draft event can be deleted.'')) (\<lambda>_.
        and_then (unless (0 < length (select_rows (\<lambda>s. ses_eventId s = ev_id e) (db_sessions seen)))
          (EventLifecycleError ''Remove draft sessions before deleting this draft event.'')) (\<lambda>_. Inr e))))
       (\<lambda>e db. returning e (delete_event (ev_id e) db))"

end
