(* ===== verification/Pricing_Service.thy ===== *)
theory Pricing_Service
  imports Session_Service
begin

text \<open>
  Price tiers and the assignment of sections to them (src/server/events/pricing-service.ts).
\<close>

definition assertDraftPricing :: "EventSessionStatus \<Rightarrow> service_error + unit" where
  "assertDraftPricing status =
     unless (\<not> canEditSessionPricing status) (EventLifecycleError ''Pricing can only be changed on a draft session.'')"

definition assertEventAllowsPricing :: "EventStatus \<Rightarrow> service_error + unit" where
  "assertEventAllowsPricing status =
     unless (\<not> event_open status) (EventLifecycleError ''Restore an archived event before changing session pricing.'')"

definition priceable_session ::
  "database \<Rightarrow> ('a SessionScope_scheme) \<Rightarrow> service_error + Membership \<times> Event \<times> EventSession" where
  "priceable_session seen scope =
     and_then (authorized_session seen scope) (\<lambda>(m, e, s).
     and_then (assertEventAllowsPricing (ev_status e)) (\<lambda>_.
     and_then (assertDraftPricing (ses_status s)) (\<lambda>_. Inr (m, e, s))))"

definition priceable_tier ::
  "database \<Rightarrow> ('a SessionScope_scheme) \<Rightarrow> ident \<Rightarrow> service_error + SessionPriceTier \<times> Event \<times> EventSession" where
  "priceable_tier seen scope priceTierId =
     and_then (authorized EventAuthorizationError (findAuthorizedPriceTier seen scope priceTierId MembershipRole.ADMIN)) (\<lambda>(t, e, s).
     and_then (assertEventAllowsPricing (ev_status e)) (\<lambda>_.
     and_then (assertDraftPricing (ses_status s)) (\<lambda>_. Inr (t, e, s))))"

definition tier_code_taken :: service_error where
  "tier_code_taken = EventConflictError ''This session already has a tier with that code.''"

definition draft_session_of :: "ident \<Rightarrow> ident \<Rightarrow> database \<Rightarrow> service_error + EventSession" where
  "draft_session_of sessionId eventId db =
     (case find_row (\<lambda>s. ses_id s = sessionId \<and> ses_eventId s = eventId \<and> ses_status s = EventSessionStatus.DRAFT) (db_sessions db) of
        None \<Rightarrow> Inl (EventLifecycleError ''Pricing can only be changed on a draft session.'')
      | Some s \<Rightarrow> Inr s)"

section \<open>Tiers\<close>

definition new_tier :: "ident \<Rightarrow> ident \<Rightarrow> int \<Rightarrow> PriceTierInput \<Rightarrow> SessionPriceTier" where
  "new_tier i sessionId order input =
     \<lparr>tier_id = i, tier_sessionId = sessionId, tier_name = pti_name input, tier_code = pti_code input,
      tier_priceMinor = pti_priceMinor input, tier_currency = pti_currency input, tier_displayOrder = order,
      tier_description = pti_description input\<rparr>"

definition createSessionPriceTier ::
  "(nat \<Rightarrow> bool) \<Rightarrow> ident \<Rightarrow> ('a SessionScope_scheme) \<Rightarrow> PriceTierInput \<Rightarrow> database \<Rightarrow> database
     \<Rightarrow> database \<times> (service_error + SessionPriceTier)" where
  "createSessionPriceTier conflict newId scope rawInput seen =
     run_after
       (and_then (priceable_session seen scope) (\<lambda>(_, e, s).
        and_then (parsed (priceTierInputSchema rawInput)) (\<lambda>input. Inr (e, s, input))))
       (\<lambda>(e, s, input) db. catch_unique tier_code_taken (withSerializableRetry conflict (\<lambda>db.
          and_then (draft_session_of (ses_id s) (ev_id e) db) (\<lambda>x.
          let t = new_tier newId (ses_id x) (next_order tier_displayOrder (session_tiers db (ses_id x))) input
          in returning t (create_tier t db))) db))"

text \<open>An absent description is \<open>undefined\<close>, which Prisma does not write.\<close>

definition edit_tier :: "PriceTierInput \<Rightarrow> SessionPriceTier \<Rightarrow> SessionPriceTier" where
  "edit_tier input t =
     t\<lparr>tier_name := pti_name input, tier_code := pti_code input, tier_priceMinor := pti_priceMinor input,
       tier_currency := pti_currency input,
       tier_description := (case pti_description input of None \<Rightarrow> tier_description t | Some d \<Rightarrow> Some d)\<rparr>"

definition then_tier :: "ident \<Rightarrow> service_error + database \<Rightarrow> service_error + database \<times> SessionPriceTier" where
  "then_tier i m = and_then m (\<lambda>db. case find_tier db i of None \<Rightarrow> Inl RecordNotFound | Some t \<Rightarrow> Inr (db, t))"

definition updateSessionPriceTier ::
  "('a SessionScope_scheme) \<Rightarrow> ident \<Rightarrow> PriceTierInput \<Rightarrow> database \<Rightarrow> database
     \<Rightarrow> database \<times> (service_error + SessionPriceTier)" where
  "updateSessionPriceTier scope priceTierId rawInput seen db =
     catch_unique tier_code_taken (run_service
       (and_then (priceable_tier seen scope priceTierId) (\<lambda>(t, _).
        and_then (parsed (priceTierInputSchema rawInput)) (\<lambda>input. Inr (t, input))))
       (\<lambda>(t, input) db. then_tier (tier_id t) (update_tier (tier_id t) (edit_tier input) db)) db)"

definition deleteUnusedSessionPriceTier ::
  "('a SessionScope_scheme) \<Rightarrow> ident \<Rightarrow> database \<Rightarrow> database \<Rightarrow> database \<times> (service_error + SessionPriceTier)" where
  "deleteUnusedSessionPriceTier scope priceTierId seen =
     run_service
       (and_then (priceable_tier seen scope priceTierId) (\<lambda>(t, _).
        and_then (unless (0 < length (select_rows (\<lambda>p. spr_priceTierId p = tier_id t) (cat_pricing (db_catalogue seen))))
          (EventLifecycleError ''Unassign this tier from all sections before deleting it.'')) (\<lambda>_. Inr t)))
       (\<lambda>t db. returning t (delete_tier (tier_id t) db))"

definition moveSessionPriceTier ::
  "(nat \<Rightarrow> bool) \<Rightarrow> ('a SessionScope_scheme) \<Rightarrow> ident \<Rightarrow> MoveDirection \<Rightarrow> database \<Rightarrow> database
     \<Rightarrow> database \<times> (service_error + SessionPriceTier)" where
  "moveSessionPriceTier conflict scope priceTierId direction seen =
     run_after (priceable_tier seen scope priceTierId)
       (\<lambda>(t, _, s). withSerializableRetry conflict (\<lambda>db.
          case neighbour direction (\<lambda>x. tier_id x = tier_id t)
                 (by_order tier_displayOrder tier_id (session_tiers db (ses_id s))) of
            None \<Rightarrow> Inr (db, t)
          | Some (current, target) \<Rightarrow>
              returning (current\<lparr>tier_displayOrder := tier_displayOrder target\<rparr>)
                (and_then
                   (update_tier (tier_id current) (\<lambda>x. x\<lparr>tier_displayOrder := tier_displayOrder target\<rparr>) db)
                   (update_tier (tier_id target) (\<lambda>x. x\<lparr>tier_displayOrder := tier_displayOrder current\<rparr>)))))"

section \<open>Assignments\<close>

definition assignment_row :: "ident \<Rightarrow> SectionAssignment \<Rightarrow> SessionSectionPricing" where
  "assignment_row sessionId a = \<lparr>spr_sessionId = sessionId, spr_sectionId = asg_sectionId a, spr_priceTierId = asg_priceTierId a\<rparr>"

definition assignment_allowed :: "database \<Rightarrow> EventSession \<Rightarrow> SectionAssignment \<Rightarrow> bool" where
  "assignment_allowed db s a \<longleftrightarrow>
     asg_sectionId a \<in> set (map sec_id (select_rows (\<lambda>x. sec_seatMapId x = ses_seatMapId s) (cat_sections (db_catalogue db))))
     \<and> asg_priceTierId a \<in> set (map tier_id (session_tiers db (ses_id s)))"

definition assign_transaction :: "ident \<Rightarrow> ident \<Rightarrow> SectionAssignment list \<Rightarrow> SessionSectionPricing list tx" where
  "assign_transaction sessionId eventId assignments db =
     and_then (draft_session_of sessionId eventId db) (\<lambda>s.
     and_then (unless (\<not> list_all (assignment_allowed db s) assignments) EventAuthorizationError) (\<lambda>_.
     and_then (delete_pricing (ses_id s) db) (\<lambda>db1.
     and_then (create_pricing (map (assignment_row (ses_id s)) assignments) db1) (\<lambda>db2.
     Inr (db2, sort_key (\<lambda>p. map (of_char :: char \<Rightarrow> int) (spr_sectionId p)) (session_pricing db2 (ses_id s)))))))"

definition assignSessionSectionPricing ::
  "(nat \<Rightarrow> bool) \<Rightarrow> ('a SessionScope_scheme) \<Rightarrow> SectionAssignment list \<Rightarrow> database \<Rightarrow> database
     \<Rightarrow> database \<times> (service_error + SessionSectionPricing list)" where
  "assignSessionSectionPricing conflict scope rawInput seen =
     run_after
       (and_then (priceable_session seen scope) (\<lambda>(_, e, s).
        and_then (parsed (sectionPricingInputSchema rawInput)) (\<lambda>assignments.
        and_then (unless (js_size (map asg_sectionId assignments) \<noteq> length assignments)
          (EventValidationError [''A seat-map section can be assigned only once per session.''])) (\<lambda>_.
        Inr (e, s, assignments)))))
       (\<lambda>(e, s, assignments). withSerializableRetry conflict (assign_transaction (ses_id s) (ev_id e) assignments))"

end
