(* ===== verification/Programme.thy ===== *)
theory Programme
  imports Finance_Frames Publication Event_Service Pricing_Service
begin

text \<open>
  The programme of the organizers as a frame: a relation between databases that the statements on
  events, sessions, prices and sellable seats respect is respected by every operation of the
  services of events, sessions and prices and by the backfill. Its instances are the invariants of
  the programme (Programme_Invariant) and the evolution of the whole system (System).
\<close>

section \<open>Changes of a session\<close>

text \<open>
  No update changes the identity of a session, and none takes back its publication or its
  cancellation: the services only set these two instants.
\<close>

definition session_change :: "(EventSession \<Rightarrow> EventSession) \<Rightarrow> bool" where
  "session_change f \<longleftrightarrow> (\<forall>s. ses_id (f s) = ses_id s \<and> ses_eventId (f s) = ses_eventId s
     \<and> (ses_publishedAt s \<noteq> None \<longrightarrow> ses_publishedAt (f s) \<noteq> None)
     \<and> (ses_cancelledAt s \<noteq> None \<longrightarrow> ses_cancelledAt (f s) \<noteq> None))"

lemma session_changes:
  "session_change (replace_session v s m dates)" "session_change (open_session status now)"
  "session_change (cancel_session now)" "session_change (\<lambda>x. x\<lparr>ses_status := status\<rparr>)"
  by (simp_all add: session_change_def replace_session_def open_session_def cancel_session_def)

section \<open>Stock\<close>

text \<open>A draft session has no sellable seats yet: publication creates them.\<close>

definition stock_ok :: "database \<Rightarrow> bool" where
  "stock_ok db \<longleftrightarrow> distinct (map ses_id (db_sessions db))
     \<and> (\<forall>s\<in>set (db_sessions db). ses_status s = EventSessionStatus.DRAFT \<longrightarrow> inventory_of db (ses_id s) = [])"

lemma find_session_key:
  assumes "distinct (map ses_id (db_sessions db))" "s \<in> set (db_sessions db)"
  shows "find_session db (ses_id s) = Some s"
  using tbl.find_keyed [OF assms(1)] assms(2) by (simp add: find_session_def)

section \<open>The frame\<close>

locale programme_frame = frame +
  assumes frame_new_session: "create_session s db = Inr db' \<Longrightarrow> ses_publishedAt s = None \<Longrightarrow> P db db'"
    and frame_sessions: "update_sessions Q f db = Inr db' \<Longrightarrow> session_change f \<Longrightarrow> P db db'"
    and frame_new_event: "create_event e db = Inr db' \<Longrightarrow> P db db'"
    and frame_edit_event: "update_event i g db = Inr db' \<Longrightarrow> (\<And>e. ev_id (g e) = ev_id e) \<Longrightarrow> P db db'"
    and frame_drop_event: "delete_event i db = Inr db' \<Longrightarrow> P db db'"
    and frame_catalogue: "P db (db\<lparr>db_catalogue := c\<rparr>)"
    and frame_stock: "ensureSessionInventory draw j now db = Inr (db', result) \<Longrightarrow> inventory_of db j = [] \<Longrightarrow>
      find_session db j = Some x \<Longrightarrow> cov_issues (session_coverage db x) = [] \<Longrightarrow> P db db'"
    and frame_outbox: "enqueueInventoryEvent ty j a key now db = Inr db' \<Longrightarrow> \<not> hold_event_key key \<Longrightarrow> P db db'"
    and frame_release: "P db (fst (releaseActiveHoldsForSession i now db))"
begin

section \<open>Statements\<close>

lemma resp_session: "session_change f \<Longrightarrow> obeys P (\<lambda>x. x) db (update_session i f db)"
  unfolding update_session_def by (intro obeys_if obeysI) (auto intro: frame_sessions)

lemma resp_then_session: "obeys P (\<lambda>x. x) db m \<Longrightarrow> obeys P fst db (then_session i m)"
  by (auto simp: obeys_def then_session_Inr)

lemma resp_then_event: "obeys P (\<lambda>x. x) db m \<Longrightarrow> obeys P fst db (then_event i m)"
  by (auto simp: obeys_def then_event_Inr)

lemma resp_then_tier: "obeys P (\<lambda>x. x) db m \<Longrightarrow> obeys P fst db (then_tier i m)"
  by (cases m) (auto simp: obeys_def then_tier_def split: option.splits)

lemma resp_returning: "obeys P (\<lambda>x. x) db m \<Longrightarrow> obeys P fst db (returning x m)"
  by (cases m) (simp_all add: returning_def)

lemma resp_new_event: "obeys P (\<lambda>x. x) db (create_event e db)"
  by (rule obeysI) (rule frame_new_event)

lemma resp_event: "(\<And>e. ev_id (g e) = ev_id e) \<Longrightarrow> obeys P (\<lambda>x. x) db (update_event i g db)"
  by (rule obeysI) (rule frame_edit_event)

lemma resp_tiers:
  "obeys P (\<lambda>x. x) db (create_tier t db)" "obeys P (\<lambda>x. x) db (update_tier i f db)" "obeys P (\<lambda>x. x) db (delete_tier i db)"
  "obeys P (\<lambda>x. x) db (delete_pricing i db)"
  by (auto simp: obeys_def create_tier_def update_tier_def delete_tier_def delete_pricing_def set_tiers_def set_pricing_def
      and_then_eq_Inr intro: frame_catalogue)

lemma resp_create_pricing: "obeys P (\<lambda>x. x) db (create_pricing ps db)"
proof (induction ps arbitrary: db)
  case (Cons p ps)
  have "obeys P (\<lambda>x. x) db (create_pricing ps (set_pricing (insert_row p (cat_pricing (db_catalogue db))) db))"
    using Cons.IH frame_catalogue unfolding obeys_def set_pricing_def by (blast intro: frame_trans)
  then show ?case by (auto intro!: obeys_pure)
qed (simp add: frame_refl)

section \<open>Transactions\<close>

lemma frame_retry: "(\<And>db. obeys P fst db (body db)) \<Longrightarrow> P db (fst (withSerializableRetry conflict body db))"
  using serializable_retry_cases [of conflict body db] obeys_transact [of P db body] by (auto simp: frame_refl)

lemma frame_service: "(\<And>x db. checks = Inr x \<Longrightarrow> obeys P fst db (body x db)) \<Longrightarrow> P db (fst (run_service checks body db))"
  by (auto simp: run_service_def frame_refl intro: obeys_transact split: sum.split)

lemma frame_after: "(\<And>x. P db (fst (run x db))) \<Longrightarrow> P db (fst (run_after checks run db))"
  by (simp add: run_after_def frame_refl split: sum.split)

section \<open>Inventory\<close>

lemma frame_backfill_loop:
  assumes "\<forall>(s, e)\<in>set candidates. find_session seen (ses_id s) = Some s"
    and "P start db" "db_sessions db = db_sessions seen" "db_catalogue db = db_catalogue seen"
  shows "P start (fst (backfill_loop conflict draw now seen candidates summary db))"
  using assms
proof (induction candidates arbitrary: summary db)
  case (Cons candidate rest)
  obtain s e where [simp]: "candidate = (s, e)" by fastforce
  obtain db1 r where run: "runInTransaction conflict None (ensureSessionInventory (draw (ses_id s)) (ses_id s) now) db = (db1, r)"
    by fastforce
  have same: "session_coverage seen s = session_coverage db s" "find_session db (ses_id s) = Some s"
    using Cons.prems by (simp_all add: session_coverage_def session_graph_def session_tiers_def session_pricing_def find_session_def)
  from run have "db1 = db \<or> (\<exists>result. ensureSessionInventory (draw (ses_id s)) (ses_id s) now db = Inr (db1, result))"
    by (cases r) (auto simp: run_in_transaction_once transact_Inl transact_Inr split: if_split_asm)
  then have "db_sessions db1 = db_sessions seen \<and> db_catalogue db1 = db_catalogue seen
      \<and> (inventory_of db (ses_id s) = [] \<and> cov_issues (session_coverage seen s) = [] \<longrightarrow> P start db1)"
    using Cons.prems(2-4) ensure_tables(1,2) frame_stock [OF _ _ same(2)] frame_trans unfolding same(1) by metis
  with Cons run show ?case by (cases r) (simp_all add: Let_def)
qed simp

lemma frame_backfill:
  assumes "stock_ok db"
  shows "P db (fst (backfillPublishedSessionInventory conflict draw now db))"
  unfolding backfillPublishedSessionInventory_def
proof (rule frame_backfill_loop)
  show "\<forall>(s, e)\<in>set (backfill_candidates db). find_session db (ses_id s) = Some s"
    using assms by (auto simp: backfill_candidates_def Let_def select_rows_def stock_ok_def intro: find_session_key split: option.splits)
qed (simp_all add: frame_refl)

section \<open>Sessions\<close>

lemma frame_create_session: "P db (fst (createEventSession conflict zone newId scope rawInput seen db))"
proof -
  have tx: "obeys P fst db (create_session_transaction zone newId m eventId input db)" for m eventId input db
    unfolding create_session_transaction_def Let_def
    by (intro obeys_option obeys_pure obeys_prod obeys_if resp_returning obeysI) (auto intro: frame_new_session simp: new_session_def)
  show ?thesis
    unfolding createEventSession_def by (intro frame_after) (auto intro!: frame_retry [OF tx])
qed

lemma frame_update_session: "P db (fst (updateDraftEventSession conflict zone scope rawInput seen db))"
proof -
  have tx: "obeys P fst db (update_session_transaction zone m eventId sessionId input db)" for m eventId sessionId input db
    unfolding update_session_transaction_def
    by (intro obeys_option obeys_pure obeys_prod obeys_if resp_then_session resp_session session_changes) simp_all
  show ?thesis
    unfolding updateDraftEventSession_def by (intro frame_after) (auto intro!: frame_retry [OF tx])
qed

lemma frame_publish_session:
  assumes "stock_ok db"
  shows "P db (fst (publishEventSession conflict draw scope now seen db))"
proof -
  have draft: "obeys P fst db (publish_draft draw m s now db)"
    if "s \<in> set (db_sessions db)" "ses_status s = EventSessionStatus.DRAFT" for m s
  proof -
    have s: "find_session db (ses_id s) = Some s" "inventory_of db (ses_id s) = []"
      using assms that by (simp_all add: stock_ok_def find_session_key)
    have "P db db1" if "publication_issues db s now = []" "ensureSessionInventory draw (ses_id s) now db = Inr (db1, result)" for db1 result
      using frame_stock [OF that(2) s(2,1)] that(1) by (simp add: publication_issues_def Let_def)
    then show ?thesis
      unfolding publish_draft_def
      by (intro obeys_pure resp_then_pair resp_then_session resp_session session_changes) (auto simp: obeys_def unless_Inr)
  qed
  have tx: "obeys P fst db (publish_session_transaction draw m eventId sessionId now db)" for m eventId sessionId
    unfolding publish_session_transaction_def
    by (intro obeys_option obeys_if draft) (auto simp: frame_refl dest: tbl.find_SomeD)
  have "P db (fst (transact (publish_session_transaction draw m eventId sessionId now) db))" for m eventId sessionId
    by (rule obeys_transact) (rule frame_refl, rule tx)
  then have "P db (fst (withSerializableRetry conflict (publish_session_transaction draw m eventId sessionId now) db))" for m eventId sessionId
    by (metis serializable_retry_cases frame_refl fst_conv)
  then show ?thesis unfolding publishEventSession_def by (intro frame_after) auto
qed

lemma frame_pause: "P db (fst (pauseEventSessionSales scope seen db))"
  unfolding pauseEventSessionSales_def by (intro frame_service resp_then_session resp_session session_changes)

lemma frame_resume: "P db (fst (resumeEventSessionSales scope now seen db))"
  unfolding resumeEventSessionSales_def by (intro frame_service resp_then_session resp_session session_changes)

lemma resp_close: "obeys P (\<lambda>x. x) db (close_session i now db)"
  unfolding close_session_def
  by (rule obeysI, rule frame_trans [OF frame_release], erule frame_outbox) (simp add: hold_event_key_def)

lemma resp_close_all: "obeys P (\<lambda>x. x) db (close_sessions is now db)"
  by (induction "is" arbitrary: db) (auto intro: resp_then resp_close simp: frame_refl)

lemma frame_cancel_session: "P db (fst (cancelEventSession conflict scope now seen db))"
proof -
  have tx: "obeys P fst db (cancel_session_transaction i now db)" for i db
    unfolding cancel_session_transaction_def
    by (intro resp_then_pair resp_then resp_close resp_then_session resp_session session_changes) (simp add: frame_refl)
  show ?thesis
    unfolding cancelEventSession_def
    by (intro frame_after) (auto intro!: frame_retry [OF tx] simp: frame_refl split: sum.split)
qed

section \<open>Events\<close>

lemma frame_create_event: "P db (fst (createEvent newId scope rawInput seen db))"
  unfolding createEvent_def Let_def fst_catch_unique
  by (intro frame_service) (auto intro!: resp_returning resp_new_event)

lemma frame_update_event: "P db (fst (updateEvent scope rawInput seen db))"
  unfolding updateEvent_def fst_catch_unique
  by (intro frame_service) (auto intro!: resp_then_event resp_event simp: edit_event_def)

lemma frame_publish_event: "P db (fst (publishEvent conflict scope now seen db))"
proof -
  have tx: "obeys P fst db (publish_event_transaction m i now db)" for m i db
    unfolding publish_event_transaction_def by (intro obeys_option obeys_if resp_then_event resp_event) (simp_all add: frame_refl)
  show ?thesis
    unfolding publishEvent_def by (intro frame_after) (auto intro!: frame_retry [OF tx])
qed

lemma frame_cancel_event: "P db (fst (cancelEvent conflict scope now seen db))"
proof -
  have tx: "obeys P fst db (cancel_event_transaction m i now db)" for m i db
    unfolding cancel_event_transaction_def Let_def
    by (intro obeys_option obeys_if resp_then resp_close_all resp_then_event resp_event obeysI)
      (auto intro: frame_sessions session_changes simp: frame_refl)
  show ?thesis
    unfolding cancelEvent_def by (intro frame_after) (auto intro!: frame_retry [OF tx] simp: frame_refl)
qed

lemma frame_archive_event: "P db (fst (archiveEvent scope now seen db))"
proof -
  have tx: "obeys P fst db (then_event i (update_event i
      (\<lambda>x. x\<lparr>ev_preArchiveStatus := old, ev_status := new, ev_archivedAt := at\<rparr>) db))" for i old new at db
    by (intro resp_then_event resp_event) simp
  show ?thesis
    unfolding archiveEvent_def by (intro frame_after) (auto intro!: obeys_transact [OF frame_refl tx] simp: frame_refl)
qed

lemma frame_restore_event: "P db (fst (restoreEvent scope seen db))"
  unfolding restoreEvent_def by (intro frame_service) (auto intro!: resp_then_event resp_event)

lemma frame_delete_event: "P db (fst (deleteEmptyDraftEvent scope seen db))"
  unfolding deleteEmptyDraftEvent_def by (intro frame_service resp_returning obeysI) (rule frame_drop_event)

section \<open>Prices\<close>

lemma frame_create_tier: "P db (fst (createSessionPriceTier conflict newId scope rawInput seen db))"
  unfolding createSessionPriceTier_def Let_def
  by (intro frame_after) (auto intro!: frame_retry obeys_pure resp_returning resp_tiers)

lemma frame_update_tier: "P db (fst (updateSessionPriceTier scope i rawInput seen db))"
  unfolding updateSessionPriceTier_def fst_catch_unique
  by (intro frame_service) (auto intro!: resp_then_tier resp_tiers)

lemma frame_delete_tier: "P db (fst (deleteUnusedSessionPriceTier scope i seen db))"
  unfolding deleteUnusedSessionPriceTier_def by (intro frame_service resp_returning resp_tiers)

lemma frame_move_tier: "P db (fst (moveSessionPriceTier conflict scope i direction seen db))"
  unfolding moveSessionPriceTier_def
  by (intro frame_after) (auto intro!: frame_retry obeys_option resp_returning resp_then resp_tiers simp: frame_refl)

lemma frame_assign: "P db (fst (assignSessionSectionPricing conflict scope rawInput seen db))"
proof -
  have tx: "obeys P fst db (assign_transaction sessionId eventId assignments db)" for sessionId eventId assignments db
    unfolding assign_transaction_def
    by (intro obeys_pure resp_then resp_tiers resp_create_pricing) (simp_all add: frame_refl)
  show ?thesis
    unfolding assignSessionSectionPricing_def by (intro frame_after) (auto intro!: frame_retry [OF tx])
qed

end

end
