(* ===== verification/Programme_Invariant.thy ===== *)
theory Programme_Invariant
  imports Programme
begin

text \<open>
  What holds of events and sessions in every state the services can reach: no two sessions that are
  not cancelled occupy one space at one time, a published session keeps its place and times, and a
  cancelled one stays cancelled, whatever the order of the requests and however old their reads.
\<close>

section \<open>The invariant\<close>

definition sessions_ok :: "EventSession list \<Rightarrow> bool" where
  "sessions_ok ss \<longleftrightarrow> distinct (map ses_id ss) \<and> (\<forall>s\<in>set ss. session_row_ok s) \<and> (\<forall>a\<in>set ss. \<forall>b\<in>set ss. \<not> sessions_clash a b)"

definition events_ok :: "Event list \<Rightarrow> bool" where
  "events_ok es \<longleftrightarrow> distinct (map ev_id es) \<and> distinct (map ev_publicSlug es) \<and> (\<forall>e\<in>set es. event_lifecycle e)"

definition programme_ok :: "database \<Rightarrow> bool" where
  "programme_ok db \<longleftrightarrow> sessions_ok (db_sessions db) \<and> events_ok (db_events db)"

text \<open>What a session keeps.\<close>

definition session_kept :: "EventSession \<Rightarrow> EventSession \<Rightarrow> bool" where
  "session_kept s s' \<longleftrightarrow> ses_id s' = ses_id s \<and> ses_eventId s' = ses_eventId s
     \<and> (ses_publishedAt s \<noteq> None \<longrightarrow> session_snapshot s' = session_snapshot s)
     \<and> (ses_cancelledAt s \<noteq> None \<longrightarrow> ses_cancelledAt s' \<noteq> None)"

definition sessions_kept :: "database \<Rightarrow> database \<Rightarrow> bool" where
  "sessions_kept db db' \<longleftrightarrow> (\<forall>s\<in>set (db_sessions db). \<exists>s'\<in>set (db_sessions db'). session_kept s s')"

lemma session_kept_refl: "session_kept s s"
  by (simp add: session_kept_def)

lemma session_kept_trans: "session_kept a b \<Longrightarrow> session_kept b c \<Longrightarrow> session_kept a c"
  by (auto simp: session_kept_def session_snapshot_def)

definition programmed :: "database \<Rightarrow> database \<Rightarrow> bool" where
  "programmed db db' \<longleftrightarrow> (programme_ok db \<longrightarrow> programme_ok db' \<and> sessions_kept db db')"

lemma programmed_same:
  "db_sessions db' = db_sessions db \<Longrightarrow> db_events db' = db_events db \<Longrightarrow> programmed db db'"
  by (auto simp: programmed_def programme_ok_def sessions_kept_def intro: session_kept_refl)

lemma sessions_clash_sym: "sessions_clash a b \<Longrightarrow> sessions_clash b a"
  by (auto simp: sessions_clash_def sessionRangesOverlap_def)

lemma create_session_programmed:
  assumes "create_session s db = Inr db'"
  shows "programmed db db'"
proof -
  from assms have db': "db' = db\<lparr>db_sessions := db_sessions db @ [s]\<rparr>" and ok: "session_row_ok s"
    and key: "ses_id s \<notin> ses_id ` set (db_sessions db)" and apart: "\<forall>x\<in>set (db_sessions db). \<not> sessions_clash s x"
    by (auto simp: create_session_def and_then_eq_Inr unless_Inr has_key_def insert_row_def list_ex_iff)
  have "\<not> sessions_clash s s" by (simp add: sessions_clash_def)
  with ok key apart show ?thesis
    by (auto simp: programmed_def programme_ok_def sessions_ok_def sessions_kept_def db' dest: sessions_clash_sym
        intro: session_kept_refl)
qed

lemma update_sessions_programmed:
  assumes "update_sessions Q f db = Inr db'" "session_change f"
  shows "programmed db db'"
proof -
  let ?new = "update_rows Q f (db_sessions db)"
  from assms(1) have db': "db' = db\<lparr>db_sessions := ?new\<rparr>"
    and stmt: "\<And>s. s \<in> set (db_sessions db) \<Longrightarrow> Q s \<Longrightarrow> session_update_ok s (f s) \<and> session_row_ok (f s)"
    and apart: "\<forall>a\<in>set ?new. \<forall>b\<in>set ?new. \<not> sessions_clash a b"
    by (auto simp: update_sessions_def Let_def and_then_eq_Inr unless_Inr list_ex_iff)
  have f: "ses_id (f s) = ses_id s" "ses_eventId (f s) = ses_eventId s" "ses_cancelledAt s \<noteq> None \<Longrightarrow> ses_cancelledAt (f s) \<noteq> None" for s
    using assms(2) by (simp_all add: session_change_def)
  show ?thesis
    unfolding programmed_def
  proof
    assume ok: "programme_ok db"
    have "map ses_id ?new = map ses_id (db_sessions db)" by (rule tbl.keys_update) (simp add: f)
    moreover have "\<forall>s\<in>set ?new. session_row_ok s"
      using ok stmt unfolding tbl.all_update by (auto simp: programme_ok_def sessions_ok_def)
    ultimately have "programme_ok db'" using ok apart by (simp add: programme_ok_def sessions_ok_def db')
    moreover have "\<exists>s'\<in>set ?new. session_kept s s'" if s: "s \<in> set (db_sessions db)" for s
    proof -
      have "(if Q s then f s else s) \<in> set ?new" using s unfolding tbl.mem_update by blast
      moreover have "session_kept s (if Q s then f s else s)"
        using stmt [OF s] f by (auto simp: session_kept_def session_update_ok_def)
      ultimately show ?thesis by blast
    qed
    ultimately show "programme_ok db' \<and> sessions_kept db db'" by (simp add: sessions_kept_def db')
  qed
qed

lemma create_event_programmed:
  assumes "create_event e db = Inr db'"
  shows "programmed db db'"
proof -
  from assms have db': "db' = db\<lparr>db_events := db_events db @ [e]\<rparr>" and ok: "event_lifecycle e"
    and key: "ev_id e \<notin> ev_id ` set (db_events db)" and slug: "\<not> event_slug_clash e (db_events db)"
    by (auto simp: create_event_def and_then_eq_Inr unless_Inr has_key_def insert_row_def)
  then have "ev_publicSlug e \<notin> ev_publicSlug ` set (db_events db)"
    by (auto simp: event_slug_clash_def list_ex_iff) (metis imageI)
  with ok key show ?thesis
    by (auto simp: programmed_def programme_ok_def events_ok_def sessions_kept_def db' intro: session_kept_refl)
qed

lemma update_event_programmed:
  assumes "update_event i g db = Inr db'" "\<And>e. ev_id (g e) = ev_id e"
  shows "programmed db db'"
proof -
  let ?new = "update_rows (\<lambda>x. ev_id x = i) g (db_events db)"
  from assms(1) obtain e where e: "find_event db i = Some e" and db': "db' = db\<lparr>db_events := ?new\<rparr>"
    and stmt: "event_lifecycle (g e)" "\<not> event_slug_clash (g e) (db_events db)"
    by (auto simp: update_event_def and_then_eq_Inr unless_Inr split: option.splits)
  have e': "e \<in> set (db_events db)" "ev_id e = i" using tbl.find_SomeD [OF e [unfolded find_event_def]] by simp_all
  have "events_ok ?new" if ok: "events_ok (db_events db)"
  proof -
    have only: "x = e" if "x \<in> set (db_events db)" "ev_id x = i" for x
      using that e' ok by (auto simp: events_ok_def distinct_map dest: inj_onD)
    have "map ev_id ?new = map ev_id (db_events db)" by (rule tbl.keys_update) (simp add: assms(2))
    moreover have "\<forall>x\<in>set ?new. event_lifecycle x"
      using ok only stmt(1) unfolding tbl.all_update by (auto simp: events_ok_def)
    moreover have "distinct (map ev_publicSlug ?new)"
    proof -
      have other: "ev_publicSlug x \<noteq> ev_publicSlug (g e)" if "x \<in> set (db_events db)" "ev_id x \<noteq> i" for x
        using stmt(2) that e'(2) by (auto simp: event_slug_clash_def list_ex_iff assms(2))
      have "inj_on ev_publicSlug (set (db_events db))" "distinct (db_events db)"
        using ok by (simp_all add: events_ok_def distinct_map)
      then have "inj_on (\<lambda>x. ev_publicSlug (if ev_id x = i then g x else x)) (set (db_events db))"
        using other only by (auto simp: inj_on_def) metis+
      then show ?thesis using \<open>distinct (db_events db)\<close> by (simp add: update_rows_def distinct_map comp_def)
    qed
    ultimately show ?thesis using ok by (simp add: events_ok_def)
  qed
  then show ?thesis by (auto simp: programmed_def programme_ok_def sessions_kept_def db' intro: session_kept_refl)
qed

lemma delete_event_programmed: "delete_event i db = Inr db' \<Longrightarrow> programmed db db'"
  by (auto simp: delete_event_def and_then_eq_Inr delete_rows_def programmed_def programme_ok_def events_ok_def sessions_kept_def
      intro: session_kept_refl distinct_map_filter)

interpretation programme: programme_frame programmed
proof unfold_locales
  fix db1 db2 db3 assume "programmed db1 db2" "programmed db2 db3"
  then show "programmed db1 db3" unfolding programmed_def sessions_kept_def by (meson session_kept_trans)
next
  fix i now db show "programmed db (fst (releaseActiveHoldsForSession i now db))"
    by (rule programmed_same) (simp_all add: releaseActiveHoldsForSession_def Let_def releaseInventoryForHolds_def split: prod.split)
qed (auto intro: programmed_same create_session_programmed update_sessions_programmed create_event_programmed update_event_programmed
    delete_event_programmed ensure_tables simp: enqueue_event_Inr)

section \<open>Histories\<close>

text \<open>
  The operations of the organizers. Publication and backfill are those of a programme whose draft
  sessions have no stock.
\<close>

inductive organizer_step :: "database \<Rightarrow> database \<Rightarrow> bool" where
  event_created: "organizer_step db (fst (createEvent newId (org :: OrganizerScope) eventInput seen db))"
| event_updated: "organizer_step db (fst (updateEvent (ev :: EventScope) eventInput seen db))"
| event_published: "organizer_step db (fst (publishEvent conflict (ev :: EventScope) now seen db))"
| event_cancelled: "organizer_step db (fst (cancelEvent conflict (ev :: EventScope) now seen db))"
| event_archived: "organizer_step db (fst (archiveEvent (ev :: EventScope) now seen db))"
| event_restored: "organizer_step db (fst (restoreEvent (ev :: EventScope) seen db))"
| event_deleted: "organizer_step db (fst (deleteEmptyDraftEvent (ev :: EventScope) seen db))"
| session_created: "organizer_step db (fst (createEventSession conflict zone newId (ev :: EventScope) sessionInput seen db))"
| session_updated: "organizer_step db (fst (updateDraftEventSession conflict zone (ses :: SessionScope) sessionInput seen db))"
| session_published: "stock_ok db \<Longrightarrow> organizer_step db (fst (publishEventSession conflict draw (ses :: SessionScope) now seen db))"
| session_paused: "organizer_step db (fst (pauseEventSessionSales (ses :: SessionScope) seen db))"
| session_resumed: "organizer_step db (fst (resumeEventSessionSales (ses :: SessionScope) now seen db))"
| session_cancelled: "organizer_step db (fst (cancelEventSession conflict (ses :: SessionScope) now seen db))"
| tier_created: "organizer_step db (fst (createSessionPriceTier conflict newId (ses :: SessionScope) tierInput seen db))"
| tier_updated: "organizer_step db (fst (updateSessionPriceTier (ses :: SessionScope) tierId tierInput seen db))"
| tier_deleted: "organizer_step db (fst (deleteUnusedSessionPriceTier (ses :: SessionScope) tierId seen db))"
| tier_moved: "organizer_step db (fst (moveSessionPriceTier conflict (ses :: SessionScope) tierId direction seen db))"
| sections_priced: "organizer_step db (fst (assignSessionSectionPricing conflict (ses :: SessionScope) assignments seen db))"
| backfilled: "stock_ok db \<Longrightarrow> organizer_step db (fst (backfillPublishedSessionInventory retry draws now db))"

context programme_frame
begin

lemma frame_organizer: "organizer_step db db' \<Longrightarrow> P db db'"
  by (induction rule: organizer_step.induct)
    (rule frame_create_event frame_update_event frame_publish_event frame_cancel_event frame_archive_event frame_restore_event
      frame_delete_event frame_create_session frame_update_session frame_publish_session frame_pause frame_resume
      frame_cancel_session frame_create_tier frame_update_tier frame_delete_tier frame_move_tier frame_assign frame_backfill
    | assumption)+

end

text \<open>All other services leave sessions and events as they are.\<close>

inductive programme_step :: "database \<Rightarrow> database \<Rightarrow> bool" where
  organized: "organizer_step db db' \<Longrightarrow> programme_step db db'"
| elsewhere: "db_sessions db' = db_sessions db \<Longrightarrow> db_events db' = db_events db \<Longrightarrow> programme_step db db'"

lemma programme_steps: "programme_step\<^sup>*\<^sup>* db db' \<Longrightarrow> programmed db db'"
proof (induction rule: rtranclp_induct)
  case (step db1 db2)
  from step.hyps(2) have "programmed db1 db2"
    by (cases rule: programme_step.cases) (auto intro: programme.frame_organizer programmed_same)
  with step.IH show ?case by (rule programme.frame_trans)
qed (rule programme.frame_refl)

text \<open>C5: From any consistent programme, by any interleaving of the operations of all organizers with the other
  services: two different sessions of one space that are not cancelled never overlap in time, and every
  session ends after it starts and sells only before it starts.\<close>

theorem space_never_double_booked:
  assumes "programme_ok db0" "programme_step\<^sup>*\<^sup>* db0 db" "a \<in> set (db_sessions db)" "b \<in> set (db_sessions db)"
    and "a \<noteq> b" "ses_spaceId a = ses_spaceId b"
    and "ses_status a \<noteq> EventSessionStatus.CANCELLED" "ses_status b \<noteq> EventSessionStatus.CANCELLED"
  shows "(ses_endAt a \<le> ses_startAt b \<or> ses_endAt b \<le> ses_startAt a)
    \<and> ses_startAt a < ses_endAt a \<and> ses_salesStartAt a < ses_salesEndAt a \<and> ses_salesEndAt a \<le> ses_startAt a"
proof -
  have ok: "sessions_ok (db_sessions db)"
    using programme_steps [OF assms(2)] assms(1) by (simp add: programmed_def programme_ok_def)
  then have "ses_id a \<noteq> ses_id b" using assms(3-5) by (auto simp: sessions_ok_def distinct_map dest: inj_onD)
  moreover have "\<not> sessions_clash a b" "session_row_ok a" using ok assms(3,4) by (simp_all add: sessions_ok_def)
  ultimately show ?thesis using assms(6-8) by (auto simp: session_row_ok_def sessions_clash_def sessionRangesOverlap_def)
qed

text \<open>C6: A published session is still there after any further operations, in the same event, venue, space and seat
  map, with the same times; it is never a draft again, and once cancelled it stays cancelled, even when a
  pause or a resume decided on an older read.\<close>

theorem published_session_fixed:
  assumes "programme_ok db0" "programme_step\<^sup>*\<^sup>* db0 db" "programme_step\<^sup>*\<^sup>* db db'" "s \<in> set (db_sessions db)"
    and "ses_publishedAt s \<noteq> None"
  shows "\<exists>s'\<in>set (db_sessions db'). ses_id s' = ses_id s \<and> session_snapshot s' = session_snapshot s
    \<and> ses_status s' \<noteq> EventSessionStatus.DRAFT
    \<and> (ses_status s = EventSessionStatus.CANCELLED \<longrightarrow> ses_status s' = EventSessionStatus.CANCELLED)"
proof -
  have ok: "programme_ok db" using programme_steps [OF assms(2)] assms(1) by (simp add: programmed_def)
  with programme_steps [OF assms(3)] have ok': "programme_ok db'" and kept: "sessions_kept db db'" by (simp_all add: programmed_def)
  from kept assms(4) obtain s' where s': "s' \<in> set (db_sessions db')" "session_kept s s'" by (auto simp: sessions_kept_def)
  have "session_row_ok s'" "session_row_ok s" using ok ok' s'(1) assms(4) by (auto simp: programme_ok_def sessions_ok_def)
  then have "session_lifecycle s'" "session_lifecycle s" by (simp_all add: session_row_ok_def)
  with s' assms(5) show ?thesis
    by (intro bexI [of _ s']) (auto simp: session_kept_def session_snapshot_def session_lifecycle_def split: EventSessionStatus.splits)
qed

end
