(* ===== verification/Shop_Programme.thy ===== *)
theory Shop_Programme
  imports System_Steps Programme_Invariant
begin

text \<open>
  The programme of the organizers inside the whole system: creating, publishing, pausing and
  cancelling events and sessions keeps the invariant of holds, sales, orders, refunds and tickets,
  and sells nothing.
\<close>

section \<open>Statements on events, sessions and the catalogue\<close>

lemma tables_steady:
  "steady db (db\<lparr>db_catalogue := c\<rparr>)" "steady db (db\<lparr>db_events := es\<rparr>)" "steady db (db\<lparr>db_sessions := ss\<rparr>)"
  by (simp_all add: steady_def quiet_def outbox_keys_def keeps_orders_def keeps_refunds_same keeps_tickets_same)

lemmas tables_evolve = tables_steady [THEN steady_evolves]

lemma outbox_steady:
  assumes "enqueueInventoryEvent ty j a key now db = Inr db'" "\<not> hold_event_key key"
  shows "steady db db'"
proof -
  from assms have "db' = db\<lparr>db_invOutbox := db_invOutbox db @ [iev_row ty j a key now]\<rparr>" by (simp add: enqueue_event_Inr)
  with quiet_enqueue [OF assms] show ?thesis
    by (simp add: steady_def keeps_orders_def keeps_refunds_same keeps_tickets_same)
qed

section \<open>Holds of a cancelled session\<close>

lemma release_active_eq:
  "fst (releaseActiveHoldsForSession s now db) =
     (let hit = (\<lambda>h. hold_sessionId h = s \<and> hold_status h = SeatHoldStatus.ACTIVE)
      in db\<lparr>db_holds := update_rows hit (release_hold now) (db_holds db),
            db_inventory := update_rows (points_at (map hold_id (filter hit (db_holds db)))) free_seat (db_inventory db)\<rparr>)"
  unfolding releaseActiveHoldsForSession_def Let_def select_rows_def by (subst release_inventory_pair) simp

lemma release_active_evolves: "evolves db (fst (releaseActiveHoldsForSession s now db))"
proof (rule seats_evolve)
  assume ok: "holds_ok db"
  let ?db' = "fst (releaseActiveHoldsForSession s now db)"
  have "books_none db ?db'"
    by (rule books_none_update [where P = "points_at (map hold_id (filter (\<lambda>h. hold_sessionId h = s \<and> hold_status h = SeatHoldStatus.ACTIVE) (db_holds db)))"
          and f = free_seat])
      (use held_not_booked [OF ok] in \<open>auto simp: release_active_eq Let_def\<close>)
  moreover have "books ?db' = books db" by (simp add: release_active_eq Let_def books_def)
  ultimately show "holds_ok ?db' \<and> books_none db ?db' \<and> books ?db' = books db" using releaseActive_ok(1) [OF ok] by blast
qed

section \<open>New stock\<close>

definition stocks :: "SessionSeatInventory list \<Rightarrow> SessionSeatInventory list \<Rightarrow> bool" where
  "stocks new seats \<longleftrightarrow> inventory_ok (seats @ new) \<and> (\<forall>i\<in>set new. inventory_row_ok i)"

lemma holds_core_stock:
  assumes "holds_core seats holds items" "stocks new seats"
  shows "holds_core (seats @ new) holds items"
proof -
  have "seat_link holds items i" if "i \<in> set new" for i
    using assms(2) that by (auto simp: stocks_def inventory_row_ok_def seat_link_def)
  moreover have "item_link (seats @ new) holds t" if "item_link seats holds t" for t
    using that unfolding item_link_def by auto
  ultimately show ?thesis using assms by (auto simp: holds_core_def stocks_def)
qed

lemma stock_evolves:
  assumes new: "sys_ok db \<Longrightarrow> stocks new (db_inventory db)" and db': "db' = db\<lparr>db_inventory := db_inventory db @ new\<rparr>"
  shows "evolves db db'"
  unfolding evolves_def
proof (intro impI)
  assume ok: "sys_ok db"
  then have shop: "holds_ok db" "sales_ok db" by (simp_all add: sys_ok_def store_ok_def shop_ok_def)
  have "holds_ok db'"
    using shop(1) holds_core_stock [OF _ new [OF ok]] by (simp add: holds_ok_def db' outbox_keys_def)
  moreover have "sales_ok db'"
  proof -
    have "inv_id i \<notin> inv_id ` set (db_inventory db)" "inv_state i \<noteq> SeatInventoryState.BOOKED" if "i \<in> set new" for i
      using new [OF ok] that by (auto simp: stocks_def inventory_ok_def inventory_row_ok_def)
    moreover have "sold db' = sold db" "sold db \<subseteq> inv_id ` set (db_inventory db)" using shop(2) by (simp_all add: sales_ok_def sold_def db')
    ultimately have "inv_id i \<notin> sold db'" "inv_state i \<noteq> SeatInventoryState.BOOKED" if "i \<in> set new" for i
      using that by blast+
    then have "inv_state i = SeatInventoryState.BOOKED \<longleftrightarrow> inv_id i \<in> sold db'" if "i \<in> set (db_inventory db')" for i
      using that shop(2) \<open>sold db' = sold db\<close> by (auto simp: sales_ok_def db')
    with shop(2) \<open>sold db' = sold db\<close> show ?thesis by (auto simp: sales_ok_def db')
  qed
  ultimately have "shop_ok db'" by (simp add: shop_ok_def)
  moreover have "books db' = books db" by (simp add: books_def db')
  ultimately have "sys_ok db'" using books_ok ok by blast
  then show "sys_ok db' \<and> (\<exists>new. db_bookingSeats db' = db_bookingSeats db @ new)" by (simp add: db')
qed

text \<open>The rows of one publication have one currency: that of the only currency of the tiers.\<close>

lemma one_currency:
  assumes "cov_issues (calculatePricingCoverage g tiers assignments) = []" "t \<in> set tiers" "u \<in> set tiers"
  shows "tier_currency t = tier_currency u"
proof -
  have "\<not> 1 < length (js_unique (map tier_currency tiers))"
    using assms(1) by (simp add: calculatePricingCoverage_def Let_def)
  then have "card (tier_currency ` set tiers) \<le> Suc 0" by (simp add: length_js_unique)
  then show ?thesis using assms(2,3) card_le_Suc0_iff_eq [OF finite_imageI [OF finite_set]] by (metis imageI)
qed

lemma distinct_keys_append:
  assumes "distinct (map key xs)" "distinct (map key ys)" "\<forall>y\<in>set ys. key y \<notin> key ` set xs"
  shows "distinct (map key (xs @ ys))"
proof -
  have "set (map key xs) \<inter> set (map key ys) = {}" using assms(3) unfolding disjoint_iff set_map by blast
  with assms(1,2) show ?thesis by (simp add: inf_commute)
qed

lemma new_stock:
  assumes "create_inventory (map (new_inventory draw db j) (session_rows db x)) db = Inr (db1, n)"
    and none: "inventory_of db j = []" and issues: "cov_issues (session_coverage db x) = []"
  shows "\<exists>new. db1 = db\<lparr>db_inventory := db_inventory db @ new\<rparr> \<and> (inventory_ok (db_inventory db) \<longrightarrow> stocks new (db_inventory db))"
proof -
  let ?rows = "map (new_inventory draw db j) (session_rows db x)"
  from create_inventory_Inr [OF assms(1)] obtain new where db1: "db1 = db\<lparr>db_inventory := db_inventory db @ new\<rparr>"
    and new: "subseq new ?rows" "distinct (map inventory_key new)" "\<forall>i\<in>set new. inventory_key i \<notin> inventory_key ` set (db_inventory db)"
      "distinct (map inv_id new)" "\<forall>i\<in>set new. inv_id i \<notin> inv_id ` set (db_inventory db)" "\<forall>i\<in>set ?rows. inventory_row_ok i"
    by blast
  have row: "\<exists>t\<in>set (session_tiers db (ses_id x)). inv_currency i = tier_currency t" "inv_sessionId i = j" "inventory_row_ok i"
    if i: "i \<in> set new" for i
  proof -
    from subseq_mem [OF new(1) i] obtain r where r: "r \<in> set (session_rows db x)" "i = new_inventory draw db j r" by auto
    have "inv_currency i = mat_currency r" by (simp add: r(2) new_inventory_def)
    with inventory_row_priced [OF r(1) [unfolded session_rows_def]]
    show "\<exists>t\<in>set (session_tiers db (ses_id x)). inv_currency i = tier_currency t" by metis
    show "inv_sessionId i = j" by (simp add: r(2) new_inventory_def)
    show "inventory_row_ok i" using new(6) subseq_mem [OF new(1) i] by blast
  qed
  have one: "inv_currency i = inv_currency k" if "i \<in> set new" "k \<in> set new" for i k
    using row(1) [OF that(1)] row(1) [OF that(2)] one_currency [OF issues [unfolded session_coverage_def]] by metis
  have other: "inv_sessionId k \<noteq> j" if "k \<in> set (db_inventory db)" for k
    using none that by (auto simp: inventory_of_def select_rows_def filter_empty_conv)
  have currency: "inv_currency i = inv_currency k"
    if "i \<in> set new" "k \<in> set (db_inventory db @ new)" "inv_sessionId i = inv_sessionId k" for i k
  proof -
    have "inv_sessionId k = j" using row(2) [OF that(1)] that(3) by simp
    with other that(2) have "k \<in> set new" by auto
    with one that(1) show ?thesis by blast
  qed
  have "stocks new (db_inventory db)" if ok: "inventory_ok (db_inventory db)"
    unfolding stocks_def inventory_ok_def
  proof (intro conjI ballI impI)
    show "distinct (map inv_id (db_inventory db @ new))" using ok new(4,5) by (intro distinct_keys_append) (simp_all add: inventory_ok_def)
    show "distinct (map (\<lambda>i. (inv_sessionId i, inv_seatId i)) (db_inventory db @ new))"
      using ok new(2,3) by (intro distinct_keys_append) (simp_all add: inventory_ok_def inventory_key_def [abs_def])
    show "0 \<le> inv_priceMinor i" if "i \<in> set (db_inventory db @ new)" for i
      using ok row(3) that by (auto simp: inventory_ok_def inventory_row_ok_def)
    show "inv_currency i = inv_currency k"
      if "i \<in> set (db_inventory db @ new)" "k \<in> set (db_inventory db @ new)" "inv_sessionId i = inv_sessionId k" for i k
    proof (cases "i \<in> set new \<or> k \<in> set new")
      case True
      then show ?thesis using currency that by metis
    next
      case False
      with that(1,2) have "i \<in> set (db_inventory db)" "k \<in> set (db_inventory db)" by simp_all
      then show ?thesis using ok that(3) unfolding inventory_ok_def by blast
    qed
  qed (rule row(3))
  with db1 show ?thesis by blast
qed

lemma ensure_evolves:
  assumes "ensureSessionInventory draw j now db = Inr (db', result)" "inventory_of db j = []"
    "find_session db j = Some x" "cov_issues (session_coverage db x) = []"
  shows "evolves db db'"
proof -
  from assms(1) have "materializeSessionInventory draw j now db = Inr (db', result)"
    by (auto simp: ensureSessionInventory_def and_then_eq_Inr split: if_split_asm)
  from this assms(3) obtain db1 where
    1: "create_inventory (map (new_inventory (idr_inventoryId draw) db j) (session_rows db x)) db = Inr (db1, mrs_created result)"
    and 2: "announce_inventory draw j (mrs_created result) now db1 = Inr db'" by (rule materialize_Inr)
  from new_stock [OF 1 assms(2,4)] obtain new where new: "db1 = db\<lparr>db_inventory := db_inventory db @ new\<rparr>"
    "inventory_ok (db_inventory db) \<Longrightarrow> stocks new (db_inventory db)" by blast
  have "evolves db db1"
    by (rule stock_evolves [OF _ new(1)], rule new(2))
      (simp add: sys_ok_def store_ok_def shop_ok_def holds_ok_def holds_core_def)
  moreover have "evolves db1 db'"
    using 2 unfolding announce_inventory_def
    by (auto simp: evolution.frame_refl materialization_key_def hold_event_key_def split: if_split_asm intro!: steady_evolves outbox_steady)
  ultimately show ?thesis by (rule evolution.frame_trans)
qed

interpretation shop_programme: programme_frame evolves
proof unfold_locales
  fix s db db' assume "create_session s db = Inr db'"
  then show "evolves db db'" by (auto simp: create_session_def and_then_eq_Inr intro: tables_evolve)
next
  fix Q f db db' assume "update_sessions Q f db = Inr db'"
  then show "evolves db db'" by (auto simp: update_sessions_def Let_def and_then_eq_Inr intro: tables_evolve)
next
  fix e db db' assume "create_event e db = Inr db'"
  then show "evolves db db'" by (auto simp: create_event_def and_then_eq_Inr intro: tables_evolve)
next
  fix i g db db' assume "update_event i g db = Inr db'"
  then show "evolves db db'" by (auto simp: update_event_def and_then_eq_Inr intro: tables_evolve)
next
  fix i db db' assume "delete_event i db = Inr db'"
  then show "evolves db db'" by (auto simp: delete_event_def and_then_eq_Inr intro: tables_evolve)
qed (assumption | rule tables_evolve ensure_evolves release_active_evolves steady_evolves outbox_steady)+

lemma organizer_evolves: "organizer_step db db' \<Longrightarrow> evolves db db'"
  by (rule shop_programme.frame_organizer)

end
