(* ===== verification/Hold_Witnesses.thy ===== *)
theory Hold_Witnesses
  imports Hold_Sweep
begin

text \<open>
  The hold properties applied to one evening of a small venue: a session on sale with two
  seats, one customer who takes both, releases them, or lets the hold expire.
\<close>

definition sample_labels :: SeatLabels where
  "sample_labels = \<lparr>lbl_seatLabel = ''1'', lbl_rowLabel = ''A'', lbl_sectionName = ''Stalls'',
     lbl_sectionCode = ''ST'', lbl_tierName = ''Standard'', lbl_tierCode = ''STD''\<rparr>"

definition sample_seat :: "ident \<Rightarrow> minor \<Rightarrow> SessionSeatInventory" where
  "sample_seat seat price =
     \<lparr>inv_id = ''inv-'' @ seat, inv_sessionId = ''s1'', inv_seatId = seat, inv_sectionId = ''sec'',
      inv_priceTierId = ''tier'', inv_priceMinor = price, inv_currency = Currency.USD,
      inv_state = SeatInventoryState.AVAILABLE, inv_currentHoldId = None, inv_holdExpiresAt = None,
      inv_labels = sample_labels\<rparr>"

definition sample_session :: EventSession where
  "sample_session = \<lparr>ses_id = ''s1'', ses_eventId = ''e1'', ses_venueId = ''v1'', ses_spaceId = ''sp1'',
     ses_seatMapId = ''m1'', ses_status = EventSessionStatus.ON_SALE,
     ses_startAt = 9000000, ses_endAt = 9900000, ses_salesStartAt = 0, ses_salesEndAt = 8000000,
     ses_publishedAt = Some 0, ses_cancelledAt = None,
     ses_venueOrganizationId = ''org-v''\<rparr>"

definition sample_event :: Event where
  "sample_event = \<lparr>ev_id = ''e1'', ev_title = ''The Show'', ev_slug = ''show'',
     ev_publicSlug = ''org--show'', ev_shortDescription = ''An evening'', ev_description = ''An evening of theatre'',
     ev_category = EventCategory.THEATRE, ev_imagePath = None, ev_status = EventStatus.PUBLISHED,
     ev_preArchiveStatus = None, ev_publishedAt = Some 0, ev_cancelledAt = None, ev_archivedAt = None,
     ev_organizerOrganizationId = ''org-o''\<rparr>"

definition sample_db :: database where
  "sample_db = empty_database\<lparr>db_events := [sample_event], db_sessions := [sample_session],
     db_inventory := [sample_seat ''A'' 1000, sample_seat ''B'' 1500]\<rparr>"

definition sample_request :: HoldCreateInput where
  "sample_request = \<lparr>hci_sessionId = ''s1'', hci_seatIds = [''B'', ''A''], hci_idempotencyKey = ''key-00001''\<rparr>"

definition sample_token :: string where
  "sample_token = ''token-0123456789-abcdef''"

definition sample_acquire :: "database \<times> (service_error + AcquiredHold)" where
  "sample_acquire = acquireSeatHold DEFAULT_HOLD_CONFIGURATION ''u1'' sample_request 1000 ''h1'' sample_token
     sample_db sample_db"

text \<open>The database with the hold of the customer in it.\<close>

definition held_db :: database where
  "held_db = fst sample_acquire"

lemma sample_db_ok: "holds_ok sample_db"
proof -
  have "holds_core (db_inventory sample_db) (db_holds sample_db) (db_holdItems sample_db)"
    by code_simp
  moreover have "hold_events_ok (db_holds sample_db) (outbox_keys sample_db)"
    by (simp add: hold_events_ok_def sample_db_def empty_database_def outbox_keys_def)
  ultimately show ?thesis by (simp add: holds_ok_def)
qed

definition sample_grant :: AcquiredHold where
  "sample_grant = \<lparr>acq_hold = \<lparr>hv_publicToken = sample_token, hv_status = SeatHoldStatus.ACTIVE,
     hv_live = True, hv_expired = False, hv_expiresAt = 601000, hv_secondsRemaining = 600,
     hv_totalMinor = 2500, hv_currency = Currency.USD, hv_seatCount = 2\<rparr>, acq_replayed = False\<rparr>"

lemma sample_run:
  "acquireSeatHold DEFAULT_HOLD_CONFIGURATION ''u1'' sample_request 1000 ''h1'' sample_token sample_db sample_db
     = (held_db, Inr sample_grant)"
proof -
  have "snd sample_acquire = Inr sample_grant" by code_simp
  then show ?thesis by (simp add: held_db_def prod_eq_iff flip: sample_acquire_def)
qed

lemma sample_grant_new: "\<not> acq_replayed sample_grant"
  by (simp add: sample_grant_def)

lemma held_db_ok: "holds_ok held_db"
proof -
  have "holds_core (db_inventory held_db) (db_holds held_db) (db_holdItems held_db)"
    by code_simp
  moreover have "outbox_keys held_db = [''hold-created:h1'']" "map hold_id (db_holds held_db) = [''h1'']"
    by code_simp+
  then have "hold_events_ok (db_holds held_db) (outbox_keys held_db)"
    by (auto simp: hold_events_ok_def simp flip: set_map)
  ultimately show ?thesis by (simp add: holds_ok_def)
qed

text \<open>A second customer is turned away.\<close>

definition rejected_acquire :: "database \<times> (service_error + AcquiredHold)" where
  "rejected_acquire = acquireSeatHold DEFAULT_HOLD_CONFIGURATION ''u2'' sample_request 2000 ''h2'' ''other-token-0123456789''
     held_db held_db"

lemma rejected_conflict: "snd rejected_acquire = Inl HoldConflictError"
  by code_simp

lemma acquire_all_or_nothing_witness: "snd rejected_acquire = Inl HoldConflictError \<and> fst rejected_acquire = held_db"
  using acquire_all_or_nothing [OF held_db_ok, of DEFAULT_HOLD_CONFIGURATION "''u2''" sample_request 2000 "''h2''"
      "''other-token-0123456789''" held_db "fst rejected_acquire" HoldConflictError] rejected_conflict
  by (simp add: prod_eq_iff flip: rejected_acquire_def)

lemma acquire_respects_live_holds_witness:
  "claim_seat ''h1'' 601000 (sample_seat ''A'' 1000) \<in> set (db_inventory (fst rejected_acquire))"
  unfolding rejected_acquire_def
proof (rule acquire_respects_live_holds [OF held_db_ok, where e = 601000])
  show "claim_seat ''h1'' 601000 (sample_seat ''A'' 1000) \<in> set (db_inventory held_db)"
    by code_simp
qed (simp add: claim_seat_def)

lemma acquire_grants_witness:
  "inv_seatId ` set (seats_of_hold held_db ''h1'') = {''A'', ''B''}"
proof -
  have "holdCreateInputSchema 8 sample_request = Some sample_request" by code_simp
  then have "inv_seatId ` set (seats_of_hold held_db ''h1'') = set (hci_seatIds sample_request)"
    using acquire_grants [OF sample_db_ok sample_run sample_grant_new] by (auto simp: DEFAULT_HOLD_CONFIGURATION_def)
  then show ?thesis by (auto simp: sample_request_def)
qed

lemma acquire_replays_witness:
  "\<exists>view. acquireSeatHold DEFAULT_HOLD_CONFIGURATION ''u1'' sample_request 5000 ''h3'' ''t3'' held_db held_db
     = (held_db, Inr \<lparr>acq_hold = view, acq_replayed = True\<rparr>) \<and> hv_publicToken view = sample_token"
  using sample_db_ok sample_run sample_grant_new by (rule acquire_replays)

section \<open>Release and expiry\<close>

definition sample_release :: "database \<times> (service_error + ReleasedHold)" where
  "sample_release = releaseSeatHold ''u1'' sample_token 3000 held_db held_db"

lemma sample_release_changes: "fst sample_release \<noteq> held_db"
proof -
  have "map hold_status (db_holds (fst sample_release)) \<noteq> map hold_status (db_holds held_db)"
    by code_simp
  then show ?thesis by auto
qed

lemma release_own_hold_only_witness:
  "seats_of_hold (fst sample_release) ''h1'' = []"
proof -
  have "map hold_id (db_holds held_db) = [''h1'']" by code_simp
  then have "hold_id h = ''h1''" if "h \<in> set (db_holds held_db)" for h
    using that by (metis imageI list.set_map list.simps(15) list.set(1) singletonD)
  then show ?thesis
    using release_own_hold_only [OF held_db_ok surjective_pairing sample_release_changes [unfolded sample_release_def]]
    by (auto simp: sample_release_def)
qed

lemma sweep_terminates_witness:
  "\<exists>db' r. sweepExpiredHolds 2 700000 100 None held_db = Some (db', Inr r)
     \<and> holds_ok db' \<and> (\<forall>h\<in>set (db_holds db'). \<not> overdue 700000 h) \<and> swp_holdsExpired r = 1"
proof -
  have "overdue_count 700000 held_db = 1" by code_simp
  then show ?thesis using sweep_terminates [OF held_db_ok, of 100 700000 2] by simp
qed

end
