(* ===== verification/Refund_Properties.thy ===== *)
theory Refund_Properties
  imports Refund_Invariant
begin

text \<open>
  What the refund services guarantee: no refund exceeds the capture and no seat is paid back
  twice; money moves only on a verified provider event that names the refund and its exact
  amount; a claimed refund is never sent to the provider again; a repeated request returns the
  refund it made. Two behaviours that always abort are proved as such.
\<close>

section \<open>Never more than was captured\<close>

definition paid_back :: "database \<Rightarrow> RefundSeat \<Rightarrow> bool" where
  "paid_back db s \<longleftrightarrow> (\<exists>r\<in>set (db_refunds db). ref_id r = rseat_refundId s \<and> ref_succeededAt r \<noteq> None)"

lemma refunds_ok_capture:
  "refunds_ok db \<Longrightarrow> a \<in> set (db_attempts db) \<Longrightarrow>
     refunded_total (db_refunds db) (pay_id a) + in_flight_total (db_refunds db) (pay_id a) \<le> pay_amountMinor a"
  by (auto simp: refunds_ok_def money_core_def totals_ok_def aggregate_ok_def)

lemma paid_back_commits: "paid_back db s \<Longrightarrow> commits (db_refunds db) s"
  unfolding paid_back_def commits_def committed_def by blast

lemma refunds_ok_once:
  assumes ok: "refunds_ok db" and "s \<in> set (db_refundSeats db)" "s' \<in> set (db_refundSeats db)"
    "rseat_bookingSeatId s = rseat_bookingSeatId s'" "paid_back db s" "paid_back db s'"
  shows "rseat_refundId s = rseat_refundId s'"
proof -
  from ok have "seats_core (db_refunds db) (db_refundSeats db)" unfolding refunds_ok_def by (rule conjunct2)
  note once = this [unfolded seats_core_def, THEN conjunct2, THEN conjunct2, rule_format]
  show ?thesis
    by (rule once [OF assms(2,3)]) (intro conjI assms(4) paid_back_commits assms(5,6))
qed

lemmas refund_steps_ok =
  refund_money.request_frame [unfolded keeps_refunds_def, rule_format]
  refund_money.submit_frame [unfolded keeps_refunds_def, rule_format]
  refund_money.submit_all_frame [unfolded keeps_refunds_def, rule_format]
  refund_money.reconcile_refunds_all_frame [unfolded keeps_refunds_def, rule_format]
  refund_money.refund_event_frame [unfolded keeps_refunds_def, rule_format]
  refund_money.dispute_frame [unfolded keeps_refunds_def, rule_format]

text \<open>C11: Whatever is requested, submitted, reported or reconciled, refunds that succeeded and refunds in flight
  together never exceed the captured payment, and no seat is paid back by two refunds.\<close>

theorem never_over_refunded:
  assumes "refunds_ok db"
    and "db' = fst (requestRefund sha hmac64 draw actor input now db)
      \<or> db' = fst (submitRefund sha provider i now db)
      \<or> db' = fst (submitPendingRefunds sha provider providerName n now db)
      \<or> db' = fst (reconcileAmbiguousRefunds conflict providerName listing batch db)
      \<or> db' = fst (processRefundEvent sha freshId providerName event now db)
      \<or> db' = fst (processDisputeEvent sha ddraw freshId providerName devent now db)"
  shows "refunds_ok db'
    \<and> (\<forall>a\<in>set (db_attempts db'). refunded_total (db_refunds db') (pay_id a)
          + in_flight_total (db_refunds db') (pay_id a) \<le> pay_amountMinor a)
    \<and> (\<forall>s\<in>set (db_refundSeats db'). \<forall>s'\<in>set (db_refundSeats db').
          rseat_bookingSeatId s = rseat_bookingSeatId s' \<and> paid_back db' s \<and> paid_back db' s'
            \<longrightarrow> rseat_refundId s = rseat_refundId s')"
proof -
  have ok: "refunds_ok db'"
    using assms(2) by (elim disjE) (simp_all only: refund_steps_ok [OF assms(1)])
  show ?thesis
  proof (intro conjI ballI impI)
    show "refunds_ok db'" by (rule ok)
  next
    fix a assume "a \<in> set (db_attempts db')"
    then show "refunded_total (db_refunds db') (pay_id a) + in_flight_total (db_refunds db') (pay_id a) \<le> pay_amountMinor a"
      by (rule refunds_ok_capture [OF ok])
  next
    fix s s' assume "s \<in> set (db_refundSeats db')" "s' \<in> set (db_refundSeats db')"
      and "rseat_bookingSeatId s = rseat_bookingSeatId s' \<and> paid_back db' s \<and> paid_back db' s'"
    then show "rseat_refundId s = rseat_refundId s'" by (elim conjE) (rule refunds_ok_once [OF ok])
  qed
qed

section \<open>Money moves only on a verified event\<close>

definition settled_rows :: "database \<Rightarrow> (ident \<times> time option) list" where
  "settled_rows db = map (\<lambda>r. (ref_id r, ref_succeededAt r)) (db_refunds db)"

definition same_settled :: "database \<Rightarrow> database \<Rightarrow> bool" where
  "same_settled db db' \<longleftrightarrow> settled_rows db' = settled_rows db"

lemma same_settled_refunds: "db_refunds db' = db_refunds db \<Longrightarrow> same_settled db db'"
  by (simp add: same_settled_def settled_rows_def)

lemma update_refund_settled:
  assumes "update_refund i f db = Inr db'" "\<And>r. ref_id (f r) = ref_id r"
    "\<And>r. ref_succeededAt (f r) = g (ref_succeededAt r)"
  shows "settled_rows db' = map (\<lambda>(k, t). (k, if k = i then g t else t)) (settled_rows db)"
  using assms(1)
proof (rule update_refund_Inr)
  fix r refunds
  assume "refunds = update_rows (\<lambda>x. ref_id x = i) f (db_refunds db)"
    "maintain_payment_aggregate (ref_paymentAttemptId r) (db\<lparr>db_refunds := refunds\<rparr>) = Inr db'"
  then have "db_refunds db' = update_rows (\<lambda>x. ref_id x = i) f (db_refunds db)" by (auto simp: maintain_Inr)
  then show ?thesis using assms(2,3) by (auto simp: settled_rows_def update_rows_def)
qed

lemma same_settled_update:
  assumes "update_refund i f db = Inr db'" "\<And>r. ref_id (f r) = ref_id r \<and> ref_succeededAt (f r) = ref_succeededAt r"
  shows "same_settled db db'"
  using update_refund_settled [OF assms(1), of "\<lambda>t. t"] assms(2)
  by (auto simp: same_settled_def case_prod_beta prod_eq_iff intro!: map_idI)

interpretation settled: dispute_frame same_settled
proof unfold_locales
  fix reason now t db db'
  assume "revoke_admission reason now t db = Inr db'"
  then show "same_settled db db'" by (rule revoke_admission_Inr) (simp add: same_settled_refunds)
qed (auto simp: update_booking_Inr update_order_Inr update_attempt_Inr update_webhook_Inr enqueue_event_Inr
    same_settled_def settled_rows_def)

interpretation settled_sub: submission_frame same_settled
proof unfold_locales
  fix i f db db'
  assume run: "update_refund i f db = Inr db'" and f: "submission_change f"
  show "same_settled db db'"
    by (rule same_settled_update [OF run]) (use f in \<open>simp add: submission_change_def refund_change_def refund_key_def\<close>)
qed (simp add: same_settled_refunds)

text \<open>Whatever the provider answers to a refund request, an accepted refund, a refusal or a timeout, and
  whatever it lists to the reconciliation, no refund is counted as paid: they write no outcome.\<close>

theorem provider_answer_settles_nothing:
  "settled_rows (fst (submitRefund sha provider i now db)) = settled_rows db
   \<and> settled_rows (fst (submitPendingRefunds sha provider name n now db)) = settled_rows db
   \<and> settled_rows (fst (reconcileAmbiguousRefunds conflict name listing batch db)) = settled_rows db"
  using settled_sub.submit_frame settled_sub.submit_all_frame settled_sub.reconcile_refunds_all_frame
  unfolding same_settled_def by blast

text \<open>The reconciliation never has an excess of refunds to report.\<close>

lemma over_refund_not_reported:
  assumes "refunds_ok db" "f \<in> set (detectFinancialDivergence n db)"
  shows "dvf_reason f \<noteq> OVER_REFUND_RISK"
proof -
  from assms(2) obtain a where a: "a \<in> set (db_attempts db)" "f \<in> set (attempt_findings db a)"
    by (auto simp: detectFinancialDivergence_def select_rows_def dest!: in_set_takeD)
  have "pay_refundedMinor a + pay_inFlightRefundMinor a \<le> pay_amountMinor a"
    using assms(1) a(1) by (auto simp: refunds_ok_def money_core_def totals_ok_def aggregate_ok_def)
  with a(2) show ?thesis by (auto simp: attempt_findings_def finding_def Let_def split: if_split_asm)
qed

text \<open>The row \<open>i\<close> is paid at \<open>now\<close>, and no other row changes its outcome.\<close>

definition paid_row :: "ident \<Rightarrow> time \<Rightarrow> database \<Rightarrow> database \<Rightarrow> bool" where
  "paid_row i now db db' \<longleftrightarrow>
     settled_rows db' = map (\<lambda>(k, t). (k, if k = i then Some now else t)) (settled_rows db)"

definition names_refund :: "PaymentWebhookEvent \<Rightarrow> Refund \<Rightarrow> bool" where
  "names_refund w r \<longleftrightarrow> wh_providerRefundId w = ref_providerRefundId r \<and> wh_providerRefundId w \<noteq> None
     \<and> wh_normalizedRefundStatus w = Some RefundStatus.SUCCEEDED
     \<and> wh_amountMinor w = ref_requestedAmountMinor r \<and> wh_currency w = ref_currency r"

lemma revoke_refunded_settled: "revoke_refunded now ts m n db = Inr (db', c) \<Longrightarrow> same_settled db db'"
proof (induction ts arbitrary: m n db)
  case (Cons t ts)
  show ?case
  proof (cases "decideRefundTicketConsequence (tk_status t) True")
    case (KEEP_TICKET x)
    with Cons.prems Cons.IH show ?thesis by simp
  next
    case (REVOKE_TICKET reason)
    with Cons.prems obtain db1 where "revoke_admission reason now (tk_id t) db = Inr db1"
      "revoke_refunded now ts (m + 1) n db1 = Inr (db', c)" by (auto simp: and_then_eq_Inr)
    with Cons.IH settled.frame_revoke settled.frame_trans show ?thesis by blast
  qed
qed (simp add: same_settled_def)

lemma settle_succeeded_paid:
  assumes "settle_succeeded sha input r now db = Inr db'"
  shows "paid_row (ref_id r) now db db'"
proof -
  from assms obtain db1 db2 p where
    1: "update_refund (ref_id r) (succeed_row now) db = Inr db1" and
    2: "appendLedgerEntry sha (refund_entry LedgerEntryType.REFUND_SUCCEEDED r (stl_webhookId input)
         (Some (stl_providerRefundId input)) (effective_at input now)) db1 = Inr db2" and
    p: "applyTicketConsequences r now db2 = Inr p" and
    rest: "(case p of (db3, revoked, _) \<Rightarrow>
       and_then (maybeMarkBookingFullyRefunded (ref_bookingId r) (ref_paymentAttemptId r) now db3) (\<lambda>db4.
       let db5 = enqueueFinancialEvent (refund_event FinancialOutboxEventType.REFUND_SUCCEEDED
                 (''refund-succeeded:'' @ ref_id r) r now) db4
       in Inr (if 0 < revoked
             then enqueueFinancialEvent (refund_event TICKET_REVOCATION_REQUESTED (''refund-revocation:'' @ ref_id r) r now) db5
             else db5))) = Inr db'"
    unfolding settle_succeeded_def and_then_eq_Inr by blast
  obtain db3 revoked c where 3: "applyTicketConsequences r now db2 = Inr (db3, revoked, c)" and pe: "p = (db3, revoked, c)"
    using p by (cases p) blast
  from rest [unfolded pe Let_def prod.case and_then_eq_Inr] obtain db4 where
    4: "maybeMarkBookingFullyRefunded (ref_bookingId r) (ref_paymentAttemptId r) now db3 = Inr db4" and
    e: "(if 0 < revoked then enqueueFinancialEvent (refund_event TICKET_REVOCATION_REQUESTED
          (''refund-revocation:'' @ ref_id r) r now) (enqueueFinancialEvent (refund_event
          FinancialOutboxEventType.REFUND_SUCCEEDED (''refund-succeeded:'' @ ref_id r) r now) db4)
        else enqueueFinancialEvent (refund_event FinancialOutboxEventType.REFUND_SUCCEEDED
          (''refund-succeeded:'' @ ref_id r) r now) db4) = db'"
    unfolding sum.inject by blast
  have 5: "db_refunds db' = db_refunds db4"
    unfolding e [symmetric] by (simp add: enqueueFinancialEvent_def)
  have "settled_rows db2 = settled_rows db1"
    using settled.resp_append 2 unfolding obeys_def same_settled_def by blast
  moreover have "settled_rows db3 = settled_rows db2"
    using 3 revoke_refunded_settled unfolding applyTicketConsequences_def same_settled_def by blast
  moreover have "settled_rows db4 = settled_rows db3"
    using 4 by (auto simp: maybeMarkBookingFullyRefunded_def update_booking_Inr settled_rows_def
        split: option.splits if_split_asm)
  moreover have "settled_rows db' = settled_rows db4" using 5 by (simp add: settled_rows_def)
  moreover have "settled_rows db1 = map (\<lambda>(k, t). (k, if k = ref_id r then Some now else t)) (settled_rows db)"
    by (rule update_refund_settled [OF 1]) (simp_all add: succeed_row_def)
  ultimately show ?thesis by (simp add: paid_row_def)
qed

lemma settle_failed_same: "settle_failed sha input r now db = Inr db' \<Longrightarrow> same_settled db db'"
proof -
  assume "settle_failed sha input r now db = Inr db'"
  then obtain db1 db2 where 1: "update_refund (ref_id r) (fail_row ''PROVIDER_REPORTED_FAILURE'' now) db = Inr db1"
    and 2: "appendLedgerEntry sha (refund_entry LedgerEntryType.REFUND_FAILED r (stl_webhookId input)
         (Some (stl_providerRefundId input)) (effective_at input now)) db1 = Inr db2"
    and 3: "same_settled db2 db'"
    unfolding settle_failed_def and_then_eq_Inr by (auto intro: settled.frame_enqueue settled.frame_refl)
  have "same_settled db db1" by (rule same_settled_update [OF 1]) (simp add: fail_row_def)
  moreover have "same_settled db1 db2" using settled.resp_append 2 unfolding obeys_def by blast
  ultimately show ?thesis using 3 settled.frame_trans by blast
qed

lemma review_refund_same: "markRefundUnderReview r code now db = Inr db' \<Longrightarrow> same_settled db db'"
proof -
  assume "markRefundUnderReview r code now db = Inr db'"
  then obtain db1 db2 where 1: "update_refund (ref_id r) (review_refund_row code now) db = Inr db1"
    and 2: "update_order (ref_orderId r) (\<lambda>o'. o'\<lparr>ord_financialReviewState := REFUND_REVIEW\<rparr>) db1 = Inr db2"
    and 3: "same_settled db2 db'"
    unfolding markRefundUnderReview_def and_then_eq_Inr by (auto intro: settled.frame_enqueue settled.frame_refl)
  have "same_settled db db1" by (rule same_settled_update [OF 1]) (simp add: review_refund_row_def)
  moreover have "same_settled db1 db2" using 2 by (auto simp: update_order_Inr intro: same_settled_refunds)
  ultimately show ?thesis using 3 settled.frame_trans by blast
qed

lemma settle_refund_paid:
  assumes run: "settle_refund sha input r now db = Inr (db', out)"
  shows "same_settled db db' \<or> (paid_row (ref_id r) now db db'
    \<and> stl_incomingStatus input = RefundStatus.SUCCEEDED \<and> stl_amountMinor input = ref_requestedAmountMinor r
    \<and> stl_currency input = ref_currency r)"
proof (cases "stl_amountMinor input \<noteq> ref_requestedAmountMinor r \<or> stl_currency input \<noteq> ref_currency r")
  case True
  with run have "same_settled db db'"
    by (auto simp: settle_refund_def and_then_eq_Inr dest: review_refund_same)
  then show ?thesis ..
next
  case match: False
  show ?thesis
  proof (cases "isStaleProviderEvent (applied_at r) (stl_occurredAt input)")
    case True
    with match run show ?thesis by (simp add: settle_refund_def settled.frame_refl)
  next
    case fresh: False
    show ?thesis
    proof (cases "decideRefundTransition (ref_status r) (stl_incomingStatus input)")
      case (APPLY status)
      with match fresh run have run': "settle_decided sha input r status now db = Inr db'"
        by (simp add: settle_refund_def and_then_eq_Inr)
      have status: "status = stl_incomingStatus input" using APPLY by (simp add: refund_apply_iff)
      show ?thesis
      proof (cases "status = RefundStatus.SUCCEEDED")
        case True
        with run' status match show ?thesis by (simp add: settle_decided_def settle_succeeded_paid)
      next
        case other: False
        show ?thesis
        proof (cases "status = RefundStatus.FAILED")
          case True
          with run' have "same_settled db db'" by (simp add: settle_decided_def settle_failed_same)
          then show ?thesis ..
        next
          case False
          with other run' have "update_refund (ref_id r) (advance_row status now) db = Inr db'"
            by (simp add: settle_decided_def)
          from same_settled_update [OF this] show ?thesis by (simp add: advance_row_def)
        qed
      qed
    next
      case (REVIEW code)
      with match fresh run have "same_settled db db'"
        by (simp add: settle_refund_def and_then_eq_Inr) (blast intro: review_refund_same)
      then show ?thesis ..
    next
      case (IGNORE reason)
      with match fresh run show ?thesis by (simp add: settle_refund_def settled.frame_refl)
    qed
  qed
qed

lemma link_refund_same: "link_refund w i db = Inr db' \<Longrightarrow> db_refunds db' = db_refunds db"
  by (auto simp: link_refund_def and_then_eq_Inr update_webhook_Inr)

lemma settle_event_paid:
  assumes run: "settleRefundFromVerifiedEvent sha input now db = Inr (db', out)"
  shows "same_settled db db' \<or> (\<exists>r\<in>set (db_refunds db). paid_row (ref_id r) now db db'
    \<and> ref_providerRefundId r = Some (stl_providerRefundId input)
    \<and> stl_incomingStatus input = RefundStatus.SUCCEEDED \<and> stl_amountMinor input = ref_requestedAmountMinor r
    \<and> stl_currency input = ref_currency r)"
proof (cases "find_row (\<lambda>r. ref_providerRefundId r = Some (stl_providerRefundId input)) (db_refunds db)")
  case None
  with run show ?thesis by (simp add: settleRefundFromVerifiedEvent_def settled.frame_refl)
next
  case (Some r)
  with run have "and_then (link_refund (stl_webhookId input) (ref_id r) db) (settle_refund sha input r now) = Inr (db', out)"
    by (simp add: settleRefundFromVerifiedEvent_def)
  then obtain db1 where 1: "link_refund (stl_webhookId input) (ref_id r) db = Inr db1"
    and 2: "settle_refund sha input r now db1 = Inr (db', out)"
    unfolding and_then_eq_Inr by blast
  have rows: "settled_rows db1 = settled_rows db" using link_refund_same [OF 1] by (simp add: settled_rows_def)
  have cong: "same_settled db1 db' \<longleftrightarrow> same_settled db db'" "paid_row k now db1 db' \<longleftrightarrow> paid_row k now db db'" for k
    unfolding same_settled_def paid_row_def rows by simp_all
  have "r \<in> set (db_refunds db)" "ref_providerRefundId r = Some (stl_providerRefundId input)"
    using tbl.find_SomeD [OF Some] by simp_all
  with settle_refund_paid [OF 2, unfolded cong] show ?thesis by blast
qed

text \<open>C12: A refund is counted as paid only by a stored webhook whose signature was verified and that was
  not processed before, that reports success and names the refund, its exact amount and its currency;
  one delivery pays at most that refund, and every other event leaves all outcomes as they are.\<close>

theorem settled_only_by_verified_event:
  "settled_rows (fst (processVerifiedRefundRecord sha i now db)) = settled_rows db
   \<or> (\<exists>w r. find_webhook db i = Some w \<and> wh_signatureStatus w = PaymentWebhookSignatureStatus.VERIFIED
        \<and> \<not> webhook_processed w \<and> r \<in> set (db_refunds db) \<and> names_refund w r
        \<and> paid_row (ref_id r) now db (fst (processVerifiedRefundRecord sha i now db)))"
proof (cases "refund_webhook_transaction sha i now db")
  case (Inl e)
  then show ?thesis by (simp add: processVerifiedRefundRecord_def transact_def)
next
  case (Inr p)
  obtain db' res where p: "p = (db', res)" by force
  then have result: "fst (processVerifiedRefundRecord sha i now db) = db'"
    using Inr by (simp add: processVerifiedRefundRecord_def transact_def)
  from Inr p obtain w where w: "find_webhook db i = Some w"
    by (auto simp: refund_webhook_transaction_def or_missing_def and_then_eq_Inr split: option.splits)
  show ?thesis
  proof (cases "webhook_processed w")
    case True
    with Inr p w result show ?thesis by (simp add: refund_webhook_transaction_def or_missing_def)
  next
    case False
    with Inr p w obtain pid status where
      verified: "wh_signatureStatus w = PaymentWebhookSignatureStatus.VERIFIED" and
      ids: "wh_providerRefundId w = Some pid" "wh_normalizedRefundStatus w = Some status" and
      run: "and_then (settleRefundFromVerifiedEvent sha (settle_input w pid status) now db) (\<lambda>(db1, outcome).
              and_then (finish_webhook i (settlement_review outcome) now db1) (\<lambda>db2.
              Inr (db2, refund_webhook_result outcome))) = Inr (db', res)"
      by (auto simp: refund_webhook_transaction_def or_missing_def split: if_split_asm option.splits)
    from run obtain db1 out where
      1: "settleRefundFromVerifiedEvent sha (settle_input w pid status) now db = Inr (db1, out)" and
      2: "finish_webhook i (settlement_review out) now db1 = Inr db'"
      by (auto simp: and_then_eq_Inr)
    have "settled_rows db' = settled_rows db1"
      using 2 by (auto simp: finish_webhook_def update_webhook_Inr settled_rows_def)
    with settle_event_paid [OF 1] have "settled_rows db' = settled_rows db \<or>
        (\<exists>r\<in>set (db_refunds db). paid_row (ref_id r) now db db' \<and> names_refund w r)"
      unfolding same_settled_def paid_row_def names_refund_def by (auto simp: settle_input_def ids)
    with w False verified result show ?thesis by blast
  qed
qed

section \<open>A claimed refund is sent once\<close>

definition not_requested :: "ident \<Rightarrow> database \<Rightarrow> bool" where
  "not_requested i db \<longleftrightarrow> (\<forall>r\<in>set (db_refunds db). ref_id r = i \<longrightarrow> ref_status r \<noteq> RefundStatus.REQUESTED)"

definition keeps_sent :: "ident \<Rightarrow> database \<Rightarrow> database \<Rightarrow> bool" where
  "keeps_sent i db db' \<longleftrightarrow> (not_requested i db \<longrightarrow> not_requested i db')"

lemma update_refund_rows:
  assumes "update_refund i f db = Inr db'"
  shows "db_refunds db' = update_rows (\<lambda>x. ref_id x = i) f (db_refunds db)"
  using assms by (rule update_refund_Inr) (auto simp: maintain_Inr)

lemma submission_changeD:
  assumes "submission_change f"
  shows "ref_id (f r) = ref_id r" "ref_status (f r) \<noteq> RefundStatus.REQUESTED"
  using assms by (simp_all add: submission_change_def refund_change_def refund_key_def)

lemma not_requested_update:
  assumes "update_refund j f db = Inr db'" "submission_change f"
  shows "not_requested i db' \<longleftrightarrow> i = j \<or> not_requested i db"
  unfolding not_requested_def update_refund_rows [OF assms(1)]
  by (auto simp: tbl.all_update submission_changeD [OF assms(2)] split: if_splits)

interpretation sent: submission_frame "keeps_sent i" for i
proof unfold_locales
  fix j f db db'
  assume "update_refund j f db = Inr db'" "submission_change f"
  from not_requested_update [OF this] show "keeps_sent i db db'" by (simp add: keeps_sent_def)
qed (auto simp: keeps_sent_def not_requested_def update_order_Inr update_attempt_Inr update_webhook_Inr enqueue_event_Inr)

lemma claim_not_requested:
  assumes "claimRefundForSubmission i now db = Inr (db', Some c)"
  shows "not_requested i db'"
proof -
  from assms obtain db1 where "update_refund i (submitting now) db = Inr db1"
    "db_refunds db' = db_refunds db1"
    by (auto simp: claimRefundForSubmission_def Let_def and_then_eq_Inr create_refund_attempt_def
        split: option.splits if_split_asm)
  with not_requested_update [of i "submitting now" db db1 i] show ?thesis by (simp add: not_requested_def)
qed

lemma claim_refused: "not_requested i db \<Longrightarrow> claimRefundForSubmission i now db = Inr (db, None)"
proof -
  assume "not_requested i db"
  then have "find_row (\<lambda>r. ref_id r = i \<and> ref_status r = RefundStatus.REQUESTED) (db_refunds db) = None"
    unfolding tbl.find_None_iff not_requested_def by blast
  then show ?thesis by (simp add: claimRefundForSubmission_def)
qed


section \<open>Repeated requests\<close>

lemma request_cases:
  assumes "request_transaction sha hmac64 draw actor input now db = Inr p"
  obtains b o' ses u initiator approval a where
    "booking_of_reference db (rri_bookingReference input) = Some b" "find_order db (bk_orderId b) = Some o'"
    "find_session db (bk_sessionId b) = Some ses" "find_user db (act_userId actor) = Some u"
    "authorizeRefundRequest (act_role actor) (act_userId actor) (bk_userId b) (bk_organizationId b)
       (map mem_organizationId (select_rows (\<lambda>m. mem_userId m = act_userId actor) (db_memberships db)))
       (usr_platformRole u = PlatformRole.ADMIN) = Inr (initiator, approval)"
    "captured_attempt db (bk_orderId b) = Some a"
    "refund_of_payment sha (deriveProviderIdempotencyKey hmac64 (pay_id a) (rri_idempotencyKey input))
       draw actor input b o' ses a initiator approval now db = Inr p"
  using assms unfolding request_transaction_def by (auto split: option.splits sum.splits prod.splits)

lemma find_map_same: "(\<And>x. P (f x) = P x) \<Longrightarrow> List.find P (map f xs) = map_option f (List.find P xs)"
  by (induction xs) simp_all

lemma captured_after:
  assumes "captured_attempt db o' = Some a" "db_attempts db' = update_rows Q (aggregated refunds) (db_attempts db)"
  shows "\<exists>a'. captured_attempt db' o' = Some a' \<and> pay_id a' = pay_id a"
proof -
  have keep: "pay_orderId (aggregated refunds x) = pay_orderId x" for x by (simp add: aggregated_def)
  have "captured_attempt db' o' = map_option (\<lambda>x. if Q x then aggregated refunds x else x) (captured_attempt db o')"
    unfolding captured_attempt_def assms(2) row_defs
    by (rule find_map_same) (simp add: keep)
  with assms(1) show ?thesis by (cases "Q a") simp_all
qed

lemma write_refund_after:
  assumes "write_refund sha r seats now db = Inr db'"
  obtains t l u where "db' = db\<lparr>db_refunds := db_refunds db @ [r], db_refundSeats := t, db_ledger := l, db_finOutbox := u,
     db_attempts := update_rows (\<lambda>a. pay_id a = ref_paymentAttemptId r) (aggregated (db_refunds db @ [r])) (db_attempts db)\<rparr>"
  using assms
proof (rule write_refund_Inr)
  fix db1 db2 l u
  assume "create_refund r db = Inr db1" and 2: "db2 = db1\<lparr>db_refundSeats := db_refundSeats db1 @ seats\<rparr>"
    and 3: "db' = db2\<lparr>db_ledger := l, db_finOutbox := u\<rparr>"
  from create_refund_Inr(4) [OF this(1)] have "db1 = db\<lparr>db_refunds := db_refunds db @ [r],
     db_attempts := update_rows (\<lambda>a. pay_id a = ref_paymentAttemptId r) (aggregated (db_refunds db @ [r])) (db_attempts db)\<rparr>"
    by (simp add: maintain_Inr)
  with 2 3 show thesis by (intro that [where t = "db_refundSeats db1 @ seats" and l = l and u = u]) simp
qed

lemma find_append_new: "find_row P xs = None \<Longrightarrow> P r \<Longrightarrow> find_row P (xs @ [r]) = Some r"
  by (induction xs) (auto simp: find_row_def split: if_split_asm)

text \<open>C23: Repeating an accepted refund request, later and with fresh identifiers, returns the refund it made
  and writes nothing.\<close>

theorem refund_request_replays:
  assumes "requestRefund sha hmac64 draw actor input now db = (db1, Inr res)"
  shows "\<exists>res'. requestRefund sha hmac64 draw' actor input now' db1 = (db1, Inr res')
    \<and> crr_refundId res' = crr_refundId res \<and> crr_publicReference res' = crr_publicReference res
    \<and> crr_amountMinor res' = crr_amountMinor res \<and> crr_currency res' = crr_currency res \<and> crr_replayed res'"
proof -
  from assms have "request_transaction sha hmac64 draw actor input now db = Inr (db1, res)"
    by (auto simp: requestRefund_def transact_def split: sum.splits)
  then show ?thesis
  proof (rule request_cases)
    fix b o' ses u initiator approval a
    assume look: "booking_of_reference db (rri_bookingReference input) = Some b" "find_order db (bk_orderId b) = Some o'"
      "find_session db (bk_sessionId b) = Some ses" "find_user db (act_userId actor) = Some u"
      and auth: "authorizeRefundRequest (act_role actor) (act_userId actor) (bk_userId b) (bk_organizationId b)
        (map mem_organizationId (select_rows (\<lambda>m. mem_userId m = act_userId actor) (db_memberships db)))
        (usr_platformRole u = PlatformRole.ADMIN) = Inr (initiator, approval)"
      and cap: "captured_attempt db (bk_orderId b) = Some a"
    let ?key = "deriveProviderIdempotencyKey hmac64 (pay_id a) (rri_idempotencyKey input)"
    assume run: "refund_of_payment sha ?key draw actor input b o' ses a initiator approval now db = Inr (db1, res)"
    have replay: ?thesis
      if cap1: "captured_attempt db1 (bk_orderId b) = Some a1" "pay_id a1 = pay_id a"
        and found: "find_row (\<lambda>r. ref_providerIdempotencyKey r = ?key) (db_refunds db1) = Some r"
        and res: "refund_result r x = res"
        and same: "db_bookings db1 = db_bookings db" "db_orders db1 = db_orders db" "db_sessions db1 = db_sessions db"
          "db_users db1 = db_users db" "db_memberships db1 = db_memberships db" for a1 r x
    proof -
      have "request_transaction sha hmac64 draw' actor input now' db1 = Inr (db1, refund_result r True)"
        using look auth cap1 found unfolding request_transaction_def booking_of_reference_def find_order_def
          find_session_def find_user_def same
        by (simp add: refund_of_payment_def)
      with res show ?thesis by (auto simp: requestRefund_def transact_def refund_result_def)
    qed
    show ?thesis
    proof (cases "find_row (\<lambda>r. ref_providerIdempotencyKey r = ?key) (db_refunds db)")
      case (Some r)
      with run have "db1 = db" "res = refund_result r True" by (auto simp: refund_of_payment_def)
      with Some cap show ?thesis by (intro replay) simp_all
    next
      case None
      with run obtain quote r where
        r: "r = new_refund draw actor input b a initiator approval ?key quote now" "res = refund_result r False" and
        w: "write_refund sha r (new_refund_seats (ref_id r) (seat_snapshots db (bk_id b)) (quote_bookingSeatIds quote)) now db = Inr db1"
        by (auto simp: refund_of_payment_def Let_def and_then_eq_Inr split: option.splits sum.splits)
      from w show ?thesis
      proof (rule write_refund_after)
        fix led out t
        assume db1: "db1 = db\<lparr>db_refunds := db_refunds db @ [r], db_refundSeats := t, db_ledger := led, db_finOutbox := out,
          db_attempts := update_rows (\<lambda>a. pay_id a = ref_paymentAttemptId r) (aggregated (db_refunds db @ [r])) (db_attempts db)\<rparr>"
        then have "db_attempts db1 = update_rows (\<lambda>a. pay_id a = ref_paymentAttemptId r) (aggregated (db_refunds db @ [r])) (db_attempts db)"
          by simp
        from captured_after [OF cap this] obtain a1 where a1: "captured_attempt db1 (bk_orderId b) = Some a1" "pay_id a1 = pay_id a"
          by blast
        have "find_row (\<lambda>r. ref_providerIdempotencyKey r = ?key) (db_refunds db1) = Some r"
          using find_append_new [OF None, of r] by (simp add: db1 r(1) new_refund_def)
        from replay [OF a1 this r(2) [symmetric]] db1 show ?thesis by simp
      qed
    qed
  qed
qed

section \<open>Events that can never be applied\<close>

lemma link_refund_Inr:
  "link_refund w i db = Inr db' \<Longrightarrow> \<exists>t. db' = db\<lparr>db_webhooks := t\<rparr>"
  by (auto simp: link_refund_def and_then_eq_Inr update_webhook_Inr)

lemma find_refund_id: "refunds_ok db \<Longrightarrow> r \<in> set (db_refunds db) \<Longrightarrow> find_refund db (ref_id r) = Some r"
  by (rule find_refund_distinct) (simp_all add: refunds_ok_def money_core_def)

lemma open_refund_row:
  assumes "refund_row_ok r" "ref_status r \<in> {RefundStatus.REQUESTED, RefundStatus.SUBMITTING, RefundStatus.PROCESSING}"
  shows "ref_cancelledAt r = None" "ref_succeededAt r = None" "ref_failedAt r = None"
  using assms by (auto simp: refund_row_ok_def refund_lifecycle_def Let_def)

lemma cancel_refused:
  assumes ok: "refunds_ok db" and r: "r \<in> set (db_refunds db)"
    and opened: "ref_status r \<in> {RefundStatus.REQUESTED, RefundStatus.SUBMITTING, RefundStatus.PROCESSING}"
    and input: "stl_incomingStatus input = RefundStatus.CANCELLED" "stl_amountMinor input = ref_requestedAmountMinor r"
      "stl_currency input = ref_currency r"
  shows "settle_refund sha input r now (db\<lparr>db_webhooks := t\<rparr>) = Inl (ConstraintViolation ''Refund'')"
proof -
  have row: "refund_row_ok r" using ok r by (simp add: refunds_ok_def money_core_def)
  note times = open_refund_row [OF row opened]
  have "decideRefundTransition (ref_status r) RefundStatus.CANCELLED = RefundTransitionDecision.APPLY RefundStatus.CANCELLED"
    using opened by (auto simp: refund_apply_iff)
  moreover have "\<not> isStaleProviderEvent (applied_at r) (stl_occurredAt input)"
    by (simp add: isStaleProviderEvent_def applied_at_def times)
  moreover have "update_refund (ref_id r) (advance_row RefundStatus.CANCELLED now) (db\<lparr>db_webhooks := t\<rparr>)
      = Inl (ConstraintViolation ''Refund'')"
  proof -
    have "find_refund (db\<lparr>db_webhooks := t\<rparr>) (ref_id r) = Some r"
      using find_refund_id [OF ok r] by (simp add: find_refund_def)
    moreover have "\<not> refund_update_ok r (advance_row RefundStatus.CANCELLED now r)"
      by (simp add: refund_update_ok_def refund_row_ok_def refund_lifecycle_def Let_def advance_row_def times)
    ultimately show ?thesis by (simp add: update_refund_def)
  qed
  ultimately show ?thesis by (simp add: settle_refund_def settle_decided_def input)
qed

text \<open>C24: A verified event saying that the provider cancelled an open refund is never recorded: the status is
  written without the cancellation time that the row requires, so each delivery aborts and changes nothing.\<close>

theorem provider_cancellation_never_recorded:
  assumes "refunds_ok db" and "find_webhook db i = Some w" and "\<not> webhook_processed w"
    and "wh_normalizedRefundStatus w = Some RefundStatus.CANCELLED" and "wh_providerRefundId w = Some p"
    and "find_row (\<lambda>r. ref_providerRefundId r = Some p) (db_refunds db) = Some r"
    and "ref_status r \<in> {RefundStatus.REQUESTED, RefundStatus.SUBMITTING, RefundStatus.PROCESSING}"
    and "wh_amountMinor w = ref_requestedAmountMinor r" and "wh_currency w = ref_currency r"
  shows "\<exists>e. processVerifiedRefundRecord sha i now db = (db, Inl e)"
proof -
  let ?input = "settle_input w p RefundStatus.CANCELLED"
  have r: "r \<in> set (db_refunds db)" using tbl.find_SomeD [OF assms(6)] by simp
  have "\<exists>e. settleRefundFromVerifiedEvent sha ?input now db = Inl e"
  proof (cases "link_refund (stl_webhookId ?input) (ref_id r) db")
    case (Inl e)
    with assms(6) show ?thesis by (simp add: settleRefundFromVerifiedEvent_def settle_input_def)
  next
    case (Inr db1)
    from link_refund_Inr [OF Inr] obtain t where "db1 = db\<lparr>db_webhooks := t\<rparr>" ..
    with Inr assms(6) cancel_refused [OF assms(1) r assms(7), of ?input sha now t] assms(8,9) show ?thesis
      by (simp add: settleRefundFromVerifiedEvent_def settle_input_def)
  qed
  then have "\<exists>e. refund_webhook_transaction sha i now db = Inl e"
    using assms(2-5) by (auto simp: refund_webhook_transaction_def or_missing_def)
  then show ?thesis by (auto simp: processVerifiedRefundRecord_def transact_def)
qed

lemma closed_refused:
  "dsp_status new = DisputeStatus.CLOSED \<Longrightarrow> dsp_outcome new = None \<Longrightarrow> \<not> dispute_update_ok old new"
  by (simp add: dispute_update_ok_def dispute_row_ok_def dispute_lifecycle_def)

text \<open>C25: A verified event that closes a dispute without an outcome is never recorded: the row of a closed
  dispute requires an outcome and the code writes none, so each delivery aborts and changes nothing.\<close>

theorem dispute_closure_never_recorded:
  assumes "find_webhook db i = Some w" and "\<not> webhook_processed w"
    and "wh_normalizedDisputeStatus w = Some DisputeStatus.CLOSED" and "wh_providerDisputeId w = Some p"
    and "find_row (\<lambda>a. pay_providerIntentId a = Some (wh_providerIntentId w)) (db_attempts db) = Some a"
    and "find_row (\<lambda>d. dispute_key d = (pay_provider a, p)) (db_disputes db) = Some d"
    and "isOpenDisputeStatus (dsp_status d)"
  shows "\<exists>e. processVerifiedDisputeRecord sha draw i now db = (db, Inl e)"
proof -
  let ?input = "dispute_input w p DisputeStatus.CLOSED"
  have advance: "decideDisputeTransition (dsp_status d) DisputeStatus.CLOSED = DisputeTransitionDecision.APPLY DisputeStatus.CLOSED None"
    using assms(7) by (cases "dsp_status d") (simp_all add: decision_defs)
  have refused: "update_dispute (dsp_id d) f db1 \<noteq> Inr db2"
    if "\<And>x. dsp_status (f x) = DisputeStatus.CLOSED \<and> dsp_outcome (f x) = None" for f db1 db2
    using that closed_refused by (auto simp: update_dispute_def and_then_eq_Inr checked_update_Inr)
  have "advance_dispute sha ?input a d DisputeStatus.CLOSED None now db1 \<noteq> Inr db2" for db1 db2
    unfolding advance_dispute_def and_then_eq_Inr by (simp add: refused)
  then have "\<exists>e. advance_dispute sha ?input a d DisputeStatus.CLOSED None now db1 = Inl e" for db1
    by (metis sum.exhaust)
  then have "\<exists>e. apply_to_dispute sha ?input a d now db = Inl e"
    unfolding apply_to_dispute_def
    by (cases "link_dispute (dei_webhookId ?input) (dsp_id d) db") (auto simp: dispute_input_def advance and_then_eq_Inl)
  then have "\<exists>e. dispute_webhook_transaction sha draw i now db = Inl e"
    using assms(1-6) by (auto simp: dispute_webhook_transaction_def or_missing_def applyDisputeFromVerifiedEvent_def dispute_input_def)
  then show ?thesis by (auto simp: processVerifiedDisputeRecord_def transact_def)
qed

end
