(* ===== verification/Ticket_Properties.thy ===== *)
theory Ticket_Properties
  imports Refund_Properties Ticket_Invariant
begin

text \<open>
  What the ticket services guarantee: every step keeps the ticket invariant, so a ticket admits
  at most once; a scan is accepted only for a live credential at the right door and time, and
  uses the ticket up; a rotation leaves exactly one active credential; issuance gives every
  booked seat exactly one ticket; a download grant opens once.
\<close>

section \<open>Tickets admit at most once\<close>

lemma accepted_once:
  assumes "tickets_ok db"
  shows "length (filter (\<lambda>r. accepted_ticket r = Some k) (db_redemptions db)) \<le> 1"
proof -
  let ?keys = "filter (\<lambda>x. x \<noteq> None) (map accepted_ticket (db_redemptions db))"
  have "filter (\<lambda>x. x = Some k) (filter (\<lambda>x. x \<noteq> None) (map accepted_ticket rs))
      = map accepted_ticket (filter (\<lambda>r. accepted_ticket r = Some k) rs)" for rs
    by (induction rs) auto
  moreover have "distinct ?keys" using assms unfolding tickets_ok_def tickets_core_def by blast
  then have "distinct (filter (\<lambda>x. x = Some k) ?keys)" by (rule distinct_filter)
  ultimately have d: "distinct (map accepted_ticket (filter (\<lambda>r. accepted_ticket r = Some k) (db_redemptions db)))" by simp
  have "set (map accepted_ticket (filter (\<lambda>r. accepted_ticket r = Some k) (db_redemptions db))) \<subseteq> {Some k}" by auto
  from card_mono [OF _ this] distinct_card [OF d] show ?thesis by simp
qed

lemmas ticket_steps =
  issuance_keeps scan_keeps rotation_keeps revocation_keeps
  ticket_money.refund_event_frame ticket_money.dispute_frame

text \<open>Issuing, scanning, rotating and revoking tickets and the events of refunds and disputes keep the
  ticket invariant: in every history a ticket has at most one accepted scan, it is used exactly
  when it has one, and a used ticket can never be revoked or used again.\<close>

theorem tickets_admit_once:
  assumes "tickets_ok db"
    and "db' = fst (processTicketIssuanceForBooking hmac64 hmac16 secret tdraw bookingId now db)
      \<or> db' = fst (validateTicketEntry hmac16 secret input now db)
      \<or> db' = fst (rotateTicketCredential hmac64 hmac16 secret tdraw actor ref now db)
      \<or> db' = fst (revokeTicket tdraw actor ref reason now db)
      \<or> db' = fst (processRefundEvent sha freshId providerName event now db)
      \<or> db' = fst (processDisputeEvent sha ddraw freshId providerName devent now db)"
  shows "tickets_ok db' \<and> length (filter (\<lambda>r. accepted_ticket r = Some k) (db_redemptions db')) \<le> 1"
proof -
  have "keeps_tickets db db'" using assms(2) by (elim disjE) (simp_all only: ticket_steps)
  with assms(1) have "tickets_ok db'" by (simp add: keeps_tickets_def)
  with accepted_once show ?thesis by blast
qed

section \<open>An accepted scan\<close>

definition admissible :: "hmac \<Rightarrow> string \<Rightarrow> scan_input \<Rightarrow> time \<Rightarrow> database \<Rightarrow> TicketCredential \<Rightarrow> Ticket \<Rightarrow> bool" where
  "admissible hmac16 secret input now db c t \<longleftrightarrow>
     c \<in> set (db_credentials db) \<and> cred_credentialHash c = credential_hash hmac16 secret (scan_credential input)
     \<and> cred_status c = TicketCredentialStatus.ACTIVE
     \<and> t \<in> set (db_tickets db) \<and> tk_id t = cred_ticketId c \<and> tk_status t = TicketStatus.ACTIVE
     \<and> tk_sessionId t = scan_sessionId input
     \<and> (\<exists>b. find_booking db (tk_bookingId t) = Some b \<and> bk_status b = BookingStatus.CONFIRMED)
     \<and> (\<exists>ses. find_session db (scan_sessionId input) = Some ses \<and> ses_status ses \<noteq> EventSessionStatus.CANCELLED
          \<and> ses_startAt ses - scan_earlyMinutes input * 60000 \<le> now \<and> now \<le> ses_endAt ses + scan_lateMinutes input * 60000
          \<and> (\<exists>ev. find_event db (ses_eventId ses) = Some ev \<and> tk_eventId t = ses_eventId ses
               \<and> findAuthorizedScannerSession db (scan_userId input) ses ev \<noteq> None))"

definition used_up :: "TicketCredential \<Rightarrow> Ticket \<Rightarrow> database \<Rightarrow> bool" where
  "used_up c t db \<longleftrightarrow> (\<forall>x\<in>set (db_credentials db). cred_id x = cred_id c \<longrightarrow> cred_status x = TicketCredentialStatus.USED)
     \<and> (\<exists>x\<in>set (db_credentials db). cred_id x = cred_id c \<and> cred_credentialHash x = cred_credentialHash c)
     \<and> (\<forall>x\<in>set (db_tickets db). tk_id x = tk_id t \<longrightarrow> tk_status x = TicketStatus.USED)
     \<and> (\<exists>r\<in>set (db_redemptions db). accepted_ticket r = Some (tk_id t))"

lemma redeem_accepted:
  assumes "redeem input ses ev c t b ticketSession seat now db = Inr (db', res)" "tsr_accepted res"
    and c: "c \<in> set (db_credentials db)"
  shows "decide_entry input ses c t b ticketSession now = TicketRedemptionOutcome.ACCEPTED" "used_up c t db'"
proof -
  show acc: "decide_entry input ses c t b ticketSession now = TicketRedemptionOutcome.ACCEPTED"
    using assms(1,2) by (auto simp: redeem_def Let_def and_then_eq_Inr)
  let ?r = "redemption input ses ev now (Some (tk_id t, cred_id c)) TicketRedemptionOutcome.ACCEPTED"
  from assms(1) obtain db1 where 1: "create_redemption ?r db = Inr db1" and 2: "admit c t now db1 = Inr db'"
    unfolding redeem_def Let_def acc and_then_eq_Inr by auto
  have "?r \<in> set (db_redemptions db')"
    using create_redemption_Inr [OF 1] by (auto simp: admit_Inr [OF 2])
  moreover have "accepted_ticket ?r = Some (tk_id t)" by (simp add: accepted_ticket_def redemption_def)
  moreover have "c\<lparr>cred_status := TicketCredentialStatus.USED, cred_usedAt := Some now\<rparr> \<in> set (db_credentials db')"
    using c create_redemption_Inr [OF 1] by (force simp: admit_Inr [OF 2] tbl.mem_update)
  then have "\<exists>x\<in>set (db_credentials db'). cred_id x = cred_id c \<and> cred_credentialHash x = cred_credentialHash c"
    by (rule bexI [rotated]) simp
  ultimately show "used_up c t db'"
    unfolding used_up_def by (auto simp: admit_Inr [OF 2] tbl.all_update)
qed

lemma rejected_not_accepted:
  "reject_invalid input ses ev now db = Inr (db', res) \<Longrightarrow> \<not> tsr_accepted res"
  by (auto simp: reject_invalid_def and_then_eq_Inr plain_result_def)

lemma scan_accepted:
  assumes run: "scan_transaction hmac16 secret input ses ev now db = Inr (db', res)" and acc: "tsr_accepted res"
    and new: "earlier_scan db input = None"
  obtains c t b ticketSession seat where
    "c \<in> set (db_credentials db)" "cred_credentialHash c = credential_hash hmac16 secret (scan_credential input)"
    "t \<in> set (db_tickets db)" "tk_id t = cred_ticketId c" "find_booking db (tk_bookingId t) = Some b"
    "find_session db (tk_sessionId t) = Some ticketSession"
    "redeem input ses ev c t b ticketSession seat now db = Inr (db', res)"
proof -
  from run acc new obtain credential where cred: "parseTicketCredential (scan_credential input) = Some credential"
    by (auto simp: scan_transaction_def dest: rejected_not_accepted split: option.splits)
  then have same: "credential = scan_credential input" by (simp add: parseTicketCredential_def split: if_split_asm)
  let ?hash = "credential_hash hmac16 secret (scan_credential input)"
  have hash: "hashTicketCredential hmac16 secret credential = Inr ?hash"
    using cred by (simp add: hashTicketCredential_def same)
  from run acc new obtain c where c: "find_row (\<lambda>c. cred_credentialHash c = ?hash) (db_credentials db) = Some c"
    "compareTicketCredentialHash (cred_credentialHash c) ?hash"
    by (auto simp: scan_transaction_def cred hash dest: rejected_not_accepted split: option.splits if_split_asm)
  with run new obtain t where t: "find_ticket db (cred_ticketId c) = Some t"
    by (auto simp: scan_transaction_def cred hash split: option.splits)
  from run new c t obtain b ticketSession seat where
    "find_booking db (tk_bookingId t) = Some b" "find_session db (tk_sessionId t) = Some ticketSession"
    "redeem input ses ev c t b ticketSession seat now db = Inr (db', res)"
    by (auto simp: scan_transaction_def cred hash split: option.splits)
  with that tbl.find_SomeD [OF c(1)] tbl.find_SomeD [OF t [unfolded find_ticket_def]] show thesis by blast
qed

lemma scan_admissible:
  assumes "validateTicketEntry hmac16 secret input now db = (db', Inr res)" and "tsr_accepted res"
    and "earlier_scan db input = None"
  shows "\<exists>c t. admissible hmac16 secret input now db c t \<and> used_up c t db'"
proof -
  from assms(1,2) obtain ses ev m where look: "find_session db (scan_sessionId input) = Some ses"
    "find_event db (ses_eventId ses) = Some ev" "findAuthorizedScannerSession db (scan_userId input) ses ev = Some m"
    and tx: "scan_transaction hmac16 secret input ses ev now db = Inr (db', res)"
    by (auto simp: validateTicketEntry_def plain_result_def transact_def split: option.splits sum.splits)
  show ?thesis
    using tx assms(2,3)
  proof (rule scan_accepted)
    fix c t b ticketSession seat
    assume c: "c \<in> set (db_credentials db)" "cred_credentialHash c = credential_hash hmac16 secret (scan_credential input)"
      and t: "t \<in> set (db_tickets db)" "tk_id t = cred_ticketId c" and b: "find_booking db (tk_bookingId t) = Some b"
      and s: "find_session db (tk_sessionId t) = Some ticketSession"
      and run: "redeem input ses ev c t b ticketSession seat now db = Inr (db', res)"
    note acc = redeem_accepted [OF run assms(2) c(1)]
    have "admissible hmac16 secret input now db c t"
      using acc(1) c t b s look by (auto simp: admissible_def decide_accepted_iff entry_open_iff)
    with acc(2) show ?thesis by blast
  qed
qed



section \<open>Rotation\<close>

lemma rotated_credentials:
  assumes "rotate_writes hmac64 hmac16 secret draw actor t c now db = Inr db'"
  obtains new code where
    "deriveTicketCredential hmac64 secret (tk_publicReference t) (cred_version c + 1) = Inr code"
    "hashTicketCredential hmac16 secret code = Inr (cred_credentialHash new)" "active_credential (tk_id t) new"
    "new \<in> set (db_credentials db')"
    "\<forall>x\<in>set (db_credentials db'). cred_id x = cred_id c \<longrightarrow> cred_status x = TicketCredentialStatus.REPLACED"
proof -
  let ?v = "cred_version c + 1"
  let ?link = "\<lambda>x. x\<lparr>cred_replacementCredentialId := Some (td_credentialId draw (tk_id t) ?v)\<rparr>"
  from assms obtain db1 db2 db3 where
    1: "update_credential (cred_id c) (replace_credential now) db = Inr db1" and
    2: "issue_credential hmac64 hmac16 secret draw t ?v now db1 = Inr db2" and
    3: "update_credential (cred_id c) ?link db2 = Inr db3" and
    rest: "db_credentials db' = db_credentials db3"
    by (rule rotate_writes_split)
  from 2 obtain code hash where code: "deriveTicketCredential hmac64 secret (tk_publicReference t) ?v = Inr code"
    "hashTicketCredential hmac16 secret code = Inr hash"
    and new: "create_credential (new_credential (td_credentialId draw (tk_id t) ?v) (tk_id t) ?v hash now) db1 = Inr db2"
    unfolding issue_credential_def and_then_eq_Inr by blast
  let ?new = "new_credential (td_credentialId draw (tk_id t) ?v) (tk_id t) ?v hash now"
  have db2: "db_credentials db2 = db_credentials db1 @ [?new]" and fresh: "cred_id ?new \<notin> cred_id ` set (db_credentials db1)"
    using new by (auto simp: create_credential_def has_key_def insert_row_def split: if_split_asm)
  have other: "cred_id ?new \<noteq> cred_id c" using fresh update_credential_ids [OF 1] by (auto simp: replace_credential_def)
  have creds: "db_credentials db' = update_rows (\<lambda>x. cred_id x = cred_id c) ?link (db_credentials db1 @ [?new])"
    unfolding rest update_credential_Inr(1) [OF 3] db2 by simp
  have old: "cred_status x = TicketCredentialStatus.REPLACED" if "x \<in> set (db_credentials db1)" "cred_id x = cred_id c" for x
  proof -
    from that obtain y where "x = (if cred_id y = cred_id c then replace_credential now y else y)"
      by (auto simp: update_credential_Inr(1) [OF 1] tbl.mem_update)
    with that(2) show ?thesis by (cases "cred_id y = cred_id c") (simp_all add: replace_credential_def)
  qed
  have "?new \<in> set (db_credentials db')" unfolding creds tbl.mem_update using other by (intro bexI [of _ ?new]) simp_all
  moreover have "\<forall>x\<in>set (db_credentials db'). cred_id x = cred_id c \<longrightarrow> cred_status x = TicketCredentialStatus.REPLACED"
    unfolding creds tbl.all_update using old other by auto
  ultimately show thesis
    using that [OF code(1), of ?new] code(2) by (simp add: active_credential_def) (simp add: new_credential_def)
qed

text \<open>C33: A rotation replaces the current credential of the ticket: the old one is marked replaced, and the
  only credential of the ticket that is still active is the one whose hash is stored for the new
  version.\<close>

theorem rotation_leaves_one_credential:
  assumes "tickets_ok db"
    and "rotateTicketCredential hmac64 hmac16 secret draw actor ref now db = (db', Inr (r, v))"
  shows "\<exists>t old new code. ticket_of_reference db ref = Some t \<and> current_credential db (tk_id t) = Some old
    \<and> v = cred_version old + 1
    \<and> (\<forall>x\<in>set (db_credentials db'). cred_id x = cred_id old \<longrightarrow> cred_status x = TicketCredentialStatus.REPLACED)
    \<and> deriveTicketCredential hmac64 secret (tk_publicReference t) v = Inr code
    \<and> hashTicketCredential hmac16 secret code = Inr (cred_credentialHash new)
    \<and> {x \<in> set (db_credentials db'). active_credential (tk_id t) x} = {new}"
proof -
  from assms(2) have "rotate_transaction hmac64 hmac16 secret draw actor ref now db = Inr (db', (r, v))"
    by (auto simp: rotateTicketCredential_def transact_def split: if_split_asm sum.splits)
  then obtain t old where t: "ticket_of_reference db ref = Some t" and old: "current_credential db (tk_id t) = Some old"
    and v: "v = cred_version old + 1" and run: "rotate_writes hmac64 hmac16 secret draw actor t old now db = Inr db'"
    by (auto simp: rotate_transaction_def and_then_eq_Inr split: option.splits if_split_asm)
  have ok: "tickets_ok db'"
    using rotation_keeps [of db hmac64 hmac16 secret draw actor ref now] assms by (simp add: keeps_tickets_def)
  from run show ?thesis
  proof (rule rotated_credentials)
    fix new code
    assume new: "deriveTicketCredential hmac64 secret (tk_publicReference t) (cred_version old + 1) = Inr code"
      "hashTicketCredential hmac16 secret code = Inr (cred_credentialHash new)" "active_credential (tk_id t) new"
      "new \<in> set (db_credentials db')"
      "\<forall>x\<in>set (db_credentials db'). cred_id x = cred_id old \<longrightarrow> cred_status x = TicketCredentialStatus.REPLACED"
    have "{x \<in> set (db_credentials db'). active_credential (tk_id t) x} = {new}"
      using active_credential_unique [OF ok] new(3,4) by blast
    with t old v new show ?thesis by blast
  qed
qed

section \<open>Issuance\<close>

lemma ensure_ticket_seat:
  assumes "ensure_ticket draw b seatId now db = Inr (db', t, n)"
  shows "tk_bookingSeatId t = seatId" "set (db_tickets db) \<subseteq> set (db_tickets db')"
proof -
  have "tk_bookingSeatId t = seatId \<and> set (db_tickets db) \<subseteq> set (db_tickets db')"
  proof (cases "ticket_of_seat db seatId")
    case (Some u)
    with assms have "db' = db" "t = u" by (simp_all add: ensure_ticket_def)
    with tbl.find_SomeD [OF Some [unfolded ticket_of_seat_def]] show ?thesis by simp
  next
    case None
    with assms obtain db1 where 1: "create_ticket (new_ticket draw b seatId now) db = Inr db1"
      and 2: "create_audit (audit_row (td_ticketId draw seatId) None ISSUED None now) db1 = Inr db'"
      and t: "t = new_ticket draw b seatId now"
      by (auto simp: ensure_ticket_def Let_def and_then_eq_Inr new_ticket_def)
    have "db_tickets db' = db_tickets db1" using 2 by (auto simp: create_audit_def split: if_split_asm)
    with create_ticket_Inr [OF 1] t show ?thesis by (auto simp: new_ticket_def)
  qed
  then show "tk_bookingSeatId t = seatId" "set (db_tickets db) \<subseteq> set (db_tickets db')" by blast+
qed

lemma ensure_credential_tickets:
  "ensure_credential hmac64 hmac16 secret draw t now db = Inr (db', k) \<Longrightarrow> db_tickets db' = db_tickets db"
  by (auto simp: ensure_credential_def and_then_eq_Inr create_credential_def split: if_split_asm elim!: issue_credential_Inr)

lemma issue_seats_tickets:
  "issue_seats hmac64 hmac16 secret draw b now ids m n db = Inr (db', m', n') \<Longrightarrow>
     set (db_tickets db) \<subseteq> set (db_tickets db') \<and> set ids \<subseteq> tk_bookingSeatId ` set (db_tickets db')"
proof (induction ids arbitrary: m n db)
  case (Cons seatId ids)
  from Cons.prems obtain p where p: "ensure_ticket draw b seatId now db = Inr p"
    and rest: "(case p of (db1, t, k) \<Rightarrow> and_then (ensure_credential hmac64 hmac16 secret draw t now db1) (\<lambda>(db2, j).
      issue_seats hmac64 hmac16 secret draw b now ids (m + k) (n + j) db2)) = Inr (db', m', n')"
    unfolding issue_seats.simps and_then_eq_Inr by blast
  obtain db1 t k where pe: "p = (db1, t, k)" by (cases p) blast
  from rest [unfolded pe prod.case and_then_eq_Inr] obtain db2 j where
    2: "ensure_credential hmac64 hmac16 secret draw t now db1 = Inr (db2, j)" and
    3: "issue_seats hmac64 hmac16 secret draw b now ids (m + k) (n + j) db2 = Inr (db', m', n')" by auto
  note 1 = p [unfolded pe]
  note t = ensure_ticket_mem [OF 1] ensure_ticket_seat [OF 1]
  from Cons.IH [OF 3] ensure_credential_tickets [OF 2] t show ?case by auto
qed simp

text \<open>C34: An issuance that returns leaves every seat of the booking with exactly one ticket, and the booking with
  as many tickets and as many active credentials as seats.\<close>

theorem issuance_is_complete:
  assumes "tickets_ok db"
    and "issueBookingTicketsInTransaction hmac64 hmac16 secret draw bookingId now db = Inr (db', res)"
  shows "(\<forall>s\<in>set (seats_of_booking db bookingId). \<exists>!t. t \<in> set (db_tickets db') \<and> tk_bookingSeatId t = s)
    \<and> length (booking_tickets db' bookingId) = length (seats_of_booking db bookingId)
    \<and> length (active_credentials_of db' bookingId) = length (seats_of_booking db bookingId)
    \<and> isr_total res = length (seats_of_booking db bookingId)"
proof -
  let ?seats = "seats_of_booking db bookingId"
  from assms(2) obtain b db1 m n where
    1: "issue_seats hmac64 hmac16 secret draw b now ?seats 0 0 db = Inr (db1, m, n)" and
    lengths: "length (booking_tickets db1 bookingId) = length ?seats" "length (active_credentials_of db1 bookingId) = length ?seats"
    and 2: "upsert_notification (notification_row (td_notificationId draw) BOOKING_TICKETS_READY (bk_userId b) (Some bookingId) None
                         (''booking-tickets-ready:'' @ bookingId @ '':v1'') now) db1 = Inr db'"
    and res: "isr_total res = length (booking_tickets db1 bookingId)"
    by (auto simp: issueBookingTicketsInTransaction_def Let_def and_then_eq_Inr split: option.splits if_split_asm)
  have same: "db_tickets db' = db_tickets db1" "db_credentials db' = db_credentials db1"
    using 2 by (auto simp: upsert_notification_def split: if_split_asm)
  have ok: "tickets_ok db'"
    using issue_booking_keeps [of db hmac64 hmac16 secret draw bookingId now] assms by (simp add: keeps_tickets_def obeys_def)
  have "\<exists>!t. t \<in> set (db_tickets db') \<and> tk_bookingSeatId t = s" if "s \<in> set ?seats" for s
  proof -
    from issue_seats_tickets [OF 1] that same obtain t where "t \<in> set (db_tickets db')" "tk_bookingSeatId t = s" by auto
    moreover have "inj_on tk_bookingSeatId (set (db_tickets db'))"
      using ok by (simp add: tickets_ok_def tickets_core_def distinct_map)
    ultimately show ?thesis by (auto dest: inj_onD)
  qed
  with lengths res show ?thesis by (simp add: booking_tickets_def active_credentials_of_def same)
qed

section \<open>Download grants\<close>

text \<open>C35: A download grant opens once: after a download, the same token yields nothing, for any user and at any
  time, and nothing is written.\<close>

theorem grant_opens_once:
  assumes "consumeBookingPdfGrant hmac64 hmac16 secret userId token now db = (db1, Inr (Some view))"
  shows "consumeBookingPdfGrant hmac64' hmac16 secret userId' token later db1 = (db1, Inr None)"
proof -
  from assms obtain h where h: "hashDownloadGrantToken hmac16 secret token = Inr h"
    and tx: "consume_transaction hmac64 hmac16 secret userId h now db = Inr (db1, Some view)"
    by (auto simp: consumeBookingPdfGrant_def transact_def split: sum.splits)
  then obtain g where g: "find_row (\<lambda>g. gr_tokenHash g = h) (db_grants db) = Some g"
    and up: "update_grant (gr_id g) (\<lambda>g. g\<lparr>gr_usedAt := Some now\<rparr>) db = Inr db1"
    by (auto simp: consume_transaction_def and_then_eq_Inr split: option.splits if_split_asm)
  have "find_row (\<lambda>g. gr_tokenHash g = h) (db_grants db1) = Some (g\<lparr>gr_usedAt := Some now\<rparr>)"
  proof -
    have "db_grants db1 = map (\<lambda>x. if gr_id x = gr_id g then x\<lparr>gr_usedAt := Some now\<rparr> else x) (db_grants db)"
      using up by (auto simp: update_grant_def and_then_eq_Inr checked_update_Inr update_rows_def)
    then show ?thesis using g by (simp add: find_row_def find_map_same)
  qed
  then have "consume_transaction hmac64' hmac16 secret userId' h later db1 = Inr (db1, None)"
    by (simp add: consume_transaction_def isDownloadGrantUsable_def)
  then show ?thesis by (simp add: consumeBookingPdfGrant_def h transact_def)
qed

end
