(* ===== verification/Ticket_Witnesses.thy ===== *)
theory Ticket_Witnesses
  imports Hold_Witnesses Ticket_Properties
begin

text \<open>
  The ticket properties applied to a confirmed booking of two seats: its tickets are issued,
  one is rotated, one is scanned at the door and scanned again, and the document is downloaded.
\<close>

text \<open>Two functions of the right formats that tell these tickets and versions apart.\<close>

definition sample_hmac64 :: hmac where
  "sample_hmac64 secret m = (case rev m of v # _ # r # _ \<Rightarrow> [r, v] @ replicate 41 (CHR ''a'') | _ \<Rightarrow> replicate 43 (CHR ''a''))"

definition sample_hmac16 :: hmac where
  "sample_hmac16 secret m = take 2 (drop 41 (rev m)) @ replicate 62 (CHR ''a'')"

definition sample_secret :: string where
  "sample_secret = replicate 32 (CHR ''k'')"

definition sample_tickets :: ticket_draw where
  "sample_tickets = \<lparr>td_ticketId = (\<lambda>s. ''t-'' @ s),
     td_ticketReference = (\<lambda>s. if s = ''bs-inv-A'' then ''ticket-reference-0000001'' else ''ticket-reference-0000002''),
     td_credentialId = (\<lambda>t v. t @ decimal (nat v)), td_notificationId = ''n1''\<rparr>"

definition booked_seat :: "ident \<Rightarrow> BookingSeat" where
  "booked_seat seat = \<lparr>bseat_id = ''bs-inv-'' @ seat, bseat_bookingId = ''b1'', bseat_inventoryId = ''inv-'' @ seat,
     bseat_sessionId = ''s1'', bseat_seatId = seat, bseat_sectionId = ''sec'', bseat_priceTierId = ''tier'',
     bseat_labels = sample_labels, bseat_priceMinor = 1000, bseat_currency = Currency.USD\<rparr>"

definition staffed_db :: database where
  "staffed_db = empty_database\<lparr>db_events := [sample_event], db_sessions := [sample_session],
     db_users := [\<lparr>usr_id = ''u9'', usr_platformRole = PlatformRole.USER\<rparr>],
     db_memberships := [\<lparr>mem_userId = ''u9'', mem_organizationId = ''org-o'', mem_role = MembershipRole.ADMIN\<rparr>],
     db_bookings := [\<lparr>bk_id = ''b1'', bk_publicReference = ''SF-BOOK-1'', bk_orderId = ''o1'', bk_userId = ''u1'',
       bk_organizationId = ''org-o'', bk_eventId = ''e1'', bk_sessionId = ''s1'', bk_status = BookingStatus.CONFIRMED,
       bk_currency = Currency.USD, bk_totalMinor = 2000, bk_confirmedAt = 3000, bk_refundedAt = None,
       bk_financialReviewState = FinancialReviewState.NONE\<rparr>],
     db_bookingSeats := [booked_seat ''A'', booked_seat ''B'']\<rparr>"

definition sample_issue :: "service_error + database \<times> IssuanceResult" where
  "sample_issue = issueBookingTicketsInTransaction sample_hmac64 sample_hmac16 sample_secret sample_tickets ''b1'' 4000 staffed_db"

definition issued_db :: database where
  "issued_db = fst (projr sample_issue)"

text \<open>A run that returned, as an equation.\<close>

lemma returned: "\<not> isl (snd p) \<Longrightarrow> p = (fst p, Inr (projr (snd p)))"
  by (cases p; cases "snd p") auto

lemma issued_ok: "tickets_ok issued_db"
  by code_simp

lemma staffed_ok: "tickets_ok staffed_db"
  by code_simp

lemma issuance_is_complete_witness:
  "\<exists>!t. t \<in> set (db_tickets issued_db) \<and> tk_bookingSeatId t = ''bs-inv-A''"
proof -
  have "\<not> isl sample_issue \<and> ''bs-inv-A'' \<in> set (seats_of_booking staffed_db ''b1'')" by code_simp
  moreover from this obtain res where "issueBookingTicketsInTransaction sample_hmac64 sample_hmac16 sample_secret
      sample_tickets ''b1'' 4000 staffed_db = Inr (issued_db, res)"
    unfolding issued_db_def sample_issue_def by (metis isl_def prod.collapse sum.collapse(2))
  ultimately show ?thesis using issuance_is_complete [OF staffed_ok] by blast
qed

lemma tickets_admit_once_witness:
  "tickets_ok (fst (revokeTicket sample_tickets ''u9'' ''ticket-reference-0000001'' ''lost'' 5000 issued_db))"
  using tickets_admit_once [OF issued_ok] by blast

section \<open>At the door\<close>

definition sample_code :: string where
  "sample_code = projr (deriveTicketCredential sample_hmac64 sample_secret ''ticket-reference-0000001'' 1)"

definition sample_scan :: "string option \<Rightarrow> scan_input" where
  "sample_scan key = \<lparr>scan_userId = ''u9'', scan_sessionId = ''s1'', scan_credential = sample_code, scan_earlyMinutes = 60,
     scan_lateMinutes = 30, scan_scannerIdentifier = None, scan_idempotencyKey = key\<rparr>"

definition first_scan :: "database \<times> (service_error + TicketScanResult)" where
  "first_scan = validateTicketEntry sample_hmac16 sample_secret (sample_scan None) 9000000 issued_db"

definition second_scan :: "database \<times> (service_error + TicketScanResult)" where
  "second_scan = validateTicketEntry sample_hmac16 sample_secret (sample_scan None) 9000500 (fst first_scan)"

lemma first_scan_run:
  "\<exists>res. validateTicketEntry sample_hmac16 sample_secret (sample_scan None) 9000000 issued_db = (fst first_scan, Inr res)
     \<and> tsr_accepted res"
proof -
  have "\<not> isl (snd first_scan)" and acc: "tsr_accepted (projr (snd first_scan))" by code_simp+
  from returned [OF this(1)] acc show ?thesis unfolding first_scan_def by blast
qed

lemma no_earlier_scan: "earlier_scan db (sample_scan None) = None"
  by (simp add: earlier_scan_def sample_scan_def)



section \<open>Rotation and download\<close>

definition sample_rotation :: "database \<times> (service_error + string \<times> int)" where
  "sample_rotation = rotateTicketCredential sample_hmac64 sample_hmac16 sample_secret (sample_tickets\<lparr>td_notificationId := ''n2''\<rparr>) ''u9''
     ''ticket-reference-0000001'' 5000 issued_db"

lemma rotation_leaves_one_credential_witness:
  "\<exists>t new. ticket_of_reference issued_db ''ticket-reference-0000001'' = Some t
     \<and> {x \<in> set (db_credentials (fst sample_rotation)). active_credential (tk_id t) x} = {new}"
proof -
  have "\<not> isl (snd sample_rotation)" by code_simp
  from returned [OF this] have "rotateTicketCredential sample_hmac64 sample_hmac16 sample_secret (sample_tickets\<lparr>td_notificationId := ''n2''\<rparr>) ''u9''
     ''ticket-reference-0000001'' 5000 issued_db
     = (fst sample_rotation, Inr (fst (projr (snd sample_rotation)), snd (projr (snd sample_rotation))))"
    unfolding sample_rotation_def by simp
  from rotation_leaves_one_credential [OF issued_ok this] show ?thesis by blast
qed

definition sample_grant :: "service_error + database \<times> (ident \<times> string \<times> time) option" where
  "sample_grant = createBookingPdfGrant sample_hmac64 sample_hmac16 sample_secret ''g1'' [] ''u1'' (Inr ''b1'') 30
     (Some ''1-1'') 5000 issued_db"

definition sample_token :: string where
  "sample_token = fst (snd (the (snd (projr sample_grant))))"

definition sample_download :: "database \<times> (service_error + TicketPdfEntry list option)" where
  "sample_download = consumeBookingPdfGrant sample_hmac64 sample_hmac16 sample_secret ''u1'' sample_token 6000
     (fst (projr sample_grant))"

lemma grant_opens_once_witness:
  "consumeBookingPdfGrant sample_hmac64 sample_hmac16 sample_secret ''u1'' sample_token 7000 (fst sample_download)
     = (fst sample_download, Inr None)"
proof -
  have "\<not> isl (snd sample_download) \<and> projr (snd sample_download) \<noteq> None" by code_simp
  then obtain view where "projr (snd sample_download) = Some view" and ret: "\<not> isl (snd sample_download)" by blast
  with returned [OF ret] have "consumeBookingPdfGrant sample_hmac64 sample_hmac16 sample_secret ''u1'' sample_token 6000
     (fst (projr sample_grant)) = (fst sample_download, Inr (Some view))"
    unfolding sample_download_def by simp
  then show ?thesis by (rule grant_opens_once)
qed

end
