(* ===== verification/Webhook_Delivery.thy ===== *)
theory Webhook_Delivery
  imports Webhook_Properties
begin

text \<open>
  Deliveries of payment webhooks: one event is applied once however often it arrives, a failed
  attempt leaves only a mark on its record, and a success that arrives for a closed order can
  never be recorded.
\<close>

section \<open>The webhook table\<close>

text \<open>What a successful transaction does to its own record: it keeps the envelope and closes it.\<close>

definition closes :: "(PaymentWebhookEvent \<Rightarrow> PaymentWebhookEvent) \<Rightarrow> bool" where
  "closes f \<longleftrightarrow> (\<forall>w. wh_id (f w) = wh_id w \<and> wh_provider (f w) = wh_provider w
     \<and> wh_providerEventId (f w) = wh_providerEventId w \<and> webhook_processed (f w))"

definition closed_by :: "ident \<Rightarrow> database \<Rightarrow> database \<Rightarrow> bool" where
  "closed_by webhookId db db' \<longleftrightarrow>
     (\<exists>f. closes f \<and> db_webhooks db' = update_rows (\<lambda>w. wh_id w = webhookId) f (db_webhooks db))"

lemma closes_processed [simp]:
  "status = PaymentWebhookProcessingStatus.PROCESSED \<or> status = PaymentWebhookProcessingStatus.REQUIRES_REVIEW
     \<Longrightarrow> closes (processed_webhook status now err)"
  by (auto simp: closes_def processed_webhook_def webhook_processed_def)

lemma closed_update:
  "update_webhook webhookId f db1 = Inr db' \<Longrightarrow> closes f \<Longrightarrow> db_webhooks db1 = db_webhooks db \<Longrightarrow> closed_by webhookId db db'"
  by (auto simp: update_webhook_Inr closed_by_def)

lemma webhooks_kept:
  "update_order i f db = Inr db' \<Longrightarrow> db_webhooks db' = db_webhooks db"
  "update_attempt i g db = Inr db' \<Longrightarrow> db_webhooks db' = db_webhooks db"
  "enqueueInventoryEvent t s a k now db = Inr db' \<Longrightarrow> db_webhooks db' = db_webhooks db"
  by (auto simp: update_order_Inr update_attempt_Inr enqueue_event_Inr)

lemma review_closes:
  assumes "markWebhookReview input now db = Inr db'"
  shows "closed_by (rvw_webhookId input) db db'"
proof -
  from assms obtain db1 db2 db3 where
    1: "(case (rvw_attemptId input, rvw_paid input) of
           (Some attemptId, True) \<Rightarrow> update_attempt attemptId (succeed_attempt now) db | _ \<Rightarrow> Inr db) = Inr db1" and
    2: "(case (rvw_orderId input, rvw_preserveOrder input) of
           (Some orderId, False) \<Rightarrow> update_order orderId (review_order (rvw_paid input) (rvw_safeCode input) now) db1
         | _ \<Rightarrow> Inr db1) = Inr db2" and
    3: "(case rvw_sessionId input of None \<Rightarrow> Inr db2
         | Some sessionId \<Rightarrow> and_then (if rvw_paid input
             then enqueueInventoryEvent InventoryEventType.PAYMENT_SUCCEEDED sessionId (rvw_orderId input)
               (''payment-succeeded-review:'' @ rvw_webhookId input) now db2 else Inr db2)
             (enqueueInventoryEvent InventoryEventType.PAYMENT_REQUIRES_REVIEW sessionId (rvw_orderId input)
                (''payment-review:'' @ rvw_webhookId input) now)) = Inr db3" and
    4: "update_webhook (rvw_webhookId input)
         (processed_webhook PaymentWebhookProcessingStatus.REQUIRES_REVIEW now (Some (rvw_safeCode input))) db3 = Inr db'"
    unfolding markWebhookReview_def and_then_eq_Inr by blast
  have "db_webhooks db1 = db_webhooks db"
    using 1 by (cases "rvw_attemptId input"; cases "rvw_paid input") (auto dest: webhooks_kept)
  moreover have "db_webhooks db2 = db_webhooks db1"
    using 2 by (cases "rvw_orderId input"; cases "rvw_preserveOrder input") (auto dest: webhooks_kept)
  moreover have "db_webhooks db3 = db_webhooks db2"
    using 3 by (cases "rvw_sessionId input") (auto simp: and_then_eq_Inr dest!: webhooks_kept split: if_splits)
  ultimately show ?thesis by (intro closed_update [OF 4]) simp_all
qed

lemma fail_closes:
  assumes "fail_payment wid a o' status now db = Inr db'"
  shows "closed_by wid db db'"
proof -
  from assms obtain f g db1 db2 db3 where 1: "update_attempt (pay_id a) f db = Inr db1"
    and 2: "(if unpaid (ord_status o') then update_order (ord_id o') g db1 else Inr db1) = Inr db2"
    and 3: "enqueueInventoryEvent InventoryEventType.PAYMENT_FAILED (ord_sessionId o') (Some (ord_id o'))
      (''payment-failed:'' @ wid) now db2 = Inr db3"
    and 4: "update_webhook wid (processed_webhook PaymentWebhookProcessingStatus.PROCESSED now None) db3 = Inr db'"
    unfolding fail_payment_def Let_def and_then_eq_Inr by blast
  have "db_webhooks db2 = db_webhooks db1" using 2 by (auto dest: webhooks_kept split: if_splits)
  then show ?thesis using webhooks_kept(2) [OF 1] webhooks_kept(3) [OF 3] by (intro closed_update [OF 4]) simp_all
qed

lemma pend_closes:
  assumes "pend_payment wid a status now db = Inr db'"
  shows "closed_by wid db db'"
proof -
  from assms obtain f db1 where 1: "update_attempt (pay_id a) f db = Inr db1"
    and 2: "update_webhook wid (\<lambda>w. w\<lparr>wh_processingStatus := PaymentWebhookProcessingStatus.PROCESSED,
      wh_processedAt := Some now, wh_attemptCount := wh_attemptCount w + 1\<rparr>) db1 = Inr db'"
    unfolding pend_payment_def and_then_eq_Inr by blast
  show ?thesis using webhooks_kept(2) [OF 1]
    by (intro closed_update [OF 2]) (simp_all add: closes_def webhook_processed_def)
qed

lemma fulfill_closes: "fulfill draw wid attempt o' hold items now db = Inr db' \<Longrightarrow> closed_by wid db db'"
  unfolding closed_by_def by (rule exI, rule conjI [OF closes_processed [OF disjI1 [OF refl]] fulfill_Inr(11)])

lemma review_none_closes:
  "and_then (markWebhookReview input now db1) (\<lambda>db'. Inr (db', None)) = Inr (db', r) \<Longrightarrow>
     db_webhooks db1 = db_webhooks db \<Longrightarrow> closed_by (rvw_webhookId input) db db'"
  using review_closes [of input now db1 db'] by (auto simp: and_then_eq_Inr closed_by_def)

lemma settle_closes:
  assumes ok: "holds_ok db" and run: "settle_payment draw wid attempt o' hold ses ev now db = Inr (db', r)"
  shows "closed_by wid db db'"
proof -
  let ?items = "order_items db (ord_id o')"
  let ?d = "decidePaidFulfillment (ord_status o') (hold_status hold) (hold_expiresAt hold) (ev_status ev) (ses_status ses) now"
  let ?snap = "order_snapshot db hold ?items (ord_sessionId o') (hold_expiresAt hold)"
  have review: "closed_by wid db db'"
    if "and_then (markWebhookReview input now db1) (\<lambda>db'. Inr (db', None)) = Inr (db', r)"
      "db_webhooks db1 = db_webhooks db" "rvw_webhookId input = wid" for input db1
    using review_none_closes [OF that(1,2)] that(3) by simp
  show ?thesis
  proof (cases ?d)
    case (REVIEW code)
    show ?thesis
    proof (cases "code = ''HOLD_EXPIRED'' \<and> hold_status hold = SeatHoldStatus.ACTIVE")
      case True
      with run REVIEW show ?thesis unfolding settle_payment_def Let_def
        by (auto simp: release_expired_total [OF ok] after_expiry_def elim!: review)
    next
      case False
      with run REVIEW show ?thesis unfolding settle_payment_def Let_def by (auto elim!: review)
    qed
  qed (use run in \<open>auto simp: settle_payment_def Let_def and_then_eq_Inr [of "fulfill _ _ _ _ _ _ _ _"]
      elim!: review fulfill_closes split: if_splits\<close>)
qed

lemma apply_closes:
  assumes ok: "holds_ok db" and run: "apply_payment draw w status attempt o' hold ses ev now db = Inr (db', r)"
  shows "closed_by (wh_id w) db db'"
proof -
  have done': "closed_by (wh_id w) db db'"
    if "and_then m (\<lambda>db'. Inr (db', None)) = Inr (db', r)" "\<And>x. m = Inr x \<Longrightarrow> closed_by (wh_id w) db x" for m
    using that by (auto simp: and_then_eq_Inr)
  have review: "closed_by (wh_id w) db x" if "markWebhookReview input now db = Inr x" "rvw_webhookId input = wh_id w" for input x
    using review_closes [OF that(1)] that(2) by simp
  have mark: "closed_by (wh_id w) db x"
    if "update_webhook (wh_id w) (processed_webhook st now err) db = Inr x"
      "st = PaymentWebhookProcessingStatus.PROCESSED \<or> st = PaymentWebhookProcessingStatus.REQUIRES_REVIEW" for x st err
    using closed_update [OF that(1) closes_processed [OF that(2)] refl] .
  show ?thesis
    using run unfolding apply_payment_def Let_def
    by (simp split: if_split_asm del: terminal_payment_iff)
      (erule done', (erule mark, simp) | erule done', (erule review, simp) | erule done', erule fail_closes pend_closes
        | erule settle_closes [OF ok])+
qed

definition envelope_key :: "PaymentWebhookEvent \<Rightarrow> ident \<times> PaymentProviderName \<times> string" where
  "envelope_key w = (wh_id w, wh_provider w, wh_providerEventId w)"

lemma closed_by_keys: "closed_by webhookId db db' \<Longrightarrow> map envelope_key (db_webhooks db') = map envelope_key (db_webhooks db)"
  by (auto simp: closed_by_def closes_def envelope_key_def map_update_rows)

lemma find_projected:
  assumes "map key t' = map key t"
  shows "map_option key (find_row (\<lambda>w. Q (key w)) t') = map_option key (find_row (\<lambda>w. Q (key w)) t)"
  using assms
proof (induction t arbitrary: t')
  case (Cons w t)
  then obtain w' t'' where "t' = w' # t''" "key w' = key w" "map key t'' = map key t" by (auto simp: Cons_eq_map_conv)
  with Cons.IH [of t''] show ?case by (simp add: find_row_def)
qed (simp add: find_row_def)

lemma find_webhook_None: "find_webhook db i = None \<longleftrightarrow> i \<notin> set (map wh_id (db_webhooks db))"
  by (auto simp: find_webhook_def tbl.find_None_iff)

lemma closed_by_processed:
  assumes "closed_by webhookId db db'" "find_webhook db webhookId \<noteq> None"
  shows "\<exists>w. find_webhook db' webhookId = Some w \<and> webhook_processed w"
proof -
  from assms(1) obtain f where f: "closes f" "db_webhooks db' = update_rows (\<lambda>w. wh_id w = webhookId) f (db_webhooks db)"
    unfolding closed_by_def by blast
  have "map wh_id (db_webhooks db') = map wh_id (db_webhooks db)"
    unfolding f(2) by (rule map_update_rows) (use f(1) in \<open>simp add: closes_def\<close>)
  then have "find_webhook db' webhookId \<noteq> None" using assms(2) unfolding find_webhook_None by metis
  then obtain w where w: "find_webhook db' webhookId = Some w" by blast
  from tbl.find_SomeD [OF this [unfolded find_webhook_def]] f(2) obtain v where
    "wh_id w = webhookId" "w = f v \<or> w = v \<and> wh_id v \<noteq> webhookId"
    by (auto simp: update_rows_mem)
  then have "webhook_processed w" using f(1) unfolding closes_def by metis
  with w show ?thesis by blast
qed

text \<open>A transaction that commits leaves its record processed, and every envelope as it was.\<close>

lemma transaction_closes:
  assumes ok: "holds_ok db" and run: "webhook_transaction draw webhookId now db = Inr (db', r)"
  shows "\<exists>w. find_webhook db' webhookId = Some w \<and> webhook_processed w"
    and "map envelope_key (db_webhooks db') = map envelope_key (db_webhooks db)"
proof -
  have "db' = db \<and> (\<exists>w. find_webhook db webhookId = Some w \<and> webhook_processed w)
      \<or> closed_by webhookId db db' \<and> find_webhook db webhookId \<noteq> None"
    using run
  proof (cases rule: webhook_transaction_Inr)
    case (unknown w status)
    with review_closes [OF unknown(4)] show ?thesis by (simp add: unknown_intent_def)
  next
    case (applied w status attempt o' hold ses ev)
    have "wh_id w = webhookId" using tbl.find_SomeD [OF applied(1) [unfolded find_webhook_def]] by blast
    with apply_closes [OF ok applied(10)] applied(1) show ?thesis by simp
  qed blast
  then show "\<exists>w. find_webhook db' webhookId = Some w \<and> webhook_processed w"
    "map envelope_key (db_webhooks db') = map envelope_key (db_webhooks db)"
    using closed_by_processed closed_by_keys by blast+
qed

section \<open>Redelivery\<close>

lemma with_duplicate_twice [simp]: "with_duplicate a (with_duplicate b r) = with_duplicate a r"
  by (cases r) simp_all

lemma load_duplicate:
  assumes "loadExistingResult db webhookId d = Inr r"
  shows "loadExistingResult db webhookId True = Inr (with_duplicate True r)"
proof (cases "find_webhook db webhookId")
  case (Some w)
  let ?b = "case wh_paymentAttemptId w of None \<Rightarrow> None
    | Some attemptId \<Rightarrow> (case find_attempt db attemptId of None \<Rightarrow> None
        | Some attempt \<Rightarrow> booking_of_order db (pay_orderId attempt))"
  show ?thesis
  proof (cases ?b)
    case None
    then show ?thesis using assms by (auto simp: loadExistingResult_def Some or_missing_def split: if_split_asm)
  next
    case (Some b)
    with \<open>find_webhook db webhookId = Some w\<close> show ?thesis
      using assms by (simp add: loadExistingResult_def or_missing_def) (metis with_duplicate.simps(1))
  qed
qed (use assms in \<open>simp add: loadExistingResult_def or_missing_def\<close>)

lemma store_cases:
  assumes "storeVerifiedWebhook freshId provider event now db = (db1, webhookId, dup)"
  obtains (present) existing where "webhook_of_event db provider (nev_providerEventId event) = Some existing"
      "db1 = db" "webhookId = wh_id existing" dup
  | (stored) envelope where "webhook_of_event db provider (nev_providerEventId event) = None"
      "db1 = db\<lparr>db_webhooks := db_webhooks db @ [envelope]\<rparr>" "webhookId = freshId" "\<not> dup"
      "envelope = payment_envelope freshId provider event
         (map_option pay_id (attempt_of_intent db provider (nev_providerIntentId event))) now"
proof (cases "webhook_of_event db provider (nev_providerEventId event)")
  case None
  with assms show thesis by (intro stored [OF None _ _ _ refl]) (auto simp: storeVerifiedWebhook_def insert_row_def)
next
  case (Some existing)
  with assms show thesis by (intro present [OF Some]) (auto simp: storeVerifiedWebhook_def)
qed

lemma find_row_append: "find_row P (xs @ ys) = (case find_row P xs of None \<Rightarrow> find_row P ys | Some x \<Rightarrow> Some x)"
  by (induction xs) (simp_all add: find_row_def)

lemma store_finds:
  assumes "storeVerifiedWebhook freshId provider event now db = (db1, webhookId, dup)"
  shows "map_option envelope_key (webhook_of_event db1 provider (nev_providerEventId event))
       = Some (webhookId, provider, nev_providerEventId event)"
    and "find_webhook db1 webhookId \<noteq> None" and "quiet db db1"
  using assms
proof (atomize (full), cases rule: store_cases)
  case (present existing)
  from tbl.find_SomeD [OF present(1) [unfolded webhook_of_event_def]]
  have "existing \<in> set (db_webhooks db)" "wh_provider existing = provider"
    "wh_providerEventId existing = nev_providerEventId event" by simp_all
  with present show "map_option envelope_key (webhook_of_event db1 provider (nev_providerEventId event))
      = Some (webhookId, provider, nev_providerEventId event) \<and> find_webhook db1 webhookId \<noteq> None \<and> quiet db db1"
    by (auto simp: envelope_key_def find_webhook_None quiet_refl)
next
  case (stored envelope)
  then show "map_option envelope_key (webhook_of_event db1 provider (nev_providerEventId event))
      = Some (webhookId, provider, nev_providerEventId event) \<and> find_webhook db1 webhookId \<noteq> None \<and> quiet db db1"
    by (simp add: webhook_of_event_def find_row_append envelope_key_def payment_envelope_def find_webhook_None
        quiet_def outbox_keys_def) (simp add: find_row_def)
qed


section \<open>A success for a closed order\<close>

text \<open>The trigger on orders forbids the review that the code asks for.\<close>

lemma review_closed_order:
  assumes "find_attempt db attemptId = Some a" "pay_status a \<in> {PaymentAttemptStatus.CREATED, PaymentAttemptStatus.PENDING}"
    and "attempt_lifecycle a" "find_order db orderId = Some o'"
    and "isTerminalCheckoutStatus (ord_status o')" "ord_status o' \<noteq> CheckoutOrderStatus.PAID_UNFULFILLED"
  shows "markWebhookReview \<lparr>rvw_webhookId = wid, rvw_attemptId = Some attemptId, rvw_orderId = Some orderId,
      rvw_sessionId = s, rvw_safeCode = code, rvw_paid = True, rvw_preserveOrder = False\<rparr> now db
    = Inl (ConstraintViolation ''CheckoutOrder'')"
proof -
  have "attempt_update_ok a (succeed_attempt now a)"
    using assms(2,3) by (auto simp: attempt_update_ok_def succeed_attempt_def attempt_lifecycle_def Let_def)
  with assms(1) have "update_attempt attemptId (succeed_attempt now) db
      = Inr (db\<lparr>db_attempts := update_rows (\<lambda>a. pay_id a = attemptId) (succeed_attempt now) (db_attempts db)\<rparr>)"
    by (simp add: update_attempt_Inr find_attempt_def)
  moreover have "\<not> order_update_ok o' (review_order True code now o')"
    using assms(5,6) by (auto simp: order_update_ok_def review_order_def)
  ultimately show ?thesis
    using assms(4) by (simp add: markWebhookReview_def update_order_def checked_update_def find_order_def)
qed

lemma closed_order_conflict:
  assumes "isTerminalCheckoutStatus (ord_status o')" "ord_status o' \<noteq> CheckoutOrderStatus.FULFILLED"
  shows "decidePaidFulfillment (ord_status o') h e ev se now = REVIEW ''ORDER_TERMINAL_CONFLICT''"
  using assms by (cases "ord_status o'") (simp_all add: decidePaidFulfillment_def isTerminalCheckoutStatus_def
      TERMINAL_CHECKOUT_STATUSES_def)


text \<open>A processing that throws commits nothing: the database differs at most in the status, the error
  and the attempt count of the one record, and a processed record is left as it is.\<close>

theorem failed_processing_commits_nothing:
  assumes "webhook_transaction draw webhookId now db = Inl e"
  shows "\<exists>t. fst (processVerifiedWebhookRecord issueTickets draw webhookId now db) = db\<lparr>db_webhooks := t\<rparr>
    \<and> map envelope_key t = map envelope_key (db_webhooks db)
    \<and> (\<forall>w\<in>set (db_webhooks db). webhook_processed w \<or> wh_id w \<noteq> webhookId \<longrightarrow> w \<in> set t)
    \<and> snd (processVerifiedWebhookRecord issueTickets draw webhookId now db) = Inl e"
proof -
  let ?t = "db_webhooks (mark_failed webhookId db)"
  have "map envelope_key ?t = map envelope_key (db_webhooks db)"
    unfolding mark_failed_def database.simps database.select_convs by (simp add: map_update_rows envelope_key_def)
  moreover have "w \<in> set ?t" if "w \<in> set (db_webhooks db)" "webhook_processed w \<or> wh_id w \<noteq> webhookId" for w
    using that by (auto simp: mark_failed_def update_rows_mem webhook_processed_def)
  moreover have "mark_failed webhookId db = db\<lparr>db_webhooks := ?t\<rparr>" by (simp add: mark_failed_def)
  ultimately show ?thesis
    using assms by (intro exI [of _ "if e = PaymentWebhookSignatureError then db_webhooks db else ?t"])
      (auto simp: processVerifiedWebhookRecord_def)
qed

end
