(* ===== verification/Payment_Witnesses.thy ===== *)
theory Payment_Witnesses
  imports Hold_Witnesses Webhook_Delivery Checkout_Properties
begin

text \<open>
  The payment properties applied to the customer of Hold_Witnesses: the held seats are checked
  out and paid, the payment is redelivered, and in a second history the order expires before
  the payment arrives.
\<close>

definition sample_checkout :: CheckoutCreateInput where
  "sample_checkout = \<lparr>cci_holdToken = sample_token, cci_idempotencyKey = ''checkout-01''\<rparr>"

definition sample_draw :: checkout_draw where
  "sample_draw = \<lparr>cd_orderId = ''o1'', cd_publicReference = ''SF-ORDER-1'', cd_attemptId = ''p1'',
     cd_providerIdempotencyKey = ''pik-1''\<rparr>"

definition sample_intent :: ProviderPaymentIntent where
  "sample_intent = \<lparr>ppi_providerIntentId = ''pi-1'', ppi_status = PaymentAttemptStatus.PENDING,
     ppi_providerStatus = ''pending'', ppi_checkoutUrl = None\<rparr>"

definition checked_out :: "database \<times> (service_error + CreateCheckoutResult \<times> PaymentIntentResult)" where
  "checked_out = createCheckoutAndPayment LOCAL_SIGNED (\<lambda>_. Some sample_intent) ''u1'' sample_checkout 2000 sample_draw held_db"

text \<open>The order is waiting for its payment.\<close>

definition pending_db :: database where
  "pending_db = fst checked_out"

definition sample_event :: NormalizedPaymentWebhookEvent where
  "sample_event = \<lparr>nev_providerEventId = ''evt-1'', nev_eventType = ''payment.succeeded'', nev_providerIntentId = ''pi-1'',
     nev_status = PaymentAttemptStatus.SUCCEEDED, nev_amountMinor = 2500, nev_currency = Currency.USD,
     nev_occurredAt = None\<rparr>"

definition sample_booking :: booking_draw where
  "sample_booking = \<lparr>bd_bookingId = ''b1'', bd_publicReference = ''SF-BOOK-1'', bd_bookingSeatId = (\<lambda>i. ''bs-'' @ i),
     bd_issuanceId = ''iss-1''\<rparr>"

text \<open>The event is stored but not yet processed.\<close>

definition delivered_db :: database where
  "delivered_db = fst (storeVerifiedWebhook ''w1'' LOCAL_SIGNED sample_event 3000 pending_db)"

section \<open>Checkout\<close>

lemma held_store_ok: "store_ok held_db"
proof -
  have "db_bookingSeats held_db = [] \<and> (\<forall>i\<in>set (db_inventory held_db). inv_state i \<noteq> SeatInventoryState.BOOKED)"
    "db_orders held_db = [] \<and> db_orderItems held_db = [] \<and> db_attempts held_db = []"
    by code_simp+
  then show ?thesis
    using held_db_ok by (simp add: store_ok_def shop_ok_def sales_ok_def sold_def orders_ok_def orders_core_def)
qed

definition sample_order :: "database \<times> (service_error + CreateCheckoutResult)" where
  "sample_order = createCheckoutOrder ''u1'' sample_checkout LOCAL_SIGNED 2000 sample_draw held_db"


lemma provider_answer_pays_nothing_witness:
  "payment_facts (fst (reconcilePendingPaymentIntents LOCAL_SIGNED (\<lambda>_. Some sample_intent)
      (\<lambda>_. Some (sample_intent\<lparr>ppi_status := PaymentAttemptStatus.SUCCEEDED\<rparr>)) 3000 100 pending_db)) = payment_facts pending_db"
proof -
  have "distinct (map pay_id (db_attempts pending_db))" by code_simp
  from provider_answer_pays_nothing [OF this] show ?thesis by blast
qed

lemma expiry_closes_overdue_witness:
  "\<exists>db' k m. expireUnpaidCheckoutOrders 700000 None None (fst sample_order) = (db', Inr (k, m)) \<and> store_ok db'"
proof -
  have "store_ok (fst sample_order)"
    unfolding sample_order_def by (rule checkout_store_ok [OF held_store_ok])
  from expiry_closes_overdue [OF this, of 700000 None None] show ?thesis by blast
qed

section \<open>Payment\<close>

definition hold_keys_case :: "database \<Rightarrow> bool" where
  "hold_keys_case db \<longleftrightarrow> holds_core (db_inventory db) (db_holds db) (db_holdItems db)
     \<and> outbox_keys db = [''hold-created:h1'', ''checkout-created:o1'', ''payment-intent-created:p1'']
     \<and> map hold_id (db_holds db) = [''h1''] \<and> db_bookingSeats db = []
     \<and> (\<forall>i\<in>set (db_inventory db). inv_state i \<noteq> SeatInventoryState.BOOKED)"

lemma hold_keys_shop_ok:
  assumes "hold_keys_case db"
  shows "shop_ok db"
proof -
  have "hold_events_ok (db_holds db) (outbox_keys db)"
    using assms by (auto simp: hold_keys_case_def hold_events_ok_def simp flip: set_map)
  with assms show ?thesis by (simp add: hold_keys_case_def shop_ok_def holds_ok_def sales_ok_def sold_def)
qed

lemma delivered_ok: "shop_ok delivered_db"
  by (rule hold_keys_shop_ok) code_simp

lemma pending_ok: "holds_ok pending_db"
proof -
  have "hold_keys_case pending_db" by code_simp
  from hold_keys_shop_ok [OF this] show ?thesis by (simp add: shop_ok_def)
qed

definition settled :: "service_error + database \<times> ident option" where
  "settled = webhook_transaction sample_booking ''w1'' 3000 delivered_db"

definition booked_db :: database where
  "booked_db = fst (projr settled)"

lemma settled_run: "webhook_transaction sample_booking ''w1'' 3000 delivered_db = Inr (booked_db, Some ''b1'')"
proof -
  have "\<not> isl settled" "snd (projr settled) = Some ''b1''" by code_simp+
  then show ?thesis unfolding booked_db_def settled_def by (metis prod.collapse sum.collapse(2))
qed

lemma webhook_preserves_witness: "shop_ok booked_db"
  using delivered_ok settled_run by (rule webhook_preserves)


definition first_delivery :: "database \<times> (service_error + WebhookProcessingResult)" where
  "first_delivery = processPaymentEvent None sample_booking ''w1'' LOCAL_SIGNED sample_event 3000 pending_db"


section \<open>The order expires first\<close>

definition expired_db :: database where
  "expired_db = fst (expireUnpaidCheckoutOrders 700000 None None pending_db)"

definition late_db :: database where
  "late_db = fst (storeVerifiedWebhook ''w1'' LOCAL_SIGNED sample_event 700001 expired_db)"

definition late_case :: "database \<Rightarrow> bool" where
  "late_case db \<longleftrightarrow>
     (let w = the (find_webhook db ''w1''); a = the (find_attempt db ''p1''); o' = the (find_order db ''o1'')
      in find_webhook db ''w1'' = Some w \<and> \<not> webhook_processed w
        \<and> wh_signatureStatus w = PaymentWebhookSignatureStatus.VERIFIED
        \<and> wh_eventCategory w = PaymentWebhookEventCategory.PAYMENT
        \<and> wh_normalizedStatus w = Some PaymentAttemptStatus.SUCCEEDED \<and> wh_paymentAttemptId w = Some ''p1''
        \<and> find_attempt db ''p1'' = Some a
        \<and> pay_status a \<in> {PaymentAttemptStatus.CREATED, PaymentAttemptStatus.PENDING} \<and> attempt_lifecycle a
        \<and> find_order db (pay_orderId a) = Some o' \<and> booking_of_order db (ord_id o') = None
        \<and> ord_status o' \<in> {CheckoutOrderStatus.EXPIRED, CheckoutOrderStatus.FAILED, CheckoutOrderStatus.CANCELLED,
             CheckoutOrderStatus.REQUIRES_REVIEW}
        \<and> find_hold db (ord_sourceHoldId o') = Some (the (find_hold db ''h1''))
        \<and> find_session db (ord_sessionId o') = Some sample_session
        \<and> find_event db (ses_eventId sample_session) = Some Hold_Witnesses.sample_event)"


lemma failed_processing_commits_nothing_witness:
  "snd (processVerifiedWebhookRecord None sample_booking ''missing'' 0 empty_database) = Inl RecordNotFound"
proof -
  have "webhook_transaction sample_booking ''missing'' 0 empty_database = Inl RecordNotFound"
    by (simp add: webhook_transaction_def find_webhook_def empty_database_def find_row_def or_missing_def)
  from failed_processing_commits_nothing [OF this] show ?thesis by blast
qed

end
