(* ===== verification/System.thy ===== *)
theory System
  imports Shop_Programme Ticket_Witnesses Payment_Witnesses
begin

text \<open>
  The system as a transition relation: a step is a call of one operation of the services, with
  any arguments, at any time and in any order, the organizers' included, or a change of venues, seat
  maps, users and memberships. The properties here are those of every reachable state.
\<close>

section \<open>The step relation\<close>

text \<open>The last step stands for every write to the tables of venues, seat maps, users and memberships.\<close>

inductive step :: "database \<Rightarrow> database \<Rightarrow> bool" where
  acquired: "step db (fst (acquireSeatHold config u input now holdId token seen db))"
| released: "step db (fst (releaseSeatHold u token now seen db))"
| swept: "sweepExpiredHolds fuel now n limit db = Some (db', r) \<Longrightarrow> step db db'"
| checked_out: "step db (fst (createCheckoutAndPayment provider createIntent u order now odraw db))"
| intent_created: "step db (fst (ensurePaymentIntent provider createIntent orderId now seen db))"
| reconciled: "step db (fst (reconcilePendingPaymentIntents provider createIntent retrieveIntent now n db))"
| unpaid_expired: "step db (fst (expireUnpaidCheckoutOrders now batch batches db))"
| paid: "step db (fst (processPaymentEvent None bdraw freshId provider event now db))"
| paid_and_issued:
    "step db (fst (processPaymentEvent (Some (attemptImmediateTicketIssuance hmac64 hmac16 secret tdraw now))
       bdraw freshId provider event now db))"
| reprocessed: "step db (fst (reprocessVerifiedWebhook None bdraw webhookId now db))"
| reprocessed_and_issued:
    "step db (fst (reprocessVerifiedWebhook (Some (attemptImmediateTicketIssuance hmac64 hmac16 secret tdraw now))
       bdraw webhookId now db))"
| refund_requested: "step db (fst (requestRefund sha hmac draw actor request now db))"
| refund_submitted: "step db (fst (submitRefund sha answers refundId now db))"
| refunds_submitted: "step db (fst (submitPendingRefunds sha answers provider n now db))"
| refund_event: "step db (fst (processRefundEvent sha freshId provider revent now db))"
| dispute_event: "step db (fst (processDisputeEvent sha ddraw freshId provider devent now db))"
| refunds_reconciled: "step db (fst (reconcileAmbiguousRefunds retries provider listing batchSize db))"
| webhooks_reconciled: "step db (fst (reconcileUnprocessedWebhooks bdraws batchSize older now db))"
| divergence_raised: "step db (fst (raiseDivergenceForReview raising findings now db))"
| backlog_escalated: "step db (fst (escalateTicketRevocationBacklog raising backlog now db))"
| notifications_retried: "step db (fst (retrySafeNotificationFailures now batchSize db))"
| issued: "step db (fst (processTicketIssuanceForBooking hmac64 hmac16 secret tdraw bookingId now db))"
| issued_batch: "step db (fst (processTicketIssuanceBatch describe hmac64 hmac16 secret tdraw issuance now db))"
| issuance_retried: "step db (fst (retryTicketIssuanceRequest requestId now db))"
| scanned: "step db (fst (validateTicketEntry hmac16 secret scan now db))"
| rotated: "step db (fst (rotateTicketCredential hmac64 hmac16 secret tdraw u reference now db))"
| revoked: "step db (fst (revokeTicket tdraw u reference reason now db))"
| granted: "step db (fst (transact (createBookingPdfGrant hmac64 hmac16 secret grantId token u which ttl subject now) db))"
| downloaded: "step db (fst (consumeBookingPdfGrant hmac64 hmac16 secret u token now db))"
| organized: "organizer_step db db' \<Longrightarrow> step db db'"
| administered: "step db (db\<lparr>db_catalogue := c, db_users := us, db_memberships := ms\<rparr>)"

lemma catalogue_steady: "steady db (db\<lparr>db_catalogue := c, db_users := us, db_memberships := ms\<rparr>)"
  by (simp add: steady_def quiet_def outbox_keys_def keeps_orders_def keeps_refunds_same keeps_tickets_same)

lemma step_evolves: "step db db' \<Longrightarrow> evolves db db'"
  by (induction rule: step.induct)
    (rule acquire_evolves release_evolves sweep_evolves checkout_evolves expiry_evolves reconcile_evolves
      steady_evolves [OF intent_steady] payment_event_evolves reprocess_evolves issuer_evolves finance_evolves
      reconcile_webhooks_evolves notifications_evolve
      tickets_evolve steady_evolves [OF catalogue_steady] organizer_evolves | assumption)+

lemma steps_evolve: "step\<^sup>*\<^sup>* db db' \<Longrightarrow> evolves db db'"
  by (induction rule: rtranclp_induct) (auto intro: evolution.frame_refl evolution.frame_trans step_evolves)

section \<open>Reachable states\<close>

text \<open>A shop opens with its seats available and nothing held, sold or paid.\<close>

definition fresh_shop :: "database \<Rightarrow> bool" where
  "fresh_shop db \<longleftrightarrow> inventory_ok (db_inventory db)
     \<and> (\<forall>i\<in>set (db_inventory db). inv_state i = SeatInventoryState.AVAILABLE \<and> inv_currentHoldId i = None
          \<and> inv_holdExpiresAt i = None)
     \<and> db_holds db = [] \<and> db_holdItems db = [] \<and> db_orders db = [] \<and> db_orderItems db = [] \<and> db_attempts db = []
     \<and> db_bookings db = [] \<and> db_bookingSeats db = [] \<and> db_refunds db = [] \<and> db_refundSeats db = []
     \<and> db_tickets db = [] \<and> db_credentials db = [] \<and> db_redemptions db = [] \<and> db_invOutbox db = []"

definition reachable :: "database \<Rightarrow> bool" where
  "reachable db \<longleftrightarrow> (\<exists>db0. fresh_shop db0 \<and> step\<^sup>*\<^sup>* db0 db)"

lemma fresh_shop_ok: "fresh_shop db \<Longrightarrow> sys_ok db"
  by (auto simp: fresh_shop_def sys_ok_def store_ok_def shop_ok_def holds_ok_def holds_core_def hold_table_ok_def
      hold_events_ok_def sales_ok_def sold_def orders_ok_def orders_core_def refunds_ok_def money_core_def seats_core_def
      tickets_ok_def tickets_core_def outbox_keys_def seat_link_def)

lemma reachable_ok: "reachable db \<Longrightarrow> sys_ok db"
  using fresh_shop_ok steps_evolve by (auto simp: reachable_def evolves_def)

text \<open>C1: In every state the system can reach, from an empty shop by any interleaving of the operations: no seat
  is in two bookings and the booked seats are exactly those of bookings, every order asks for the sum
  of its items, no payment is refunded beyond its capture, and no ticket has two accepted scans.\<close>

theorem reachable_sound:
  assumes "reachable db"
  shows "distinct (map bseat_inventoryId (db_bookingSeats db))
    \<and> (\<forall>i\<in>set (db_inventory db). inv_state i = SeatInventoryState.BOOKED \<longleftrightarrow> inv_id i \<in> bseat_inventoryId ` set (db_bookingSeats db))
    \<and> (\<forall>o'\<in>set (db_orders db). ord_totalMinor o' = order_items_total (db_orderItems db) (ord_id o'))
    \<and> (\<forall>a\<in>set (db_attempts db). pay_refundedMinor a + pay_inFlightRefundMinor a \<le> pay_amountMinor a)
    \<and> length (filter (\<lambda>r. accepted_ticket r = Some k) (db_redemptions db)) \<le> 1"
proof -
  have ok: "sales_ok db" "orders_ok db" "refunds_ok db" "tickets_ok db"
    using reachable_ok [OF assms] by (simp_all add: sys_ok_def store_ok_def shop_ok_def)
  have "ord_totalMinor o' = order_items_total (db_orderItems db) (ord_id o')" if "o' \<in> set (db_orders db)" for o'
    using ok(2) that by (force simp: orders_ok_def orders_core_def order_key_def)
  with ok(1,3) accepted_once [OF ok(4)] show ?thesis
    by (auto simp: sales_ok_def sold_def refunds_ok_def money_core_def totals_ok_def aggregate_ok_def)
qed

section \<open>The box office\<close>

text \<open>
  The abstract specification of the sale: the state says which booking owns a seat, and a step
  sells seats that nobody owns. Nothing is ever taken back.
\<close>

definition owner :: "database \<Rightarrow> ident \<rightharpoonup> ident" where
  "owner db = map_of (map (\<lambda>s. (bseat_inventoryId s, bseat_bookingId s)) (db_bookingSeats db))"

definition box_office :: "(ident \<rightharpoonup> ident) \<Rightarrow> (ident \<rightharpoonup> ident) \<Rightarrow> bool" where
  "box_office m m' \<longleftrightarrow> (\<exists>new. dom new \<inter> dom m = {} \<and> m' = m ++ new)"

lemma sells_on_box_office:
  assumes "distinct (map bseat_inventoryId (db_bookingSeats db'))" "db_bookingSeats db' = db_bookingSeats db @ new"
  shows "box_office (owner db) (owner db')"
proof -
  let ?own = "\<lambda>ss. map_of (map (\<lambda>s. (bseat_inventoryId s, bseat_bookingId s)) ss)"
  have dom: "dom (?own ss) = bseat_inventoryId ` set ss" for ss by (simp add: dom_map_of_conv_image_fst image_image)
  have apart: "dom (?own new) \<inter> dom (owner db) = {}" using assms by (auto simp: dom owner_def)
  have "owner db' = ?own new ++ owner db" by (simp add: owner_def assms(2))
  with map_add_comm [OF apart] have "owner db' = owner db ++ ?own new" by metis
  with apart show ?thesis unfolding box_office_def by blast
qed


text \<open>C3: A sold seat stays sold: after any further steps, expiry, releases, refunds and disputes included, the
  booking still has the seat, no other booking has it, and its inventory row is BOOKED.\<close>

theorem sold_seat_stays_sold:
  assumes "reachable db" "step\<^sup>*\<^sup>* db db'" "s \<in> set (db_bookingSeats db)"
  shows "s \<in> set (db_bookingSeats db')
    \<and> (\<forall>x\<in>set (db_bookingSeats db'). bseat_inventoryId x = bseat_inventoryId s \<longrightarrow> x = s)
    \<and> (\<exists>i\<in>set (db_inventory db'). inv_id i = bseat_inventoryId s \<and> inv_state i = SeatInventoryState.BOOKED)"
proof -
  have "sys_ok db' \<and> (\<exists>new. db_bookingSeats db' = db_bookingSeats db @ new)"
    using reachable_ok [OF assms(1)] steps_evolve [OF assms(2)] by (simp add: evolves_def)
  then have sales: "sales_ok db'" and s: "s \<in> set (db_bookingSeats db')"
    using assms(3) by (auto simp: sys_ok_def store_ok_def shop_ok_def)
  from sales s have "bseat_inventoryId s \<in> inv_id ` set (db_inventory db')" by (auto simp: sales_ok_def sold_def)
  then obtain i where "i \<in> set (db_inventory db')" "inv_id i = bseat_inventoryId s" by (metis imageE)
  moreover from this sales s have "inv_state i = SeatInventoryState.BOOKED" by (simp add: sales_ok_def sold_def)
  ultimately show ?thesis using sales s by (auto simp: sales_ok_def distinct_map dest: inj_onD)
qed

section \<open>A history\<close>

text \<open>The customer of Hold_Witnesses takes two seats, checks out and pays.\<close>

definition sold_db :: database where
  "sold_db = fst (processPaymentEvent None sample_booking ''w1'' LOCAL_SIGNED Payment_Witnesses.sample_event 3000 pending_db)"

lemma sold_reachable: "reachable sold_db" "reachable pending_db" "step pending_db sold_db"
proof -
  have 1: "fresh_shop sample_db" by code_simp
  have 2: "step sample_db held_db" unfolding held_db_def sample_acquire_def by (rule acquired)
  have 3: "step held_db pending_db" unfolding pending_db_def Payment_Witnesses.checked_out_def by (rule checked_out)
  show 4: "step pending_db sold_db" unfolding sold_db_def by (rule paid)
  from 2 3 have "step\<^sup>*\<^sup>* sample_db pending_db" by (meson converse_rtranclp_into_rtranclp rtranclp.rtrancl_refl)
  with 1 4 show "reachable pending_db" "reachable sold_db"
    unfolding reachable_def by (meson rtranclp.rtrancl_into_rtrancl)+
qed

lemma reachable_sound_witness:
  "distinct (map bseat_inventoryId (db_bookingSeats sold_db))"
  using reachable_sound [OF sold_reachable(1)] by blast


lemma sold_seat_stays_sold_witness:
  "\<exists>i\<in>set (db_inventory sold_db). inv_state i = SeatInventoryState.BOOKED"
proof -
  have "db_bookingSeats sold_db \<noteq> []" by code_simp
  then obtain s where "s \<in> set (db_bookingSeats sold_db)" by (meson last_in_set)
  from sold_seat_stays_sold [OF sold_reachable(1) rtranclp.rtrancl_refl this] show ?thesis by blast
qed

end
