(* ===== verification/Hold_Liveness.thy ===== *)
theory Hold_Liveness
  imports Hold_Witnesses
begin

text \<open>
  Progress: the conditions under which an acquisition must succeed. A seat that is available, or
  whose hold is overdue, can always be taken by a customer without a live hold in the session.
\<close>

definition takeable :: "ident \<Rightarrow> time \<Rightarrow> database \<Rightarrow> ident \<Rightarrow> bool" where
  "takeable sessionId now db seat \<longleftrightarrow> (\<exists>i\<in>set (db_inventory db). inv_sessionId i = sessionId \<and> inv_seatId i = seat
     \<and> (inv_state i = SeatInventoryState.AVAILABLE
        \<or> inv_state i = SeatInventoryState.HELD \<and> (case inv_holdExpiresAt i of None \<Rightarrow> False | Some e \<Rightarrow> e \<le> now)))"

definition on_sale :: "ident \<Rightarrow> time \<Rightarrow> database \<Rightarrow> bool" where
  "on_sale sessionId now db \<longleftrightarrow>
     (case find_session db sessionId of None \<Rightarrow> False | Some ses \<Rightarrow>
       (case find_event db (ses_eventId ses) of None \<Rightarrow> False | Some ev \<Rightarrow>
          isSessionSellable (eligibility_input db ses ev) now))"

lemma after_expiry_simps [simp]:
  "find_session (after_expiry s now db) = find_session db" "find_event (after_expiry s now db) = find_event db"
  "db_holdItems (after_expiry s now db) = db_holdItems db"
  by (simp_all add: find_session_def find_event_def after_expiry_def fun_eq_iff)

lemma after_expiry_eligible: "eligibility_input (after_expiry s now db) ses ev = eligibility_input db ses ev"
proof -
  have "list_ex (\<lambda>i. inv_sessionId i = x) (update_rows P free_seat t) = list_ex (\<lambda>i. inv_sessionId i = x) t" for x P t
    by (induction t) (auto simp: update_rows_def free_seat_def)
  then show ?thesis by (simp add: eligibility_input_def after_expiry_def)
qed

lemma taken_seat_available:
  assumes ok: "holds_ok db" and seat: "takeable s now db seat"
    and i: "i \<in> set (db_inventory (after_expiry s now db))" "inv_sessionId i = s" "inv_seatId i = seat"
  shows "inv_state i = SeatInventoryState.AVAILABLE"
proof -
  have core: "holds_core (db_inventory db) (db_holds db) (db_holdItems db)" using ok by (simp add: holds_ok_def)
  from seat obtain j where j: "j \<in> set (db_inventory db)" "inv_sessionId j = s" "inv_seatId j = seat"
    and free: "inv_state j = SeatInventoryState.AVAILABLE
      \<or> inv_state j = SeatInventoryState.HELD \<and> (\<exists>e. inv_holdExpiresAt j = Some e \<and> e \<le> now)"
    by (auto simp: takeable_def split: option.splits)
  from i obtain i0 where i0: "i0 \<in> set (db_inventory db)"
    "i = (if points_at (expired_ids s now db) i0 then free_seat i0 else i0)"
    by (auto simp: after_expiry_def tbl.mem_update)
  with i have "inv_sessionId i0 = s" "inv_seatId i0 = seat" by (auto simp: free_seat_def split: if_splits)
  with j i0(1) holds_coreD(1) [OF core] have "i0 = j"
    by (auto simp: inventory_ok_def distinct_map dest: inj_onD)
  show ?thesis
  proof (cases "points_at (expired_ids s now db) j")
    case True
    with i0 \<open>i0 = j\<close> show ?thesis by (simp add: free_seat_def)
  next
    case False
    have "inv_state j \<noteq> SeatInventoryState.HELD"
    proof
      assume held: "inv_state j = SeatInventoryState.HELD"
      with holds_coreD(3) [OF core j(1)] obtain h where h: "h \<in> set (db_holds db)" "hold_status h = SeatHoldStatus.ACTIVE"
        "inv_currentHoldId j = Some (hold_id h)" "inv_holdExpiresAt j = Some (hold_expiresAt h)" "hold_sessionId h = inv_sessionId j"
        by (auto simp: seat_link_def)
      with free held j(2) have "overdue_in s now h" by (auto simp: overdue_in_def overdue_def)
      with h(1) have "hold_id h \<in> set (expired_ids s now db)" by (auto simp: expired_ids_def)
      with h(3) held False show False by (simp add: points_at_iff)
    qed
    with free i0 \<open>i0 = j\<close> False show ?thesis by auto
  qed
qed

lemma lock_rows_complete:
  assumes ok: "inventory_ok (db_inventory db)" and ids: "distinct seats"
    and known: "\<And>x. x \<in> set seats \<Longrightarrow> \<exists>i\<in>set (db_inventory db). inv_sessionId i = s \<and> inv_seatId i = x"
  shows "length (lock_rows db s seats) = length seats"
proof -
  let ?l = "lock_rows db s seats"
  have "distinct (filter (\<lambda>i. inv_sessionId i = s \<and> List.member seats (inv_seatId i)) (db_inventory db))"
    using ok by (auto simp: inventory_ok_def distinct_map)
  then have "distinct ?l" by (simp add: lock_rows_def select_rows_def)
  moreover have "inj_on inv_seatId (set ?l)"
    using ok by (auto simp: lock_rows_set inventory_ok_def distinct_map inj_on_def)
  ultimately have "distinct (map inv_seatId ?l)" by (simp add: distinct_map)
  moreover have "set (map inv_seatId ?l) = set seats" using known by (fastforce simp: lock_rows_set)
  ultimately show ?thesis using ids by (metis distinct_card length_map)
qed

lemma claims_all:
  assumes ok: "inventory_ok (db_inventory db)" and locked: "set locked \<subseteq> set (db_inventory db)" "distinct (map inv_id locked)"
    and free: "\<forall>i\<in>set locked. inv_state i = SeatInventoryState.AVAILABLE"
  shows "length (select_rows (claims locked) (db_inventory db)) = length locked"
proof -
  have inj: "inj_on inv_id (set (db_inventory db))" and d: "distinct (map inv_id (db_inventory db))"
    using ok by (simp_all add: inventory_ok_def distinct_map)
  have "set (filter (claims locked) (db_inventory db)) = set locked"
    using locked(1) free inj by (auto simp: claims_def dest: inj_onD)
  moreover have "distinct (filter (claims locked) (db_inventory db))" "distinct locked"
    using d locked(2) by (simp_all add: distinct_map)
  ultimately show ?thesis unfolding select_rows_def by (metis distinct_card)
qed

lemma fresh_create:
  "hold_fresh n (db_holds db) \<Longrightarrow> create_hold n db = Inr (db\<lparr>db_holds := db_holds db @ [n]\<rparr>)"
  by (auto simp: create_hold_def hold_fresh_def list_ex_iff same_hold_key_def hold_key_def insert_row_def image_iff)

lemma fresh_after_expiry:
  assumes "hold_id n \<notin> hold_id ` set (db_holds db)" "hold_publicToken n \<notin> hold_publicToken ` set (db_holds db)"
    "hold_key n \<notin> hold_key ` set (db_holds db)"
    and "\<And>h. h \<in> set (db_holds db) \<Longrightarrow> hold_status h = SeatHoldStatus.ACTIVE \<Longrightarrow> hold_userId h = hold_userId n \<Longrightarrow>
      hold_sessionId h = hold_sessionId n \<Longrightarrow> hold_expiresAt h \<le> now"
  shows "hold_fresh n (db_holds (after_expiry (hold_sessionId n) now db))"
proof -
  let ?h = "db_holds (after_expiry (hold_sessionId n) now db)"
  have "hold_id ` set ?h = hold_id ` set (db_holds db)" "hold_publicToken ` set ?h = hold_publicToken ` set (db_holds db)"
    "hold_key ` set ?h = hold_key ` set (db_holds db)"
    by (simp_all add: after_expiry_def map_update_rows hold_key_def expire_hold_def flip: set_map)
  moreover have "\<not> (hold_userId h = hold_userId n \<and> hold_sessionId h = hold_sessionId n)"
    if "h \<in> set ?h" "hold_status h = SeatHoldStatus.ACTIVE" for h
  proof -
    from that obtain h0 where h0: "h0 \<in> set (db_holds db)" "h = (if overdue_in (hold_sessionId n) now h0 then expire_hold now h0 else h0)"
      by (auto simp: after_expiry_def tbl.mem_update)
    with that(2) have "h = h0" "\<not> overdue_in (hold_sessionId n) now h0" by (auto simp: expire_hold_def split: if_splits)
    with assms(4) [OF h0(1)] that(2) show ?thesis by (auto simp: overdue_in_def overdue_def)
  qed
  ultimately show ?thesis using assms(1-3) by (simp add: hold_fresh_def)
qed

text \<open>C4: Expired holds never block a sale: when the session is on sale and every requested seat is available or
  its hold is overdue, a customer with no live hold in the session gets the seats.\<close>

theorem free_seats_can_be_held:
  assumes ok: "holds_ok db" and user: "u \<noteq> []"
    and input: "holdCreateInputSchema (cfg_maxSeatsPerHold config) raw = Some input"
    and sale: "on_sale (hci_sessionId input) now db"
    and seats: "\<forall>x\<in>set (hci_seatIds input). takeable (hci_sessionId input) now db x"
    and ids: "hid \<notin> hold_id ` set (db_holds db)" "tok \<notin> hold_publicToken ` set (db_holds db)"
    and key: "(hci_sessionId input, u, hci_idempotencyKey input) \<notin> hold_key ` set (db_holds db)"
    and free: "\<forall>h\<in>set (db_holds db). hold_userId h = u \<and> hold_sessionId h = hci_sessionId input
      \<and> hold_status h = SeatHoldStatus.ACTIVE \<longrightarrow> hold_expiresAt h \<le> now"
  shows "\<exists>db' a. acquireSeatHold config u raw now hid tok db db = (db', Inr a) \<and> \<not> acq_replayed a"
proof -
  let ?s = "hci_sessionId input" and ?db1 = "after_expiry (hci_sessionId input) now db"
  let ?locked = "lock_rows ?db1 ?s (hci_seatIds input)"
  define n where "n = new_hold hid tok input u (now + cfg_holdDurationMs config)"
  note valid = hold_input_valid [OF input]
  have ok1: "holds_ok ?db1" using ok by (rule after_expiry_ok)
  then have inv: "inventory_ok (db_inventory ?db1)" by (simp add: holds_ok_def holds_core_def)
  have avail: "\<forall>i\<in>set ?locked. inv_state i = SeatInventoryState.AVAILABLE"
    using taken_seat_available [OF ok] seats by (auto simp: lock_rows_set)
  have known: "\<exists>i\<in>set (db_inventory ?db1). inv_sessionId i = ?s \<and> inv_seatId i = x" if x: "x \<in> set (hci_seatIds input)" for x
  proof -
    from seats x obtain i where i: "i \<in> set (db_inventory db)" "inv_sessionId i = ?s" "inv_seatId i = x"
      by (auto simp: takeable_def)
    let ?i = "if points_at (expired_ids ?s now db) i then free_seat i else i"
    have "?i \<in> set (db_inventory ?db1)" using i(1) by (auto simp: after_expiry_def tbl.mem_update)
    moreover have "inv_sessionId ?i = ?s" "inv_seatId ?i = x" using i by (auto simp: free_seat_def)
    ultimately show ?thesis by blast
  qed
  have len: "length ?locked = length (hci_seatIds input)" by (rule lock_rows_complete [OF inv valid(1) known])
  have sub: "set ?locked \<subseteq> set (db_inventory ?db1)" by (auto simp: lock_rows_set)
  have "distinct (map inv_id ?locked)"
  proof -
    have "distinct (map inv_id (filter P (db_inventory ?db1)))" for P
      using inv by (simp add: inventory_ok_def distinct_map_filter_key)
    then have "distinct ?locked" by (simp add: lock_rows_def select_rows_def distinct_map)
    moreover have "inj_on inv_id (set ?locked)" using inv sub by (auto simp: inventory_ok_def distinct_map intro: inj_on_subset)
    ultimately show ?thesis by (simp add: distinct_map)
  qed
  then have claim: "length (select_rows (claims ?locked) (db_inventory ?db1)) = length ?locked"
    using inv sub avail by (intro claims_all) simp_all
  have fresh: "hold_fresh n (db_holds ?db1)"
    using fresh_after_expiry [of n db now] ids key free by (simp add: n_def hold_key_def)
  have "''hold-created:'' @ hid \<notin> set (outbox_keys ?db1)"
    using ok1 fresh by (auto simp: holds_ok_def hold_events_ok_def hold_fresh_def n_def)
  then have "write_claims n now ?locked (?db1\<lparr>db_holds := db_holds ?db1 @ [n]\<rparr>) = Inr (claimed_db n ?locked now ?db1, hid)"
    using claim
    by (simp add: write_claims_def Let_def and_then_eq_Inr enqueue_event_Inr claimed_db_def outbox_keys_def n_def)
  then have c: "claim_seats config input u hid tok now ?locked ?db1 = Inr (claimed_db n ?locked now ?db1, hid)"
    using len avail fresh_create [OF fresh] by (simp add: claim_seats_def Let_def list_ex_iff flip: n_def)
  from sale obtain ses ev where "find_session db ?s = Some ses" "find_event db (ses_eventId ses) = Some ev"
    "evaluateSessionSalesEligibility (eligibility_input db ses ev) now = None"
    by (auto simp: on_sale_def isSessionSellable_def split: option.splits)
  with c have tx: "acquire_transaction config input u hid tok now db = Inr (claimed_db n ?locked now ?db1, hid)"
    unfolding acquire_transaction_def release_expired_total [OF ok] by (simp add: after_expiry_eligible)
  have "holds_ok (claimed_db n ?locked now ?db1)" using acquire_transaction_ok [OF ok valid(2) tx] .
  then obtain view where "loadCustomerHoldView (claimed_db n ?locked now ?db1) hid now = Inr (Some view)"
    using claimed_view [of n ?locked now ?db1] by (auto simp: n_def)
  moreover have "tryIdempotentReplay db input u now = Inr None"
  proof -
    have "find_row (same_hold_key ?s u (hci_idempotencyKey input)) (db_holds db) = None"
      using key by (auto simp: tbl.find_None_iff same_hold_key_def hold_key_def image_iff)
    then show ?thesis by (simp add: tryIdempotentReplay_def)
  qed
  ultimately show ?thesis
    using user input tx by (simp add: acquireSeatHold_def transact_def)
qed

text \<open>At 700000 ms the first customer's hold is overdue and another customer takes seat A.\<close>

lemma free_seats_can_be_held_witness:
  "\<exists>db' a. acquireSeatHold DEFAULT_HOLD_CONFIGURATION ''u2''
     \<lparr>hci_sessionId = ''s1'', hci_seatIds = [''A''], hci_idempotencyKey = ''key-00002''\<rparr> 700000 ''h2''
     ''token-9876543210-fedcba'' held_db held_db = (db', Inr a) \<and> \<not> acq_replayed a"
proof (rule free_seats_can_be_held [OF held_db_ok])
  show "holdCreateInputSchema (cfg_maxSeatsPerHold DEFAULT_HOLD_CONFIGURATION)
      \<lparr>hci_sessionId = ''s1'', hci_seatIds = [''A''], hci_idempotencyKey = ''key-00002''\<rparr>
    = Some \<lparr>hci_sessionId = ''s1'', hci_seatIds = [''A''], hci_idempotencyKey = ''key-00002''\<rparr>" by code_simp
  show "on_sale (hci_sessionId \<lparr>hci_sessionId = ''s1'', hci_seatIds = [''A''], hci_idempotencyKey = ''key-00002''\<rparr>) 700000 held_db"
    by code_simp
  have "takeable ''s1'' 700000 held_db ''A''"
    unfolding takeable_def by (rule bexI [of _ "hd (db_inventory held_db)"]) code_simp+
  then show "\<forall>x\<in>set (hci_seatIds \<lparr>hci_sessionId = ''s1'', hci_seatIds = [''A''], hci_idempotencyKey = ''key-00002''\<rparr>).
      takeable (hci_sessionId \<lparr>hci_sessionId = ''s1'', hci_seatIds = [''A''], hci_idempotencyKey = ''key-00002''\<rparr>) 700000 held_db x"
    by simp
qed code_simp+

end
