(* ===== verification/Refund_Witnesses.thy ===== *)
theory Refund_Witnesses
  imports Payment_Witnesses Refund_Properties
begin

text \<open>
  The refund and dispute properties applied to the booking of Payment_Witnesses: its customer
  asks for the money of one seat, the refund is sent, and the provider reports on it.
\<close>

definition paid_db :: database where
  "paid_db = booked_db\<lparr>db_users := [\<lparr>usr_id = ''u1'', usr_platformRole = PlatformRole.USER\<rparr>]\<rparr>"

definition sample_actor :: RefundActor where
  "sample_actor = \<lparr>act_userId = ''u1'', act_role = CUSTOMER\<rparr>"

definition sample_refund :: RefundRequestInput where
  "sample_refund = \<lparr>rri_bookingReference = ''SF-BOOK-1'', rri_scope = SELECTED_SEATS, rri_bookingSeatIds = [''bs-inv-A''],
     rri_reasonCode = CUSTOMER_REQUEST, rri_idempotencyKey = ''refund-01''\<rparr>"

definition plain_sha :: "string \<Rightarrow> string" where
  "plain_sha s = s"

definition plain_hmac :: "string \<Rightarrow> string \<Rightarrow> string" where
  "plain_hmac k s = s"

definition sample_request :: "database \<times> (service_error + CreateRefundResult)" where
  "sample_request = requestRefund plain_sha plain_hmac \<lparr>rd_refundId = ''r1'', rd_publicReference = ''SF-REF-1''\<rparr>
     sample_actor sample_refund 4000 paid_db"

text \<open>The refund is requested, then accepted by the provider.\<close>

definition requested_db :: database where
  "requested_db = fst sample_request"

definition sample_submission :: "database \<times> (service_error + RefundSubmissionResult)" where
  "sample_submission = submitRefund plain_sha (\<lambda>_. Inr ''pr-1'') ''r1'' 5000 requested_db"

definition submitted_db :: database where
  "submitted_db = fst sample_submission"

definition refund_report :: "RefundStatus \<Rightarrow> NormalizedRefundWebhookEvent" where
  "refund_report status = \<lparr>nre_providerEventId = ''evt-9'', nre_eventType = ''refund.updated'', nre_providerIntentId = ''pi-1'',
     nre_providerRefundId = ''pr-1'', nre_status = status, nre_amountMinor = 1000, nre_currency = Currency.USD,
     nre_occurredAt = None\<rparr>"

lemma paid_refunds_ok: "refunds_ok paid_db"
  by code_simp

lemma submitted_refunds_ok: "refunds_ok submitted_db"
  by code_simp

lemma never_over_refunded_witness:
  "refunds_ok (fst (processRefundEvent plain_sha ''w9'' LOCAL_SIGNED (refund_report RefundStatus.SUCCEEDED) 6000 submitted_db))"
  using never_over_refunded [OF submitted_refunds_ok] by blast

definition sample_claim :: "service_error + database \<times> ClaimedRefund option" where
  "sample_claim = claimRefundForSubmission ''r1'' 5000 requested_db"


lemma refund_request_replays_witness:
  "\<exists>res. requestRefund plain_sha plain_hmac \<lparr>rd_refundId = ''r2'', rd_publicReference = ''SF-REF-2''\<rparr>
      sample_actor sample_refund 7000 requested_db = (requested_db, Inr res) \<and> crr_refundId res = ''r1''"
proof -
  let ?r = "\<lparr>crr_refundId = ''r1'', crr_publicReference = ''SF-REF-1'', crr_amountMinor = 1000, crr_currency = Currency.USD,
    crr_status = RefundStatus.REQUESTED, crr_replayed = False\<rparr>"
  have "snd sample_request = Inr ?r" by code_simp
  then have "requestRefund plain_sha plain_hmac \<lparr>rd_refundId = ''r1'', rd_publicReference = ''SF-REF-1''\<rparr>
      sample_actor sample_refund 4000 paid_db = (requested_db, Inr ?r)"
    unfolding requested_db_def by (simp add: prod_eq_iff flip: sample_request_def)
  from refund_request_replays [OF this] show ?thesis by fastforce
qed

section \<open>Events that abort\<close>

definition cancelled_db :: database where
  "cancelled_db = fst (store_envelope (refund_envelope ''w9'' LOCAL_SIGNED (refund_report RefundStatus.CANCELLED) None 6000) submitted_db)"

definition cancel_case :: "database \<Rightarrow> bool" where
  "cancel_case db \<longleftrightarrow>
     (let w = the (find_webhook db ''w9''); r = the (find_row (\<lambda>r. ref_providerRefundId r = Some ''pr-1'') (db_refunds db))
      in refunds_ok db \<and> find_webhook db ''w9'' = Some w \<and> \<not> webhook_processed w
        \<and> wh_normalizedRefundStatus w = Some RefundStatus.CANCELLED \<and> wh_providerRefundId w = Some ''pr-1''
        \<and> find_row (\<lambda>r. ref_providerRefundId r = Some ''pr-1'') (db_refunds db) = Some r
        \<and> ref_status r \<in> {RefundStatus.REQUESTED, RefundStatus.SUBMITTING, RefundStatus.PROCESSING}
        \<and> wh_amountMinor w = ref_requestedAmountMinor r \<and> wh_currency w = ref_currency r)"

lemma provider_cancellation_never_recorded_witness:
  "fst (processVerifiedRefundRecord plain_sha ''w9'' 6001 cancelled_db) = cancelled_db"
proof -
  have "cancel_case cancelled_db" by code_simp
  then have "\<exists>e. processVerifiedRefundRecord plain_sha ''w9'' 6001 cancelled_db = (cancelled_db, Inl e)"
    unfolding cancel_case_def Let_def by (elim conjE) (rule provider_cancellation_never_recorded)
  then show ?thesis by auto
qed

definition dispute_report :: "string \<Rightarrow> DisputeStatus \<Rightarrow> NormalizedDisputeWebhookEvent" where
  "dispute_report event status = \<lparr>nde_providerEventId = event, nde_eventType = ''dispute.updated'', nde_providerIntentId = ''pi-1'',
     nde_providerDisputeId = ''pd-1'', nde_status = status, nde_amountMinor = 2500, nde_currency = Currency.USD,
     nde_occurredAt = None\<rparr>"

definition disputed_db :: database where
  "disputed_db = fst (processDisputeEvent plain_sha \<lparr>dd_disputeId = ''d1'', dd_publicReference = ''SF-DSP-1''\<rparr>
     ''w5'' LOCAL_SIGNED (dispute_report ''evt-5'' DisputeStatus.OPEN) 5000 paid_db)"

definition closing_db :: database where
  "closing_db = fst (store_envelope (dispute_envelope ''w6'' LOCAL_SIGNED (dispute_report ''evt-6'' DisputeStatus.CLOSED) None 6000) disputed_db)"

definition closing_case :: "database \<Rightarrow> bool" where
  "closing_case db \<longleftrightarrow>
     (let w = the (find_webhook db ''w6''); a = the (find_attempt db ''p1'');
          d = the (find_row (\<lambda>d. dispute_key d = (pay_provider a, ''pd-1'')) (db_disputes db))
      in find_webhook db ''w6'' = Some w \<and> \<not> webhook_processed w
        \<and> wh_normalizedDisputeStatus w = Some DisputeStatus.CLOSED \<and> wh_providerDisputeId w = Some ''pd-1''
        \<and> find_row (\<lambda>a. pay_providerIntentId a = Some (wh_providerIntentId w)) (db_attempts db) = Some a
        \<and> find_row (\<lambda>d. dispute_key d = (pay_provider a, ''pd-1'')) (db_disputes db) = Some d
        \<and> isOpenDisputeStatus (dsp_status d))"

lemma dispute_closure_never_recorded_witness:
  "fst (processVerifiedDisputeRecord plain_sha \<lparr>dd_disputeId = ''d2'', dd_publicReference = ''SF-DSP-2''\<rparr> ''w6'' 6001 closing_db)
     = closing_db"
proof -
  have "closing_case closing_db" by code_simp
  then have "\<exists>e. processVerifiedDisputeRecord plain_sha \<lparr>dd_disputeId = ''d2'', dd_publicReference = ''SF-DSP-2''\<rparr> ''w6'' 6001 closing_db
      = (closing_db, Inl e)"
    unfolding closing_case_def Let_def by (elim conjE) (rule dispute_closure_never_recorded)
  then show ?thesis by auto
qed

end
