(* ===== verification/Seat_Map_Frames.thy ===== *)
theory Seat_Map_Frames
  imports Seat_Map_Service
begin

text \<open>
  What the seat-map services can do to the catalogue: \<open>layout_write\<close> is one accepted statement, and
  every service is a sequence of them on the catalogue alone. Statements keep the unique indexes and
  leave the layout of every map that is not a draft as it is.
\<close>

section \<open>Accepted statements\<close>

inductive layout_write :: "catalogue \<Rightarrow> catalogue \<Rightarrow> bool" where
  section_created: "create_section s cat = Inr cat' \<Longrightarrow> layout_write cat cat'"
| section_updated: "(\<And>s. sec_id (f s) = sec_id s) \<Longrightarrow> update_section i f cat = Inr cat' \<Longrightarrow> layout_write cat cat'"
| section_removed: "find_section cat i = Some s \<Longrightarrow> joined_status cat (Some (sec_seatMapId s)) = Some SeatMapStatus.DRAFT \<Longrightarrow>
    layout_write cat (cat\<lparr>cat_sections := delete_rows (\<lambda>x. sec_id x = i) (cat_sections cat)\<rparr>)"
| row_created: "create_row r cat = Inr cat' \<Longrightarrow> layout_write cat cat'"
| row_updated: "(\<And>r. row_id (g r) = row_id r) \<Longrightarrow> update_row i g cat = Inr cat' \<Longrightarrow> layout_write cat cat'"
| row_removed: "find_seat_row cat i = Some r \<Longrightarrow> joined_status cat (section_map cat (row_sectionId r)) = Some SeatMapStatus.DRAFT \<Longrightarrow>
    layout_write cat (cat\<lparr>cat_rows := delete_rows (\<lambda>x. row_id x = i) (cat_rows cat)\<rparr>)"
| seat_created: "create_seat t cat = Inr cat' \<Longrightarrow> layout_write cat cat'"
| seat_updated: "(\<And>t. seat_id (h t) = seat_id t) \<Longrightarrow> update_seat i h cat = Inr cat' \<Longrightarrow> layout_write cat cat'"
| seat_removed: "find_seat cat i = Some t \<Longrightarrow> joined_status cat (row_map cat (seat_rowId t)) = Some SeatMapStatus.DRAFT \<Longrightarrow>
    layout_write cat (cat\<lparr>cat_seats := delete_rows (\<lambda>x. seat_id x = i) (cat_seats cat)\<rparr>)"
| map_created: "map_status m = SeatMapStatus.DRAFT \<Longrightarrow> create_map m cat = Inr cat' \<Longrightarrow> layout_write cat cat'"
| maps_updated: "(\<And>m. map_id (k m) = map_id m) \<Longrightarrow>
    (\<And>m. map_status m = SeatMapStatus.DRAFT \<Longrightarrow> P m \<Longrightarrow> map_status (k m) = SeatMapStatus.DRAFT) \<Longrightarrow>
    update_maps P k cat = Inr cat' \<Longrightarrow> layout_write cat cat'"
| map_published: "validateSeatMapForPublication (seatMapGraphInclude cat i) = [] \<Longrightarrow> (\<And>m. map_id (k m) = map_id m) \<Longrightarrow>
    update_maps (\<lambda>m. map_id m = i) k cat = Inr cat' \<Longrightarrow> layout_write cat cat'"

abbreviation layout_writes :: "catalogue \<Rightarrow> catalogue \<Rightarrow> bool" where
  "layout_writes \<equiv> layout_write\<^sup>*\<^sup>*"

section \<open>Indexes and layouts\<close>

definition published :: "SeatMap list \<Rightarrow> SeatMap list" where
  "published maps = filter (\<lambda>m. map_status m = SeatMapStatus.PUBLISHED) maps"

definition catalogue_ok :: "catalogue \<Rightarrow> bool" where
  "catalogue_ok cat \<longleftrightarrow>
     distinct (map map_id (cat_seatMaps cat)) \<and> distinct (map (\<lambda>m. (map_spaceId m, map_version m)) (cat_seatMaps cat))
     \<and> distinct (map map_spaceId (published (cat_seatMaps cat)))
     \<and> distinct (map sec_id (cat_sections cat)) \<and> distinct (map row_id (cat_rows cat)) \<and> distinct (map seat_id (cat_seats cat))"

definition map_sections :: "catalogue \<Rightarrow> ident \<Rightarrow> SeatSection list" where
  "map_sections cat mapId = filter (\<lambda>s. sec_seatMapId s = mapId) (cat_sections cat)"

definition map_rows :: "catalogue \<Rightarrow> ident \<Rightarrow> SeatRow list" where
  "map_rows cat mapId = filter (\<lambda>r. section_map cat (row_sectionId r) = Some mapId) (cat_rows cat)"

definition map_seats :: "catalogue \<Rightarrow> ident \<Rightarrow> Seat list" where
  "map_seats cat mapId = filter (\<lambda>t. row_map cat (seat_rowId t) = Some mapId) (cat_seats cat)"

definition same_layout :: "ident \<Rightarrow> catalogue \<Rightarrow> catalogue \<Rightarrow> bool" where
  "same_layout mapId cat cat' \<longleftrightarrow>
     map_sections cat' mapId = map_sections cat mapId \<and> map_rows cat' mapId = map_rows cat mapId
     \<and> map_seats cat' mapId = map_seats cat mapId"

text \<open>What may become of a map that is no longer a draft.\<close>

definition map_settled :: "SeatMap \<Rightarrow> SeatMap \<Rightarrow> bool" where
  "map_settled m m' \<longleftrightarrow> map_status m' \<noteq> SeatMapStatus.DRAFT \<and> map_fixed m' = map_fixed m
     \<and> (map_status m = SeatMapStatus.ARCHIVED \<longrightarrow> m' = m)"

definition settled_map :: "catalogue \<Rightarrow> ident \<Rightarrow> SeatMap \<Rightarrow> bool" where
  "settled_map cat mapId m \<longleftrightarrow> find_map cat mapId = Some m \<and> map_status m \<noteq> SeatMapStatus.DRAFT"

definition frozen :: "catalogue \<Rightarrow> catalogue \<Rightarrow> bool" where
  "frozen cat cat' \<longleftrightarrow> (\<forall>mapId m. settled_map cat mapId m \<longrightarrow>
     same_layout mapId cat cat' \<and> (\<exists>m'. find_map cat' mapId = Some m' \<and> map_settled m m'))"

lemma section_map_Some:
  assumes "catalogue_ok cat"
  shows "section_map cat i = Some m \<longleftrightarrow> i \<in> sec_id ` set (map_sections cat m)"
proof -
  have "find_section cat i = Some s \<longleftrightarrow> s \<in> set (cat_sections cat) \<and> sec_id s = i" for s
    unfolding find_section_def using assms by (intro tbl.find_keyed) (simp add: catalogue_ok_def)
  then show ?thesis by (auto simp: section_map_def map_sections_def)
qed

lemma row_map_Some:
  assumes "catalogue_ok cat"
  shows "row_map cat i = Some m \<longleftrightarrow> i \<in> row_id ` set (map_rows cat m)"
proof -
  have "find_seat_row cat i = Some r \<longleftrightarrow> r \<in> set (cat_rows cat) \<and> row_id r = i" for r
    unfolding find_seat_row_def using assms by (intro tbl.find_keyed) (simp add: catalogue_ok_def)
  then show ?thesis by (auto simp: row_map_def map_rows_def Option.bind_eq_Some_conv)
qed

text \<open>The layout of a map follows from the part of each table that belongs to it.\<close>

lemma same_rows_layout:
  assumes ok: "catalogue_ok cat" "catalogue_ok cat'" and rows: "map_rows cat' m = map_rows cat m" and seats: "cat_seats cat' = cat_seats cat"
  shows "map_seats cat' m = map_seats cat m"
  unfolding map_seats_def row_map_Some [OF ok(1)] row_map_Some [OF ok(2)] rows seats ..

lemma same_sections_layout:
  assumes ok: "catalogue_ok cat" "catalogue_ok cat'" and sections: "map_sections cat' m = map_sections cat m"
    and same: "cat_rows cat' = cat_rows cat" "cat_seats cat' = cat_seats cat"
  shows "same_layout m cat cat'"
proof -
  have rows: "map_rows cat' m = map_rows cat m"
    unfolding map_rows_def section_map_Some [OF ok(1)] section_map_Some [OF ok(2)] sections same ..
  with same_rows_layout [OF ok rows same(2)] sections show ?thesis by (simp add: same_layout_def)
qed

lemma select_delete_frame:
  assumes "\<And>r. r \<in> set t \<Longrightarrow> P r \<Longrightarrow> \<not> Q r"
  shows "filter Q (delete_rows P t) = filter Q t"
  using assms by (auto simp: delete_rows_def intro!: filter_cong)

lemma filter_update_frame:
  assumes "\<And>r. r \<in> set t \<Longrightarrow> P r \<Longrightarrow> \<not> Q r \<and> \<not> Q (f r)"
  shows "filter Q (update_rows P f t) = filter Q t"
  using tbl.select_update_frame [of t P Q f] assms by (simp add: select_rows_def)

lemma not_draft:
  assumes "settled_map cat mapId m" "joined_status cat (Some i) = Some SeatMapStatus.DRAFT"
  shows "i \<noteq> mapId"
  using assms by (auto simp: settled_map_def joined_status_def map_status_of_def)

lemma not_draft_joined:
  assumes "settled_map cat mapId m" "joined_status cat j = Some SeatMapStatus.DRAFT"
  shows "j \<noteq> Some mapId"
  using assms not_draft by blast

section \<open>Statements keep the indexes\<close>

lemma keys_kept:
  assumes "\<And>r. key (f r) = key r"
  shows "map key (update_rows P f t) = map key t"
  using tbl.keys_update [of t P key f] assms by simp

lemma keys_deleted: "distinct (map key t) \<Longrightarrow> distinct (map key (delete_rows P t))"
  by (simp add: delete_rows_def distinct_map_filter)

lemma unclashed_distinct:
  assumes "distinct (map key t)" "\<not> list_ex (\<lambda>m. list_ex (\<lambda>x. key x \<noteq> key m \<and> index x = index m) t) t"
  shows "distinct (map index t)"
  using assms by (auto simp: distinct_map inj_on_def list_ex_iff)

lemma map_clash_distinct:
  assumes "distinct (map map_id maps)" "\<not> list_ex (\<lambda>m. map_clash m maps) maps"
  shows "distinct (map (\<lambda>m. (map_spaceId m, map_version m)) maps)"
  using unclashed_distinct [OF assms(1), of "\<lambda>m. (map_spaceId m, map_version m)"] assms(2) by (simp add: map_clash_def)

lemma publish_clash_distinct:
  assumes "distinct (map map_id maps)" "\<not> list_ex (\<lambda>m. publish_clash m maps) maps"
  shows "distinct (map map_spaceId (published maps))"
proof (rule unclashed_distinct)
  show "distinct (map map_id (published maps))" using assms(1) by (simp add: published_def distinct_map_filter)
  show "\<not> list_ex (\<lambda>m. list_ex (\<lambda>x. map_id x \<noteq> map_id m \<and> map_spaceId x = map_spaceId m) (published maps)) (published maps)"
    using assms(2) by (auto simp: publish_clash_def published_def list_ex_iff)
qed

lemma create_map_ok:
  assumes "create_map m cat = Inr cat'" "catalogue_ok cat"
  shows "catalogue_ok cat'"
proof -
  let ?maps = "cat_seatMaps cat"
  from assms(1) have cat': "cat' = cat\<lparr>cat_seatMaps := ?maps @ [m]\<rparr>" and new: "map_id m \<notin> map_id ` set ?maps"
    and clash: "\<not> map_clash m ?maps" "\<not> publish_clash m ?maps"
    by (auto simp: create_map_def and_then_eq_Inr has_key_def insert_row_def)
  have ids: "map_id x \<noteq> map_id m" if "x \<in> set ?maps" for x
    using new imageI [OF that, of map_id] by metis
  from clash(1) ids have "(map_spaceId m, map_version m) \<notin> (\<lambda>m. (map_spaceId m, map_version m)) ` set ?maps"
    by (force simp: map_clash_def list_ex_iff)
  moreover from clash(2) ids have "map_status m = SeatMapStatus.PUBLISHED \<Longrightarrow> map_spaceId m \<notin> map_spaceId ` set (published ?maps)"
    by (force simp: publish_clash_def published_def list_ex_iff)
  ultimately show ?thesis using new assms(2) unfolding cat' by (simp add: catalogue_ok_def published_def)
qed

lemma update_maps_ok:
  assumes "\<And>m. map_id (k m) = map_id m" "update_maps P k cat = Inr cat'" "catalogue_ok cat"
  shows "catalogue_ok cat'"
proof -
  let ?maps = "update_rows P k (cat_seatMaps cat)"
  from assms(2) have cat': "cat' = cat\<lparr>cat_seatMaps := ?maps\<rparr>"
    and "\<not> list_ex (\<lambda>m. map_clash m ?maps) ?maps" "\<not> list_ex (\<lambda>m. publish_clash m ?maps) ?maps"
    by (auto simp: update_maps_def Let_def and_then_eq_Inr)
  moreover have "distinct (map map_id ?maps)" using assms(1,3) by (simp add: keys_kept catalogue_ok_def)
  ultimately show ?thesis
    using assms(3) map_clash_distinct [of ?maps] publish_clash_distinct [of ?maps] by (simp add: catalogue_ok_def)
qed

lemma new_key: "\<not> has_key key (key r) t \<Longrightarrow> distinct (map key t) \<Longrightarrow> distinct (map key (insert_row r t))"
  by (simp add: has_key_def insert_row_def)

lemma same_tables_ok:
  assumes "catalogue_ok cat" "cat_seatMaps cat' = cat_seatMaps cat" "distinct (map sec_id (cat_sections cat'))"
    "distinct (map row_id (cat_rows cat'))" "distinct (map seat_id (cat_seats cat'))"
  shows "catalogue_ok cat'"
  using assms by (simp add: catalogue_ok_def)

lemma ok_keys:
  assumes "catalogue_ok cat"
  shows "distinct (map sec_id (cat_sections cat))" "distinct (map row_id (cat_rows cat))" "distinct (map seat_id (cat_seats cat))"
  using assms by (simp_all add: catalogue_ok_def)

lemma create_section_Inr:
  "create_section s cat = Inr cat' \<Longrightarrow> joined_status cat (Some (sec_seatMapId s)) = Some SeatMapStatus.DRAFT
     \<and> \<not> has_key sec_id (sec_id s) (cat_sections cat) \<and> \<not> section_clash s cat
     \<and> cat' = cat\<lparr>cat_sections := insert_row s (cat_sections cat)\<rparr>"
  by (auto simp: create_section_def and_then_eq_Inr require_draft_Inr)

lemma create_row_Inr:
  "create_row r cat = Inr cat' \<Longrightarrow> joined_status cat (section_map cat (row_sectionId r)) = Some SeatMapStatus.DRAFT
     \<and> \<not> has_key row_id (row_id r) (cat_rows cat) \<and> \<not> row_clash r cat
     \<and> cat' = cat\<lparr>cat_rows := insert_row r (cat_rows cat)\<rparr>"
  by (auto simp: create_row_def and_then_eq_Inr require_draft_Inr)

lemma create_seat_Inr:
  "create_seat t cat = Inr cat' \<Longrightarrow> joined_status cat (row_map cat (seat_rowId t)) = Some SeatMapStatus.DRAFT
     \<and> \<not> has_key seat_id (seat_id t) (cat_seats cat) \<and> seat_checks t
     \<and> cat' = cat\<lparr>cat_seats := insert_row t (cat_seats cat)\<rparr>"
  by (auto simp: create_seat_def and_then_eq_Inr require_draft_Inr)

lemma update_section_Inr:
  "update_section i f cat = Inr cat' \<Longrightarrow> \<exists>s. find_section cat i = Some s
     \<and> joined_status cat (Some (sec_seatMapId s)) = Some SeatMapStatus.DRAFT
     \<and> joined_status cat (Some (sec_seatMapId (f s))) = Some SeatMapStatus.DRAFT
     \<and> cat' = cat\<lparr>cat_sections := update_rows (\<lambda>x. sec_id x = i) f (cat_sections cat)\<rparr>"
  by (auto simp: update_section_def and_then_eq_Inr require_draft_Inr split: option.split_asm)

lemma update_row_Inr:
  "update_row i f cat = Inr cat' \<Longrightarrow> \<exists>r. find_seat_row cat i = Some r
     \<and> joined_status cat (section_map cat (row_sectionId r)) = Some SeatMapStatus.DRAFT
     \<and> joined_status cat (section_map cat (row_sectionId (f r))) = Some SeatMapStatus.DRAFT
     \<and> cat' = cat\<lparr>cat_rows := update_rows (\<lambda>x. row_id x = i) f (cat_rows cat)\<rparr>"
  by (auto simp: update_row_def and_then_eq_Inr require_draft_Inr split: option.split_asm)

lemma update_seat_Inr:
  "update_seat i f cat = Inr cat' \<Longrightarrow> \<exists>t. find_seat cat i = Some t
     \<and> joined_status cat (row_map cat (seat_rowId t)) = Some SeatMapStatus.DRAFT
     \<and> joined_status cat (row_map cat (seat_rowId (f t))) = Some SeatMapStatus.DRAFT
     \<and> cat' = cat\<lparr>cat_seats := update_rows (\<lambda>x. seat_id x = i) f (cat_seats cat)\<rparr>"
  by (auto simp: update_seat_def and_then_eq_Inr require_draft_Inr split: option.split_asm)

lemma update_maps_Inr:
  "update_maps P k cat = Inr cat' \<Longrightarrow> cat' = cat\<lparr>cat_seatMaps := update_rows P k (cat_seatMaps cat)\<rparr>
     \<and> (\<forall>m\<in>set (cat_seatMaps cat). P m \<longrightarrow> map_update_ok m (k m))"
  by (auto simp: update_maps_def Let_def and_then_eq_Inr list_ex_iff)

lemma write_keeps_ok:
  assumes "layout_write cat cat'" "catalogue_ok cat"
  shows "catalogue_ok cat'"
  using assms(1)
proof cases
  case (map_created m)
  then show ?thesis using assms(2) by (auto intro: create_map_ok)
next
  case (maps_updated k P)
  then show ?thesis using assms(2) by (auto intro: update_maps_ok)
next
  case (map_published i k)
  show ?thesis by (rule update_maps_ok [OF map_published(2,3) assms(2)])
next
  case (section_created s)
  show ?thesis using create_section_Inr [OF section_created] ok_keys [OF assms(2)]
    by (intro same_tables_ok [OF assms(2)]) (simp_all add: new_key)
next
  case (row_created s)
  show ?thesis using create_row_Inr [OF row_created] ok_keys [OF assms(2)]
    by (intro same_tables_ok [OF assms(2)]) (simp_all add: new_key)
next
  case (seat_created s)
  show ?thesis using create_seat_Inr [OF seat_created] ok_keys [OF assms(2)]
    by (intro same_tables_ok [OF assms(2)]) (simp_all add: new_key)
next
  case (section_updated f i)
  show ?thesis using update_section_Inr [OF section_updated(2)] ok_keys [OF assms(2)]
    by (intro same_tables_ok [OF assms(2)]) (auto simp: keys_kept section_updated(1))
next
  case (row_updated f i)
  show ?thesis using update_row_Inr [OF row_updated(2)] ok_keys [OF assms(2)]
    by (intro same_tables_ok [OF assms(2)]) (auto simp: keys_kept row_updated(1))
next
  case (seat_updated f i)
  show ?thesis using update_seat_Inr [OF seat_updated(2)] ok_keys [OF assms(2)]
    by (intro same_tables_ok [OF assms(2)]) (auto simp: keys_kept seat_updated(1))
qed (use ok_keys [OF assms(2)] in \<open>auto intro!: same_tables_ok [OF assms(2)] keys_deleted\<close>)

section \<open>Statements leave settled maps alone\<close>

lemma frozen_refl: "frozen cat cat"
  by (auto simp: frozen_def same_layout_def map_settled_def settled_map_def)

lemma map_settled_trans: "map_settled a b \<Longrightarrow> map_settled b c \<Longrightarrow> map_settled a c"
  by (auto simp: map_settled_def)

lemma frozen_trans:
  assumes "frozen a b" "frozen b c"
  shows "frozen a c"
  unfolding frozen_def
proof (intro allI impI)
  fix mapId m assume m: "settled_map a mapId m"
  with assms(1) obtain m1 where m1: "find_map b mapId = Some m1" "map_settled m m1" and ab: "same_layout mapId a b"
    by (auto simp: frozen_def)
  then have "settled_map b mapId m1" by (simp add: settled_map_def map_settled_def)
  with assms(2) obtain m2 where "find_map c mapId = Some m2" "map_settled m1 m2" "same_layout mapId b c"
    by (auto simp: frozen_def)
  with m1 ab show "same_layout mapId a c \<and> (\<exists>m'. find_map c mapId = Some m' \<and> map_settled m m')"
    by (auto simp: same_layout_def intro: map_settled_trans)
qed

lemma find_seat_map_same: "cat_seatMaps cat' = cat_seatMaps cat \<Longrightarrow> find_map cat' = find_map cat"
  by (simp add: find_map_def fun_eq_iff)

lemma frozenI:
  assumes "cat_seatMaps cat' = cat_seatMaps cat" "\<And>mapId m. settled_map cat mapId m \<Longrightarrow> same_layout mapId cat cat'"
  shows "frozen cat cat'"
  using assms(2) by (auto simp: frozen_def find_seat_map_same [OF assms(1)] map_settled_def settled_map_def)

lemma frozen_sections:
  assumes "catalogue_ok cat" "catalogue_ok cat'" "cat_seatMaps cat' = cat_seatMaps cat"
    and "\<And>mapId m. settled_map cat mapId m \<Longrightarrow> map_sections cat' mapId = map_sections cat mapId"
    and "cat_rows cat' = cat_rows cat" "cat_seats cat' = cat_seats cat"
  shows "frozen cat cat'"
  using assms by (intro frozenI) (auto intro: same_sections_layout)

lemma section_map_same: "cat_sections cat' = cat_sections cat \<Longrightarrow> section_map cat' = section_map cat"
  by (simp add: section_map_def find_section_def fun_eq_iff)

lemma row_map_same: "cat_sections cat' = cat_sections cat \<Longrightarrow> cat_rows cat' = cat_rows cat \<Longrightarrow> row_map cat' = row_map cat"
  by (frule section_map_same) (simp add: row_map_def [abs_def] find_seat_row_def)

lemma frozen_rows:
  assumes ok: "catalogue_ok cat" "catalogue_ok cat'" and same: "cat_seatMaps cat' = cat_seatMaps cat" "cat_sections cat' = cat_sections cat"
      "cat_seats cat' = cat_seats cat"
    and rows: "\<And>mapId m. settled_map cat mapId m \<Longrightarrow>
      filter (\<lambda>r. section_map cat (row_sectionId r) = Some mapId) (cat_rows cat') = map_rows cat mapId"
  shows "frozen cat cat'"
proof (rule frozenI [OF same(1)])
  fix mapId m assume "settled_map cat mapId m"
  then have "map_rows cat' mapId = map_rows cat mapId"
    using rows by (simp add: map_rows_def section_map_same [OF same(2)])
  with same_rows_layout [OF ok this same(3)] show "same_layout mapId cat cat'"
    by (simp add: same_layout_def map_sections_def same(2))
qed

lemma frozen_seats:
  assumes same: "cat_seatMaps cat' = cat_seatMaps cat" "cat_sections cat' = cat_sections cat" "cat_rows cat' = cat_rows cat"
    and seats: "\<And>mapId m. settled_map cat mapId m \<Longrightarrow>
      filter (\<lambda>t. row_map cat (seat_rowId t) = Some mapId) (cat_seats cat') = map_seats cat mapId"
  shows "frozen cat cat'"
proof (rule frozenI [OF same(1)])
  fix mapId m assume "settled_map cat mapId m"
  with seats show "same_layout mapId cat cat'"
    by (simp add: same_layout_def map_sections_def map_rows_def map_seats_def section_map_same [OF same(2)]
        row_map_same [OF same(2,3)] same)
qed

text \<open>A row found by its identifier is the only one the statement touches.\<close>

lemma found_only:
  assumes "distinct (map key t)" "find_row (\<lambda>x. key x = i) t = Some r" "x \<in> set t" "key x = i"
  shows "x = r"
  using tbl.find_keyed [of key t i x] assms by simp

lemma update_maps_frozen:
  assumes ids: "\<And>m. map_id (k m) = map_id m" and upd: "update_maps P k cat = Inr cat'"
  shows "frozen cat cat'"
  unfolding frozen_def
proof (intro allI impI conjI)
  fix mapId m assume m: "settled_map cat mapId m"
  from update_maps_Inr [OF upd] have cat': "cat' = cat\<lparr>cat_seatMaps := update_rows P k (cat_seatMaps cat)\<rparr>"
    and ok: "\<And>m. m \<in> set (cat_seatMaps cat) \<Longrightarrow> P m \<Longrightarrow> map_update_ok m (k m)" by blast+
  show "same_layout mapId cat cat'"
    unfolding cat' same_layout_def map_sections_def map_rows_def map_seats_def row_map_def [abs_def] find_seat_row_def
      section_map_def [abs_def] find_section_def by simp
  have "find_row (\<lambda>x. map_id x = mapId) (update_rows P k t) = map_option (\<lambda>m. if P m then k m else m) (find_row (\<lambda>x. map_id x = mapId) t)" for t
    by (induction t) (auto simp: find_row_def update_rows_def ids)
  then have "find_map cat' mapId = map_option (\<lambda>m. if P m then k m else m) (find_map cat mapId)"
    by (simp add: find_map_def cat')
  moreover have "map_settled m (if P m then k m else m)"
    using m ok [of m] tbl.find_SomeD [of _ "cat_seatMaps cat" m]
    by (auto simp: settled_map_def find_map_def map_settled_def map_update_ok_def split: SeatMapStatus.split_asm)
  ultimately show "\<exists>m'. find_map cat' mapId = Some m' \<and> map_settled m m'"
    using m by (auto simp: settled_map_def)
qed

lemma create_map_frozen:
  assumes "create_map m cat = Inr cat'"
  shows "frozen cat cat'"
proof -
  from assms have cat': "cat' = cat\<lparr>cat_seatMaps := cat_seatMaps cat @ [m]\<rparr>"
    by (auto simp: create_map_def and_then_eq_Inr insert_row_def)
  have "find_row Q t = Some x \<Longrightarrow> find_row Q (t @ [m]) = Some x" for Q t x
    by (induction t) (auto simp: find_row_def split: if_splits)
  then show ?thesis
    unfolding frozen_def cat' same_layout_def map_sections_def map_rows_def map_seats_def row_map_def [abs_def] find_seat_row_def
      section_map_def [abs_def] find_section_def settled_map_def find_map_def
    by (auto simp: map_settled_def)
qed

lemma draft_section:
  assumes "settled_map cat mapId m" "joined_status cat (Some (sec_seatMapId s)) = Some SeatMapStatus.DRAFT"
  shows "sec_seatMapId s \<noteq> mapId"
  using not_draft [OF assms] .

lemma filter_insert_row: "\<not> Q r \<Longrightarrow> filter Q (insert_row r t) = filter Q t"
  by (simp add: insert_row_def)

lemma section_write_frozen:
  assumes ok: "catalogue_ok cat" "catalogue_ok cat'" and cat': "cat' = cat\<lparr>cat_sections := ss\<rparr>"
    and sections: "\<And>Q. (\<And>s. joined_status cat (Some (sec_seatMapId s)) = Some SeatMapStatus.DRAFT \<Longrightarrow> \<not> Q s) \<Longrightarrow>
      filter Q ss = filter Q (cat_sections cat)"
  shows "frozen cat cat'"
proof (rule frozen_sections [OF ok])
  fix mapId m assume "settled_map cat mapId m"
  then show "map_sections cat' mapId = map_sections cat mapId"
    unfolding map_sections_def cat' by (auto intro!: sections dest: not_draft)
qed (simp_all add: cat')

lemma row_write_frozen:
  assumes ok: "catalogue_ok cat" "catalogue_ok cat'" and cat': "cat' = cat\<lparr>cat_rows := rs\<rparr>"
    and rows: "\<And>Q. (\<And>r. joined_status cat (section_map cat (row_sectionId r)) = Some SeatMapStatus.DRAFT \<Longrightarrow> \<not> Q r) \<Longrightarrow>
      filter Q rs = filter Q (cat_rows cat)"
  shows "frozen cat cat'"
proof (rule frozen_rows [OF ok])
  fix mapId m assume "settled_map cat mapId m"
  then show "filter (\<lambda>r. section_map cat (row_sectionId r) = Some mapId) (cat_rows cat') = map_rows cat mapId"
    unfolding map_rows_def cat' by (auto intro!: rows dest: not_draft_joined)
qed (simp_all add: cat')

lemma seat_write_frozen:
  assumes cat': "cat' = cat\<lparr>cat_seats := ts\<rparr>"
    and seats: "\<And>Q. (\<And>t. joined_status cat (row_map cat (seat_rowId t)) = Some SeatMapStatus.DRAFT \<Longrightarrow> \<not> Q t) \<Longrightarrow>
      filter Q ts = filter Q (cat_seats cat)"
  shows "frozen cat cat'"
proof (rule frozen_seats)
  fix mapId m assume "settled_map cat mapId m"
  then show "filter (\<lambda>t. row_map cat (seat_rowId t) = Some mapId) (cat_seats cat') = map_seats cat mapId"
    unfolding map_seats_def cat' by (auto intro!: seats dest: not_draft_joined)
qed (simp_all add: cat')

lemma write_frozen:
  assumes "layout_write cat cat'" "catalogue_ok cat"
  shows "frozen cat cat'"
proof -
  note ok' = write_keeps_ok [OF assms]
  note keys = ok_keys [OF assms(2)]
  from assms(1) show ?thesis
  proof cases
    case (section_created s)
    show ?thesis using create_section_Inr [OF section_created]
      by (intro section_write_frozen [OF assms(2) ok', of "insert_row s (cat_sections cat)"]) (auto simp: filter_insert_row)
  next
    case (section_updated f i)
    from update_section_Inr [OF this(2)] obtain s where s: "find_row (\<lambda>x. sec_id x = i) (cat_sections cat) = Some s"
        "joined_status cat (Some (sec_seatMapId s)) = Some SeatMapStatus.DRAFT"
        "joined_status cat (Some (sec_seatMapId (f s))) = Some SeatMapStatus.DRAFT"
      and e: "cat' = cat\<lparr>cat_sections := update_rows (\<lambda>x. sec_id x = i) f (cat_sections cat)\<rparr>" by (auto simp: find_section_def)
    show ?thesis
      by (rule section_write_frozen [OF assms(2) ok' e], rule filter_update_frame) (use found_only [OF keys(1) s(1)] s(2,3) in blast)
  next
    case (section_removed i s)
    note found = found_only [OF keys(1) section_removed(2) [unfolded find_section_def]]
    show ?thesis
      by (rule section_write_frozen [OF assms(2) ok' section_removed(1)], rule select_delete_frame) (use found section_removed(3) in blast)
  next
    case (row_created r)
    show ?thesis using create_row_Inr [OF row_created]
      by (intro row_write_frozen [OF assms(2) ok', of "insert_row r (cat_rows cat)"]) (auto simp: filter_insert_row)
  next
    case (row_updated f i)
    from update_row_Inr [OF this(2)] obtain r where r: "find_row (\<lambda>x. row_id x = i) (cat_rows cat) = Some r"
        "joined_status cat (section_map cat (row_sectionId r)) = Some SeatMapStatus.DRAFT"
        "joined_status cat (section_map cat (row_sectionId (f r))) = Some SeatMapStatus.DRAFT"
      and e: "cat' = cat\<lparr>cat_rows := update_rows (\<lambda>x. row_id x = i) f (cat_rows cat)\<rparr>" by (auto simp: find_seat_row_def)
    show ?thesis
      by (rule row_write_frozen [OF assms(2) ok' e], rule filter_update_frame) (use found_only [OF keys(2) r(1)] r(2,3) in blast)
  next
    case (row_removed i r)
    note found = found_only [OF keys(2) row_removed(2) [unfolded find_seat_row_def]]
    show ?thesis
      by (rule row_write_frozen [OF assms(2) ok' row_removed(1)], rule select_delete_frame) (use found row_removed(3) in blast)
  next
    case (seat_created t)
    show ?thesis using create_seat_Inr [OF seat_created]
      by (intro seat_write_frozen [of cat' "insert_row t (cat_seats cat)" cat]) (auto simp: filter_insert_row)
  next
    case (seat_updated f i)
    from update_seat_Inr [OF this(2)] obtain t where t: "find_row (\<lambda>x. seat_id x = i) (cat_seats cat) = Some t"
        "joined_status cat (row_map cat (seat_rowId t)) = Some SeatMapStatus.DRAFT"
        "joined_status cat (row_map cat (seat_rowId (f t))) = Some SeatMapStatus.DRAFT"
      and e: "cat' = cat\<lparr>cat_seats := update_rows (\<lambda>x. seat_id x = i) f (cat_seats cat)\<rparr>" by (auto simp: find_seat_def)
    show ?thesis
      by (rule seat_write_frozen [OF e], rule filter_update_frame) (use found_only [OF keys(3) t(1)] t(2,3) in blast)
  next
    case (seat_removed i t)
    note found = found_only [OF keys(3) seat_removed(2) [unfolded find_seat_def]]
    show ?thesis
      by (rule seat_write_frozen [OF seat_removed(1)], rule select_delete_frame) (use found seat_removed(3) in blast)
  next
    case (map_created m)
    show ?thesis by (rule create_map_frozen [OF map_created(2)])
  next
    case (maps_updated k P)
    show ?thesis by (rule update_maps_frozen [OF maps_updated(1,3)])
  next
    case (map_published i k)
    show ?thesis by (rule update_maps_frozen [OF map_published(2,3)])
  qed
qed

lemma writes_sound:
  assumes "layout_writes cat cat'" "catalogue_ok cat"
  shows "catalogue_ok cat' \<and> frozen cat cat'"
  using assms by (induction rule: rtranclp_induct) (auto intro: write_keeps_ok frozen_refl frozen_trans write_frozen)

section \<open>The layout as it is loaded\<close>

text \<open>The query that loads a map reads only the part of the tables that belongs to it.\<close>

lemma load_rows_part:
  assumes "catalogue_ok cat" "s \<in> set (map_sections cat mapId)"
  shows "load_rows cat (sec_id s) =
    map (\<lambda>r. \<lparr>grow_row = r, grow_seats = by_order seat_displayOrder seat_label (filter (\<lambda>t. seat_rowId t = row_id r) (map_seats cat mapId))\<rparr>)
      (by_order row_displayOrder row_label (filter (\<lambda>r. row_sectionId r = sec_id s) (map_rows cat mapId)))"
proof -
  have s: "section_map cat (sec_id s) = Some mapId"
    using assms by (simp add: section_map_Some)
  then have rows: "select_rows (\<lambda>r. row_sectionId r = sec_id s) (cat_rows cat) = filter (\<lambda>r. row_sectionId r = sec_id s) (map_rows cat mapId)"
    by (auto simp: select_rows_def map_rows_def intro!: filter_cong)
  have "select_rows (\<lambda>t. seat_rowId t = row_id r) (cat_seats cat) = filter (\<lambda>t. seat_rowId t = row_id r) (map_seats cat mapId)"
    if "r \<in> set (filter (\<lambda>r. row_sectionId r = sec_id s) (map_rows cat mapId))" for r
  proof -
    have "row_map cat (row_id r) = Some mapId" using that assms(1) by (simp add: row_map_Some)
    then show ?thesis by (auto simp: select_rows_def map_seats_def intro!: filter_cong)
  qed
  then show ?thesis unfolding load_rows_def rows by (intro map_cong refl) (simp add: by_order_def)
qed

lemma same_layout_graph:
  assumes "catalogue_ok cat" "catalogue_ok cat'" "same_layout mapId cat cat'"
  shows "seatMapGraphInclude cat' mapId = seatMapGraphInclude cat mapId"
proof -
  have "select_rows (\<lambda>s. sec_seatMapId s = mapId) (cat_sections c) = map_sections c mapId" for c
    by (simp add: select_rows_def map_sections_def)
  then show ?thesis
    using assms load_rows_part [OF assms(1), of _ mapId] load_rows_part [OF assms(2), of _ mapId]
    unfolding seatMapGraphInclude_def by (intro map_cong) (simp_all add: same_layout_def by_order_def)
qed

section \<open>Published maps are valid\<close>

definition published_valid :: "catalogue \<Rightarrow> bool" where
  "published_valid cat \<longleftrightarrow> (\<forall>m\<in>set (cat_seatMaps cat). map_status m \<noteq> SeatMapStatus.DRAFT \<longrightarrow>
     graph_well_formed (seatMapGraphInclude cat (map_id m)))"

lemma settled_mem: "catalogue_ok cat \<Longrightarrow> settled_map cat i m \<longleftrightarrow> m \<in> set (cat_seatMaps cat) \<and> map_id m = i \<and> map_status m \<noteq> SeatMapStatus.DRAFT"
  using tbl.find_keyed [of map_id "cat_seatMaps cat" i m] by (auto simp: settled_map_def find_map_def catalogue_ok_def)

text \<open>A statement that lets no draft become published keeps them valid.\<close>

lemma published_valid_kept:
  assumes ok: "catalogue_ok cat" "catalogue_ok cat'" and frozen: "frozen cat cat'" and valid: "published_valid cat"
    and old: "\<And>m'. m' \<in> set (cat_seatMaps cat') \<Longrightarrow> map_status m' \<noteq> SeatMapStatus.DRAFT \<Longrightarrow>
      (\<exists>m. settled_map cat (map_id m') m) \<or> graph_well_formed (seatMapGraphInclude cat' (map_id m'))"
  shows "published_valid cat'"
  unfolding published_valid_def
proof (intro ballI impI)
  fix m' assume "m' \<in> set (cat_seatMaps cat')" "map_status m' \<noteq> SeatMapStatus.DRAFT"
  from old [OF this] show "graph_well_formed (seatMapGraphInclude cat' (map_id m'))"
  proof
    assume "\<exists>m. settled_map cat (map_id m') m"
    then obtain m where m: "settled_map cat (map_id m') m" ..
    with frozen have "seatMapGraphInclude cat' (map_id m') = seatMapGraphInclude cat (map_id m')"
      by (intro same_layout_graph [OF ok]) (auto simp: frozen_def)
    with m valid show ?thesis using settled_mem [OF ok(1)] by (auto simp: published_valid_def)
  qed
qed

lemma write_keeps_valid:
  assumes step: "layout_write cat cat'" and ok: "catalogue_ok cat" and valid: "published_valid cat"
  shows "published_valid cat'"
proof (rule published_valid_kept [OF ok write_keeps_ok [OF step ok] write_frozen [OF step ok] valid])
  fix m' assume m': "m' \<in> set (cat_seatMaps cat')" "map_status m' \<noteq> SeatMapStatus.DRAFT"
  have same: "\<exists>m. settled_map cat (map_id m') m" if "cat_seatMaps cat' = cat_seatMaps cat"
    using m' that settled_mem [OF ok] by auto
  from step show "(\<exists>m. settled_map cat (map_id m') m) \<or> graph_well_formed (seatMapGraphInclude cat' (map_id m'))"
  proof cases
    case (map_created m)
    then have "cat_seatMaps cat' = cat_seatMaps cat @ [m]" by (auto simp: create_map_def and_then_eq_Inr insert_row_def)
    with map_created m' settled_mem [OF ok] show ?thesis by auto
  next
    case (maps_updated k P)
    from update_maps_Inr [OF maps_updated(3)] m' obtain m where m: "m \<in> set (cat_seatMaps cat)" "m' = (if P m then k m else m)"
      by (auto simp: update_rows_def)
    with maps_updated(1,2) m'(2) settled_mem [OF ok] show ?thesis by (metis)
  next
    case (map_published i k)
    from update_maps_Inr [OF map_published(3)] m' obtain m where m: "m \<in> set (cat_seatMaps cat)" "m' = (if map_id m = i then k m else m)"
      and cat': "cat' = cat\<lparr>cat_seatMaps := update_rows (\<lambda>m. map_id m = i) k (cat_seatMaps cat)\<rparr>"
      by (auto simp: update_rows_def)
    have "seatMapGraphInclude cat' i = seatMapGraphInclude cat i"
      unfolding cat' seatMapGraphInclude_def load_rows_def by simp
    with m map_published(1,2) m'(2) settled_mem [OF ok] show ?thesis
      by (cases "map_id m = i") (auto simp: publication_valid_iff)
  qed (use same create_section_Inr create_row_Inr create_seat_Inr update_section_Inr update_row_Inr update_seat_Inr in \<open>fastforce+\<close>)
qed

lemma writes_keep_valid:
  assumes "layout_writes cat cat'" "catalogue_ok cat" "published_valid cat"
  shows "published_valid cat'"
  using assms
proof (induction rule: rtranclp_induct)
  case (step b c)
  then show ?case using writes_sound [OF step.hyps(1) step.prems(1)] write_keeps_valid by blast
qed simp

end
