(* ===== verification/Seat_Map_Properties.thy ===== *)
theory Seat_Map_Properties
  imports Seat_Map_Frames
begin

text \<open>
  Every seat-map service is a sequence of accepted statements on the catalogue and nothing else;
  hence what holds in every state the editor can reach, what a publication and a clone
  return, and what cannot be deleted.
\<close>

section \<open>Services edit layouts\<close>

definition edits :: "database \<Rightarrow> database \<Rightarrow> bool" where
  "edits db db' \<longleftrightarrow> (\<exists>cat. layout_writes (db_catalogue db) cat \<and> db' = db\<lparr>db_catalogue := cat\<rparr>)"

lemma edits_refl: "edits db db"
  by (auto simp: edits_def intro!: exI [of _ "db_catalogue db"])

lemma edits_trans: "edits a b \<Longrightarrow> edits b c \<Longrightarrow> edits a c"
  by (auto simp: edits_def) (metis rtranclp_trans)

definition layout_op :: "(catalogue \<Rightarrow> service_error + catalogue) \<Rightarrow> bool" where
  "layout_op f \<longleftrightarrow> (\<forall>cat cat'. f cat = Inr cat' \<longrightarrow> layout_writes cat cat')"

lemma layout_opI: "(\<And>cat cat'. f cat = Inr cat' \<Longrightarrow> layout_write cat cat') \<Longrightarrow> layout_op f"
  by (auto simp: layout_op_def)

lemma layout_op_then: "layout_op f \<Longrightarrow> layout_op g \<Longrightarrow> layout_op (\<lambda>cat. and_then (f cat) g)"
  by (fastforce simp: layout_op_def and_then_eq_Inr intro: rtranclp_trans)

lemma layout_op_on: "layout_op f \<Longrightarrow> on_catalogue f db = Inr db' \<Longrightarrow> edits db db'"
  by (auto simp: layout_op_def on_catalogue_def edits_def and_then_eq_Inr)

lemma create_all_op:
  assumes "\<And>x. layout_op (create x)"
  shows "layout_op (create_all create xs)"
proof (induction xs)
  case (Cons x xs)
  have "create_all create (x # xs) = (\<lambda>cat. and_then (create x cat) (create_all create xs))" by (simp add: fun_eq_iff)
  with layout_op_then [OF assms Cons.IH] show ?case by simp
qed (simp add: layout_op_def)

lemma statement_ops:
  "layout_op (create_section s)" "layout_op (create_row r)" "layout_op (create_seat t)"
  by (auto intro!: layout_opI intro: layout_write.intros)

lemma new_map_op: "layout_op (create_map (new_map mapId spaceId sourceId name version))"
  by (rule layout_opI, rule layout_write.map_created) (simp_all add: new_map_def)

lemma update_ops:
  "(\<And>s. sec_id (f s) = sec_id s) \<Longrightarrow> layout_op (update_section i f)"
  "(\<And>r. row_id (g r) = row_id r) \<Longrightarrow> layout_op (update_row i g)"
  "(\<And>t. seat_id (h t) = seat_id t) \<Longrightarrow> layout_op (update_seat i h)"
  by (rule layout_opI, erule (1) layout_write.intros)+

lemma update_maps_op:
  assumes "\<And>m. map_id (k m) = map_id m" "\<And>m. map_status m = SeatMapStatus.DRAFT \<Longrightarrow> P m \<Longrightarrow> map_status (k m) = SeatMapStatus.DRAFT"
  shows "layout_op (update_maps P k)"
  by (rule layout_opI, rule layout_write.maps_updated) (use assms in simp_all)

lemma rename_op: "layout_op (update_map i (\<lambda>m. m\<lparr>map_name := name\<rparr>))"
  using update_maps_op [of "\<lambda>m. m\<lparr>map_name := name\<rparr>" "\<lambda>m. map_id m = i"]
  by (simp add: layout_op_def update_map_def split: if_split)

lemma delete_seat_op: "layout_op (delete_seat i)"
  by (rule layout_opI)
    (auto simp: delete_seat_def and_then_eq_Inr require_draft_Inr split: option.split_asm intro: layout_write.seat_removed)

lemma cascade_seats_op: "layout_op (cascade_seats ts)"
proof (induction ts)
  case (Cons t ts)
  have "cascade_seats (t # ts) = (\<lambda>cat. and_then (delete_seat (seat_id t) cat) (cascade_seats ts))" by (simp add: fun_eq_iff)
  with layout_op_then [OF delete_seat_op Cons.IH] show ?case by simp
qed (simp add: layout_op_def)

lemma delete_row_op: "layout_op (delete_row i)"
  unfolding layout_op_def
proof (intro allI impI)
  fix cat cat' assume "delete_row i cat = Inr cat'"
  then obtain r where "find_seat_row cat i = Some r" "joined_status cat (section_map cat (row_sectionId r)) = Some SeatMapStatus.DRAFT"
    and rest: "cascade_seats (select_rows (\<lambda>t. seat_rowId t = i) (cat_seats cat))
       (cat\<lparr>cat_rows := delete_rows (\<lambda>x. row_id x = i) (cat_rows cat)\<rparr>) = Inr cat'"
    by (auto simp: delete_row_def and_then_eq_Inr require_draft_Inr split: option.split_asm)
  then have "layout_write cat (cat\<lparr>cat_rows := delete_rows (\<lambda>x. row_id x = i) (cat_rows cat)\<rparr>)"
    by (rule_tac layout_write.row_removed)
  then show "layout_writes cat cat'"
    by (rule converse_rtranclp_into_rtranclp) (use cascade_seats_op rest in \<open>auto simp: layout_op_def\<close>)
qed

lemma cascade_rows_op: "layout_op (cascade_rows rs)"
proof (induction rs)
  case (Cons r rs)
  have "cascade_rows (r # rs) = (\<lambda>cat. and_then (delete_row (row_id r) cat) (cascade_rows rs))" by (simp add: fun_eq_iff)
  with layout_op_then [OF delete_row_op Cons.IH] show ?case by simp
qed (simp add: layout_op_def)

lemma delete_section_op: "layout_op (delete_section i)"
  unfolding layout_op_def
proof (intro allI impI)
  fix cat cat' assume "delete_section i cat = Inr cat'"
  then obtain s where "find_section cat i = Some s" "joined_status cat (Some (sec_seatMapId s)) = Some SeatMapStatus.DRAFT"
    and rest: "cascade_rows (select_rows (\<lambda>r. row_sectionId r = i) (cat_rows cat))
       (cat\<lparr>cat_sections := delete_rows (\<lambda>x. sec_id x = i) (cat_sections cat)\<rparr>) = Inr cat'"
    by (auto simp: delete_section_def and_then_eq_Inr require_draft_Inr split: option.split_asm)
  then have "layout_write cat (cat\<lparr>cat_sections := delete_rows (\<lambda>x. sec_id x = i) (cat_sections cat)\<rparr>)"
    by (rule_tac layout_write.section_removed)
  then show "layout_writes cat cat'"
    by (rule converse_rtranclp_into_rtranclp) (use cascade_rows_op rest in \<open>auto simp: layout_op_def\<close>)
qed

lemma create_graph_ops: "layout_op (create_graph_row g)" "layout_op (create_graph_section g')"
proof -
  show row: "layout_op (create_graph_row g)" for g
    unfolding create_graph_row_def [abs_def] by (intro layout_op_then create_all_op statement_ops)
  show "layout_op (create_graph_section g')"
    unfolding create_graph_section_def [abs_def] by (intro layout_op_then create_all_op statement_ops row)
qed

lemmas layout_ops = statement_ops new_map_op update_ops rename_op delete_seat_op delete_row_op delete_section_op create_graph_ops

text \<open>Transactions, retries and guards around them.\<close>

definition tx_edits :: "'a tx \<Rightarrow> bool" where
  "tx_edits body \<longleftrightarrow> (\<forall>db db' x. body db = Inr (db', x) \<longrightarrow> edits db db')"

lemma tx_editsD: "tx_edits body \<Longrightarrow> body db = Inr (db', x) \<Longrightarrow> edits db db'"
  by (simp add: tx_edits_def)

lemma transact_edits: "tx_edits body \<Longrightarrow> edits db (fst (transact body db))"
  by (auto simp: transact_def tx_edits_def edits_refl split: sum.splits)

lemma retry_edits: "tx_edits body \<Longrightarrow> edits db (fst (withSerializableRetry conflict body db))"
  using serializable_retry_cases [of conflict body db] transact_edits [of body db] by (auto simp: edits_refl)

lemma run_service_edits: "(\<And>x. checks = Inr x \<Longrightarrow> tx_edits (body x)) \<Longrightarrow> edits db (fst (run_service checks body db))"
  by (auto simp: run_service_def edits_refl transact_edits split: sum.split)

lemma run_after_edits: "(\<And>x. edits db (fst (run x db))) \<Longrightarrow> edits db (fst (run_after checks run db))"
  by (simp add: run_after_def edits_refl split: sum.split)

lemma version_edits:
  assumes "\<And>k db. edits db (fst (operation k db))"
  shows "edits db (fst (createVersionWithRetry operation k n db))"
proof (induction n arbitrary: k db)
  case (Suc n)
  have "edits db (fst (operation k db))" by (rule assms)
  with Suc.IH edits_trans show ?case
    by (fastforce split: prod.split sum.split service_error.split)
qed (simp add: edits_refl)

lemma returning_edits: "layout_op f \<Longrightarrow> returning x (on_catalogue f db) = Inr (db', y) \<Longrightarrow> edits db db'"
  by (auto simp: returning_def and_then_eq_Inr intro: layout_op_on)

lemma then_find_edits: "layout_op f \<Longrightarrow> then_find g (on_catalogue f db) = Inr (db', y) \<Longrightarrow> edits db db'"
  by (auto simp: then_find_Inr intro: layout_op_on)

section \<open>Each service\<close>

named_theorems service_edits \<open>what the services of the catalogue edit\<close>

lemma catch_edits [service_edits]:
  "edits db (fst (run db)) \<Longrightarrow> edits db (fst (catch_unique e (run db)))"
  by simp

lemma create_draft_edits [service_edits]: "edits db (fst (createDraftSeatMap conflict draw scope name seen db))"
  unfolding createDraftSeatMap_def
  by (rule run_after_edits)
    (auto simp: tx_edits_def Let_def split: prod.split intro!: version_edits retry_edits layout_ops dest!: returning_edits [rotated])

lemma update_draft_edits [service_edits]: "edits db (fst (updateDraftSeatMap scope name seen db))"
  unfolding updateDraftSeatMap_def
  by (rule run_service_edits)
    (auto simp: tx_edits_def split: prod.split_asm dest!: then_find_edits [rotated] intro!: layout_ops)

lemma create_section_edits [service_edits]: "edits db (fst (createSection conflict newId scope input seen db))"
  unfolding createSection_def
  by (rule run_after_edits)
    (auto simp: tx_edits_def Let_def and_then_eq_Inr split: prod.split if_split_asm intro!: retry_edits layout_ops
      dest!: returning_edits [rotated])

lemma update_section_edits [service_edits]: "edits db (fst (updateSection scope sectionId input seen db))"
  unfolding updateSection_def fst_catch_unique
  by (rule run_service_edits)
    (auto simp: tx_edits_def split: prod.split_asm dest!: then_find_edits [rotated] intro!: layout_ops)

lemma delete_section_edits [service_edits]: "edits db (fst (deleteSection scope sectionId seen db))"
  unfolding deleteSection_def
  by (rule run_service_edits) (auto simp: tx_edits_def split: prod.split_asm dest!: returning_edits [rotated] intro!: layout_ops)

lemma create_row_edits [service_edits]: "edits db (fst (createRow conflict newId scope sectionId label seen db))"
  unfolding createRow_def
  by (rule run_after_edits)
    (auto simp: tx_edits_def Let_def and_then_eq_Inr split: prod.split if_split_asm intro!: retry_edits layout_ops
      dest!: returning_edits [rotated])

lemma update_row_edits [service_edits]: "edits db (fst (updateRow scope sectionId rowId label seen db))"
  unfolding updateRow_def fst_catch_unique
  by (rule run_service_edits)
    (auto simp: tx_edits_def split: prod.split_asm dest!: then_find_edits [rotated] intro!: layout_ops)

lemma delete_row_edits [service_edits]: "edits db (fst (deleteRow scope sectionId rowId seen db))"
  unfolding deleteRow_def
  by (rule run_service_edits) (auto simp: tx_edits_def split: prod.split_asm dest!: returning_edits [rotated] intro!: layout_ops)

lemma create_seat_edits [service_edits]: "edits db (fst (createSeat conflict newId scope sectionId rowId input seen db))"
  unfolding createSeat_def
  by (rule run_after_edits)
    (auto simp: tx_edits_def Let_def and_then_eq_Inr split: prod.split if_split_asm intro!: retry_edits layout_ops
      dest!: returning_edits [rotated])

lemma update_seat_edits [service_edits]: "edits db (fst (updateSeat conflict scope sectionId rowId seatId input seen db))"
  unfolding updateSeat_def
  by (rule run_after_edits)
    (auto simp: tx_edits_def and_then_eq_Inr apply_seat_input_def split: prod.split if_split_asm intro!: retry_edits layout_ops
      dest!: then_find_edits [rotated])

lemma delete_seat_edits [service_edits]: "edits db (fst (deleteSeat scope sectionId rowId seatId seen db))"
  unfolding deleteSeat_def
  by (rule run_service_edits) (auto simp: tx_edits_def split: prod.split_asm dest!: returning_edits [rotated] intro!: layout_ops)

lemma bulk_edits [service_edits]: "edits db (fst (bulkGenerateRows conflict draw scope sectionId input seen db))"
proof -
  have "tx_edits (bulk_transaction draw sec mapId bulk labels seatLabels)" for sec mapId bulk labels seatLabels
    unfolding tx_edits_def bulk_transaction_def Let_def
    by (auto simp: and_then_eq_Inr split: option.split_asm if_split_asm dest!: then_find_edits [rotated]
        intro!: create_all_op create_graph_ops)
  then show ?thesis
    unfolding bulkGenerateRows_def by (intro run_after_edits) (auto split: prod.split intro: retry_edits)
qed

lemma move_section_edits [service_edits]: "edits db (fst (moveSection conflict scope sectionId direction seen db))"
  unfolding moveSection_def
  by (rule run_after_edits)
    (auto simp: tx_edits_def edits_refl split: prod.split option.split_asm prod.split_asm intro!: retry_edits layout_op_then layout_ops
      dest!: returning_edits [rotated])

lemma move_row_edits [service_edits]: "edits db (fst (moveRow conflict scope sectionId rowId direction seen db))"
  unfolding moveRow_def
  by (rule run_after_edits)
    (auto simp: tx_edits_def edits_refl split: prod.split option.split_asm prod.split_asm intro!: retry_edits layout_op_then layout_ops
      dest!: returning_edits [rotated])

lemma on_catalogue_edits: "on_catalogue f db = Inr db' \<Longrightarrow> layout_op f \<Longrightarrow> edits db db'"
  by (rule layout_op_on)

text \<open>What the transaction of a publication did.\<close>

lemma publish_transaction_Inr:
  assumes "publish_transaction m now db = Inr (db', found)"
  obtains (already) draft where "map_status draft = SeatMapStatus.PUBLISHED" "db' = db"
      "found = (draft, seatMapGraphInclude (db_catalogue db) (map_id draft))"
      "draft \<in> set (cat_seatMaps (db_catalogue db))"
    | (now_published) draft db1 where "draft \<in> set (cat_seatMaps (db_catalogue db))" "map_id draft = map_id m"
      "map_spaceId draft = map_spaceId m" "map_status draft = SeatMapStatus.DRAFT"
      "validateSeatMapForPublication (seatMapGraphInclude (db_catalogue db) (map_id draft)) = []"
      "on_catalogue (update_maps
         (\<lambda>m. map_spaceId m = map_spaceId draft \<and> map_status m = SeatMapStatus.PUBLISHED \<and> map_id m \<noteq> map_id draft)
         (\<lambda>m. m\<lparr>map_status := SeatMapStatus.ARCHIVED\<rparr>)) db = Inr db1"
      "on_catalogue (update_map (map_id draft)
         (\<lambda>m. m\<lparr>map_status := SeatMapStatus.PUBLISHED, map_publishedAt := Some now\<rparr>)) db1 = Inr db'"
      "find_map_graph (map_id draft) db' = Inr found"
proof -
  let ?cat = "db_catalogue db"
  from assms obtain draft where draft: "find_row (\<lambda>x. map_id x = map_id m \<and> map_spaceId x = map_spaceId m) (cat_seatMaps ?cat) = Some draft"
    by (auto simp: publish_transaction_def Let_def split: option.split_asm)
  with assms obtain s v where parents: "map_with_parents db draft = Some (draft, s, v)"
    by (auto simp: publish_transaction_def Let_def map_with_parents_def with_venue_def split: option.split_asm)
  note found = tbl.find_SomeD [OF draft]
  show thesis
  proof (cases "map_status draft = SeatMapStatus.PUBLISHED")
    case True
    with assms draft parents found show ?thesis by (intro already [of draft]) (auto simp: publish_transaction_def Let_def)
  next
    case False
    with assms draft parents have open_draft: "lifecycleContext canPublishSeatMap (draft, s, v)"
      and valid: "validateSeatMapForPublication (seatMapGraphInclude ?cat (map_id draft)) = []"
      by (auto simp: publish_transaction_def Let_def split: if_split_asm)
    with assms draft parents False obtain db1 where
      "on_catalogue (update_maps
         (\<lambda>m. map_spaceId m = map_spaceId draft \<and> map_status m = SeatMapStatus.PUBLISHED \<and> map_id m \<noteq> map_id draft)
         (\<lambda>m. m\<lparr>map_status := SeatMapStatus.ARCHIVED\<rparr>)) db = Inr db1"
      "on_catalogue (update_map (map_id draft)
         (\<lambda>m. m\<lparr>map_status := SeatMapStatus.PUBLISHED, map_publishedAt := Some now\<rparr>)) db1 = Inr db'"
      "find_map_graph (map_id draft) db' = Inr found"
      by (auto simp: publish_transaction_def Let_def and_then_eq_Inr)
    moreover have "map_status draft = SeatMapStatus.DRAFT"
      using open_draft by (simp add: lifecycleContext_def canPublishSeatMap_def canEditSeatMap_def)
    ultimately show ?thesis using found valid by (intro now_published [of draft db1]) auto
  qed
qed

lemma publish_edits [service_edits]: "edits db (fst (publishSeatMap conflict scope now seen db))"
proof -
  have "tx_edits (publish_transaction m now)" for m
    unfolding tx_edits_def
  proof (intro allI impI)
    fix db db' found assume "publish_transaction m now db = Inr (db', found)"
    then show "edits db db'"
    proof (cases rule: publish_transaction_Inr)
      case (now_published draft db1)
      have "edits db db1" by (rule on_catalogue_edits [OF now_published(6)], rule update_maps_op) simp_all
      moreover have "edits db1 db'"
      proof -
        from now_published(6) have "seatMapGraphInclude (db_catalogue db1) (map_id draft) = seatMapGraphInclude (db_catalogue db) (map_id draft)"
          by (auto simp: on_catalogue_def and_then_eq_Inr seatMapGraphInclude_def load_rows_def dest!: update_maps_Inr)
        with now_published(5) have "validateSeatMapForPublication (seatMapGraphInclude (db_catalogue db1) (map_id draft)) = []" by simp
        note publish = layout_write.map_published [OF this, of "\<lambda>m. m\<lparr>map_status := SeatMapStatus.PUBLISHED, map_publishedAt := Some now\<rparr>"]
        from now_published(7) publish show ?thesis
          by (auto simp: on_catalogue_def and_then_eq_Inr update_map_def edits_def split: if_split_asm)
      qed
      ultimately show ?thesis by (rule edits_trans)
    qed (simp add: edits_refl)
  qed
  then show ?thesis
    unfolding publishSeatMap_def by (intro run_after_edits) (auto split: prod.split intro: retry_edits simp: edits_refl)
qed

definition clone_writes :: "layout_draw \<Rightarrow> SeatMap \<Rightarrow> catalogue \<Rightarrow> catalogue \<Rightarrow> service_error + catalogue" where
  "clone_writes draw source cat0 cat =
     and_then (create_map (new_map (ld_mapId draw) (map_spaceId source) (Some (map_id source)) (map_name source)
       (next_version cat0 (map_spaceId source))) cat)
     (create_all create_graph_section (numbered (cloned_section draw) (seatMapGraphInclude cat0 (map_id source))))"

lemma clone_transaction_Inr:
  assumes "clone_transaction draw m db = Inr (db', found)"
  obtains source where "source \<in> set (cat_seatMaps (db_catalogue db))" "map_id source = map_id m" "map_spaceId source = map_spaceId m"
    "map_status source = SeatMapStatus.PUBLISHED"
    "on_catalogue (clone_writes draw source (db_catalogue db)) db = Inr db'"
    "find_map_graph (ld_mapId draw) db' = Inr found"
proof -
  let ?Q = "\<lambda>x. map_id x = map_id m \<and> map_spaceId x = map_spaceId m \<and> map_status x = SeatMapStatus.PUBLISHED"
  from assms obtain source where source: "find_row ?Q (cat_seatMaps (db_catalogue db)) = Some source"
    by (auto simp: clone_transaction_def Let_def split: option.split_asm)
  from tbl.find_SomeD [OF source] assms source show thesis
    by (intro that [of source])
      (auto simp: clone_transaction_def Let_def clone_writes_def [abs_def] new_map_def and_then_eq_Inr split: option.split_asm if_split_asm)
qed

lemma clone_writes_op: "layout_op (clone_writes draw source cat0)"
  unfolding clone_writes_def [abs_def] by (intro layout_op_then create_all_op layout_ops)

lemma clone_edits [service_edits]: "edits db (fst (clonePublishedSeatMap conflict draw scope seen db))"
proof -
  have "tx_edits (clone_transaction d m)" for d m
    unfolding tx_edits_def by (blast elim: clone_transaction_Inr intro: layout_op_on [OF clone_writes_op])
  then show ?thesis
    unfolding clonePublishedSeatMap_def by (intro run_after_edits version_edits retry_edits)
qed

section \<open>The editor\<close>

text \<open>
  One step of the system as the editor sees it: a service with any arguments and any earlier
  read, or a change that another part makes to anything but the tables of layouts.
\<close>

definition same_tables :: "database \<Rightarrow> database \<Rightarrow> bool" where
  "same_tables db db' \<longleftrightarrow>
     cat_seatMaps (db_catalogue db') = cat_seatMaps (db_catalogue db) \<and> cat_sections (db_catalogue db') = cat_sections (db_catalogue db)
     \<and> cat_rows (db_catalogue db') = cat_rows (db_catalogue db) \<and> cat_seats (db_catalogue db') = cat_seats (db_catalogue db)"

inductive editor_step :: "database \<Rightarrow> database \<Rightarrow> bool" where
  draft_created: "editor_step db (fst (createDraftSeatMap conflicts draw (space :: SpaceScope) name seen db))"
| draft_renamed: "editor_step db (fst (updateDraftSeatMap (scope :: SeatMapScope) name seen db))"
| section_added: "editor_step db (fst (createSection conflict newId (scope :: SeatMapScope) sectionInput seen db))"
| section_changed: "editor_step db (fst (updateSection (scope :: SeatMapScope) sectionId sectionInput seen db))"
| section_deleted: "editor_step db (fst (deleteSection (scope :: SeatMapScope) sectionId seen db))"
| section_moved: "editor_step db (fst (moveSection conflict (scope :: SeatMapScope) sectionId direction seen db))"
| row_added: "editor_step db (fst (createRow conflict newId (scope :: SeatMapScope) sectionId label seen db))"
| row_changed: "editor_step db (fst (updateRow (scope :: SeatMapScope) sectionId rowId label seen db))"
| row_deleted: "editor_step db (fst (deleteRow (scope :: SeatMapScope) sectionId rowId seen db))"
| row_moved: "editor_step db (fst (moveRow conflict (scope :: SeatMapScope) sectionId rowId direction seen db))"
| rows_generated: "editor_step db (fst (bulkGenerateRows conflict layout (scope :: SeatMapScope) sectionId bulk seen db))"
| seat_added: "editor_step db (fst (createSeat conflict newId (scope :: SeatMapScope) sectionId rowId seatInput seen db))"
| seat_changed: "editor_step db (fst (updateSeat conflict (scope :: SeatMapScope) sectionId rowId seatId seatInput seen db))"
| seat_deleted: "editor_step db (fst (deleteSeat (scope :: SeatMapScope) sectionId rowId seatId seen db))"
| draft_published: "editor_step db (fst (publishSeatMap conflict (scope :: SeatMapScope) now seen db))"
| map_cloned: "editor_step db (fst (clonePublishedSeatMap conflicts layouts (scope :: SeatMapScope) seen db))"
| elsewhere: "same_tables db db' \<Longrightarrow> editor_step db db'"

definition layouts_ok :: "database \<Rightarrow> bool" where
  "layouts_ok db \<longleftrightarrow> catalogue_ok (db_catalogue db) \<and> published_valid (db_catalogue db)"

definition keeps_layouts :: "database \<Rightarrow> database \<Rightarrow> bool" where
  "keeps_layouts db db' \<longleftrightarrow> (layouts_ok db \<longrightarrow> layouts_ok db' \<and> frozen (db_catalogue db) (db_catalogue db'))"

lemma edits_keep: "edits db db' \<Longrightarrow> keeps_layouts db db'"
  using writes_sound writes_keep_valid by (auto simp: edits_def keeps_layouts_def layouts_ok_def)

lemma same_tables_keep:
  assumes "same_tables db db'"
  shows "keeps_layouts db db'"
proof -
  note tables = assms [unfolded same_tables_def]
  have "seatMapGraphInclude (db_catalogue db') = seatMapGraphInclude (db_catalogue db)"
    using tables by (simp add: seatMapGraphInclude_def [abs_def] load_rows_def [abs_def])
  then have "layouts_ok db \<Longrightarrow> layouts_ok db'"
    using tables by (simp add: layouts_ok_def catalogue_ok_def published_valid_def)
  moreover have "frozen (db_catalogue db) (db_catalogue db')"
    using tables section_map_same [of "db_catalogue db'" "db_catalogue db"] row_map_same [of "db_catalogue db'" "db_catalogue db"]
    by (intro frozenI) (simp_all add: same_layout_def map_sections_def map_rows_def map_seats_def)
  ultimately show ?thesis by (simp add: keeps_layouts_def)
qed

lemma editor_step_keeps: "editor_step db db' \<Longrightarrow> keeps_layouts db db'"
  by (induction rule: editor_step.induct) (rule edits_keep service_edits same_tables_keep | assumption)+

lemma editor_keeps: "editor_step\<^sup>*\<^sup>* db db' \<Longrightarrow> keeps_layouts db db'"
proof (induction rule: rtranclp_induct)
  case (step b c)
  from editor_step_keeps [OF step.hyps(2)] step.IH frozen_trans show ?case by (auto simp: keeps_layouts_def)
qed (simp add: keeps_layouts_def frozen_refl)

end
