(* ===== verification/Seat_Map_Theorems.thy ===== *)
theory Seat_Map_Theorems
  imports Seat_Map_Properties
begin

text \<open>
  The properties of the seat-map editor, each with an evaluated instance on a venue with a
  published map and a draft.
\<close>

section \<open>A venue\<close>

definition sample_venue :: Venue where
  "sample_venue = \<lparr>ven_id = ''v1'', ven_organizationId = ''op'', ven_name = ''Hall'', ven_slug = ''hall'', ven_description = None,
     ven_addressLine1 = ''1 Road'', ven_addressLine2 = None, ven_city = ''Baku'', ven_countryCode = ''AZ'', ven_postalCode = None,
     ven_timeZone = ''Asia/Baku'', ven_status = VenueStatus.ACTIVE, ven_archivedAt = None\<rparr>"

definition sample_space :: Space where
  "sample_space = \<lparr>spc_id = ''s1'', spc_venueId = ''v1'', spc_name = ''Main'', spc_slug = ''main'', spc_description = None,
     spc_type = SpaceType.THEATRE, spc_status = SpaceStatus.ACTIVE, spc_archivedAt = None\<rparr>"

definition sample_layout_seat :: "ident \<Rightarrow> ident \<Rightarrow> Seat" where
  "sample_layout_seat i r = \<lparr>seat_id = i, seat_rowId = r, seat_label = ''1'', seat_displayOrder = 0, seat_x = 0, seat_y = 0,
     seat_type = SeatType.STANDARD, seat_state = SeatState.ACTIVE\<rparr>"

definition sample_layout :: database where
  "sample_layout = empty_database
     \<lparr>db_memberships := [\<lparr>mem_userId = ''u1'', mem_organizationId = ''op'', mem_role = MembershipRole.ADMIN\<rparr>],
      db_catalogue :=
        \<lparr>cat_organizations = [\<lparr>org_id = ''op'', org_name = ''Operator'', org_slug = ''operator'', org_kind = OrganizationKind.VENUE_OPERATOR\<rparr>],
         cat_venues = [sample_venue], cat_spaces = [sample_space],
         cat_seatMaps = [(new_map ''m1'' ''s1'' None ''Plan'' 1)\<lparr>map_status := SeatMapStatus.PUBLISHED, map_publishedAt := Some 5\<rparr>,
                         new_map ''m2'' ''s1'' None ''Plan'' 2],
         cat_sections = [\<lparr>sec_id = ''a1'', sec_seatMapId = ''m1'', sec_name = ''Floor'', sec_code = ''A'', sec_displayOrder = 0\<rparr>,
                         \<lparr>sec_id = ''a2'', sec_seatMapId = ''m2'', sec_name = ''Floor'', sec_code = ''A'', sec_displayOrder = 0\<rparr>],
         cat_rows = [\<lparr>row_id = ''r1'', row_sectionId = ''a1'', row_label = ''A'', row_displayOrder = 0\<rparr>,
                     \<lparr>row_id = ''r2'', row_sectionId = ''a2'', row_label = ''A'', row_displayOrder = 0\<rparr>],
         cat_seats = [sample_layout_seat ''t1'' ''r1'', sample_layout_seat ''t2'' ''r2''],
         cat_access = [], cat_tiers = [], cat_pricing = []\<rparr>\<rparr>"

definition sample_scope :: SeatMapScope where
  "sample_scope = \<lparr>scp_userId = ''u1'', scp_organizationSlug = ''operator'', scp_venueSlug = ''hall'', scp_spaceSlug = ''main'',
     scp_seatMapId = ''m2''\<rparr>"

lemma sample_layout_ok: "layouts_ok sample_layout"
proof -
  have "catalogue_ok (db_catalogue sample_layout)" by code_simp
  moreover have "published_valid (db_catalogue sample_layout)" by code_simp
  ultimately show ?thesis by (simp add: layouts_ok_def)
qed

text \<open>Publishing the draft archives the published map.\<close>

definition sample_published :: database where
  "sample_published = fst (publishSeatMap (\<lambda>_. False) sample_scope 9 sample_layout sample_layout)"

lemma sample_publication: "editor_step\<^sup>*\<^sup>* sample_layout sample_published"
  unfolding sample_published_def by (rule r_into_rtranclp) (rule editor_step.draft_published)

lemma sample_publication_maps:
  "map map_status (cat_seatMaps (db_catalogue sample_published)) = [SeatMapStatus.ARCHIVED, SeatMapStatus.PUBLISHED]"
  unfolding sample_published_def by code_simp

section \<open>Published layouts\<close>

text \<open>C36: No step of the editor, and nothing that happens elsewhere, changes the layout of a map that was ever published:
  its sections, rows and seats load the same for ever, and of the map itself only the status
  may move on to archived.\<close>

theorem published_layout_frozen:
  assumes "editor_step\<^sup>*\<^sup>* db db'" "layouts_ok db"
    and "find_map (db_catalogue db) mapId = Some m" "map_status m \<noteq> SeatMapStatus.DRAFT"
  shows "seatMapGraphInclude (db_catalogue db') mapId = seatMapGraphInclude (db_catalogue db) mapId
    \<and> (\<exists>m'. find_map (db_catalogue db') mapId = Some m' \<and> map_settled m m')"
proof -
  from editor_keeps [OF assms(1)] assms(2) have ok: "layouts_ok db'" and frozen: "frozen (db_catalogue db) (db_catalogue db')"
    by (auto simp: keeps_layouts_def)
  from assms(3,4) frozen have "same_layout mapId (db_catalogue db) (db_catalogue db')"
      "\<exists>m'. find_map (db_catalogue db') mapId = Some m' \<and> map_settled m m'"
    by (auto simp: frozen_def settled_map_def)
  with same_layout_graph assms(2) ok show ?thesis by (auto simp: layouts_ok_def)
qed

lemma published_layout_frozen_witness:
  "\<exists>m'. find_map (db_catalogue sample_published) ''m1'' = Some m' \<and> map_status m' = SeatMapStatus.ARCHIVED
     \<and> map_version m' = 1
     \<and> seatMapGraphInclude (db_catalogue sample_published) ''m1'' = seatMapGraphInclude (db_catalogue sample_layout) ''m1''"
proof -
  have m: "find_map (db_catalogue sample_layout) ''m1''
      = Some ((new_map ''m1'' ''s1'' None ''Plan'' 1)\<lparr>map_status := SeatMapStatus.PUBLISHED, map_publishedAt := Some 5\<rparr>)"
    by code_simp
  have "map_option map_status (find_map (db_catalogue sample_published) ''m1'') = Some SeatMapStatus.ARCHIVED"
    unfolding sample_published_def by code_simp
  with published_layout_frozen [OF sample_publication sample_layout_ok m] show ?thesis
    by (auto simp: map_settled_def map_fixed_def new_map_def)
qed

text \<open>C37: Whatever the editor does, a map that is no longer a draft has a layout that passes every rule of publication, and a
  space never has two published maps nor two maps of one version.\<close>

theorem published_maps_valid:
  assumes "editor_step\<^sup>*\<^sup>* db db'" "layouts_ok db"
  shows "(\<forall>m\<in>set (cat_seatMaps (db_catalogue db')). map_status m \<noteq> SeatMapStatus.DRAFT \<longrightarrow>
       graph_well_formed (seatMapGraphInclude (db_catalogue db') (map_id m)))
     \<and> (\<forall>m\<in>set (cat_seatMaps (db_catalogue db')). \<forall>n\<in>set (cat_seatMaps (db_catalogue db')).
          map_spaceId m = map_spaceId n
          \<and> (map_version m = map_version n \<or> map_status m = SeatMapStatus.PUBLISHED \<and> map_status n = SeatMapStatus.PUBLISHED)
          \<longrightarrow> m = n)"
proof -
  from editor_keeps [OF assms(1)] assms(2) have ok: "catalogue_ok (db_catalogue db')" "published_valid (db_catalogue db')"
    by (auto simp: keeps_layouts_def layouts_ok_def)
  from ok(1) have "inj_on (\<lambda>m. (map_spaceId m, map_version m)) (set (cat_seatMaps (db_catalogue db')))"
    "inj_on map_spaceId (set (published (cat_seatMaps (db_catalogue db'))))"
    by (simp_all add: catalogue_ok_def distinct_map)
  with ok(2) show ?thesis by (auto simp: published_valid_def published_def inj_on_def)
qed

lemma published_maps_valid_witness:
  "graph_well_formed (seatMapGraphInclude (db_catalogue sample_published) ''m2'')"
proof -
  have "list_ex (\<lambda>m. map_id m = ''m2'' \<and> map_status m \<noteq> SeatMapStatus.DRAFT) (cat_seatMaps (db_catalogue sample_published))"
    unfolding sample_published_def by code_simp
  with published_maps_valid [OF sample_publication sample_layout_ok] show ?thesis
    by (auto simp: list_ex_iff)
qed

section \<open>Deletions\<close>

lemma orphan_row:
  assumes "find_seat_row cat i = Some r" "find_section cat (row_sectionId r) = None"
  shows "\<exists>e. delete_row i cat = Inl e"
  using assms by (simp add: delete_row_def section_map_def require_draft_def joined_status_def)

lemma orphan_seat:
  assumes "find_seat cat i = Some t" "find_seat_row cat (seat_rowId t) = None"
  shows "\<exists>e. delete_seat i cat = Inl e"
  using assms by (simp add: delete_seat_def row_map_def require_draft_def joined_status_def)

lemma find_deleted: "find_row (\<lambda>x. key x = i) (delete_rows (\<lambda>x. key x = i) t) = None"
  by (auto simp: find_row_def delete_rows_def find_None_iff)

lemma first_selected: "select_rows P t = x # rest \<Longrightarrow> x \<in> set t \<and> P x"
  using filter_is_subset [of P t] by (auto simp: select_rows_def filter_eq_Cons_iff)

lemma delete_section_aborts:
  assumes ok: "catalogue_ok cat" and r: "r \<in> set (cat_rows cat)" "row_sectionId r = i"
  shows "\<exists>e. delete_section i cat = Inl e"
proof -
  let ?cat = "cat\<lparr>cat_sections := delete_rows (\<lambda>x. sec_id x = i) (cat_sections cat)\<rparr>"
  from r obtain r' rest where rows: "select_rows (\<lambda>r. row_sectionId r = i) (cat_rows cat) = r' # rest"
    by (cases "select_rows (\<lambda>r. row_sectionId r = i) (cat_rows cat)") (auto simp: select_rows_def filter_empty_conv)
  then have r': "r' \<in> set (cat_rows cat)" "row_sectionId r' = i"
    using first_selected [OF rows] by simp_all
  then have "find_seat_row ?cat (row_id r') = Some r'"
    using ok tbl.find_keyed [of row_id "cat_rows cat" "row_id r'" r'] by (simp add: find_seat_row_def catalogue_ok_def)
  moreover have "find_section ?cat (row_sectionId r') = None" using r'(2) by (simp add: find_section_def find_deleted)
  ultimately obtain e where "delete_row (row_id r') ?cat = Inl e" using orphan_row by blast
  then show ?thesis
    by (auto simp: delete_section_def rows and_then_eq_Inl require_draft_def unless_def split: option.split)
qed

lemma delete_row_aborts:
  assumes ok: "catalogue_ok cat" and t: "t \<in> set (cat_seats cat)" "seat_rowId t = i"
  shows "\<exists>e. delete_row i cat = Inl e"
proof -
  let ?cat = "cat\<lparr>cat_rows := delete_rows (\<lambda>x. row_id x = i) (cat_rows cat)\<rparr>"
  from t obtain t' rest where seats: "select_rows (\<lambda>t. seat_rowId t = i) (cat_seats cat) = t' # rest"
    by (cases "select_rows (\<lambda>t. seat_rowId t = i) (cat_seats cat)") (auto simp: select_rows_def filter_empty_conv)
  then have t': "t' \<in> set (cat_seats cat)" "seat_rowId t' = i"
    using first_selected [OF seats] by simp_all
  then have "find_seat ?cat (seat_id t') = Some t'"
    using ok tbl.find_keyed [of seat_id "cat_seats cat" "seat_id t'" t'] by (simp add: find_seat_def catalogue_ok_def)
  moreover have "find_seat_row ?cat (seat_rowId t') = None" using t'(2) by (simp add: find_seat_row_def find_deleted)
  ultimately obtain e where "delete_seat (seat_id t') ?cat = Inl e" using orphan_seat by blast
  then show ?thesis
    by (auto simp: delete_row_def seats and_then_eq_Inl require_draft_def split: option.split)
qed

lemma require_section_id: "require_section db scope i = Inr (sec, rest) \<Longrightarrow> sec_id sec = i"
  by (auto simp: require_section_def and_then_eq_Inr authorized_Inr findAuthorizedSection_def split: option.split_asm dest!: tbl.find_SomeD)

lemma require_row_id: "require_row db scope s i = Inr (row, rest) \<Longrightarrow> row_id row = i"
  by (auto simp: require_row_def and_then_eq_Inr authorized_Inr findAuthorizedRow_def split: option.split_asm dest!: tbl.find_SomeD)

lemma run_service_aborts:
  assumes "\<And>x. checks = Inr x \<Longrightarrow> \<exists>e. body x db = Inl e"
  shows "\<exists>e. run_service checks body db = (db, Inl e)"
  using assms by (cases checks) (auto simp: run_service_def transact_def)

text \<open>C38: A section that has a row, and a row that has a seat, can not be deleted: the cascaded deletion of the child runs
  its trigger when the parent is gone, the trigger finds no draft map, and the whole statement aborts.\<close>

theorem nonempty_deletion_aborts:
  assumes ok: "catalogue_ok (db_catalogue db)"
  shows "(sectionId \<in> row_sectionId ` set (cat_rows (db_catalogue db)) \<longrightarrow>
       (\<exists>e. deleteSection (scope :: SeatMapScope) sectionId seen db = (db, Inl e)))
    \<and> (rowId \<in> seat_rowId ` set (cat_seats (db_catalogue db)) \<longrightarrow>
       (\<exists>e. deleteRow scope sectionId rowId seen db = (db, Inl e)))"
proof (intro conjI impI)
  assume "sectionId \<in> row_sectionId ` set (cat_rows (db_catalogue db))"
  then obtain r where "r \<in> set (cat_rows (db_catalogue db))" "row_sectionId r = sectionId" by auto
  from delete_section_aborts [OF ok this] show "\<exists>e. deleteSection scope sectionId seen db = (db, Inl e)"
    unfolding deleteSection_def
    by (intro run_service_aborts) (auto simp: returning_def on_catalogue_def and_then_eq_Inl dest!: require_section_id)
next
  assume "rowId \<in> seat_rowId ` set (cat_seats (db_catalogue db))"
  then obtain t where "t \<in> set (cat_seats (db_catalogue db))" "seat_rowId t = rowId" by auto
  from delete_row_aborts [OF ok this] show "\<exists>e. deleteRow scope sectionId rowId seen db = (db, Inl e)"
    unfolding deleteRow_def
    by (intro run_service_aborts) (auto simp: returning_def on_catalogue_def and_then_eq_Inl dest!: require_row_id)
qed

lemma nonempty_deletion_aborts_witness:
  "\<exists>e. deleteSection sample_scope ''a2'' sample_layout sample_layout = (sample_layout, Inl e)"
proof -
  have "list_ex (\<lambda>r. row_sectionId r = ''a2'') (cat_rows (db_catalogue sample_layout))" by code_simp
  then have "''a2'' \<in> row_sectionId ` set (cat_rows (db_catalogue sample_layout))" by (force simp: list_ex_iff)
  moreover have "catalogue_ok (db_catalogue sample_layout)" using sample_layout_ok by (simp add: layouts_ok_def)
  ultimately show ?thesis using nonempty_deletion_aborts by blast
qed

end
