(* ===== verification/Event_Cancellation.thy ===== *)
theory Event_Cancellation
  imports Shop_Programme
begin

text \<open>
  What the cancellation of a session or of a whole event does to its seats: every active hold is
  released, no seat stays held, and what was sold stays sold.
\<close>

definition active_of :: "ident \<Rightarrow> SeatHold \<Rightarrow> bool" where
  "active_of sessionId h \<longleftrightarrow> hold_sessionId h = sessionId \<and> hold_status h = SeatHoldStatus.ACTIVE"

lemma active_of_iff [simp]: "active_of s h \<longleftrightarrow> hold_sessionId h = s \<and> hold_status h = SeatHoldStatus.ACTIVE"
  by (simp add: active_of_def)

text \<open>One session closed.\<close>

lemma close_session_Inr:
  assumes close: "close_session s now db = Inr db'" and ok: "holds_ok db"
  shows "holds_ok db' \<and> db_sessions db' = db_sessions db \<and> db_events db' = db_events db
    \<and> (\<forall>h\<in>set (db_holds db'). hold_status h = SeatHoldStatus.ACTIVE \<longrightarrow> h \<in> set (db_holds db) \<and> hold_sessionId h \<noteq> s)
    \<and> (\<forall>i\<in>set (db_inventory db). inv_state i = SeatInventoryState.BOOKED \<longrightarrow> i \<in> set (db_inventory db'))"
proof -
  let ?db1 = "fst (releaseActiveHoldsForSession s now db)"
  from close have enqueue: "enqueueInventoryEvent InventoryEventType.SESSION_CANCELLED s (Some s) (''session-cancelled:'' @ s) now ?db1 = Inr db'"
    by (simp add: close_session_def)
  then have same: "db_holds db' = db_holds ?db1" "db_inventory db' = db_inventory ?db1" "db_sessions db' = db_sessions ?db1"
    "db_events db' = db_events ?db1"
    by (auto simp: enqueue_event_Inr)
  have "quiet ?db1 db'" using enqueue by (rule quiet_enqueue) (simp add: hold_event_key_def)
  with releaseActive_ok(1) [OF ok] have "holds_ok db'" by (rule quiet_holds_ok)
  moreover have "db_sessions db' = db_sessions db" "db_events db' = db_events db"
    by (simp_all add: same release_active_eq Let_def)
  moreover have "h \<in> set (db_holds db) \<and> hold_sessionId h \<noteq> s"
    if h: "h \<in> set (db_holds db')" "hold_status h = SeatHoldStatus.ACTIVE" for h
  proof -
    from h(1) have mem: "h \<in> set (db_holds ?db1)" by (simp add: same)
    from releaseActive_ok(2) [OF ok mem] h(2) have "hold_sessionId h \<noteq> s" by blast
    moreover from mem have "h \<in> set (update_rows (active_of s) (release_hold now) (db_holds db))"
      by (simp add: release_active_eq Let_def active_of_def [abs_def])
    then have "h \<in> set (db_holds db)" using h(2) unfolding tbl.mem_update by (auto simp: release_hold_def split: if_split_asm)
    ultimately show ?thesis by blast
  qed
  moreover have "i \<in> set (db_inventory db')" if i: "i \<in> set (db_inventory db)" "inv_state i = SeatInventoryState.BOOKED" for i
  proof -
    have "seat_link (db_holds db) (db_holdItems db) i" using ok i(1) by (simp add: holds_ok_def holds_core_def)
    with i(2) have "inv_currentHoldId i = None" by (simp add: seat_link_def)
    then have "\<not> points_at ids i" for ids by (simp add: points_at_def)
    with i(1) show ?thesis unfolding same release_active_eq Let_def by (auto simp: tbl.mem_update)
  qed
  ultimately show ?thesis by blast
qed

lemma close_sessions_Inr:
  assumes "close_sessions ids now db = Inr db'" "holds_ok db"
  shows "holds_ok db' \<and> db_sessions db' = db_sessions db \<and> db_events db' = db_events db
    \<and> (\<forall>h\<in>set (db_holds db'). hold_status h = SeatHoldStatus.ACTIVE \<longrightarrow> h \<in> set (db_holds db) \<and> hold_sessionId h \<notin> set ids)
    \<and> (\<forall>i\<in>set (db_inventory db). inv_state i = SeatInventoryState.BOOKED \<longrightarrow> i \<in> set (db_inventory db'))"
  using assms
proof (induction ids arbitrary: db)
  case (Cons i ids)
  then obtain db1 where 1: "close_session i now db = Inr db1" and 2: "close_sessions ids now db1 = Inr db'"
    by (auto simp: and_then_eq_Inr)
  note one = close_session_Inr [OF 1 Cons.prems(2)]
  from Cons.IH [OF 2] one show ?case by auto
qed simp

text \<open>A seat is held only by an active hold of its session.\<close>

lemma no_active_no_held:
  assumes "holds_ok db" "\<forall>h\<in>set (db_holds db). hold_status h = SeatHoldStatus.ACTIVE \<longrightarrow> hold_sessionId h \<noteq> s"
  shows "\<forall>i\<in>set (inventory_of db s). inv_state i \<noteq> SeatInventoryState.HELD"
proof (intro ballI notI)
  fix i assume i: "i \<in> set (inventory_of db s)" "inv_state i = SeatInventoryState.HELD"
  then have "seat_link (db_holds db) (db_holdItems db) i" "inv_sessionId i = s"
    using assms(1) by (auto simp: holds_ok_def holds_core_def inventory_of_def select_rows_def)
  with i(2) assms(2) show False by (auto simp: seat_link_def)
qed

section \<open>Events\<close>

lemma sort_key_set: "set (sort_key k (map f (select_rows Q xs))) = f ` {x \<in> set xs. Q x}"
  by (auto simp: select_rows_def)

lemma cancel_event_frees:
  assumes run: "cancel_event_transaction m eventId now db = Inr (db', e')" and ok: "holds_ok db"
    and open': "\<forall>e. own_event m eventId db = Some e \<longrightarrow> ev_status e \<noteq> EventStatus.CANCELLED"
  shows "\<forall>s\<in>set (db_sessions db'). ses_eventId s = eventId \<longrightarrow>
    ses_status s = EventSessionStatus.COMPLETED
    \<or> ses_status s = EventSessionStatus.CANCELLED
      \<and> (s \<in> set (db_sessions db)
         \<or> (\<forall>h\<in>set (db_holds db'). hold_status h = SeatHoldStatus.ACTIVE \<longrightarrow> hold_sessionId h \<noteq> ses_id s)
           \<and> (\<forall>i\<in>set (inventory_of db' (ses_id s)). inv_state i \<noteq> SeatInventoryState.HELD))"
    and "ev_status e' = EventStatus.CANCELLED"
    and "\<forall>i\<in>set (db_inventory db). inv_state i = SeatInventoryState.BOOKED \<longrightarrow> i \<in> set (db_inventory db')"
proof -
  from run open' obtain e where e: "own_event m eventId db = Some e" "ev_status e \<noteq> EventStatus.CANCELLED"
    by (auto simp: cancel_event_transaction_def split: option.splits)
  have id: "ev_id e = eventId" using tbl.find_SomeD [OF e(1) [unfolded own_event_def]] by simp
  let ?hit = "cancellable eventId"
  let ?ids = "sort_key (map (of_char :: char \<Rightarrow> int)) (map ses_id (select_rows ?hit (db_sessions db)))"
  from run e id obtain db1 db2 where 1: "update_sessions ?hit (cancel_session now) db = Inr db1"
    and 2: "close_sessions ?ids now db1 = Inr db2"
    and 3: "update_event eventId (\<lambda>x. x\<lparr>ev_status := EventStatus.CANCELLED, ev_cancelledAt := Some now\<rparr>) db2 = Inr db'"
    and 4: "find_event db' eventId = Some e'"
    by (auto simp: cancel_event_transaction_def Let_def and_then_eq_Inr then_event_Inr split: if_split_asm)
  from 1 have db1: "db1 = db\<lparr>db_sessions := update_rows ?hit (cancel_session now) (db_sessions db)\<rparr>"
    by (auto simp: update_sessions_def Let_def and_then_eq_Inr)
  from 3 have db': "db' = db2\<lparr>db_events := update_rows (\<lambda>x. ev_id x = eventId)
      (\<lambda>x. x\<lparr>ev_status := EventStatus.CANCELLED, ev_cancelledAt := Some now\<rparr>) (db_events db2)\<rparr>"
    by (auto simp: update_event_def and_then_eq_Inr)
  have "holds_ok db1" using ok by (simp add: db1 holds_ok_def outbox_keys_def)
  note closed = close_sessions_Inr [OF 2 this]
  then have ok': "holds_ok db'" by (simp add: db' holds_ok_def outbox_keys_def)
  have active: "hold_sessionId h \<notin> ses_id ` {s \<in> set (db_sessions db). ?hit s}"
    if "h \<in> set (db_holds db')" "hold_status h = SeatHoldStatus.ACTIVE" for h
    using closed that unfolding sort_key_set by (simp add: db')
  show "\<forall>s\<in>set (db_sessions db'). ses_eventId s = eventId \<longrightarrow>
    ses_status s = EventSessionStatus.COMPLETED
    \<or> ses_status s = EventSessionStatus.CANCELLED
      \<and> (s \<in> set (db_sessions db)
         \<or> (\<forall>h\<in>set (db_holds db'). hold_status h = SeatHoldStatus.ACTIVE \<longrightarrow> hold_sessionId h \<noteq> ses_id s)
           \<and> (\<forall>i\<in>set (inventory_of db' (ses_id s)). inv_state i \<noteq> SeatInventoryState.HELD))"
  proof (intro ballI impI)
    fix s assume "s \<in> set (db_sessions db')" and own: "ses_eventId s = eventId"
    then have "s \<in> set (update_rows ?hit (cancel_session now) (db_sessions db))" using closed by (simp add: db' db1)
    then obtain r where r: "r \<in> set (db_sessions db)" "s = (if ?hit r then cancel_session now r else r)" unfolding tbl.mem_update by blast
    show "ses_status s = EventSessionStatus.COMPLETED
      \<or> ses_status s = EventSessionStatus.CANCELLED
        \<and> (s \<in> set (db_sessions db)
           \<or> (\<forall>h\<in>set (db_holds db'). hold_status h = SeatHoldStatus.ACTIVE \<longrightarrow> hold_sessionId h \<noteq> ses_id s)
             \<and> (\<forall>i\<in>set (inventory_of db' (ses_id s)). inv_state i \<noteq> SeatInventoryState.HELD))"
    proof (cases "?hit r")
      case True
      with r(2) have eq: "s = cancel_session now r" by (simp only: if_True)
      have s: "ses_status s = EventSessionStatus.CANCELLED" "ses_id s = ses_id r" unfolding eq by (simp_all add: cancel_session_def)
      have "\<forall>h\<in>set (db_holds db'). hold_status h = SeatHoldStatus.ACTIVE \<longrightarrow> hold_sessionId h \<noteq> ses_id s"
      proof (intro ballI impI)
        fix h assume "h \<in> set (db_holds db')" "hold_status h = SeatHoldStatus.ACTIVE"
        then have "hold_sessionId h \<notin> ses_id ` {s \<in> set (db_sessions db). ?hit s}" by (rule active)
        moreover have "ses_id s \<in> ses_id ` {s \<in> set (db_sessions db). ?hit s}" unfolding s(2) by (rule imageI) (simp add: r(1) True)
        ultimately show "hold_sessionId h \<noteq> ses_id s" by metis
      qed
      with no_active_no_held [OF ok' this] s(1) show ?thesis by blast
    next
      case False
      with r own show ?thesis by (auto simp: cancellable_def)
    qed
  qed
  have mem: "e' \<in> set (db_events db')" and e'_id: "ev_id e' = eventId"
    using tbl.find_SomeD [OF 4 [unfolded find_event_def]] by simp_all
  from mem have "e' \<in> set (update_rows (\<lambda>x. ev_id x = eventId)
      (\<lambda>x. x\<lparr>ev_status := EventStatus.CANCELLED, ev_cancelledAt := Some now\<rparr>) (db_events db2))" by (simp add: db')
  then obtain x where "e' = (if ev_id x = eventId then x\<lparr>ev_status := EventStatus.CANCELLED, ev_cancelledAt := Some now\<rparr> else x)"
    unfolding tbl.mem_update by blast
  with e'_id show "ev_status e' = EventStatus.CANCELLED" by (simp split: if_split_asm)
  show "\<forall>i\<in>set (db_inventory db). inv_state i = SeatInventoryState.BOOKED \<longrightarrow> i \<in> set (db_inventory db')"
    using closed by (simp add: db' db1)
qed

text \<open>C8: When an event is cancelled, each of its sessions is completed or cancelled; a session that this call
  cancelled has no active hold and no held seat any more; every booked seat, of this event or any other, is untouched.\<close>

theorem cancelled_event_frees_seats:
  assumes "holds_ok db" "cancelEvent conflict scope now db db = (db', Inr e')"
    and "authorized_event db scope = Inr (m, org, e)" "ev_status e \<noteq> EventStatus.CANCELLED" "distinct (map ev_id (db_events db))"
  shows "ev_status e' = EventStatus.CANCELLED
    \<and> (\<forall>s\<in>set (db_sessions db'). ses_eventId s = ev_id e \<longrightarrow>
         ses_status s = EventSessionStatus.COMPLETED
         \<or> ses_status s = EventSessionStatus.CANCELLED
           \<and> (s \<in> set (db_sessions db)
              \<or> (\<forall>h\<in>set (db_holds db'). hold_status h = SeatHoldStatus.ACTIVE \<longrightarrow> hold_sessionId h \<noteq> ses_id s)
                \<and> (\<forall>i\<in>set (inventory_of db' (ses_id s)). inv_state i \<noteq> SeatInventoryState.HELD)))
    \<and> (\<forall>i\<in>set (db_inventory db). inv_state i = SeatInventoryState.BOOKED \<longrightarrow> i \<in> set (db_inventory db'))"
proof -
  have tx: "cancel_event_transaction m (ev_id e) now db = Inr (db', e')"
    using assms(2-4) by (auto simp: cancelEvent_def run_after_def dest!: retry_Inr split: if_split_asm)
  have "e \<in> set (db_events db)"
    using assms(3) by (auto simp: authorized_event_def authorized_Inr findAuthorizedEvent_def findAuthorizedEventBy_def and_then_eq_Inr
        dest!: tbl.find_SomeD split: option.splits)
  then have "x = e" if "own_event m (ev_id e) db = Some x" for x
    using tbl.find_SomeD [OF that [unfolded own_event_def]] assms(5) by (auto simp: distinct_map dest: inj_onD)
  then have "\<forall>x. own_event m (ev_id e) db = Some x \<longrightarrow> ev_status x \<noteq> EventStatus.CANCELLED" using assms(4) by blast
  from cancel_event_frees [OF tx assms(1) this] show ?thesis by blast
qed

end
