(* ===== verification/Programme_Witnesses.thy ===== *)
theory Programme_Witnesses
  imports Event_Cancellation Hold_Witnesses Seat_Map_Theorems
begin

text \<open>
  The properties of the programme applied to a theatre: an organizer publishes the first of two
  sessions in one hall, and cancels a show for which a customer holds two seats.
\<close>

lemma returned_value: "\<not> isl (snd p) \<Longrightarrow> \<exists>db x. p = (db, Inr x)"
  by (metis prod.collapse sum.collapse(2))

section \<open>A session to publish\<close>

definition sample_organizer :: Organization where
  "sample_organizer = \<lparr>org_id = ''org-o'', org_name = ''Stage'', org_slug = ''org'', org_kind = OrganizationKind.ORGANIZER\<rparr>"

definition planned_session :: "ident \<Rightarrow> time \<Rightarrow> EventSession" where
  "planned_session i start = \<lparr>ses_id = i, ses_eventId = ''e1'', ses_venueId = ''v1'', ses_spaceId = ''s1'', ses_seatMapId = ''m1'',
     ses_status = EventSessionStatus.DRAFT, ses_startAt = start, ses_endAt = start + 100, ses_salesStartAt = 10,
     ses_salesEndAt = start, ses_publishedAt = None, ses_cancelledAt = None, ses_venueOrganizationId = ''op''\<rparr>"

definition planned_db :: database where
  "planned_db = sample_layout
     \<lparr>db_events := [sample_event], db_sessions := [planned_session ''p1'' 1000, planned_session ''p2'' 1100],
      db_memberships := [\<lparr>mem_userId = ''u9'', mem_organizationId = ''org-o'', mem_role = MembershipRole.OWNER\<rparr>],
      db_catalogue := (db_catalogue sample_layout)
        \<lparr>cat_organizations := [sample_organizer],
         cat_access := [\<lparr>acc_id = ''g1'', acc_organizerOrganizationId = ''org-o'', acc_operatorOrganizationId = ''op'',
           acc_venueId = ''v1'', acc_status = VenueAccessGrantStatus.ACTIVE, acc_grantedByUserId = None,
           acc_revokedByUserId = None, acc_revokedAt = None\<rparr>],
         cat_tiers := [\<lparr>tier_id = ''pt1'', tier_sessionId = ''p1'', tier_name = ''Full'', tier_code = ''FULL'', tier_priceMinor = 2500,
           tier_currency = Currency.USD, tier_displayOrder = 0, tier_description = None\<rparr>],
         cat_pricing := [\<lparr>spr_sessionId = ''p1'', spr_sectionId = ''a1'', spr_priceTierId = ''pt1''\<rparr>]\<rparr>\<rparr>"

definition planned_scope :: SessionScope where
  "planned_scope = \<lparr>osc_userId = ''u9'', osc_organizationSlug = ''org'', osc_eventSlug = ''show'', osc_sessionId = ''p1''\<rparr>"

definition planned_draw :: inventory_draw where
  "planned_draw = \<lparr>idr_inventoryId = (\<lambda>i. ''inv-'' @ i), idr_uuid = ''uuid''\<rparr>"

definition publication :: "database \<times> (service_error + EventSession)" where
  "publication = publishEventSession (\<lambda>_. False) planned_draw planned_scope 50 planned_db planned_db"

lemma publication_run: "\<not> isl (snd publication)"
  unfolding publication_def by code_simp

theorem publication_sells_every_seat_witness:
  "map inv_seatId (inventory_of (fst publication) ''p1'') = map seat_id (active_seats (session_graph planned_db (planned_session ''p1'' 1000)))
   \<and> map inv_priceMinor (inventory_of (fst publication) ''p1'') = [2500]"
proof
  obtain db' s' where run: "publication = (db', Inr s')" using returned_value [OF publication_run] by blast
  have keys: "distinct (map ses_id (db_sessions planned_db))"
    "\<forall>t\<in>set (session_tiers planned_db (osc_sessionId planned_scope)). tier_id t \<noteq> []" by code_simp+
  have s: "find_session planned_db (osc_sessionId planned_scope) = Some (planned_session ''p1'' 1000)"
    "ses_status (planned_session ''p1'' 1000) = EventSessionStatus.DRAFT" by code_simp+
  have none: "inventory_of planned_db (osc_sessionId planned_scope) = []" by code_simp
  have id: "osc_sessionId planned_scope = ''p1''" by (simp add: planned_scope_def)
  show "map inv_seatId (inventory_of (fst publication) ''p1'') = map seat_id (active_seats (session_graph planned_db (planned_session ''p1'' 1000)))"
    using publication_sells_every_seat [OF run [unfolded publication_def] keys s none] unfolding id by (simp add: run)
  show "map inv_priceMinor (inventory_of (fst publication) ''p1'') = [2500]" unfolding publication_def by code_simp
qed

section \<open>Two sessions of one hall\<close>

lemma planned_ok: "programme_ok planned_db" "stock_ok planned_db"
  by code_simp+

lemma publication_step: "programme_step\<^sup>*\<^sup>* planned_db (fst publication)"
  unfolding publication_def
  by (rule r_into_rtranclp, rule programme_step.organized, rule organizer_step.session_published) (rule planned_ok)

lemma publication_sessions:
  "db_sessions (fst publication)
     = [(planned_session ''p1'' 1000)\<lparr>ses_status := EventSessionStatus.ON_SALE, ses_publishedAt := Some 50\<rparr>, planned_session ''p2'' 1100]"
  unfolding publication_def by code_simp

theorem space_never_double_booked_witness: "ses_endAt (planned_session ''p2'' 1100) \<le> 1000 \<or> 1100 \<le> ses_startAt (planned_session ''p2'' 1100)"
proof -
  let ?a = "planned_session ''p2'' 1100"
  let ?b = "(planned_session ''p1'' 1000)\<lparr>ses_status := EventSessionStatus.ON_SALE, ses_publishedAt := Some 50\<rparr>"
  have "?a \<in> set (db_sessions (fst publication))" "?b \<in> set (db_sessions (fst publication))" by (simp_all add: publication_sessions)
  moreover have "?a \<noteq> ?b" "ses_spaceId ?a = ses_spaceId ?b" "ses_status ?a \<noteq> EventSessionStatus.CANCELLED"
    "ses_status ?b \<noteq> EventSessionStatus.CANCELLED" "ses_startAt ?b = 1000" "ses_endAt ?b = 1100"
    by (simp_all add: planned_session_def)
  ultimately show ?thesis using space_never_double_booked [OF planned_ok(1) publication_step, of ?a ?b] by simp
qed

theorem published_session_fixed_witness:
  "\<exists>s'\<in>set (db_sessions (fst publication)). ses_id s' = ''p1'' \<and> ses_startAt s' = 1000"
proof -
  let ?b = "(planned_session ''p1'' 1000)\<lparr>ses_status := EventSessionStatus.ON_SALE, ses_publishedAt := Some 50\<rparr>"
  have "?b \<in> set (db_sessions (fst publication))" "ses_publishedAt ?b \<noteq> None" by (simp_all add: publication_sessions)
  from published_session_fixed [OF planned_ok(1) publication_step rtranclp.rtrancl_refl this]
  show ?thesis by (auto simp: session_snapshot_def planned_session_def)
qed

section \<open>A cancelled show\<close>

definition show_db :: database where
  "show_db = held_db
     \<lparr>db_memberships := [\<lparr>mem_userId = ''u9'', mem_organizationId = ''org-o'', mem_role = MembershipRole.OWNER\<rparr>],
      db_catalogue := (db_catalogue sample_layout)
        \<lparr>cat_organizations := [sample_organizer], cat_spaces := [sample_space\<lparr>spc_id := ''sp1''\<rparr>],
         cat_seatMaps := [new_map ''m1'' ''sp1'' None ''Plan'' 1]\<rparr>\<rparr>"

definition show_scope :: EventScope where
  "show_scope = \<lparr>osc_userId = ''u9'', osc_organizationSlug = ''org'', osc_eventSlug = ''show''\<rparr>"

definition cancellation :: "database \<times> (service_error + Event)" where
  "cancellation = cancelEvent (\<lambda>_. False) show_scope 5000 show_db show_db"

lemma show_runs: "\<not> isl (snd cancellation)" "\<not> isl (authorized_event show_db show_scope)"
  unfolding cancellation_def by code_simp+

theorem cancelled_event_frees_seats_witness:
  "map inv_state (db_inventory show_db) = [SeatInventoryState.HELD, SeatInventoryState.HELD]
   \<and> SeatInventoryState.HELD \<notin> inv_state ` set (inventory_of (fst cancellation) ''s1'')"
proof
  show "map inv_state (db_inventory show_db) = [SeatInventoryState.HELD, SeatInventoryState.HELD]" by code_simp
  obtain db' e' where run: "cancellation = (db', Inr e')" using returned_value [OF show_runs(1)] by blast
  obtain m org e where auth: "authorized_event show_db show_scope = Inr (m, org, e)"
    using show_runs(2) by (cases "authorized_event show_db show_scope") auto
  have event: "authorized_event show_db show_scope = Inr (hd (db_memberships show_db), sample_organizer, sample_event)" by code_simp
  with auth have e: "e = sample_event" by simp
  have status: "ev_status e \<noteq> EventStatus.CANCELLED" unfolding e by code_simp
  have keys: "distinct (map ev_id (db_events show_db))" by code_simp
  have ok: "holds_ok show_db" using held_db_ok by (simp add: show_db_def holds_ok_def outbox_keys_def)
  note freed = cancelled_event_frees_seats [OF ok run [unfolded cancellation_def] auth status keys]
  have "map ses_id (db_sessions (fst cancellation)) = [''s1'']" "map ses_eventId (db_sessions (fst cancellation)) = [''e1'']"
    "map ses_status (db_sessions (fst cancellation)) = [EventSessionStatus.CANCELLED]" "map ses_status (db_sessions show_db) = [EventSessionStatus.ON_SALE]"
    unfolding cancellation_def by code_simp+
  then obtain s r where s: "db_sessions db' = [s]" "ses_id s = ''s1''" "ses_eventId s = ''e1''" "ses_status s = EventSessionStatus.CANCELLED"
    and r: "db_sessions show_db = [r]" "ses_status r = EventSessionStatus.ON_SALE"
    by (auto simp: run map_eq_Cons_conv)
  then have "s \<notin> set (db_sessions show_db)" by auto
  have "ev_id e = ''e1''" by (simp add: e sample_event_def)
  with freed s \<open>s \<notin> set (db_sessions show_db)\<close> show "SeatInventoryState.HELD \<notin> inv_state ` set (inventory_of (fst cancellation) ''s1'')"
    by (auto simp: run)
qed

end
