(* ===== verification/Spec2Isabelle.thy ===== *)
theory Spec2Isabelle
  imports Money Ledger System Hold_Liveness Refund_Witnesses Seat_Map_Theorems Programme_Witnesses
begin

text \<open>
  A verification of SeatFlow, a ticketing platform: organizers schedule sessions of events in
  venues and price their seats, customers hold seats, check out and pay, tickets are issued and
  scanned at the door, and refunds and disputes give money back. All paths are relative to
  the repository.

  \<^bold>\<open>How the program is modelled.\<close> The services are TypeScript over PostgreSQL through Prisma. The
  whole persistent state is the record \<open>database\<close> (theory Domain); a table is a list of rows in
  insertion order, a row a record with the columns of prisma/schema.prisma, an enumeration a
  datatype with the schema's constructors. A service is a function on the database that returns
  the new database with a result or an error; an error is a value of \<open>service_error\<close>, one
  constructor per exception class or kind of database error. A statement that PostgreSQL checks (unique index, CHECK,
  trigger, exclusion constraint) is a function that may return the error which aborts its
  transaction; a transaction commits whole or not at all (theory Transactions). Reads that a
  service makes before its transaction are a separate argument (\<open>seen\<close>), so that other requests
  may write in between. Random identifiers, the clock (\<open>now\<close>), which attempts conflict, hash
  functions, the provider's answers and the time zone database are arguments. Instants are
  milliseconds as \<open>int\<close>; amounts are JavaScript integers as \<open>int\<close> with the 32-bit bounds of their
  columns tested where the code tests them; texts are ASCII.

  \<^bold>\<open>Theories and sources.\<close>
  \<^item> SeatFlow_Prelude: JavaScript idioms on arrays, sets, maps and texts; the row store, with the
    laws of a table (locale \<open>row_store\<close>) and of a keyed one (\<open>unique_store\<close>). Domain: the schema.
    Transactions: src/server/database, the inventory outbox.
  \<^item> Pure rules, src/features: Money (events/money.ts, the two totals.ts), Date_Time (events/date-time.ts),
    Event_Rules and Event_Schemas (events, holds/inventory.ts), Hold_Rules (holds), Payment_Rules
    (checkout, payments), Refund_Rules (refunds), Dispute_Rules (disputes), Ledger (ledger, with
    src/server/payments/ledger-service.ts), Ticket_Rules (tickets), Delivery_Rules (notifications,
    jobs), Row_Labels and Seat_Map_Rules (seat-maps). Review_Machine is the contract of the two
    provider state machines.
  \<^item> Database rules, prisma/migrations: Constraints, Refund_Constraints, Ticket_Store,
    Catalogue_Store, Event_Store.
  \<^item> Services, src/server: Hold_Service (holds), Checkout_Service and Webhook_Service (payments),
    Refund_Service, Refund_Submission, Refund_Settlement, Refund_Reconciliation (refunds), Dispute_Service (disputes),
    Ticket_Service and Ticket_Management (tickets), Authorization and Catalogue_Access
    (authorization), Seat_Map_Service (seat-maps), Inventory_Service (holds/inventory-service.ts),
    Session_Service, Event_Service, Pricing_Service (events).
  \<^item> Invariants: Hold_Invariant, Order_Invariant, Refund_Invariant, Ticket_Invariant,
    Seat_Map_Frames, Programme_Invariant. Properties: Hold_Properties, Hold_Release, Hold_Sweep,
    Hold_Liveness, Checkout_Properties, Webhook_Properties, Webhook_Delivery, Refund_Properties,
    Ticket_Properties, Seat_Map_Properties, Seat_Map_Theorems, Publication, Event_Cancellation.
    Concrete histories that instantiate them: the theories named \<open>*_Witnesses\<close>.
  \<^item> The whole: System_Steps, Shop_Programme, System.

  \<^bold>\<open>What is proved.\<close> System: a step is any call of any operation with any arguments; in every
  reachable state no seat is in two bookings, orders ask for the sum of their items, no payment is
  over-refunded, no ticket admits twice; the system refines a box office that sells only seats
  nobody owns; sold seats stay sold. Holds: all or nothing, exactly the seats asked for at their
  prices, never a live hold robbed, replay, owner-only release, the sweep ends, and a free seat can
  be held. Payments: a booking only for a verified payment of the exact total, redelivery changes
  nothing, late payments. Refunds and disputes: bounds, settlement only by verified events, one
  submission, order-free delivery. Tickets: complete issuance, admission rules, one admission, one
  credential, one download. Seat maps: published layouts are frozen and valid. Programme: publication
  sells every active seat at its section's price, a space is never double booked, a published
  session is fixed, a cancelled event frees its held seats. Texts: prices, row labels and local
  times are read back as they were printed. Where the code cannot do what it means to (refund
  cancellations, dispute closures, late payments, deletions of non-empty sections) the theorem
  says that it always aborts.

  \<^bold>\<open>Interfaces.\<close> The services meet at the database, so the contracts between them are frames: a
  locale fixes a relation between the databases before and after a step, assumes that the
  primitive statements of a component respect it, and derives that every operation built from them
  does (\<open>frame\<close>, \<open>payment_frame\<close>, \<open>sale_frame\<close>, \<open>ledger_frame\<close>, \<open>dispute_frame\<close>, \<open>submission_frame\<close>,
  \<open>refund_frame\<close>, \<open>issuance_frame\<close>, \<open>grant_frame\<close>, \<open>ticket_frame\<close>, \<open>programme_frame\<close>). Each invariant is carried
  through all services by interpreting these locales on the implication from the invariant before
  to the invariant after. \<open>review_machine\<close> is interpreted on the refund and on the dispute lifecycle.

  \<^bold>\<open>Bounds.\<close> Retries run at most the source's number of attempts (5, or the given maximum). The
  expiry sweep takes fuel for its loop over batches; \<open>sweep_terminates\<close> shows that one more than the
  number of overdue holds is enough for every batch size. The other loops run over lists or over the
  source's own numbers of batches.

  \<^bold>\<open>Limits.\<close> Isolation of transactions is their atomicity. Publication and backfill are steps of a
  history when the sessions they find as drafts have no inventory yet (\<open>stock_ok\<close>). Venues, spaces, access
  grants, users and memberships are written by services that are not modelled: in the histories
  they, and the seat maps, may change in any way (\<open>administered\<close>); in the programme's own histories every other
  service is one that leaves events and sessions alone (\<open>elsewhere\<close>). Not modelled: the pages,
  routes and React components, the adapters of Stripe, Redis, BullMQ, QStash, mail and PDF
  packages, the dispatchers that publish the outboxes, rate limiting, health probes, metrics and
  configuration; they read the state that is modelled or start the operations that are, and write none of it
  but delivery bookkeeping.
\<close>

section \<open>Order of delivery\<close>





end
